(* ===== verification/Prelude.thy ===== *)
theory Prelude
  imports Main "HOL-Library.AList" "HOL-Library.Sublist" "HOL-Library.List_Lexorder" "HOL-Library.Char_ord"
begin

text \<open>
  The prelude of the development: the parts of the Go language and of its standard library that
  the operator's code uses, and the lemmas about them that the component theories share.

  A Go string is a sequence of bytes, and so is a HOL \<open>string\<close> (a list of 8-bit characters). The
  functions of the Go packages \<open>strings\<close> and \<open>slices\<close> keep their Go names; an index that Go reports
  as -1 is \<open>None\<close>. A Go \<open>map[string]string\<close> is an association list: the order of the list stands
  for the iteration order, which Go leaves open. A run-time panic is a value of the sum type
  \<open>go_panic + 'a\<close>.

  The locale \<open>named_store\<close> is the contract of the operations that look items up by name in a slice
  (volumes, volume mounts, containers, environment variables) and replace or append them.
\<close>

section \<open>Collections of facts\<close>

named_theorems trim_simps \<open>evaluation and algebra of TrimSpace\<close>
named_theorems frame_intros \<open>steps that keep what they do not own\<close>

section \<open>Panics\<close>

datatype go_panic = SliceBoundsOutOfRange | ExplicitPanic | NilPointerDereference | FailedTypeAssertion

type_synonym 'a outcome = "go_panic + 'a"

lemma pred_option_code [code]: "pred_option P None = True" "pred_option P (Some x) = P x"
  by simp_all

section \<open>Strings\<close>

definition HasPrefix :: "string \<Rightarrow> string \<Rightarrow> bool" where
  "HasPrefix s p = prefix p s"

definition Contains :: "string \<Rightarrow> string \<Rightarrow> bool" where
  "Contains s substr = sublist substr s"

definition CutPrefix :: "string \<Rightarrow> string \<Rightarrow> string option" where
  "CutPrefix s p = (if prefix p s then Some (drop (length p) s) else None)"

text \<open>
  The UTF-8 encodings of the code points for which \<open>unicode.IsSpace\<close> holds. \<open>TrimSpace\<close> removes
  such runes from both ends; decoding from the right end finds the same encodings reversed.
\<close>

definition space_runes :: "string list" where
  "space_runes =
     [[CHR 0x09], [CHR 0x0A], [CHR 0x0B], [CHR 0x0C], [CHR 0x0D], [CHR 0x20],
      [CHR 0xC2, CHR 0x85], [CHR 0xC2, CHR 0xA0],
      [CHR 0xE1, CHR 0x9A, CHR 0x80],
      [CHR 0xE2, CHR 0x80, CHR 0x80], [CHR 0xE2, CHR 0x80, CHR 0x81],
      [CHR 0xE2, CHR 0x80, CHR 0x82], [CHR 0xE2, CHR 0x80, CHR 0x83],
      [CHR 0xE2, CHR 0x80, CHR 0x84], [CHR 0xE2, CHR 0x80, CHR 0x85],
      [CHR 0xE2, CHR 0x80, CHR 0x86], [CHR 0xE2, CHR 0x80, CHR 0x87],
      [CHR 0xE2, CHR 0x80, CHR 0x88], [CHR 0xE2, CHR 0x80, CHR 0x89],
      [CHR 0xE2, CHR 0x80, CHR 0x8A], [CHR 0xE2, CHR 0x80, CHR 0xA8],
      [CHR 0xE2, CHR 0x80, CHR 0xA9], [CHR 0xE2, CHR 0x80, CHR 0xAF],
      [CHR 0xE2, CHR 0x81, CHR 0x9F], [CHR 0xE3, CHR 0x80, CHR 0x80]]"

function strip_runes :: "string list \<Rightarrow> string \<Rightarrow> string" where
  "strip_runes rs s =
     (case find (\<lambda>r. r \<noteq> [] \<and> prefix r s) rs of
        None \<Rightarrow> s
      | Some r \<Rightarrow> strip_runes rs (drop (length r) s))"
  by pat_completeness auto
termination
proof (relation "measure (\<lambda>(rs, s). length s)", goal_cases)
  case 1
  show ?case by simp
next
  case (2 rs s r)
  then have "r \<noteq> []" and "prefix r s"
    by (auto simp: find_Some_iff)
  then have "0 < length r" and "length r \<le> length s"
    by (auto dest: prefix_length_le)
  then have "length s - length r < length s" by linarith
  then show ?case by simp
qed

declare strip_runes.simps [simp del]

definition TrimSpace :: "string \<Rightarrow> string" where
  "TrimSpace s =
     rev (strip_runes (map rev space_runes) (rev (strip_runes space_runes s)))"

definition TrimRight :: "string \<Rightarrow> string \<Rightarrow> string" where
  "TrimRight s cutset = rev (dropWhile (\<lambda>c. c \<in> set cutset) (rev s))"

text \<open>\<open>strings.Split\<close> for a separator of one byte, the only kind the code uses.\<close>

fun Split :: "string \<Rightarrow> char \<Rightarrow> string list" where
  "Split [] sep = [[]]"
| "Split (c # cs) sep =
     (if c = sep then [] # Split cs sep
      else (case Split cs sep of [] \<Rightarrow> [[c]] | p # ps \<Rightarrow> (c # p) # ps))"

fun Join :: "string list \<Rightarrow> string \<Rightarrow> string" where
  "Join [] sep = []"
| "Join [x] sep = x"
| "Join (x # y # zs) sep = x @ sep @ Join (y # zs) sep"

text \<open>The verb \<open>%q\<close> for strings of printable characters without quotes and backslashes.\<close>

definition quoted :: "string \<Rightarrow> string" where
  "quoted s = [CHR 0x22] @ s @ [CHR 0x22]"

text \<open>\<open>strings.ReplaceAll\<close> for a non-empty old string: left to right, without overlaps.\<close>

function ReplaceAll :: "string \<Rightarrow> string \<Rightarrow> string \<Rightarrow> string" where
  "ReplaceAll s old new =
     (if old = [] \<or> s = [] then s
      else if prefix old s then new @ ReplaceAll (drop (length old) s) old new
      else hd s # ReplaceAll (tl s) old new)"
  by pat_completeness auto
termination
  by (relation "measure (\<lambda>(s, old, new). length s)") (auto simp: neq_Nil_conv)

declare ReplaceAll.simps [simp del]

text \<open>\<open>strings.LastIndex\<close> for a single byte: the part behind its last occurrence, if there is one.\<close>

definition AfterLast :: "string \<Rightarrow> char \<Rightarrow> string option" where
  "AfterLast s c = (if c \<in> set s then Some (rev (takeWhile (\<lambda>x. x \<noteq> c) (rev s))) else None)"

text \<open>
  The number of bytes of the first rune of a non-empty string, as Go decodes UTF-8: one for an
  ASCII byte and for every byte that does not start a valid encoding.
\<close>

definition in_range :: "nat \<Rightarrow> nat \<Rightarrow> char \<Rightarrow> bool" where
  "in_range lo hi c \<longleftrightarrow> lo \<le> of_char c \<and> of_char c \<le> (hi :: nat)"

fun rune_len :: "string \<Rightarrow> nat" where
  "rune_len (a # b # c # d # _) =
     (if in_range 0xC2 0xDF a \<and> in_range 0x80 0xBF b then 2
      else if (in_range 0xE0 0xE0 a \<and> in_range 0xA0 0xBF b \<or>
               (in_range 0xE1 0xEC a \<or> in_range 0xEE 0xEF a) \<and> in_range 0x80 0xBF b \<or>
               in_range 0xED 0xED a \<and> in_range 0x80 0x9F b) \<and> in_range 0x80 0xBF c then 3
      else if (in_range 0xF0 0xF0 a \<and> in_range 0x90 0xBF b \<or>
               in_range 0xF1 0xF3 a \<and> in_range 0x80 0xBF b \<or>
               in_range 0xF4 0xF4 a \<and> in_range 0x80 0x8F b) \<and>
              in_range 0x80 0xBF c \<and> in_range 0x80 0xBF d then 4
      else 1)"
| "rune_len [a, b, c] =
     (if in_range 0xC2 0xDF a \<and> in_range 0x80 0xBF b then 2
      else if (in_range 0xE0 0xE0 a \<and> in_range 0xA0 0xBF b \<or>
               (in_range 0xE1 0xEC a \<or> in_range 0xEE 0xEF a) \<and> in_range 0x80 0xBF b \<or>
               in_range 0xED 0xED a \<and> in_range 0x80 0x9F b) \<and> in_range 0x80 0xBF c then 3
      else 1)"
| "rune_len [a, b] = (if in_range 0xC2 0xDF a \<and> in_range 0x80 0xBF b then 2 else 1)"
| "rune_len _ = 1"

lemma rune_len_pos: "0 < rune_len s"
  by (cases s rule: rune_len.cases) auto

text \<open>\<open>regexp.ReplaceAllString\<close> for the complement of a class of ASCII bytes, one rune at a time.\<close>

function replaceRunesOutside :: "(char \<Rightarrow> bool) \<Rightarrow> char \<Rightarrow> string \<Rightarrow> string" where
  "replaceRunesOutside P r [] = []"
| "replaceRunesOutside P r (c # cs) =
     (if P c then c # replaceRunesOutside P r cs
      else r # replaceRunesOutside P r (drop (rune_len (c # cs)) (c # cs)))"
  by pat_completeness auto
termination
proof (relation "measure (\<lambda>(P, r, s). length s)", goal_cases)
  case (3 P r c cs)
  show ?case using rune_len_pos[of "c # cs"] by simp
qed simp_all

lemma length_replaceRunesOutside: "length (replaceRunesOutside P r s) \<le> length s"
proof (induction P r s rule: replaceRunesOutside.induct)
  case (2 P r c cs)
  then show ?case using rune_len_pos[of "c # cs"] by (cases "P c") auto
qed simp

lemma replaceRunesOutside_valid:
  "P r \<Longrightarrow> x \<in> set (replaceRunesOutside P r s) \<Longrightarrow> P x"
  by (induction P r s rule: replaceRunesOutside.induct) (auto split: if_splits)

lemma replaceRunesOutside_id: "(\<And>c. c \<in> set s \<Longrightarrow> P c) \<Longrightarrow> replaceRunesOutside P r s = s"
  by (induction P r s rule: replaceRunesOutside.induct) auto

section \<open>Slices\<close>

text \<open>\<open>slices.IndexFunc\<close> (\<open>None\<close> for -1), \<open>slices.Delete\<close> and \<open>slices.DeleteFunc\<close>.\<close>

fun IndexFunc :: "('a \<Rightarrow> bool) \<Rightarrow> 'a list \<Rightarrow> nat option" where
  "IndexFunc P [] = None"
| "IndexFunc P (x # xs) = (if P x then Some 0 else map_option Suc (IndexFunc P xs))"

definition slices_Delete :: "nat \<Rightarrow> nat \<Rightarrow> 'a list \<Rightarrow> 'a list" where
  "slices_Delete i j xs = take i xs @ drop j xs"

definition DeleteFunc :: "('a \<Rightarrow> bool) \<Rightarrow> 'a list \<Rightarrow> 'a list" where
  "DeleteFunc P xs = filter (\<lambda>x. \<not> P x) xs"

lemma IndexFunc_None_iff: "IndexFunc P xs = None \<longleftrightarrow> (\<forall>x\<in>set xs. \<not> P x)"
  by (induction xs) auto

lemma IndexFunc_Some_split:
  "IndexFunc P xs = Some i \<Longrightarrow>
   \<exists>us y vs. xs = us @ y # vs \<and> length us = i \<and> P y \<and> (\<forall>u\<in>set us. \<not> P u)"
proof (induction xs arbitrary: i)
  case Nil
  then show ?case by simp
next
  case (Cons x xs)
  show ?case
  proof (cases "P x")
    case True
    with Cons.prems show ?thesis by (intro exI[of _ "[]"]) auto
  next
    case False
    with Cons.prems obtain j where "IndexFunc P xs = Some j" and i: "i = Suc j" by auto
    with Cons.IH obtain us y vs where
      "xs = us @ y # vs" "length us = j" "P y" "\<forall>u\<in>set us. \<not> P u" by blast
    with False i show ?thesis by (intro exI[of _ "x # us"]) auto
  qed
qed

lemma IndexFunc_append_hit:
  "P y \<Longrightarrow> (\<And>u. u \<in> set us \<Longrightarrow> \<not> P u) \<Longrightarrow> IndexFunc P (us @ y # vs) = Some (length us)"
  by (induction us) auto

lemma IndexFunc_Some_find:
  "IndexFunc P xs = Some i \<Longrightarrow> find P xs = Some (xs ! i) \<and> i < length xs"
  by (induction xs arbitrary: i) (auto split: if_splits)

lemma IndexFunc_find_None: "IndexFunc P xs = None \<longleftrightarrow> find P xs = None"
  by (induction xs) auto

section \<open>Maps\<close>

text \<open>\<open>maps.Copy(dst, src)\<close>: the entries of the source overwrite those of the destination.\<close>

definition maps_Copy :: "('k \<times> 'v) list \<Rightarrow> ('k \<times> 'v) list \<Rightarrow> ('k \<times> 'v) list" where
  "maps_Copy dst src = fold (\<lambda>(k, v). AList.update k v) src dst"

lemma map_of_maps_Copy:
  "distinct (map fst src) \<Longrightarrow> map_of (maps_Copy dst src) = map_of dst ++ map_of src"
proof (induction src arbitrary: dst)
  case Nil
  then show ?case by (simp add: maps_Copy_def)
next
  case (Cons kv src)
  obtain k v where kv: "kv = (k, v)" by (cases kv)
  with Cons have "map_of (maps_Copy (AList.update k v dst) src) = map_of (AList.update k v dst) ++ map_of src"
    by auto
  moreover have "k \<notin> dom (map_of src)" using Cons.prems kv by (simp add: dom_map_of_conv_image_fst)
  ultimately show ?case
    by (auto simp: kv maps_Copy_def update_conv' map_add_def fun_eq_iff split: option.split)
qed

text \<open>A map without the keys in \<open>K\<close>; deleting a key is the special case of one key.\<close>

definition without :: "'k set \<Rightarrow> ('k \<times> 'v) list \<Rightarrow> ('k \<times> 'v) list" where
  "without K al = filter (\<lambda>kv. fst kv \<notin> K) al"

lemma delete_without: "AList.delete k al = without {k} al"
  by (induction al) (auto simp: without_def)

lemma without_without: "without K (without L al) = without (K \<union> L) al"
  by (auto simp: without_def intro: filter_cong)

lemma without_update: "k \<in> K \<Longrightarrow> without K (AList.update k v al) = without K al"
  by (induction al) (auto simp: without_def)

lemma without_absent: "fst ` set al \<inter> K = {} \<Longrightarrow> without K al = al"
  by (auto simp: without_def filter_id_conv)

lemma without_update_other:
  "k \<notin> K \<Longrightarrow> without K (AList.update k v al) = AList.update k v (without K al)"
  by (induction al) (auto simp: without_def)

lemma update_same: "map_of al k = Some v \<Longrightarrow> AList.update k v al = al"
  by (induction al) (auto split: if_splits)

lemma update_commute_present:
  "k \<noteq> l \<Longrightarrow> k \<in> fst ` set al \<Longrightarrow>
   AList.update k v (AList.update l w al) = AList.update l w (AList.update k v al)"
  by (induction al) auto

lemma map_of_without: "map_of (without K al) k = (if k \<in> K then None else map_of al k)"
  by (induction al) (auto simp: without_def)

section \<open>Lemmas on strings\<close>

lemma strip_runes_stable:
  "r \<in> set rs \<Longrightarrow> r \<noteq> [] \<Longrightarrow> \<not> prefix r (strip_runes rs s)"
proof (induction rs s rule: strip_runes.induct)
  case (1 rs s)
  then show ?case
    by (subst strip_runes.simps) (auto simp: find_None_iff split: option.split)
qed

lemma strip_runes_fixpoint:
  "(\<And>r. r \<in> set rs \<Longrightarrow> r \<noteq> [] \<Longrightarrow> \<not> prefix r s) \<Longrightarrow> strip_runes rs s = s"
  by (subst strip_runes.simps) (auto simp: find_Some_iff split: option.split)

lemma strip_runes_idem [simp]: "strip_runes rs (strip_runes rs s) = strip_runes rs s"
  by (rule strip_runes_fixpoint) (rule strip_runes_stable)

lemma strip_runes_suffix: "suffix (strip_runes rs s) s"
proof (induction rs s rule: strip_runes.induct)
  case (1 rs s)
  then show ?case
    by (subst strip_runes.simps)
      (auto split: option.split intro: suffix_order.trans suffix_drop)
qed

lemma TrimSpace_idem [trim_simps, simp]: "TrimSpace (TrimSpace s) = TrimSpace s"
proof -
  let ?t = "strip_runes space_runes s"
  let ?u = "rev (strip_runes (map rev space_runes) (rev ?t))"
  have "prefix ?u ?t"
    using strip_runes_suffix[of "map rev space_runes" "rev ?t"] by (simp add: suffix_to_prefix)
  then have "strip_runes space_runes ?u = ?u"
    by (meson strip_runes_fixpoint strip_runes_stable prefix_order.trans)
  then show ?thesis by (simp add: TrimSpace_def)
qed

lemma TrimSpace_sublist: "sublist (TrimSpace s) s"
proof -
  let ?t = "strip_runes space_runes s"
  have "prefix (TrimSpace s) ?t"
    using strip_runes_suffix[of "map rev space_runes" "rev ?t"]
    by (simp add: TrimSpace_def suffix_to_prefix)
  moreover have "suffix ?t s" by (rule strip_runes_suffix)
  ultimately show ?thesis
    by (meson prefix_imp_sublist suffix_imp_sublist sublist_order.order_trans)
qed

lemma TrimSpace_Nil [trim_simps, simp]: "TrimSpace [] = []"
  by (simp add: TrimSpace_def strip_runes_fixpoint)

text \<open>A string without a space byte and without a multi-byte lead byte has nothing to trim.\<close>

definition plain_char :: "char \<Rightarrow> bool" where
  "plain_char c \<longleftrightarrow> (\<forall>r\<in>set space_runes. c \<notin> set r)"

lemma plain_ends_TrimSpace:
  assumes "s \<noteq> []" and "plain_char (hd s)" and "plain_char (last s)"
  shows "TrimSpace s = s"
proof -
  have left: "strip_runes space_runes s = s"
  proof (rule strip_runes_fixpoint)
    fix r assume "r \<in> set space_runes" "r \<noteq> []"
    with assms show "\<not> prefix r s"
      by (cases s; cases r) (auto simp: plain_char_def)
  qed
  have right: "strip_runes (map rev space_runes) (rev s) = rev s"
  proof (rule strip_runes_fixpoint)
    fix r assume r: "r \<in> set (map rev space_runes)" "r \<noteq> []"
    then obtain q where q: "q \<in> set space_runes" "r = rev q" "q \<noteq> []" by auto
    obtain t x where s: "s = t @ [x]" using assms(1) by (cases s rule: rev_cases) auto
    obtain u y where q': "q = u @ [y]" using q(3) by (cases q rule: rev_cases) auto
    with q(1) assms(3) s have "y \<noteq> x" by (auto simp: plain_char_def)
    with s q(2) q' show "\<not> prefix r (rev s)" by simp
  qed
  show ?thesis by (simp add: TrimSpace_def left right)
qed

text \<open>Trimming stops at a plain character: what lies behind it stays.\<close>

lemma strip_runes_stop:
  assumes "\<forall>r\<in>set rs. c \<notin> set r"
  shows "\<exists>w. strip_runes rs (us @ c # vs) = w @ c # vs \<and> suffix w us"
  using assms
proof (induction "length us" arbitrary: us rule: less_induct)
  case less
  show ?case
  proof (cases "find (\<lambda>r. r \<noteq> [] \<and> prefix r (us @ c # vs)) rs")
    case None
    then show ?thesis by (subst strip_runes.simps) auto
  next
    case (Some r)
    then have r: "r \<in> set rs" "r \<noteq> []" "prefix r (us @ c # vs)" by (auto simp: find_Some_iff)
    have "prefix r us"
    proof (rule ccontr)
      assume "\<not> prefix r us"
      with r(3) obtain t where "r = us @ t" "prefix t (c # vs)" "t \<noteq> []"
        by (auto simp: prefix_append)
      then have "c \<in> set r" by (cases t) auto
      with r(1) less.prems show False by blast
    qed
    then obtain us' where us: "us = r @ us'" by (auto simp: prefix_def)
    with r(2) less.hyps[of us'] less.prems obtain w where
      "strip_runes rs (us' @ c # vs) = w @ c # vs" "suffix w us'" by auto
    with Some us show ?thesis
      by (subst strip_runes.simps) (auto intro: suffix_appendI)
  qed
qed

definition is_blank :: "char \<Rightarrow> bool" where
  "is_blank c \<longleftrightarrow> [c] \<in> set space_runes"

lemma TrimSpace_core:
  assumes "list_all is_blank pad" and "name \<noteq> []" and "plain_char (hd name)" and "plain_char (last name)"
  obtains tail' where "TrimSpace (pad @ name @ tail) = name @ tail'" and "prefix tail' tail"
    and "tail' = [] \<or> \<not> is_blank (last tail')"
proof -
  obtain c ns where name: "name = c # ns" using assms(2) by (cases name) auto
  obtain ms d where name': "name = ms @ [d]" using assms(2) by (cases name rule: rev_cases) auto
  obtain w where w: "strip_runes space_runes (pad @ name @ tail) = w @ name @ tail" "suffix w pad"
    using strip_runes_stop[of space_runes c pad "ns @ tail"] assms(3) name by (auto simp: plain_char_def)
  have "w = []"
  proof (rule ccontr)
    assume "w \<noteq> []"
    then obtain b bs where "w = b # bs" by (cases w) auto
    moreover from this w(2) assms(1) have "is_blank b" by (auto simp: list_all_iff suffix_def)
    ultimately show False
      using strip_runes_stable[of "[b]" space_runes "pad @ name @ tail"] w(1) by (simp add: is_blank_def)
  qed
  with w(1) have left: "strip_runes space_runes (pad @ name @ tail) = name @ tail" by simp
  obtain v where v: "strip_runes (map rev space_runes) (rev tail @ d # rev ms) = v @ d # rev ms" "suffix v (rev tail)"
    using strip_runes_stop[of "map rev space_runes" d "rev tail" "rev ms"] assms(4) name'
    by (auto simp: plain_char_def)
  have "TrimSpace (pad @ name @ tail) = name @ rev v"
    unfolding TrimSpace_def left using v(1) name' by simp
  moreover have "prefix (rev v) tail" using v(2) by (simp add: suffix_to_prefix)
  moreover have "rev v = [] \<or> \<not> is_blank (last (rev v))"
  proof (cases v)
    case (Cons b bs)
    have "\<not> is_blank b"
    proof
      assume "is_blank b"
      then have "[b] \<in> set (map rev space_runes)" by (force simp: is_blank_def)
      with strip_runes_stable[of "[b]" "map rev space_runes" "rev tail @ d # rev ms"] v(1) Cons
      show False by simp
    qed
    with Cons show ?thesis by simp
  qed simp
  ultimately show thesis by (rule that)
qed

lemma TrimSpace_keeps_plain:
  assumes "plain_char c" and "c \<in> set s"
  shows "c \<in> set (TrimSpace s)"
proof -
  obtain us vs where s: "s = us @ c # vs" using assms(2) by (meson split_list)
  obtain w where w: "strip_runes space_runes s = w @ c # vs"
    using strip_runes_stop[of space_runes c us vs] assms(1) s by (auto simp: plain_char_def)
  obtain v where "strip_runes (map rev space_runes) (rev vs @ c # rev w) = v @ c # rev w"
    using strip_runes_stop[of "map rev space_runes" c "rev vs" "rev w"] assms(1) by (auto simp: plain_char_def)
  with w show ?thesis by (simp add: TrimSpace_def)
qed

lemma Split_ne_Nil [simp]: "Split s sep \<noteq> []"
  by (cases s) (auto split: list.splits)

lemma Join_Split: "Join (Split s sep) [sep] = s"
proof (induction s)
  case Nil
  show ?case by simp
next
  case (Cons c cs)
  obtain p ps where ps: "Split cs sep = p # ps" by (cases "Split cs sep") auto
  with Cons.IH show ?case by (cases ps) auto
qed

lemma Split_no_sep: "p \<in> set (Split s sep) \<Longrightarrow> sep \<notin> set p"
proof (induction s arbitrary: p)
  case Nil
  then show ?case by simp
next
  case (Cons c cs)
  obtain q qs where qs: "Split cs sep = q # qs" by (cases "Split cs sep") auto
  with Cons show ?case by (fastforce split: if_splits)
qed

lemma Split_single: "sep \<notin> set s \<Longrightarrow> Split s sep = [s]"
  by (induction s) auto

lemma Split_append: "sep \<notin> set p \<Longrightarrow> Split (p @ sep # s) sep = p # Split s sep"
  by (induction p) auto

lemma Split_Join:
  "ps \<noteq> [] \<Longrightarrow> (\<And>p. p \<in> set ps \<Longrightarrow> sep \<notin> set p) \<Longrightarrow> Split (Join ps [sep]) sep = ps"
proof (induction ps "[sep]" rule: Join.induct)
  case (2 x)
  then show ?case by (simp add: Split_single)
next
  case (3 x y zs)
  then show ?case by (simp add: Split_append)
qed simp

lemma Contains_refl [simp]: "Contains s s"
  by (simp add: Contains_def)

lemma Contains_appendI1 [intro]: "Contains a s \<Longrightarrow> Contains (a @ b) s"
  unfolding Contains_def sublist_def by (metis append_assoc)

lemma Contains_appendI2 [intro]: "Contains b s \<Longrightarrow> Contains (a @ b) s"
  unfolding Contains_def sublist_def by (metis append_assoc)

lemma Contains_TrimSpace: "\<not> Contains s t \<Longrightarrow> TrimSpace s \<noteq> t"
  using TrimSpace_sublist by (auto simp: Contains_def)

lemma Contains_split:
  assumes "Contains (a @ c # b) s" and "c \<notin> set s"
  shows "Contains a s \<or> Contains b s"
proof -
  from assms(1) obtain ps ss where "a @ c # b = ps @ s @ ss"
    by (auto simp: Contains_def sublist_def)
  then consider us where "a = ps @ s @ us" | us where "b = us @ s @ ss"
    using assms(2)
    by (auto simp: append_eq_append_conv2 append_eq_Cons_conv Cons_eq_append_conv)
  then show ?thesis by cases (auto simp: Contains_def sublist_def)
qed

lemma Contains_Join: "x \<in> set xs \<Longrightarrow> Contains (Join xs sep) x"
  by (induction xs sep rule: Join.induct) auto

section \<open>The contract of stores of named items\<close>

text \<open>
  \<open>put\<close> replaces the first item that carries the name of the given item, or appends the item;
  \<open>del\<close> removes every item of that name. \<open>norm\<close> is what an item looks like after it replaced
  another one. The client lemmas below are what the components rely on.
\<close>

locale named_store =
  fixes key :: "'a \<Rightarrow> string"
    and norm :: "'a \<Rightarrow> 'a"
    and put :: "'a \<Rightarrow> 'a list \<Rightarrow> 'a list"
    and del :: "string \<Rightarrow> 'a list \<Rightarrow> 'a list"
    and get :: "string \<Rightarrow> 'a list \<Rightarrow> 'a option"
  assumes put_absent: "key x \<notin> key ` set xs \<Longrightarrow> put x xs = xs @ [x]"
    and put_present:
      "key x \<notin> key ` set us \<Longrightarrow> key y = key x \<Longrightarrow> put x (us @ y # vs) = us @ norm x # vs"
    and key_norm: "key (norm x) = key x"
    and del_filter: "del n xs = filter (\<lambda>y. key y \<noteq> n) xs"
    and get_find: "get n xs = find (\<lambda>y. key y = n) xs"
begin

lemma first_occurrence:
  assumes "n \<in> key ` set xs"
  obtains us y vs where "xs = us @ y # vs" and "key y = n" and "n \<notin> key ` set us"
proof -
  from assms have "n \<in> set (map key xs)" by simp
  then obtain as bs where "map key xs = as @ n # bs" "n \<notin> set as"
    by (meson split_list_first)
  then obtain us y vs where "xs = us @ y # vs" "map key us = as" "key y = n"
    by (auto simp: map_eq_append_conv map_eq_Cons_conv)
  with \<open>n \<notin> set as\<close> show thesis by (intro that) auto
qed

lemma put_cases:
  obtains (absent) "key x \<notin> key ` set xs" "put x xs = xs @ [x]"
  | (present) us y vs where "xs = us @ y # vs" "key y = key x" "key x \<notin> key ` set us"
      "put x xs = us @ norm x # vs"
proof (cases "key x \<in> key ` set xs")
  case True
  then obtain us y vs where "xs = us @ y # vs" "key y = key x" "key x \<notin> key ` set us"
    by (rule first_occurrence)
  then show ?thesis using present[of us y vs] put_present[of x us y vs] by simp
next
  case False
  then show ?thesis using absent put_absent[of x xs] by simp
qed

lemma keys_put: "key ` set (put x xs) = insert (key x) (key ` set xs)"
proof (cases rule: put_cases[of x xs])
  case absent
  then show ?thesis by simp
next
  case (present us y vs)
  then show ?thesis by (simp add: key_norm)
qed

lemma map_key_put:
  "map key (put x xs) = (if key x \<in> key ` set xs then map key xs else map key xs @ [key x])"
proof (cases rule: put_cases[of x xs])
  case absent
  then show ?thesis by simp
next
  case (present us y vs)
  then show ?thesis by (simp add: key_norm)
qed

lemma get_None_iff: "get n xs = None \<longleftrightarrow> n \<notin> key ` set xs"
  by (auto simp: get_find find_None_iff)

lemma get_append: "get n (us @ vs) = (case get n us of None \<Rightarrow> get n vs | Some y \<Rightarrow> Some y)"
  unfolding get_find by (induction us) auto

lemma get_Cons: "get n (x # xs) = (if key x = n then Some x else get n xs)"
  by (simp add: get_find)

lemma get_Nil: "get n [] = None"
  by (simp add: get_find)

lemma get_hit: "n \<notin> key ` set us \<Longrightarrow> key y = n \<Longrightarrow> get n (us @ y # vs) = Some y"
  using get_None_iff[of n us] by (auto simp: get_append get_Cons)

lemma get_key: "get n xs = Some y \<Longrightarrow> key y = n"
  by (auto simp: get_find find_Some_iff)

lemma get_mem: "get n xs = Some y \<Longrightarrow> y \<in> set xs"
  by (auto simp: get_find find_Some_iff)

lemma get_put:
  "get n (put x xs) =
     (if n = key x then Some (if key x \<in> key ` set xs then norm x else x) else get n xs)"
proof (cases rule: put_cases[of x xs])
  case absent
  then have "get (key x) xs = None" by (simp add: get_None_iff)
  with absent show ?thesis by (auto simp: get_append get_Cons get_Nil split: option.split)
next
  case (present us y vs)
  have "key x \<in> key ` set xs" using present(1,2) by force
  with present show ?thesis
    using get_hit[of n us "norm x" vs] by (auto simp: get_append get_Cons key_norm split: option.split)
qed

lemma get_del: "get n (del m xs) = (if n = m then None else get n xs)"
  unfolding get_find del_filter by (induction xs) (auto simp: find_None_iff)

lemma keys_del: "key ` set (del n xs) = key ` set xs - {n}"
  by (auto simp: del_filter)

lemma del_absent: "n \<notin> key ` set xs \<Longrightarrow> del n xs = xs"
  by (auto simp: del_filter filter_id_conv)

lemma put_fixpoint:
  assumes "get (key x) xs = Some (norm x)"
  shows "put x xs = xs"
proof (cases rule: put_cases[of x xs])
  case absent
  with assms get_None_iff[of "key x" xs] show ?thesis by simp
next
  case (present us y vs)
  with assms get_hit[of "key x" us y vs] show ?thesis by simp
qed

lemma put_absorb:
  assumes "key x = key z" and "key x \<in> key ` set xs"
  shows "put z (put x xs) = put z xs"
proof -
  from assms obtain us y vs where "xs = us @ y # vs" "key y = key x" "key x \<notin> key ` set us"
    by (meson first_occurrence)
  with assms(1) show ?thesis
    using put_present[of x us y vs] put_present[of z us y vs] put_present[of z us "norm x" vs]
    by (simp add: key_norm)
qed

lemma put_commute:
  assumes "key x \<in> key ` set xs" and "key x \<noteq> key z"
  shows "put z (put x xs) = put x (put z xs)"
proof -
  from assms(1) obtain us y vs where xs: "xs = us @ y # vs" "key y = key x" "key x \<notin> key ` set us"
    by (rule first_occurrence)
  then have px: "put x xs = us @ norm x # vs" by (simp add: put_present)
  show ?thesis
  proof (cases "key z \<in> key ` set us")
    case True
    then obtain as w bs where us: "us = as @ w # bs" "key w = key z" "key z \<notin> key ` set as"
      by (rule first_occurrence)
    have "put z xs = as @ norm z # bs @ y # vs"
      using put_present[of z as w "bs @ y # vs"] us xs(1) by simp
    moreover have "put z (put x xs) = as @ norm z # bs @ norm x # vs"
      using put_present[of z as w "bs @ norm x # vs"] us px by simp
    moreover have "put x (as @ norm z # bs @ y # vs) = as @ norm z # bs @ norm x # vs"
      using put_present[of x "as @ norm z # bs" y vs] xs(2,3) us(1) assms(2) by (simp add: key_norm)
    ultimately show ?thesis by simp
  next
    case us: False
    show ?thesis
    proof (cases "key z \<in> key ` set vs")
      case True
      then obtain as w bs where vs: "vs = as @ w # bs" "key w = key z" "key z \<notin> key ` set as"
        by (rule first_occurrence)
      have "put z xs = us @ y # as @ norm z # bs"
        using put_present[of z "us @ y # as" w bs] us xs(1,2) vs assms(2) by auto
      moreover have "put z (put x xs) = us @ norm x # as @ norm z # bs"
        using put_present[of z "us @ norm x # as" w bs] us px vs assms(2) by (auto simp: key_norm)
      ultimately show ?thesis
        using put_present[of x us y "as @ norm z # bs"] xs(2,3) by simp
    next
      case False
      with us xs(1,2) assms(2) have "key z \<notin> key ` set xs" by auto
      then have "put z xs = us @ y # vs @ [z]" by (simp add: put_absent xs(1))
      moreover have "put z (put x xs) = us @ norm x # vs @ [z]"
        using us False px assms(2) put_absent[of z "us @ norm x # vs"] by (auto simp: key_norm)
      ultimately show ?thesis
        using put_present[of x us y "vs @ [z]"] xs(2,3) by simp
    qed
  qed
qed

text \<open>
  Writing a list of items one after the other. The last item of a name wins, so writing the same
  list again changes nothing.
\<close>

lemma keys_fold_put: "key ` set (fold put zs xs) = key ` set xs \<union> key ` set zs"
  by (induction zs arbitrary: xs) (auto simp: keys_put)

lemma fold_put_overwritten:
  "key x \<in> key ` set zs \<Longrightarrow> key x \<in> key ` set xs \<Longrightarrow> fold put zs (put x xs) = fold put zs xs"
proof (induction zs arbitrary: xs)
  case Nil
  then show ?case by simp
next
  case (Cons z zs)
  show ?case
  proof (cases "key x = key z")
    case True
    with Cons.prems show ?thesis by (simp add: put_absorb)
  next
    case False
    with Cons.prems have "fold put zs (put x (put z xs)) = fold put zs (put z xs)"
      by (intro Cons.IH) (auto simp: keys_put)
    with False Cons.prems show ?thesis by (simp add: put_commute)
  qed
qed

lemma get_fold_put_other: "n \<notin> key ` set zs \<Longrightarrow> get n (fold put zs xs) = get n xs"
  by (induction zs arbitrary: xs) (auto simp: get_put)

lemma fold_put_settled:
  assumes "\<And>z. z \<in> set zs \<Longrightarrow> norm z = z"
    and "\<And>us z vs. zs = us @ z # vs \<Longrightarrow> key z \<notin> key ` set vs \<Longrightarrow> get (key z) xs = Some z"
  shows "fold put zs xs = xs"
  using assms
proof (induction zs)
  case Nil
  then show ?case by simp
next
  case (Cons z zs)
  have IH: "fold put zs xs = xs"
  proof (rule Cons.IH)
    show "norm y = y" if "y \<in> set zs" for y using that Cons.prems(1) by simp
    show "get (key y) xs = Some y" if "zs = us @ y # vs" "key y \<notin> key ` set vs" for us y vs
      using that Cons.prems(2)[of "z # us" y vs] by simp
  qed
  show ?case
  proof (cases "key z \<in> key ` set zs")
    case True
    from IH have "key ` set zs \<subseteq> key ` set xs" using keys_fold_put[of zs xs] by auto
    with True have "key z \<in> key ` set xs" by blast
    with True IH show ?thesis by (simp add: fold_put_overwritten)
  next
    case False
    with Cons.prems(2)[of "[]" z zs] have "get (key z) xs = Some z" by simp
    with Cons.prems(1)[of z] have "put z xs = xs" by (simp add: put_fixpoint)
    with IH show ?thesis by simp
  qed
qed

lemma get_fold_put_last:
  assumes "zs = us @ z # vs" and "key z \<notin> key ` set vs" and "norm z = z"
  shows "get (key z) (fold put zs xs) = Some z"
  using assms by (simp add: get_fold_put_other get_put)

text \<open>A store without the items whose names are in \<open>M\<close>: what operations on names in \<open>M\<close> keep.\<close>

lemma filter_put:
  assumes "key x \<in> M"
  shows "filter (\<lambda>y. key y \<notin> M) (put x xs) = filter (\<lambda>y. key y \<notin> M) xs"
proof (cases rule: put_cases[of x xs])
  case absent
  with assms show ?thesis by simp
next
  case (present us y vs)
  with assms show ?thesis by (simp add: key_norm)
qed

lemma filter_fold_put:
  "key ` set zs \<subseteq> M \<Longrightarrow>
   filter (\<lambda>y. key y \<notin> M) (fold put zs xs) = filter (\<lambda>y. key y \<notin> M) xs"
  by (induction zs arbitrary: xs) (auto simp: filter_put)

lemma filter_del:
  "n \<in> M \<Longrightarrow> filter (\<lambda>y. key y \<notin> M) (del n xs) = filter (\<lambda>y. key y \<notin> M) xs"
  by (auto simp: del_filter intro!: filter_cong)

lemma del_put:
  assumes "n = key x"
  shows "del n (put x xs) = del n xs"
  using filter_put[of x "{n}" xs] assms by (simp add: del_filter)

text \<open>Operations keep what is in front of the items they touch, and they keep names distinct.\<close>

lemma put_Cons: "key x \<noteq> key y \<Longrightarrow> put y (x # xs) = x # put y xs"
proof (cases rule: put_cases[of y xs])
  case absent
  moreover assume "key x \<noteq> key y"
  ultimately show ?thesis using put_absent[of y "x # xs"] by auto
next
  case (present us z vs)
  moreover assume "key x \<noteq> key y"
  ultimately show ?thesis using put_present[of y "x # us" z vs] by auto
qed

lemma fold_put_Cons: "key x \<notin> key ` set ys \<Longrightarrow> fold put ys (x # xs) = x # fold put ys xs"
  by (induction ys arbitrary: xs) (auto simp: put_Cons)

lemma del_Cons: "del n (x # xs) = (if key x = n then del n xs else x # del n xs)"
  by (simp add: del_filter)

lemma distinct_put: "distinct (map key xs) \<Longrightarrow> distinct (map key (put x xs))"
  by (auto simp: map_key_put)

lemma distinct_del: "distinct (map key xs) \<Longrightarrow> distinct (map key (del n xs))"
  by (simp add: del_filter distinct_map_filter)

lemma get_distinct: "distinct (map key xs) \<Longrightarrow> y \<in> set xs \<Longrightarrow> get (key y) xs = Some y"
  by (induction xs) (auto simp: get_Cons)

text \<open>Operations that only touch items outside \<open>P\<close> keep the items in \<open>P\<close>.\<close>

lemma filter_put_if:
  assumes "\<And>y. y \<in> set xs \<Longrightarrow> key y = key x \<Longrightarrow> \<not> P y" and "\<not> P x" and "\<not> P (norm x)"
  shows "filter P (put x xs) = filter P xs"
proof (cases rule: put_cases[of x xs])
  case absent
  with assms(2) show ?thesis by simp
next
  case (present us y vs)
  with assms show ?thesis by simp
qed

lemma filter_del_if:
  assumes "\<And>y. y \<in> set xs \<Longrightarrow> key y = n \<Longrightarrow> \<not> P y"
  shows "filter P (del n xs) = filter P xs"
  using assms by (auto simp: del_filter intro!: filter_cong)

end

text \<open>
  The idiom by which the code replaces an item of a slice, or appends it: \<open>slices.IndexFunc\<close>, then an
  assignment or an \<open>append\<close>. It provides a store of named items for every function that gives names.
\<close>

definition replaceOrAppend :: "('a \<Rightarrow> string) \<Rightarrow> 'a \<Rightarrow> 'a list \<Rightarrow> 'a list" where
  "replaceOrAppend key x xs =
     (case IndexFunc (\<lambda>y. key y = key x) xs of None \<Rightarrow> xs @ [x] | Some idx \<Rightarrow> xs[idx := x])"

definition deleteNamed :: "('a \<Rightarrow> string) \<Rightarrow> string \<Rightarrow> 'a list \<Rightarrow> 'a list" where
  "deleteNamed key n xs = DeleteFunc (\<lambda>y. key y = n) xs"

definition findNamed :: "('a \<Rightarrow> string) \<Rightarrow> string \<Rightarrow> 'a list \<Rightarrow> 'a option" where
  "findNamed key n xs = find (\<lambda>y. key y = n) xs"

lemma named_store_slice: "named_store key id (replaceOrAppend key) (deleteNamed key) (findNamed key)"
proof
  fix x y :: 'a and xs us vs :: "'a list"
  show "replaceOrAppend key x xs = xs @ [x]" if "key x \<notin> key ` set xs"
  proof -
    from that have "IndexFunc (\<lambda>y. key y = key x) xs = None"
      by (simp add: IndexFunc_None_iff) (metis image_eqI)
    then show ?thesis by (simp add: replaceOrAppend_def)
  qed
  show "replaceOrAppend key x (us @ y # vs) = us @ id x # vs" if "key x \<notin> key ` set us" "key y = key x"
  proof -
    from that have "IndexFunc (\<lambda>y. key y = key x) (us @ y # vs) = Some (length us)"
      by (intro IndexFunc_append_hit) (simp, metis image_eqI)
    then show ?thesis by (simp add: replaceOrAppend_def)
  qed
qed (simp_all add: deleteNamed_def DeleteFunc_def findNamed_def)

end
