(* ===== verification/KubernetesVersion.thy ===== *)
theory KubernetesVersion
  imports Prelude
begin

text \<open>
  Kubernetes versions and the choice of the instrumentation delivery mechanism
  (\<open>internal/util/cluster/kubernetes_version.go\<close> and \<open>instrumentation_delivery.go\<close>).

  Go's \<open>int\<close> is a 64 bit integer; \<open>strconv.Atoi\<close> reports an error for digits beyond its range, so
  the parsed numbers are modelled as \<open>int\<close> with that check written out. Listing the nodes is a call
  of the Kubernetes client: its result, the objects the pager hands out one by one and the error
  that may end the listing, is an argument of \<open>detectMinimumKubeletVersion\<close>. Logging is left out.
\<close>

datatype KubernetesVersion = KubernetesVersion (Major: int) (Minor: int)

definition IsAtLeast :: "KubernetesVersion \<Rightarrow> KubernetesVersion \<Rightarrow> bool" where
  "IsAtLeast v vmin =
     (if Major v \<noteq> Major vmin then Major v > Major vmin else Minor v \<ge> Minor vmin)"

text \<open>The versions are linearly ordered by \<open>IsAtLeast\<close>, read from right to left.\<close>

instantiation KubernetesVersion :: linorder
begin
definition less_eq_KubernetesVersion :: "KubernetesVersion \<Rightarrow> KubernetesVersion \<Rightarrow> bool" where
  "less_eq_KubernetesVersion v w = IsAtLeast w v"
definition less_KubernetesVersion :: "KubernetesVersion \<Rightarrow> KubernetesVersion \<Rightarrow> bool" where
  "less_KubernetesVersion v w = (\<not> IsAtLeast v w)"
instance
  by standard
    (auto simp: less_eq_KubernetesVersion_def less_KubernetesVersion_def IsAtLeast_def
      intro: KubernetesVersion.expand split: if_splits)
end

record KubernetesVersionInfo =
  kvi_Version :: KubernetesVersion
  kvi_OriginalVersionString :: string
  kvi_Detected :: bool

definition noVersionInfo :: KubernetesVersionInfo where
  "noVersionInfo = \<lparr>kvi_Version = KubernetesVersion 0 0, kvi_OriginalVersionString = [], kvi_Detected = False\<rparr>"

definition VersionInfo_IsAtLeast :: "KubernetesVersionInfo \<Rightarrow> KubernetesVersion \<Rightarrow> bool" where
  "VersionInfo_IsAtLeast i vmin = IsAtLeast (kvi_Version i) vmin"

definition imageVolumesAutoMinimumVersion :: KubernetesVersion where
  "imageVolumesAutoMinimumVersion = KubernetesVersion 1 36"

definition imageVolumesHardMinimumVersion :: KubernetesVersion where
  "imageVolumesHardMinimumVersion = KubernetesVersion 1 31"

text \<open>The decimal rendering of an integer by the format verb \<open>%d\<close>.\<close>

fun showNat :: "nat \<Rightarrow> string" where
  "showNat n =
     (if n < 10 then [char_of (48 + n)] else showNat (n div 10) @ [char_of (48 + n mod 10)])"

declare showNat.simps [simp del]

definition showInt :: "int \<Rightarrow> string" where
  "showInt i = (if i < 0 then ''-'' @ showNat (nat (- i)) else showNat (nat i))"

definition KubernetesVersion_String :: "KubernetesVersion \<Rightarrow> string" where
  "KubernetesVersion_String v = showInt (Major v) @ ''.'' @ showInt (Minor v)"

section \<open>Parsing\<close>

datatype version_error =
    NoLeadingDigits
  | AtoiOutOfRange
  | TooFewSegments
  | SegmentErrors "version_error option" "version_error option" \<comment> \<open>of the major and minor version\<close>

definition error_of :: "'e + 'a \<Rightarrow> 'e option" where
  "error_of r = (case r of Inl e \<Rightarrow> Some e | Inr _ \<Rightarrow> None)"

definition is_digit :: "char \<Rightarrow> bool" where
  "is_digit c \<longleftrightarrow> CHR ''0'' \<le> c \<and> c \<le> CHR ''9''"

definition digits_value :: "string \<Rightarrow> int" where
  "digits_value ds = foldl (\<lambda>n d. 10 * n + (int (of_char d) - 48)) 0 ds"

text \<open>\<open>strconv.Atoi\<close> on a non-empty string of ASCII digits.\<close>

definition Atoi_digits :: "string \<Rightarrow> version_error + int" where
  "Atoi_digits ds =
     (if digits_value ds < 2 ^ 63 then Inr (digits_value ds) else Inl AtoiOutOfRange)"

definition extractLeadingDigits :: "string \<Rightarrow> version_error + int" where
  "extractLeadingDigits s =
     (let match = takeWhile is_digit s
      in if match = [] then Inl NoLeadingDigits else Atoi_digits match)"

definition SplitN :: "string \<Rightarrow> char \<Rightarrow> nat \<Rightarrow> string list" where
  "SplitN s sep n =
     (let ps = Split s sep
      in if length ps \<le> n then ps else take (n - 1) ps @ [Join (drop (n - 1) ps) [sep]])"

definition TrimPrefix :: "string \<Rightarrow> string \<Rightarrow> string" where
  "TrimPrefix s p = (case CutPrefix s p of None \<Rightarrow> s | Some r \<Rightarrow> r)"

definition parseKubeletVersion :: "string \<Rightarrow> version_error + KubernetesVersionInfo" where
  "parseKubeletVersion kubeletVersion =
     (let segments = SplitN (TrimPrefix (TrimSpace kubeletVersion) ''v'') CHR ''.'' 3
      in if length segments < 2 then Inl TooFewSegments
         else (case (extractLeadingDigits (segments ! 0), extractLeadingDigits (segments ! 1)) of
                 (Inr major, Inr minor) \<Rightarrow>
                   Inr \<lparr>kvi_Version = KubernetesVersion major minor,
                        kvi_OriginalVersionString = kubeletVersion, kvi_Detected = True\<rparr>
               | (majorResult, minorResult) \<Rightarrow>
                   Inl (SegmentErrors (error_of majorResult) (error_of minorResult))))"

definition parseKubernetesApiServerVersion :: "string \<Rightarrow> string \<Rightarrow> KubernetesVersionInfo" where
  "parseKubernetesApiServerVersion majorString minorString =
     (let versionString = majorString @ ''.'' @ minorString
      in case (extractLeadingDigits majorString, extractLeadingDigits minorString) of
           (Inr major, Inr minor) \<Rightarrow>
             \<lparr>kvi_Version = KubernetesVersion major minor,
              kvi_OriginalVersionString = versionString, kvi_Detected = True\<rparr>
         | _ \<Rightarrow> noVersionInfo\<lparr>kvi_OriginalVersionString := versionString\<rparr>)"

section \<open>The minimum kubelet version\<close>

text \<open>What the pager hands to the callback: nodes (name and kubelet version) or other objects.\<close>

datatype listed_object = NodeObject string string | OtherObject

datatype detect_error =
    ExpectedANode
  | CannotParseKubeletVersion string version_error
  | ListingFailed string
  | NoNodes

text \<open>\<open>retry.NewRetryableError(err, false)\<close> marks an error as final; every other error is retried.\<close>

fun is_retryable :: "detect_error \<Rightarrow> bool" where
  "is_retryable ExpectedANode = False"
| "is_retryable (CannotParseKubeletVersion _ _) = False"
| "is_retryable (ListingFailed _) = True"
| "is_retryable NoNodes = True"

definition inspectNode ::
  "listed_object \<Rightarrow> KubernetesVersionInfo option \<Rightarrow> detect_error + KubernetesVersionInfo option" where
  "inspectNode object minimum =
     (case object of
        OtherObject \<Rightarrow> Inl ExpectedANode
      | NodeObject name version \<Rightarrow>
          (case parseKubeletVersion version of
             Inl e \<Rightarrow> Inl (CannotParseKubeletVersion name e)
           | Inr info \<Rightarrow>
               (case minimum of
                  None \<Rightarrow> Inr (Some info)
                | Some m \<Rightarrow>
                    if \<not> VersionInfo_IsAtLeast info (kvi_Version m) then Inr (Some info)
                    else Inr (Some m))))"

fun eachListItem ::
  "listed_object list \<Rightarrow> KubernetesVersionInfo option \<Rightarrow> detect_error + KubernetesVersionInfo option" where
  "eachListItem [] minimum = Inr minimum"
| "eachListItem (x # xs) minimum =
     (case inspectNode x minimum of Inl e \<Rightarrow> Inl e | Inr m \<Rightarrow> eachListItem xs m)"

definition detectMinimumKubeletVersion ::
  "listed_object list \<Rightarrow> string option \<Rightarrow> detect_error + KubernetesVersionInfo" where
  "detectMinimumKubeletVersion objects listError =
     (case eachListItem objects None of
        Inl e \<Rightarrow> Inl e
      | Inr minimum \<Rightarrow>
          (case listError of
             Some e \<Rightarrow> Inl (ListingFailed e)
           | None \<Rightarrow>
               (case minimum of None \<Rightarrow> Inl NoNodes | Some m \<Rightarrow> Inr m)))"

text \<open>
  The detector of the minimum kubelet version: the pointer to the result that the detection
  stores, nil until then. A nil detector is \<open>None\<close>.
\<close>

type_synonym MinimumKubeletVersionDetector = "KubernetesVersionInfo option"

definition MinimumKubeletVersionDetector_Get ::
  "MinimumKubeletVersionDetector option \<Rightarrow> KubernetesVersionInfo" where
  "MinimumKubeletVersionDetector_Get d =
     (case d of
        None \<Rightarrow> noVersionInfo
      | Some p \<Rightarrow> (case p of None \<Rightarrow> noVersionInfo | Some i \<Rightarrow> i))"

section \<open>Instrumentation delivery\<close>

datatype ResolvedInstrumentationDelivery =
    ResolvedInstrumentationDeliveryImageVolume
  | ResolvedInstrumentationDeliveryInitContainer

text \<open>The string value of the resolved delivery, written to the delivery annotation.\<close>

fun delivery_string :: "ResolvedInstrumentationDelivery \<Rightarrow> string" where
  "delivery_string ResolvedInstrumentationDeliveryImageVolume = ''image-volume''"
| "delivery_string ResolvedInstrumentationDeliveryInitContainer = ''init-container''"

definition ResolveInstrumentationDelivery ::
  "string \<Rightarrow> KubernetesVersionInfo \<Rightarrow> KubernetesVersionInfo \<Rightarrow> ResolvedInstrumentationDelivery" where
  "ResolveInstrumentationDelivery delivery apiServer kubelet =
     (if delivery = ''image-volume'' then
        (if kvi_Detected apiServer \<and> \<not> VersionInfo_IsAtLeast apiServer imageVolumesHardMinimumVersion
         then ResolvedInstrumentationDeliveryInitContainer
         else if kvi_Detected kubelet \<and> \<not> VersionInfo_IsAtLeast kubelet imageVolumesHardMinimumVersion
         then ResolvedInstrumentationDeliveryInitContainer
         else ResolvedInstrumentationDeliveryImageVolume)
      else if delivery = ''auto'' then
        (if \<not> kvi_Detected apiServer then ResolvedInstrumentationDeliveryInitContainer
         else if \<not> kvi_Detected kubelet then ResolvedInstrumentationDeliveryInitContainer
         else if VersionInfo_IsAtLeast apiServer imageVolumesAutoMinimumVersion \<and>
                 VersionInfo_IsAtLeast kubelet imageVolumesAutoMinimumVersion
         then ResolvedInstrumentationDeliveryImageVolume
         else ResolvedInstrumentationDeliveryInitContainer)
      else if delivery = ''init-container'' then ResolvedInstrumentationDeliveryInitContainer
      else ResolvedInstrumentationDeliveryInitContainer)"

section \<open>Lemmas: parsing what has been printed\<close>

lemma of_char_char_of_small: "n < 256 \<Longrightarrow> of_char (char_of n :: char) = n" for n :: nat
  by simp

lemma is_digit_char_of: "d < 10 \<Longrightarrow> is_digit (char_of (48 + d))" for d :: nat
  by (simp add: is_digit_def less_eq_char_def)

lemma digits_showNat: "list_all is_digit (showNat n)"
proof (induction n rule: showNat.induct)
  case (1 n)
  then show ?case by (subst showNat.simps) (simp add: is_digit_char_of)
qed

lemma showNat_ne_Nil [simp]: "showNat n \<noteq> []"
  by (subst showNat.simps) simp

lemma digits_value_showNat: "digits_value (showNat n) = int n"
proof (induction n rule: showNat.induct)
  case (1 n)
  show ?case
  proof (cases "n < 10")
    case True
    then show ?thesis by (subst showNat.simps) (simp add: digits_value_def)
  next
    case False
    with 1 have "digits_value (showNat (n div 10)) = int (n div 10)" by simp
    moreover have "10 * int (n div 10) + int (n mod 10) = int n"
      by (simp add: zdiv_int zmod_int)
    ultimately show ?thesis
      using False by (subst showNat.simps) (simp add: digits_value_def)
  qed
qed

lemma takeWhile_digits: "list_all is_digit ds \<Longrightarrow> rest = [] \<or> \<not> is_digit (hd rest) \<Longrightarrow>
  takeWhile is_digit (ds @ rest) = ds"
  by (cases rest) (auto simp: list_all_iff takeWhile_append2 takeWhile_tail)

lemma extractLeadingDigits_showInt:
  assumes "0 \<le> i" and "i < 2 ^ 63" and "rest = [] \<or> \<not> is_digit (hd rest)"
  shows "extractLeadingDigits (showInt i @ rest) = Inr i"
  using assms takeWhile_digits[OF digits_showNat, of rest]
  by (simp add: extractLeadingDigits_def showInt_def Atoi_digits_def digits_value_showNat)

lemma digit_not_dot: "is_digit c \<Longrightarrow> c \<noteq> CHR ''.''"
  by (auto simp: is_digit_def less_eq_char_def)

lemma plain_char_digit: "is_digit c \<Longrightarrow> plain_char c"
  by (auto simp: is_digit_def less_eq_char_def plain_char_def space_runes_def)

lemma showInt_digits: "0 \<le> i \<Longrightarrow> list_all is_digit (showInt i)"
  by (simp add: showInt_def digits_showNat)

lemma no_dot_showInt: "0 \<le> i \<Longrightarrow> CHR ''.'' \<notin> set (showInt i)"
  using showInt_digits[of i] digit_not_dot by (fastforce simp: list_all_iff)

lemma SplitN_first_two:
  assumes "length (Split s sep) \<ge> 2"
  shows "length (SplitN s sep 3) \<ge> 2 \<and> SplitN s sep 3 ! 0 = Split s sep ! 0 \<and>
         SplitN s sep 3 ! 1 = Split s sep ! 1"
  using assms by (auto simp: SplitN_def Let_def nth_append)

lemma parse_segments:
  assumes "TrimPrefix (TrimSpace s) ''v'' = a @ ''.'' @ b" and "CHR ''.'' \<notin> set a"
    and "extractLeadingDigits a = Inr major"
    and "extractLeadingDigits (hd (Split b CHR ''.'')) = Inr minor"
  shows "parseKubeletVersion s =
    Inr \<lparr>kvi_Version = KubernetesVersion major minor, kvi_OriginalVersionString = s, kvi_Detected = True\<rparr>"
proof -
  have split: "Split (a @ ''.'' @ b) CHR ''.'' = a # Split b CHR ''.''"
    using Split_append[OF assms(2)] by simp
  then have "length (Split (a @ ''.'' @ b) CHR ''.'') \<ge> 2"
    by (cases "Split b CHR ''.''") auto
  from SplitN_first_two[OF this] split assms(3,4) show ?thesis
    unfolding parseKubeletVersion_def assms(1) by (simp add: Let_def hd_conv_nth)
qed

section \<open>Lemmas: the minimum of all nodes\<close>

lemma IsAtLeast_le: "IsAtLeast v w \<longleftrightarrow> w \<le> v"
  by (simp add: less_eq_KubernetesVersion_def)

fun node_version :: "listed_object \<Rightarrow> KubernetesVersionInfo option" where
  "node_version (NodeObject _ v) =
     (case parseKubeletVersion v of Inl _ \<Rightarrow> None | Inr i \<Rightarrow> Some i)"
| "node_version OtherObject = None"

lemma inspectNode_Inr_iff:
  "inspectNode x m = Inr m' \<longleftrightarrow>
     (\<exists>i. node_version x = Some i \<and>
          m' = Some (case m of None \<Rightarrow> i
                     | Some j \<Rightarrow> if kvi_Version i < kvi_Version j then i else j))"
  by (cases x) (auto simp: inspectNode_def VersionInfo_IsAtLeast_def IsAtLeast_le
      split: sum.split option.split)

text \<open>The loop keeps the leftmost node info of least version.\<close>

lemma eachListItem_Some:
  "eachListItem xs (Some j) = Inr m \<longleftrightarrow>
     (\<exists>is. map node_version xs = map Some is \<and> m = Some (arg_min_list kvi_Version (j # is)))"
proof (induction xs arbitrary: j)
  case Nil
  then show ?case by auto
next
  case (Cons x xs)
  show ?case
  proof (cases "node_version x")
    case None
    then have "\<nexists>m'. inspectNode x (Some j) = Inr m'" by (simp add: inspectNode_Inr_iff)
    with None show ?thesis by (auto split: sum.split)
  next
    case (Some i)
    let ?k = "if kvi_Version i < kvi_Version j then i else j"
    have "inspectNode x (Some j) = Inr (Some ?k)" by (simp add: inspectNode_Inr_iff Some)
    moreover have "arg_min_list kvi_Version (?k # is) = arg_min_list kvi_Version (j # i # is)" for "is"
      by (cases "is") (auto simp: Let_def not_less)
    ultimately show ?thesis
      by (simp only: eachListItem.simps sum.case Cons.IH)
        (auto simp: Some map_eq_Cons_conv Cons_eq_map_conv)
  qed
qed

lemma detectMinimumKubeletVersion_Inr_iff:
  "detectMinimumKubeletVersion objects listError = Inr m \<longleftrightarrow>
     listError = None \<and> objects \<noteq> [] \<and>
     (\<exists>is. map node_version objects = map Some is \<and> m = arg_min_list kvi_Version is)"
proof (cases objects)
  case Nil
  then show ?thesis by (simp add: detectMinimumKubeletVersion_def split: option.split)
next
  case (Cons x xs)
  show ?thesis
  proof (cases "node_version x")
    case None
    then have "\<nexists>m'. inspectNode x None = Inr m'" by (simp add: inspectNode_Inr_iff)
    with None Cons show ?thesis
      by (auto simp: detectMinimumKubeletVersion_def split: sum.split)
  next
    case (Some i)
    then have "inspectNode x None = Inr (Some i)" by (simp add: inspectNode_Inr_iff)
    then have "eachListItem objects None = eachListItem xs (Some i)" by (simp add: Cons)
    moreover have "detectMinimumKubeletVersion objects listError = Inr m \<longleftrightarrow>
        listError = None \<and> eachListItem objects None = Inr (Some m)"
      by (auto simp: detectMinimumKubeletVersion_def split: sum.split option.split)
    ultimately show ?thesis
      using Some by (auto simp: Cons eachListItem_Some map_eq_Cons_conv Cons_eq_map_conv)
  qed
qed

lemma arg_min_list_least: "xs \<noteq> [] \<Longrightarrow> x \<in> set xs \<Longrightarrow> f (arg_min_list f xs) \<le> f x"
  for f :: "'a \<Rightarrow> 'b::linorder"
  using f_arg_min_list_f[of xs f] by simp

lemma parse_detected: "parseKubeletVersion s = Inr i \<Longrightarrow> kvi_Detected i"
  by (auto simp: parseKubeletVersion_def Let_def split: if_splits sum.splits)

lemma node_version_detected: "node_version x = Some i \<Longrightarrow> kvi_Detected i"
  by (cases x) (auto dest: parse_detected split: sum.splits)

section \<open>Properties\<close>

text \<open>
  Parsing a kubelet version recovers the version that was printed: for every major and minor
  number within the range of Go's int, \<open>parseKubeletVersion\<close> on \<open>v<major>.<minor>\<close>, followed by
  nothing or by a patch version and any vendor suffix, yields exactly that version.
\<close>

theorem parseKubeletVersion_roundtrip:
  assumes "0 \<le> Major v" "Major v < 2 ^ 63" "0 \<le> Minor v" "Minor v < 2 ^ 63"
    and "rest = [] \<or> hd rest = CHR ''.'' \<and> plain_char (last rest)"
  shows "parseKubeletVersion (''v'' @ KubernetesVersion_String v @ rest) =
    Inr \<lparr>kvi_Version = v, kvi_OriginalVersionString = ''v'' @ KubernetesVersion_String v @ rest,
         kvi_Detected = True\<rparr>"
proof -
  let ?M = "showInt (Major v)" and ?m = "showInt (Minor v)"
  let ?s = "''v'' @ KubernetesVersion_String v @ rest"
  have ne: "?m \<noteq> []" by (simp add: showInt_def)
  have "is_digit (last ?m)"
    using showInt_digits[OF assms(3)] last_in_set[OF ne] by (simp add: list_all_iff)
  then have "plain_char (last ?s)"
    using assms(5) ne plain_char_digit
    by (cases "rest = []") (auto simp: KubernetesVersion_String_def last_append)
  moreover have "plain_char (hd ?s)" by (simp add: plain_char_def space_runes_def)
  ultimately have trim: "TrimSpace ?s = ?s" by (intro plain_ends_TrimSpace) auto
  have "hd (Split (?m @ rest) CHR ''.'') = ?m"
  proof (cases rest)
    case Nil
    then show ?thesis using no_dot_showInt[OF assms(3)] by (simp add: Split_single)
  next
    case (Cons c r)
    with assms(5) show ?thesis using Split_append[OF no_dot_showInt[OF assms(3)]] by simp
  qed
  then have "parseKubeletVersion ?s =
      Inr \<lparr>kvi_Version = KubernetesVersion (Major v) (Minor v),
           kvi_OriginalVersionString = ?s, kvi_Detected = True\<rparr>"
    using trim extractLeadingDigits_showInt[OF assms(1,2), of "[]"]
      extractLeadingDigits_showInt[OF assms(3,4), of "[]"] no_dot_showInt[OF assms(1)]
    by (intro parse_segments[of _ ?M "?m @ rest"])
      (auto simp: KubernetesVersion_String_def TrimPrefix_def CutPrefix_def)
  then show ?thesis by simp
qed

theorem parseKubeletVersion_roundtrip_witness:
  "parseKubeletVersion (''v'' @ KubernetesVersion_String (KubernetesVersion 1 36) @ ''.2-gke.1000'') =
    Inr \<lparr>kvi_Version = KubernetesVersion 1 36,
         kvi_OriginalVersionString = ''v'' @ KubernetesVersion_String (KubernetesVersion 1 36) @ ''.2-gke.1000'',
         kvi_Detected = True\<rparr>"
  by (rule parseKubeletVersion_roundtrip) (simp_all add: plain_char_def space_runes_def)

text \<open>
  C39: The detection of the minimum kubelet version succeeds exactly when the listing completed, the
  cluster has a node and the kubelet version of every listed object could be parsed; the result is
  then the version info of the first node of least version. Knowing only some of the nodes is never
  enough.
\<close>

theorem detectMinimumKubeletVersion_spec:
  "detectMinimumKubeletVersion objects listError = Inr m \<longleftrightarrow>
     listError = None \<and> objects \<noteq> [] \<and> None \<notin> set (map node_version objects) \<and>
     m = arg_min_list kvi_Version (map (the \<circ> node_version) objects)"
proof -
  have "(\<exists>is. map node_version objects = map Some is \<and> m = arg_min_list kvi_Version is) \<longleftrightarrow>
      None \<notin> set (map node_version objects) \<and>
      m = arg_min_list kvi_Version (map (the \<circ> node_version) objects)" (is "?L \<longleftrightarrow> ?R")
  proof
    assume ?L
    then obtain "is" where "is": "map node_version objects = map Some is"
      and m: "m = arg_min_list kvi_Version is" by blast
    have "map (the \<circ> node_version) objects = map the (map node_version objects)" by simp
    also have "\<dots> = is" by (simp only: "is") (simp add: comp_def)
    finally show ?R using m "is" by auto
  next
    assume R: ?R
    then have "Some (the (node_version x)) = node_version x" if "x \<in> set objects" for x
      using that by (cases "node_version x") (auto simp: image_iff)
    then have "map node_version objects = map Some (map (the \<circ> node_version) objects)"
      by (simp add: comp_def)
    with R show ?L by blast
  qed
  then show ?thesis by (simp add: detectMinimumKubeletVersion_Inr_iff)
qed



end
