(* ===== verification/Sha256.thy ===== *)
theory Sha256
  imports Prelude "HOL-Library.Word"
begin

unbundle bit_operations_syntax

text \<open>
  \<open>crypto/sha256\<close> and \<open>encoding/hex\<close> of the Go standard library, as the label code uses them:
  \<open>Sum256\<close> on a byte string (FIPS 180-4) and its hexadecimal rendering.
\<close>

type_synonym u32 = "32 word"

text \<open>
  The round constants and the initial state: the first 32 bits of the fractional parts of the cube roots
  and of the square roots of the first primes, in decimal.
\<close>

definition sha256_K :: "u32 list" where
  "sha256_K =
     [1116352408, 1899447441, 3049323471, 3921009573, 961987163, 1508970993,
      2453635748, 2870763221, 3624381080, 310598401, 607225278, 1426881987,
      1925078388, 2162078206, 2614888103, 3248222580, 3835390401, 4022224774,
      264347078, 604807628, 770255983, 1249150122, 1555081692, 1996064986,
      2554220882, 2821834349, 2952996808, 3210313671, 3336571891, 3584528711,
      113926993, 338241895, 666307205, 773529912, 1294757372, 1396182291,
      1695183700, 1986661051, 2177026350, 2456956037, 2730485921, 2820302411,
      3259730800, 3345764771, 3516065817, 3600352804, 4094571909, 275423344,
      430227734, 506948616, 659060556, 883997877, 958139571, 1322822218,
      1537002063, 1747873779, 1955562222, 2024104815, 2227730452, 2361852424,
      2428436474, 2756734187, 3204031479, 3329325298]"

definition sha256_H0 :: "u32 list" where
  "sha256_H0 =
     [1779033703, 3144134277, 1013904242, 2773480762, 1359893119, 2600822924,
      528734635, 1541459225]"

definition rotr :: "nat \<Rightarrow> u32 \<Rightarrow> u32" where
  "rotr n x = drop_bit n x OR push_bit (32 - n) x"

definition Ch :: "u32 \<Rightarrow> u32 \<Rightarrow> u32 \<Rightarrow> u32" where
  "Ch x y z = (x AND y) XOR (NOT x AND z)"

definition Maj :: "u32 \<Rightarrow> u32 \<Rightarrow> u32 \<Rightarrow> u32" where
  "Maj x y z = (x AND y) XOR (x AND z) XOR (y AND z)"

definition Sigma0 :: "u32 \<Rightarrow> u32" where
  "Sigma0 x = rotr 2 x XOR rotr 13 x XOR rotr 22 x"

definition Sigma1 :: "u32 \<Rightarrow> u32" where
  "Sigma1 x = rotr 6 x XOR rotr 11 x XOR rotr 25 x"

definition sigma0 :: "u32 \<Rightarrow> u32" where
  "sigma0 x = rotr 7 x XOR rotr 18 x XOR drop_bit 3 x"

definition sigma1 :: "u32 \<Rightarrow> u32" where
  "sigma1 x = rotr 17 x XOR rotr 19 x XOR drop_bit 10 x"

text \<open>Big-endian bytes of a number, and the padded message.\<close>

fun be_bytes :: "nat \<Rightarrow> nat \<Rightarrow> nat list" where
  "be_bytes 0 n = []"
| "be_bytes (Suc k) n = be_bytes k (n div 256) @ [n mod 256]"

definition sha256_pad :: "nat list \<Rightarrow> nat list" where
  "sha256_pad m =
     m @ [128] @ replicate ((119 - length m mod 64) mod 64) 0 @ be_bytes 8 (8 * length m)"

fun be_words :: "nat list \<Rightarrow> u32 list" where
  "be_words (a # b # c # d # rest) =
     word_of_nat (a * 16777216 + b * 65536 + c * 256 + d) # be_words rest"
| "be_words _ = []"

text \<open>The message schedule, built from its most recent word backwards.\<close>

fun schedule :: "nat \<Rightarrow> u32 list \<Rightarrow> u32 list" where
  "schedule 0 w = rev w"
| "schedule (Suc k) w =
     schedule k ((sigma1 (w ! 1) + w ! 6 + sigma0 (w ! 14) + w ! 15) # w)"

fun round256 :: "u32 list \<Rightarrow> u32 \<times> u32 \<Rightarrow> u32 list" where
  "round256 [a, b, c, d, e, f, g, h] (k, w) =
     (let t1 = h + Sigma1 e + Ch e f g + k + w; t2 = Sigma0 a + Maj a b c
      in [t1 + t2, a, b, c, d + t1, e, f, g])"
| "round256 st _ = st"

definition compress :: "u32 list \<Rightarrow> u32 list \<Rightarrow> u32 list" where
  "compress st block =
     map2 (+) st (foldl round256 st (zip sha256_K (schedule 48 (rev block))))"

fun blocks :: "nat \<Rightarrow> u32 list \<Rightarrow> u32 list list" where
  "blocks 0 ws = []"
| "blocks (Suc n) ws = take 16 ws # blocks n (drop 16 ws)"

definition Sum256 :: "string \<Rightarrow> nat list" where
  "Sum256 s =
     (let ws = be_words (sha256_pad (map of_char s))
      in concat (map (\<lambda>w. be_bytes 4 (unat w))
           (foldl compress sha256_H0 (blocks (length ws div 16) ws))))"

definition hex_digit :: "nat \<Rightarrow> char" where
  "hex_digit n = ''0123456789abcdef'' ! (n mod 16)"

definition EncodeToString :: "nat list \<Rightarrow> string" where
  "EncodeToString bs = concat (map (\<lambda>b. [hex_digit (b div 16), hex_digit b]) bs)"

section \<open>Shape of the digest\<close>

lemma length_be_bytes [simp]: "length (be_bytes k n) = k"
  by (induction k n rule: be_bytes.induct) auto

lemma length_round256: "length (round256 st kw) = length st"
  by (induction st kw rule: round256.induct) (auto simp: Let_def)

lemma length_foldl_round256: "length (foldl round256 st kws) = length st"
  by (induction kws arbitrary: st) (auto simp: length_round256)

lemma length_compress: "length (compress st block) = length st"
  by (simp add: compress_def length_foldl_round256)

lemma length_foldl_compress: "length (foldl compress st bs) = length st"
  by (induction bs arbitrary: st) (auto simp: length_compress)

lemma length_concat_const: "(\<And>x. x \<in> set xs \<Longrightarrow> length (f x) = k) \<Longrightarrow> length (concat (map f xs)) = k * length xs"
  by (induction xs) auto

lemma length_Sum256 [simp]: "length (Sum256 s) = 32"
proof -
  have "length (Sum256 s) = 4 * length sha256_H0"
    unfolding Sum256_def Let_def
    by (subst length_concat_const) (auto simp: length_foldl_compress)
  then show ?thesis by (simp add: sha256_H0_def)
qed

lemma length_EncodeToString [simp]: "length (EncodeToString bs) = 2 * length bs"
  unfolding EncodeToString_def by (subst length_concat_const) auto

definition is_hex :: "char \<Rightarrow> bool" where
  "is_hex c \<longleftrightarrow> c \<in> set ''0123456789abcdef''"

lemma is_hex_digit: "is_hex (hex_digit n)"
  unfolding is_hex_def hex_digit_def by (rule nth_mem) simp

lemma EncodeToString_hex: "c \<in> set (EncodeToString bs) \<Longrightarrow> is_hex c"
  by (auto simp: EncodeToString_def is_hex_digit)

end
