(* ===== verification/K8sTypes.thy ===== *)
theory K8sTypes
  imports Prelude
begin

text \<open>
  The parts of the Kubernetes API types (\<open>k8s.io/api\<close>, \<open>k8s.io/apimachinery\<close>) that the operator's
  workload code reads and writes. A pointer field is an option; a nil slice and an empty slice are
  both the empty list: the code never turns one into the other without also adding an element, so
  the \<open>reflect.DeepEqual\<close> comparison of a pod spec before and after a modification cannot tell them
  apart. The fields of a container and of a pod spec that the code never touches are kept together
  in the opaque components \<open>c_Rest\<close> and \<open>ps_Rest\<close>. A resource quantity is represented by the two
  observations the code makes of it, \<open>Value()\<close> and \<open>String()\<close>.
\<close>

type_synonym stringmap = "(string \<times> string) list"

datatype EnvVarSource = FieldRef string | OtherEnvVarSource string

record EnvVar =
  ev_Name :: string
  ev_Value :: string
  ev_ValueFrom :: "EnvVarSource option"

record Quantity =
  q_Value :: int
  q_String :: string

datatype VolumeSource =
    ImageVolumeSource string string \<comment> \<open>reference and pull policy\<close>
  | EmptyDirVolumeSource "Quantity option" \<comment> \<open>size limit\<close>
  | OtherVolumeSource string

record Volume =
  vol_Name :: string
  vol_Source :: VolumeSource

record VolumeMount =
  vm_Name :: string
  vm_ReadOnly :: bool
  vm_MountPath :: string
  vm_SubPath :: string

record ResourceRequirements =
  rr_Limits :: "(string \<times> Quantity) list"
  rr_Requests :: "(string \<times> Quantity) list"

record SecurityContext =
  sc_AllowPrivilegeEscalation :: "bool option"
  sc_Privileged :: "bool option"
  sc_ReadOnlyRootFilesystem :: "bool option"
  sc_RunAsNonRoot :: "bool option"
  sc_RunAsUser :: "int option"
  sc_RunAsGroup :: "int option"
  sc_CapabilitiesDrop :: "string list"
  sc_SeccompProfile :: "string option"

record Container =
  c_Name :: string
  c_Image :: string
  c_ImagePullPolicy :: string
  c_Env :: "EnvVar list"
  c_VolumeMounts :: "VolumeMount list"
  c_Resources :: ResourceRequirements
  c_SecurityContext :: "SecurityContext option"
  c_Rest :: string

record PodSecurityContext =
  psc_FSGroup :: "int option"
  psc_RunAsNonRoot :: "bool option"

record NodeSelectorRequirement =
  nsr_Key :: string
  nsr_Operator :: string
  nsr_Values :: "string list"

record NodeSelectorTerm =
  nst_MatchExpressions :: "NodeSelectorRequirement list"

record NodeAffinity =
  na_Required :: "NodeSelectorTerm list option"

record Affinity =
  aff_NodeAffinity :: "NodeAffinity option"

record PodSpec =
  ps_Volumes :: "Volume list"
  ps_InitContainers :: "Container list"
  ps_Containers :: "Container list"
  ps_SecurityContext :: "PodSecurityContext option"
  ps_OS :: "string option"
  ps_NodeSelector :: stringmap
  ps_Affinity :: "Affinity option"
  ps_Rest :: string

record OwnerReference =
  or_APIVersion :: string
  or_Kind :: string

record ObjectMeta =
  om_Labels :: stringmap
  om_Annotations :: stringmap
  om_OwnerReferences :: "OwnerReference list"

record PodTemplateSpec =
  pts_Meta :: ObjectMeta
  pts_Spec :: PodSpec

text \<open>
  A workload with a pod template: a DaemonSet, Deployment, Job, ReplicaSet or StatefulSet, or a
  CronJob, whose pod template sits in its job template.
\<close>

record Workload =
  w_Meta :: ObjectMeta
  w_Template :: PodTemplateSpec

record Pod =
  p_Meta :: ObjectMeta
  p_Spec :: PodSpec

end
