(* ===== verification/InstrumentationConfig.thy ===== *)
theory InstrumentationConfig
  imports K8sTypes KubernetesVersion
begin

text \<open>
  The configuration the instrumentation of workloads depends on: the pointer helpers of
  \<open>internal/util/pointers\<close>, the cluster-wide configuration of \<open>internal/util/types.go\<close>, the
  configuration of a namespace from \<open>api/operator/v1beta1\<close>, and the collector base URLs of
  \<open>internal/collectors/collector_base_urls.go\<close>. An \<open>atomic.Pointer\<close> is an option. Of the extra
  configuration only the init container resources are read here, of the images only those of the
  operator and of the instrumentation.
\<close>

section \<open>Pointer helpers\<close>

definition ReadBoolPointerWithDefault :: "bool option \<Rightarrow> bool \<Rightarrow> bool" where
  "ReadBoolPointerWithDefault pointer defaultValue =
     (case pointer of Some b \<Rightarrow> b | None \<Rightarrow> defaultValue)"

definition IsEmpty :: "string option \<Rightarrow> bool" where
  "IsEmpty p = (case p of None \<Rightarrow> True | Some s \<Rightarrow> TrimSpace s = [])"

section \<open>Cluster and namespace configuration\<close>

record Images =
  img_OperatorImage :: string
  img_InitContainerImage :: string
  img_InitContainerImagePullPolicy :: string

record PossibleCollectorUrls =
  pcu_NodeLocalBaseUrl :: string
  pcu_ServiceBaseUrl :: string

record ResourceRequirementsWithGoMemLimit =
  rrg_Limits :: "(string \<times> Quantity) list"
  rrg_Requests :: "(string \<times> Quantity) list"
  rrg_GoMemLimit :: string

definition ToResourceRequirements :: "ResourceRequirementsWithGoMemLimit \<Rightarrow> ResourceRequirements" where
  "ToResourceRequirements rr = \<lparr>rr_Limits = rrg_Limits rr, rr_Requests = rrg_Requests rr\<rparr>"

record ClusterInstrumentationConfig =
  cic_Images :: Images
  cic_PossibleCollectorUrls :: PossibleCollectorUrls
  cic_OTelCollectorBaseUrl :: string
  cic_ExtraConfig :: "ResourceRequirementsWithGoMemLimit option"
  cic_kubernetesApiServerVersion :: KubernetesVersionInfo
  cic_minimumKubeletVersionDetector :: "MinimumKubeletVersionDetector option"
  cic_requestedInstrumentationDelivery :: "string option"
  cic_instrumentationInitContainerResources :: "ResourceRequirements option"
  cic_InstrumentationDebug :: bool
  cic_EnablePythonAutoInstrumentation :: bool
  cic_EnableRubyAutoInstrumentation :: bool
  cic_IsOpenShift :: bool

record NamespaceInstrumentationConfig =
  nic_InstrumentationLabelSelector :: string
  nic_TraceContextPropagators :: "string option"
  nic_PreviousTraceContextPropagators :: "string option"
  nic_CaptureSqlQueryParameters :: "bool option"
  nic_PreviousCaptureSqlQueryParameters :: "bool option"
  nic_LogCollectionEnabled :: bool
  nic_PreviousLogCollectionEnabled :: bool

definition InstrumentationInitContainerResources ::
  "ClusterInstrumentationConfig \<Rightarrow> ResourceRequirements" where
  "InstrumentationInitContainerResources c =
     (case cic_instrumentationInitContainerResources c of
        Some resources \<Rightarrow> resources
      | None \<Rightarrow>
          ToResourceRequirements
            (case cic_ExtraConfig c of
               Some extraConfig \<Rightarrow> extraConfig
             | None \<Rightarrow> \<lparr>rrg_Limits = [], rrg_Requests = [], rrg_GoMemLimit = []\<rparr>))"

definition resolveInstrumentationDelivery ::
  "ClusterInstrumentationConfig \<Rightarrow> ResolvedInstrumentationDelivery" where
  "resolveInstrumentationDelivery c =
     (case cic_requestedInstrumentationDelivery c of
        None \<Rightarrow> ResolvedInstrumentationDeliveryInitContainer
      | Some requested \<Rightarrow>
          ResolveInstrumentationDelivery requested (cic_kubernetesApiServerVersion c)
            (MinimumKubeletVersionDetector_Get (cic_minimumKubeletVersionDetector c)))"

definition UpdateRequestedInstrumentationDelivery ::
  "ClusterInstrumentationConfig \<Rightarrow> string \<Rightarrow>
   ClusterInstrumentationConfig \<times> ResolvedInstrumentationDelivery \<times> ResolvedInstrumentationDelivery" where
  "UpdateRequestedInstrumentationDelivery c requested =
     (let previous = resolveInstrumentationDelivery c;
          c' = c\<lparr>cic_requestedInstrumentationDelivery := Some requested\<rparr>
      in (c', previous, resolveInstrumentationDelivery c'))"

definition UpdateInstrumentationInitContainerResources ::
  "ClusterInstrumentationConfig \<Rightarrow> ResourceRequirements option \<Rightarrow> ClusterInstrumentationConfig" where
  "UpdateInstrumentationInitContainerResources c resources =
     c\<lparr>cic_instrumentationInitContainerResources := resources\<rparr>"

definition getImageVersion :: "string \<Rightarrow> string" where
  "getImageVersion img =
     (case AfterLast img CHR ''@'' of
        Some version \<Rightarrow> version
      | None \<Rightarrow> (case AfterLast img CHR '':'' of Some version \<Rightarrow> version | None \<Rightarrow> []))"

section \<open>Collector base URLs\<close>

definition EnvVarDash0NodeIp :: string where
  "EnvVarDash0NodeIp = ''DASH0_NODE_IP''"

text \<open>\<open>resolveHostPort\<close> and \<open>ResolveOtlpHttpHostPort\<close>; the ports are 32 bit integers, only compared.\<close>

definition resolveHostPort :: "int \<Rightarrow> int \<Rightarrow> int" where
  "resolveHostPort configured defaultValue = (if configured \<le> 0 then defaultValue else configured)"

definition ResolveOtlpHttpHostPort :: "int \<Rightarrow> int" where
  "ResolveOtlpHttpHostPort configured = resolveHostPort configured 40318"

definition RenderCollectorBaseUrls :: "string \<Rightarrow> string \<Rightarrow> int \<Rightarrow> PossibleCollectorUrls" where
  "RenderCollectorBaseUrls oTelCollectorNamePrefix operatorNamespace otlpHttpHostPort =
     \<lparr>pcu_NodeLocalBaseUrl =
        ''http://$('' @ EnvVarDash0NodeIp @ ''):'' @ showInt (ResolveOtlpHttpHostPort otlpHttpHostPort),
      pcu_ServiceBaseUrl =
        ''http://'' @ oTelCollectorNamePrefix @ ''-opentelemetry-collector-service.'' @
        operatorNamespace @ ''.svc.cluster.local:4318''\<rparr>"

definition SelectCollectorBaseUrl :: "PossibleCollectorUrls \<Rightarrow> bool \<Rightarrow> bool \<Rightarrow> string" where
  "SelectCollectorBaseUrl possibleUrls forceOTelCollectorServiceUrl isIPv6Cluster =
     (if forceOTelCollectorServiceUrl then pcu_ServiceBaseUrl possibleUrls
      else if isIPv6Cluster then pcu_ServiceBaseUrl possibleUrls
      else pcu_NodeLocalBaseUrl possibleUrls)"

end
