(* ===== verification/Labels.thy ===== *)
theory Labels
  imports Sha256 InstrumentationConfig
begin

text \<open>
  The labels and annotations by which the operator marks the workloads it has instrumented
  (\<open>internal/util/labels.go\<close>) and the opt-out of instrumentation, also for jobs controlled by a cron
  job (\<open>internal/workloads/controlling_cron_job.go\<close>). The parser of label selectors belongs to
  \<open>k8s.io/apimachinery\<close>: it is the parameter \<open>labelsParse\<close>, which maps a selector to the predicate
  it stands for, or to \<open>None\<close> if the selector is malformed.
\<close>

section \<open>Label and annotation keys\<close>

definition InstrumentedLabelKey :: string where
  "InstrumentedLabelKey = ''dash0.com/instrumented''"

definition operatorImageLabelKey :: string where
  "operatorImageLabelKey = ''dash0.com/operator-image''"

definition instrumentationImageLabelKey :: string where
  "instrumentationImageLabelKey = ''dash0.com/instrumentation-image''"

definition legacyInitContainerImageLabelKey :: string where
  "legacyInitContainerImageLabelKey = ''dash0.com/init-container-image''"

definition instrumentedByLabelKey :: string where
  "instrumentedByLabelKey = ''dash0.com/instrumented-by''"

definition instrumentationDeliveryAnnotationKey :: string where
  "instrumentationDeliveryAnnotationKey = ''dash0.com/instrumentation-delivery''"

definition webhookIgnoreOnceLabelKey :: string where
  "webhookIgnoreOnceLabelKey = ''dash0.com/webhook-ignore-once''"

datatype instrumentedState =
    instrumentedLabelValueSuccessful
  | instrumentedLabelValueUnsuccessful
  | instrumentedLabelValueUnknown

fun instrumentedState_string :: "instrumentedState \<Rightarrow> string" where
  "instrumentedState_string instrumentedLabelValueSuccessful = ''true''"
| "instrumentedState_string instrumentedLabelValueUnsuccessful = ''false''"
| "instrumentedState_string instrumentedLabelValueUnknown = ''unknown''"

section \<open>Image references as label values\<close>

definition maxLabelValueLength :: nat where
  "maxLabelValueLength = 63"

definition imageRefHashLength :: nat where
  "imageRefHashLength = 16"

definition is_alnum :: "char \<Rightarrow> bool" where
  "is_alnum c \<longleftrightarrow> in_range 48 57 c \<or> in_range 65 90 c \<or> in_range 97 122 c"

text \<open>The characters that the regular expression \<open>invalidLabelValueCharacters\<close> leaves alone.\<close>

definition valid_label_char :: "char \<Rightarrow> bool" where
  "valid_label_char c \<longleftrightarrow> is_alnum c \<or> c \<in> set ''._-''"

definition sanitizeLabelValue :: "string \<Rightarrow> string" where
  "sanitizeLabelValue v = TrimRight (replaceRunesOutside valid_label_char CHR ''_'' v) ''-._''"

definition ImageRefToLabel :: "string \<Rightarrow> string" where
  "ImageRefToLabel imageRef =
     (if imageRef = [] then imageRef
      else if length imageRef \<le> maxLabelValueLength then sanitizeLabelValue imageRef
      else
        (let hashSuffix = take imageRefHashLength (EncodeToString (Sum256 imageRef));
             lastSegment =
               (case AfterLast imageRef CHR ''/'' of Some segment \<Rightarrow> segment | None \<Rightarrow> imageRef);
             maxReadablePartLength = maxLabelValueLength - imageRefHashLength - 1;
             truncated =
               (if length lastSegment > maxReadablePartLength
                then take maxReadablePartLength lastSegment else lastSegment);
             readablePart = sanitizeLabelValue truncated
         in if readablePart = [] then hashSuffix else readablePart @ ''_'' @ hashSuffix))"

section \<open>Reading and writing labels\<close>

definition addLabel :: "string \<Rightarrow> string \<Rightarrow> ObjectMeta \<Rightarrow> ObjectMeta" where
  "addLabel k v m = m\<lparr>om_Labels := AList.update k v (om_Labels m)\<rparr>"

definition addAnnotation :: "string \<Rightarrow> string \<Rightarrow> ObjectMeta \<Rightarrow> ObjectMeta" where
  "addAnnotation k v m = m\<lparr>om_Annotations := AList.update k v (om_Annotations m)\<rparr>"

definition removeLabel :: "string \<Rightarrow> ObjectMeta \<Rightarrow> ObjectMeta" where
  "removeLabel k m = m\<lparr>om_Labels := AList.delete k (om_Labels m)\<rparr>"

definition removeAnnotation :: "string \<Rightarrow> ObjectMeta \<Rightarrow> ObjectMeta" where
  "removeAnnotation k m = m\<lparr>om_Annotations := AList.delete k (om_Annotations m)\<rparr>"

definition readLabel :: "ObjectMeta \<Rightarrow> string \<Rightarrow> string option" where
  "readLabel m k = map_of (om_Labels m) k"

definition AddInstrumentationLabelsAndAnnotations ::
  "bool \<Rightarrow> ClusterInstrumentationConfig \<Rightarrow> ResolvedInstrumentationDelivery \<Rightarrow> string \<Rightarrow>
   ObjectMeta \<Rightarrow> ObjectMeta" where
  "AddInstrumentationLabelsAndAnnotations instrumentationSuccess c delivery actor m0 =
     (let m1 = (if instrumentationSuccess
                then addLabel InstrumentedLabelKey
                       (instrumentedState_string instrumentedLabelValueSuccessful) m0
                else addLabel InstrumentedLabelKey
                       (instrumentedState_string instrumentedLabelValueUnsuccessful) m0);
          m2 = addLabel operatorImageLabelKey
                 (ImageRefToLabel (img_OperatorImage (cic_Images c))) m1;
          m3 = addLabel instrumentationImageLabelKey
                 (ImageRefToLabel (img_InitContainerImage (cic_Images c))) m2;
          m4 = addLabel instrumentedByLabelKey actor m3;
          m5 = addAnnotation instrumentationDeliveryAnnotationKey (delivery_string delivery) m4
      in removeLabel legacyInitContainerImageLabelKey m5)"

definition RemoveInstrumentationLabelsAndAnnotations :: "ObjectMeta \<Rightarrow> ObjectMeta" where
  "RemoveInstrumentationLabelsAndAnnotations m0 =
     (let m1 = removeLabel InstrumentedLabelKey m0;
          m2 = removeLabel operatorImageLabelKey m1;
          m3 = removeLabel instrumentationImageLabelKey m2;
          m4 = removeLabel instrumentedByLabelKey m3;
          m5 = removeAnnotation instrumentationDeliveryAnnotationKey m4
      in removeLabel legacyInitContainerImageLabelKey m5)"

definition readInstrumentationState :: "ObjectMeta \<Rightarrow> instrumentedState" where
  "readInstrumentationState m =
     (case readLabel m InstrumentedLabelKey of
        None \<Rightarrow> instrumentedLabelValueUnknown
      | Some instrumented \<Rightarrow>
          if instrumented = instrumentedState_string instrumentedLabelValueSuccessful
          then instrumentedLabelValueSuccessful
          else if instrumented = instrumentedState_string instrumentedLabelValueUnsuccessful
          then instrumentedLabelValueUnsuccessful
          else instrumentedLabelValueUnknown)"

definition HasBeenInstrumentedSuccessfully :: "ObjectMeta \<Rightarrow> bool" where
  "HasBeenInstrumentedSuccessfully m \<longleftrightarrow>
     readInstrumentationState m = instrumentedLabelValueSuccessful"

definition HasBeenInstrumentedSuccessfullyByThisVersion :: "ObjectMeta \<Rightarrow> Images \<Rightarrow> bool" where
  "HasBeenInstrumentedSuccessfullyByThisVersion m images =
     (if \<not> HasBeenInstrumentedSuccessfully m then False
      else case (readLabel m operatorImageLabelKey, readLabel m instrumentationImageLabelKey) of
        (Some operatorImageValue, Some instrumentationImageValue) \<Rightarrow>
          operatorImageValue = ImageRefToLabel (img_OperatorImage images) \<and>
          instrumentationImageValue = ImageRefToLabel (img_InitContainerImage images)
      | _ \<Rightarrow> False)"

definition InstrumentationAttemptHasFailed :: "ObjectMeta \<Rightarrow> bool" where
  "InstrumentationAttemptHasFailed m \<longleftrightarrow>
     readInstrumentationState m = instrumentedLabelValueUnsuccessful"

definition AddWebhookIgnoreOnceLabel :: "ObjectMeta \<Rightarrow> ObjectMeta" where
  "AddWebhookIgnoreOnceLabel m = addLabel webhookIgnoreOnceLabelKey ''true'' m"

definition HasWebhookIgnoreOnceLabel :: "ObjectMeta \<Rightarrow> bool" where
  "HasWebhookIgnoreOnceLabel m \<longleftrightarrow> map_of (om_Labels m) webhookIgnoreOnceLabelKey = Some ''true''"

text \<open>The labels after the call, and whether the label was present.\<close>

definition RemoveWebhookIgnoreOnceLabel :: "stringmap \<Rightarrow> stringmap \<times> bool" where
  "RemoveWebhookIgnoreOnceLabel labels =
     (if map_of labels webhookIgnoreOnceLabelKey \<noteq> Some ''true'' then (labels, False)
      else (AList.delete webhookIgnoreOnceLabelKey labels, True))"

definition MergeMaps :: "stringmap \<Rightarrow> stringmap \<Rightarrow> stringmap" where
  "MergeMaps defaults additional =
     (if additional = [] \<and> defaults = [] then [] else maps_Copy (maps_Copy [] additional) defaults)"

section \<open>Opting out of instrumentation\<close>

definition DefaultAutoInstrumentationLabelSelector :: string where
  "DefaultAutoInstrumentationLabelSelector = ''dash0.com/enable!=false''"

type_synonym selector_parser = "string \<Rightarrow> ((string \<rightharpoonup> string) \<Rightarrow> bool) option"

definition shouldBeInstrumented :: "selector_parser \<Rightarrow> ObjectMeta \<Rightarrow> string \<Rightarrow> bool outcome" where
  "shouldBeInstrumented labelsParse m autoInstrumentationLabelSelector =
     (case labelsParse autoInstrumentationLabelSelector of
        Some labelSelector \<Rightarrow> Inr (labelSelector (map_of (om_Labels m)))
      | None \<Rightarrow>
          (case labelsParse DefaultAutoInstrumentationLabelSelector of
             None \<Rightarrow> Inl ExplicitPanic
           | Some labelSelector \<Rightarrow> Inr (labelSelector (map_of (om_Labels m)))))"

definition hasOptedOutOfInstrumentation ::
  "selector_parser \<Rightarrow> ObjectMeta \<Rightarrow> string \<Rightarrow> bool outcome" where
  "hasOptedOutOfInstrumentation labelsParse m selector =
     map_sum id Not (shouldBeInstrumented labelsParse m selector)"

definition HasOptedOutOfInstrumentationAndIsUninstrumented ::
  "selector_parser \<Rightarrow> ObjectMeta \<Rightarrow> string \<Rightarrow> bool outcome" where
  "HasOptedOutOfInstrumentationAndIsUninstrumented labelsParse m selector =
     map_sum id (\<lambda>optedOut. optedOut \<and> \<not> HasBeenInstrumentedSuccessfully m)
       (hasOptedOutOfInstrumentation labelsParse m selector)"

definition WasInstrumentedButHasOptedOutNow ::
  "selector_parser \<Rightarrow> ObjectMeta \<Rightarrow> string \<Rightarrow> bool outcome" where
  "WasInstrumentedButHasOptedOutNow labelsParse m selector =
     (if HasBeenInstrumentedSuccessfully m
      then hasOptedOutOfInstrumentation labelsParse m selector else Inr False)"

definition JobHasOptedOutOfInstrumentation ::
  "selector_parser \<Rightarrow> ObjectMeta \<Rightarrow> ObjectMeta option \<Rightarrow> string \<Rightarrow> bool outcome" where
  "JobHasOptedOutOfInstrumentation labelsParse job controllingCronJob selector =
     (let fromCronJob =
            (case controllingCronJob of Some cronJob \<Rightarrow> maps_Copy [] (om_Labels cronJob) | None \<Rightarrow> []);
          mergedLabels = maps_Copy fromCronJob (om_Labels job)
      in hasOptedOutOfInstrumentation labelsParse
           \<lparr>om_Labels = mergedLabels, om_Annotations = [], om_OwnerReferences = []\<rparr> selector)"

section \<open>Label values\<close>

text \<open>A valid label value: at most 63 valid characters, the last of them alphanumeric.\<close>

definition label_value_ok :: "string \<Rightarrow> bool" where
  "label_value_ok v \<longleftrightarrow>
     length v \<le> maxLabelValueLength \<and> list_all valid_label_char v \<and> (v = [] \<or> is_alnum (last v))"

lemma TrimRight_subset: "set (TrimRight s cs) \<subseteq> set s"
  by (auto simp: TrimRight_def dest: set_dropWhileD)

lemma length_TrimRight: "length (TrimRight s cs) \<le> length s"
  using length_dropWhile_le[of "\<lambda>c. c \<in> set cs" "rev s"] by (simp add: TrimRight_def)

lemma last_TrimRight: "TrimRight s cs \<noteq> [] \<Longrightarrow> last (TrimRight s cs) \<notin> set cs"
  using hd_dropWhile[of "\<lambda>c. c \<in> set cs" "rev s"] by (auto simp: TrimRight_def last_rev)

lemma valid_label_char_underscore: "valid_label_char CHR ''_''"
  by (simp add: valid_label_char_def)

lemma sanitizeLabelValue_ok:
  assumes "length v \<le> maxLabelValueLength"
  shows "label_value_ok (sanitizeLabelValue v)"
proof -
  let ?r = "replaceRunesOutside valid_label_char CHR ''_'' v"
  have valid: "valid_label_char c" if "c \<in> set (sanitizeLabelValue v)" for c
    using that TrimRight_subset[of ?r "''-._''"]
      replaceRunesOutside_valid[of valid_label_char, OF valid_label_char_underscore]
    by (auto simp: sanitizeLabelValue_def)
  have "length (sanitizeLabelValue v) \<le> length v"
    using length_TrimRight[of ?r "''-._''"] length_replaceRunesOutside[of valid_label_char "CHR ''_''" v]
    by (simp add: sanitizeLabelValue_def)
  moreover have "is_alnum (last (sanitizeLabelValue v))" if ne: "sanitizeLabelValue v \<noteq> []"
    using valid[OF last_in_set[OF ne]] last_TrimRight[of ?r "''-._''"] ne
    by (auto simp: sanitizeLabelValue_def valid_label_char_def)
  ultimately show ?thesis
    using assms valid by (auto simp: label_value_ok_def list_all_iff)
qed

lemma is_hex_alnum: "is_hex c \<Longrightarrow> is_alnum c"
  by (auto simp: is_hex_def is_alnum_def in_range_def)

lemma hash_suffix_ok:
  "length (take imageRefHashLength (EncodeToString (Sum256 r))) = imageRefHashLength \<and>
   list_all is_alnum (take imageRefHashLength (EncodeToString (Sum256 r)))"
  by (auto simp: imageRefHashLength_def list_all_iff
      dest!: in_set_takeD EncodeToString_hex intro: is_hex_alnum)

lemma hash_suffix_last:
  "is_alnum (last (take imageRefHashLength (EncodeToString (Sum256 r))))"
proof -
  have "take imageRefHashLength (EncodeToString (Sum256 r)) \<noteq> []"
    using hash_suffix_ok[of r] by (metis imageRefHashLength_def list.size(3) zero_neq_numeral)
  then show ?thesis using hash_suffix_ok[of r] last_in_set by (auto simp: list_all_iff)
qed

text \<open>The label of a long image reference: a readable part and the hash of the whole reference.\<close>

definition long_ref_label :: "string \<Rightarrow> string \<Rightarrow> string" where
  "long_ref_label readable hash = (if readable = [] then hash else readable @ ''_'' @ hash)"

lemma ImageRefToLabel_long:
  assumes "length r > maxLabelValueLength"
  obtains readable where
    "ImageRefToLabel r =
       long_ref_label readable (take imageRefHashLength (EncodeToString (Sum256 r)))"
    and "length readable \<le> 46" and "list_all valid_label_char readable"
proof -
  define segment where
    "segment = (case AfterLast r CHR ''/'' of Some segment \<Rightarrow> segment | None \<Rightarrow> r)"
  define truncated where
    "truncated = (if length segment > 46 then take 46 segment else segment)"
  define readable where "readable = sanitizeLabelValue truncated"
  have "length truncated \<le> maxLabelValueLength" and le: "length truncated \<le> 46"
    by (auto simp: truncated_def maxLabelValueLength_def)
  then have "list_all valid_label_char readable"
    using sanitizeLabelValue_ok by (auto simp: readable_def label_value_ok_def)
  moreover have "length readable \<le> 46"
    using le length_TrimRight[of "replaceRunesOutside valid_label_char CHR ''_'' truncated" "''-._''"]
      length_replaceRunesOutside[of valid_label_char "CHR ''_''" truncated]
    by (simp add: readable_def sanitizeLabelValue_def)
  moreover have "r \<noteq> []" using assms by auto
  then have "ImageRefToLabel r =
      long_ref_label readable (take imageRefHashLength (EncodeToString (Sum256 r)))"
    using assms
    by (simp add: ImageRefToLabel_def long_ref_label_def Let_def readable_def truncated_def
        segment_def maxLabelValueLength_def imageRefHashLength_def not_le cong: if_cong)
  ultimately show thesis using that by blast
qed

section \<open>Marking workloads\<close>

lemmas label_keys =
  InstrumentedLabelKey_def operatorImageLabelKey_def instrumentationImageLabelKey_def
  legacyInitContainerImageLabelKey_def instrumentedByLabelKey_def

lemma label_keys_distinct:
  "distinct [InstrumentedLabelKey, operatorImageLabelKey, instrumentationImageLabelKey,
     legacyInitContainerImageLabelKey, instrumentedByLabelKey]"
  by (simp add: label_keys)

lemma label_keys_distinct_rev:
  "distinct (rev [InstrumentedLabelKey, operatorImageLabelKey, instrumentationImageLabelKey,
     legacyInitContainerImageLabelKey, instrumentedByLabelKey])"
  by (subst distinct_rev) (rule label_keys_distinct)

lemmas label_keys_neq [simp] =
  label_keys_distinct[simplified] label_keys_distinct_rev[simplified]

definition instrumentation_label_keys :: "string set" where
  "instrumentation_label_keys =
     {InstrumentedLabelKey, operatorImageLabelKey, instrumentationImageLabelKey,
      legacyInitContainerImageLabelKey, instrumentedByLabelKey}"

lemmas meta_ops =
  addLabel_def addAnnotation_def removeLabel_def removeAnnotation_def readLabel_def

lemma readLabel_Add:
  "readLabel (AddInstrumentationLabelsAndAnnotations ok c d actor m) k =
     (if k = InstrumentedLabelKey then Some (if ok then ''true'' else ''false'')
      else if k = operatorImageLabelKey then Some (ImageRefToLabel (img_OperatorImage (cic_Images c)))
      else if k = instrumentationImageLabelKey
      then Some (ImageRefToLabel (img_InitContainerImage (cic_Images c)))
      else if k = instrumentedByLabelKey then Some actor
      else if k = legacyInitContainerImageLabelKey then None
      else readLabel m k)"
  by (simp add: AddInstrumentationLabelsAndAnnotations_def Let_def meta_ops delete_conv' update_conv')

lemma readLabel_Remove:
  "readLabel (RemoveInstrumentationLabelsAndAnnotations m) k =
     (if k \<in> instrumentation_label_keys then None else readLabel m k)"
  by (simp add: RemoveInstrumentationLabelsAndAnnotations_def Let_def meta_ops delete_conv'
      instrumentation_label_keys_def)

lemma Remove_without:
  "RemoveInstrumentationLabelsAndAnnotations m =
     m\<lparr>om_Labels := without instrumentation_label_keys (om_Labels m),
       om_Annotations := without {instrumentationDeliveryAnnotationKey} (om_Annotations m)\<rparr>"
  by (cases m) (simp add: RemoveInstrumentationLabelsAndAnnotations_def Let_def meta_ops
      delete_without without_without instrumentation_label_keys_def insert_commute)

lemma Add_labels_without:
  "without instrumentation_label_keys (om_Labels (AddInstrumentationLabelsAndAnnotations ok c d actor m)) =
     without instrumentation_label_keys (om_Labels m)"
proof -
  have absorb: "without instrumentation_label_keys (without {legacyInitContainerImageLabelKey} al) =
      without instrumentation_label_keys al" for al :: stringmap
    by (auto simp: without_without instrumentation_label_keys_def insert_absorb)
  have keys: "InstrumentedLabelKey \<in> instrumentation_label_keys"
      "operatorImageLabelKey \<in> instrumentation_label_keys"
      "instrumentationImageLabelKey \<in> instrumentation_label_keys"
      "instrumentedByLabelKey \<in> instrumentation_label_keys"
    by (simp_all add: instrumentation_label_keys_def)
  show ?thesis
    by (simp add: AddInstrumentationLabelsAndAnnotations_def Let_def meta_ops delete_without
        absorb without_update keys)
qed

lemma Add_annotations:
  "om_Annotations (AddInstrumentationLabelsAndAnnotations ok c d actor m) =
     AList.update instrumentationDeliveryAnnotationKey (delivery_string d) (om_Annotations m)"
  by (simp add: AddInstrumentationLabelsAndAnnotations_def Let_def meta_ops)

lemma Add_owners:
  "om_OwnerReferences (AddInstrumentationLabelsAndAnnotations ok c d actor m) = om_OwnerReferences m"
  by (simp add: AddInstrumentationLabelsAndAnnotations_def Let_def meta_ops)

lemma Remove_Add:
  "RemoveInstrumentationLabelsAndAnnotations (AddInstrumentationLabelsAndAnnotations ok c d actor m) =
     RemoveInstrumentationLabelsAndAnnotations m"
  by (simp add: Remove_without Add_labels_without Add_annotations Add_owners without_update)

lemma Remove_fresh:
  assumes "fst ` set (om_Labels m) \<inter> instrumentation_label_keys = {}"
    and "instrumentationDeliveryAnnotationKey \<notin> fst ` set (om_Annotations m)"
  shows "RemoveInstrumentationLabelsAndAnnotations m = m"
  using assms by (simp add: Remove_without without_absent)

section \<open>Properties\<close>

text \<open>
  C21: Whatever the image reference, its label has at most 63 characters, all of them allowed in a
  label value, and ends in an alphanumeric character (or is empty). A reference of more than 63 bytes
  keeps the first 16 hex digits of the SHA-256 hash of the whole reference at the end of its label.
\<close>

theorem ImageRefToLabel_label_value:
  "label_value_ok (ImageRefToLabel imageRef) \<and>
   (length imageRef \<le> maxLabelValueLength \<or>
    suffix (take imageRefHashLength (EncodeToString (Sum256 imageRef))) (ImageRefToLabel imageRef))"
proof (cases "length imageRef \<le> maxLabelValueLength")
  case True
  then show ?thesis
    using sanitizeLabelValue_ok[of imageRef]
    by (auto simp: ImageRefToLabel_def label_value_ok_def)
next
  case False
  let ?hash = "take imageRefHashLength (EncodeToString (Sum256 imageRef))"
  from False obtain readable where label: "ImageRefToLabel imageRef = long_ref_label readable ?hash"
    and le: "length readable \<le> 46" and valid: "list_all valid_label_char readable"
    by (meson ImageRefToLabel_long not_le)
  have "list_all valid_label_char ?hash"
    using hash_suffix_ok[of imageRef] by (auto simp: list_all_iff valid_label_char_def)
  moreover have "?hash \<noteq> []"
    using hash_suffix_ok[of imageRef] by (metis imageRefHashLength_def list.size(3) zero_neq_numeral)
  moreover have "length ?hash = 16" using hash_suffix_ok[of imageRef] by (simp add: imageRefHashLength_def)
  ultimately show ?thesis
    using hash_suffix_last[of imageRef] le valid valid_label_char_underscore
    by (simp add: label label_value_ok_def long_ref_label_def suffix_def maxLabelValueLength_def)
qed

text \<open>The label of a short reference that starts with an invalid character starts with an underscore.\<close>

lemma ImageRefToLabel_leading_underscore: "ImageRefToLabel ''@sha256'' = ''_sha256''"
  by code_simp

text \<open>
  After marking, a workload counts as instrumented successfully by an operator with images
  \<open>images\<close> exactly if the marking recorded a success and the images yield the labels of the images
  that were recorded; the attempt counts as failed exactly if a failure was recorded.
\<close>

theorem marked_workload_state:
  "(HasBeenInstrumentedSuccessfullyByThisVersion
      (AddInstrumentationLabelsAndAnnotations ok c d actor m) images \<longleftrightarrow>
    ok \<and> ImageRefToLabel (img_OperatorImage images) =
           ImageRefToLabel (img_OperatorImage (cic_Images c)) \<and>
         ImageRefToLabel (img_InitContainerImage images) =
           ImageRefToLabel (img_InitContainerImage (cic_Images c))) \<and>
   (InstrumentationAttemptHasFailed (AddInstrumentationLabelsAndAnnotations ok c d actor m) \<longleftrightarrow> \<not> ok)"
  by (auto simp: HasBeenInstrumentedSuccessfullyByThisVersion_def InstrumentationAttemptHasFailed_def
      HasBeenInstrumentedSuccessfully_def readInstrumentationState_def readLabel_Add)

text \<open>
  Removing the marks undoes any marking: it gives what removing them from the unmarked object
  gives, which is the object itself if it did not carry any of them. An object without the marks
  counts neither as instrumented nor as failed.
\<close>

theorem unmark_after_mark:
  assumes "fst ` set (om_Labels m) \<inter> instrumentation_label_keys = {}"
    and "instrumentationDeliveryAnnotationKey \<notin> fst ` set (om_Annotations m)"
  shows "RemoveInstrumentationLabelsAndAnnotations
           (AddInstrumentationLabelsAndAnnotations ok c d actor m) = m \<and>
         readInstrumentationState m = instrumentedLabelValueUnknown"
proof -
  have "InstrumentedLabelKey \<notin> fst ` set (om_Labels m)"
    using assms(1) by (auto simp: instrumentation_label_keys_def)
  then have "readLabel m InstrumentedLabelKey = None"
    by (simp add: readLabel_def map_of_eq_None_iff)
  then show ?thesis using assms by (simp add: Remove_Add Remove_fresh readInstrumentationState_def)
qed

theorem unmark_after_mark_witness:
  "RemoveInstrumentationLabelsAndAnnotations
     (AddInstrumentationLabelsAndAnnotations True
        (undefined\<lparr>cic_Images := \<lparr>img_OperatorImage = ''operator:1.0'', img_InitContainerImage = ''init:1.0'',
            img_InitContainerImagePullPolicy = []\<rparr>\<rparr>)
        ResolvedInstrumentationDeliveryInitContainer ''webhook''
        \<lparr>om_Labels = [(''app'', ''shop'')], om_Annotations = [], om_OwnerReferences = []\<rparr>) =
     \<lparr>om_Labels = [(''app'', ''shop'')], om_Annotations = [], om_OwnerReferences = []\<rparr> \<and>
   readInstrumentationState
     \<lparr>om_Labels = [(''app'', ''shop'')], om_Annotations = [], om_OwnerReferences = []\<rparr> =
     instrumentedLabelValueUnknown"
  by (rule unmark_after_mark) (simp_all add: instrumentation_label_keys_def label_keys)

text \<open>
  The decision about a job looks at the union of the labels of the job and of its controlling cron
  job, and the label of the job wins. The evaluation panics only if neither the configured selector
  nor the default selector can be parsed.
\<close>

theorem JobHasOptedOutOfInstrumentation_merged:
  assumes "distinct (map fst (om_Labels job))" and "distinct (map fst (om_Labels cronJob))"
  shows "JobHasOptedOutOfInstrumentation labelsParse job (Some cronJob) selector =
     (case labelsParse selector of
        Some matches \<Rightarrow> Inr (\<not> matches (map_of (om_Labels cronJob) ++ map_of (om_Labels job)))
      | None \<Rightarrow>
          (case labelsParse DefaultAutoInstrumentationLabelSelector of
             Some matches \<Rightarrow> Inr (\<not> matches (map_of (om_Labels cronJob) ++ map_of (om_Labels job)))
           | None \<Rightarrow> Inl ExplicitPanic))"
  using assms
  by (simp add: JobHasOptedOutOfInstrumentation_def hasOptedOutOfInstrumentation_def
      shouldBeInstrumented_def map_of_maps_Copy split: option.split)

text \<open>A parser that knows the default selector only.\<close>

definition default_selector_parser :: selector_parser where
  "default_selector_parser s =
     (if s = DefaultAutoInstrumentationLabelSelector
      then Some (\<lambda>labels. labels ''dash0.com/enable'' \<noteq> Some ''false'') else None)"

theorem JobHasOptedOutOfInstrumentation_merged_witness:
  "JobHasOptedOutOfInstrumentation default_selector_parser
     \<lparr>om_Labels = [(''app'', ''shop'')], om_Annotations = [], om_OwnerReferences = []\<rparr>
     (Some \<lparr>om_Labels = [(''dash0.com/enable'', ''false'')], om_Annotations = [], om_OwnerReferences = []\<rparr>)
     ''!malformed!'' = Inr True"
  by (subst JobHasOptedOutOfInstrumentation_merged)
    (simp_all add: default_selector_parser_def DefaultAutoInstrumentationLabelSelector_def)

end
