(* ===== verification/EnvVars.thy ===== *)
theory EnvVars
  imports InstrumentationConfig
begin

text \<open>
  Environment variables of a container: the primitives of \<open>internal/util/env_vars.go\<close> and of
  \<open>internal/workloads/workload_modifier.go\<close> that read, replace and remove them, and the names the
  operator manages. The functions take the slice \<open>container.Env\<close> and return the updated slice. The
  functions on indices keep the index of the Go code as a natural number, -1 as \<open>None\<close>.

  At the end, the store of environment variables is shown to fulfil the contract \<open>named_store\<close>, and
  \<open>env_stage\<close> is the contract of one step of the instrumentation of a container.
\<close>

section \<open>Names\<close>

definition OtelServiceNameEnvVarName :: string where
  "OtelServiceNameEnvVarName = ''OTEL_SERVICE_NAME''"
definition OtelResourceAttributesEnvVarName :: string where
  "OtelResourceAttributesEnvVarName = ''OTEL_RESOURCE_ATTRIBUTES''"
definition OtelPropagatorsEnvVarName :: string where
  "OtelPropagatorsEnvVarName = ''OTEL_PROPAGATORS''"
definition envVarLdPreloadName :: string where
  "envVarLdPreloadName = ''LD_PRELOAD''"
definition envVarLdPreloadValue :: string where
  "envVarLdPreloadValue = ''/__otel_auto_instrumentation/injector/libotelinject.so''"
definition envVarLdPreloadLegacyValue :: string where
  "envVarLdPreloadLegacyValue = ''/__dash0__/dash0_injector.so''"
definition envVarOtelInjectorConfigFileName :: string where
  "envVarOtelInjectorConfigFileName = ''OTEL_INJECTOR_CONFIG_FILE''"
definition envVarOtelExporterOtlpEndpointName :: string where
  "envVarOtelExporterOtlpEndpointName = ''OTEL_EXPORTER_OTLP_ENDPOINT''"
definition envVarOtelExporterOtlpProtocolName :: string where
  "envVarOtelExporterOtlpProtocolName = ''OTEL_EXPORTER_OTLP_PROTOCOL''"
definition defaultOtelExporterOtlpProtocol :: string where
  "defaultOtelExporterOtlpProtocol = ''http/protobuf''"
definition envVarOtelLogsExporterName :: string where
  "envVarOtelLogsExporterName = ''OTEL_LOGS_EXPORTER''"
definition envVarOtelLogsExporterNoneValue :: string where
  "envVarOtelLogsExporterNoneValue = ''none''"
definition envVarDash0CollectorBaseUrlName :: string where
  "envVarDash0CollectorBaseUrlName = ''DASH0_OTEL_COLLECTOR_BASE_URL''"
definition envVarOTelInjectorNamespaceName :: string where
  "envVarOTelInjectorNamespaceName = ''OTEL_INJECTOR_K8S_NAMESPACE_NAME''"
definition envVarOTelInjectorPodName :: string where
  "envVarOTelInjectorPodName = ''OTEL_INJECTOR_K8S_POD_NAME''"
definition envVarOTelInjectorPodUidName :: string where
  "envVarOTelInjectorPodUidName = ''OTEL_INJECTOR_K8S_POD_UID''"
definition envVarOTelInjectorContainerName :: string where
  "envVarOTelInjectorContainerName = ''OTEL_INJECTOR_K8S_CONTAINER_NAME''"
definition envVarOTelInjectorServiceName :: string where
  "envVarOTelInjectorServiceName = ''OTEL_INJECTOR_SERVICE_NAME''"
definition envVarOTelInjectorServiceNamespace :: string where
  "envVarOTelInjectorServiceNamespace = ''OTEL_INJECTOR_SERVICE_NAMESPACE''"
definition envVarOTelInjectorServiceVersionName :: string where
  "envVarOTelInjectorServiceVersionName = ''OTEL_INJECTOR_SERVICE_VERSION''"
definition envVarOTelInjectorResourceAttributesName :: string where
  "envVarOTelInjectorResourceAttributesName = ''OTEL_INJECTOR_RESOURCE_ATTRIBUTES''"
definition otelInjectorLogLevelEnvVarName :: string where
  "otelInjectorLogLevelEnvVarName = ''OTEL_INJECTOR_LOG_LEVEL''"
definition envVarJdbcCaptureName :: string where
  "envVarJdbcCaptureName = ''OTEL_INSTRUMENTATION_JDBC_EXPERIMENTAL_CAPTURE_QUERY_PARAMETERS''"
definition envVarSqlClientCaptureName :: string where
  "envVarSqlClientCaptureName = ''OTEL_DOTNET_EXPERIMENTAL_SQLCLIENT_ENABLE_TRACE_DB_QUERY_PARAMETERS''"
definition envVarEfCoreCaptureName :: string where
  "envVarEfCoreCaptureName = ''OTEL_DOTNET_EXPERIMENTAL_EFCORE_ENABLE_TRACE_DB_QUERY_PARAMETERS''"
definition captureSqlQueryParametersValueTrue :: string where
  "captureSqlQueryParametersValueTrue = ''true''"
definition legacyEnvVarNodeOptionsName :: string where
  "legacyEnvVarNodeOptionsName = ''NODE_OPTIONS''"
definition legacyEnvVarNodeOptionsValue :: string where
  "legacyEnvVarNodeOptionsValue =
     ''--require /__dash0__/instrumentation/node.js/node_modules/@dash0hq/opentelemetry''"
definition legacyEnvVarDash0InjectorLogLevel :: string where
  "legacyEnvVarDash0InjectorLogLevel = ''DASH0_INJECTOR_LOG_LEVEL''"

definition CaptureSqlQueryParametersEnvVarNames :: "string list" where
  "CaptureSqlQueryParametersEnvVarNames =
     [envVarJdbcCaptureName, envVarSqlClientCaptureName, envVarEfCoreCaptureName]"

text \<open>The names that \<open>removeLegacyEnvironmentVariables\<close> removes regardless of their values.\<close>

definition legacy_env_var_names :: "string list" where
  "legacy_env_var_names =
     [''DASH0_SERVICE_INSTANCE_ID'', ''DASH0_INJECTOR_DEBUG'', ''DASH0_NAMESPACE_NAME'',
      ''DASH0_POD_NAME'', ''DASH0_POD_UID'', ''DASH0_CONTAINER_NAME'', ''DASH0_SERVICE_NAME'',
      ''DASH0_SERVICE_NAMESPACE'', ''DASH0_SERVICE_VERSION'', ''DASH0_RESOURCE_ATTRIBUTES'']"

section \<open>Primitives\<close>

definition envVar :: "string \<Rightarrow> string \<Rightarrow> EnvVar" where
  "envVar n v = \<lparr>ev_Name = n, ev_Value = v, ev_ValueFrom = None\<rparr>"

definition fieldRefVar :: "string \<Rightarrow> string \<Rightarrow> EnvVar" where
  "fieldRefVar n fieldPath = \<lparr>ev_Name = n, ev_Value = [], ev_ValueFrom = Some (FieldRef fieldPath)\<rparr>"

definition findEnvVarIdx :: "EnvVar list \<Rightarrow> string \<Rightarrow> nat option" where
  "findEnvVarIdx env n = IndexFunc (\<lambda>e. ev_Name e = n) env"

definition GetEnvVar :: "string \<Rightarrow> EnvVar list \<Rightarrow> EnvVar option" where
  "GetEnvVar n env =
     (case IndexFunc (\<lambda>e. ev_Name e = n) env of None \<Rightarrow> None | Some idx \<Rightarrow> Some (env ! idx))"

definition IsEnvVarUnsetOrEmpty :: "EnvVar option \<Rightarrow> bool" where
  "IsEnvVarUnsetOrEmpty ev =
     (case ev of
        None \<Rightarrow> True
      | Some e \<Rightarrow> if ev_ValueFrom e \<noteq> None then False else TrimSpace (ev_Value e) = [])"

definition replaceExistingEnvironmentVariable :: "EnvVar list \<Rightarrow> nat \<Rightarrow> EnvVar \<Rightarrow> EnvVar list" where
  "replaceExistingEnvironmentVariable env idx e =
     (if ev_Value e \<noteq> []
      then env[idx := (env ! idx)\<lparr>ev_ValueFrom := None, ev_Value := ev_Value e\<rparr>]
      else env[idx := (env ! idx)\<lparr>ev_Value := [], ev_ValueFrom := ev_ValueFrom e\<rparr>])"

definition addOrReplaceEnvironmentVariable :: "EnvVar \<Rightarrow> EnvVar list \<Rightarrow> EnvVar list" where
  "addOrReplaceEnvironmentVariable e env =
     (case findEnvVarIdx env (ev_Name e) of
        None \<Rightarrow> env @ [e]
      | Some idx \<Rightarrow> replaceExistingEnvironmentVariable env idx e)"

definition removeEnvironmentVariable :: "string \<Rightarrow> EnvVar list \<Rightarrow> EnvVar list" where
  "removeEnvironmentVariable n env = DeleteFunc (\<lambda>e. ev_Name e = n) env"

definition envVarIsSetAndNotEmpty :: "EnvVar list \<Rightarrow> string \<Rightarrow> bool \<times> nat option" where
  "envVarIsSetAndNotEmpty env n =
     (case findEnvVarIdx env n of
        None \<Rightarrow> (False, None)
      | Some idx \<Rightarrow>
          (ev_ValueFrom (env ! idx) \<noteq> None \<or> TrimSpace (ev_Value (env ! idx)) \<noteq> [], Some idx))"

text \<open>The functions below index the slice at an index they were given: \<open>None\<close> would be a panic.\<close>

definition envVarHasValue :: "EnvVar list \<Rightarrow> nat option \<Rightarrow> string \<Rightarrow> bool" where
  "envVarHasValue env idx v =
     (case idx of
        None \<Rightarrow> False
      | Some i \<Rightarrow> ev_ValueFrom (env ! i) = None \<and> TrimSpace (ev_Value (env ! i)) = v)"

definition nodeLocalCollectorEndpointRegex :: "string \<Rightarrow> bool" where
  "nodeLocalCollectorEndpointRegex s =
     (case CutPrefix s (''http://$('' @ EnvVarDash0NodeIp @ ''):'') of
        None \<Rightarrow> False
      | Some port \<Rightarrow> 1 \<le> length port \<and> length port \<le> 5 \<and> list_all is_digit port)"

definition isOperatorCollectorEndpoint ::
  "EnvVar list \<Rightarrow> nat option \<Rightarrow> PossibleCollectorUrls \<Rightarrow> bool" where
  "isOperatorCollectorEndpoint env idx possibleUrls =
     (case idx of
        None \<Rightarrow> False
      | Some i \<Rightarrow>
          if ev_ValueFrom (env ! i) \<noteq> None then False
          else let currentValue = TrimSpace (ev_Value (env ! i))
               in currentValue = pcu_ServiceBaseUrl possibleUrls \<or>
                  nodeLocalCollectorEndpointRegex currentValue)"

section \<open>The store of environment variables\<close>

text \<open>What a variable looks like after it has replaced another one of the same name.\<close>

definition env_norm :: "EnvVar \<Rightarrow> EnvVar" where
  "env_norm e = (if ev_Value e \<noteq> [] then e\<lparr>ev_ValueFrom := None\<rparr> else e)"

lemma env_norm_envVar [simp]: "env_norm (envVar n v) = envVar n v"
  by (simp add: env_norm_def envVar_def)

lemma env_norm_fieldRefVar [simp]: "env_norm (fieldRefVar n p) = fieldRefVar n p"
  by (simp add: env_norm_def fieldRefVar_def)

lemma ev_Name_simps [simp]: "ev_Name (envVar n v) = n" "ev_Name (fieldRefVar n p) = n"
  by (simp_all add: envVar_def fieldRefVar_def)

lemma GetEnvVar_find: "GetEnvVar n env = find (\<lambda>e. ev_Name e = n) env"
  by (auto simp: GetEnvVar_def IndexFunc_find_None dest: IndexFunc_Some_find split: option.split)

interpretation env: named_store ev_Name env_norm addOrReplaceEnvironmentVariable
  removeEnvironmentVariable GetEnvVar
proof unfold_locales
  fix x :: EnvVar and xs :: "EnvVar list"
  assume "ev_Name x \<notin> ev_Name ` set xs"
  then have "IndexFunc (\<lambda>e. ev_Name e = ev_Name x) xs = None"
    by (simp add: IndexFunc_None_iff) (metis image_eqI)
  then show "addOrReplaceEnvironmentVariable x xs = xs @ [x]"
    by (simp add: addOrReplaceEnvironmentVariable_def findEnvVarIdx_def)
next
  fix x y :: EnvVar and us vs :: "EnvVar list"
  assume "ev_Name x \<notin> ev_Name ` set us" and y: "ev_Name y = ev_Name x"
  then have "IndexFunc (\<lambda>e. ev_Name e = ev_Name x) (us @ y # vs) = Some (length us)"
    by (intro IndexFunc_append_hit) (simp, metis image_eqI)
  with y show "addOrReplaceEnvironmentVariable x (us @ y # vs) = us @ env_norm x # vs"
    by (cases x; cases y)
      (simp add: addOrReplaceEnvironmentVariable_def findEnvVarIdx_def
        replaceExistingEnvironmentVariable_def env_norm_def)
next
  show "ev_Name (env_norm x) = ev_Name x" for x by (simp add: env_norm_def)
  show "removeEnvironmentVariable n xs = filter (\<lambda>y. ev_Name y \<noteq> n) xs" for n xs
    by (simp add: removeEnvironmentVariable_def DeleteFunc_def)
  show "GetEnvVar n xs = find (\<lambda>y. ev_Name y = n) xs" for n xs by (rule GetEnvVar_find)
qed

text \<open>The predicates on indices, as predicates on the variable found.\<close>

definition is_set :: "EnvVar option \<Rightarrow> bool" where
  "is_set ev \<longleftrightarrow> \<not> IsEnvVarUnsetOrEmpty ev"

definition has_value :: "string \<Rightarrow> EnvVar option \<Rightarrow> bool" where
  "has_value v ev \<longleftrightarrow> (\<exists>e. ev = Some e \<and> ev_ValueFrom e = None \<and> TrimSpace (ev_Value e) = v)"

definition is_operator_endpoint :: "PossibleCollectorUrls \<Rightarrow> EnvVar option \<Rightarrow> bool" where
  "is_operator_endpoint urls ev \<longleftrightarrow>
     (\<exists>e. ev = Some e \<and> ev_ValueFrom e = None \<and>
        (TrimSpace (ev_Value e) = pcu_ServiceBaseUrl urls \<or>
         nodeLocalCollectorEndpointRegex (TrimSpace (ev_Value e))))"

lemma has_value_code [code]:
  "has_value v ev =
     (case ev of None \<Rightarrow> False | Some e \<Rightarrow> ev_ValueFrom e = None \<and> TrimSpace (ev_Value e) = v)"
  by (simp add: has_value_def split: option.split)

lemma is_operator_endpoint_code [code]:
  "is_operator_endpoint urls ev =
     (case ev of
        None \<Rightarrow> False
      | Some e \<Rightarrow> ev_ValueFrom e = None \<and>
          (TrimSpace (ev_Value e) = pcu_ServiceBaseUrl urls \<or>
           nodeLocalCollectorEndpointRegex (TrimSpace (ev_Value e))))"
  by (simp add: is_operator_endpoint_def split: option.split)

lemma fst_envVarIsSetAndNotEmpty: "fst (envVarIsSetAndNotEmpty env n) = is_set (GetEnvVar n env)"
  by (auto simp: envVarIsSetAndNotEmpty_def findEnvVarIdx_def GetEnvVar_def is_set_def
      IsEnvVarUnsetOrEmpty_def split: option.split)

lemma snd_envVarIsSetAndNotEmpty: "snd (envVarIsSetAndNotEmpty env n) = findEnvVarIdx env n"
  by (simp add: envVarIsSetAndNotEmpty_def split: option.split)

lemma envVarHasValue_find: "envVarHasValue env (findEnvVarIdx env n) v = has_value v (GetEnvVar n env)"
  by (simp add: envVarHasValue_def findEnvVarIdx_def GetEnvVar_def has_value_def split: option.split)

lemma isOperatorCollectorEndpoint_find:
  "isOperatorCollectorEndpoint env (findEnvVarIdx env n) urls =
     is_operator_endpoint urls (GetEnvVar n env)"
  by (auto simp: isOperatorCollectorEndpoint_def findEnvVarIdx_def GetEnvVar_def
      is_operator_endpoint_def Let_def split: option.split)

lemmas env_lookups =
  fst_envVarIsSetAndNotEmpty snd_envVarIsSetAndNotEmpty envVarHasValue_find
  isOperatorCollectorEndpoint_find case_prod_unfold

lemma is_set_simps [simp]:
  "\<not> is_set None" "is_set (Some (fieldRefVar n p))"
  "is_set (Some (envVar n v)) \<longleftrightarrow> TrimSpace v \<noteq> []"
  by (simp_all add: is_set_def IsEnvVarUnsetOrEmpty_def envVar_def fieldRefVar_def)

lemma has_value_simps [simp]:
  "\<not> has_value v None" "has_value v (Some (envVar n w)) \<longleftrightarrow> TrimSpace w = v"
  "\<not> has_value v (Some (fieldRefVar n p))"
  by (simp_all add: has_value_def envVar_def fieldRefVar_def)

section \<open>The contract of an instrumentation step\<close>

text \<open>
  A step of the instrumentation owns a set of names: it keeps all other variables as they are and in
  their order, it does not put anything before a variable it does not own, and it has nothing left
  to do on a container in which the variables it owns and the variables it reads are as the step
  itself leaves them.
\<close>

locale env_stage =
  fixes stage :: "EnvVar list \<Rightarrow> EnvVar list"
    and owns :: "string set"
    and reads :: "string set"
  assumes frame: "filter (\<lambda>e. ev_Name e \<notin> owns) (stage env) = filter (\<lambda>e. ev_Name e \<notin> owns) env"
    and keeps_head: "ev_Name x \<notin> owns \<Longrightarrow> \<exists>rest. stage (x # env) = x # rest"
    and settled:
      "(\<And>n. n \<in> owns \<union> reads \<Longrightarrow> GetEnvVar n env' = GetEnvVar n (stage env)) \<Longrightarrow> stage env' = env'"
begin

lemma filter_stage:
  assumes "\<And>e. P e \<Longrightarrow> ev_Name e \<notin> owns"
  shows "filter P (stage env) = filter P env"
proof -
  have P: "filter P = filter P \<circ> filter (\<lambda>e. ev_Name e \<notin> owns)"
    using assms by (auto simp: fun_eq_iff intro!: filter_cong)
  show ?thesis by (subst (1 2) P) (simp only: comp_apply frame)
qed

lemma get_stage: "n \<notin> owns \<Longrightarrow> GetEnvVar n (stage env) = GetEnvVar n env"
proof -
  assume n: "n \<notin> owns"
  have "GetEnvVar n xs = GetEnvVar n (filter (\<lambda>e. ev_Name e \<notin> owns) xs)" for xs
    unfolding GetEnvVar_find using n by (induction xs) auto
  then show ?thesis by (metis frame)
qed

lemma names_stage: "n \<notin> owns \<Longrightarrow> n \<in> ev_Name ` set (stage env) \<longleftrightarrow> n \<in> ev_Name ` set env"
  using get_stage[of n env] env.get_None_iff by metis

lemma frame_superset:
  "owns \<subseteq> M \<Longrightarrow> filter (\<lambda>e. ev_Name e \<notin> M) (stage env) = filter (\<lambda>e. ev_Name e \<notin> M) env"
  by (rule filter_stage) auto

lemma idempotent: "stage (stage env) = stage env"
  by (rule settled) simp

end

end
