(* ===== verification/ContainerEnv.thy ===== *)
theory ContainerEnv
  imports Labels EnvVars
begin

text \<open>
  The instrumentation of the environment of one container: \<open>addEnvironmentVariables\<close> of
  \<open>internal/workloads/workload_modifier.go\<close> and the functions it calls, in the order of the calls.
  Every function takes \<open>container.Env\<close> and returns the new slice; a function that can report
  instrumentation issues also takes and returns the list of issues. Logging is left out. The parts of
  \<open>addEnvironmentVariables\<close> that are written inline in Go are definitions of their own here:
  \<open>addInjectorEnvironmentVariables\<close>, \<open>addServiceAttributesFromLabels\<close>,
  \<open>addResourceAttributesFromAnnotations\<close> and \<open>addInjectorLogLevel\<close>.
\<close>

record ResourceModifier =
  rm_clusterInstrumentationConfig :: ClusterInstrumentationConfig
  rm_namespaceInstrumentationConfig :: NamespaceInstrumentationConfig
  rm_resolvedInstrumentationDelivery :: ResolvedInstrumentationDelivery
  rm_actor :: string

definition NewResourceModifier ::
  "ClusterInstrumentationConfig \<Rightarrow> NamespaceInstrumentationConfig \<Rightarrow> string \<Rightarrow> ResourceModifier" where
  "NewResourceModifier c ns actor =
     \<lparr>rm_clusterInstrumentationConfig = c,
      rm_namespaceInstrumentationConfig = ns,
      rm_resolvedInstrumentationDelivery = resolveInstrumentationDelivery c,
      rm_actor = actor\<rparr>"

section \<open>Legacy variables\<close>

definition removeEntryFromLdPreload :: "string \<Rightarrow> EnvVar list \<Rightarrow> EnvVar list" where
  "removeEntryFromLdPreload ldPreloadEntry env =
     (case findEnvVarIdx env envVarLdPreloadName of
        None \<Rightarrow> env
      | Some idx \<Rightarrow>
          (let previousValue = ev_Value (env ! idx)
           in if previousValue = [] \<and> ev_ValueFrom (env ! idx) \<noteq> None then env
              else if TrimSpace previousValue = ldPreloadEntry then slices_Delete idx (idx + 1) env
              else if \<not> Contains previousValue ldPreloadEntry then env
              else
                (let separator = (if Contains previousValue '':'' then CHR '':'' else CHR '' '');
                     libraries = map TrimSpace (Split previousValue separator);
                     remaining = DeleteFunc (\<lambda>lib. TrimSpace lib = ldPreloadEntry \<or> lib = []) libraries
                 in env[idx := (env ! idx)\<lparr>ev_Value := Join remaining [separator]\<rparr>])))"

definition removeLegacyEnvVarNodeOptions :: "EnvVar list \<Rightarrow> EnvVar list" where
  "removeLegacyEnvVarNodeOptions env =
     (case findEnvVarIdx env legacyEnvVarNodeOptionsName of
        None \<Rightarrow> env
      | Some idx \<Rightarrow>
          (let previousValue = ev_Value (env ! idx)
           in if previousValue = [] \<and> ev_ValueFrom (env ! idx) \<noteq> None then env
              else if \<not> Contains previousValue legacyEnvVarNodeOptionsValue then env
              else if TrimSpace previousValue = legacyEnvVarNodeOptionsValue
              then slices_Delete idx (idx + 1) env
              else
                (let newValue1 = ReplaceAll previousValue (legacyEnvVarNodeOptionsValue @ '' '') [];
                     newValue2 = ReplaceAll newValue1 ('' '' @ legacyEnvVarNodeOptionsValue) [];
                     newValue = ReplaceAll newValue2 legacyEnvVarNodeOptionsValue []
                 in if TrimSpace newValue = [] then slices_Delete idx (idx + 1) env
                    else env[idx := (env ! idx)\<lparr>ev_Value := newValue\<rparr>])))"

definition removeLegacyEnvironmentVariables :: "EnvVar list \<Rightarrow> EnvVar list" where
  "removeLegacyEnvironmentVariables env =
     removeEntryFromLdPreload envVarLdPreloadLegacyValue
       (fold removeEnvironmentVariable legacy_env_var_names (removeLegacyEnvVarNodeOptions env))"

section \<open>Export settings\<close>

definition prependDash0NodeIp :: "EnvVar list \<Rightarrow> EnvVar list" where
  "prependDash0NodeIp env =
     fieldRefVar EnvVarDash0NodeIp ''status.hostIP'' # removeEnvironmentVariable EnvVarDash0NodeIp env"

definition otelExportEnvVarsCanBeUpdatedForContainer ::
  "EnvVar list \<Rightarrow> ClusterInstrumentationConfig \<Rightarrow> bool" where
  "otelExportEnvVarsCanBeUpdatedForContainer env c =
     (let (endpointIsSet, endpointIdx) = envVarIsSetAndNotEmpty env envVarOtelExporterOtlpEndpointName;
          (protocolIsSet, protocolIdx) = envVarIsSetAndNotEmpty env envVarOtelExporterOtlpProtocolName
      in if \<not> endpointIsSet \<and> \<not> protocolIsSet then True
         else if \<not> endpointIsSet \<or>
                 \<not> isOperatorCollectorEndpoint env endpointIdx (cic_PossibleCollectorUrls c) then False
         else if protocolIsSet \<and> \<not> envVarHasValue env protocolIdx defaultOtelExporterOtlpProtocol
         then False
         else if envVarHasValue env endpointIdx (cic_OTelCollectorBaseUrl c) \<and> protocolIsSet then False
         else True)"

definition otelExporterOtlpEnvVarsAlreadyHaveDesiredValues :: "EnvVar list \<Rightarrow> string \<Rightarrow> bool" where
  "otelExporterOtlpEnvVarsAlreadyHaveDesiredValues env otelExporterOtlpEndpointValue =
     (let (endpointIsSet, endpointIdx) = envVarIsSetAndNotEmpty env envVarOtelExporterOtlpEndpointName;
          (protocolIsSet, protocolIdx) = envVarIsSetAndNotEmpty env envVarOtelExporterOtlpProtocolName
      in endpointIsSet \<and> envVarHasValue env endpointIdx otelExporterOtlpEndpointValue \<and>
         protocolIsSet \<and> envVarHasValue env protocolIdx defaultOtelExporterOtlpProtocol)"

definition otelExporterOtlpNoOverwriteMsg :: string where
  "otelExporterOtlpNoOverwriteMsg =
     ''Dash0 will not set '' @ envVarOtelExporterOtlpEndpointName @ ''/'' @
     envVarOtelExporterOtlpProtocolName @
     '' since the container already has at least one of those environment variables set, this container'' @
     [CHR 0x27] @ ''s telemetry will be routed according to the existing settings.''"

definition addOrUpdateOtelExporterOtlpEnvVars ::
  "ClusterInstrumentationConfig \<Rightarrow> string \<Rightarrow> EnvVar list \<times> string list \<Rightarrow> EnvVar list \<times> string list" where
  "addOrUpdateOtelExporterOtlpEnvVars c endpointValue st =
     (let (env, issues) = st
      in if otelExportEnvVarsCanBeUpdatedForContainer env c
         then (addOrReplaceEnvironmentVariable
                 (envVar envVarOtelExporterOtlpProtocolName defaultOtelExporterOtlpProtocol)
                 (addOrReplaceEnvironmentVariable
                    (envVar envVarOtelExporterOtlpEndpointName endpointValue) env), issues)
         else if otelExporterOtlpEnvVarsAlreadyHaveDesiredValues env endpointValue then (env, issues)
         else (env, issues @ [otelExporterOtlpNoOverwriteMsg]))"

definition removeOtelLogsExporterEnvVar ::
  "NamespaceInstrumentationConfig \<Rightarrow> EnvVar list \<Rightarrow> EnvVar list" where
  "removeOtelLogsExporterEnvVar ns env =
     (if \<not> nic_PreviousLogCollectionEnabled ns then env
      else case findEnvVarIdx env envVarOtelLogsExporterName of
        None \<Rightarrow> env
      | Some idx \<Rightarrow>
          if \<not> envVarHasValue env (Some idx) envVarOtelLogsExporterNoneValue then env
          else removeEnvironmentVariable envVarOtelLogsExporterName env)"

definition addOtelLogsExporterEnvVar ::
  "NamespaceInstrumentationConfig \<Rightarrow> EnvVar list \<Rightarrow> EnvVar list" where
  "addOtelLogsExporterEnvVar ns env =
     (if \<not> nic_LogCollectionEnabled ns then removeOtelLogsExporterEnvVar ns env
      else if fst (envVarIsSetAndNotEmpty env envVarOtelLogsExporterName) then env
      else addOrReplaceEnvironmentVariable
             (envVar envVarOtelLogsExporterName envVarOtelLogsExporterNoneValue) env)"

section \<open>The injector\<close>

definition ldPreloadValueFromMsg :: string where
  "ldPreloadValueFromMsg =
     ''Dash0 cannot prepend anything to the environment variable '' @ envVarLdPreloadName @
     '' as it is specified via ValueFrom, this container will not be instrumented to send telemetry to Dash0.''"

definition addOrAppendToLdPreloadEnvVar ::
  "EnvVar list \<times> string list \<Rightarrow> EnvVar list \<times> string list" where
  "addOrAppendToLdPreloadEnvVar st =
     (let (env, issues) = st
      in case findEnvVarIdx env envVarLdPreloadName of
           None \<Rightarrow> (env @ [envVar envVarLdPreloadName envVarLdPreloadValue], issues)
         | Some idx \<Rightarrow>
             (let value = ev_Value (env ! idx)
              in if value = [] \<and> ev_ValueFrom (env ! idx) \<noteq> None
                 then (env, issues @ [ldPreloadValueFromMsg])
                 else if Contains value envVarLdPreloadValue then (env, issues)
                 else if TrimSpace value = []
                 then (env[idx := (env ! idx)\<lparr>ev_Value := envVarLdPreloadValue\<rparr>], issues)
                 else (env[idx := (env ! idx)\<lparr>ev_Value := envVarLdPreloadValue @ '' '' @ value\<rparr>], issues)))"

definition otelInjectorConfigFileFor :: "ClusterInstrumentationConfig \<Rightarrow> string" where
  "otelInjectorConfigFileFor c =
     (if cic_EnablePythonAutoInstrumentation c \<and> cic_EnableRubyAutoInstrumentation c
      then ''/__otel_auto_instrumentation/injector/injector-with-python-and-ruby.conf''
      else if cic_EnablePythonAutoInstrumentation c
      then ''/__otel_auto_instrumentation/injector/injector-with-python.conf''
      else if cic_EnableRubyAutoInstrumentation c
      then ''/__otel_auto_instrumentation/injector/injector-with-ruby.conf''
      else ''/__otel_auto_instrumentation/injector/injector.conf'')"

definition otelPropagatorsCanBeUpdatedForContainer ::
  "EnvVar list \<Rightarrow> NamespaceInstrumentationConfig \<Rightarrow> bool" where
  "otelPropagatorsCanBeUpdatedForContainer env ns =
     (let envVarOnContainer = GetEnvVar OtelPropagatorsEnvVarName env
      in if envVarOnContainer \<noteq> None \<and> ev_ValueFrom (the envVarOnContainer) \<noteq> None then False
         else if IsEmpty (nic_TraceContextPropagators ns)
         then (if IsEnvVarUnsetOrEmpty envVarOnContainer then False
               else if IsEmpty (nic_PreviousTraceContextPropagators ns) then False
               else TrimSpace (ev_Value (the envVarOnContainer)) =
                    TrimSpace (the (nic_PreviousTraceContextPropagators ns)))
         else if IsEnvVarUnsetOrEmpty envVarOnContainer then True
         else if TrimSpace (ev_Value (the envVarOnContainer)) =
                 TrimSpace (the (nic_TraceContextPropagators ns)) then False
         else if IsEmpty (nic_PreviousTraceContextPropagators ns) then False
         else TrimSpace (ev_Value (the envVarOnContainer)) =
              TrimSpace (the (nic_PreviousTraceContextPropagators ns)))"

definition addOTelPropagatorsEnvVar ::
  "NamespaceInstrumentationConfig \<Rightarrow> EnvVar list \<Rightarrow> EnvVar list" where
  "addOTelPropagatorsEnvVar ns env =
     (if otelPropagatorsCanBeUpdatedForContainer env ns
      then if IsEmpty (nic_TraceContextPropagators ns)
           then removeEnvironmentVariable OtelPropagatorsEnvVarName env
           else addOrReplaceEnvironmentVariable
                  (envVar OtelPropagatorsEnvVarName (TrimSpace (the (nic_TraceContextPropagators ns)))) env
      else env)"

definition captureSqlQueryParametersCanBeUpdatedForContainer ::
  "EnvVar list \<Rightarrow> string \<Rightarrow> NamespaceInstrumentationConfig \<Rightarrow> bool" where
  "captureSqlQueryParametersCanBeUpdatedForContainer env envVarName ns =
     (let envVarOnContainer = GetEnvVar envVarName env;
          desiredOn = ReadBoolPointerWithDefault (nic_CaptureSqlQueryParameters ns) False;
          previousOn = ReadBoolPointerWithDefault (nic_PreviousCaptureSqlQueryParameters ns) False
      in if envVarOnContainer \<noteq> None \<and> ev_ValueFrom (the envVarOnContainer) \<noteq> None then False
         else if \<not> desiredOn
         then (if IsEnvVarUnsetOrEmpty envVarOnContainer then False
               else if \<not> previousOn then False
               else TrimSpace (ev_Value (the envVarOnContainer)) = captureSqlQueryParametersValueTrue)
         else if IsEnvVarUnsetOrEmpty envVarOnContainer then True
         else False)"

definition addCaptureSqlQueryParametersEnvVar ::
  "NamespaceInstrumentationConfig \<Rightarrow> EnvVar list \<Rightarrow> EnvVar list" where
  "addCaptureSqlQueryParametersEnvVar ns env =
     (let desiredOn = ReadBoolPointerWithDefault (nic_CaptureSqlQueryParameters ns) False
      in fold (\<lambda>envVarName env.
            if \<not> captureSqlQueryParametersCanBeUpdatedForContainer env envVarName ns then env
            else if desiredOn
            then addOrReplaceEnvironmentVariable (envVar envVarName captureSqlQueryParametersValueTrue) env
            else removeEnvironmentVariable envVarName env)
          CaptureSqlQueryParametersEnvVarNames env)"

definition addInjectorEnvironmentVariables :: "string \<Rightarrow> EnvVar list \<Rightarrow> EnvVar list" where
  "addInjectorEnvironmentVariables containerName env0 =
     (let env1 = addOrReplaceEnvironmentVariable
                   (fieldRefVar envVarOTelInjectorNamespaceName ''metadata.namespace'') env0;
          env2 = addOrReplaceEnvironmentVariable
                   (fieldRefVar envVarOTelInjectorPodName ''metadata.name'') env1;
          env3 = addOrReplaceEnvironmentVariable
                   (fieldRefVar envVarOTelInjectorPodUidName ''metadata.uid'') env2
      in addOrReplaceEnvironmentVariable (envVar envVarOTelInjectorContainerName containerName) env3)"

section \<open>Resource attributes\<close>

definition AppKubernetesIoNameLabel :: string where
  "AppKubernetesIoNameLabel = ''app.kubernetes.io/name''"
definition AppKubernetesIoPartOfLabel :: string where
  "AppKubernetesIoPartOfLabel = ''app.kubernetes.io/part-of''"
definition AppKubernetesIoVersionLabel :: string where
  "AppKubernetesIoVersionLabel = ''app.kubernetes.io/version''"

definition serviceName :: string where "serviceName = ''service.name''"
definition serviceNamespace :: string where "serviceNamespace = ''service.namespace''"
definition serviceVersion :: string where "serviceVersion = ''service.version''"

definition serviceAttributes :: "string list" where
  "serviceAttributes = [serviceName, serviceNamespace, serviceVersion]"

definition resourcesOpenTelemetryIoLabelPrefix :: string where
  "resourcesOpenTelemetryIoLabelPrefix = ''resource.opentelemetry.io/''"

record containerHasServiceAttributes =
  hsa_serviceName :: bool
  hsa_serviceNamespace :: bool
  hsa_serviceVersion :: bool

definition checkContainerForServiceAttributes :: "EnvVar list \<Rightarrow> containerHasServiceAttributes" where
  "checkContainerForServiceAttributes env =
     (let otelServiceName = GetEnvVar OtelServiceNameEnvVarName env;
          otelResourceAttributes = GetEnvVar OtelResourceAttributesEnvVarName env;
          keyValuePairs =
            (case otelResourceAttributes of
               None \<Rightarrow> []
             | Some e \<Rightarrow>
                 if ev_ValueFrom e = None \<and> TrimSpace (ev_Value e) \<noteq> []
                 then map (\<lambda>keyValuePair. ReplaceAll (TrimSpace keyValuePair) '' '' [])
                        (Split (ev_Value e) CHR '','')
                 else [])
      in \<lparr>hsa_serviceName =
            (case otelServiceName of
               None \<Rightarrow> False
             | Some e \<Rightarrow> ev_ValueFrom e \<noteq> None \<or> TrimSpace (ev_Value e) \<noteq> []) \<or>
            list_ex (\<lambda>kv. HasPrefix kv ''service.name='') keyValuePairs,
          hsa_serviceNamespace = list_ex (\<lambda>kv. HasPrefix kv ''service.namespace='') keyValuePairs,
          hsa_serviceVersion = list_ex (\<lambda>kv. HasPrefix kv ''service.version='') keyValuePairs\<rparr>)"

definition addEnvVarFromLabelFieldSelector :: "string \<Rightarrow> string \<Rightarrow> EnvVar list \<Rightarrow> EnvVar list" where
  "addEnvVarFromLabelFieldSelector envVarName labelName env =
     addOrReplaceEnvironmentVariable
       (fieldRefVar envVarName (''metadata.labels['' @ [CHR 0x27] @ labelName @ [CHR 0x27] @ '']'')) env"

definition addServiceAttributesFromLabels ::
  "ObjectMeta \<Rightarrow> ObjectMeta \<Rightarrow> containerHasServiceAttributes \<Rightarrow> EnvVar list \<Rightarrow> EnvVar list" where
  "addServiceAttributesFromLabels workloadMeta podMeta has env0 =
     (let podLabel = map_of (om_Labels podMeta);
          workloadLabel = map_of (om_Labels workloadMeta)
      in if podLabel AppKubernetesIoNameLabel \<noteq> None
         then
           (let env1 = (if \<not> hsa_serviceName has
                        then addEnvVarFromLabelFieldSelector envVarOTelInjectorServiceName
                               AppKubernetesIoNameLabel env0 else env0);
                env2 = (if \<not> hsa_serviceNamespace has \<and> podLabel AppKubernetesIoPartOfLabel \<noteq> None
                        then addEnvVarFromLabelFieldSelector envVarOTelInjectorServiceNamespace
                               AppKubernetesIoPartOfLabel env1 else env1)
            in if \<not> hsa_serviceVersion has \<and> podLabel AppKubernetesIoVersionLabel \<noteq> None
               then addEnvVarFromLabelFieldSelector envVarOTelInjectorServiceVersionName
                      AppKubernetesIoVersionLabel env2 else env2)
         else case workloadLabel AppKubernetesIoNameLabel of
           None \<Rightarrow> env0
         | Some nameFromWorkloadMeta \<Rightarrow>
             (let env1 = (if \<not> hsa_serviceName has
                          then addOrReplaceEnvironmentVariable
                                 (envVar envVarOTelInjectorServiceName nameFromWorkloadMeta) env0
                          else env0);
                  env2 = (if \<not> hsa_serviceNamespace has
                          then (case workloadLabel AppKubernetesIoPartOfLabel of
                                  None \<Rightarrow> env1
                                | Some partOf \<Rightarrow>
                                    addOrReplaceEnvironmentVariable
                                      (envVar envVarOTelInjectorServiceNamespace partOf) env1)
                          else env1)
              in if \<not> hsa_serviceVersion has
                 then (case workloadLabel AppKubernetesIoVersionLabel of
                         None \<Rightarrow> env2
                       | Some version \<Rightarrow>
                           addOrReplaceEnvironmentVariable
                             (envVar envVarOTelInjectorServiceVersionName version) env2)
                 else env2))"

text \<open>The two maps are updated in place in Go; here they are threaded through as a pair.\<close>

definition deriveResourceAttributesFromAnnotations ::
  "stringmap \<Rightarrow> stringmap \<times> stringmap \<Rightarrow> stringmap \<times> stringmap" where
  "deriveResourceAttributesFromAnnotations annotations acc =
     fold (\<lambda>(annotationName, annotationValue) (resourceAttributes, fromAnnotation).
         case CutPrefix annotationName resourcesOpenTelemetryIoLabelPrefix of
           None \<Rightarrow> (resourceAttributes, fromAnnotation)
         | Some resourceAttributeKey \<Rightarrow>
             (AList.update resourceAttributeKey annotationValue resourceAttributes,
              fold (\<lambda>k sa. if resourceAttributeKey = k then AList.update k annotationValue sa else sa)
                serviceAttributes fromAnnotation))
       annotations acc"

definition addServiceAttributeFromAnnotation ::
  "stringmap \<Rightarrow> string \<Rightarrow> bool \<Rightarrow> string \<Rightarrow> EnvVar list \<Rightarrow> EnvVar list" where
  "addServiceAttributeFromAnnotation fromAnnotation attribute alreadySet envVarName env =
     (case map_of fromAnnotation attribute of
        None \<Rightarrow> env
      | Some value \<Rightarrow>
          if \<not> alreadySet then addOrReplaceEnvironmentVariable (envVar envVarName value) env else env)"

definition addResourceAttributesFromAnnotations ::
  "ObjectMeta \<Rightarrow> ObjectMeta \<Rightarrow> containerHasServiceAttributes \<Rightarrow> EnvVar list \<Rightarrow> EnvVar list" where
  "addResourceAttributesFromAnnotations workloadMeta podMeta has env0 =
     (let (resourceAttributes, fromAnnotation) =
            deriveResourceAttributesFromAnnotations (om_Annotations podMeta)
              (deriveResourceAttributesFromAnnotations (om_Annotations workloadMeta) ([], []));
          env1 = (if resourceAttributes \<noteq> []
                  then addOrReplaceEnvironmentVariable
                         (envVar envVarOTelInjectorResourceAttributesName
                            (Join (map (\<lambda>k. k @ ''='' @ the (map_of resourceAttributes k))
                                     (sort (map fst resourceAttributes))) '','')) env0
                  else env0);
          env2 = addServiceAttributeFromAnnotation fromAnnotation serviceName
                   (hsa_serviceName has) envVarOTelInjectorServiceName env1;
          env3 = addServiceAttributeFromAnnotation fromAnnotation serviceNamespace
                   (hsa_serviceNamespace has) envVarOTelInjectorServiceNamespace env2
      in addServiceAttributeFromAnnotation fromAnnotation serviceVersion
           (hsa_serviceVersion has) envVarOTelInjectorServiceVersionName env3)"

section \<open>The injector log level\<close>

definition migrateLegacyInjectorLogLevel :: "EnvVar list \<Rightarrow> EnvVar list" where
  "migrateLegacyInjectorLogLevel env =
     (let (legacyIsSet, legacyIdx) = envVarIsSetAndNotEmpty env legacyEnvVarDash0InjectorLogLevel;
          otelIsSet = fst (envVarIsSetAndNotEmpty env otelInjectorLogLevelEnvVarName)
      in if legacyIsSet \<and> \<not> otelIsSet
         then removeEnvironmentVariable legacyEnvVarDash0InjectorLogLevel
                (addOrReplaceEnvironmentVariable
                   (envVar otelInjectorLogLevelEnvVarName (ev_Value (env ! the legacyIdx))) env)
         else env)"

definition addInjectorLogLevel :: "ClusterInstrumentationConfig \<Rightarrow> EnvVar list \<Rightarrow> EnvVar list" where
  "addInjectorLogLevel c env =
     migrateLegacyInjectorLogLevel
       (if cic_InstrumentationDebug c
        then addOrReplaceEnvironmentVariable (envVar otelInjectorLogLevelEnvVarName ''debug'') env
        else env)"

section \<open>All of it\<close>

definition addEnvironmentVariables ::
  "ResourceModifier \<Rightarrow> string \<Rightarrow> ObjectMeta \<Rightarrow> ObjectMeta \<Rightarrow> EnvVar list \<Rightarrow> EnvVar list \<times> string list" where
  "addEnvironmentVariables m containerName workloadMeta podMeta env0 =
     (let c = rm_clusterInstrumentationConfig m;
          ns = rm_namespaceInstrumentationConfig m;
          collectorBaseUrl = cic_OTelCollectorBaseUrl c;
          env1 = removeLegacyEnvironmentVariables env0;
          env2 = prependDash0NodeIp env1;
          env3 = addOrReplaceEnvironmentVariable
                   (envVar envVarDash0CollectorBaseUrlName collectorBaseUrl) env2;
          (env4, issues4) = addOrUpdateOtelExporterOtlpEnvVars c collectorBaseUrl (env3, []);
          env5 = addOtelLogsExporterEnvVar ns env4;
          (env6, issues6) = addOrAppendToLdPreloadEnvVar (env5, issues4);
          env7 = addOrReplaceEnvironmentVariable
                   (envVar envVarOtelInjectorConfigFileName (otelInjectorConfigFileFor c)) env6;
          env8 = addOTelPropagatorsEnvVar ns env7;
          env9 = addCaptureSqlQueryParametersEnvVar ns env8;
          env10 = addInjectorEnvironmentVariables containerName env9;
          hasServiceAttributes = checkContainerForServiceAttributes env10;
          env11 = addServiceAttributesFromLabels workloadMeta podMeta hasServiceAttributes env10;
          env12 = addResourceAttributesFromAnnotations workloadMeta podMeta hasServiceAttributes env11
      in (addInjectorLogLevel c env12, issues6))"

end
