(* ===== verification/EnvStages.thy ===== *)
theory EnvStages
  imports ContainerEnv
begin

text \<open>
  The steps of \<open>addEnvironmentVariables\<close> fulfil the contract \<open>env_stage\<close>: each owns the variables it
  writes, keeps all others and is settled once its own variables have the values it writes. What a
  step decides is expressed by lookups (\<open>GetEnvVar\<close>) instead of indices.
\<close>

section \<open>The names are different\<close>

definition managed_env_var_names :: "string list" where
  "managed_env_var_names =
     [EnvVarDash0NodeIp, envVarDash0CollectorBaseUrlName, envVarOtelExporterOtlpEndpointName,
      envVarOtelExporterOtlpProtocolName, envVarOtelLogsExporterName, envVarLdPreloadName,
      envVarOtelInjectorConfigFileName, OtelPropagatorsEnvVarName, envVarJdbcCaptureName,
      envVarSqlClientCaptureName, envVarEfCoreCaptureName, envVarOTelInjectorNamespaceName,
      envVarOTelInjectorPodName, envVarOTelInjectorPodUidName, envVarOTelInjectorContainerName,
      envVarOTelInjectorServiceName, envVarOTelInjectorServiceNamespace,
      envVarOTelInjectorServiceVersionName, envVarOTelInjectorResourceAttributesName,
      otelInjectorLogLevelEnvVarName, legacyEnvVarDash0InjectorLogLevel, legacyEnvVarNodeOptionsName]"

definition read_env_var_names :: "string list" where
  "read_env_var_names = [OtelServiceNameEnvVarName, OtelResourceAttributesEnvVarName]"

lemma env_var_names_distinct:
  "distinct (managed_env_var_names @ read_env_var_names @ legacy_env_var_names)"
  by code_simp

lemma legacy_names_disjoint:
  "set managed_env_var_names \<inter> set legacy_env_var_names = {}"
  "set read_env_var_names \<inter> set legacy_env_var_names = {}"
  using env_var_names_distinct by auto

lemma symbolic_names_distinct: "distinct (managed_env_var_names @ read_env_var_names)"
  using env_var_names_distinct by auto

lemma symbolic_names_distinct_rev: "distinct (rev (managed_env_var_names @ read_env_var_names))"
  using symbolic_names_distinct by (subst distinct_rev)

lemmas env_var_names_neq [simp] =
  symbolic_names_distinct[unfolded managed_env_var_names_def read_env_var_names_def, simplified]
  symbolic_names_distinct_rev[unfolded managed_env_var_names_def read_env_var_names_def, simplified]

lemmas env_var_names_not_legacy [simp] =
  legacy_names_disjoint(1)[unfolded managed_env_var_names_def, simplified]
  legacy_names_disjoint(2)[unfolded read_env_var_names_def, simplified]

section \<open>Updates in place\<close>

text \<open>Rewrites the first variable of a name, or drops it if the rewriting function returns nothing.\<close>

fun map_first :: "(EnvVar \<Rightarrow> EnvVar option) \<Rightarrow> string \<Rightarrow> EnvVar list \<Rightarrow> EnvVar list" where
  "map_first f n [] = []"
| "map_first f n (e # es) =
     (if ev_Name e = n then (case f e of None \<Rightarrow> es | Some e' \<Rightarrow> e' # es) else e # map_first f n es)"

lemma map_first_absent: "n \<notin> ev_Name ` set env \<Longrightarrow> map_first f n env = env"
  by (induction env) auto

lemma map_first_hit:
  "n \<notin> ev_Name ` set us \<Longrightarrow> ev_Name y = n \<Longrightarrow>
   map_first f n (us @ y # vs) = us @ (case f y of None \<Rightarrow> vs | Some y' \<Rightarrow> y' # vs)"
  by (induction us) auto

lemma map_first_fixpoint: "GetEnvVar n env = Some e \<Longrightarrow> f e = Some e \<Longrightarrow> map_first f n env = env"
  by (induction env) (auto simp: env.get_Cons env.get_Nil split: if_splits)

lemma get_map_first:
  "(\<And>e. ev_Name (g e) = ev_Name e) \<Longrightarrow>
   GetEnvVar n (map_first (Some \<circ> g) n env) = map_option g (GetEnvVar n env)"
  by (induction env) (auto simp: env.get_Cons env.get_Nil)

lemma filter_map_first:
  "(\<And>e e'. f e = Some e' \<Longrightarrow> ev_Name e' = ev_Name e) \<Longrightarrow> (\<And>e. ev_Name e = n \<Longrightarrow> \<not> P e) \<Longrightarrow>
   filter P (map_first f n env) = filter P env"
  by (induction env) (auto split: option.split)

lemma findEnvVarIdx_cases:
  obtains (absent) "findEnvVarIdx env n = None" "n \<notin> ev_Name ` set env" "GetEnvVar n env = None"
  | (present) us y vs where "findEnvVarIdx env n = Some (length us)" "env = us @ y # vs"
      "ev_Name y = n" "n \<notin> ev_Name ` set us" "GetEnvVar n env = Some y"
proof (cases "findEnvVarIdx env n")
  case None
  then have "GetEnvVar n env = None" by (simp add: findEnvVarIdx_def GetEnvVar_def)
  with None show ?thesis using absent env.get_None_iff by blast
next
  case (Some idx)
  then obtain us y vs where "env = us @ y # vs" "length us = idx" "ev_Name y = n"
      "\<forall>u\<in>set us. ev_Name u \<noteq> n"
    unfolding findEnvVarIdx_def by (blast dest: IndexFunc_Some_split)
  moreover from this have "n \<notin> ev_Name ` set us" by auto
  ultimately show ?thesis
    using Some env.get_hit[of n us y vs] by (intro present[of us y vs]) auto
qed

lemma slices_Delete_hit: "slices_Delete (length us) (Suc (length us)) (us @ y # vs) = us @ vs"
  by (simp add: slices_Delete_def)

text \<open>The value of \<open>LD_PRELOAD\<close> without an entry.\<close>

definition ld_separator :: "string \<Rightarrow> char" where
  "ld_separator v = (if Contains v '':'' then CHR '':'' else CHR '' '')"

definition ld_without :: "string \<Rightarrow> EnvVar \<Rightarrow> EnvVar option" where
  "ld_without entry e =
     (if ev_Value e = [] \<and> ev_ValueFrom e \<noteq> None then Some e
      else if TrimSpace (ev_Value e) = entry then None
      else if \<not> Contains (ev_Value e) entry then Some e
      else Some (e\<lparr>ev_Value :=
        Join (filter (\<lambda>lib. lib \<noteq> entry \<and> lib \<noteq> [])
                (map TrimSpace (Split (ev_Value e) (ld_separator (ev_Value e)))))
          [ld_separator (ev_Value e)]\<rparr>))"

lemma removeEntryFromLdPreload_map_first:
  "removeEntryFromLdPreload entry env = map_first (ld_without entry) envVarLdPreloadName env"
proof (cases rule: findEnvVarIdx_cases[of env envVarLdPreloadName])
  case absent
  then show ?thesis by (simp add: removeEntryFromLdPreload_def map_first_absent)
next
  case (present us y vs)
  have trimmed: "filter (\<lambda>lib. TrimSpace lib \<noteq> entry \<and> lib \<noteq> []) (map TrimSpace xs) =
      filter (\<lambda>lib. lib \<noteq> entry \<and> lib \<noteq> []) (map TrimSpace xs)" for xs
    by (rule filter_cong) auto
  from present(2-4) show ?thesis
    using present(1)
    by (simp add: removeEntryFromLdPreload_def map_first_hit slices_Delete_hit ld_without_def
        ld_separator_def Let_def DeleteFunc_def trimmed)
qed

definition node_options_without :: "EnvVar \<Rightarrow> EnvVar option" where
  "node_options_without e =
     (if ev_Value e = [] \<and> ev_ValueFrom e \<noteq> None then Some e
      else if \<not> Contains (ev_Value e) legacyEnvVarNodeOptionsValue then Some e
      else if TrimSpace (ev_Value e) = legacyEnvVarNodeOptionsValue then None
      else
        (let v = ReplaceAll (ReplaceAll (ReplaceAll (ev_Value e) (legacyEnvVarNodeOptionsValue @ '' '') [])
                   ('' '' @ legacyEnvVarNodeOptionsValue) []) legacyEnvVarNodeOptionsValue []
         in if TrimSpace v = [] then None else Some (e\<lparr>ev_Value := v\<rparr>)))"

lemma removeLegacyEnvVarNodeOptions_map_first:
  "removeLegacyEnvVarNodeOptions env = map_first node_options_without legacyEnvVarNodeOptionsName env"
proof (cases rule: findEnvVarIdx_cases[of env legacyEnvVarNodeOptionsName])
  case absent
  then show ?thesis by (simp add: removeLegacyEnvVarNodeOptions_def map_first_absent)
next
  case (present us y vs)
  from present(2-4) show ?thesis
    using present(1)
    by (auto simp: removeLegacyEnvVarNodeOptions_def map_first_hit slices_Delete_hit
        node_options_without_def Let_def)
qed

lemma map_first_names [simp]:
  "ld_without entry e = Some e' \<Longrightarrow> ev_Name e' = ev_Name e"
  "node_options_without e = Some e' \<Longrightarrow> ev_Name e' = ev_Name e"
  by (auto simp: ld_without_def node_options_without_def Let_def split: if_splits)

section \<open>Writing a fixed list of variables\<close>

lemma filter_fold_del:
  "set ns \<subseteq> M \<Longrightarrow> filter (\<lambda>e. ev_Name e \<notin> M) (fold removeEnvironmentVariable ns env) =
   filter (\<lambda>e. ev_Name e \<notin> M) env"
  by (induction ns arbitrary: env) (auto simp: env.filter_del)

lemma names_fold_del:
  "ev_Name ` set (fold removeEnvironmentVariable ns env) = ev_Name ` set env - set ns"
  by (induction ns arbitrary: env) (auto simp: env.keys_del)

lemma get_fold_del:
  "GetEnvVar n (fold removeEnvironmentVariable ns env) = (if n \<in> set ns then None else GetEnvVar n env)"
  by (induction ns arbitrary: env) (auto simp: env.get_del)

lemma fold_del_absent:
  "set ns \<inter> ev_Name ` set env = {} \<Longrightarrow> fold removeEnvironmentVariable ns env = env"
  by (induction ns) (auto simp: env.del_absent)

text \<open>
  A step that writes a list of variables, which may depend on variables it does not write, is a
  step in the sense of the contract.
\<close>

lemma env_stage_fold_put:
  assumes names: "\<And>env. ev_Name ` set (vars env) \<subseteq> owns"
    and normal: "\<And>env x. x \<in> set (vars env) \<Longrightarrow> env_norm x = x"
    and local: "\<And>env env'. (\<And>n. n \<in> reads \<Longrightarrow> GetEnvVar n env' = GetEnvVar n env) \<Longrightarrow> vars env' = vars env"
    and disjoint: "owns \<inter> reads = {}"
  shows "env_stage (\<lambda>env. fold addOrReplaceEnvironmentVariable (vars env) env) owns reads"
proof
  fix env env' :: "EnvVar list" and x :: EnvVar
  show "filter (\<lambda>e. ev_Name e \<notin> owns) (fold addOrReplaceEnvironmentVariable (vars env) env) =
      filter (\<lambda>e. ev_Name e \<notin> owns) env"
    by (rule env.filter_fold_put) (rule names)
  show "\<exists>rest. fold addOrReplaceEnvironmentVariable (vars (x # env)) (x # env) = x # rest"
    if "ev_Name x \<notin> owns"
    using that names[of "x # env"] by (subst env.fold_put_Cons) auto
  assume get: "GetEnvVar n env' = GetEnvVar n (fold addOrReplaceEnvironmentVariable (vars env) env)"
    if "n \<in> owns \<union> reads" for n
  have "GetEnvVar n env' = GetEnvVar n env" if "n \<in> reads" for n
  proof -
    have "n \<notin> ev_Name ` set (vars env)" using that names[of env] disjoint by auto
    then show ?thesis using that get[of n] by (simp add: env.get_fold_put_other)
  qed
  then have vars: "vars env' = vars env" by (rule local)
  show "fold addOrReplaceEnvironmentVariable (vars env') env' = env'"
    unfolding vars
  proof (rule env.fold_put_settled)
    show "env_norm z = z" if "z \<in> set (vars env)" for z by (rule normal) (rule that)
    show "GetEnvVar (ev_Name z) env' = Some z"
      if split: "vars env = us @ z # vs" "ev_Name z \<notin> ev_Name ` set vs" for us z vs
    proof -
      have "z \<in> set (vars env)" using split(1) by simp
      then have "ev_Name z \<in> owns" and "env_norm z = z" using names normal by auto
      then show ?thesis
        using get[of "ev_Name z"] env.get_fold_put_last[OF split, of env] by simp
    qed
  qed
qed

section \<open>The steps, by lookups\<close>

lemma otelExportEnvVarsCanBeUpdated_lookup:
  "otelExportEnvVarsCanBeUpdatedForContainer env c \<longleftrightarrow>
     (let endpoint = GetEnvVar envVarOtelExporterOtlpEndpointName env;
          protocol = GetEnvVar envVarOtelExporterOtlpProtocolName env
      in \<not> is_set endpoint \<and> \<not> is_set protocol \<or>
         is_set endpoint \<and> is_operator_endpoint (cic_PossibleCollectorUrls c) endpoint \<and>
         (is_set protocol \<longrightarrow> has_value defaultOtelExporterOtlpProtocol protocol \<and>
            \<not> has_value (cic_OTelCollectorBaseUrl c) endpoint))"
  by (auto simp: otelExportEnvVarsCanBeUpdatedForContainer_def env_lookups Let_def)

lemma otelExporterAlreadyDesired_lookup:
  "otelExporterOtlpEnvVarsAlreadyHaveDesiredValues env v \<longleftrightarrow>
     (let endpoint = GetEnvVar envVarOtelExporterOtlpEndpointName env;
          protocol = GetEnvVar envVarOtelExporterOtlpProtocolName env
      in is_set endpoint \<and> has_value v endpoint \<and>
         is_set protocol \<and> has_value defaultOtelExporterOtlpProtocol protocol)"
  by (auto simp: otelExporterOtlpEnvVarsAlreadyHaveDesiredValues_def env_lookups Let_def)

lemma removeOtelLogsExporter_lookup:
  "removeOtelLogsExporterEnvVar ns env =
     (if nic_PreviousLogCollectionEnabled ns \<and>
         has_value envVarOtelLogsExporterNoneValue (GetEnvVar envVarOtelLogsExporterName env)
      then removeEnvironmentVariable envVarOtelLogsExporterName env else env)"
proof -
  have "envVarHasValue env (findEnvVarIdx env envVarOtelLogsExporterName) v =
      has_value v (GetEnvVar envVarOtelLogsExporterName env)" for v
    by (rule envVarHasValue_find)
  then show ?thesis
    by (cases "findEnvVarIdx env envVarOtelLogsExporterName")
      (auto simp: removeOtelLogsExporterEnvVar_def envVarHasValue_def)
qed

lemma addOtelLogsExporter_lookup:
  "addOtelLogsExporterEnvVar ns env =
     (if \<not> nic_LogCollectionEnabled ns then removeOtelLogsExporterEnvVar ns env
      else if is_set (GetEnvVar envVarOtelLogsExporterName env) then env
      else addOrReplaceEnvironmentVariable
             (envVar envVarOtelLogsExporterName envVarOtelLogsExporterNoneValue) env)"
  by (simp add: addOtelLogsExporterEnvVar_def env_lookups)

definition ld_with :: "EnvVar \<Rightarrow> EnvVar" where
  "ld_with e =
     (if ev_Value e = [] \<and> ev_ValueFrom e \<noteq> None \<or> Contains (ev_Value e) envVarLdPreloadValue then e
      else if TrimSpace (ev_Value e) = [] then e\<lparr>ev_Value := envVarLdPreloadValue\<rparr>
      else e\<lparr>ev_Value := envVarLdPreloadValue @ '' '' @ ev_Value e\<rparr>)"

lemma ld_with_name [simp]: "ev_Name (ld_with e) = ev_Name e"
  by (simp add: ld_with_def)

lemma ld_with_idem [simp]: "ld_with (ld_with e) = ld_with e"
proof (cases "ev_Value e = [] \<and> ev_ValueFrom e \<noteq> None \<or> Contains (ev_Value e) envVarLdPreloadValue")
  case True
  then show ?thesis by (simp add: ld_with_def)
next
  case False
  then have "Contains (ev_Value (ld_with e)) envVarLdPreloadValue" by (auto simp: ld_with_def)
  then show ?thesis by (subst ld_with_def) simp
qed

lemma ld_with_injector [simp]: "ld_with (envVar n envVarLdPreloadValue) = envVar n envVarLdPreloadValue"
  by (simp add: ld_with_def envVar_def)

lemma addOrAppendToLdPreload_lookup:
  "fst (addOrAppendToLdPreloadEnvVar (env, issues)) =
     (if GetEnvVar envVarLdPreloadName env = None
      then addOrReplaceEnvironmentVariable (envVar envVarLdPreloadName envVarLdPreloadValue) env
      else map_first (Some \<circ> ld_with) envVarLdPreloadName env)"
proof (cases rule: findEnvVarIdx_cases[of env envVarLdPreloadName])
  case absent
  then show ?thesis by (simp add: addOrAppendToLdPreloadEnvVar_def env.put_absent)
next
  case (present us y vs)
  from present(2-4) show ?thesis
    using present(1,5)
    by (auto simp: addOrAppendToLdPreloadEnvVar_def map_first_hit ld_with_def Let_def)
qed

lemma migrateLegacyInjectorLogLevel_lookup:
  "migrateLegacyInjectorLogLevel env =
     (let legacy = GetEnvVar legacyEnvVarDash0InjectorLogLevel env
      in if is_set legacy \<and> \<not> is_set (GetEnvVar otelInjectorLogLevelEnvVarName env)
         then removeEnvironmentVariable legacyEnvVarDash0InjectorLogLevel
                (addOrReplaceEnvironmentVariable
                   (envVar otelInjectorLogLevelEnvVarName (ev_Value (the legacy))) env)
         else env)"
proof -
  have "ev_Value (env ! the (findEnvVarIdx env n)) = ev_Value (the (GetEnvVar n env))"
    if "is_set (GetEnvVar n env)" for n
    using that by (auto simp: findEnvVarIdx_def GetEnvVar_def split: option.splits)
  then show ?thesis by (auto simp: migrateLegacyInjectorLogLevel_def env_lookups Let_def)
qed

lemmas stage_lookups =
  otelExportEnvVarsCanBeUpdated_lookup otelExporterAlreadyDesired_lookup
  removeOtelLogsExporter_lookup addOtelLogsExporter_lookup addOrAppendToLdPreload_lookup
  migrateLegacyInjectorLogLevel_lookup

lemmas env_algebra =
  env.get_put env.get_del env.put_Cons env.del_Cons env.filter_put_if env.filter_del_if env.put_fixpoint
  env.del_absent

section \<open>The steps fulfil the contract\<close>

definition otlp_stage :: "ClusterInstrumentationConfig \<Rightarrow> EnvVar list \<Rightarrow> EnvVar list" where
  "otlp_stage c env = fst (addOrUpdateOtelExporterOtlpEnvVars c (cic_OTelCollectorBaseUrl c) (env, []))"

lemma otlp_stage_lookup:
  "otlp_stage c env =
     (if otelExportEnvVarsCanBeUpdatedForContainer env c
      then addOrReplaceEnvironmentVariable
             (envVar envVarOtelExporterOtlpProtocolName defaultOtelExporterOtlpProtocol)
             (addOrReplaceEnvironmentVariable
                (envVar envVarOtelExporterOtlpEndpointName (cic_OTelCollectorBaseUrl c)) env)
      else env)"
  by (simp add: otlp_stage_def addOrUpdateOtelExporterOtlpEnvVars_def)

interpretation otlp: env_stage "otlp_stage c"
  "{envVarOtelExporterOtlpEndpointName, envVarOtelExporterOtlpProtocolName}" "{}" for c
proof
  show "filter (\<lambda>e. ev_Name e \<notin> {envVarOtelExporterOtlpEndpointName, envVarOtelExporterOtlpProtocolName})
        (otlp_stage c env) =
      filter (\<lambda>e. ev_Name e \<notin> {envVarOtelExporterOtlpEndpointName, envVarOtelExporterOtlpProtocolName})
        env" for env
    by (simp add: otlp_stage_lookup env.filter_put_if)
  show "\<exists>rest. otlp_stage c (x # env) = x # rest"
    if "ev_Name x \<notin> {envVarOtelExporterOtlpEndpointName, envVarOtelExporterOtlpProtocolName}" for x env
    using that by (simp add: otlp_stage_lookup env.put_Cons)
  fix env env'
  assume get: "GetEnvVar n env' = GetEnvVar n (otlp_stage c env)"
    if "n \<in> {envVarOtelExporterOtlpEndpointName, envVarOtelExporterOtlpProtocolName} \<union> {}" for n
  show "otlp_stage c env' = env'"
  proof (cases "otelExportEnvVarsCanBeUpdatedForContainer env c")
    case True
    with get[of envVarOtelExporterOtlpEndpointName] get[of envVarOtelExporterOtlpProtocolName]
    show ?thesis by (simp add: otlp_stage_lookup env.get_put env.put_fixpoint)
  next
    case False
    with get[of envVarOtelExporterOtlpEndpointName] get[of envVarOtelExporterOtlpProtocolName]
    show ?thesis by (simp add: otlp_stage_lookup otelExportEnvVarsCanBeUpdated_lookup)
  qed
qed

interpretation logs: env_stage "addOtelLogsExporterEnvVar ns" "{envVarOtelLogsExporterName}" "{}" for ns
proof
  show "\<exists>rest. addOtelLogsExporterEnvVar ns (x # env) = x # rest"
    if "ev_Name x \<notin> {envVarOtelLogsExporterName}" for x env
    using that by (simp add: stage_lookups env_algebra)
  fix env env'
  assume "\<And>n. n \<in> {envVarOtelLogsExporterName} \<union> {} \<Longrightarrow>
    GetEnvVar n env' = GetEnvVar n (addOtelLogsExporterEnvVar ns env)"
  from this[of envVarOtelLogsExporterName] show "addOtelLogsExporterEnvVar ns env' = env'"
    by (auto simp: stage_lookups env_algebra envVarOtelLogsExporterNoneValue_def split: if_splits)
qed (simp add: stage_lookups env_algebra)

definition ld_stage :: "EnvVar list \<Rightarrow> EnvVar list" where
  "ld_stage env = fst (addOrAppendToLdPreloadEnvVar (env, []))"

lemma ld_stage_issues: "fst (addOrAppendToLdPreloadEnvVar (env, issues)) = ld_stage env"
  by (simp add: ld_stage_def addOrAppendToLdPreload_lookup)

lemma get_ld_stage:
  "GetEnvVar envVarLdPreloadName (ld_stage env) =
     Some (case GetEnvVar envVarLdPreloadName env of
             None \<Rightarrow> envVar envVarLdPreloadName envVarLdPreloadValue | Some e \<Rightarrow> ld_with e)"
  by (auto simp: ld_stage_def addOrAppendToLdPreload_lookup env.get_put get_map_first
      env.get_None_iff[symmetric] split: option.split)

interpretation ld: env_stage ld_stage "{envVarLdPreloadName}" "{}"
proof
  show "filter (\<lambda>e. ev_Name e \<notin> {envVarLdPreloadName}) (ld_stage env) =
      filter (\<lambda>e. ev_Name e \<notin> {envVarLdPreloadName}) env" for env
    unfolding ld_stage_def addOrAppendToLdPreload_lookup
    by (auto simp: env.filter_put_if intro!: filter_map_first)
  show "\<exists>rest. ld_stage (x # env) = x # rest" if "ev_Name x \<notin> {envVarLdPreloadName}" for x env
    using that by (simp add: ld_stage_def addOrAppendToLdPreload_lookup env.put_Cons env.get_Cons)
  fix env env'
  assume "\<And>n. n \<in> {envVarLdPreloadName} \<union> {} \<Longrightarrow> GetEnvVar n env' = GetEnvVar n (ld_stage env)"
  from this[of envVarLdPreloadName]
  have "GetEnvVar envVarLdPreloadName env' =
      Some (case GetEnvVar envVarLdPreloadName env of
              None \<Rightarrow> envVar envVarLdPreloadName envVarLdPreloadValue | Some e \<Rightarrow> ld_with e)"
    by (simp add: get_ld_stage)
  then obtain e where e: "GetEnvVar envVarLdPreloadName env' = Some e" and "ld_with e = e"
    by (simp split: option.splits)
  then show "ld_stage env' = env'"
    by (simp add: ld_stage_def addOrAppendToLdPreload_lookup map_first_fixpoint[OF e])
qed

lemma propagators_lookup:
  "otelPropagatorsCanBeUpdatedForContainer env' ns = otelPropagatorsCanBeUpdatedForContainer env ns"
  if "GetEnvVar OtelPropagatorsEnvVarName env' = GetEnvVar OtelPropagatorsEnvVarName env"
  using that by (simp add: otelPropagatorsCanBeUpdatedForContainer_def)

lemma propagators_desired:
  assumes "GetEnvVar OtelPropagatorsEnvVarName env =
      Some (envVar OtelPropagatorsEnvVarName (TrimSpace (the (nic_TraceContextPropagators ns))))"
    and "\<not> IsEmpty (nic_TraceContextPropagators ns)"
  shows "\<not> otelPropagatorsCanBeUpdatedForContainer env ns"
  using assms
  by (auto simp: otelPropagatorsCanBeUpdatedForContainer_def envVar_def IsEnvVarUnsetOrEmpty_def
      IsEmpty_def split: option.splits)

lemma propagators_removed:
  assumes "GetEnvVar OtelPropagatorsEnvVarName env = None" and "IsEmpty (nic_TraceContextPropagators ns)"
  shows "\<not> otelPropagatorsCanBeUpdatedForContainer env ns"
  using assms by (simp add: otelPropagatorsCanBeUpdatedForContainer_def IsEnvVarUnsetOrEmpty_def)

interpretation propagators: env_stage "addOTelPropagatorsEnvVar ns" "{OtelPropagatorsEnvVarName}" "{}" for ns
proof
  show "filter (\<lambda>e. ev_Name e \<notin> {OtelPropagatorsEnvVarName}) (addOTelPropagatorsEnvVar ns env) =
      filter (\<lambda>e. ev_Name e \<notin> {OtelPropagatorsEnvVarName}) env" for env
    by (simp add: addOTelPropagatorsEnvVar_def env_algebra)
  show "\<exists>rest. addOTelPropagatorsEnvVar ns (x # env) = x # rest"
    if "ev_Name x \<notin> {OtelPropagatorsEnvVarName}" for x env
    using that by (simp add: addOTelPropagatorsEnvVar_def env_algebra)
  fix env env'
  assume "\<And>n. n \<in> {OtelPropagatorsEnvVarName} \<union> {} \<Longrightarrow>
    GetEnvVar n env' = GetEnvVar n (addOTelPropagatorsEnvVar ns env)"
  from this[of OtelPropagatorsEnvVarName]
  have get: "GetEnvVar OtelPropagatorsEnvVarName env' =
      GetEnvVar OtelPropagatorsEnvVarName (addOTelPropagatorsEnvVar ns env)" by simp
  have "\<not> otelPropagatorsCanBeUpdatedForContainer env' ns"
  proof (cases "otelPropagatorsCanBeUpdatedForContainer env ns")
    case True
    with get propagators_desired[of env' ns] propagators_removed[of env' ns] show ?thesis
      by (cases "IsEmpty (nic_TraceContextPropagators ns)")
        (auto simp: addOTelPropagatorsEnvVar_def env.get_put env.get_del)
  next
    case False
    with get propagators_lookup[of env' env ns] show ?thesis by (simp add: addOTelPropagatorsEnvVar_def)
  qed
  then show "addOTelPropagatorsEnvVar ns env' = env'" by (simp add: addOTelPropagatorsEnvVar_def)
qed

text \<open>The three variables for capturing SQL query parameters, one after the other.\<close>

definition sql_step :: "NamespaceInstrumentationConfig \<Rightarrow> string \<Rightarrow> EnvVar list \<Rightarrow> EnvVar list" where
  "sql_step ns envVarName env =
     (if \<not> captureSqlQueryParametersCanBeUpdatedForContainer env envVarName ns then env
      else if ReadBoolPointerWithDefault (nic_CaptureSqlQueryParameters ns) False
      then addOrReplaceEnvironmentVariable (envVar envVarName captureSqlQueryParametersValueTrue) env
      else removeEnvironmentVariable envVarName env)"

lemma captureSql_lookup:
  "captureSqlQueryParametersCanBeUpdatedForContainer env n ns \<longleftrightarrow>
     (if ReadBoolPointerWithDefault (nic_CaptureSqlQueryParameters ns) False
      then \<not> is_set (GetEnvVar n env)
      else ReadBoolPointerWithDefault (nic_PreviousCaptureSqlQueryParameters ns) False \<and>
           has_value captureSqlQueryParametersValueTrue (GetEnvVar n env))"
  by (cases "GetEnvVar n env")
    (auto simp: captureSqlQueryParametersCanBeUpdatedForContainer_def Let_def is_set_def has_value_def
      IsEnvVarUnsetOrEmpty_def captureSqlQueryParametersValueTrue_def)

lemma TrimSpace_true [simp]: "TrimSpace captureSqlQueryParametersValueTrue = captureSqlQueryParametersValueTrue"
  by code_simp

lemma true_ne_Nil [simp]: "captureSqlQueryParametersValueTrue \<noteq> []"
  by (simp add: captureSqlQueryParametersValueTrue_def)

interpretation sql_one: env_stage "sql_step ns n" "{n}" "{}" for ns n
proof
  show "filter (\<lambda>e. ev_Name e \<notin> {n}) (sql_step ns n env) = filter (\<lambda>e. ev_Name e \<notin> {n}) env" for env
    by (simp add: sql_step_def env_algebra)
  show "\<exists>rest. sql_step ns n (x # env) = x # rest" if "ev_Name x \<notin> {n}" for x env
    using that by (simp add: sql_step_def env_algebra)
  fix env env'
  assume "\<And>k. k \<in> {n} \<union> {} \<Longrightarrow> GetEnvVar k env' = GetEnvVar k (sql_step ns n env)"
  from this[of n] show "sql_step ns n env' = env'"
    by (auto simp: sql_step_def captureSql_lookup env_algebra split: if_splits)
qed

text \<open>Two steps that own different variables, and do not read each other's, make one step.\<close>

lemma env_stage_comp:
  assumes f: "env_stage f M R" and g: "env_stage g N S"
    and "M \<inter> N = {}" and "M \<inter> S = {}" and "N \<inter> R = {}"
  shows "env_stage (g \<circ> f) (M \<union> N) (R \<union> S)"
proof
  show "filter (\<lambda>e. ev_Name e \<notin> M \<union> N) ((g \<circ> f) env) = filter (\<lambda>e. ev_Name e \<notin> M \<union> N) env" for env
    by (simp only: comp_apply env_stage.frame_superset[OF g Un_upper2]
        env_stage.frame_superset[OF f Un_upper1])
  show "\<exists>rest. (g \<circ> f) (x # env) = x # rest" if "ev_Name x \<notin> M \<union> N" for x env
    using that env_stage.keeps_head[OF f, of x env] env_stage.keeps_head[OF g] by fastforce
  fix env env'
  assume get: "GetEnvVar n env' = GetEnvVar n ((g \<circ> f) env)" if "n \<in> M \<union> N \<union> (R \<union> S)" for n
  have "f env' = env'"
  proof (rule env_stage.settled[OF f])
    fix n assume n: "n \<in> M \<union> R"
    with assms(3,5) have "n \<notin> N" by auto
    with n get[of n] env_stage.get_stage[OF g, of n "f env"]
    show "GetEnvVar n env' = GetEnvVar n (f env)" by auto
  qed
  moreover have "g env' = env'"
    by (rule env_stage.settled[OF g, of env' "f env"]) (use get in auto)
  ultimately show "(g \<circ> f) env' = env'" by simp
qed

lemma addCaptureSql_steps:
  "addCaptureSqlQueryParametersEnvVar ns =
     sql_step ns envVarEfCoreCaptureName \<circ>
     (sql_step ns envVarSqlClientCaptureName \<circ> sql_step ns envVarJdbcCaptureName)"
  by (simp add: fun_eq_iff addCaptureSqlQueryParametersEnvVar_def CaptureSqlQueryParametersEnvVarNames_def
      sql_step_def Let_def)

lemma env_stage_sql:
  "env_stage (addCaptureSqlQueryParametersEnvVar ns) (set CaptureSqlQueryParametersEnvVarNames) {}"
proof -
  have "env_stage (sql_step ns envVarSqlClientCaptureName \<circ> sql_step ns envVarJdbcCaptureName)
      ({envVarJdbcCaptureName} \<union> {envVarSqlClientCaptureName}) ({} \<union> {})"
    by (intro env_stage_comp sql_one.env_stage_axioms) simp_all
  then have "env_stage (addCaptureSqlQueryParametersEnvVar ns)
      (({envVarJdbcCaptureName} \<union> {envVarSqlClientCaptureName}) \<union> {envVarEfCoreCaptureName})
      (({} \<union> {}) \<union> {})"
    unfolding addCaptureSql_steps by (rule env_stage_comp[OF _ sql_one.env_stage_axioms]) simp_all
  then show ?thesis by (simp add: CaptureSqlQueryParametersEnvVarNames_def insert_commute)
qed

lemma env_stage_put:
  "env_norm x = x \<Longrightarrow> env_stage (addOrReplaceEnvironmentVariable x) {ev_Name x} {}"
  using env_stage_fold_put[of "\<lambda>_. [x]" "{ev_Name x}" "{}"] by simp

definition injector_vars :: "string \<Rightarrow> EnvVar list" where
  "injector_vars containerName =
     [fieldRefVar envVarOTelInjectorNamespaceName ''metadata.namespace'',
      fieldRefVar envVarOTelInjectorPodName ''metadata.name'',
      fieldRefVar envVarOTelInjectorPodUidName ''metadata.uid'',
      envVar envVarOTelInjectorContainerName containerName]"

lemma addInjectorEnvironmentVariables_fold:
  "addInjectorEnvironmentVariables n = fold addOrReplaceEnvironmentVariable (injector_vars n)"
  by (simp add: fun_eq_iff addInjectorEnvironmentVariables_def injector_vars_def Let_def)

lemma env_stage_injector:
  "env_stage (addInjectorEnvironmentVariables n)
     {envVarOTelInjectorNamespaceName, envVarOTelInjectorPodName, envVarOTelInjectorPodUidName,
      envVarOTelInjectorContainerName} {}"
  unfolding addInjectorEnvironmentVariables_fold
  by (rule env_stage_fold_put) (auto simp: injector_vars_def)

section \<open>Service and resource attributes\<close>

definition label_var :: "string \<Rightarrow> string \<Rightarrow> EnvVar" where
  "label_var n labelName =
     fieldRefVar n (''metadata.labels['' @ [CHR 0x27] @ labelName @ [CHR 0x27] @ '']'')"

definition label_vars ::
  "ObjectMeta \<Rightarrow> ObjectMeta \<Rightarrow> containerHasServiceAttributes \<Rightarrow> EnvVar list" where
  "label_vars workloadMeta podMeta has =
     (let podLabel = map_of (om_Labels podMeta); workloadLabel = map_of (om_Labels workloadMeta);
          attrs = [(hsa_serviceName has, envVarOTelInjectorServiceName, AppKubernetesIoNameLabel),
                   (hsa_serviceNamespace has, envVarOTelInjectorServiceNamespace, AppKubernetesIoPartOfLabel),
                   (hsa_serviceVersion has, envVarOTelInjectorServiceVersionName, AppKubernetesIoVersionLabel)]
      in if podLabel AppKubernetesIoNameLabel \<noteq> None
         then map (\<lambda>(_, n, l). label_var n l)
                (filter (\<lambda>(alreadySet, n, l). \<not> alreadySet \<and> podLabel l \<noteq> None) attrs)
         else if workloadLabel AppKubernetesIoNameLabel \<noteq> None
         then map (\<lambda>(_, n, l). envVar n (the (workloadLabel l)))
                (filter (\<lambda>(alreadySet, n, l). \<not> alreadySet \<and> workloadLabel l \<noteq> None) attrs)
         else [])"

lemma addServiceAttributesFromLabels_fold:
  "addServiceAttributesFromLabels wm pm has env =
     fold addOrReplaceEnvironmentVariable (label_vars wm pm has) env"
  by (auto simp: addServiceAttributesFromLabels_def label_vars_def label_var_def Let_def
      addEnvVarFromLabelFieldSelector_def split: option.split)

definition attributes_of ::
  "ObjectMeta \<Rightarrow> ObjectMeta \<Rightarrow> stringmap \<times> stringmap" where
  "attributes_of workloadMeta podMeta =
     deriveResourceAttributesFromAnnotations (om_Annotations podMeta)
       (deriveResourceAttributesFromAnnotations (om_Annotations workloadMeta) ([], []))"

definition annotation_vars ::
  "ObjectMeta \<Rightarrow> ObjectMeta \<Rightarrow> containerHasServiceAttributes \<Rightarrow> EnvVar list" where
  "annotation_vars workloadMeta podMeta has =
     (let (resourceAttributes, fromAnnotation) = attributes_of workloadMeta podMeta
      in (if resourceAttributes \<noteq> []
          then [envVar envVarOTelInjectorResourceAttributesName
                  (Join (map (\<lambda>k. k @ ''='' @ the (map_of resourceAttributes k))
                           (sort (map fst resourceAttributes))) '','')]
          else []) @
         map (\<lambda>(_, n, a). envVar n (the (map_of fromAnnotation a)))
           (filter (\<lambda>(alreadySet, n, a). \<not> alreadySet \<and> map_of fromAnnotation a \<noteq> None)
              [(hsa_serviceName has, envVarOTelInjectorServiceName, serviceName),
               (hsa_serviceNamespace has, envVarOTelInjectorServiceNamespace, serviceNamespace),
               (hsa_serviceVersion has, envVarOTelInjectorServiceVersionName, serviceVersion)]))"

lemma addResourceAttributesFromAnnotations_fold:
  "addResourceAttributesFromAnnotations wm pm has env =
     fold addOrReplaceEnvironmentVariable (annotation_vars wm pm has) env"
  by (auto simp: addResourceAttributesFromAnnotations_def annotation_vars_def attributes_of_def
      addServiceAttributeFromAnnotation_def Let_def split: option.split prod.split)

definition service_stage :: "ObjectMeta \<Rightarrow> ObjectMeta \<Rightarrow> EnvVar list \<Rightarrow> EnvVar list" where
  "service_stage wm pm env =
     fold addOrReplaceEnvironmentVariable
       (label_vars wm pm (checkContainerForServiceAttributes env) @
        annotation_vars wm pm (checkContainerForServiceAttributes env)) env"

definition service_names :: "string set" where
  "service_names =
     {envVarOTelInjectorServiceName, envVarOTelInjectorServiceNamespace,
      envVarOTelInjectorServiceVersionName, envVarOTelInjectorResourceAttributesName}"

lemma label_vars_shape:
  "x \<in> set (label_vars wm pm has) \<Longrightarrow> ev_Name x \<in> service_names \<and> env_norm x = x"
  by (auto simp: label_vars_def label_var_def service_names_def Let_def simp del: filter.simps
      split: if_splits)

lemma annotation_vars_shape:
  "x \<in> set (annotation_vars wm pm has) \<Longrightarrow> ev_Name x \<in> service_names \<and> env_norm x = x"
  by (auto simp: annotation_vars_def service_names_def Let_def simp del: filter.simps
      split: if_splits prod.splits)

lemma env_stage_service: "env_stage (service_stage wm pm) service_names (set read_env_var_names)"
  unfolding service_stage_def
proof (rule env_stage_fold_put)
  fix env env' :: "EnvVar list" and x :: EnvVar
  let ?vars = "\<lambda>env. label_vars wm pm (checkContainerForServiceAttributes env) @
        annotation_vars wm pm (checkContainerForServiceAttributes env)"
  have shape: "ev_Name x \<in> service_names \<and> env_norm x = x" if "x \<in> set (?vars env)" for x
    using that label_vars_shape annotation_vars_shape by auto
  then show "ev_Name ` set (?vars env) \<subseteq> service_names" by blast
  show "env_norm x = x" if "x \<in> set (?vars env)" using shape[OF that] by simp
  show "?vars env' = ?vars env"
    if "\<And>n. n \<in> set read_env_var_names \<Longrightarrow> GetEnvVar n env' = GetEnvVar n env"
    using that[of OtelServiceNameEnvVarName] that[of OtelResourceAttributesEnvVarName]
    by (simp add: read_env_var_names_def checkContainerForServiceAttributes_def)
  show "service_names \<inter> set read_env_var_names = {}"
    by (simp add: service_names_def read_env_var_names_def)
qed

lemma TrimSpace_debug [simp]: "TrimSpace ''debug'' = ''debug''"
  by code_simp

text \<open>The log level is either forced to debug, or taken over from the legacy variable, or left alone.\<close>

lemma addInjectorLogLevel_lookup:
  "addInjectorLogLevel c env =
     (let legacy = GetEnvVar legacyEnvVarDash0InjectorLogLevel env
      in if cic_InstrumentationDebug c
         then addOrReplaceEnvironmentVariable (envVar otelInjectorLogLevelEnvVarName ''debug'') env
         else if is_set legacy \<and> \<not> is_set (GetEnvVar otelInjectorLogLevelEnvVarName env)
         then removeEnvironmentVariable legacyEnvVarDash0InjectorLogLevel
                (addOrReplaceEnvironmentVariable
                   (envVar otelInjectorLogLevelEnvVarName (ev_Value (the legacy))) env)
         else env)"
  by (simp add: addInjectorLogLevel_def migrateLegacyInjectorLogLevel_lookup Let_def env.get_put)

interpretation log_level: env_stage "addInjectorLogLevel c"
  "{otelInjectorLogLevelEnvVarName, legacyEnvVarDash0InjectorLogLevel}" "{}" for c
proof
  show "filter (\<lambda>e. ev_Name e \<notin> {otelInjectorLogLevelEnvVarName, legacyEnvVarDash0InjectorLogLevel})
      (addInjectorLogLevel c env) =
      filter (\<lambda>e. ev_Name e \<notin> {otelInjectorLogLevelEnvVarName, legacyEnvVarDash0InjectorLogLevel}) env" for env
    by (simp add: addInjectorLogLevel_lookup Let_def env.filter_put_if env.filter_del_if)
  show "\<exists>rest. addInjectorLogLevel c (x # env) = x # rest"
    if "ev_Name x \<notin> {otelInjectorLogLevelEnvVarName, legacyEnvVarDash0InjectorLogLevel}" for x env
    using that by (simp add: addInjectorLogLevel_lookup Let_def env.put_Cons env.del_Cons)
  fix env env'
  assume get: "\<And>n. n \<in> {otelInjectorLogLevelEnvVarName, legacyEnvVarDash0InjectorLogLevel} \<union> {} \<Longrightarrow>
    GetEnvVar n env' = GetEnvVar n (addInjectorLogLevel c env)"
  let ?migrates = "\<lambda>env. is_set (GetEnvVar legacyEnvVarDash0InjectorLogLevel env) \<and>
      \<not> is_set (GetEnvVar otelInjectorLogLevelEnvVarName env)"
  show "addInjectorLogLevel c env' = env'"
  proof (cases "cic_InstrumentationDebug c")
    case True
    with get[of otelInjectorLogLevelEnvVarName] show ?thesis
      by (simp add: addInjectorLogLevel_lookup env.get_put env.put_fixpoint)
  next
    case False
    have "\<not> ?migrates env'"
      using False get[of otelInjectorLogLevelEnvVarName] get[of legacyEnvVarDash0InjectorLogLevel]
      by (cases "?migrates env") (simp_all add: addInjectorLogLevel_lookup Let_def env.get_del)
    with False show ?thesis by (auto simp: addInjectorLogLevel_lookup Let_def)
  qed
qed

section \<open>The steps together\<close>

text \<open>What follows the removal of legacy variables and the prepended node IP.\<close>

definition instrumentation_stage ::
  "ResourceModifier \<Rightarrow> string \<Rightarrow> ObjectMeta \<Rightarrow> ObjectMeta \<Rightarrow> EnvVar list \<Rightarrow> EnvVar list" where
  "instrumentation_stage m n wm pm =
     addInjectorLogLevel (rm_clusterInstrumentationConfig m) \<circ>
     (service_stage wm pm \<circ>
     (addInjectorEnvironmentVariables n \<circ>
     (addCaptureSqlQueryParametersEnvVar (rm_namespaceInstrumentationConfig m) \<circ>
     (addOTelPropagatorsEnvVar (rm_namespaceInstrumentationConfig m) \<circ>
     (addOrReplaceEnvironmentVariable (envVar envVarOtelInjectorConfigFileName
        (otelInjectorConfigFileFor (rm_clusterInstrumentationConfig m))) \<circ>
     (ld_stage \<circ>
     (addOtelLogsExporterEnvVar (rm_namespaceInstrumentationConfig m) \<circ>
     (otlp_stage (rm_clusterInstrumentationConfig m) \<circ>
      addOrReplaceEnvironmentVariable (envVar envVarDash0CollectorBaseUrlName
        (cic_OTelCollectorBaseUrl (rm_clusterInstrumentationConfig m)))))))))))"

lemma addEnvironmentVariables_stages:
  "fst (addEnvironmentVariables m n wm pm env) =
     instrumentation_stage m n wm pm (prependDash0NodeIp (removeLegacyEnvironmentVariables env))"
  by (simp add: addEnvironmentVariables_def instrumentation_stage_def service_stage_def Let_def
      addServiceAttributesFromLabels_fold addResourceAttributesFromAnnotations_fold
      ld_stage_issues otlp_stage_def case_prod_unfold)

definition instrumentation_names :: "string set" where
  "instrumentation_names =
     set managed_env_var_names - {EnvVarDash0NodeIp, legacyEnvVarNodeOptionsName}"

lemma env_stage_instrumentation:
  "env_stage (instrumentation_stage m n wm pm) instrumentation_names (set read_env_var_names)"
proof -
  let ?base = "{envVarDash0CollectorBaseUrlName}"
  let ?otlp = "{envVarOtelExporterOtlpEndpointName, envVarOtelExporterOtlpProtocolName}"
  let ?logs = "{envVarOtelLogsExporterName}"
  let ?ld = "{envVarLdPreloadName}"
  let ?conf = "{envVarOtelInjectorConfigFileName}"
  let ?propagators = "{OtelPropagatorsEnvVarName}"
  let ?sql = "{envVarJdbcCaptureName, envVarSqlClientCaptureName, envVarEfCoreCaptureName}"
  let ?inj = "{envVarOTelInjectorNamespaceName, envVarOTelInjectorPodName,
      envVarOTelInjectorPodUidName, envVarOTelInjectorContainerName}"
  let ?svc = "{envVarOTelInjectorServiceName, envVarOTelInjectorServiceNamespace,
      envVarOTelInjectorServiceVersionName, envVarOTelInjectorResourceAttributesName}"
  let ?log = "{otelInjectorLogLevelEnvVarName, legacyEnvVarDash0InjectorLogLevel}"
  let ?reads = "{OtelServiceNameEnvVarName, OtelResourceAttributesEnvVarName}"
  have sql: "env_stage (addCaptureSqlQueryParametersEnvVar ns) ?sql {}" for ns
    using env_stage_sql by (simp add: CaptureSqlQueryParametersEnvVarNames_def)
  have svc: "env_stage (service_stage wm pm) ?svc ?reads"
    using env_stage_service[of wm pm] by (simp add: service_names_def read_env_var_names_def)
  have put: "env_stage (addOrReplaceEnvironmentVariable (envVar k v)) {k} {}" for k v
    using env_stage_put[of "envVar k v"] by simp
  have "env_stage (instrumentation_stage m n wm pm)
      (((((((((?base \<union> ?otlp) \<union> ?logs) \<union> ?ld) \<union> ?conf) \<union> ?propagators) \<union> ?sql) \<union> ?inj) \<union> ?svc) \<union> ?log)
      ((((((((({} \<union> {}) \<union> {}) \<union> {}) \<union> {}) \<union> {}) \<union> {}) \<union> {}) \<union> ?reads) \<union> {})"
    unfolding instrumentation_stage_def
    by (intro env_stage_comp put otlp.env_stage_axioms logs.env_stage_axioms ld.env_stage_axioms
        propagators.env_stage_axioms sql env_stage_injector svc log_level.env_stage_axioms)
      simp_all
  moreover have "((((((((?base \<union> ?otlp) \<union> ?logs) \<union> ?ld) \<union> ?conf) \<union> ?propagators) \<union> ?sql) \<union> ?inj) \<union> ?svc) \<union> ?log =
      instrumentation_names"
    by (auto simp: instrumentation_names_def managed_env_var_names_def)
  ultimately show ?thesis by (simp add: read_env_var_names_def)
qed

interpretation instrumentation: env_stage "instrumentation_stage m n wm pm" instrumentation_names
  "set read_env_var_names" for m n wm pm
  by (rule env_stage_instrumentation)

end
