(* ===== verification/ContainerRevert.thy ===== *)
theory ContainerRevert
  imports EnvStages
begin

text \<open>
  The removal of the instrumentation from the environment of one container
  (\<open>removeEnvironmentVariables\<close> of \<open>internal/workloads/workload_modifier.go\<close> and the functions it
  calls), and the properties of adding and removing the instrumentation.
\<close>

section \<open>Removing the instrumentation\<close>

definition removeLdPreload :: "EnvVar list \<Rightarrow> EnvVar list" where
  "removeLdPreload env = removeEntryFromLdPreload envVarLdPreloadValue env"

definition removeOtelExporterOtlpEnvVarsIfSetByOperator ::
  "ClusterInstrumentationConfig \<Rightarrow> EnvVar list \<Rightarrow> EnvVar list" where
  "removeOtelExporterOtlpEnvVarsIfSetByOperator c env =
     (let (endpointIsSet, endpointIdx) = envVarIsSetAndNotEmpty env envVarOtelExporterOtlpEndpointName;
          (protocolIsSet, protocolIdx) = envVarIsSetAndNotEmpty env envVarOtelExporterOtlpProtocolName
      in if \<not> endpointIsSet \<or> \<not> protocolIsSet then env
         else if \<not> isOperatorCollectorEndpoint env endpointIdx (cic_PossibleCollectorUrls c) \<or>
                 \<not> envVarHasValue env protocolIdx defaultOtelExporterOtlpProtocol then env
         else removeEnvironmentVariable envVarOtelExporterOtlpProtocolName
                (removeEnvironmentVariable envVarOtelExporterOtlpEndpointName env))"

definition removeOtelPropagatorsIfCurrentValueMatchesConfig ::
  "NamespaceInstrumentationConfig \<Rightarrow> EnvVar list \<Rightarrow> EnvVar list" where
  "removeOtelPropagatorsIfCurrentValueMatchesConfig ns env =
     (case nic_TraceContextPropagators ns of
        None \<Rightarrow> env
      | Some propagators \<Rightarrow>
          if TrimSpace propagators \<noteq> []
          then (case findEnvVarIdx env OtelPropagatorsEnvVarName of
                  None \<Rightarrow> env
                | Some idx \<Rightarrow>
                    if ev_ValueFrom (env ! idx) \<noteq> None then env
                    else if TrimSpace (ev_Value (env ! idx)) = TrimSpace propagators
                    then removeEnvironmentVariable OtelPropagatorsEnvVarName env
                    else env)
          else env)"

definition removeCaptureSqlQueryParametersIfCurrentValueMatchesConfig ::
  "NamespaceInstrumentationConfig \<Rightarrow> EnvVar list \<Rightarrow> EnvVar list" where
  "removeCaptureSqlQueryParametersIfCurrentValueMatchesConfig ns env =
     (if \<not> ReadBoolPointerWithDefault (nic_CaptureSqlQueryParameters ns) False then env
      else fold (\<lambda>envVarName env.
             case findEnvVarIdx env envVarName of
               None \<Rightarrow> env
             | Some idx \<Rightarrow>
                 if ev_ValueFrom (env ! idx) \<noteq> None then env
                 else if ev_Value (env ! idx) = captureSqlQueryParametersValueTrue
                 then removeEnvironmentVariable envVarName env
                 else env)
           CaptureSqlQueryParametersEnvVarNames env)"

definition removeEnvironmentVariables :: "ResourceModifier \<Rightarrow> EnvVar list \<Rightarrow> EnvVar list" where
  "removeEnvironmentVariables m env0 =
     (let c = rm_clusterInstrumentationConfig m;
          ns = rm_namespaceInstrumentationConfig m;
          env1 = removeEnvironmentVariable EnvVarDash0NodeIp env0;
          env2 = removeLegacyEnvironmentVariables env1;
          env3 = removeLdPreload env2;
          env4 = removeEnvironmentVariable envVarOtelInjectorConfigFileName env3;
          env5 = removeEnvironmentVariable envVarDash0CollectorBaseUrlName env4;
          env6 = removeOtelExporterOtlpEnvVarsIfSetByOperator c env5;
          env7 = removeOtelPropagatorsIfCurrentValueMatchesConfig ns env6;
          env8 = removeCaptureSqlQueryParametersIfCurrentValueMatchesConfig ns env7;
          env9 = removeOtelLogsExporterEnvVar ns env8
      in fold removeEnvironmentVariable
           [envVarOTelInjectorNamespaceName, envVarOTelInjectorPodName, envVarOTelInjectorPodUidName,
            envVarOTelInjectorContainerName, envVarOTelInjectorServiceNamespace,
            envVarOTelInjectorServiceName, envVarOTelInjectorServiceVersionName,
            envVarOTelInjectorResourceAttributesName, otelInjectorLogLevelEnvVarName] env9)"

section \<open>The removal, by lookups\<close>

lemma removeOtlp_lookup:
  "removeOtelExporterOtlpEnvVarsIfSetByOperator c env =
     (let endpoint = GetEnvVar envVarOtelExporterOtlpEndpointName env;
          protocol = GetEnvVar envVarOtelExporterOtlpProtocolName env
      in if is_set endpoint \<and> is_set protocol \<and>
            is_operator_endpoint (cic_PossibleCollectorUrls c) endpoint \<and>
            has_value defaultOtelExporterOtlpProtocol protocol
         then removeEnvironmentVariable envVarOtelExporterOtlpProtocolName
                (removeEnvironmentVariable envVarOtelExporterOtlpEndpointName env)
         else env)"
  by (auto simp: removeOtelExporterOtlpEnvVarsIfSetByOperator_def env_lookups Let_def)

lemma removePropagators_lookup:
  "removeOtelPropagatorsIfCurrentValueMatchesConfig ns env =
     (if \<not> IsEmpty (nic_TraceContextPropagators ns) \<and>
         has_value (TrimSpace (the (nic_TraceContextPropagators ns))) (GetEnvVar OtelPropagatorsEnvVarName env)
      then removeEnvironmentVariable OtelPropagatorsEnvVarName env else env)"
  by (auto simp: removeOtelPropagatorsIfCurrentValueMatchesConfig_def IsEmpty_def has_value_def
      findEnvVarIdx_def GetEnvVar_def split: option.split)

definition sql_remove :: "string \<Rightarrow> EnvVar list \<Rightarrow> EnvVar list" where
  "sql_remove n env =
     (if \<exists>e. GetEnvVar n env = Some e \<and> ev_ValueFrom e = None \<and>
             ev_Value e = captureSqlQueryParametersValueTrue
      then removeEnvironmentVariable n env else env)"

lemma removeCaptureSql_steps:
  "removeCaptureSqlQueryParametersIfCurrentValueMatchesConfig ns env =
     (if ReadBoolPointerWithDefault (nic_CaptureSqlQueryParameters ns) False
      then fold sql_remove CaptureSqlQueryParametersEnvVarNames env else env)"
proof -
  have "(\<lambda>n env. case findEnvVarIdx env n of
               None \<Rightarrow> env
             | Some idx \<Rightarrow>
                 if ev_ValueFrom (env ! idx) \<noteq> None then env
                 else if ev_Value (env ! idx) = captureSqlQueryParametersValueTrue
                 then removeEnvironmentVariable n env
                 else env) = sql_remove"
    by (auto simp: fun_eq_iff sql_remove_def findEnvVarIdx_def GetEnvVar_def split: option.split)
  then show ?thesis by (simp add: removeCaptureSqlQueryParametersIfCurrentValueMatchesConfig_def)
qed

section \<open>Both directions keep what they do not manage\<close>

definition operator_env_var_names :: "string set" where
  "operator_env_var_names = set managed_env_var_names \<union> set legacy_env_var_names"

lemma frame_removeLegacy:
  assumes "\<And>e. P e \<Longrightarrow> ev_Name e \<notin> operator_env_var_names"
  shows "filter P (removeLegacyEnvironmentVariables env) = filter P env"
proof -
  have owned: "\<not> P e" if "ev_Name e \<in> operator_env_var_names" for e using assms that by blast
  have ops: "envVarLdPreloadName \<in> operator_env_var_names"
      "legacyEnvVarNodeOptionsName \<in> operator_env_var_names"
      "n \<in> set legacy_env_var_names \<Longrightarrow> n \<in> operator_env_var_names" for n
    by (simp_all add: operator_env_var_names_def managed_env_var_names_def)
  have "filter P (fold removeEnvironmentVariable ns env) = filter P env"
    if "set ns \<subseteq> operator_env_var_names" for ns env
    using that owned by (induction ns arbitrary: env) (auto simp: env.filter_del_if)
  then have "filter P (fold removeEnvironmentVariable legacy_env_var_names env) = filter P env" for env
    using ops(3) by (metis subsetI)
  then show ?thesis
    unfolding removeLegacyEnvironmentVariables_def removeEntryFromLdPreload_map_first
      removeLegacyEnvVarNodeOptions_map_first
    using owned ops(1,2) by (simp add: filter_map_first)
qed

lemma frame_addEnvironmentVariables:
  assumes "\<And>e. P e \<Longrightarrow> ev_Name e \<notin> operator_env_var_names"
  shows "filter P (fst (addEnvironmentVariables m n wm pm env)) = filter P env"
proof -
  have owns: "P e \<Longrightarrow> ev_Name e \<notin> instrumentation_names" for e
    using assms by (auto simp: operator_env_var_names_def instrumentation_names_def)
  have "EnvVarDash0NodeIp \<in> operator_env_var_names"
    by (simp add: operator_env_var_names_def managed_env_var_names_def)
  then have node_ip: "\<not> P e" if "ev_Name e = EnvVarDash0NodeIp" for e using assms[of e] that by auto
  have "filter P (prependDash0NodeIp xs) = filter P xs" for xs
    using node_ip by (simp add: prependDash0NodeIp_def env.filter_del_if)
  then show ?thesis
    by (simp add: addEnvironmentVariables_stages instrumentation.filter_stage[OF owns]
        frame_removeLegacy[OF assms])
qed

lemma filter_sql_remove: "(\<And>e. P e \<Longrightarrow> ev_Name e \<noteq> n) \<Longrightarrow> filter P (sql_remove n env) = filter P env"
  by (auto simp: sql_remove_def intro: env.filter_del_if)

lemma frame_removeEnvironmentVariables:
  assumes "\<And>e. P e \<Longrightarrow> ev_Name e \<notin> operator_env_var_names"
  shows "filter P (removeEnvironmentVariables m env) = filter P env"
proof -
  have owned: "\<not> P e" if "ev_Name e \<in> set managed_env_var_names" for e
    using assms[of e] that by (auto simp: operator_env_var_names_def)
  have del: "filter P (removeEnvironmentVariable n xs) = filter P xs"
    if "n \<in> set managed_env_var_names" for n xs
    using that owned by (auto intro: env.filter_del_if)
  have ld: "filter P (removeLdPreload xs) = filter P xs" for xs
    unfolding removeLdPreload_def removeEntryFromLdPreload_map_first
    by (rule filter_map_first) (auto intro!: owned simp: managed_env_var_names_def)
  have sql: "filter P (sql_remove n xs) = filter P xs" if "n \<in> set managed_env_var_names" for n xs
    using that owned by (intro filter_sql_remove) auto
  show ?thesis
    unfolding removeEnvironmentVariables_def Let_def
    by (simp add: removeOtlp_lookup removePropagators_lookup removeCaptureSql_steps
        CaptureSqlQueryParametersEnvVarNames_def removeOtelLogsExporter_lookup Let_def
        ld frame_removeLegacy[OF assms] del sql managed_env_var_names_def)
qed

section \<open>Instrumenting twice\<close>

text \<open>No traces of operator versions that used another injector or \<open>NODE_OPTIONS\<close>.\<close>

definition no_legacy_values :: "EnvVar list \<Rightarrow> bool" where
  "no_legacy_values env \<longleftrightarrow>
     pred_option (\<lambda>e. \<not> Contains (ev_Value e) legacyEnvVarNodeOptionsValue)
       (GetEnvVar legacyEnvVarNodeOptionsName env) \<and>
     pred_option (\<lambda>e. \<not> Contains (ev_Value e) envVarLdPreloadLegacyValue)
       (GetEnvVar envVarLdPreloadName env)"

lemma ld_without_fix: "\<not> Contains (ev_Value e) entry \<Longrightarrow> ld_without entry e = Some e"
  by (auto simp: ld_without_def dest: Contains_TrimSpace)

lemma node_options_without_fix:
  "\<not> Contains (ev_Value e) legacyEnvVarNodeOptionsValue \<Longrightarrow> node_options_without e = Some e"
  by (simp add: node_options_without_def)

lemma map_first_unchanged:
  "pred_option (\<lambda>e. f e = Some e) (GetEnvVar n env) \<Longrightarrow> map_first f n env = env"
  by (cases "GetEnvVar n env")
    (auto simp: env.get_None_iff intro: map_first_absent map_first_fixpoint)

lemma removeLegacy_no_values:
  assumes "no_legacy_values env"
  shows "removeLegacyEnvironmentVariables env = fold removeEnvironmentVariable legacy_env_var_names env"
proof -
  have "removeLegacyEnvVarNodeOptions env = env"
    unfolding removeLegacyEnvVarNodeOptions_map_first
    using assms by (intro map_first_unchanged)
      (auto simp: no_legacy_values_def pred_option_def intro: node_options_without_fix)
  moreover have "removeEntryFromLdPreload envVarLdPreloadLegacyValue
      (fold removeEnvironmentVariable legacy_env_var_names env) =
      fold removeEnvironmentVariable legacy_env_var_names env"
    unfolding removeEntryFromLdPreload_map_first
    using assms by (intro map_first_unchanged)
      (auto simp: no_legacy_values_def pred_option_def get_fold_del intro: ld_without_fix)
  ultimately show ?thesis by (simp add: removeLegacyEnvironmentVariables_def)
qed

lemma ld_with_legacy:
  assumes "\<not> Contains (ev_Value e) envVarLdPreloadLegacyValue"
  shows "\<not> Contains (ev_Value (ld_with e)) envVarLdPreloadLegacyValue"
proof -
  have inj: "\<not> Contains envVarLdPreloadValue envVarLdPreloadLegacyValue" by code_simp
  moreover have "CHR '' '' \<notin> set envVarLdPreloadLegacyValue" by code_simp
  ultimately have "\<not> Contains (envVarLdPreloadValue @ '' '' @ ev_Value e) envVarLdPreloadLegacyValue"
    using assms Contains_split by fastforce
  with assms inj show ?thesis by (simp add: ld_with_def)
qed

text \<open>The shape of an instrumented environment.\<close>

lemma addEnvironmentVariables_head:
  obtains rest where "fst (addEnvironmentVariables m n wm pm env) =
      fieldRefVar EnvVarDash0NodeIp ''status.hostIP'' # rest"
    and "EnvVarDash0NodeIp \<notin> ev_Name ` set rest"
proof -
  let ?ip = "fieldRefVar EnvVarDash0NodeIp ''status.hostIP''"
  let ?body = "removeEnvironmentVariable EnvVarDash0NodeIp (removeLegacyEnvironmentVariables env)"
  have not_owned: "EnvVarDash0NodeIp \<notin> instrumentation_names" by (simp add: instrumentation_names_def)
  then obtain rest where rest: "fst (addEnvironmentVariables m n wm pm env) = ?ip # rest"
    using instrumentation.keeps_head[of ?ip m n wm pm ?body]
    by (auto simp: addEnvironmentVariables_stages prependDash0NodeIp_def)
  have "filter (\<lambda>e. ev_Name e = EnvVarDash0NodeIp) (?ip # rest) =
      filter (\<lambda>e. ev_Name e = EnvVarDash0NodeIp) (?ip # ?body)"
    unfolding rest[symmetric] addEnvironmentVariables_stages prependDash0NodeIp_def
    using not_owned by (intro instrumentation.filter_stage) auto
  then have "filter (\<lambda>e. ev_Name e = EnvVarDash0NodeIp) rest = []"
    by (simp add: env.del_filter)
  then have "EnvVarDash0NodeIp \<notin> ev_Name ` set rest" by (auto simp: filter_empty_conv)
  with rest show thesis by (rule that)
qed

lemma prependDash0NodeIp_fix:
  "EnvVarDash0NodeIp \<notin> ev_Name ` set rest \<Longrightarrow>
   prependDash0NodeIp (fieldRefVar EnvVarDash0NodeIp ''status.hostIP'' # rest) =
   fieldRefVar EnvVarDash0NodeIp ''status.hostIP'' # rest"
  by (simp add: prependDash0NodeIp_def env.del_Cons env.del_absent)

lemma get_prepend: "n \<noteq> EnvVarDash0NodeIp \<Longrightarrow> GetEnvVar n (prependDash0NodeIp env) = GetEnvVar n env"
  by (simp add: prependDash0NodeIp_def env.get_Cons env.get_del)

lemma get_add_other:
  assumes "n \<notin> operator_env_var_names"
  shows "GetEnvVar n (fst (addEnvironmentVariables m k wm pm env)) = GetEnvVar n env"
proof -
  have "GetEnvVar n xs = GetEnvVar n (filter (\<lambda>e. ev_Name e \<notin> operator_env_var_names) xs)" for xs
    unfolding GetEnvVar_find using assms by (induction xs) auto
  then show ?thesis using frame_addEnvironmentVariables by metis
qed

text \<open>\<open>LD_PRELOAD\<close> after the instrumentation, up to the step that settles it.\<close>

lemma get_instrumentation_ld:
  "GetEnvVar envVarLdPreloadName (instrumentation_stage m n wm pm env) =
     GetEnvVar envVarLdPreloadName (ld_stage env)"
proof -
  have put: "env_stage (addOrReplaceEnvironmentVariable (envVar k v)) {k} {}" for k v
    using env_stage_put[of "envVar k v"] by simp
  show ?thesis
    unfolding instrumentation_stage_def comp_apply
    by (simp add: log_level.get_stage env_stage.get_stage[OF env_stage_service] service_names_def
        env_stage.get_stage[OF env_stage_injector] env_stage.get_stage[OF env_stage_sql]
        CaptureSqlQueryParametersEnvVarNames_def propagators.get_stage env_stage.get_stage[OF put]
        get_ld_stage logs.get_stage otlp.get_stage)
qed

lemma legacy_names_absent:
  assumes "k \<in> set legacy_env_var_names" and "no_legacy_values env"
  shows "k \<notin> ev_Name ` set (fst (addEnvironmentVariables m n wm pm env))"
proof -
  have "k \<noteq> EnvVarDash0NodeIp" and "k \<notin> instrumentation_names"
    using assms(1) legacy_names_disjoint(1)
    by (auto simp: instrumentation_names_def)
  then show ?thesis
    using assms
    by (simp add: addEnvironmentVariables_stages instrumentation.names_stage
        removeLegacy_no_values prependDash0NodeIp_def env.keys_del names_fold_del)
qed

lemma no_legacy_values_add:
  assumes "no_legacy_values env"
  shows "no_legacy_values (fst (addEnvironmentVariables m n wm pm env))"
proof -
  let ?env1 = "prependDash0NodeIp (fold removeEnvironmentVariable legacy_env_var_names env)"
  have "legacyEnvVarNodeOptionsName \<notin> instrumentation_names" by (simp add: instrumentation_names_def)
  then have "GetEnvVar legacyEnvVarNodeOptionsName (fst (addEnvironmentVariables m n wm pm env)) =
      GetEnvVar legacyEnvVarNodeOptionsName env"
    using assms
    by (simp add: addEnvironmentVariables_stages instrumentation.get_stage removeLegacy_no_values
        get_prepend get_fold_del)
  moreover have "GetEnvVar envVarLdPreloadName (fst (addEnvironmentVariables m n wm pm env)) =
      Some (case GetEnvVar envVarLdPreloadName env of
             None \<Rightarrow> envVar envVarLdPreloadName envVarLdPreloadValue | Some e \<Rightarrow> ld_with e)"
    using assms
    by (simp add: addEnvironmentVariables_stages get_instrumentation_ld removeLegacy_no_values
        get_ld_stage get_prepend get_fold_del)
  moreover have "\<not> Contains envVarLdPreloadValue envVarLdPreloadLegacyValue" by code_simp
  ultimately show ?thesis
    using assms
    by (auto simp: no_legacy_values_def pred_option_def envVar_def dest: ld_with_legacy
        split: option.splits)
qed

lemma addEnvironmentVariables_twice:
  assumes "no_legacy_values env"
  shows "fst (addEnvironmentVariables m n wm pm (fst (addEnvironmentVariables m n wm pm env))) =
         fst (addEnvironmentVariables m n wm pm env)"
proof -
  let ?env = "fst (addEnvironmentVariables m n wm pm env)"
  obtain rest where head: "?env = fieldRefVar EnvVarDash0NodeIp ''status.hostIP'' # rest"
      "EnvVarDash0NodeIp \<notin> ev_Name ` set rest"
    by (rule addEnvironmentVariables_head)
  have "set legacy_env_var_names \<inter> ev_Name ` set ?env = {}"
    using legacy_names_absent[OF _ assms] by blast
  then have "removeLegacyEnvironmentVariables ?env = ?env"
    by (simp add: removeLegacy_no_values[OF no_legacy_values_add[OF assms]] fold_del_absent)
  moreover have "prependDash0NodeIp ?env = ?env"
    using prependDash0NodeIp_fix head by metis
  moreover have "instrumentation_stage m n wm pm ?env = ?env"
    by (simp add: addEnvironmentVariables_stages instrumentation.idempotent)
  ultimately show ?thesis
    using addEnvironmentVariables_stages[of m n wm pm ?env] by simp
qed

section \<open>The variables after the instrumentation\<close>

lemma get_map_first_other:
  "(\<And>e e'. f e = Some e' \<Longrightarrow> ev_Name e' = ev_Name e) \<Longrightarrow> k \<noteq> n \<Longrightarrow>
   GetEnvVar k (map_first f n env) = GetEnvVar k env"
  by (induction env) (auto simp: env.get_Cons env.get_Nil split: option.split)

lemma get_removeLegacy:
  "n \<notin> set legacy_env_var_names \<Longrightarrow> n \<noteq> envVarLdPreloadName \<Longrightarrow> n \<noteq> legacyEnvVarNodeOptionsName \<Longrightarrow>
   GetEnvVar n (removeLegacyEnvironmentVariables env) = GetEnvVar n env"
  by (simp add: removeLegacyEnvironmentVariables_def removeEntryFromLdPreload_map_first
      removeLegacyEnvVarNodeOptions_map_first get_map_first_other get_fold_del)

lemma get_put_stage: "k \<noteq> n \<Longrightarrow> GetEnvVar k (addOrReplaceEnvironmentVariable (envVar n v) env) = GetEnvVar k env"
  by (simp add: env.get_put)

lemma get_sql_other:
  "k \<notin> set CaptureSqlQueryParametersEnvVarNames \<Longrightarrow>
   GetEnvVar k (addCaptureSqlQueryParametersEnvVar ns env) = GetEnvVar k env"
  by (rule env_stage.get_stage[OF env_stage_sql])

lemmas get_stages =
  log_level.get_stage env_stage.get_stage[OF env_stage_service] service_names_def
  env_stage.get_stage[OF env_stage_injector] get_sql_other CaptureSqlQueryParametersEnvVarNames_def
  propagators.get_stage get_put_stage ld.get_stage logs.get_stage otlp.get_stage
  get_prepend get_removeLegacy

lemma get_sql_step_cong:
  "GetEnvVar n env = GetEnvVar n env' \<Longrightarrow> GetEnvVar n (sql_step ns n env) = GetEnvVar n (sql_step ns n env')"
  by (simp add: sql_step_def captureSql_lookup env.get_put env.get_del)

lemma get_add_otlp:
  "GetEnvVar envVarOtelExporterOtlpEndpointName (fst (addEnvironmentVariables m n wm pm env)) =
     (if otelExportEnvVarsCanBeUpdatedForContainer env (rm_clusterInstrumentationConfig m)
      then Some (envVar envVarOtelExporterOtlpEndpointName
                   (cic_OTelCollectorBaseUrl (rm_clusterInstrumentationConfig m)))
      else GetEnvVar envVarOtelExporterOtlpEndpointName env)"
  "GetEnvVar envVarOtelExporterOtlpProtocolName (fst (addEnvironmentVariables m n wm pm env)) =
     (if otelExportEnvVarsCanBeUpdatedForContainer env (rm_clusterInstrumentationConfig m)
      then Some (envVar envVarOtelExporterOtlpProtocolName defaultOtelExporterOtlpProtocol)
      else GetEnvVar envVarOtelExporterOtlpProtocolName env)"
  unfolding addEnvironmentVariables_stages instrumentation_stage_def comp_apply
  by (simp_all add: get_stages)
    (simp_all add: otlp_stage_lookup otelExportEnvVarsCanBeUpdated_lookup env.get_put get_prepend
      get_removeLegacy)

lemma get_add_logs:
  "GetEnvVar envVarOtelLogsExporterName (fst (addEnvironmentVariables m n wm pm env)) =
     (let ns = rm_namespaceInstrumentationConfig m; current = GetEnvVar envVarOtelLogsExporterName env
      in if nic_LogCollectionEnabled ns
         then if is_set current then current
              else Some (envVar envVarOtelLogsExporterName envVarOtelLogsExporterNoneValue)
         else if nic_PreviousLogCollectionEnabled ns \<and> has_value envVarOtelLogsExporterNoneValue current
         then None else current)"
  unfolding addEnvironmentVariables_stages instrumentation_stage_def comp_apply
  by (simp add: get_stages)
    (simp add: addOtelLogsExporter_lookup removeOtelLogsExporter_lookup Let_def env.get_put env.get_del
      get_stages)

lemma get_add_propagators:
  "GetEnvVar OtelPropagatorsEnvVarName (fst (addEnvironmentVariables m n wm pm env)) =
     (let ns = rm_namespaceInstrumentationConfig m
      in if otelPropagatorsCanBeUpdatedForContainer env ns
         then if IsEmpty (nic_TraceContextPropagators ns) then None
              else Some (envVar OtelPropagatorsEnvVarName (TrimSpace (the (nic_TraceContextPropagators ns))))
         else GetEnvVar OtelPropagatorsEnvVarName env)"
  unfolding addEnvironmentVariables_stages instrumentation_stage_def comp_apply
  by (simp add: get_stages)
    (simp add: addOTelPropagatorsEnvVar_def otelPropagatorsCanBeUpdatedForContainer_def Let_def
      env.get_put env.get_del get_stages)

lemma get_add_sql:
  assumes "k \<in> set CaptureSqlQueryParametersEnvVarNames"
  shows "GetEnvVar k (fst (addEnvironmentVariables m n wm pm env)) =
     GetEnvVar k (sql_step (rm_namespaceInstrumentationConfig m) k env)"
proof -
  let ?ns = "rm_namespaceInstrumentationConfig m"
  have step: "GetEnvVar k (addCaptureSqlQueryParametersEnvVar ?ns xs) = GetEnvVar k (sql_step ?ns k xs)" for xs
    using assms unfolding addCaptureSql_steps comp_apply
    by (auto simp: CaptureSqlQueryParametersEnvVarNames_def sql_one.get_stage intro!: get_sql_step_cong)
  have "GetEnvVar k (fst (addEnvironmentVariables m n wm pm env)) =
      GetEnvVar k (sql_step ?ns k (addOTelPropagatorsEnvVar ?ns
        (addOrReplaceEnvironmentVariable (envVar envVarOtelInjectorConfigFileName
           (otelInjectorConfigFileFor (rm_clusterInstrumentationConfig m)))
        (ld_stage (addOtelLogsExporterEnvVar ?ns (otlp_stage (rm_clusterInstrumentationConfig m)
        (addOrReplaceEnvironmentVariable (envVar envVarDash0CollectorBaseUrlName
           (cic_OTelCollectorBaseUrl (rm_clusterInstrumentationConfig m)))
        (prependDash0NodeIp (removeLegacyEnvironmentVariables env)))))))))"
    using assms unfolding addEnvironmentVariables_stages instrumentation_stage_def comp_apply step[symmetric]
    by (auto simp: CaptureSqlQueryParametersEnvVarNames_def log_level.get_stage service_names_def
        env_stage.get_stage[OF env_stage_service] env_stage.get_stage[OF env_stage_injector])
  also have "\<dots> = GetEnvVar k (sql_step ?ns k env)"
    using assms by (intro get_sql_step_cong) (auto simp: get_stages)
  finally show ?thesis .
qed

lemma get_add_config:
  "GetEnvVar envVarOtelInjectorConfigFileName (fst (addEnvironmentVariables m n wm pm env)) =
     Some (envVar envVarOtelInjectorConfigFileName
             (otelInjectorConfigFileFor (rm_clusterInstrumentationConfig m)))"
  unfolding addEnvironmentVariables_stages instrumentation_stage_def comp_apply
  by (simp add: log_level.get_stage env_stage.get_stage[OF env_stage_service] service_names_def
      env_stage.get_stage[OF env_stage_injector] get_sql_other CaptureSqlQueryParametersEnvVarNames_def
      propagators.get_stage env.get_put)

end
