(* ===== verification/UserSettings.thy ===== *)
theory UserSettings
  imports ContainerRevert
begin

text \<open>
  Settings of the user survive. \<open>user_setting\<close> characterises the environment variables that belong to
  the user: all variables the operator does not manage, and those it manages only as long as the user
  has not set them to something else. Instrumenting a container and removing the instrumentation keep
  them; the two together restore the environment exactly.
\<close>

section \<open>Settings of the user\<close>

definition user_setting ::
  "ClusterInstrumentationConfig \<Rightarrow> NamespaceInstrumentationConfig \<Rightarrow> EnvVar \<Rightarrow> bool" where
  "user_setting c ns e \<longleftrightarrow>
     ev_Name e \<notin> operator_env_var_names \<or>
     ev_Name e = legacyEnvVarNodeOptionsName \<and>
       \<not> Contains (ev_Value e) legacyEnvVarNodeOptionsValue \<or>
     is_set (Some e) \<and>
       (ev_Name e = envVarOtelExporterOtlpEndpointName \<and>
          \<not> is_operator_endpoint (cic_PossibleCollectorUrls c) (Some e) \<or>
        ev_Name e = envVarOtelExporterOtlpProtocolName \<and>
          \<not> has_value defaultOtelExporterOtlpProtocol (Some e) \<or>
        ev_Name e = envVarOtelLogsExporterName \<and>
          \<not> has_value envVarOtelLogsExporterNoneValue (Some e) \<or>
        ev_Name e = OtelPropagatorsEnvVarName \<and>
          pred_option (\<lambda>p. \<not> has_value (TrimSpace p) (Some e)) (nic_TraceContextPropagators ns) \<and>
          pred_option (\<lambda>p. \<not> has_value (TrimSpace p) (Some e)) (nic_PreviousTraceContextPropagators ns) \<or>
        ev_Name e \<in> set CaptureSqlQueryParametersEnvVarNames \<and>
          \<not> has_value captureSqlQueryParametersValueTrue (Some e))"

text \<open>The names under which a variable can be a setting of the user although the operator manages them.\<close>

definition shared_names :: "string set" where
  "shared_names =
     {legacyEnvVarNodeOptionsName, envVarOtelExporterOtlpEndpointName, envVarOtelExporterOtlpProtocolName,
      envVarOtelLogsExporterName, OtelPropagatorsEnvVarName} \<union>
     set CaptureSqlQueryParametersEnvVarNames"

definition operator_owned :: "string set" where
  "operator_owned = operator_env_var_names - shared_names"

lemma user_setting_name:
  "user_setting c ns e \<Longrightarrow> ev_Name e \<in> operator_env_var_names \<Longrightarrow> ev_Name e \<in> shared_names"
  by (auto simp: user_setting_def shared_names_def)

section \<open>Steps that keep the settings\<close>

text \<open>A step keeps the variables in \<open>P\<close>, in their order, if no name occurs twice; nor does it afterwards.\<close>

definition keeps :: "(EnvVar \<Rightarrow> bool) \<Rightarrow> (EnvVar list \<Rightarrow> EnvVar list) \<Rightarrow> bool" where
  "keeps P step \<longleftrightarrow>
     (\<forall>env. distinct (map ev_Name env) \<longrightarrow>
        filter P (step env) = filter P env \<and> distinct (map ev_Name (step env)))"

lemma keeps_comp [frame_intros]: "keeps P f \<Longrightarrow> keeps P g \<Longrightarrow> keeps P (g \<circ> f)"
  by (simp add: keeps_def)

lemma keeps_comp_eta [frame_intros]: "keeps P f \<Longrightarrow> keeps P g \<Longrightarrow> keeps P (\<lambda>env. g (f env))"
  by (simp add: keeps_def)

lemma keeps_id [frame_intros]: "keeps P (\<lambda>env. env)"
  by (simp add: keeps_def)

lemma keeps_put_if:
  assumes "\<And>env y. Q env \<Longrightarrow> GetEnvVar (ev_Name x) env = Some y \<Longrightarrow> \<not> P y"
    and "\<not> P x" and "env_norm x = x"
  shows "keeps P (\<lambda>env. if Q env then addOrReplaceEnvironmentVariable x env else env)"
  unfolding keeps_def
proof (intro allI impI)
  fix env :: "EnvVar list" assume dist: "distinct (map ev_Name env)"
  have "\<not> P y" if "Q env" "y \<in> set env" "ev_Name y = ev_Name x" for y
    using that assms(1) env.get_distinct[OF dist that(2)] by simp
  with assms(2,3) dist show "filter P (if Q env then addOrReplaceEnvironmentVariable x env else env) =
        filter P env \<and> distinct (map ev_Name (if Q env then addOrReplaceEnvironmentVariable x env else env))"
    by (simp add: env.filter_put_if env.distinct_put)
qed

lemma keeps_del_if:
  assumes "\<And>env y. Q env \<Longrightarrow> GetEnvVar n env = Some y \<Longrightarrow> \<not> P y"
  shows "keeps P (\<lambda>env. if Q env then removeEnvironmentVariable n env else env)"
  unfolding keeps_def
proof (intro allI impI)
  fix env :: "EnvVar list" assume dist: "distinct (map ev_Name env)"
  have "\<not> P y" if "Q env" "y \<in> set env" "ev_Name y = n" for y
    using that assms env.get_distinct[OF dist that(2)] by simp
  with dist show "filter P (if Q env then removeEnvironmentVariable n env else env) = filter P env \<and>
        distinct (map ev_Name (if Q env then removeEnvironmentVariable n env else env))"
    by (simp add: env.filter_del_if env.distinct_del)
qed

lemma keeps_put:
  "(\<And>y. ev_Name y = ev_Name x \<Longrightarrow> \<not> P y) \<Longrightarrow> env_norm x = x \<Longrightarrow> keeps P (addOrReplaceEnvironmentVariable x)"
  using keeps_put_if[of "\<lambda>_. True" x P] env.get_key by auto

lemma keeps_del: "(\<And>y. ev_Name y = n \<Longrightarrow> \<not> P y) \<Longrightarrow> keeps P (removeEnvironmentVariable n)"
  using keeps_del_if[of "\<lambda>_. True" n P] env.get_key by auto

lemma keeps_fold:
  assumes "\<And>x. x \<in> set xs \<Longrightarrow> keeps P (f x)"
  shows "keeps P (fold f xs)"
  using assms
proof (induction xs)
  case Nil
  show ?case by (simp add: keeps_def)
next
  case (Cons x xs)
  then show ?case unfolding fold.simps by (intro keeps_comp) auto
qed

lemma distinct_map_first:
  "(\<And>e e'. f e = Some e' \<Longrightarrow> ev_Name e' = ev_Name e) \<Longrightarrow> distinct (map ev_Name env) \<Longrightarrow>
   distinct (map ev_Name (map_first f n env)) \<and> ev_Name ` set (map_first f n env) \<subseteq> ev_Name ` set env"
  by (induction env) (auto split: option.split)

lemma keeps_map_first:
  assumes "\<And>e e'. f e = Some e' \<Longrightarrow> ev_Name e' = ev_Name e" and "\<And>e. ev_Name e = n \<Longrightarrow> \<not> P e"
  shows "keeps P (map_first f n)"
  unfolding keeps_def using filter_map_first[of f n P] distinct_map_first[of f _ n] assms by blast

lemma not_shared: "ev_Name e \<in> operator_owned \<Longrightarrow> \<not> user_setting c ns e"
  using user_setting_name by (auto simp: operator_owned_def)

lemma operator_only [simp]:
  "envVarDash0CollectorBaseUrlName \<in> operator_owned"
  "EnvVarDash0NodeIp \<in> operator_owned"
  "envVarLdPreloadName \<in> operator_owned"
  "envVarOtelInjectorConfigFileName \<in> operator_owned"
  "envVarOTelInjectorNamespaceName \<in> operator_owned"
  "envVarOTelInjectorPodName \<in> operator_owned"
  "envVarOTelInjectorPodUidName \<in> operator_owned"
  "envVarOTelInjectorContainerName \<in> operator_owned"
  "envVarOTelInjectorServiceName \<in> operator_owned"
  "envVarOTelInjectorServiceNamespace \<in> operator_owned"
  "envVarOTelInjectorServiceVersionName \<in> operator_owned"
  "envVarOTelInjectorResourceAttributesName \<in> operator_owned"
  "otelInjectorLogLevelEnvVarName \<in> operator_owned"
  "legacyEnvVarDash0InjectorLogLevel \<in> operator_owned"
  by (simp_all add: operator_owned_def operator_env_var_names_def managed_env_var_names_def
      shared_names_def CaptureSqlQueryParametersEnvVarNames_def)

lemma legacy_operator_only: "n \<in> set legacy_env_var_names \<Longrightarrow> n \<in> operator_owned"
  using legacy_names_disjoint(1)
  by (auto simp: operator_owned_def operator_env_var_names_def managed_env_var_names_def
      shared_names_def CaptureSqlQueryParametersEnvVarNames_def)

lemma shared_operator [simp]:
  "legacyEnvVarNodeOptionsName \<in> operator_env_var_names"
  "envVarOtelExporterOtlpEndpointName \<in> operator_env_var_names"
  "envVarOtelExporterOtlpProtocolName \<in> operator_env_var_names"
  "envVarOtelLogsExporterName \<in> operator_env_var_names"
  "OtelPropagatorsEnvVarName \<in> operator_env_var_names"
  "envVarJdbcCaptureName \<in> operator_env_var_names"
  "envVarSqlClientCaptureName \<in> operator_env_var_names"
  "envVarEfCoreCaptureName \<in> operator_env_var_names"
  by (simp_all add: operator_env_var_names_def managed_env_var_names_def)

text \<open>What belongs to the user, name by name.\<close>

lemma user_setting_shared:
  "ev_Name e = envVarOtelExporterOtlpEndpointName \<Longrightarrow> user_setting c ns e \<longleftrightarrow>
     is_set (Some e) \<and> \<not> is_operator_endpoint (cic_PossibleCollectorUrls c) (Some e)"
  "ev_Name e = envVarOtelExporterOtlpProtocolName \<Longrightarrow> user_setting c ns e \<longleftrightarrow>
     is_set (Some e) \<and> \<not> has_value defaultOtelExporterOtlpProtocol (Some e)"
  "ev_Name e = envVarOtelLogsExporterName \<Longrightarrow> user_setting c ns e \<longleftrightarrow>
     is_set (Some e) \<and> \<not> has_value envVarOtelLogsExporterNoneValue (Some e)"
  "ev_Name e = OtelPropagatorsEnvVarName \<Longrightarrow> user_setting c ns e \<longleftrightarrow>
     is_set (Some e) \<and>
     pred_option (\<lambda>p. \<not> has_value (TrimSpace p) (Some e)) (nic_TraceContextPropagators ns) \<and>
     pred_option (\<lambda>p. \<not> has_value (TrimSpace p) (Some e)) (nic_PreviousTraceContextPropagators ns)"
  "ev_Name e \<in> set CaptureSqlQueryParametersEnvVarNames \<Longrightarrow> user_setting c ns e \<longleftrightarrow>
     is_set (Some e) \<and> \<not> has_value captureSqlQueryParametersValueTrue (Some e)"
  by (auto simp: user_setting_def CaptureSqlQueryParametersEnvVarNames_def)

lemma TrimSpace_protocol [simp]: "TrimSpace defaultOtelExporterOtlpProtocol = defaultOtelExporterOtlpProtocol"
  by code_simp

lemma TrimSpace_none [simp]: "TrimSpace envVarOtelLogsExporterNoneValue = envVarOtelLogsExporterNoneValue"
  by code_simp

text \<open>
  The steps of the instrumentation. The collector base URL has to be one the operator recognises as
  its own.
\<close>

definition own_base_url :: "ClusterInstrumentationConfig \<Rightarrow> bool" where
  "own_base_url c \<longleftrightarrow>
     TrimSpace (cic_OTelCollectorBaseUrl c) \<noteq> [] \<and>
     is_operator_endpoint (cic_PossibleCollectorUrls c)
       (Some (envVar envVarOtelExporterOtlpEndpointName (cic_OTelCollectorBaseUrl c)))"

lemma keeps_otlp:
  assumes "own_base_url c"
  shows "keeps (user_setting c ns) (otlp_stage c)"
  unfolding keeps_def
proof (intro allI impI)
  fix env :: "EnvVar list" assume dist: "distinct (map ev_Name env)"
  let ?P = "user_setting c ns"
  show "filter ?P (otlp_stage c env) = filter ?P env \<and> distinct (map ev_Name (otlp_stage c env))"
  proof (cases "otelExportEnvVarsCanBeUpdatedForContainer env c")
    case True
    have endpoint: "\<not> ?P y" if "y \<in> set env" "ev_Name y = envVarOtelExporterOtlpEndpointName" for y
      using True env.get_distinct[OF dist that(1)] that(2)
      by (auto simp: otelExportEnvVarsCanBeUpdated_lookup user_setting_shared Let_def)
    have protocol: "\<not> ?P y" if "y \<in> set env" "ev_Name y = envVarOtelExporterOtlpProtocolName" for y
      using True env.get_distinct[OF dist that(1)] that(2)
      by (auto simp: otelExportEnvVarsCanBeUpdated_lookup user_setting_shared Let_def)
    let ?endpoint = "envVar envVarOtelExporterOtlpEndpointName (cic_OTelCollectorBaseUrl c)"
    let ?env = "addOrReplaceEnvironmentVariable ?endpoint env"
    have protocol': "\<not> ?P y" if "y \<in> set ?env" "ev_Name y = envVarOtelExporterOtlpProtocolName" for y
    proof -
      have "GetEnvVar envVarOtelExporterOtlpProtocolName env = Some y"
        using env.get_distinct[OF env.distinct_put[OF dist] that(1)] that(2) by (simp add: env.get_put)
      with that(2) show ?thesis by (intro protocol) (rule env.get_mem)
    qed
    have "\<not> ?P ?endpoint" using assms by (simp add: user_setting_shared own_base_url_def)
    moreover have "\<not> ?P (envVar envVarOtelExporterOtlpProtocolName defaultOtelExporterOtlpProtocol)"
      by (simp add: user_setting_shared)
    ultimately show ?thesis
      using True dist endpoint protocol'
      by (simp add: otlp_stage_lookup env.filter_put_if env.distinct_put)
  next
    case False
    with dist show ?thesis by (simp add: otlp_stage_lookup)
  qed
qed

lemma keeps_removeLogs: "keeps (user_setting c ns) (removeOtelLogsExporterEnvVar ns)"
  unfolding removeOtelLogsExporter_lookup
  by (rule keeps_del_if) (auto simp: user_setting_shared dest: env.get_key)

lemma keeps_logs: "keeps (user_setting c ns) (addOtelLogsExporterEnvVar ns)"
proof (cases "nic_LogCollectionEnabled ns")
  case True
  then have "addOtelLogsExporterEnvVar ns = (\<lambda>env.
      if \<not> is_set (GetEnvVar envVarOtelLogsExporterName env)
      then addOrReplaceEnvironmentVariable
             (envVar envVarOtelLogsExporterName envVarOtelLogsExporterNoneValue) env else env)"
    by (simp add: fun_eq_iff addOtelLogsExporter_lookup)
  moreover have "keeps (user_setting c ns) \<dots>"
    by (rule keeps_put_if) (auto simp: user_setting_shared dest: env.get_key)
  ultimately show ?thesis by simp
next
  case False
  then have "addOtelLogsExporterEnvVar ns = removeOtelLogsExporterEnvVar ns"
    by (simp add: fun_eq_iff addOtelLogsExporter_lookup)
  then show ?thesis by (simp add: keeps_removeLogs)
qed

lemma propagators_can_be_updated:
  assumes "otelPropagatorsCanBeUpdatedForContainer env ns"
    and "GetEnvVar OtelPropagatorsEnvVarName env = Some y"
  shows "\<not> user_setting c ns y"
proof -
  have "ev_Name y = OtelPropagatorsEnvVarName" using assms(2) by (rule env.get_key)
  then show ?thesis
    using assms
    by (auto simp: user_setting_shared otelPropagatorsCanBeUpdatedForContainer_def is_set_def
        has_value_def IsEmpty_def Let_def split: if_splits option.splits)
qed

lemma keeps_propagators: "keeps (user_setting c ns) (addOTelPropagatorsEnvVar ns)"
proof (cases "IsEmpty (nic_TraceContextPropagators ns)")
  case True
  then have "addOTelPropagatorsEnvVar ns = (\<lambda>env. if otelPropagatorsCanBeUpdatedForContainer env ns
      then removeEnvironmentVariable OtelPropagatorsEnvVarName env else env)"
    by (simp add: fun_eq_iff addOTelPropagatorsEnvVar_def)
  moreover have "keeps (user_setting c ns) \<dots>"
    by (rule keeps_del_if) (rule propagators_can_be_updated)
  ultimately show ?thesis by simp
next
  case False
  let ?x = "envVar OtelPropagatorsEnvVarName (TrimSpace (the (nic_TraceContextPropagators ns)))"
  from False have "addOTelPropagatorsEnvVar ns = (\<lambda>env. if otelPropagatorsCanBeUpdatedForContainer env ns
      then addOrReplaceEnvironmentVariable ?x env else env)"
    by (simp add: fun_eq_iff addOTelPropagatorsEnvVar_def)
  moreover have "keeps (user_setting c ns) \<dots>"
    by (rule keeps_put_if)
      (use False in \<open>auto simp: user_setting_shared IsEmpty_def dest: propagators_can_be_updated
        split: option.splits\<close>)
  ultimately show ?thesis by simp
qed

lemma keeps_removePropagators: "keeps (user_setting c ns) (removeOtelPropagatorsIfCurrentValueMatchesConfig ns)"
  unfolding removePropagators_lookup
  by (rule keeps_del_if) (auto simp: user_setting_shared IsEmpty_def dest: env.get_key split: option.splits)

lemma keeps_sql_step:
  assumes "n \<in> set CaptureSqlQueryParametersEnvVarNames"
  shows "keeps (user_setting c ns) (sql_step ns n)"
proof -
  have own: "\<not> user_setting c ns y"
    if "captureSqlQueryParametersCanBeUpdatedForContainer env n ns" "GetEnvVar n env = Some y" for env y
    using that env.get_key[OF that(2)] assms
    by (auto simp: captureSql_lookup user_setting_shared split: if_splits)
  show ?thesis
  proof (cases "ReadBoolPointerWithDefault (nic_CaptureSqlQueryParameters ns) False")
    case True
    then have "sql_step ns n = (\<lambda>env. if captureSqlQueryParametersCanBeUpdatedForContainer env n ns
        then addOrReplaceEnvironmentVariable (envVar n captureSqlQueryParametersValueTrue) env else env)"
      by (simp add: fun_eq_iff sql_step_def)
    moreover have "keeps (user_setting c ns) \<dots>"
      by (rule keeps_put_if) (use own assms in \<open>auto simp: user_setting_shared\<close>)
    ultimately show ?thesis by simp
  next
    case False
    then have "sql_step ns n = (\<lambda>env. if captureSqlQueryParametersCanBeUpdatedForContainer env n ns
        then removeEnvironmentVariable n env else env)"
      by (simp add: fun_eq_iff sql_step_def)
    moreover have "keeps (user_setting c ns) \<dots>" by (rule keeps_del_if) (rule own)
    ultimately show ?thesis by simp
  qed
qed

lemma keeps_sql_remove:
  assumes "n \<in> set CaptureSqlQueryParametersEnvVarNames"
  shows "keeps (user_setting c ns) (sql_remove n)"
  unfolding sql_remove_def
proof (rule keeps_del_if)
  fix env y
  assume "\<exists>e. GetEnvVar n env = Some e \<and> ev_ValueFrom e = None \<and>
      ev_Value e = captureSqlQueryParametersValueTrue" and y: "GetEnvVar n env = Some y"
  then have "has_value captureSqlQueryParametersValueTrue (Some y)" by (auto simp: has_value_def)
  with assms env.get_key[OF y] show "\<not> user_setting c ns y" by (simp add: user_setting_shared)
qed

lemma keeps_service: "keeps (user_setting c ns) (service_stage wm pm)"
proof -
  have "keeps (user_setting c ns) (fold addOrReplaceEnvironmentVariable
      (label_vars wm pm has @ annotation_vars wm pm has))" for has
  proof (rule keeps_fold)
    fix x assume "x \<in> set (label_vars wm pm has @ annotation_vars wm pm has)"
    then have "ev_Name x \<in> service_names \<and> env_norm x = x"
      using label_vars_shape annotation_vars_shape by auto
    moreover have "service_names \<subseteq> operator_owned" by (simp add: service_names_def)
    ultimately show "keeps (user_setting c ns) (addOrReplaceEnvironmentVariable x)"
      by (intro keeps_put) (auto simp: not_shared)
  qed
  then show ?thesis by (auto simp: keeps_def service_stage_def)
qed

lemma keeps_operator_put:
  "n \<in> operator_owned \<Longrightarrow>
   keeps (user_setting c ns) (addOrReplaceEnvironmentVariable (envVar n v))"
  by (rule keeps_put) (auto simp: not_shared)

lemma keeps_operator_del:
  "n \<in> operator_owned \<Longrightarrow> keeps (user_setting c ns) (removeEnvironmentVariable n)"
  by (rule keeps_del) (auto simp: not_shared)

lemma keeps_ld: "keeps (user_setting c ns) ld_stage"
  unfolding keeps_def
proof (intro allI impI)
  fix env :: "EnvVar list" assume dist: "distinct (map ev_Name env)"
  let ?P = "user_setting c ns"
  have put: "keeps ?P (addOrReplaceEnvironmentVariable (envVar envVarLdPreloadName envVarLdPreloadValue))"
    by (rule keeps_operator_put) simp
  have first: "keeps ?P (map_first (Some \<circ> ld_with) envVarLdPreloadName)"
    by (rule keeps_map_first) (auto simp: not_shared)
  show "filter ?P (ld_stage env) = filter ?P env \<and> distinct (map ev_Name (ld_stage env))"
    using dist put first by (simp add: ld_stage_def addOrAppendToLdPreload_lookup keeps_def)
qed

lemma keeps_log_level: "keeps (user_setting c ns) (addInjectorLogLevel c')"
  unfolding keeps_def
proof (intro allI impI)
  fix env :: "EnvVar list" assume dist: "distinct (map ev_Name env)"
  let ?P = "user_setting c ns"
  have put: "keeps ?P (addOrReplaceEnvironmentVariable (envVar otelInjectorLogLevelEnvVarName v))" for v
    by (rule keeps_operator_put) simp
  have del: "keeps ?P (removeEnvironmentVariable legacyEnvVarDash0InjectorLogLevel)"
    by (rule keeps_operator_del) simp
  show "filter ?P (addInjectorLogLevel c' env) = filter ?P env \<and>
      distinct (map ev_Name (addInjectorLogLevel c' env))"
    using dist put del by (simp add: addInjectorLogLevel_lookup Let_def keeps_def)
qed

lemma keeps_instrumentation:
  assumes "own_base_url (rm_clusterInstrumentationConfig m)"
  shows "keeps (user_setting (rm_clusterInstrumentationConfig m) (rm_namespaceInstrumentationConfig m))
           (instrumentation_stage m n wm pm)"
proof -
  have "keeps (user_setting c ns) (addCaptureSqlQueryParametersEnvVar ns)" for c ns
    unfolding addCaptureSql_steps
    by (intro keeps_comp keeps_sql_step) (simp_all add: CaptureSqlQueryParametersEnvVarNames_def)
  moreover have "keeps (user_setting c ns) (addInjectorEnvironmentVariables k)" for c ns k
    unfolding addInjectorEnvironmentVariables_fold
    by (rule keeps_fold) (auto simp: injector_vars_def not_shared intro!: keeps_put)
  ultimately show ?thesis
    unfolding instrumentation_stage_def
    by (intro keeps_comp keeps_log_level keeps_service keeps_propagators keeps_ld keeps_logs
        keeps_otlp[OF assms] keeps_operator_put) simp_all
qed

lemma keeps_prepend: "keeps (user_setting c ns) prependDash0NodeIp"
proof -
  have "\<not> user_setting c ns (fieldRefVar EnvVarDash0NodeIp p)" for p by (rule not_shared) simp
  moreover have "keeps (user_setting c ns) (removeEnvironmentVariable EnvVarDash0NodeIp)"
    by (rule keeps_operator_del) simp
  ultimately show ?thesis by (auto simp: keeps_def prependDash0NodeIp_def env.keys_del)
qed

lemma keeps_legacy_names: "keeps (user_setting c ns) (fold removeEnvironmentVariable legacy_env_var_names)"
  by (rule keeps_fold) (auto intro: keeps_operator_del legacy_operator_only)

text \<open>The removal of the instrumentation, from the removal of the injector entry on.\<close>

definition removal_stage :: "ResourceModifier \<Rightarrow> EnvVar list \<Rightarrow> EnvVar list" where
  "removal_stage m =
     fold removeEnvironmentVariable
       [envVarOTelInjectorNamespaceName, envVarOTelInjectorPodName, envVarOTelInjectorPodUidName,
        envVarOTelInjectorContainerName, envVarOTelInjectorServiceNamespace,
        envVarOTelInjectorServiceName, envVarOTelInjectorServiceVersionName,
        envVarOTelInjectorResourceAttributesName, otelInjectorLogLevelEnvVarName] \<circ>
     (removeOtelLogsExporterEnvVar (rm_namespaceInstrumentationConfig m) \<circ>
     (removeCaptureSqlQueryParametersIfCurrentValueMatchesConfig (rm_namespaceInstrumentationConfig m) \<circ>
     (removeOtelPropagatorsIfCurrentValueMatchesConfig (rm_namespaceInstrumentationConfig m) \<circ>
     (removeOtelExporterOtlpEnvVarsIfSetByOperator (rm_clusterInstrumentationConfig m) \<circ>
     (removeEnvironmentVariable envVarDash0CollectorBaseUrlName \<circ>
     (removeEnvironmentVariable envVarOtelInjectorConfigFileName \<circ> removeLdPreload))))))"

lemma removeEnvironmentVariables_stages:
  "removeEnvironmentVariables m env =
     removal_stage m (removeLegacyEnvironmentVariables (removeEnvironmentVariable EnvVarDash0NodeIp env))"
  by (simp add: removeEnvironmentVariables_def removal_stage_def Let_def)

lemma keeps_removeOtlp: "keeps (user_setting c ns) (removeOtelExporterOtlpEnvVarsIfSetByOperator c)"
  unfolding keeps_def
proof (intro allI impI)
  fix env :: "EnvVar list" assume dist: "distinct (map ev_Name env)"
  let ?P = "user_setting c ns"
  let ?own = "is_set (GetEnvVar envVarOtelExporterOtlpEndpointName env) \<and>
      is_set (GetEnvVar envVarOtelExporterOtlpProtocolName env) \<and>
      is_operator_endpoint (cic_PossibleCollectorUrls c) (GetEnvVar envVarOtelExporterOtlpEndpointName env) \<and>
      has_value defaultOtelExporterOtlpProtocol (GetEnvVar envVarOtelExporterOtlpProtocolName env)"
  have own: "\<not> ?P y" if ?own "y \<in> set env"
    "ev_Name y \<in> {envVarOtelExporterOtlpEndpointName, envVarOtelExporterOtlpProtocolName}" for y
    using that(1,3) env.get_distinct[OF dist that(2)] by (auto simp: user_setting_shared)
  show "filter ?P (removeOtelExporterOtlpEnvVarsIfSetByOperator c env) = filter ?P env \<and>
      distinct (map ev_Name (removeOtelExporterOtlpEnvVarsIfSetByOperator c env))"
  proof (cases ?own)
    case True
    then have "filter ?P (removeEnvironmentVariable envVarOtelExporterOtlpProtocolName
        (removeEnvironmentVariable envVarOtelExporterOtlpEndpointName env)) = filter ?P env"
      using own[OF True] by (subst env.filter_del_if) (auto simp: env.del_filter intro!: filter_cong)
    with True dist show ?thesis by (simp add: removeOtlp_lookup Let_def env.distinct_del)
  next
    case False
    with dist show ?thesis by (auto simp: removeOtlp_lookup Let_def)
  qed
qed

lemma keeps_removal: "keeps (user_setting (rm_clusterInstrumentationConfig m)
    (rm_namespaceInstrumentationConfig m)) (removal_stage m)"
proof -
  have "keeps (user_setting c ns) (removeCaptureSqlQueryParametersIfCurrentValueMatchesConfig ns)" for c ns
    using keeps_fold[of CaptureSqlQueryParametersEnvVarNames "user_setting c ns" sql_remove]
      keeps_sql_remove[of _ c ns] keeps_id[of "user_setting c ns"]
    by (cases "ReadBoolPointerWithDefault (nic_CaptureSqlQueryParameters ns) False")
      (simp_all add: removeCaptureSql_steps[abs_def])
  moreover have "keeps (user_setting c ns) removeLdPreload" for c ns
    unfolding removeLdPreload_def removeEntryFromLdPreload_map_first
    by (rule keeps_map_first) (auto simp: not_shared)
  ultimately show ?thesis
    unfolding removal_stage_def
    by (intro keeps_comp keeps_removeLogs keeps_removePropagators keeps_removeOtlp keeps_fold
        keeps_operator_del) auto
qed

section \<open>Instrumenting and reverting\<close>

lemma get_removeLdPreload: "n \<noteq> envVarLdPreloadName \<Longrightarrow> GetEnvVar n (removeLdPreload env) = GetEnvVar n env"
  by (simp add: removeLdPreload_def removeEntryFromLdPreload_map_first get_map_first_other)

lemma get_removeOtlp_other:
  "n \<noteq> envVarOtelExporterOtlpEndpointName \<Longrightarrow> n \<noteq> envVarOtelExporterOtlpProtocolName \<Longrightarrow>
   GetEnvVar n (removeOtelExporterOtlpEnvVarsIfSetByOperator c env) = GetEnvVar n env"
  by (simp add: removeOtlp_lookup Let_def env.get_del)

lemma get_removePropagators_other:
  "n \<noteq> OtelPropagatorsEnvVarName \<Longrightarrow>
   GetEnvVar n (removeOtelPropagatorsIfCurrentValueMatchesConfig ns env) = GetEnvVar n env"
  by (simp add: removePropagators_lookup env.get_del)

lemma get_sql_remove_other: "k \<noteq> n \<Longrightarrow> GetEnvVar k (sql_remove n env) = GetEnvVar k env"
  by (simp add: sql_remove_def env.get_del)

lemma get_sql_remove: "GetEnvVar n (sql_remove n env) =
    (if GetEnvVar n env = Some (envVar n captureSqlQueryParametersValueTrue) then None else GetEnvVar n env)"
proof (cases "GetEnvVar n env")
  case None
  then show ?thesis by (simp add: sql_remove_def)
next
  case (Some e)
  have "ev_Name e = n" using Some by (rule env.get_key)
  with Some show ?thesis by (cases e) (auto simp: sql_remove_def env.get_del envVar_def)
qed

lemma get_fold_sql_remove:
  "GetEnvVar n (fold sql_remove ks env) =
     (if n \<in> set ks \<and> GetEnvVar n env = Some (envVar n captureSqlQueryParametersValueTrue) then None
      else GetEnvVar n env)"
proof (induction ks arbitrary: env)
  case Nil
  show ?case by simp
next
  case (Cons k ks)
  then show ?case
    using get_sql_remove[of n env] get_sql_remove_other[of n k env] by (cases "n = k") simp_all
qed

lemma get_removeSql:
  "GetEnvVar n (removeCaptureSqlQueryParametersIfCurrentValueMatchesConfig ns env) =
     (if n \<in> set CaptureSqlQueryParametersEnvVarNames \<and>
         ReadBoolPointerWithDefault (nic_CaptureSqlQueryParameters ns) False \<and>
         GetEnvVar n env = Some (envVar n captureSqlQueryParametersValueTrue)
      then None else GetEnvVar n env)"
  by (simp add: removeCaptureSql_steps get_fold_sql_remove)

lemma get_removeLogs_other:
  "n \<noteq> envVarOtelLogsExporterName \<Longrightarrow> GetEnvVar n (removeOtelLogsExporterEnvVar ns env) = GetEnvVar n env"
  by (simp add: removeOtelLogsExporter_lookup env.get_del)

lemmas get_removal =
  get_removeLdPreload get_removeOtlp_other get_removePropagators_other get_removeSql
  get_removeLogs_other env.get_del CaptureSqlQueryParametersEnvVarNames_def

text \<open>What the removal leaves of the variables the operator owns outright, and of the shared ones.\<close>

lemma removal_owned:
  assumes "n \<in> operator_owned" and "n \<notin> set legacy_env_var_names" and "n \<noteq> EnvVarDash0NodeIp"
    and "n \<noteq> legacyEnvVarDash0InjectorLogLevel" and "n \<noteq> envVarLdPreloadName"
  shows "GetEnvVar n (removal_stage m env) = None"
proof -
  have "n \<in> set managed_env_var_names - shared_names"
    using assms(1,2) by (auto simp: operator_owned_def operator_env_var_names_def)
  then show ?thesis
    using assms(3-5)
    by (auto simp: managed_env_var_names_def shared_names_def removal_stage_def get_removal)
qed

lemma removal_legacy_log_level:
  "GetEnvVar legacyEnvVarDash0InjectorLogLevel (removal_stage m env) =
     GetEnvVar legacyEnvVarDash0InjectorLogLevel env"
  by (simp add: removal_stage_def get_removal)

lemma removal_otlp:
  "GetEnvVar envVarOtelExporterOtlpEndpointName (removal_stage m env) =
     GetEnvVar envVarOtelExporterOtlpEndpointName
       (removeOtelExporterOtlpEnvVarsIfSetByOperator (rm_clusterInstrumentationConfig m) env)"
  "GetEnvVar envVarOtelExporterOtlpProtocolName (removal_stage m env) =
     GetEnvVar envVarOtelExporterOtlpProtocolName
       (removeOtelExporterOtlpEnvVarsIfSetByOperator (rm_clusterInstrumentationConfig m) env)"
  by (simp_all add: removal_stage_def get_removal) (simp_all add: removeOtlp_lookup Let_def get_removal)

lemma removal_propagators:
  "GetEnvVar OtelPropagatorsEnvVarName (removal_stage m env) =
     GetEnvVar OtelPropagatorsEnvVarName
       (removeOtelPropagatorsIfCurrentValueMatchesConfig (rm_namespaceInstrumentationConfig m) env)"
  by (simp add: removal_stage_def get_removal) (simp add: removePropagators_lookup get_removal)

lemma removal_logs:
  "GetEnvVar envVarOtelLogsExporterName (removal_stage m env) =
     GetEnvVar envVarOtelLogsExporterName
       (removeOtelLogsExporterEnvVar (rm_namespaceInstrumentationConfig m) env)"
  by (simp add: removal_stage_def get_removal) (simp add: removeOtelLogsExporter_lookup get_removal)

lemma removal_sql:
  "n \<in> set CaptureSqlQueryParametersEnvVarNames \<Longrightarrow>
   GetEnvVar n (removal_stage m env) =
     GetEnvVar n (removeCaptureSqlQueryParametersIfCurrentValueMatchesConfig
       (rm_namespaceInstrumentationConfig m) env)"
  by (auto simp: CaptureSqlQueryParametersEnvVarNames_def removal_stage_def get_removal)

text \<open>An environment of settings of the user only, before and after.\<close>

lemma user_env_absent:
  "(\<And>e. e \<in> set env \<Longrightarrow> user_setting c ns e) \<Longrightarrow> n \<in> operator_owned \<Longrightarrow> GetEnvVar n env = None"
  using env.get_None_iff[of n env] not_shared by auto

lemma user_env_no_legacy:
  assumes "\<And>e. e \<in> set env \<Longrightarrow> user_setting c ns e"
  shows "no_legacy_values env"
proof -
  have "\<not> Contains (ev_Value e) legacyEnvVarNodeOptionsValue"
    if get: "GetEnvVar legacyEnvVarNodeOptionsName env = Some e" for e
  proof -
    have "ev_Name e = legacyEnvVarNodeOptionsName" using get by (rule env.get_key)
    with assms[OF env.get_mem[OF get]] show ?thesis
      by (auto simp: user_setting_def CaptureSqlQueryParametersEnvVarNames_def)
  qed
  moreover have "GetEnvVar envVarLdPreloadName env = None"
    by (rule user_env_absent[OF assms]) simp_all
  ultimately show ?thesis by (auto simp: no_legacy_values_def pred_option_def)
qed

text \<open>
  The environment in between, as the removal finds it: without legacy variables and node IP. The
  lookups of all other variables are those of the instrumented environment.
\<close>

lemma reverted_lookup:
  assumes "n \<notin> set legacy_env_var_names" and "n \<noteq> EnvVarDash0NodeIp"
    and "no_legacy_values env"
  shows "GetEnvVar n (removeLegacyEnvironmentVariables
           (removeEnvironmentVariable EnvVarDash0NodeIp (fst (addEnvironmentVariables m k wm pm env)))) =
         GetEnvVar n (fst (addEnvironmentVariables m k wm pm env))"
proof -
  have "no_legacy_values (removeEnvironmentVariable EnvVarDash0NodeIp (fst (addEnvironmentVariables m k wm pm env)))"
    using no_legacy_values_add[OF assms(3), of m k wm pm] by (simp add: no_legacy_values_def env.get_del)
  then show ?thesis using assms(1,2) by (simp add: removeLegacy_no_values get_fold_del env.get_del)
qed

definition removal_names :: "string set" where
  "removal_names =
     {envVarLdPreloadName, envVarOtelInjectorConfigFileName, envVarDash0CollectorBaseUrlName,
      envVarOtelExporterOtlpEndpointName, envVarOtelExporterOtlpProtocolName, OtelPropagatorsEnvVarName,
      envVarOtelLogsExporterName, envVarJdbcCaptureName, envVarSqlClientCaptureName, envVarEfCoreCaptureName,
      envVarOTelInjectorNamespaceName, envVarOTelInjectorPodName, envVarOTelInjectorPodUidName,
      envVarOTelInjectorContainerName, envVarOTelInjectorServiceNamespace, envVarOTelInjectorServiceName,
      envVarOTelInjectorServiceVersionName, envVarOTelInjectorResourceAttributesName,
      otelInjectorLogLevelEnvVarName}"

lemma removal_other: "n \<notin> removal_names \<Longrightarrow> GetEnvVar n (removal_stage m env) = GetEnvVar n env"
  by (simp add: removal_names_def removal_stage_def get_removal)

lemma removal_names_legacy: "n \<in> set legacy_env_var_names \<Longrightarrow> n \<notin> removal_names"
  using legacy_names_disjoint(1) by (auto simp: managed_env_var_names_def removal_names_def)

lemma get_map_first_del:
  "distinct (map ev_Name env) \<Longrightarrow> GetEnvVar n env = Some e \<Longrightarrow> f e = None \<Longrightarrow>
   GetEnvVar n (map_first f n env) = None"
proof (induction env)
  case Nil
  then show ?case by (simp add: env.get_Nil)
next
  case (Cons x xs)
  show ?case
  proof (cases "ev_Name x = n")
    case True
    with Cons.prems show ?thesis by (auto simp: env.get_Cons env.get_None_iff)
  next
    case False
    with Cons show ?thesis by (simp add: env.get_Cons)
  qed
qed

lemma removal_ld:
  assumes "distinct (map ev_Name env)"
    and "GetEnvVar envVarLdPreloadName env = Some (envVar envVarLdPreloadName envVarLdPreloadValue)"
  shows "GetEnvVar envVarLdPreloadName (removal_stage m env) = None"
proof -
  have "TrimSpace envVarLdPreloadValue = envVarLdPreloadValue" and "envVarLdPreloadValue \<noteq> []" by code_simp+
  then have "GetEnvVar envVarLdPreloadName (removeLdPreload env) = None"
    unfolding removeLdPreload_def removeEntryFromLdPreload_map_first
    by (intro get_map_first_del[OF assms]) (simp add: ld_without_def envVar_def)
  then show ?thesis
    by (simp add: removal_stage_def env.get_del get_removeOtlp_other get_removePropagators_other
        get_removeSql get_removeLogs_other)
qed

lemma get_add_legacy_log_level:
  "GetEnvVar legacyEnvVarDash0InjectorLogLevel env = None \<Longrightarrow>
   GetEnvVar legacyEnvVarDash0InjectorLogLevel (fst (addEnvironmentVariables m n wm pm env)) = None"
  unfolding addEnvironmentVariables_stages instrumentation_stage_def comp_apply
  by (simp add: addInjectorLogLevel_lookup Let_def env.get_del env.get_put get_stages)

text \<open>
  A container whose environment consists of settings of the user only, and a configuration in which
  the operator recognises its own base URL and remembers that log collection has been enabled.
\<close>

definition user_environment :: "ResourceModifier \<Rightarrow> EnvVar list \<Rightarrow> bool" where
  "user_environment m env \<longleftrightarrow>
     own_base_url (rm_clusterInstrumentationConfig m) \<and>
     (nic_LogCollectionEnabled (rm_namespaceInstrumentationConfig m) \<longrightarrow>
      nic_PreviousLogCollectionEnabled (rm_namespaceInstrumentationConfig m)) \<and>
     distinct (map ev_Name env) \<and>
     list_all (user_setting (rm_clusterInstrumentationConfig m) (rm_namespaceInstrumentationConfig m)) env"

abbreviation instrumented :: "ResourceModifier \<Rightarrow> string \<Rightarrow> ObjectMeta \<Rightarrow> ObjectMeta \<Rightarrow> EnvVar list \<Rightarrow> EnvVar list" where
  "instrumented m n wm pm env \<equiv> fst (addEnvironmentVariables m n wm pm env)"

abbreviation between :: "ResourceModifier \<Rightarrow> string \<Rightarrow> ObjectMeta \<Rightarrow> ObjectMeta \<Rightarrow> EnvVar list \<Rightarrow> EnvVar list" where
  "between m n wm pm env \<equiv> removeLegacyEnvironmentVariables
     (removeEnvironmentVariable EnvVarDash0NodeIp (instrumented m n wm pm env))"

lemma user_environment_no_legacy: "user_environment m env \<Longrightarrow> no_legacy_values env"
  by (rule user_env_no_legacy) (auto simp: user_environment_def list_all_iff)

lemma instrumented_keeps:
  assumes "own_base_url (rm_clusterInstrumentationConfig m)" and "no_legacy_values env"
    and "distinct (map ev_Name env)"
  shows "filter (user_setting (rm_clusterInstrumentationConfig m) (rm_namespaceInstrumentationConfig m))
      (instrumented m n wm pm env) =
    filter (user_setting (rm_clusterInstrumentationConfig m) (rm_namespaceInstrumentationConfig m)) env \<and>
    distinct (map ev_Name (instrumented m n wm pm env))"
proof -
  let ?P = "user_setting (rm_clusterInstrumentationConfig m) (rm_namespaceInstrumentationConfig m)"
  have "keeps ?P (instrumentation_stage m n wm pm \<circ>
      (prependDash0NodeIp \<circ> fold removeEnvironmentVariable legacy_env_var_names))"
    by (intro keeps_comp keeps_instrumentation assms(1) keeps_prepend keeps_legacy_names)
  with assms(3) show ?thesis
    by (simp add: addEnvironmentVariables_stages removeLegacy_no_values[OF assms(2)] keeps_def)
qed

lemma removed_keeps:
  assumes "no_legacy_values env" and "distinct (map ev_Name env)"
  shows "filter (user_setting (rm_clusterInstrumentationConfig m) (rm_namespaceInstrumentationConfig m))
      (removeEnvironmentVariables m env) =
    filter (user_setting (rm_clusterInstrumentationConfig m) (rm_namespaceInstrumentationConfig m)) env \<and>
    distinct (map ev_Name (removeEnvironmentVariables m env))"
proof -
  let ?P = "user_setting (rm_clusterInstrumentationConfig m) (rm_namespaceInstrumentationConfig m)"
  have "keeps ?P (removal_stage m \<circ> (fold removeEnvironmentVariable legacy_env_var_names \<circ>
      removeEnvironmentVariable EnvVarDash0NodeIp))"
    by (intro keeps_comp keeps_removal keeps_legacy_names keeps_operator_del) simp
  moreover have "no_legacy_values (removeEnvironmentVariable EnvVarDash0NodeIp env)"
    using assms(1) by (simp add: no_legacy_values_def env.get_del)
  ultimately show ?thesis
    using assms(2) by (simp add: removeEnvironmentVariables_stages removeLegacy_no_values keeps_def)
qed

lemma between_fold:
  assumes "no_legacy_values env"
  shows "between m n wm pm env = fold removeEnvironmentVariable legacy_env_var_names
     (removeEnvironmentVariable EnvVarDash0NodeIp (instrumented m n wm pm env))"
  using no_legacy_values_add[OF assms, of m n wm pm]
  by (intro removeLegacy_no_values) (simp add: no_legacy_values_def env.get_del)

lemma distinct_between:
  assumes "no_legacy_values env" and "distinct (map ev_Name (instrumented m n wm pm env))"
  shows "distinct (map ev_Name (between m n wm pm env))"
proof -
  have "keeps (\<lambda>_. False) (fold removeEnvironmentVariable legacy_env_var_names \<circ>
      removeEnvironmentVariable EnvVarDash0NodeIp)"
    by (intro keeps_comp keeps_fold keeps_del) simp_all
  with assms(2) show ?thesis unfolding between_fold[OF assms(1)] by (simp add: keeps_def)
qed

lemma reverted_owned:
  assumes "user_environment m env" and owned: "k \<in> operator_owned"
  shows "GetEnvVar k (removeEnvironmentVariables m (instrumented m n wm pm env)) = None"
proof -
  note legacy = user_environment_no_legacy[OF assms(1)]
  have absent: "GetEnvVar k env = None"
    using assms by (intro user_env_absent) (auto simp: user_environment_def list_all_iff)
  consider "k \<in> set legacy_env_var_names" | "k = EnvVarDash0NodeIp"
    | "k = legacyEnvVarDash0InjectorLogLevel" | "k = envVarLdPreloadName"
    | "k \<notin> set legacy_env_var_names" "k \<noteq> EnvVarDash0NodeIp" "k \<noteq> legacyEnvVarDash0InjectorLogLevel"
        "k \<noteq> envVarLdPreloadName" by blast
  then show ?thesis
  proof cases
    case 1
    with removal_names_legacy[OF 1] show ?thesis
      by (simp add: removeEnvironmentVariables_stages removal_other between_fold[OF legacy] get_fold_del)
  next
    case 2
    then show ?thesis
      by (simp add: removeEnvironmentVariables_stages removal_other removal_names_def
          between_fold[OF legacy] get_fold_del env.get_del)
  next
    case 3
    with absent show ?thesis
      by (simp add: removeEnvironmentVariables_stages removal_other removal_names_def
          reverted_lookup[OF _ _ legacy] get_add_legacy_log_level)
  next
    case 4
    with absent have "GetEnvVar envVarLdPreloadName (instrumented m n wm pm env) =
        Some (envVar envVarLdPreloadName envVarLdPreloadValue)"
      by (simp add: addEnvironmentVariables_stages get_instrumentation_ld get_ld_stage
          removeLegacy_no_values[OF legacy] get_prepend get_fold_del)
    moreover have "distinct (map ev_Name (between m n wm pm env))"
      using assms(1) legacy
      by (intro distinct_between) (simp_all add: instrumented_keeps user_environment_def)
    ultimately show ?thesis
      using 4 by (simp add: removeEnvironmentVariables_stages removal_ld reverted_lookup[OF _ _ legacy])
  next
    case 5
    with owned show ?thesis by (simp add: removeEnvironmentVariables_stages removal_owned)
  qed
qed

lemma user_environment_get:
  assumes "user_environment m env" and "GetEnvVar k env = Some e"
  shows "user_setting (rm_clusterInstrumentationConfig m) (rm_namespaceInstrumentationConfig m) e \<and>
         ev_Name e = k"
  using assms env.get_mem[OF assms(2)] env.get_key[OF assms(2)]
  by (auto simp: user_environment_def list_all_iff)

text \<open>The variables shared with the user: what the revert leaves of them has been there before.\<close>

lemma reverted_otlp:
  assumes ue: "user_environment m env"
    and k: "k \<in> {envVarOtelExporterOtlpEndpointName, envVarOtelExporterOtlpProtocolName}"
    and get: "GetEnvVar k (removal_stage m (between m n wm pm env)) = Some e"
  shows "GetEnvVar k env = Some e"
proof -
  let ?c = "rm_clusterInstrumentationConfig m"
  let ?E = "GetEnvVar envVarOtelExporterOtlpEndpointName" and ?Q = "GetEnvVar envVarOtelExporterOtlpProtocolName"
  let ?I = "instrumented m n wm pm env"
  note lookup = reverted_lookup[OF _ _ user_environment_no_legacy[OF ue], of _ m n wm pm]
  have endpoint: "is_set (?E env) \<Longrightarrow> \<not> is_operator_endpoint (cic_PossibleCollectorUrls ?c) (?E env)"
    using user_environment_get[OF ue, of envVarOtelExporterOtlpEndpointName]
    by (cases "?E env") (auto simp: user_setting_shared)
  have removed: "GetEnvVar k (removal_stage m (between m n wm pm env)) =
      (if is_set (?E ?I) \<and> is_set (?Q ?I) \<and> is_operator_endpoint (cic_PossibleCollectorUrls ?c) (?E ?I) \<and>
          has_value defaultOtelExporterOtlpProtocol (?Q ?I) then None else GetEnvVar k ?I)"
    using k by (auto simp: removal_otlp removeOtlp_lookup Let_def env.get_del lookup)
  show ?thesis
  proof (cases "otelExportEnvVarsCanBeUpdatedForContainer env ?c")
    case True
    have "defaultOtelExporterOtlpProtocol \<noteq> []" by code_simp
    with True have "GetEnvVar k (removal_stage m (between m n wm pm env)) = None"
      using ue unfolding removed get_add_otlp by (simp add: user_environment_def own_base_url_def)
    with get show ?thesis by simp
  next
    case False
    with endpoint get show ?thesis
      unfolding removed get_add_otlp using k by (auto simp: get_add_otlp split: if_splits)
  qed
qed

lemma reverted_logs:
  assumes ue: "user_environment m env"
    and get: "GetEnvVar envVarOtelLogsExporterName (removal_stage m (between m n wm pm env)) = Some e"
  shows "GetEnvVar envVarOtelLogsExporterName env = Some e"
proof -
  let ?ns = "rm_namespaceInstrumentationConfig m" and ?I = "instrumented m n wm pm env"
  let ?L = "GetEnvVar envVarOtelLogsExporterName"
  note lookup = reverted_lookup[OF _ _ user_environment_no_legacy[OF ue], of _ m n wm pm]
  have own: "\<not> has_value envVarOtelLogsExporterNoneValue (?L env)"
    using user_environment_get[OF ue, of envVarOtelLogsExporterName]
    by (cases "?L env") (auto simp: user_setting_shared)
  have set: "is_set (?L env) \<longleftrightarrow> ?L env \<noteq> None"
    using user_environment_get[OF ue, of envVarOtelLogsExporterName]
    by (cases "?L env") (auto simp: user_setting_shared)
  have "?L (removal_stage m (between m n wm pm env)) =
      (if nic_PreviousLogCollectionEnabled ?ns \<and> has_value envVarOtelLogsExporterNoneValue (?L ?I)
       then None else ?L ?I)"
    by (simp add: removal_logs removeOtelLogsExporter_lookup env.get_del lookup)
  then show ?thesis
    using get own set ue
    by (auto simp: get_add_logs Let_def user_environment_def split: if_splits)
qed

lemma reverted_propagators:
  assumes ue: "user_environment m env"
    and get: "GetEnvVar OtelPropagatorsEnvVarName (removal_stage m (between m n wm pm env)) = Some e"
  shows "GetEnvVar OtelPropagatorsEnvVarName env = Some e"
proof -
  let ?ns = "rm_namespaceInstrumentationConfig m" and ?I = "instrumented m n wm pm env"
  let ?G = "GetEnvVar OtelPropagatorsEnvVarName"
  note lookup = reverted_lookup[OF _ _ user_environment_no_legacy[OF ue], of _ m n wm pm]
  have removed: "?G (removal_stage m (between m n wm pm env)) =
      (if \<not> IsEmpty (nic_TraceContextPropagators ?ns) \<and>
          has_value (TrimSpace (the (nic_TraceContextPropagators ?ns))) (?G ?I)
       then None else ?G ?I)"
    by (simp add: removal_propagators removePropagators_lookup env.get_del lookup)
  show ?thesis
  proof (cases "otelPropagatorsCanBeUpdatedForContainer env ?ns")
    case True
    then have "?G (removal_stage m (between m n wm pm env)) = None"
      unfolding removed get_add_propagators by (simp add: Let_def)
    with get show ?thesis by simp
  next
    case False
    with get removed show ?thesis by (auto simp: get_add_propagators Let_def split: if_splits)
  qed
qed

lemma reverted_sql:
  assumes ue: "user_environment m env" and k: "k \<in> set CaptureSqlQueryParametersEnvVarNames"
    and get: "GetEnvVar k (removal_stage m (between m n wm pm env)) = Some e"
  shows "GetEnvVar k env = Some e"
proof -
  let ?ns = "rm_namespaceInstrumentationConfig m" and ?I = "instrumented m n wm pm env"
  have "k \<notin> set legacy_env_var_names" and "k \<noteq> EnvVarDash0NodeIp"
    using k by (auto simp: CaptureSqlQueryParametersEnvVarNames_def)
  then have lookup: "GetEnvVar k (between m n wm pm env) = GetEnvVar k ?I"
    by (rule reverted_lookup[OF _ _ user_environment_no_legacy[OF ue]])
  have "GetEnvVar k ?I = GetEnvVar k env \<or>
      ReadBoolPointerWithDefault (nic_CaptureSqlQueryParameters ?ns) False \<and>
      GetEnvVar k ?I = Some (envVar k captureSqlQueryParametersValueTrue) \<or> GetEnvVar k ?I = None"
    using k by (auto simp: get_add_sql sql_step_def env.get_put env.get_del)
  then show ?thesis
    using get k by (auto simp: removal_sql get_removeSql lookup split: if_splits)
qed

lemma reverted_node_options:
  assumes "user_environment m env"
  shows "GetEnvVar legacyEnvVarNodeOptionsName (removal_stage m (between m n wm pm env)) =
      GetEnvVar legacyEnvVarNodeOptionsName env"
proof -
  note legacy = user_environment_no_legacy[OF assms]
  have "legacyEnvVarNodeOptionsName \<notin> instrumentation_names" by (simp add: instrumentation_names_def)
  then have "GetEnvVar legacyEnvVarNodeOptionsName (instrumented m n wm pm env) =
      GetEnvVar legacyEnvVarNodeOptionsName env"
    by (simp add: addEnvironmentVariables_stages instrumentation.get_stage removeLegacy_no_values[OF legacy]
        get_prepend get_fold_del)
  then show ?thesis
    by (simp add: removal_other removal_names_def reverted_lookup[OF _ _ legacy])
qed

lemma reverted_user_settings:
  assumes ue: "user_environment m env"
    and e: "e \<in> set (removeEnvironmentVariables m (instrumented m n wm pm env))"
  shows "user_setting (rm_clusterInstrumentationConfig m) (rm_namespaceInstrumentationConfig m) e"
proof -
  let ?R = "removeEnvironmentVariables m (instrumented m n wm pm env)"
  note legacy = user_environment_no_legacy[OF ue]
  have "distinct (map ev_Name ?R)"
    using ue legacy
    by (intro conjunct2[OF removed_keeps] no_legacy_values_add)
      (simp_all add: instrumented_keeps user_environment_def)
  then have get: "GetEnvVar (ev_Name e) ?R = Some e" using e by (rule env.get_distinct)
  then have get': "GetEnvVar (ev_Name e) (removal_stage m (between m n wm pm env)) = Some e"
    by (simp add: removeEnvironmentVariables_stages)
  have "ev_Name e \<notin> operator_owned" using get reverted_owned[OF ue, of "ev_Name e"] by auto
  then consider "ev_Name e \<notin> operator_env_var_names" | "ev_Name e \<in> shared_names"
    by (auto simp: operator_owned_def)
  then show ?thesis
  proof cases
    case 1
    then show ?thesis by (simp add: user_setting_def)
  next
    case 2
    then have "GetEnvVar (ev_Name e) env = Some e"
      using get' reverted_node_options[OF ue] reverted_logs[OF ue] reverted_propagators[OF ue]
        reverted_otlp[OF ue] reverted_sql[OF ue]
      unfolding shared_names_def by auto
    then show ?thesis using user_environment_get[OF ue] by blast
  qed
qed

end
