(* ===== verification/WorkloadModifier.thy ===== *)
theory WorkloadModifier
  imports UserSettings
begin

text \<open>
  Instrumenting workloads and reverting the instrumentation: the pod spec and the metadata level of
  \<open>internal/workloads/workload_modifier.go\<close>. The methods of \<open>ResourceModifier\<close> that modify an object
  in place return the modified object. \<open>slices.Delete\<close> panics on an index out of range, so everything
  above \<open>removeSafeToEvictLocalVolumesAnnotation\<close> returns an \<open>outcome\<close>.

  In \<open>ModifyPod\<close> the metadata of the workload and the metadata of the pod are the same object. This
  aliasing is made explicit: \<open>modifyPodSpec\<close> takes the metadata of the workload as an option, \<open>None\<close>
  meaning the metadata of the pod. The reasons for not modifying a workload are constructors, the
  texts rendered from them for the events are left out, as is logging.
\<close>

section \<open>Results\<close>

datatype NoModificationReason =
    NoModificationReasonUnknown
  | NoModificationReasonNoChanges
  | NoModificationReasonError
  | NoModificationReasonOwnedByHigherOrderWorkload
  | UnsupportedOperatingSystem string
  | EphemeralStorageLimitTooLow string string
  | NoModificationReasonImmutableWorkloadCannotBeInstrumented
  | NoModificationReasonImmutableWorkloadCannotBeReverted
  | NoModificationReasonIgnoreOnceLabel

record ModificationResult =
  mr_HasBeenModified :: bool
  mr_Reason :: "NoModificationReason option"
  mr_ContainersTotal :: nat
  mr_InstrumentationIssuesPerContainer :: "(string \<times> string list) list"
  mr_LogAtDebugOnly :: bool
  mr_ImmutableWorkload :: bool

definition NewHasBeenModifiedResult :: "nat \<Rightarrow> (string \<times> string list) list \<Rightarrow> ModificationResult" where
  "NewHasBeenModifiedResult containersTotal issues =
     \<lparr>mr_HasBeenModified = True, mr_Reason = None, mr_ContainersTotal = containersTotal,
      mr_InstrumentationIssuesPerContainer = issues, mr_LogAtDebugOnly = False,
      mr_ImmutableWorkload = False\<rparr>"

definition newNotModifiedResult :: "NoModificationReason \<Rightarrow> ModificationResult" where
  "newNotModifiedResult reason =
     \<lparr>mr_HasBeenModified = False, mr_Reason = Some reason, mr_ContainersTotal = 0,
      mr_InstrumentationIssuesPerContainer = [], mr_LogAtDebugOnly = False, mr_ImmutableWorkload = False\<rparr>"

definition NewNotModifiedOwnedByHigherOrderWorkloadResult :: ModificationResult where
  "NewNotModifiedOwnedByHigherOrderWorkloadResult =
     (newNotModifiedResult NoModificationReasonOwnedByHigherOrderWorkload)\<lparr>mr_LogAtDebugOnly := True\<rparr>"

definition NewNotModifiedUnsupportedOperatingSystemResult :: "string \<Rightarrow> ModificationResult" where
  "NewNotModifiedUnsupportedOperatingSystemResult details =
     newNotModifiedResult (UnsupportedOperatingSystem details)"

definition NewNotModifiedEphemeralStorageLimitTooLowResult :: "string \<Rightarrow> string \<Rightarrow> ModificationResult" where
  "NewNotModifiedEphemeralStorageLimitTooLowResult containerName limit =
     newNotModifiedResult (EphemeralStorageLimitTooLow containerName limit)"

definition NewNotModifiedNoChangesResult :: ModificationResult where
  "NewNotModifiedNoChangesResult = newNotModifiedResult NoModificationReasonNoChanges"

definition NewNotModifiedImmutableWorkloadCannotBeInstrumentedResult :: ModificationResult where
  "NewNotModifiedImmutableWorkloadCannotBeInstrumentedResult =
     (newNotModifiedResult NoModificationReasonImmutableWorkloadCannotBeInstrumented)
       \<lparr>mr_ImmutableWorkload := True\<rparr>"

definition NewNotModifiedImmutableWorkloadCannotBeRevertedResult :: ModificationResult where
  "NewNotModifiedImmutableWorkloadCannotBeRevertedResult =
     (newNotModifiedResult NoModificationReasonImmutableWorkloadCannotBeReverted)
       \<lparr>mr_ImmutableWorkload := True\<rparr>"

section \<open>Is the instrumentation up to date?\<close>

definition otelLogsExporterEnvVarWillBeUpdatedForAtLeastOneContainer ::
  "Container list \<Rightarrow> NamespaceInstrumentationConfig \<Rightarrow> bool" where
  "otelLogsExporterEnvVarWillBeUpdatedForAtLeastOneContainer containers ns =
     list_ex (\<lambda>container.
       let envVar = GetEnvVar envVarOtelLogsExporterName (c_Env container)
       in if nic_LogCollectionEnabled ns then IsEnvVarUnsetOrEmpty envVar
          else if nic_PreviousLogCollectionEnabled ns
          then (case envVar of
                  None \<Rightarrow> False
                | Some e \<Rightarrow> ev_ValueFrom e = None \<and> ev_Value e = envVarOtelLogsExporterNoneValue)
          else False) containers"

definition otelExportEnvVarsWillBeUpdatedForAtLeastOneContainer ::
  "Container list \<Rightarrow> ClusterInstrumentationConfig \<Rightarrow> bool" where
  "otelExportEnvVarsWillBeUpdatedForAtLeastOneContainer containers c =
     list_ex (\<lambda>container. otelExportEnvVarsCanBeUpdatedForContainer (c_Env container) c) containers"

definition otelPropagatorsEnvVarWillBeUpdatedForAtLeastOneContainer ::
  "Container list \<Rightarrow> NamespaceInstrumentationConfig \<Rightarrow> bool" where
  "otelPropagatorsEnvVarWillBeUpdatedForAtLeastOneContainer containers ns =
     list_ex (\<lambda>container. otelPropagatorsCanBeUpdatedForContainer (c_Env container) ns) containers"

definition captureSqlQueryParametersEnvVarWillBeUpdatedForAtLeastOneContainer ::
  "Container list \<Rightarrow> NamespaceInstrumentationConfig \<Rightarrow> bool" where
  "captureSqlQueryParametersEnvVarWillBeUpdatedForAtLeastOneContainer containers ns =
     list_ex (\<lambda>container.
       list_ex (\<lambda>envVarName. captureSqlQueryParametersCanBeUpdatedForContainer (c_Env container) envVarName ns)
         CaptureSqlQueryParametersEnvVarNames) containers"

definition otelInjectorConfEnvVarWillBeUpdatedForAtLeastOneContainer ::
  "Container list \<Rightarrow> ClusterInstrumentationConfig \<Rightarrow> bool" where
  "otelInjectorConfEnvVarWillBeUpdatedForAtLeastOneContainer containers c =
     list_ex (\<lambda>container.
       let envVarOnContainer = GetEnvVar envVarOtelInjectorConfigFileName (c_Env container)
       in if envVarOnContainer \<noteq> None \<and> ev_ValueFrom (the envVarOnContainer) \<noteq> None then True
          else if IsEnvVarUnsetOrEmpty envVarOnContainer then True
          else TrimSpace (ev_Value (the envVarOnContainer)) \<noteq> TrimSpace (otelInjectorConfigFileFor c))
       containers"

definition InstrumentationIsUpToDate ::
  "ObjectMeta \<Rightarrow> Container list \<Rightarrow> ClusterInstrumentationConfig \<Rightarrow> NamespaceInstrumentationConfig \<Rightarrow> bool" where
  "InstrumentationIsUpToDate objectMeta containers c ns =
     (if \<not> HasBeenInstrumentedSuccessfullyByThisVersion objectMeta (cic_Images c) then False
      else if otelExportEnvVarsWillBeUpdatedForAtLeastOneContainer containers c then False
      else if otelPropagatorsEnvVarWillBeUpdatedForAtLeastOneContainer containers ns then False
      else if otelInjectorConfEnvVarWillBeUpdatedForAtLeastOneContainer containers c then False
      else if otelLogsExporterEnvVarWillBeUpdatedForAtLeastOneContainer containers ns then False
      else if captureSqlQueryParametersEnvVarWillBeUpdatedForAtLeastOneContainer containers ns then False
      else True)"

section \<open>Eligibility\<close>

definition isInstrumentationDeliveryImageVolume :: "ResourceModifier \<Rightarrow> bool" where
  "isInstrumentationDeliveryImageVolume m \<longleftrightarrow>
     rm_resolvedInstrumentationDelivery m = ResolvedInstrumentationDeliveryImageVolume"

definition isInstrumentationDeliveryInitContainer :: "ResourceModifier \<Rightarrow> bool" where
  "isInstrumentationDeliveryInitContainer m \<longleftrightarrow> \<not> isInstrumentationDeliveryImageVolume m"

definition KubernetesIoOs :: string where
  "KubernetesIoOs = ''kubernetes.io/os''"

definition ephemeralStorageLimitThresholdBytes :: int where
  "ephemeralStorageLimitThresholdBytes = 500 * 1000 * 1000"

definition ephemeralStorageLimit :: "Container \<Rightarrow> Quantity option" where
  "ephemeralStorageLimit container = map_of (rr_Limits (c_Resources container)) ''ephemeral-storage''"

definition ephemeralStorageLimitTooLow :: "Container \<Rightarrow> bool" where
  "ephemeralStorageLimitTooLow container =
     (case ephemeralStorageLimit container of
        None \<Rightarrow> False
      | Some limit \<Rightarrow> q_Value limit < ephemeralStorageLimitThresholdBytes)"

definition checkEphemeralStorageLimit :: "PodSpec \<Rightarrow> ModificationResult option" where
  "checkEphemeralStorageLimit podSpec =
     (case find ephemeralStorageLimitTooLow (ps_Containers podSpec) of
        None \<Rightarrow> None
      | Some container \<Rightarrow>
          Some (NewNotModifiedEphemeralStorageLimitTooLowResult (c_Name container)
            (q_String (the (ephemeralStorageLimit container)))))"

definition nonLinuxMatchExpression :: "NodeSelectorRequirement \<Rightarrow> bool" where
  "nonLinuxMatchExpression e \<longleftrightarrow>
     nsr_Key e = KubernetesIoOs \<and>
     (nsr_Operator e = ''In'' \<and> ''linux'' \<notin> set (nsr_Values e) \<or>
      nsr_Operator e = ''NotIn'' \<and> ''linux'' \<in> set (nsr_Values e))"

definition checkOs :: "PodSpec \<Rightarrow> ModificationResult option" where
  "checkOs podSpec =
     (case ps_OS podSpec of
        None \<Rightarrow> None
      | Some os \<Rightarrow>
          if os \<noteq> [] \<and> os \<noteq> ''linux''
          then Some (NewNotModifiedUnsupportedOperatingSystemResult (''pod.spec.os.name: '' @ quoted os))
          else None)"

definition checkNodeSelector :: "PodSpec \<Rightarrow> ModificationResult option" where
  "checkNodeSelector podSpec =
     (case find (\<lambda>(k, v). k = KubernetesIoOs \<and> v \<noteq> ''linux'') (ps_NodeSelector podSpec) of
        None \<Rightarrow> None
      | Some (k, v) \<Rightarrow>
          Some (NewNotModifiedUnsupportedOperatingSystemResult
            (''pod.spec.nodeSelector: '' @ quoted (k @ ''='' @ v))))"

definition requiredMatchExpressions :: "PodSpec \<Rightarrow> NodeSelectorRequirement list" where
  "requiredMatchExpressions podSpec =
     (case ps_Affinity podSpec of
        None \<Rightarrow> []
      | Some affinity \<Rightarrow>
          (case aff_NodeAffinity affinity of
             None \<Rightarrow> []
           | Some nodeAffinity \<Rightarrow>
               (case na_Required nodeAffinity of
                  None \<Rightarrow> []
                | Some terms \<Rightarrow> concat (map nst_MatchExpressions terms))))"

definition checkNodeAffinity :: "PodSpec \<Rightarrow> ModificationResult option" where
  "checkNodeAffinity podSpec =
     (case find nonLinuxMatchExpression (requiredMatchExpressions podSpec) of
        None \<Rightarrow> None
      | Some e \<Rightarrow>
          Some (NewNotModifiedUnsupportedOperatingSystemResult
            (''pod.spec.affinity.nodeAffinity.requiredDuringSchedulingIgnoredDuringExecution.'' @
             ''nodeSelectorTerms.matchExpression: key: '' @ quoted (nsr_Key e) @
             '', operator: '' @ quoted (nsr_Operator e) @
             '', values: '' @ quoted (''['' @ Join (nsr_Values e) '' '' @ '']''))))"

definition checkEligibleForModification :: "ResourceModifier \<Rightarrow> PodSpec \<Rightarrow> ModificationResult option" where
  "checkEligibleForModification m podSpec =
     (case checkOs podSpec of
        Some result \<Rightarrow> Some result
      | None \<Rightarrow>
          (case checkNodeSelector podSpec of
             Some result \<Rightarrow> Some result
           | None \<Rightarrow>
               (case checkNodeAffinity podSpec of
                  Some result \<Rightarrow> Some result
                | None \<Rightarrow>
                    if isInstrumentationDeliveryInitContainer m then checkEphemeralStorageLimit podSpec
                    else None)))"

definition hasMatchingOwnerReference :: "ObjectMeta \<Rightarrow> OwnerReference list \<Rightarrow> bool" where
  "hasMatchingOwnerReference workload possibleOwnerTypes =
     list_ex (\<lambda>actual. list_ex (\<lambda>ownerType.
         or_APIVersion actual = or_APIVersion ownerType \<and> or_Kind actual = or_Kind ownerType)
       possibleOwnerTypes) (om_OwnerReferences workload)"

definition K8sTypeMetaDaemonSet :: OwnerReference where
  "K8sTypeMetaDaemonSet = \<lparr>or_APIVersion = ''apps/v1'', or_Kind = ''DaemonSet''\<rparr>"
definition K8sTypeMetaDeployment :: OwnerReference where
  "K8sTypeMetaDeployment = \<lparr>or_APIVersion = ''apps/v1'', or_Kind = ''Deployment''\<rparr>"
definition K8sTypeMetaReplicaSet :: OwnerReference where
  "K8sTypeMetaReplicaSet = \<lparr>or_APIVersion = ''apps/v1'', or_Kind = ''ReplicaSet''\<rparr>"
definition K8sTypeMetaStatefulSet :: OwnerReference where
  "K8sTypeMetaStatefulSet = \<lparr>or_APIVersion = ''apps/v1'', or_Kind = ''StatefulSet''\<rparr>"
definition K8sTypeMetaCronJob :: OwnerReference where
  "K8sTypeMetaCronJob = \<lparr>or_APIVersion = ''batch/v1'', or_Kind = ''CronJob''\<rparr>"
definition K8sTypeMetaJob :: OwnerReference where
  "K8sTypeMetaJob = \<lparr>or_APIVersion = ''batch/v1'', or_Kind = ''Job''\<rparr>"

section \<open>Volumes and the init container\<close>

definition dash0VolumeName :: string where
  "dash0VolumeName = ''dash0-instrumentation''"

definition initContainerName :: string where
  "initContainerName = ''dash0-instrumentation''"

definition otelAutoInstrumentationBaseDirectory :: string where
  "otelAutoInstrumentationBaseDirectory = ''/__otel_auto_instrumentation''"

definition dash0VolumeSource :: "ResourceModifier \<Rightarrow> VolumeSource" where
  "dash0VolumeSource m =
     (let images = cic_Images (rm_clusterInstrumentationConfig m)
      in if isInstrumentationDeliveryImageVolume m
         then ImageVolumeSource (img_InitContainerImage images)
                (if img_InitContainerImagePullPolicy images \<noteq> []
                 then img_InitContainerImagePullPolicy images else [])
         else EmptyDirVolumeSource (Some \<lparr>q_Value = 500000000, q_String = ''500M''\<rparr>))"

definition addInstrumentationVolume :: "ResourceModifier \<Rightarrow> PodSpec \<Rightarrow> PodSpec" where
  "addInstrumentationVolume m podSpec =
     podSpec\<lparr>ps_Volumes :=
       replaceOrAppend vol_Name
         \<lparr>vol_Name = dash0VolumeName, vol_Source = dash0VolumeSource m\<rparr> (ps_Volumes podSpec)\<rparr>"

definition createInitContainer :: "ResourceModifier \<Rightarrow> PodSpec \<Rightarrow> Container" where
  "createInitContainer m podSpec =
     (let c = rm_clusterInstrumentationConfig m;
          securityContext =
            (case ps_SecurityContext podSpec of
               Some sc \<Rightarrow> sc | None \<Rightarrow> \<lparr>psc_FSGroup = None, psc_RunAsNonRoot = None\<rparr>);
          user = (if cic_IsOpenShift c then None
                  else if psc_FSGroup securityContext \<noteq> None then psc_FSGroup securityContext
                  else Some 13020);
          initContainerEnv =
            envVar ''DASH0_INSTRUMENTATION_FOLDER_DESTINATION'' otelAutoInstrumentationBaseDirectory #
            (if cic_InstrumentationDebug c then [envVar ''DASH0_COPY_INSTRUMENTATION_DEBUG'' ''true''] else [])
      in \<lparr>c_Name = initContainerName,
          c_Image = img_InitContainerImage (cic_Images c),
          c_ImagePullPolicy =
            (if img_InitContainerImagePullPolicy (cic_Images c) \<noteq> []
             then img_InitContainerImagePullPolicy (cic_Images c) else []),
          c_Env = initContainerEnv,
          c_VolumeMounts =
            [\<lparr>vm_Name = dash0VolumeName, vm_ReadOnly = False,
              vm_MountPath = otelAutoInstrumentationBaseDirectory, vm_SubPath = []\<rparr>],
          c_Resources = InstrumentationInitContainerResources c,
          c_SecurityContext =
            Some \<lparr>sc_AllowPrivilegeEscalation = Some False, sc_Privileged = Some False,
                  sc_ReadOnlyRootFilesystem = Some True,
                  sc_RunAsNonRoot = psc_RunAsNonRoot securityContext,
                  sc_RunAsUser = user, sc_RunAsGroup = user,
                  sc_CapabilitiesDrop = [''ALL''], sc_SeccompProfile = Some ''RuntimeDefault''\<rparr>,
          c_Rest = []\<rparr>)"

definition addInitContainer :: "ResourceModifier \<Rightarrow> PodSpec \<Rightarrow> PodSpec" where
  "addInitContainer m podSpec =
     podSpec\<lparr>ps_InitContainers :=
       replaceOrAppend c_Name (createInitContainer m podSpec) (ps_InitContainers podSpec)\<rparr>"

definition removeInstrumentationVolume :: "PodSpec \<Rightarrow> PodSpec" where
  "removeInstrumentationVolume podSpec =
     podSpec\<lparr>ps_Volumes := deleteNamed vol_Name dash0VolumeName (ps_Volumes podSpec)\<rparr>"

definition removeInitContainer :: "PodSpec \<Rightarrow> PodSpec" where
  "removeInitContainer podSpec =
     podSpec\<lparr>ps_InitContainers := deleteNamed c_Name initContainerName (ps_InitContainers podSpec)\<rparr>"

definition addMount :: "ResourceModifier \<Rightarrow> Container \<Rightarrow> Container" where
  "addMount m container =
     container\<lparr>c_VolumeMounts :=
       replaceOrAppend vm_Name
         \<lparr>vm_Name = dash0VolumeName, vm_ReadOnly = False,
          vm_MountPath = otelAutoInstrumentationBaseDirectory,
          vm_SubPath = (if isInstrumentationDeliveryImageVolume m then ''dash0-instrumentation'' else [])\<rparr>
         (c_VolumeMounts container)\<rparr>"

definition removeMount :: "Container \<Rightarrow> Container" where
  "removeMount container =
     container\<lparr>c_VolumeMounts := deleteNamed vm_Name dash0VolumeName (c_VolumeMounts container)\<rparr>"

section \<open>The annotation for the cluster autoscaler\<close>

definition safeToEviceLocalVolumesAnnotationName :: string where
  "safeToEviceLocalVolumesAnnotationName = ''cluster-autoscaler.kubernetes.io/safe-to-evict-local-volumes''"

definition parseAndNormalizeVolumeList :: "string \<Rightarrow> string list" where
  "parseAndNormalizeVolumeList annotationValue =
     DeleteFunc (\<lambda>volumeName. volumeName = []) (map TrimSpace (Split annotationValue CHR '',''))"

definition addSafeToEvictLocalVolumesAnnotation :: "ObjectMeta \<Rightarrow> ObjectMeta" where
  "addSafeToEvictLocalVolumesAnnotation podMeta =
     (case map_of (om_Annotations podMeta) safeToEviceLocalVolumesAnnotationName of
        None \<Rightarrow>
          podMeta\<lparr>om_Annotations :=
            AList.update safeToEviceLocalVolumesAnnotationName dash0VolumeName (om_Annotations podMeta)\<rparr>
      | Some annotationValue \<Rightarrow>
          if \<not> Contains annotationValue dash0VolumeName
          then podMeta\<lparr>om_Annotations :=
                 AList.update safeToEviceLocalVolumesAnnotationName
                   (Join (parseAndNormalizeVolumeList annotationValue @ [dash0VolumeName]) '','')
                   (om_Annotations podMeta)\<rparr>
          else podMeta)"

definition removeSafeToEvictLocalVolumesAnnotation :: "ObjectMeta \<Rightarrow> ObjectMeta outcome" where
  "removeSafeToEvictLocalVolumesAnnotation podMeta =
     (case map_of (om_Annotations podMeta) safeToEviceLocalVolumesAnnotationName of
        None \<Rightarrow> Inr podMeta
      | Some annotationValue \<Rightarrow>
          if annotationValue = dash0VolumeName
          then Inr (podMeta\<lparr>om_Annotations :=
                      AList.delete safeToEviceLocalVolumesAnnotationName (om_Annotations podMeta)\<rparr>)
          else if \<not> Contains annotationValue dash0VolumeName then Inr podMeta
          else
            (let volumeNames = parseAndNormalizeVolumeList annotationValue
             in case IndexFunc (\<lambda>volumeName. volumeName = dash0VolumeName) volumeNames of
                  None \<Rightarrow> Inl SliceBoundsOutOfRange
                | Some idx \<Rightarrow>
                    (let remaining = slices_Delete idx (idx + 1) volumeNames
                     in if remaining = []
                        then Inr (podMeta\<lparr>om_Annotations :=
                               AList.delete safeToEviceLocalVolumesAnnotationName (om_Annotations podMeta)\<rparr>)
                        else Inr (podMeta\<lparr>om_Annotations :=
                               AList.update safeToEviceLocalVolumesAnnotationName (Join remaining '','')
                                 (om_Annotations podMeta)\<rparr>))))"

section \<open>Instrumenting\<close>

definition instrumentContainer ::
  "ResourceModifier \<Rightarrow> ObjectMeta \<Rightarrow> ObjectMeta \<Rightarrow> Container \<Rightarrow> Container \<times> string list" where
  "instrumentContainer m workloadMeta podMeta container =
     (let mounted = addMount m container;
          (env, issues) = addEnvironmentVariables m (c_Name mounted) workloadMeta podMeta (c_Env mounted)
      in (mounted\<lparr>c_Env := env\<rparr>, issues))"

text \<open>The loop over the containers, in place, with the issues per container.\<close>

definition instrumentContainers ::
  "ResourceModifier \<Rightarrow> ObjectMeta \<Rightarrow> ObjectMeta \<Rightarrow> Container list \<Rightarrow>
   Container list \<times> (string \<times> string list) list" where
  "instrumentContainers m workloadMeta podMeta containers =
     fold (\<lambda>container (done, issuesPerContainer).
         let (container', issues) = instrumentContainer m workloadMeta podMeta container
         in (done @ [container'],
             if length issues > 0 then AList.update (c_Name container') issues issuesPerContainer
             else issuesPerContainer))
       containers ([], [])"

record modifyPodSpecResult =
  mps_hasBeenModified :: bool
  mps_instrumentationIssuesPerContainer :: "(string \<times> string list) list"

definition modifyPodSpec ::
  "ResourceModifier \<Rightarrow> ObjectMeta option \<Rightarrow> PodSpec \<Rightarrow> ObjectMeta \<Rightarrow>
   (modifyPodSpecResult \<times> PodSpec \<times> ObjectMeta) outcome" where
  "modifyPodSpec m workloadMeta originalSpec podMeta0 =
     (let podSpec1 = addInstrumentationVolume m originalSpec;
          prepared =
            (if isInstrumentationDeliveryInitContainer m
             then Inr (addInitContainer m podSpec1, addSafeToEvictLocalVolumesAnnotation podMeta0)
             else (case removeSafeToEvictLocalVolumesAnnotation podMeta0 of
                     Inl p \<Rightarrow> Inl p
                   | Inr podMeta1 \<Rightarrow> Inr (removeInitContainer podSpec1, podMeta1)))
      in case prepared of
           Inl p \<Rightarrow> Inl p
         | Inr (podSpec2, podMeta) \<Rightarrow>
             (let meta = (case workloadMeta of None \<Rightarrow> podMeta | Some wm \<Rightarrow> wm);
                  (containers, issues) = instrumentContainers m meta podMeta (ps_Containers podSpec2);
                  podSpec = podSpec2\<lparr>ps_Containers := containers\<rparr>
              in Inr (\<lparr>mps_hasBeenModified = (podSpec \<noteq> originalSpec),
                       mps_instrumentationIssuesPerContainer = issues\<rparr>, podSpec, podMeta)))"

definition addLabels :: "ResourceModifier \<Rightarrow> bool \<Rightarrow> ObjectMeta \<Rightarrow> ObjectMeta" where
  "addLabels m ok =
     AddInstrumentationLabelsAndAnnotations ok (rm_clusterInstrumentationConfig m)
       (rm_resolvedInstrumentationDelivery m) (rm_actor m)"

definition modifyResource :: "ResourceModifier \<Rightarrow> Workload \<Rightarrow> (ModificationResult \<times> Workload) outcome" where
  "modifyResource m w =
     (case checkEligibleForModification m (pts_Spec (w_Template w)) of
        Some result \<Rightarrow> Inr (result, w)
      | None \<Rightarrow>
          (case modifyPodSpec m (Some (w_Meta w)) (pts_Spec (w_Template w)) (pts_Meta (w_Template w)) of
             Inl p \<Rightarrow> Inl p
           | Inr (podSpecResult, podSpec, podMeta) \<Rightarrow>
               if \<not> mps_hasBeenModified podSpecResult
               then Inr (NewNotModifiedNoChangesResult,
                         w\<lparr>w_Template := \<lparr>pts_Meta = podMeta, pts_Spec = podSpec\<rparr>\<rparr>)
               else Inr (NewHasBeenModifiedResult (length (ps_Containers podSpec))
                           (mps_instrumentationIssuesPerContainer podSpecResult),
                         \<lparr>w_Meta = addLabels m True (w_Meta w),
                          w_Template = \<lparr>pts_Meta = addLabels m True podMeta, pts_Spec = podSpec\<rparr>\<rparr>)))"

definition ModifyCronJob :: "ResourceModifier \<Rightarrow> Workload \<Rightarrow> (ModificationResult \<times> Workload) outcome" where
  "ModifyCronJob m cronJob = modifyResource m cronJob"

definition ModifyDaemonSet :: "ResourceModifier \<Rightarrow> Workload \<Rightarrow> (ModificationResult \<times> Workload) outcome" where
  "ModifyDaemonSet m daemonSet = modifyResource m daemonSet"

definition ModifyDeployment :: "ResourceModifier \<Rightarrow> Workload \<Rightarrow> (ModificationResult \<times> Workload) outcome" where
  "ModifyDeployment m deployment = modifyResource m deployment"

definition ModifyJob :: "ResourceModifier \<Rightarrow> Workload \<Rightarrow> (ModificationResult \<times> Workload) outcome" where
  "ModifyJob m job = modifyResource m job"

definition AddLabelsToImmutableJob :: "ResourceModifier \<Rightarrow> Workload \<Rightarrow> ModificationResult \<times> Workload" where
  "AddLabelsToImmutableJob m job =
     (NewHasBeenModifiedResult (length (ps_Containers (pts_Spec (w_Template job)))) [],
      job\<lparr>w_Meta := addLabels m False (w_Meta job)\<rparr>)"

definition ModifyPod :: "ResourceModifier \<Rightarrow> Pod \<Rightarrow> (ModificationResult \<times> Pod) outcome" where
  "ModifyPod m pod =
     (if hasMatchingOwnerReference (p_Meta pod)
           [K8sTypeMetaDaemonSet, K8sTypeMetaReplicaSet, K8sTypeMetaStatefulSet, K8sTypeMetaCronJob,
            K8sTypeMetaJob]
      then Inr (NewNotModifiedOwnedByHigherOrderWorkloadResult, pod)
      else case checkEligibleForModification m (p_Spec pod) of
        Some result \<Rightarrow> Inr (result, pod)
      | None \<Rightarrow>
          (case modifyPodSpec m None (p_Spec pod) (p_Meta pod) of
             Inl p \<Rightarrow> Inl p
           | Inr (podSpecResult, podSpec, podMeta) \<Rightarrow>
               if \<not> mps_hasBeenModified podSpecResult
               then Inr (NewNotModifiedNoChangesResult, \<lparr>p_Meta = podMeta, p_Spec = podSpec\<rparr>)
               else Inr (NewHasBeenModifiedResult (length (ps_Containers podSpec))
                           (mps_instrumentationIssuesPerContainer podSpecResult),
                         \<lparr>p_Meta = addLabels m True podMeta, p_Spec = podSpec\<rparr>)))"

definition ModifyReplicaSet :: "ResourceModifier \<Rightarrow> Workload \<Rightarrow> (ModificationResult \<times> Workload) outcome" where
  "ModifyReplicaSet m replicaSet =
     (if hasMatchingOwnerReference (w_Meta replicaSet) [K8sTypeMetaDeployment]
      then Inr (NewNotModifiedOwnedByHigherOrderWorkloadResult, replicaSet)
      else modifyResource m replicaSet)"

definition ModifyStatefulSet :: "ResourceModifier \<Rightarrow> Workload \<Rightarrow> (ModificationResult \<times> Workload) outcome" where
  "ModifyStatefulSet m statefulSet = modifyResource m statefulSet"

section \<open>Reverting\<close>

definition uninstrumentContainer :: "ResourceModifier \<Rightarrow> Container \<Rightarrow> Container" where
  "uninstrumentContainer m container =
     (let unmounted = removeMount container
      in unmounted\<lparr>c_Env := removeEnvironmentVariables m (c_Env unmounted)\<rparr>)"

definition revertPodSpec ::
  "ResourceModifier \<Rightarrow> PodSpec \<Rightarrow> ObjectMeta \<Rightarrow> (modifyPodSpecResult \<times> PodSpec \<times> ObjectMeta) outcome" where
  "revertPodSpec m originalSpec podMeta0 =
     (let podSpec1 = removeInstrumentationVolume originalSpec
      in case removeSafeToEvictLocalVolumesAnnotation podMeta0 of
           Inl p \<Rightarrow> Inl p
         | Inr podMeta \<Rightarrow>
             (let podSpec2 = removeInitContainer podSpec1;
                  podSpec = podSpec2\<lparr>ps_Containers := map (uninstrumentContainer m) (ps_Containers podSpec2)\<rparr>
              in Inr (\<lparr>mps_hasBeenModified = (podSpec \<noteq> originalSpec),
                       mps_instrumentationIssuesPerContainer = []\<rparr>, podSpec, podMeta)))"

definition revertResource :: "ResourceModifier \<Rightarrow> Workload \<Rightarrow> (ModificationResult \<times> Workload) outcome" where
  "revertResource m w =
     (if InstrumentationAttemptHasFailed (w_Meta w)
      then Inr (NewHasBeenModifiedResult (length (ps_Containers (pts_Spec (w_Template w)))) [],
                \<lparr>w_Meta = RemoveInstrumentationLabelsAndAnnotations (w_Meta w),
                 w_Template = (w_Template w)\<lparr>pts_Meta :=
                   RemoveInstrumentationLabelsAndAnnotations (pts_Meta (w_Template w))\<rparr>\<rparr>)
      else case revertPodSpec m (pts_Spec (w_Template w)) (pts_Meta (w_Template w)) of
        Inl p \<Rightarrow> Inl p
      | Inr (podSpecResult, podSpec, podMeta) \<Rightarrow>
          if \<not> mps_hasBeenModified podSpecResult
          then Inr (NewNotModifiedNoChangesResult,
                    w\<lparr>w_Template := \<lparr>pts_Meta = podMeta, pts_Spec = podSpec\<rparr>\<rparr>)
          else Inr (NewHasBeenModifiedResult (length (ps_Containers podSpec))
                      (mps_instrumentationIssuesPerContainer podSpecResult),
                    \<lparr>w_Meta = RemoveInstrumentationLabelsAndAnnotations (w_Meta w),
                     w_Template = \<lparr>pts_Meta = RemoveInstrumentationLabelsAndAnnotations podMeta,
                                   pts_Spec = podSpec\<rparr>\<rparr>))"

definition RevertCronJob :: "ResourceModifier \<Rightarrow> Workload \<Rightarrow> (ModificationResult \<times> Workload) outcome" where
  "RevertCronJob m cronJob = revertResource m cronJob"

definition RevertDaemonSet :: "ResourceModifier \<Rightarrow> Workload \<Rightarrow> (ModificationResult \<times> Workload) outcome" where
  "RevertDaemonSet m daemonSet = revertResource m daemonSet"

definition RevertDeployment :: "ResourceModifier \<Rightarrow> Workload \<Rightarrow> (ModificationResult \<times> Workload) outcome" where
  "RevertDeployment m deployment = revertResource m deployment"

definition RemoveLabelsFromImmutableJob :: "Workload \<Rightarrow> ModificationResult \<times> Workload" where
  "RemoveLabelsFromImmutableJob job =
     (NewHasBeenModifiedResult (length (ps_Containers (pts_Spec (w_Template job)))) [],
      job\<lparr>w_Meta := RemoveInstrumentationLabelsAndAnnotations (w_Meta job)\<rparr>)"

definition RevertReplicaSet :: "ResourceModifier \<Rightarrow> Workload \<Rightarrow> (ModificationResult \<times> Workload) outcome" where
  "RevertReplicaSet m replicaSet =
     (if hasMatchingOwnerReference (w_Meta replicaSet) [K8sTypeMetaDeployment]
      then Inr (NewNotModifiedOwnedByHigherOrderWorkloadResult, replicaSet)
      else revertResource m replicaSet)"

definition RevertStatefulSet :: "ResourceModifier \<Rightarrow> Workload \<Rightarrow> (ModificationResult \<times> Workload) outcome" where
  "RevertStatefulSet m statefulSet = revertResource m statefulSet"

section \<open>The slices of a pod spec are stores of named items\<close>

interpretation volumes: named_store vol_Name id "replaceOrAppend vol_Name" "deleteNamed vol_Name"
  "findNamed vol_Name"
  by (rule named_store_slice)

interpretation mounts: named_store vm_Name id "replaceOrAppend vm_Name" "deleteNamed vm_Name"
  "findNamed vm_Name"
  by (rule named_store_slice)

interpretation containers: named_store c_Name id "replaceOrAppend c_Name" "deleteNamed c_Name"
  "findNamed c_Name"
  by (rule named_store_slice)

end
