(* ===== verification/Samples.thy ===== *)
theory Samples
  imports WorkloadModifier
begin

text \<open>
  A configuration and a small workload, on which the examples of the other theories evaluate the model.
\<close>

definition sample_cluster :: ClusterInstrumentationConfig where
  "sample_cluster =
     \<lparr>cic_Images = \<lparr>img_OperatorImage = ''operator:1.0'', img_InitContainerImage = ''init:1.0'',
        img_InitContainerImagePullPolicy = []\<rparr>,
      cic_PossibleCollectorUrls = \<lparr>pcu_NodeLocalBaseUrl = ''http://$(DASH0_NODE_IP):40318'',
        pcu_ServiceBaseUrl = ''http://c.svc:4318''\<rparr>,
      cic_OTelCollectorBaseUrl = ''http://c.svc:4318'',
      cic_ExtraConfig = None,
      cic_kubernetesApiServerVersion = noVersionInfo,
      cic_minimumKubeletVersionDetector = None,
      cic_requestedInstrumentationDelivery = None,
      cic_instrumentationInitContainerResources = None,
      cic_InstrumentationDebug = False, cic_EnablePythonAutoInstrumentation = False,
      cic_EnableRubyAutoInstrumentation = False, cic_IsOpenShift = False\<rparr>"

definition sample_namespace :: NamespaceInstrumentationConfig where
  "sample_namespace =
     \<lparr>nic_InstrumentationLabelSelector = ''dash0.com/enable!=false'',
      nic_TraceContextPropagators = Some ''tracecontext'', nic_PreviousTraceContextPropagators = None,
      nic_CaptureSqlQueryParameters = None, nic_PreviousCaptureSqlQueryParameters = None,
      nic_LogCollectionEnabled = True, nic_PreviousLogCollectionEnabled = True\<rparr>"

definition sample_modifier :: ResourceModifier where
  "sample_modifier = NewResourceModifier sample_cluster sample_namespace ''webhook''"

definition sample_container :: Container where
  "sample_container =
     \<lparr>c_Name = ''app'', c_Image = ''shop:1'', c_ImagePullPolicy = [],
      c_Env = [envVar ''PORT'' ''8080'', envVar envVarOtelExporterOtlpEndpointName ''http://mine''],
      c_VolumeMounts = [], c_Resources = \<lparr>rr_Limits = [], rr_Requests = []\<rparr>,
      c_SecurityContext = None, c_Rest = []\<rparr>"

definition sample_workload :: Workload where
  "sample_workload =
     \<lparr>w_Meta = \<lparr>om_Labels = [(''app.kubernetes.io/name'', ''shop'')], om_Annotations = [], om_OwnerReferences = []\<rparr>,
      w_Template =
        \<lparr>pts_Meta = \<lparr>om_Labels = [(''app.kubernetes.io/name'', ''shop'')],
                    om_Annotations = [(''resource.opentelemetry.io/team'', ''a'')], om_OwnerReferences = []\<rparr>,
         pts_Spec =
           \<lparr>ps_Volumes = [], ps_InitContainers = [], ps_Containers = [sample_container],
            ps_SecurityContext = None, ps_OS = None, ps_NodeSelector = [], ps_Affinity = None, ps_Rest = []\<rparr>\<rparr>\<rparr>"

end
