(* ===== verification/WorkloadProps.thy ===== *)
theory WorkloadProps
  imports Samples
begin

text \<open>
  Properties of instrumenting workloads and of reverting the instrumentation. \<open>foreign\<close> is the part of
  a workload that does not belong to the operator; every operation keeps it. Instrumenting a second
  time changes nothing, and reverting an instrumented workload restores it.
\<close>

section \<open>The loop over the containers\<close>

lemma instrumentContainers_map:
  "fst (instrumentContainers m wm pm cs) = map (fst \<circ> instrumentContainer m wm pm) cs"
proof -
  have "fst (fold (\<lambda>container (done, issuesPerContainer).
         let (container', issues) = instrumentContainer m wm pm container
         in (done @ [container'],
             if length issues > 0 then AList.update (c_Name container') issues issuesPerContainer
             else issuesPerContainer)) cs (acc, iss)) =
      acc @ map (fst \<circ> instrumentContainer m wm pm) cs" for acc iss
    by (induction cs arbitrary: acc iss) (auto simp: Let_def case_prod_unfold)
  then show ?thesis by (simp add: instrumentContainers_def)
qed

lemma fst_instrumentContainer:
  "fst (instrumentContainer m wm pm c) =
     (addMount m c)\<lparr>c_Env := fst (addEnvironmentVariables m (c_Name c) wm pm (c_Env c))\<rparr>"
  by (simp add: instrumentContainer_def addMount_def Let_def case_prod_unfold)

section \<open>What does not belong to the operator\<close>

definition foreign_container :: "Container \<Rightarrow> Container" where
  "foreign_container c =
     c\<lparr>c_Env := filter (\<lambda>e. ev_Name e \<notin> operator_env_var_names) (c_Env c),
       c_VolumeMounts := filter (\<lambda>v. vm_Name v \<notin> {dash0VolumeName}) (c_VolumeMounts c)\<rparr>"

definition foreign_spec :: "PodSpec \<Rightarrow> PodSpec" where
  "foreign_spec ps =
     ps\<lparr>ps_Volumes := filter (\<lambda>v. vol_Name v \<notin> {dash0VolumeName}) (ps_Volumes ps),
        ps_InitContainers := filter (\<lambda>c. c_Name c \<notin> {initContainerName}) (ps_InitContainers ps),
        ps_Containers := map foreign_container (ps_Containers ps)\<rparr>"

definition foreign_meta :: "ObjectMeta \<Rightarrow> ObjectMeta" where
  "foreign_meta m =
     m\<lparr>om_Labels := without instrumentation_label_keys (om_Labels m),
       om_Annotations :=
         without {instrumentationDeliveryAnnotationKey, safeToEviceLocalVolumesAnnotationName} (om_Annotations m)\<rparr>"

definition foreign :: "Workload \<Rightarrow> Workload" where
  "foreign w =
     \<lparr>w_Meta = foreign_meta (w_Meta w),
      w_Template = \<lparr>pts_Meta = foreign_meta (pts_Meta (w_Template w)),
                    pts_Spec = foreign_spec (pts_Spec (w_Template w))\<rparr>\<rparr>"

lemma foreign_instrumentContainer:
  "foreign_container (fst (instrumentContainer m wm pm c)) = foreign_container c"
  using frame_addEnvironmentVariables[of "\<lambda>e. ev_Name e \<notin> operator_env_var_names" m "c_Name c" wm pm "c_Env c"]
  by (simp add: foreign_container_def fst_instrumentContainer addMount_def mounts.filter_put_if)

lemma foreign_uninstrumentContainer: "foreign_container (uninstrumentContainer m c) = foreign_container c"
  using frame_removeEnvironmentVariables[of "\<lambda>e. ev_Name e \<notin> operator_env_var_names" m "c_Env c"]
  by (simp add: foreign_container_def uninstrumentContainer_def removeMount_def mounts.filter_del_if Let_def)

lemma foreign_evict:
  "foreign_meta (addSafeToEvictLocalVolumesAnnotation pm) = foreign_meta pm"
  "removeSafeToEvictLocalVolumesAnnotation pm = Inr pm' \<Longrightarrow> foreign_meta pm' = foreign_meta pm"
  by (auto simp: foreign_meta_def addSafeToEvictLocalVolumesAnnotation_def
      removeSafeToEvictLocalVolumesAnnotation_def Let_def without_update delete_without without_without
      insert_absorb split: option.splits if_splits)

lemma foreign_labels:
  "foreign_meta (addLabels m ok meta) = foreign_meta meta"
  "foreign_meta (RemoveInstrumentationLabelsAndAnnotations meta) = foreign_meta meta"
  by (simp_all add: foreign_meta_def addLabels_def Add_labels_without Add_annotations Add_owners
      without_update Remove_without without_without insert_absorb)

lemma foreign_modifyPodSpec:
  assumes "modifyPodSpec m wm ps pm = Inr (r, ps', pm')"
  shows "foreign_spec ps' = foreign_spec ps \<and> foreign_meta pm' = foreign_meta pm"
proof -
  have "c_Name (createInitContainer m s) = initContainerName" for s
    by (simp add: createInitContainer_def Let_def)
  with assms show ?thesis
    by (auto simp: modifyPodSpec_def Let_def case_prod_unfold foreign_spec_def foreign_evict
        addInstrumentationVolume_def addInitContainer_def removeInitContainer_def
        instrumentContainers_map foreign_instrumentContainer volumes.filter_put_if
        containers.filter_put_if containers.filter_del_if split: if_splits sum.splits)
qed

lemma foreign_revertPodSpec:
  assumes "revertPodSpec m ps pm = Inr (r, ps', pm')"
  shows "foreign_spec ps' = foreign_spec ps \<and> foreign_meta pm' = foreign_meta pm"
  using assms
  by (auto simp: revertPodSpec_def Let_def foreign_spec_def foreign_evict
      removeInstrumentationVolume_def removeInitContainer_def foreign_uninstrumentContainer
      volumes.filter_del_if containers.filter_del_if split: if_splits sum.splits)

section \<open>Metadata that does not matter for the attributes\<close>

text \<open>Annotations without the prefix for resource attributes do not contribute any.\<close>

lemma derive_update_other:
  assumes "CutPrefix k resourcesOpenTelemetryIoLabelPrefix = None"
  shows "deriveResourceAttributesFromAnnotations (AList.update k v al) acc =
         deriveResourceAttributesFromAnnotations al acc"
  using assms unfolding deriveResourceAttributesFromAnnotations_def
  by (induction al arbitrary: acc) (auto simp: case_prod_unfold)

lemma no_attribute_keys [simp]:
  "CutPrefix instrumentationDeliveryAnnotationKey resourcesOpenTelemetryIoLabelPrefix = None"
  "CutPrefix safeToEviceLocalVolumesAnnotationName resourcesOpenTelemetryIoLabelPrefix = None"
  by code_simp+

lemma app_labels_kept [simp]:
  "readLabel (addLabels m ok meta) AppKubernetesIoNameLabel = readLabel meta AppKubernetesIoNameLabel"
  "readLabel (addLabels m ok meta) AppKubernetesIoPartOfLabel = readLabel meta AppKubernetesIoPartOfLabel"
  "readLabel (addLabels m ok meta) AppKubernetesIoVersionLabel = readLabel meta AppKubernetesIoVersionLabel"
  by (simp_all add: addLabels_def readLabel_Add label_keys AppKubernetesIoNameLabel_def
      AppKubernetesIoPartOfLabel_def AppKubernetesIoVersionLabel_def)

text \<open>Two metadata objects that give the same labels and attributes to a container.\<close>

definition same_attributes :: "ObjectMeta \<Rightarrow> ObjectMeta \<Rightarrow> bool" where
  "same_attributes meta meta' \<longleftrightarrow>
     (\<forall>k\<in>{AppKubernetesIoNameLabel, AppKubernetesIoPartOfLabel, AppKubernetesIoVersionLabel}.
        readLabel meta k = readLabel meta' k) \<and>
     deriveResourceAttributesFromAnnotations (om_Annotations meta) =
       deriveResourceAttributesFromAnnotations (om_Annotations meta')"

lemma same_attributes_refl [simp]: "same_attributes meta meta"
  by (simp add: same_attributes_def)

lemma same_attributes_labels [simp]: "same_attributes (addLabels m ok meta) meta"
  by (simp add: same_attributes_def fun_eq_iff)
    (simp add: addLabels_def Add_annotations derive_update_other)

lemma addEnvironmentVariables_cong:
  assumes "same_attributes wm wm'" and "same_attributes pm pm'"
  shows "fst (addEnvironmentVariables m n wm pm env) = fst (addEnvironmentVariables m n wm' pm' env)"
proof -
  have "label_vars wm pm has = label_vars wm' pm' has" for has
    using assms by (simp add: label_vars_def same_attributes_def readLabel_def Let_def)
  moreover have "annotation_vars wm pm has = annotation_vars wm' pm' has" for has
    using assms by (simp add: annotation_vars_def attributes_of_def same_attributes_def)
  ultimately have "service_stage wm pm = service_stage wm' pm'"
    by (simp add: service_stage_def fun_eq_iff)
  then show ?thesis by (simp add: addEnvironmentVariables_stages instrumentation_stage_def)
qed

section \<open>The annotation for the cluster autoscaler\<close>

definition evict_annotation :: "ObjectMeta \<Rightarrow> string option" where
  "evict_annotation pm = map_of (om_Annotations pm) safeToEviceLocalVolumesAnnotationName"

definition evict_unlisted :: "ObjectMeta \<Rightarrow> bool" where
  "evict_unlisted pm \<longleftrightarrow> pred_option (\<lambda>v. \<not> Contains v dash0VolumeName) (evict_annotation pm)"

lemma evict_annotation_labels [simp]: "evict_annotation (addLabels m ok pm) = evict_annotation pm"
  by (simp add: evict_annotation_def addLabels_def Add_annotations update_conv'
      instrumentationDeliveryAnnotationKey_def safeToEviceLocalVolumesAnnotationName_def)

lemma addEvict_listed:
  "pred_option (\<lambda>v. Contains v dash0VolumeName) (evict_annotation (addSafeToEvictLocalVolumesAnnotation pm)) \<and>
   evict_annotation (addSafeToEvictLocalVolumesAnnotation pm) \<noteq> None"
  by (auto simp: addSafeToEvictLocalVolumesAnnotation_def evict_annotation_def update_conv'
      intro: Contains_Join split: option.split)

lemma addEvict_fix:
  assumes "evict_annotation pm = Some v" and "Contains v dash0VolumeName"
  shows "addSafeToEvictLocalVolumesAnnotation pm = pm"
  using assms by (simp add: addSafeToEvictLocalVolumesAnnotation_def evict_annotation_def)

lemma addEvict_fix_labels:
  "evict_annotation pm = evict_annotation (addSafeToEvictLocalVolumesAnnotation pm0) \<Longrightarrow>
   addSafeToEvictLocalVolumesAnnotation pm = pm"
  using addEvict_listed[of pm0] addEvict_fix[of pm] by (auto simp: pred_option_def)

lemma removeEvict_unlisted: "evict_unlisted pm \<Longrightarrow> removeSafeToEvictLocalVolumesAnnotation pm = Inr pm"
  by (auto simp: evict_unlisted_def evict_annotation_def removeSafeToEvictLocalVolumesAnnotation_def
      split: option.splits)

section \<open>Instrumenting twice\<close>

lemma instrumentContainer_twice:
  assumes "no_legacy_values (c_Env c)" and "same_attributes wm2 wm" and "same_attributes pm2 pm"
  shows "fst (instrumentContainer m wm2 pm2 (fst (instrumentContainer m wm pm c))) =
         fst (instrumentContainer m wm pm c)"
proof -
  have mount: "addMount m (addMount m c) = addMount m c"
    by (simp add: addMount_def mounts.put_absorb mounts.put_fixpoint mounts.get_put)
  have "fst (addEnvironmentVariables m n wm2 pm2 (fst (addEnvironmentVariables m n wm pm (c_Env c)))) =
      fst (addEnvironmentVariables m n wm pm (c_Env c))" for n
    using addEnvironmentVariables_cong[OF assms(2,3)] addEnvironmentVariables_twice[OF assms(1)] by metis
  with mount show ?thesis by (simp add: fst_instrumentContainer addMount_def)
qed

text \<open>The pod spec that results from the instrumentation.\<close>

definition instrumented_spec ::
  "ResourceModifier \<Rightarrow> ObjectMeta \<Rightarrow> ObjectMeta \<Rightarrow> PodSpec \<Rightarrow> PodSpec" where
  "instrumented_spec m wm pm ps =
     ps\<lparr>ps_Volumes := replaceOrAppend vol_Name
          \<lparr>vol_Name = dash0VolumeName, vol_Source = dash0VolumeSource m\<rparr> (ps_Volumes ps),
        ps_InitContainers :=
          (if isInstrumentationDeliveryInitContainer m
           then replaceOrAppend c_Name (createInitContainer m ps) (ps_InitContainers ps)
           else deleteNamed c_Name initContainerName (ps_InitContainers ps)),
        ps_Containers := map (fst \<circ> instrumentContainer m wm pm) (ps_Containers ps)\<rparr>"

lemma createInitContainer_volumes [simp]:
  "createInitContainer m (ps\<lparr>ps_Volumes := vs\<rparr>) = createInitContainer m ps"
  "createInitContainer m (instrumented_spec m' wm pm ps) = createInitContainer m ps"
  by (simp_all add: createInitContainer_def instrumented_spec_def)

lemma instrumented_spec_keeps [simp]:
  "ps_OS (instrumented_spec m wm pm ps) = ps_OS ps"
  "ps_NodeSelector (instrumented_spec m wm pm ps) = ps_NodeSelector ps"
  "ps_Affinity (instrumented_spec m wm pm ps) = ps_Affinity ps"
  by (simp_all add: instrumented_spec_def)

lemma modifyPodSpec_spec:
  "modifyPodSpec m wm ps pm =
     (case (if isInstrumentationDeliveryInitContainer m then Inr (addSafeToEvictLocalVolumesAnnotation pm)
            else removeSafeToEvictLocalVolumesAnnotation pm) of
        Inl p \<Rightarrow> Inl p
      | Inr pm' \<Rightarrow>
          (let meta = (case wm of None \<Rightarrow> pm' | Some wm \<Rightarrow> wm); ps' = instrumented_spec m meta pm' ps
           in Inr (\<lparr>mps_hasBeenModified = (ps' \<noteq> ps),
                    mps_instrumentationIssuesPerContainer =
                      snd (instrumentContainers m meta pm' (ps_Containers ps))\<rparr>, ps', pm')))"
  by (cases wm) (simp_all add: modifyPodSpec_def instrumented_spec_def addInstrumentationVolume_def
      addInitContainer_def removeInitContainer_def Let_def case_prod_unfold instrumentContainers_map
      split: sum.split)

lemma instrumented_spec_twice:
  assumes "list_all (no_legacy_values \<circ> c_Env) (ps_Containers ps)"
    and "same_attributes wm2 wm" and "same_attributes pm2 pm"
  shows "instrumented_spec m wm2 pm2 (instrumented_spec m wm pm ps) = instrumented_spec m wm pm ps"
proof -
  have "c_Name (createInitContainer m ps) = initContainerName"
    by (simp add: createInitContainer_def Let_def)
  moreover have "map (fst \<circ> instrumentContainer m wm2 pm2) (map (fst \<circ> instrumentContainer m wm pm) cs) =
      map (fst \<circ> instrumentContainer m wm pm) cs" if "list_all (no_legacy_values \<circ> c_Env) cs" for cs
    using that instrumentContainer_twice[OF _ assms(2,3)] by (auto simp: list_all_iff)
  ultimately show ?thesis
    using assms(1)
    by (simp add: instrumented_spec_def volumes.put_fixpoint volumes.get_put containers.put_fixpoint
        containers.get_put containers.del_filter createInitContainer_def)
qed

lemma checkEligible_instrumented:
  "checkEligibleForModification m (instrumented_spec m' wm pm ps) = None \<longleftrightarrow>
   checkEligibleForModification m ps = None"
proof -
  have "checkEphemeralStorageLimit (instrumented_spec m' wm pm ps) = None \<longleftrightarrow>
      checkEphemeralStorageLimit ps = None"
  proof -
    have keep: "ephemeralStorageLimitTooLow (fst (instrumentContainer m' wm pm c)) =
        ephemeralStorageLimitTooLow c" for c
      by (simp add: ephemeralStorageLimitTooLow_def ephemeralStorageLimit_def fst_instrumentContainer
          addMount_def)
    have "checkEphemeralStorageLimit s = None \<longleftrightarrow>
        \<not> list_ex ephemeralStorageLimitTooLow (ps_Containers s)" for s
      by (auto simp: checkEphemeralStorageLimit_def find_None_iff list_ex_iff split: option.split)
        (auto simp: find_Some_iff)
    then show ?thesis by (auto simp: instrumented_spec_def list_ex_iff keep)
  qed
  then show ?thesis
    by (simp add: checkEligibleForModification_def checkOs_def checkNodeSelector_def checkNodeAffinity_def
        requiredMatchExpressions_def split: option.split)
qed

lemma modifyPodSpec_twice:
  assumes first: "modifyPodSpec m (Some wm) ps pm = Inr (r, ps', pm')"
    and "list_all (no_legacy_values \<circ> c_Env) (ps_Containers ps)"
    and "isInstrumentationDeliveryImageVolume m \<Longrightarrow> evict_unlisted pm"
    and wm2: "same_attributes wm2 wm"
    and pm2: "same_attributes pm2 pm'" "evict_annotation pm2 = evict_annotation pm'"
  shows "\<exists>r2. modifyPodSpec m (Some wm2) ps' pm2 = Inr (r2, ps', pm2) \<and> \<not> mps_hasBeenModified r2"
proof -
  have ps': "ps' = instrumented_spec m wm pm' ps"
    using first by (auto simp: modifyPodSpec_spec Let_def split: sum.splits if_splits)
  have "instrumented_spec m wm2 pm2 ps' = ps'"
    unfolding ps' using assms(2) wm2 pm2(1) by (rule instrumented_spec_twice)
  moreover have "addSafeToEvictLocalVolumesAnnotation pm2 = pm2" if "isInstrumentationDeliveryInitContainer m"
    using that first pm2(2)
    by (intro addEvict_fix_labels[of _ pm]) (auto simp: modifyPodSpec_spec Let_def)
  moreover have "removeSafeToEvictLocalVolumesAnnotation pm2 = Inr pm2"
    if "\<not> isInstrumentationDeliveryInitContainer m"
  proof -
    have "evict_unlisted pm" using that assms(3) by (simp add: isInstrumentationDeliveryInitContainer_def)
    with first that have "pm' = pm" by (simp add: modifyPodSpec_spec removeEvict_unlisted Let_def)
    with \<open>evict_unlisted pm\<close> pm2(2) have "evict_unlisted pm2" by (simp add: evict_unlisted_def)
    then show ?thesis by (rule removeEvict_unlisted)
  qed
  ultimately show ?thesis by (simp add: modifyPodSpec_spec Let_def)
qed

lemma modifyPodSpec_eligible:
  "modifyPodSpec m wm ps pm = Inr (r, ps', pm') \<Longrightarrow>
   checkEligibleForModification m ps' = None \<longleftrightarrow> checkEligibleForModification m ps = None"
  by (auto simp: modifyPodSpec_spec Let_def checkEligible_instrumented split: sum.splits)

section \<open>Reverting\<close>

text \<open>The names in the annotation, in the form in which the operator writes them.\<close>

definition evict_normal :: "ObjectMeta \<Rightarrow> bool" where
  "evict_normal pm \<longleftrightarrow>
     pred_option (\<lambda>v. parseAndNormalizeVolumeList v \<noteq> [] \<and>
        v = Join (parseAndNormalizeVolumeList v) '','') (evict_annotation pm)"

lemma parse_volumes_shape:
  "x \<in> set (parseAndNormalizeVolumeList v) \<Longrightarrow> CHR '','' \<notin> set x \<and> TrimSpace x = x \<and> x \<noteq> []"
proof -
  assume "x \<in> set (parseAndNormalizeVolumeList v)"
  then obtain p where p: "p \<in> set (Split v CHR '','')" "x = TrimSpace p" "x \<noteq> []"
    by (auto simp: parseAndNormalizeVolumeList_def DeleteFunc_def)
  have "set (TrimSpace p) \<subseteq> set p" using TrimSpace_sublist by (rule set_mono_sublist)
  with p Split_no_sep[OF p(1)] show ?thesis by auto
qed

lemma parse_Join_volumes:
  assumes "xs \<noteq> []" and "\<And>x. x \<in> set xs \<Longrightarrow> CHR '','' \<notin> set x \<and> TrimSpace x = x \<and> x \<noteq> []"
  shows "parseAndNormalizeVolumeList (Join xs '','') = xs"
  using assms by (simp add: parseAndNormalizeVolumeList_def DeleteFunc_def Split_Join map_idI)

lemma dash0_volume_shape:
  "CHR '','' \<notin> set dash0VolumeName \<and> TrimSpace dash0VolumeName = dash0VolumeName \<and> dash0VolumeName \<noteq> []"
  by code_simp

text \<open>Removing the volume from the annotation after adding it, with other annotations added in between.\<close>

lemma removeEvict_addEvict:
  assumes "evict_unlisted pm" and "evict_normal pm" and "k \<noteq> safeToEviceLocalVolumesAnnotationName"
  shows "\<exists>pm'. removeSafeToEvictLocalVolumesAnnotation
           ((addSafeToEvictLocalVolumesAnnotation pm)\<lparr>om_Annotations :=
              AList.update k d (om_Annotations (addSafeToEvictLocalVolumesAnnotation pm)), om_Labels := ls\<rparr>) =
         Inr pm' \<and> pm' = pm\<lparr>om_Annotations := AList.update k d (om_Annotations pm), om_Labels := ls\<rparr>"
proof (cases "evict_annotation pm")
  case None
  then have absent: "safeToEviceLocalVolumesAnnotationName \<notin> fst ` set (om_Annotations pm)"
    by (simp add: evict_annotation_def map_of_eq_None_iff)
  have "AList.delete safeToEviceLocalVolumesAnnotationName (AList.update k d
      (AList.update safeToEviceLocalVolumesAnnotationName dash0VolumeName (om_Annotations pm))) =
      AList.update k d (om_Annotations pm)"
    using absent assms(3)
    by (simp add: delete_without without_update_other without_update without_absent)
  with None assms(3) show ?thesis
    by (simp add: addSafeToEvictLocalVolumesAnnotation_def removeSafeToEvictLocalVolumesAnnotation_def
        evict_annotation_def update_conv')
next
  case (Some v)
  let ?names = "parseAndNormalizeVolumeList v"
  let ?v = "Join (?names @ [dash0VolumeName]) '',''"
  have unlisted: "\<not> Contains v dash0VolumeName" and normal: "?names \<noteq> []" "v = Join ?names '',''"
    using assms(1,2) Some by (auto simp: evict_unlisted_def evict_normal_def)
  then have fresh: "dash0VolumeName \<notin> set ?names" using Contains_Join by metis
  have parse: "parseAndNormalizeVolumeList ?v = ?names @ [dash0VolumeName]"
    using parse_volumes_shape dash0_volume_shape by (intro parse_Join_volumes) auto
  have idx: "IndexFunc (\<lambda>y. y = dash0VolumeName) (?names @ [dash0VolumeName]) = Some (length ?names)"
    using fresh by (intro IndexFunc_append_hit) auto
  have del: "slices_Delete (length ?names) (Suc (length ?names)) (?names @ [dash0VolumeName]) = ?names"
    by (simp add: slices_Delete_def)
  have "Contains ?v dash0VolumeName" by (rule Contains_Join) simp
  moreover have "?v \<noteq> dash0VolumeName"
    using parse normal(1) parse_Join_volumes[of "[dash0VolumeName]"] dash0_volume_shape by auto
  moreover have "AList.update safeToEviceLocalVolumesAnnotationName v (AList.update k d
      (AList.update safeToEviceLocalVolumesAnnotationName ?v (om_Annotations pm))) =
      AList.update k d (om_Annotations pm)"
    using Some assms(3)
    by (subst update_commute_present) (auto simp: evict_annotation_def update_same dom_update)
  ultimately show ?thesis
    using Some unlisted normal assms(3)
    by (simp add: addSafeToEvictLocalVolumesAnnotation_def removeSafeToEvictLocalVolumesAnnotation_def
        evict_annotation_def update_conv' parse Let_def idx del)
qed

text \<open>
  A workload that the operator has not touched yet, in a namespace and cluster configuration for which
  every container holds settings of the user only.
\<close>

definition untouched_meta :: "ObjectMeta \<Rightarrow> bool" where
  "untouched_meta meta \<longleftrightarrow>
     fst ` set (om_Labels meta) \<inter> instrumentation_label_keys = {} \<and>
     instrumentationDeliveryAnnotationKey \<notin> fst ` set (om_Annotations meta)"

definition untouched_container :: "ResourceModifier \<Rightarrow> Container \<Rightarrow> bool" where
  "untouched_container m c \<longleftrightarrow>
     user_environment m (c_Env c) \<and> dash0VolumeName \<notin> vm_Name ` set (c_VolumeMounts c)"

definition untouched :: "ResourceModifier \<Rightarrow> Workload \<Rightarrow> bool" where
  "untouched m w \<longleftrightarrow>
     (let podMeta = pts_Meta (w_Template w); podSpec = pts_Spec (w_Template w)
      in untouched_meta (w_Meta w) \<and> untouched_meta podMeta \<and>
         evict_unlisted podMeta \<and> evict_normal podMeta \<and>
         dash0VolumeName \<notin> vol_Name ` set (ps_Volumes podSpec) \<and>
         initContainerName \<notin> c_Name ` set (ps_InitContainers podSpec) \<and>
         list_all (untouched_container m) (ps_Containers podSpec))"

lemma uninstrument_instrument:
  assumes "untouched_container m c"
  shows "uninstrumentContainer m (fst (instrumentContainer m wm pm c)) = c"
proof -
  let ?I = "fst (addEnvironmentVariables m (c_Name c) wm pm (c_Env c))"
  let ?P = "user_setting (rm_clusterInstrumentationConfig m) (rm_namespaceInstrumentationConfig m)"
  have ue: "user_environment m (c_Env c)" using assms by (simp add: untouched_container_def)
  note legacy = user_environment_no_legacy[OF ue]
  have inst: "filter ?P ?I = filter ?P (c_Env c)" "distinct (map ev_Name ?I)"
    using ue legacy by (simp_all add: instrumented_keeps user_environment_def)
  have "removeEnvironmentVariables m ?I = filter ?P (removeEnvironmentVariables m ?I)"
    using reverted_user_settings[OF ue] by (auto simp: filter_id_conv intro!: sym[OF filter_True])
  also have "\<dots> = filter ?P (c_Env c)"
    using removed_keeps[OF no_legacy_values_add[OF legacy] inst(2)] inst(1) by simp
  also have "\<dots> = c_Env c" using ue by (auto simp: user_environment_def list_all_iff)
  finally have "removeEnvironmentVariables m ?I = c_Env c" .
  then show ?thesis
    using assms
    by (simp add: uninstrumentContainer_def removeMount_def fst_instrumentContainer addMount_def Let_def
        mounts.del_put mounts.del_absent untouched_container_def)
qed

lemma revert_instrumented_spec:
  assumes "dash0VolumeName \<notin> vol_Name ` set (ps_Volumes ps)"
    and "initContainerName \<notin> c_Name ` set (ps_InitContainers ps)"
    and "list_all (untouched_container m) (ps_Containers ps)"
  shows "(removeInitContainer (removeInstrumentationVolume (instrumented_spec m wm pm ps)))
           \<lparr>ps_Containers := map (uninstrumentContainer m) (ps_Containers (instrumented_spec m wm pm ps))\<rparr> = ps"
proof -
  have "c_Name (createInitContainer m ps) = initContainerName"
    by (simp add: createInitContainer_def Let_def)
  moreover have "map (uninstrumentContainer m) (map (fst \<circ> instrumentContainer m wm pm) cs) = cs"
    if "list_all (untouched_container m) cs" for cs
    using that uninstrument_instrument by (auto simp: list_all_iff intro: map_idI)
  ultimately show ?thesis
    using assms
    by (simp add: instrumented_spec_def removeInitContainer_def removeInstrumentationVolume_def
        volumes.del_put volumes.del_absent containers.del_put containers.del_absent)
qed

lemma instrumented_spec_changes:
  assumes "dash0VolumeName \<notin> vol_Name ` set (ps_Volumes ps)"
  shows "instrumented_spec m wm pm ps \<noteq> ps"
proof
  assume eq: "instrumented_spec m wm pm ps = ps"
  have "dash0VolumeName \<in> vol_Name ` set (ps_Volumes (instrumented_spec m wm pm ps))"
    by (simp add: instrumented_spec_def volumes.keys_put)
  with assms show False unfolding eq by simp
qed

lemma addLabels_annotations:
  "meta\<lparr>om_Annotations := AList.update instrumentationDeliveryAnnotationKey
        (delivery_string (rm_resolvedInstrumentationDelivery m)) (om_Annotations meta),
        om_Labels := om_Labels (addLabels m ok meta)\<rparr> = addLabels m ok meta"
  by (cases meta) (simp add: addLabels_def AddInstrumentationLabelsAndAnnotations_def Let_def meta_ops)

lemma removeEvict_addLabels:
  assumes "evict_unlisted pm" and "evict_normal pm"
  shows "removeSafeToEvictLocalVolumesAnnotation (addLabels m True (addSafeToEvictLocalVolumesAnnotation pm)) =
         Inr (addLabels m True pm)"
proof -
  let ?pm1 = "addSafeToEvictLocalVolumesAnnotation pm"
  have "instrumentationDeliveryAnnotationKey \<noteq> safeToEviceLocalVolumesAnnotationName"
    by (simp add: instrumentationDeliveryAnnotationKey_def safeToEviceLocalVolumesAnnotationName_def)
  note evict = removeEvict_addEvict[OF assms this, where
      d = "delivery_string (rm_resolvedInstrumentationDelivery m)" and ls = "om_Labels (addLabels m True ?pm1)"]
  have "om_Labels ?pm1 = om_Labels pm"
    by (simp add: addSafeToEvictLocalVolumesAnnotation_def split: option.split)
  then have labels: "om_Labels (addLabels m True ?pm1) = om_Labels (addLabels m True pm)"
    by (simp add: addLabels_def AddInstrumentationLabelsAndAnnotations_def Let_def meta_ops)
  show ?thesis
    using evict[unfolded addLabels_annotations] unfolding labels addLabels_annotations by simp
qed

lemma Remove_addLabels:
  "untouched_meta meta \<Longrightarrow> RemoveInstrumentationLabelsAndAnnotations (addLabels m ok meta) = meta"
  by (simp add: untouched_meta_def addLabels_def Remove_Add Remove_fresh)

text \<open>What the two operations do to an untouched and eligible workload.\<close>

lemma revert_modify_pod:
  assumes "untouched m w"
  obtains r ps' pm' where
    "modifyPodSpec m (Some (w_Meta w)) (pts_Spec (w_Template w)) (pts_Meta (w_Template w)) = Inr (r, ps', pm')"
    and "mps_hasBeenModified r"
    and "revertPodSpec m ps' (addLabels m True pm') =
           Inr (\<lparr>mps_hasBeenModified = True, mps_instrumentationIssuesPerContainer = []\<rparr>,
                pts_Spec (w_Template w), addLabels m True (pts_Meta (w_Template w)))"
proof -
  let ?ps = "pts_Spec (w_Template w)" and ?pm = "pts_Meta (w_Template w)"
  define pm' where "pm' = (if isInstrumentationDeliveryInitContainer m
      then addSafeToEvictLocalVolumesAnnotation ?pm else ?pm)"
  let ?ps' = "instrumented_spec m (w_Meta w) pm' ?ps"
  from assms have evict: "evict_unlisted ?pm" "evict_normal ?pm"
    and spec: "dash0VolumeName \<notin> vol_Name ` set (ps_Volumes ?ps)"
      "initContainerName \<notin> c_Name ` set (ps_InitContainers ?ps)"
      "list_all (untouched_container m) (ps_Containers ?ps)"
    by (simp_all add: untouched_def Let_def)
  have changed: "?ps' \<noteq> ?ps" using spec(1) by (rule instrumented_spec_changes)
  have "evict_unlisted (addLabels m True ?pm)" using evict(1) by (simp add: evict_unlisted_def)
  then have removed: "removeSafeToEvictLocalVolumesAnnotation (addLabels m True pm') = Inr (addLabels m True ?pm)"
    using removeEvict_addLabels[OF evict] by (simp add: pm'_def removeEvict_unlisted)
  have "revertPodSpec m ?ps' (addLabels m True pm') =
      Inr (\<lparr>mps_hasBeenModified = True, mps_instrumentationIssuesPerContainer = []\<rparr>,
           ?ps, addLabels m True ?pm)"
    using revert_instrumented_spec[OF spec, of "w_Meta w" pm'] changed
    by (simp add: revertPodSpec_def removed Let_def removeInitContainer_def removeInstrumentationVolume_def)
  moreover have "modifyPodSpec m (Some (w_Meta w)) ?ps ?pm =
      Inr (\<lparr>mps_hasBeenModified = True, mps_instrumentationIssuesPerContainer =
              snd (instrumentContainers m (w_Meta w) pm' (ps_Containers ?ps))\<rparr>, ?ps', pm')"
    using evict(1) spec(1)
    by (simp add: modifyPodSpec_spec pm'_def removeEvict_unlisted Let_def instrumented_spec_changes)
  ultimately show thesis using that by fastforce
qed

section \<open>Instrumented containers are up to date\<close>

lemma up_to_date_otlp:
  assumes "TrimSpace (cic_OTelCollectorBaseUrl c) = cic_OTelCollectorBaseUrl c" "cic_OTelCollectorBaseUrl c \<noteq> []"
    and "c = rm_clusterInstrumentationConfig m"
  shows "\<not> otelExportEnvVarsCanBeUpdatedForContainer (instrumented m n wm pm env) c"
proof (cases "otelExportEnvVarsCanBeUpdatedForContainer env c")
  case True
  have "defaultOtelExporterOtlpProtocol \<noteq> []" by code_simp
  with True assms show ?thesis
    by (subst otelExportEnvVarsCanBeUpdated_lookup) (simp add: get_add_otlp Let_def)
next
  case False
  with assms(3) show ?thesis
    using otelExportEnvVarsCanBeUpdated_lookup[of env c]
      otelExportEnvVarsCanBeUpdated_lookup[of "instrumented m n wm pm env" c]
    by (simp add: get_add_otlp)
qed

lemma up_to_date_propagators:
  assumes "ns = rm_namespaceInstrumentationConfig m"
  shows "\<not> otelPropagatorsCanBeUpdatedForContainer (instrumented m n wm pm env) ns"
proof (cases "otelPropagatorsCanBeUpdatedForContainer env ns")
  case True
  with assms show ?thesis
    using propagators_desired[of "instrumented m n wm pm env" ns]
      propagators_removed[of "instrumented m n wm pm env" ns] get_add_propagators[of m n wm pm env]
    by (cases "IsEmpty (nic_TraceContextPropagators ns)") (simp_all add: Let_def)
next
  case False
  with assms show ?thesis
    using propagators_lookup[of "instrumented m n wm pm env" env ns] get_add_propagators[of m n wm pm env]
    by (simp add: Let_def)
qed

lemma up_to_date_sql:
  assumes "k \<in> set CaptureSqlQueryParametersEnvVarNames" and "ns = rm_namespaceInstrumentationConfig m"
  shows "\<not> captureSqlQueryParametersCanBeUpdatedForContainer (instrumented m n wm pm env) k ns"
  using assms
  by (auto simp: captureSql_lookup get_add_sql sql_step_def env.get_put env.get_del)

lemma up_to_date_config:
  "GetEnvVar envVarOtelInjectorConfigFileName (instrumented m n wm pm env) =
     Some (envVar envVarOtelInjectorConfigFileName (otelInjectorConfigFileFor (rm_clusterInstrumentationConfig m))) \<and>
   TrimSpace (otelInjectorConfigFileFor c) \<noteq> []"
proof -
  have "TrimSpace ''/__otel_auto_instrumentation/injector/injector-with-python-and-ruby.conf'' \<noteq> []"
    "TrimSpace ''/__otel_auto_instrumentation/injector/injector-with-python.conf'' \<noteq> []"
    "TrimSpace ''/__otel_auto_instrumentation/injector/injector-with-ruby.conf'' \<noteq> []"
    "TrimSpace ''/__otel_auto_instrumentation/injector/injector.conf'' \<noteq> []"
    by (code_simp, code_simp, code_simp, code_simp)
  then show ?thesis by (simp add: get_add_config otelInjectorConfigFileFor_def)
qed

lemma up_to_date_logs:
  assumes "ns = rm_namespaceInstrumentationConfig m"
  shows "(nic_LogCollectionEnabled ns \<longrightarrow>
            is_set (GetEnvVar envVarOtelLogsExporterName (instrumented m n wm pm env))) \<and>
         (\<not> nic_LogCollectionEnabled ns \<and> nic_PreviousLogCollectionEnabled ns \<longrightarrow>
            \<not> has_value envVarOtelLogsExporterNoneValue
               (GetEnvVar envVarOtelLogsExporterName (instrumented m n wm pm env)))"
proof -
  have "envVarOtelLogsExporterNoneValue \<noteq> []" by (simp add: envVarOtelLogsExporterNoneValue_def)
  with assms show ?thesis by (auto simp: get_add_logs Let_def)
qed

lemma up_to_date_containers:
  assumes "TrimSpace (cic_OTelCollectorBaseUrl (rm_clusterInstrumentationConfig m)) =
      cic_OTelCollectorBaseUrl (rm_clusterInstrumentationConfig m)"
    and "cic_OTelCollectorBaseUrl (rm_clusterInstrumentationConfig m) \<noteq> []"
    and "HasBeenInstrumentedSuccessfullyByThisVersion meta (cic_Images (rm_clusterInstrumentationConfig m))"
  shows "InstrumentationIsUpToDate meta (map (fst \<circ> instrumentContainer m wm pm) cs)
           (rm_clusterInstrumentationConfig m) (rm_namespaceInstrumentationConfig m)"
proof -
  let ?c = "rm_clusterInstrumentationConfig m" and ?ns = "rm_namespaceInstrumentationConfig m"
  let ?cs = "map (fst \<circ> instrumentContainer m wm pm) cs"
  have env: "\<exists>n env. c_Env c = instrumented m n wm pm env" if "c \<in> set ?cs" for c
    using that by (auto simp: fst_instrumentContainer) blast
  have steps: "\<not> otelExportEnvVarsCanBeUpdatedForContainer (c_Env c) ?c"
      "\<not> otelPropagatorsCanBeUpdatedForContainer (c_Env c) ?ns"
      "k \<in> set CaptureSqlQueryParametersEnvVarNames \<Longrightarrow>
       \<not> captureSqlQueryParametersCanBeUpdatedForContainer (c_Env c) k ?ns" if "c \<in> set ?cs" for c k
    using env[OF that] up_to_date_otlp[OF assms(1,2) refl] up_to_date_propagators[OF refl]
      up_to_date_sql[OF _ refl, of k m] by auto
  have "\<not> otelExportEnvVarsWillBeUpdatedForAtLeastOneContainer ?cs ?c"
    unfolding otelExportEnvVarsWillBeUpdatedForAtLeastOneContainer_def list_ex_iff using steps(1) by blast
  moreover have "\<not> otelPropagatorsEnvVarWillBeUpdatedForAtLeastOneContainer ?cs ?ns"
    unfolding otelPropagatorsEnvVarWillBeUpdatedForAtLeastOneContainer_def list_ex_iff using steps(2) by blast
  moreover have "\<not> captureSqlQueryParametersEnvVarWillBeUpdatedForAtLeastOneContainer ?cs ?ns"
    unfolding captureSqlQueryParametersEnvVarWillBeUpdatedForAtLeastOneContainer_def list_ex_iff
    using steps(3) by blast
  moreover have "\<not> otelInjectorConfEnvVarWillBeUpdatedForAtLeastOneContainer ?cs ?c"
  proof -
    have "GetEnvVar envVarOtelInjectorConfigFileName (c_Env c) =
        Some (envVar envVarOtelInjectorConfigFileName (otelInjectorConfigFileFor ?c))" if "c \<in> set ?cs" for c
      using env[OF that] up_to_date_config by auto
    then show ?thesis
      using up_to_date_config[of m _ _ _ _ ?c]
      by (auto simp: otelInjectorConfEnvVarWillBeUpdatedForAtLeastOneContainer_def list_ex_iff envVar_def
          IsEnvVarUnsetOrEmpty_def)
  qed
  moreover have "\<not> otelLogsExporterEnvVarWillBeUpdatedForAtLeastOneContainer ?cs ?ns"
  proof -
    have "\<not> (let v = GetEnvVar envVarOtelLogsExporterName (c_Env c)
        in if nic_LogCollectionEnabled ?ns then IsEnvVarUnsetOrEmpty v
           else if nic_PreviousLogCollectionEnabled ?ns
           then (case v of None \<Rightarrow> False
                 | Some e \<Rightarrow> ev_ValueFrom e = None \<and> ev_Value e = envVarOtelLogsExporterNoneValue)
           else False)" if "c \<in> set ?cs" for c
    proof -
      from env[OF that] obtain n env where "c_Env c = instrumented m n wm pm env" by blast
      then show ?thesis
        using up_to_date_logs[of ?ns m n wm pm env]
        by (auto simp: is_set_def has_value_def Let_def split: option.splits)
    qed
    then show ?thesis by (auto simp: otelLogsExporterEnvVarWillBeUpdatedForAtLeastOneContainer_def list_ex_iff)
  qed
  ultimately show ?thesis using assms(3) by (simp add: InstrumentationIsUpToDate_def)
qed

lemma ineligible_not_modified:
  "checkEligibleForModification m ps = Some result \<Longrightarrow> \<not> mr_HasBeenModified result"
  by (auto simp: checkEligibleForModification_def checkOs_def checkNodeSelector_def checkNodeAffinity_def
      checkEphemeralStorageLimit_def NewNotModifiedUnsupportedOperatingSystemResult_def
      NewNotModifiedEphemeralStorageLimitTooLowResult_def newNotModifiedResult_def
      split: option.splits if_splits)

section \<open>The sample workload\<close>

lemma sample_untouched: "untouched sample_modifier sample_workload"
  by code_simp

lemma sample_eligible:
  "checkEligibleForModification sample_modifier (pts_Spec (w_Template sample_workload)) = None"
  by code_simp

lemma sample_no_legacy:
  "list_all (no_legacy_values \<circ> c_Env) (ps_Containers (pts_Spec (w_Template sample_workload)))"
  by code_simp

lemma sample_base_url:
  "TrimSpace (cic_OTelCollectorBaseUrl (rm_clusterInstrumentationConfig sample_modifier)) =
     cic_OTelCollectorBaseUrl (rm_clusterInstrumentationConfig sample_modifier)"
  "cic_OTelCollectorBaseUrl (rm_clusterInstrumentationConfig sample_modifier) \<noteq> []"
  by code_simp+

lemma sample_init_container: "\<not> isInstrumentationDeliveryImageVolume sample_modifier"
  by code_simp

lemma sample_modified:
  "\<exists>r w'. modifyResource sample_modifier sample_workload = Inr (r, w') \<and> mr_HasBeenModified r"
proof -
  have "case modifyResource sample_modifier sample_workload of
      Inl p \<Rightarrow> False | Inr (r, w') \<Rightarrow> mr_HasBeenModified r"
    by code_simp
  then show ?thesis by (auto split: sum.splits)
qed

section \<open>Properties\<close>

text \<open>
  C1: Reverting undoes instrumenting. An eligible workload that the operator has not touched yet is
  modified by the instrumentation; reverting the result reports a modification as well and gives back
  exactly the original workload, with all environment variables, mounts, volumes, containers, labels
  and annotations in their original order.
\<close>

theorem revertResource_modifyResource:
  assumes "untouched m w" and "checkEligibleForModification m (pts_Spec (w_Template w)) = None"
  shows "\<exists>r r' w'. modifyResource m w = Inr (r, w') \<and> mr_HasBeenModified r \<and>
           revertResource m w' = Inr (r', w) \<and> mr_HasBeenModified r'"
proof -
  let ?ps = "pts_Spec (w_Template w)" and ?pm = "pts_Meta (w_Template w)"
  obtain pr ps' pm' where
    pod: "modifyPodSpec m (Some (w_Meta w)) ?ps ?pm = Inr (pr, ps', pm')" "mps_hasBeenModified pr"
      "revertPodSpec m ps' (addLabels m True pm') =
         Inr (\<lparr>mps_hasBeenModified = True, mps_instrumentationIssuesPerContainer = []\<rparr>, ?ps, addLabels m True ?pm)"
    by (rule revert_modify_pod[OF assms(1)])
  let ?w' = "\<lparr>w_Meta = addLabels m True (w_Meta w),
      w_Template = \<lparr>pts_Meta = addLabels m True pm', pts_Spec = ps'\<rparr>\<rparr>"
  have modified: "modifyResource m w = Inr (NewHasBeenModifiedResult (length (ps_Containers ps'))
      (mps_instrumentationIssuesPerContainer pr), ?w')"
    using assms(2) pod(1,2) by (simp add: modifyResource_def)
  have metas: "RemoveInstrumentationLabelsAndAnnotations (addLabels m True (w_Meta w)) = w_Meta w"
      "RemoveInstrumentationLabelsAndAnnotations (addLabels m True ?pm) = ?pm"
    using assms(1) by (simp_all add: untouched_def Let_def Remove_addLabels)
  have "\<not> InstrumentationAttemptHasFailed (addLabels m True (w_Meta w))"
    by (simp add: addLabels_def InstrumentationAttemptHasFailed_def readInstrumentationState_def readLabel_Add)
  then have "revertResource m ?w' = Inr (NewHasBeenModifiedResult (length (ps_Containers ?ps)) [], w)"
    by (simp add: revertResource_def pod(3) metas)
  with modified show ?thesis by (auto simp: NewHasBeenModifiedResult_def)
qed

theorem revertResource_modifyResource_witness:
  "\<exists>r r' w'. modifyResource sample_modifier sample_workload = Inr (r, w') \<and> mr_HasBeenModified r \<and>
     revertResource sample_modifier w' = Inr (r', sample_workload) \<and> mr_HasBeenModified r'"
  by (rule revertResource_modifyResource) (rule sample_untouched, rule sample_eligible)

lemma modify_or_revert_foreign:
  assumes "modifyResource m w = Inr (r, w') \<or> revertResource m w = Inr (r, w')"
  shows "foreign w' = foreign w"
  using assms
proof
  assume "modifyResource m w = Inr (r, w')"
  then show ?thesis
    by (auto simp: modifyResource_def foreign_def foreign_labels dest!: foreign_modifyPodSpec
        split: option.splits sum.splits if_splits)
next
  assume "revertResource m w = Inr (r, w')"
  then show ?thesis
    by (auto simp: revertResource_def foreign_def foreign_labels dest!: foreign_revertPodSpec
        split: option.splits sum.splits if_splits)
qed

text \<open>
  C4: Whatever a workload looks like, instrumenting it and reverting the instrumentation keep everything
  that does not belong to the operator, in its order: all fields of the containers besides their
  environment and mounts, the environment variables, mounts, volumes and init containers with other
  names, all other labels and annotations and the rest of the pod spec.
\<close>

theorem workload_operations_keep_foreign:
  assumes "modifyResource m w = Inr (r, w') \<or> revertResource m w = Inr (r, w')"
  shows "foreign w' = foreign w"
  using assms by (rule modify_or_revert_foreign)

theorem workload_operations_keep_foreign_witness:
  "\<exists>r w'. modifyResource sample_modifier sample_workload = Inr (r, w') \<and> mr_HasBeenModified r \<and>
     foreign w' = foreign sample_workload"
  using sample_modified workload_operations_keep_foreign by blast

lemma modifyResource_twice:
  assumes first: "modifyResource m w = Inr (r, w')"
    and "list_all (no_legacy_values \<circ> c_Env) (ps_Containers (pts_Spec (w_Template w)))"
    and "isInstrumentationDeliveryImageVolume m \<Longrightarrow> evict_unlisted (pts_Meta (w_Template w))"
  shows "\<exists>r'. modifyResource m w' = Inr (r', w') \<and> \<not> mr_HasBeenModified r'"
proof (cases "checkEligibleForModification m (pts_Spec (w_Template w))")
  case (Some result)
  then have "\<not> mr_HasBeenModified result" by (rule ineligible_not_modified)
  with Some first show ?thesis by (auto simp: modifyResource_def)
next
  case None
  let ?ps = "pts_Spec (w_Template w)" and ?pm = "pts_Meta (w_Template w)"
  from None first obtain pr ps' pm' where
    pod: "modifyPodSpec m (Some (w_Meta w)) ?ps ?pm = Inr (pr, ps', pm')"
    by (auto simp: modifyResource_def split: sum.splits)
  have eligible: "checkEligibleForModification m ps' = None"
    using modifyPodSpec_eligible[OF pod] None by simp
  note twice = modifyPodSpec_twice[OF pod assms(2,3)]
  show ?thesis
  proof (cases "mps_hasBeenModified pr")
    case True
    then have w': "w' = \<lparr>w_Meta = addLabels m True (w_Meta w),
        w_Template = \<lparr>pts_Meta = addLabels m True pm', pts_Spec = ps'\<rparr>\<rparr>"
      using None first pod by (simp add: modifyResource_def)
    obtain r2 where "modifyPodSpec m (Some (addLabels m True (w_Meta w))) ps' (addLabels m True pm') =
        Inr (r2, ps', addLabels m True pm')" "\<not> mps_hasBeenModified r2"
      using twice[of "addLabels m True (w_Meta w)" "addLabels m True pm'"] by auto
    with eligible show ?thesis
      by (simp add: w' modifyResource_def NewNotModifiedNoChangesResult_def newNotModifiedResult_def)
  next
    case False
    then have w': "w' = w\<lparr>w_Template := \<lparr>pts_Meta = pm', pts_Spec = ps'\<rparr>\<rparr>"
      using None first pod by (simp add: modifyResource_def)
    obtain r2 where "modifyPodSpec m (Some (w_Meta w)) ps' pm' = Inr (r2, ps', pm')"
        "\<not> mps_hasBeenModified r2"
      using twice[of "w_Meta w" pm'] by auto
    with eligible show ?thesis
      by (simp add: w' modifyResource_def NewNotModifiedNoChangesResult_def newNotModifiedResult_def)
  qed
qed

text \<open>
  C3: Instrumenting is idempotent. Whatever instrumenting a workload returned, instrumenting the
  result again with the same configuration reports that nothing was modified and leaves the workload
  exactly as it is. (Values that only operator versions before the OpenTelemetry injector wrote must
  be absent, and with image volumes the annotation for the autoscaler must not mention the volume.)
\<close>

theorem modifyResource_idempotent:
  assumes first: "modifyResource m w = Inr (r, w')"
    and "list_all (no_legacy_values \<circ> c_Env) (ps_Containers (pts_Spec (w_Template w)))"
    and "isInstrumentationDeliveryImageVolume m \<Longrightarrow> evict_unlisted (pts_Meta (w_Template w))"
  shows "\<exists>r'. modifyResource m w' = Inr (r', w') \<and> \<not> mr_HasBeenModified r'"
  using assms by (rule modifyResource_twice)

theorem modifyResource_idempotent_witness:
  "\<exists>r w' r'. modifyResource sample_modifier sample_workload = Inr (r, w') \<and> mr_HasBeenModified r \<and>
     modifyResource sample_modifier w' = Inr (r', w') \<and> \<not> mr_HasBeenModified r'"
  using sample_modified modifyResource_idempotent[OF _ sample_no_legacy] sample_init_container by blast

lemma modified_up_to_date:
  assumes "modifyResource m w = Inr (r, w')" and "mr_HasBeenModified r"
    and "TrimSpace (cic_OTelCollectorBaseUrl (rm_clusterInstrumentationConfig m)) =
           cic_OTelCollectorBaseUrl (rm_clusterInstrumentationConfig m)"
    and "cic_OTelCollectorBaseUrl (rm_clusterInstrumentationConfig m) \<noteq> []"
  shows "InstrumentationIsUpToDate (w_Meta w') (ps_Containers (pts_Spec (w_Template w')))
           (rm_clusterInstrumentationConfig m) (rm_namespaceInstrumentationConfig m)"
proof -
  have "checkEligibleForModification m (pts_Spec (w_Template w)) = None"
  proof (rule ccontr)
    assume "checkEligibleForModification m (pts_Spec (w_Template w)) \<noteq> None"
    then obtain result where some: "checkEligibleForModification m (pts_Spec (w_Template w)) = Some result"
      by blast
    with ineligible_not_modified[OF some] assms(1,2) show False by (simp add: modifyResource_def)
  qed
  with assms(1,2) obtain pr pm' where
    w': "w' = \<lparr>w_Meta = addLabels m True (w_Meta w),
      w_Template = \<lparr>pts_Meta = addLabels m True pm',
                    pts_Spec = instrumented_spec m (w_Meta w) pm' (pts_Spec (w_Template w))\<rparr>\<rparr>"
    by (auto simp: modifyResource_def modifyPodSpec_spec Let_def NewNotModifiedNoChangesResult_def
        newNotModifiedResult_def split: sum.splits if_splits)
  have "HasBeenInstrumentedSuccessfullyByThisVersion (addLabels m True (w_Meta w))
      (cic_Images (rm_clusterInstrumentationConfig m))"
    by (simp add: addLabels_def HasBeenInstrumentedSuccessfullyByThisVersion_def
        HasBeenInstrumentedSuccessfully_def readInstrumentationState_def readLabel_Add)
  then show ?thesis
    unfolding w' using up_to_date_containers[OF assms(3,4)] by (simp add: instrumented_spec_def)
qed

text \<open>
  C5: After a successful instrumentation nothing is left to be updated: the check that decides at
  startup and after configuration changes whether a workload has to be instrumented again answers that
  its instrumentation is up to date. The collector base URL only has to be free of surrounding space.
\<close>

theorem modifyResource_up_to_date:
  assumes "modifyResource m w = Inr (r, w')" and "mr_HasBeenModified r"
    and "TrimSpace (cic_OTelCollectorBaseUrl (rm_clusterInstrumentationConfig m)) =
           cic_OTelCollectorBaseUrl (rm_clusterInstrumentationConfig m)"
    and "cic_OTelCollectorBaseUrl (rm_clusterInstrumentationConfig m) \<noteq> []"
  shows "InstrumentationIsUpToDate (w_Meta w') (ps_Containers (pts_Spec (w_Template w')))
           (rm_clusterInstrumentationConfig m) (rm_namespaceInstrumentationConfig m)"
  using assms by (rule modified_up_to_date)

theorem modifyResource_up_to_date_witness:
  "\<exists>r w'. modifyResource sample_modifier sample_workload = Inr (r, w') \<and>
     InstrumentationIsUpToDate (w_Meta w') (ps_Containers (pts_Spec (w_Template w')))
       (rm_clusterInstrumentationConfig sample_modifier) (rm_namespaceInstrumentationConfig sample_modifier)"
  using sample_modified modifyResource_up_to_date[OF _ _ sample_base_url] by blast

text \<open>
  The annotation for the cluster autoscaler mentions the name of the volume, but only as a part of
  other names.
\<close>

definition evict_only_within_names :: "ObjectMeta \<Rightarrow> bool" where
  "evict_only_within_names podMeta \<longleftrightarrow>
     (\<exists>v. evict_annotation podMeta = Some v \<and> Contains v dash0VolumeName \<and>
          dash0VolumeName \<notin> set (parseAndNormalizeVolumeList v))"

lemma removeEvict_panics_iff:
  "removeSafeToEvictLocalVolumesAnnotation pm = Inl p \<longleftrightarrow>
     p = SliceBoundsOutOfRange \<and> evict_only_within_names pm"
proof (cases "evict_annotation pm")
  case None
  then show ?thesis
    by (simp add: removeSafeToEvictLocalVolumesAnnotation_def evict_annotation_def evict_only_within_names_def)
next
  case (Some v)
  have member: "dash0VolumeName \<in> set (parseAndNormalizeVolumeList dash0VolumeName)" by code_simp
  have "IndexFunc (\<lambda>n. n = dash0VolumeName) (parseAndNormalizeVolumeList v) = None \<longleftrightarrow>
      dash0VolumeName \<notin> set (parseAndNormalizeVolumeList v)"
    by (auto simp: IndexFunc_None_iff)
  with Some member show ?thesis
    by (cases "IndexFunc (\<lambda>n. n = dash0VolumeName) (parseAndNormalizeVolumeList v)")
      (auto simp: removeSafeToEvictLocalVolumesAnnotation_def evict_annotation_def
        evict_only_within_names_def Let_def)
qed

text \<open>
  C20: Exactly when the operations panic: reverting does if the instrumentation has not been marked as
  failed and the annotation for the cluster autoscaler mentions the name of the volume only as a part
  of other names, and instrumenting does for such an annotation if the workload is eligible and image
  volumes are used. In all other cases they return.
\<close>

theorem revertResource_panics_iff:
  "(revertResource m w = Inl p \<longleftrightarrow>
      p = SliceBoundsOutOfRange \<and> \<not> InstrumentationAttemptHasFailed (w_Meta w) \<and>
      evict_only_within_names (pts_Meta (w_Template w))) \<and>
   (modifyResource m w = Inl p \<longleftrightarrow>
      p = SliceBoundsOutOfRange \<and> isInstrumentationDeliveryImageVolume m \<and>
      checkEligibleForModification m (pts_Spec (w_Template w)) = None \<and>
      evict_only_within_names (pts_Meta (w_Template w)))"
proof -
  have "modifyPodSpec m wm ps pm = Inl p \<longleftrightarrow>
      isInstrumentationDeliveryImageVolume m \<and> removeSafeToEvictLocalVolumesAnnotation pm = Inl p" for wm ps pm
    by (simp add: modifyPodSpec_def isInstrumentationDeliveryInitContainer_def Let_def split: sum.splits prod.splits)
  moreover have "revertPodSpec m ps pm = Inl p \<longleftrightarrow> removeSafeToEvictLocalVolumesAnnotation pm = Inl p" for ps pm
    by (simp add: revertPodSpec_def Let_def split: sum.splits)
  moreover have "revertResource m w = Inl p \<longleftrightarrow> \<not> InstrumentationAttemptHasFailed (w_Meta w) \<and>
      revertPodSpec m (pts_Spec (w_Template w)) (pts_Meta (w_Template w)) = Inl p"
    by (simp add: revertResource_def split: sum.splits)
  moreover have "modifyResource m w = Inl p \<longleftrightarrow>
      checkEligibleForModification m (pts_Spec (w_Template w)) = None \<and>
      modifyPodSpec m (Some (w_Meta w)) (pts_Spec (w_Template w)) (pts_Meta (w_Template w)) = Inl p"
    by (simp add: modifyResource_def split: sum.splits option.splits)
  ultimately show ?thesis
    unfolding removeEvict_panics_iff by blast
qed

text \<open>An annotation that makes reverting panic: another volume whose name contains the operator's.\<close>

lemma revert_panic_example:
  "removeSafeToEvictLocalVolumesAnnotation
     \<lparr>om_Labels = [], om_Annotations = [(safeToEviceLocalVolumesAnnotationName, ''my-dash0-instrumentation'')],
      om_OwnerReferences = []\<rparr> = Inl SliceBoundsOutOfRange"
  by code_simp

end
