(* ===== verification/ResourceAttributes.thy ===== *)
theory ResourceAttributes
  imports EnvStages "HOL-Library.Multiset"
begin

text \<open>
  The resource attributes derived from annotations. Go iterates over the annotations in an arbitrary
  order; the variables the operator writes do not depend on it.
\<close>

section \<open>The derived maps\<close>

lemma CutPrefix_Some_iff: "CutPrefix s p = Some t \<longleftrightarrow> s = p @ t"
  by (auto simp: CutPrefix_def prefix_def)

text \<open>The attributes of a map of annotations, over those that have been derived before.\<close>

definition attribute_of :: "stringmap \<Rightarrow> string \<Rightarrow> string option" where
  "attribute_of annotations k = map_of annotations (resourcesOpenTelemetryIoLabelPrefix @ k)"

lemma map_of_fold_service:
  "map_of (fold (\<lambda>k sa. if a = k then AList.update k v sa else sa) ks sa) j =
     (if j = a \<and> a \<in> set ks then Some v else map_of sa j)"
  by (induction ks arbitrary: sa) (auto simp: update_conv')

lemma derive_step:
  "deriveResourceAttributesFromAnnotations ((n, v) # anns) (ra, sa) =
     deriveResourceAttributesFromAnnotations anns
       (case CutPrefix n resourcesOpenTelemetryIoLabelPrefix of
          None \<Rightarrow> (ra, sa)
        | Some k \<Rightarrow> (AList.update k v ra,
            fold (\<lambda>j sa. if k = j then AList.update j v sa else sa) serviceAttributes sa))"
  by (simp add: deriveResourceAttributesFromAnnotations_def split: option.split)

lemma derive_maps:
  assumes "distinct (map fst anns)"
  shows "map_of (fst (deriveResourceAttributesFromAnnotations anns (ra, sa))) k =
       (case attribute_of anns k of Some v \<Rightarrow> Some v | None \<Rightarrow> map_of ra k) \<and>
     map_of (snd (deriveResourceAttributesFromAnnotations anns (ra, sa))) k =
       (case attribute_of anns k of
          Some v \<Rightarrow> if k \<in> set serviceAttributes then Some v else map_of sa k
        | None \<Rightarrow> map_of sa k)"
  using assms
proof (induction anns arbitrary: ra sa)
  case Nil
  show ?case by (simp add: deriveResourceAttributesFromAnnotations_def attribute_of_def)
next
  case (Cons nv anns)
  obtain n v where nv: "nv = (n, v)" by (cases nv)
  show ?case
  proof (cases "CutPrefix n resourcesOpenTelemetryIoLabelPrefix")
    case None
    then have "n \<noteq> resourcesOpenTelemetryIoLabelPrefix @ k" by (auto simp: CutPrefix_def)
    with None Cons nv show ?thesis by (simp add: derive_step attribute_of_def)
  next
    case (Some a)
    then have n: "n = resourcesOpenTelemetryIoLabelPrefix @ a" by (simp add: CutPrefix_Some_iff)
    have "attribute_of anns a = None"
      using Cons.prems nv n by (simp add: attribute_of_def map_of_eq_None_iff)
    with Some Cons nv n show ?thesis
      by (auto simp: derive_step attribute_of_def map_of_fold_service update_conv' split: option.split)
  qed
qed

lemma derive_distinct:
  "distinct (map fst (fst acc)) \<Longrightarrow>
   distinct (map fst (fst (deriveResourceAttributesFromAnnotations anns acc)))"
proof (induction anns arbitrary: acc)
  case Nil
  then show ?case by (simp add: deriveResourceAttributesFromAnnotations_def)
next
  case (Cons nv anns)
  obtain ra sa where "acc = (ra, sa)" by (cases acc)
  moreover obtain n v where "nv = (n, v)" by (cases nv)
  ultimately show ?case
    using Cons by (auto simp: derive_step distinct_update split: option.split)
qed

lemma attributes_of_maps:
  assumes "distinct (map fst (om_Annotations wm))" and "distinct (map fst (om_Annotations pm))"
  shows "map_of (fst (attributes_of wm pm)) k =
       (case attribute_of (om_Annotations pm) k of
          Some v \<Rightarrow> Some v | None \<Rightarrow> attribute_of (om_Annotations wm) k)"
    and "k \<in> set serviceAttributes \<Longrightarrow>
     map_of (snd (attributes_of wm pm)) k = map_of (fst (attributes_of wm pm)) k"
    and "distinct (map fst (fst (attributes_of wm pm)))"
proof -
  obtain ra sa where first: "deriveResourceAttributesFromAnnotations (om_Annotations wm) ([], []) = (ra, sa)"
    by (cases "deriveResourceAttributesFromAnnotations (om_Annotations wm) ([], [])")
  note 1 = derive_maps[OF assms(1), of "[]" "[]", unfolded first]
  note 2 = derive_maps[OF assms(2), of ra sa]
  show "map_of (fst (attributes_of wm pm)) k =
      (case attribute_of (om_Annotations pm) k of
         Some v \<Rightarrow> Some v | None \<Rightarrow> attribute_of (om_Annotations wm) k)"
    using 1[of k] 2[of k] by (auto simp: attributes_of_def first split: option.split)
  show "map_of (snd (attributes_of wm pm)) k = map_of (fst (attributes_of wm pm)) k"
    if "k \<in> set serviceAttributes"
    using that 1[of k] 2[of k] by (auto simp: attributes_of_def first split: option.split)
  show "distinct (map fst (fst (attributes_of wm pm)))"
    unfolding attributes_of_def by (intro derive_distinct) simp
qed

lemma sorted_keys_eq:
  assumes "distinct (map fst al)" and "distinct (map fst al')" and "map_of al = map_of al'"
  shows "sort (map fst al) = sort (map fst al')"
proof -
  have "set (map fst al) = set (map fst al')"
    using assms(3) by (metis dom_map_of_conv_image_fst list.set_map)
  with assms(1,2) have "mset (map fst al) = mset (map fst al')"
    using set_eq_iff_mset_eq_distinct by blast
  then show ?thesis by (metis properties_for_sort sorted_sort mset_sort)
qed

lemma annotation_vars_cong:
  assumes distinct: "distinct (map fst (om_Annotations wm))" "distinct (map fst (om_Annotations pm))"
      "distinct (map fst (om_Annotations wm'))" "distinct (map fst (om_Annotations pm'))"
    and same: "map_of (om_Annotations wm) = map_of (om_Annotations wm')"
      "map_of (om_Annotations pm) = map_of (om_Annotations pm')"
  shows "annotation_vars wm pm has = annotation_vars wm' pm' has"
proof -
  note maps = attributes_of_maps[OF distinct(1,2)] attributes_of_maps[OF distinct(3,4)]
  have ra: "map_of (fst (attributes_of wm pm)) = map_of (fst (attributes_of wm' pm'))"
    by (auto simp: fun_eq_iff maps attribute_of_def same split: option.split)
  have sa: "map_of (snd (attributes_of wm pm)) k = map_of (snd (attributes_of wm' pm')) k"
    if "k \<in> set serviceAttributes" for k
    using that by (simp add: maps(2,5) ra)
  have "sort (map fst (fst (attributes_of wm pm))) = sort (map fst (fst (attributes_of wm' pm')))"
    by (rule sorted_keys_eq[OF maps(3,6) ra])
  moreover have "fst (attributes_of wm pm) = [] \<longleftrightarrow> fst (attributes_of wm' pm') = []"
    using ra by (metis map_of_eq_empty_iff)
  ultimately show ?thesis
    using ra sa[of serviceName] sa[of serviceNamespace] sa[of serviceVersion]
    by (simp add: annotation_vars_def case_prod_unfold Let_def serviceAttributes_def)
qed

section \<open>Properties\<close>

text \<open>
  C18: The resource attributes written to a container do not depend on the order in which Go iterates
  over the annotations: any two orders of the same annotations give the same environment.
\<close>

theorem addResourceAttributes_order_independent:
  assumes "distinct (map fst wa)" and "distinct (map fst pa)"
    and "mset wa' = mset wa" and "mset pa' = mset pa"
  shows "addResourceAttributesFromAnnotations (wm\<lparr>om_Annotations := wa'\<rparr>) (pm\<lparr>om_Annotations := pa'\<rparr>) has env =
         addResourceAttributesFromAnnotations (wm\<lparr>om_Annotations := wa\<rparr>) (pm\<lparr>om_Annotations := pa\<rparr>) has env"
proof -
  have perm: "distinct (map fst ys) \<and> map_of ys = map_of xs"
    if "distinct (map fst xs)" "mset ys = mset xs" for xs ys :: stringmap
  proof -
    have "mset (map fst ys) = mset (map fst xs)" using that(2) by simp
    then have "distinct (map fst ys)" using that(1) by (metis mset_eq_imp_distinct_iff)
    moreover have "set ys = set xs" using that(2) by (rule mset_eq_setD)
    ultimately show ?thesis using that(1) by (simp add: map_of_inject_set)
  qed
  show ?thesis
    unfolding addResourceAttributesFromAnnotations_fold
    using perm[OF assms(1,3)] perm[OF assms(2,4)] assms(1,2)
    by (subst annotation_vars_cong[of _ _ "wm\<lparr>om_Annotations := wa\<rparr>" "pm\<lparr>om_Annotations := pa\<rparr>"]) simp_all
qed

theorem addResourceAttributes_order_independent_witness:
  "addResourceAttributesFromAnnotations
     \<lparr>om_Labels = [], om_Annotations = [], om_OwnerReferences = []\<rparr>
     \<lparr>om_Labels = [], om_Annotations = [(''resource.opentelemetry.io/b'', ''2''), (''resource.opentelemetry.io/a'', ''1'')],
      om_OwnerReferences = []\<rparr>
     \<lparr>hsa_serviceName = False, hsa_serviceNamespace = False, hsa_serviceVersion = False\<rparr> [] =
   addResourceAttributesFromAnnotations
     \<lparr>om_Labels = [], om_Annotations = [], om_OwnerReferences = []\<rparr>
     \<lparr>om_Labels = [], om_Annotations = [(''resource.opentelemetry.io/a'', ''1''), (''resource.opentelemetry.io/b'', ''2'')],
      om_OwnerReferences = []\<rparr>
     \<lparr>hsa_serviceName = False, hsa_serviceNamespace = False, hsa_serviceVersion = False\<rparr> []"
  using addResourceAttributes_order_independent[of "[]"
      "[(''resource.opentelemetry.io/a'', ''1''), (''resource.opentelemetry.io/b'', ''2'')]" "[]"
      "[(''resource.opentelemetry.io/b'', ''2''), (''resource.opentelemetry.io/a'', ''1'')]"
      "\<lparr>om_Labels = [], om_Annotations = [], om_OwnerReferences = []\<rparr>"
      "\<lparr>om_Labels = [], om_Annotations = [], om_OwnerReferences = []\<rparr>"
      "\<lparr>hsa_serviceName = False, hsa_serviceNamespace = False, hsa_serviceVersion = False\<rparr>" "[]"]
  by simp

end
