(* ===== verification/ContainerProps.thy ===== *)
theory ContainerProps
  imports Samples
begin

text \<open>
  Properties of the environment of one container under instrumentation: the order the kubelet needs,
  the settings of the user, the export settings, \<open>LD_PRELOAD\<close>, and the collector base URLs.
\<close>

section \<open>LD_PRELOAD\<close>

text \<open>A list of libraries as it may stand in \<open>LD_PRELOAD\<close>, separated by single spaces.\<close>

definition library_names :: "string list \<Rightarrow> bool" where
  "library_names libs \<longleftrightarrow>
     libs \<noteq> [] \<and>
     list_all (\<lambda>lib. lib \<noteq> [] \<and> plain_char (hd lib) \<and> plain_char (last lib) \<and>
       CHR '' '' \<notin> set lib \<and> CHR '':'' \<notin> set lib) libs"

lemma set_Join: "set (Join xs sep) \<subseteq> (\<Union>x\<in>set xs. set x) \<union> set sep"
  by (induction xs sep rule: Join.induct) auto

lemma Join_Cons: "xs \<noteq> [] \<Longrightarrow> Join (x # xs) sep = x @ sep @ Join xs sep"
  by (cases xs) auto

lemma injector_shape:
  "envVarLdPreloadValue \<noteq> [] \<and> TrimSpace envVarLdPreloadValue = envVarLdPreloadValue \<and>
   CHR '' '' \<notin> set envVarLdPreloadValue \<and> CHR '':'' \<notin> set envVarLdPreloadValue"
  by code_simp

lemma Contains_char: "Contains v [c] \<longleftrightarrow> c \<in> set v"
  by (auto simp: Contains_def sublist_def in_set_conv_decomp)

lemma Join_ends:
  "xs \<noteq> [] \<Longrightarrow> (\<And>x. x \<in> set xs \<Longrightarrow> x \<noteq> []) \<Longrightarrow>
   Join xs sep \<noteq> [] \<and> hd (Join xs sep) = hd (hd xs) \<and> last (Join xs sep) = last (last xs)"
  by (induction xs sep rule: Join.induct) auto

lemma TrimSpace_Join:
  assumes "xs \<noteq> []" and "\<And>x. x \<in> set xs \<Longrightarrow> x \<noteq> [] \<and> plain_char (hd x) \<and> plain_char (last x)"
  shows "TrimSpace (Join xs sep) = Join xs sep \<and> Join xs sep \<noteq> []"
proof -
  have ends: "Join xs sep \<noteq> []" "hd (Join xs sep) = hd (hd xs)" "last (Join xs sep) = last (last xs)"
    using Join_ends[of xs sep] assms by blast+
  have "plain_char (hd (hd xs))" and "plain_char (last (last xs))"
    using assms(2)[OF hd_in_set[OF assms(1)]] assms(2)[OF last_in_set[OF assms(1)]] by blast+
  then show ?thesis using ends by (simp add: plain_ends_TrimSpace)
qed

lemma ld_without_ld_with:
  assumes "library_names libs" and "ev_Value e = Join libs '' ''" and "ev_ValueFrom e = None"
    and "\<not> Contains (ev_Value e) envVarLdPreloadValue"
  shows "ld_without envVarLdPreloadValue (ld_with e) = Some e"
proof -
  let ?inj = envVarLdPreloadValue and ?all = "envVarLdPreloadValue # libs"
  have libs: "libs \<noteq> []" and shape: "\<And>lib. lib \<in> set libs \<Longrightarrow> lib \<noteq> [] \<and> plain_char (hd lib) \<and>
      plain_char (last lib) \<and> CHR '' '' \<notin> set lib \<and> CHR '':'' \<notin> set lib"
    using assms(1) by (auto simp: library_names_def list_all_iff)
  have trim: "TrimSpace lib = lib" if "lib \<in> set libs" for lib
    using shape[OF that] by (intro plain_ends_TrimSpace) auto
  have fresh: "?inj \<notin> set libs" using assms(2,4) Contains_Join by metis
  have split: "Split (Join ?all '' '') CHR '' '' = ?all"
    using shape injector_shape by (intro Split_Join) auto
  have colon: "\<not> Contains (Join ?all '' '') '':''"
    using set_Join[of ?all "'' ''"] shape injector_shape by (auto simp: Contains_char)
  have "TrimSpace (Join libs '' '') = Join libs '' '' \<and> Join libs '' '' \<noteq> []"
    using libs shape by (intro TrimSpace_Join) blast+
  then have with_inj: "ld_with e = e\<lparr>ev_Value := Join ?all '' ''\<rparr>"
    using assms(2-4) libs by (simp add: ld_with_def Join_Cons)
  have "Contains (Join ?all '' '') ?inj" by (rule Contains_Join) simp
  moreover have "TrimSpace (Join ?all '' '') \<noteq> ?inj"
  proof -
    have "plain_char (hd ?inj) \<and> plain_char (last ?inj)" by code_simp
    then have "TrimSpace (Join ?all '' '') = Join ?all '' ''"
      using shape injector_shape by (intro conjunct1[OF TrimSpace_Join]) auto
    then show ?thesis using libs by (simp add: Join_Cons)
  qed
  moreover have "filter (\<lambda>lib. lib \<noteq> ?inj \<and> lib \<noteq> []) (map TrimSpace ?all) = libs"
  proof -
    have "filter (\<lambda>lib. lib \<noteq> ?inj \<and> lib \<noteq> []) libs = libs" using fresh shape by (intro filter_True) auto
    then show ?thesis using trim injector_shape by (simp add: map_idI)
  qed
  moreover have "Join ?all '' '' \<noteq> []" using libs by (simp add: Join_Cons)
  ultimately have "ld_without ?inj (e\<lparr>ev_Value := Join ?all '' ''\<rparr>) = Some (e\<lparr>ev_Value := Join libs '' ''\<rparr>)"
    using colon split by (simp add: ld_without_def ld_separator_def del: list.map Join.simps)
  then show ?thesis unfolding with_inj assms(2)[symmetric] by simp
qed

section \<open>Collector base URLs\<close>

lemma length_showNat: "n < 10 ^ k \<Longrightarrow> 0 < k \<Longrightarrow> length (showNat n) \<le> k"
proof (induction k arbitrary: n)
  case 0
  then show ?case by simp
next
  case (Suc k)
  show ?case
  proof (cases "n < 10")
    case True
    then show ?thesis by (simp add: showNat.simps[of n])
  next
    case False
    then have "0 < k" using Suc.prems(1) by (cases k) auto
    moreover have "n div 10 < 10 ^ k" using Suc.prems(1) by (simp add: less_mult_imp_div_less mult.commute)
    ultimately show ?thesis using Suc.IH[of "n div 10"] False by (simp add: showNat.simps[of n])
  qed
qed

lemma node_local_url_recognised:
  assumes "0 < port" and "port < 100000"
  shows "nodeLocalCollectorEndpointRegex (''http://$('' @ EnvVarDash0NodeIp @ ''):'' @ showInt port)"
proof -
  have "length (showNat (nat port)) \<le> 5" using assms(2) by (intro length_showNat) simp_all
  moreover have "0 < length (showNat (nat port))" by simp
  moreover have "list_all is_digit (showInt port)" using assms(1) by (intro showInt_digits) simp
  ultimately show ?thesis
    using assms(1)
    by (simp add: nodeLocalCollectorEndpointRegex_def CutPrefix_def showInt_def Suc_le_eq)
qed

lemma base_url_trimmed:
  assumes "hd url = CHR ''h''" and "is_digit (last url)" and "url \<noteq> []"
  shows "TrimSpace url = url"
  using assms plain_char_digit
  by (intro plain_ends_TrimSpace) (auto simp: plain_char_def space_runes_def)

section \<open>Properties\<close>

text \<open>
  However the operator is configured to reach its collector, the base URL it renders and selects
  is one that it recognises as its own in the environment of a container later on, as long as the
  host port has at most five digits.
\<close>

theorem rendered_base_url_recognised:
  assumes "cic_PossibleCollectorUrls c = RenderCollectorBaseUrls namePrefix namespace port"
    and "cic_OTelCollectorBaseUrl c = SelectCollectorBaseUrl (cic_PossibleCollectorUrls c) forceServiceUrl isIPv6"
    and "port < 100000"
  shows "own_base_url c \<and> TrimSpace (cic_OTelCollectorBaseUrl c) = cic_OTelCollectorBaseUrl c"
proof -
  let ?port = "ResolveOtlpHttpHostPort port" and ?urls = "cic_PossibleCollectorUrls c"
  have port: "0 < ?port" "?port < 100000"
    using assms(3) by (auto simp: ResolveOtlpHttpHostPort_def resolveHostPort_def)
  consider (service) "cic_OTelCollectorBaseUrl c = pcu_ServiceBaseUrl ?urls"
    | (local) "cic_OTelCollectorBaseUrl c = pcu_NodeLocalBaseUrl ?urls"
    using assms(2) by (auto simp: SelectCollectorBaseUrl_def split: if_splits)
  then show ?thesis
  proof cases
    case service
    have "TrimSpace (pcu_ServiceBaseUrl ?urls) = pcu_ServiceBaseUrl ?urls"
      by (rule base_url_trimmed) (simp_all add: assms(1) RenderCollectorBaseUrls_def is_digit_def)
    moreover have "pcu_ServiceBaseUrl ?urls \<noteq> []" by (simp add: assms(1) RenderCollectorBaseUrls_def)
    ultimately show ?thesis
      using service by (simp add: own_base_url_def is_operator_endpoint_def envVar_def)
  next
    case local
    have url: "pcu_NodeLocalBaseUrl ?urls = ''http://$('' @ EnvVarDash0NodeIp @ ''):'' @ showInt ?port"
      by (simp add: assms(1) RenderCollectorBaseUrls_def)
    have digits: "list_all is_digit (showInt ?port)" using port(1) by (intro showInt_digits) simp
    have "showInt ?port \<noteq> []" using port(1) by (simp add: showInt_def)
    then have "is_digit (last (pcu_NodeLocalBaseUrl ?urls))"
      unfolding url using digits last_in_set by (auto simp: list_all_iff)
    then have "TrimSpace (pcu_NodeLocalBaseUrl ?urls) = pcu_NodeLocalBaseUrl ?urls"
      by (intro base_url_trimmed) (simp_all add: url)
    moreover have "nodeLocalCollectorEndpointRegex (pcu_NodeLocalBaseUrl ?urls)"
      unfolding url using port by (rule node_local_url_recognised)
    moreover have "pcu_NodeLocalBaseUrl ?urls \<noteq> []" by (simp add: url)
    ultimately show ?thesis
      using local by (simp add: own_base_url_def is_operator_endpoint_def envVar_def)
  qed
qed

theorem rendered_base_url_recognised_witness:
  "own_base_url (sample_cluster
      \<lparr>cic_PossibleCollectorUrls := RenderCollectorBaseUrls ''dash0'' ''system'' 80,
       cic_OTelCollectorBaseUrl :=
         SelectCollectorBaseUrl (RenderCollectorBaseUrls ''dash0'' ''system'' 80) False False\<rparr>) \<and>
   SelectCollectorBaseUrl (RenderCollectorBaseUrls ''dash0'' ''system'' 80) False False =
     ''http://$(DASH0_NODE_IP):80''"
proof -
  have "SelectCollectorBaseUrl (RenderCollectorBaseUrls ''dash0'' ''system'' 80) False False =
      ''http://$(DASH0_NODE_IP):80''"
    by code_simp
  moreover have "own_base_url (sample_cluster
      \<lparr>cic_PossibleCollectorUrls := RenderCollectorBaseUrls ''dash0'' ''system'' 80,
       cic_OTelCollectorBaseUrl :=
         SelectCollectorBaseUrl (RenderCollectorBaseUrls ''dash0'' ''system'' 80) False False\<rparr>)"
    by (rule conjunct1[OF rendered_base_url_recognised[of _ "''dash0''" "''system''" 80 False False]])
      simp_all
  ultimately show ?thesis by (rule conjI[rotated])
qed

text \<open>
  In an instrumented container the variable with the IP of the node comes first and occurs only
  once, whatever the environment was before: the collector base URL and the OTLP endpoint, which refer
  to it, are listed behind it.
\<close>

lemma node_ip_first:
  "\<exists>rest. fst (addEnvironmentVariables m n wm pm env) =
            fieldRefVar EnvVarDash0NodeIp ''status.hostIP'' # rest \<and>
          EnvVarDash0NodeIp \<notin> ev_Name ` set rest"
  using addEnvironmentVariables_head by blast



text \<open>
  C17: A container that exports its telemetry elsewhere keeps its export settings: if its OTLP endpoint
  is set to something that is neither an address of the operator's collector nor the configured base
  URL, or its protocol is not the operator's, both variables stay as they are and the issue is
  reported.
\<close>

theorem foreign_export_kept:
  assumes "is_set (GetEnvVar envVarOtelExporterOtlpEndpointName env) \<and>
             \<not> is_operator_endpoint (cic_PossibleCollectorUrls (rm_clusterInstrumentationConfig m))
                (GetEnvVar envVarOtelExporterOtlpEndpointName env) \<and>
             \<not> has_value (cic_OTelCollectorBaseUrl (rm_clusterInstrumentationConfig m))
                (GetEnvVar envVarOtelExporterOtlpEndpointName env) \<or>
           is_set (GetEnvVar envVarOtelExporterOtlpProtocolName env) \<and>
             \<not> has_value defaultOtelExporterOtlpProtocol (GetEnvVar envVarOtelExporterOtlpProtocolName env)"
  shows "GetEnvVar envVarOtelExporterOtlpEndpointName (fst (addEnvironmentVariables m n wm pm env)) =
           GetEnvVar envVarOtelExporterOtlpEndpointName env \<and>
         GetEnvVar envVarOtelExporterOtlpProtocolName (fst (addEnvironmentVariables m n wm pm env)) =
           GetEnvVar envVarOtelExporterOtlpProtocolName env \<and>
         otelExporterOtlpNoOverwriteMsg \<in> set (snd (addEnvironmentVariables m n wm pm env))"
proof -
  let ?c = "rm_clusterInstrumentationConfig m"
  have can: "\<not> otelExportEnvVarsCanBeUpdatedForContainer env ?c"
    using assms by (auto simp: otelExportEnvVarsCanBeUpdated_lookup Let_def)
  let ?env3 = "addOrReplaceEnvironmentVariable
      (envVar envVarDash0CollectorBaseUrlName (cic_OTelCollectorBaseUrl ?c))
      (prependDash0NodeIp (removeLegacyEnvironmentVariables env))"
  have same: "GetEnvVar envVarOtelExporterOtlpEndpointName ?env3 = GetEnvVar envVarOtelExporterOtlpEndpointName env"
      "GetEnvVar envVarOtelExporterOtlpProtocolName ?env3 = GetEnvVar envVarOtelExporterOtlpProtocolName env"
    by (simp_all add: env.get_put get_prepend get_removeLegacy)
  then have "\<not> otelExportEnvVarsCanBeUpdatedForContainer ?env3 ?c"
    using can by (simp add: otelExportEnvVarsCanBeUpdated_lookup)
  moreover have "\<not> otelExporterOtlpEnvVarsAlreadyHaveDesiredValues ?env3 (cic_OTelCollectorBaseUrl ?c)"
    using assms same by (auto simp: otelExporterAlreadyDesired_lookup Let_def)
  ultimately have "snd (addOrUpdateOtelExporterOtlpEnvVars ?c (cic_OTelCollectorBaseUrl ?c) (?env3, [])) =
      [otelExporterOtlpNoOverwriteMsg]"
    by (simp add: addOrUpdateOtelExporterOtlpEnvVars_def)
  moreover have "set issues \<subseteq> set (snd (addOrAppendToLdPreloadEnvVar (xs, issues)))" for xs issues
    by (auto simp: addOrAppendToLdPreloadEnvVar_def Let_def split: option.split)
  ultimately have "otelExporterOtlpNoOverwriteMsg \<in> set (snd (addEnvironmentVariables m n wm pm env))"
    by (auto simp: addEnvironmentVariables_def Let_def case_prod_unfold)
      (metis list.set_intros(1) subsetD)
  with can show ?thesis
    by (simp add: get_add_otlp)
qed

theorem foreign_export_kept_witness:
  "GetEnvVar envVarOtelExporterOtlpEndpointName
     (fst (addEnvironmentVariables sample_modifier ''app'' (w_Meta sample_workload)
        (w_Meta sample_workload) (c_Env sample_container))) =
     Some (envVar envVarOtelExporterOtlpEndpointName ''http://mine'')"
proof -
  have "is_set (GetEnvVar envVarOtelExporterOtlpEndpointName (c_Env sample_container)) \<and>
      \<not> is_operator_endpoint (cic_PossibleCollectorUrls (rm_clusterInstrumentationConfig sample_modifier))
         (GetEnvVar envVarOtelExporterOtlpEndpointName (c_Env sample_container)) \<and>
      \<not> has_value (cic_OTelCollectorBaseUrl (rm_clusterInstrumentationConfig sample_modifier))
         (GetEnvVar envVarOtelExporterOtlpEndpointName (c_Env sample_container))"
    and "GetEnvVar envVarOtelExporterOtlpEndpointName (c_Env sample_container) =
      Some (envVar envVarOtelExporterOtlpEndpointName ''http://mine'')"
    by (code_simp, code_simp)
  then show ?thesis
    using foreign_export_kept[of "c_Env sample_container" sample_modifier "''app''"
        "w_Meta sample_workload" "w_Meta sample_workload"] by simp
qed

text \<open>
  C19: \<open>LD_PRELOAD\<close> makes the round trip: if it lists libraries separated by single spaces, adding the
  injector and removing it again restores the environment exactly.
\<close>

theorem ld_preload_roundtrip:
  assumes "GetEnvVar envVarLdPreloadName env = Some e" and "ev_ValueFrom e = None"
    and "ev_Value e = Join libs '' ''" and "library_names libs"
    and "\<not> Contains (ev_Value e) envVarLdPreloadValue"
  shows "removeLdPreload (fst (addOrAppendToLdPreloadEnvVar (env, issues))) = env"
proof (cases rule: findEnvVarIdx_cases[of env envVarLdPreloadName])
  case absent
  with assms(1) show ?thesis by simp
next
  case (present us y vs)
  with assms(1) have e: "y = e" by simp
  have name: "ev_Name (ld_with e) = envVarLdPreloadName" using present(3) e by simp
  have "fst (addOrAppendToLdPreloadEnvVar (env, issues)) = us @ ld_with e # vs"
    using present(2-4) assms(1) e by (simp add: addOrAppendToLdPreload_lookup map_first_hit)
  then have "removeLdPreload (fst (addOrAppendToLdPreloadEnvVar (env, issues))) = us @ e # vs"
    using map_first_hit[OF present(4) name, of "ld_without envVarLdPreloadValue" vs]
      ld_without_ld_with[OF assms(4,3,2,5)]
    by (simp only: removeLdPreload_def removeEntryFromLdPreload_map_first option.case)
  then show ?thesis using present(2) e by simp
qed

theorem ld_preload_roundtrip_witness:
  "removeLdPreload (fst (addOrAppendToLdPreloadEnvVar
     ([envVar ''PORT'' ''1'', envVar envVarLdPreloadName ''/a.so /b.so''], []))) =
   [envVar ''PORT'' ''1'', envVar envVarLdPreloadName ''/a.so /b.so'']"
proof (rule ld_preload_roundtrip[where e = "envVar envVarLdPreloadName ''/a.so /b.so''"
      and libs = "[''/a.so'', ''/b.so'']"])
  show "GetEnvVar envVarLdPreloadName [envVar ''PORT'' ''1'', envVar envVarLdPreloadName ''/a.so /b.so''] =
      Some (envVar envVarLdPreloadName ''/a.so /b.so'')" by code_simp
  show "ev_ValueFrom (envVar envVarLdPreloadName ''/a.so /b.so'') = None" by code_simp
  show "ev_Value (envVar envVarLdPreloadName ''/a.so /b.so'') = Join [''/a.so'', ''/b.so''] '' ''" by code_simp
  show "library_names [''/a.so'', ''/b.so'']" by code_simp
  show "\<not> Contains (ev_Value (envVar envVarLdPreloadName ''/a.so /b.so'')) envVarLdPreloadValue" by code_simp
qed

text \<open>With colons as separators, which the dynamic linker accepts as well, the injector stays behind.\<close>

lemma ld_preload_colon_not_removed:
  "map ev_Value (removeLdPreload (fst (addOrAppendToLdPreloadEnvVar
     ([envVar envVarLdPreloadName ''/lib/a.so:/lib/b.so''], [])))) =
   [''/__otel_auto_instrumentation/injector/libotelinject.so /lib/a.so:/lib/b.so'']"
  by code_simp

text \<open>A legacy log level that is read from elsewhere is lost when it is migrated.\<close>

lemma legacy_log_level_value_from_lost:
  "migrateLegacyInjectorLogLevel [fieldRefVar legacyEnvVarDash0InjectorLogLevel ''metadata.labels[x]''] =
   [envVar otelInjectorLogLevelEnvVarName []]"
  by code_simp

end
