(* ===== verification/KubectlArguments.thy ===== *)
theory KubectlArguments
  imports Prelude
begin

text \<open>
  The arguments of a command request to the agent0-connector: \<open>parsed_arguments.go\<close>, \<open>parser.go\<close> and
  \<open>allowed_commands.go\<close> of \<open>images/agent0-connector/src/kubectl\<close>.

  The command tree of kubectl and the flag parser (the packages cobra and pflag), the scan of the raw
  arguments for a log verbosity and the parsers of sort expressions belong to other repositories: they
  are the fields of the record \<open>kubectl_lib\<close>, an argument of the operations that use them. So is
  lower-casing outside of ASCII, for which Go uses the Unicode tables. An error of these packages is
  its text.
\<close>

section \<open>Go library\<close>

definition is_ascii :: "char \<Rightarrow> bool" where
  "is_ascii c \<longleftrightarrow> of_char c < (128 :: nat)"

definition ascii_lower :: "char \<Rightarrow> char" where
  "ascii_lower c = (if in_range 65 90 c then char_of (of_char c + 32 :: nat) else c)"

definition ToLower :: "(string \<Rightarrow> string) \<Rightarrow> string \<Rightarrow> string" where
  "ToLower unicodeLower s =
     (if list_all is_ascii s then map ascii_lower s else unicodeLower s)"

text \<open>\<open>strings.Cut\<close> for a separator of one byte: the part before it and whether it occurs.\<close>

definition Cut :: "string \<Rightarrow> char \<Rightarrow> string \<times> bool" where
  "Cut s sep = (takeWhile (\<lambda>c. c \<noteq> sep) s, sep \<in> set s)"

section \<open>Flags and commands of kubectl\<close>

record pflag =
  pf_Name :: string
  pf_Shorthand :: string
  pf_NoOptDefVal :: string
  pf_DefValue :: string
  pf_Value :: string
  pf_Changed :: bool

datatype cobra_Command =
  cobra_Command (cmd_Name: string) (cmd_Parent: "cobra_Command option")
    (cmd_DisableFlagParsing: bool) (cmd_Flags: "pflag list")

record FlagSet =
  fs_Args :: "string list"
  fs_ArgsLenAtDash :: int
  fs_Visited :: "pflag list" \<comment> \<open>the flags that are set, sorted by name\<close>

text \<open>Nodes of a parsed JSONPath expression; an array node has three parameters with two marks each.\<close>

datatype jsonpath_node =
    ListNode "jsonpath_node list"
  | FieldNode string
  | ArrayNode "bool \<times> bool" "bool \<times> bool" "bool \<times> bool" \<comment> \<open>Known and Derived of each parameter\<close>
  | OtherNode

record kubectl_lib =
  kl_unicodeLower :: "string \<Rightarrow> string"
  kl_TraverseChildren :: bool
  kl_Find :: "string list \<Rightarrow> string + cobra_Command \<times> string list"
  kl_Parse :: "cobra_Command \<Rightarrow> pflag list \<Rightarrow> string list \<Rightarrow> string + FlagSet"
  kl_GetLogVerbosity :: "string list \<Rightarrow> string"
  kl_RelaxedJSONPathExpression :: "string \<Rightarrow> string option"
  kl_jsonpathParse :: "string \<Rightarrow> jsonpath_node list option"

section \<open>Parsed arguments\<close>

record parsedFlag =
  flag_longName :: string
  flag_shorthand :: string
  flag_value :: string

record kubectlArguments =
  ka_kubectlCommand :: string
  ka_subcommand :: string
  ka_flags :: "parsedFlag list"
  ka_hasEndOfFlagsSeparator :: bool
  ka_resourceTypes :: "string list"
  ka_positionalArguments :: "string list"

definition valueOf :: "kubectlArguments \<Rightarrow> string \<Rightarrow> string option" where
  "valueOf p name = map_option flag_value (find (\<lambda>flag. flag_longName flag = name) (ka_flags p))"

definition normalizeOutputFormat :: "kubectl_lib \<Rightarrow> string \<Rightarrow> string" where
  "normalizeOutputFormat lib value =
     ToLower (kl_unicodeLower lib) (takeWhile (\<lambda>c. c \<noteq> CHR ''='') (TrimSpace value))"

definition outputFormat :: "kubectl_lib \<Rightarrow> kubectlArguments \<Rightarrow> string option" where
  "outputFormat lib p = map_option (normalizeOutputFormat lib) (valueOf p ''output'')"

definition hasTemplateFlag :: "kubectlArguments \<Rightarrow> bool" where
  "hasTemplateFlag p \<longleftrightarrow> valueOf p ''template'' \<noteq> None"

subsection \<open>Output formats\<close>

datatype outputFormatHandling =
    outputFormatUnknown
  | outputFormatContentFree
  | outputFormatRedactable
  | outputFormatUnredactable

definition goTemplateOutputFormat :: string where
  "goTemplateOutputFormat = ''go-template''"

definition knownOutputFormats :: "(string \<times> outputFormatHandling) list" where
  "knownOutputFormats =
     [('''', outputFormatContentFree),
      (''name'', outputFormatContentFree),
      (''wide'', outputFormatContentFree),
      (''json'', outputFormatRedactable),
      (''yaml'', outputFormatRedactable),
      (''custom-columns'', outputFormatUnredactable),
      (goTemplateOutputFormat, outputFormatUnredactable),
      (''jsonpath'', outputFormatUnredactable),
      (''jsonpath-as-json'', outputFormatUnredactable),
      (''template'', outputFormatUnredactable)]"

text \<open>Indexing the Go map: the zero value for a format that is not listed.\<close>

definition handling_of :: "string \<Rightarrow> outputFormatHandling" where
  "handling_of format =
     (case map_of knownOutputFormats format of None \<Rightarrow> outputFormatUnknown | Some h \<Rightarrow> h)"

definition parseableOutputFormats :: "string list" where
  "parseableOutputFormats = [''json'', ''yaml'']"

definition parseableOutputFormat :: "kubectl_lib \<Rightarrow> kubectlArguments \<Rightarrow> string option" where
  "parseableOutputFormat lib p =
     (if hasTemplateFlag p then None
      else case outputFormat lib p of
             None \<Rightarrow> None
           | Some format \<Rightarrow> if format \<in> set parseableOutputFormats then Some format else None)"

definition outputIsContentFree :: "kubectl_lib \<Rightarrow> kubectlArguments \<Rightarrow> bool" where
  "outputIsContentFree lib p \<longleftrightarrow>
     (if hasTemplateFlag p then False
      else handling_of (case outputFormat lib p of None \<Rightarrow> '''' | Some format \<Rightarrow> format) =
             outputFormatContentFree)"

section \<open>Resource types\<close>

definition normalizeResourceType :: "kubectl_lib \<Rightarrow> string \<Rightarrow> string" where
  "normalizeResourceType lib resourceType =
     takeWhile (\<lambda>c. c \<noteq> CHR ''.'') (ToLower (kl_unicodeLower lib) (TrimSpace resourceType))"

definition extractNormalizedResourceTypes :: "kubectl_lib \<Rightarrow> string \<Rightarrow> bool \<Rightarrow> string list" where
  "extractNormalizedResourceTypes lib argument isResourceTypeSlot =
     concat (map (\<lambda>part.
         let (resourceType, isTypeNamePair) = Cut part CHR ''/''
         in if \<not> isTypeNamePair \<and> \<not> isResourceTypeSlot then []
            else [normalizeResourceType lib resourceType])
       (Split argument CHR '',''))"

section \<open>Parsing the arguments\<close>

datatype parse_error =
    TraverseChildrenUnsupported
  | UnknownKubectlCommand string
  | FlagParsingUnsupported cobra_Command
  | ReservedShorthand cobra_Command
  | FlagError string

definition findCommand :: "kubectl_lib \<Rightarrow> string list \<Rightarrow> parse_error + cobra_Command \<times> string list" where
  "findCommand lib arguments =
     (if kl_TraverseChildren lib then Inl TraverseChildrenUnsupported
      else case kl_Find lib arguments of
             Inl err \<Rightarrow> Inl (UnknownKubectlCommand err)
           | Inr (resolved, remainingArguments) \<Rightarrow>
               if cmd_DisableFlagParsing resolved then Inl (FlagParsingUnsupported resolved)
               else Inr (resolved, remainingArguments))"

text \<open>The loop over the ancestors; the root has no parent and is left out.\<close>

fun ancestors_below_root :: "cobra_Command \<Rightarrow> string list" where
  "ancestors_below_root (cobra_Command name None d fs) = []"
| "ancestors_below_root (cobra_Command name (Some parent) d fs) = name # ancestors_below_root parent"

definition commandPathBelowRoot :: "cobra_Command \<Rightarrow> string list" where
  "commandPathBelowRoot command = rev (ancestors_below_root command)"

definition newStandInFlag :: "pflag \<Rightarrow> pflag" where
  "newStandInFlag flag = flag\<lparr>pf_Value := pf_DefValue flag, pf_Changed := False\<rparr>"

definition newRequestFlagSet :: "cobra_Command \<Rightarrow> parse_error + pflag list" where
  "newRequestFlagSet resolved =
     (let flags = map newStandInFlag (cmd_Flags resolved)
      in if find (\<lambda>f. pf_Name f = ''help'') flags = None
         then if find (\<lambda>f. pf_Shorthand f = ''h'') flags \<noteq> None then Inl (ReservedShorthand resolved)
              else Inr (flags @
                [\<lparr>pf_Name = ''help'', pf_Shorthand = ''h'', pf_NoOptDefVal = ''true'',
                  pf_DefValue = ''false'', pf_Value = ''false'', pf_Changed = False\<rparr>])
         else Inr flags)"

text \<open>The resource types of all positional arguments; only the first one is in the resource type slot.\<close>

definition positionalResourceTypes :: "kubectl_lib \<Rightarrow> string list \<Rightarrow> string list" where
  "positionalResourceTypes lib args =
     concat (map (\<lambda>(positionalIndex, argument).
         extractNormalizedResourceTypes lib argument (positionalIndex = 0))
       (enumerate 0 args))"

definition parseKubectlArguments :: "kubectl_lib \<Rightarrow> string list \<Rightarrow> parse_error + kubectlArguments" where
  "parseKubectlArguments lib arguments =
     (case findCommand lib arguments of
        Inl err \<Rightarrow> Inl err
      | Inr (resolved, remainingArguments) \<Rightarrow>
          (case newRequestFlagSet resolved of
             Inl err \<Rightarrow> Inl err
           | Inr flagSet \<Rightarrow>
               (case kl_Parse lib resolved flagSet remainingArguments of
                  Inl err \<Rightarrow> Inl (FlagError err)
                | Inr flags \<Rightarrow>
                    (let commandPath = commandPathBelowRoot resolved
                     in Inr \<lparr>ka_kubectlCommand = (if 0 < length commandPath then hd commandPath else []),
                             ka_subcommand =
                               (if 0 < length commandPath then Join (tl commandPath) '' '' else []),
                             ka_flags =
                               map (\<lambda>flag. \<lparr>flag_longName = pf_Name flag, flag_shorthand = pf_Shorthand flag,
                                            flag_value = pf_Value flag\<rparr>) (fs_Visited flags),
                             ka_hasEndOfFlagsSeparator = (0 \<le> fs_ArgsLenAtDash flags),
                             ka_resourceTypes = positionalResourceTypes lib (fs_Args flags),
                             ka_positionalArguments = fs_Args flags\<rparr>))))"

section \<open>Allowed commands\<close>

definition supportedKubectlCommands :: "string list" where
  "supportedKubectlCommands =
     [''api-resources'', ''auth'', ''api-versions'', ''cluster-info'', ''describe'', ''events'',
      ''explain'', ''get'', ''logs'', ''top'', ''version'']"

definition unconditionallyRejectedKubectlCommands :: "string list" where
  "unconditionallyRejectedKubectlCommands = [''describe'']"

record AllowedKubectlCommands =
  akc_commands :: "string list"
  akc_humanReadable :: string

definition Allows :: "AllowedKubectlCommands \<Rightarrow> string \<Rightarrow> bool" where
  "Allows a kubectlCmd \<longleftrightarrow> kubectlCmd \<in> set (akc_commands a)"

definition AllowedKubectlCommands_String :: "AllowedKubectlCommands \<Rightarrow> string" where
  "AllowedKubectlCommands_String a = Join (sort (akc_commands a)) '',''"

definition renderAllowedKubectlCommandsHumanReadable :: "string list \<Rightarrow> string" where
  "renderAllowedKubectlCommandsHumanReadable sortedKubectlCommands =
     (if length sortedKubectlCommands = 1
      then ''the only allowed kubectl command is '' @ quoted (hd sortedKubectlCommands)
      else
        (let names = map quoted sortedKubectlCommands
         in ''the only allowed kubectl commands are '' @ Join (butlast names) '', '' @ '' and '' @ last names))"

datatype allowlist_error =
    AllowlistNotSet
  | AllowlistEmptyEntry
  | AllowlistUnsupported "string list"
  | AllowlistNoCommand

text \<open>The loop over the entries, with the commands and the invalid entries found so far.\<close>

fun collectAllowedCommands ::
  "string list \<Rightarrow> string list \<Rightarrow> string list \<Rightarrow> allowlist_error + string list \<times> string list" where
  "collectAllowedCommands [] commands invalid = Inr (commands, invalid)"
| "collectAllowedCommands (entry # entries) commands invalid =
     (let kubectlCmd = TrimSpace entry
      in if kubectlCmd = [] then Inl AllowlistEmptyEntry
         else if kubectlCmd \<notin> set supportedKubectlCommands \<or>
                 kubectlCmd \<in> set unconditionallyRejectedKubectlCommands
         then collectAllowedCommands entries commands (invalid @ [kubectlCmd])
         else collectAllowedCommands entries (List.insert kubectlCmd commands) invalid)"

definition ParseAllowedKubectlCommands :: "string \<Rightarrow> allowlist_error + AllowedKubectlCommands" where
  "ParseAllowedKubectlCommands value =
     (if TrimSpace value = [] then Inl AllowlistNotSet
      else case collectAllowedCommands (Split value CHR '','') [] [] of
             Inl err \<Rightarrow> Inl err
           | Inr (commands, invalid) \<Rightarrow>
               if 0 < length invalid then Inl (AllowlistUnsupported invalid)
               else if length commands = 0 then Inl AllowlistNoCommand
               else Inr \<lparr>akc_commands = commands,
                         akc_humanReadable = renderAllowedKubectlCommandsHumanReadable (sort commands)\<rparr>)"

end
