(* ===== verification/KubectlValidation.thy ===== *)
theory KubectlValidation
  imports KubectlArguments
begin

text \<open>
  The validation of command requests: \<open>validation.go\<close> of \<open>images/agent0-connector/src/kubectl\<close> and the
  flag allowlist of \<open>kubectl.go\<close>. Every check yields the reason for which a request is rejected, if there
  is one; a reason is a value of the type \<open>rejection\<close>, which carries what the message of the code is
  made of.
\<close>

section \<open>Requests\<close>

record CommandRequest =
  req_RequestId :: string
  req_Command :: string
  req_Arguments :: "string list"

definition kubectlCommand :: string where
  "kubectlCommand = ''kubectl''"

definition kubectlCommandGet :: string where
  "kubectlCommandGet = ''get''"

definition kubectlCommandEvents :: string where
  "kubectlCommandEvents = ''events''"

definition kubectlCommandLogs :: string where
  "kubectlCommandLogs = ''logs''"

datatype rejection =
    WithoutCommand
  | OnlyKubectlAllowed string
  | UnknownCommandRejected string string
  | ArgumentsCannotBeParsed parse_error
  | EndOfFlagsNotAllowed
  | FlagNotAllowed string string
  | LogVerbosityHidden string
  | KubercHidden string
  | NotAReadOnlyCommand string string
  | UnconditionallyRejected string
  | DisabledInConfiguration string string
  | OnlyWithoutSubcommand string string
  | SubcommandMissing string "string list"
  | OtherSubcommand string "string list" string
  | EventsDisabled
  | SensitiveContent string
  | OutputFormatNotAllowed string
  | OutputFormatNotRedactable string
  | SortByNotAllowed string
  | SortByTerminationMessage string

section \<open>The checks\<close>

definition disallowedExecutableRequested :: "CommandRequest \<Rightarrow> rejection option" where
  "disallowedExecutableRequested req =
     (if req_Command req = [] then Some WithoutCommand
      else if req_Command req \<noteq> kubectlCommand then Some (OnlyKubectlAllowed (req_Command req))
      else None)"

definition allowedFlags :: "string list" where
  "allowedFlags =
     [''namespace'', ''all-namespaces'', ''request-timeout'', ''help'',
      ''output'', ''selector'', ''field-selector'', ''sort-by'', ''chunk-size'', ''subresource'',
      ''label-columns'', ''template'', ''allow-missing-template-keys'', ''no-headers'', ''show-labels'',
      ''show-kind'', ''show-managed-fields'', ''ignore-not-found'',
      ''show-events'',
      ''container'', ''since'', ''since-time'', ''tail'', ''limit-bytes'', ''max-log-requests'',
      ''all-containers'', ''previous'', ''timestamps'', ''prefix'', ''ignore-errors'',
      ''containers'', ''sum'', ''use-protocol-buffers'',
      ''for'', ''types'',
      ''api-version'', ''recursive'',
      ''api-group'', ''verbs'', ''categories'', ''namespaced'', ''cached'',
      ''client'',
      ''list'']"

definition disallowedFlagRequested :: "kubectlArguments \<Rightarrow> rejection option" where
  "disallowedFlagRequested p =
     (if ka_hasEndOfFlagsSeparator p then Some EndOfFlagsNotAllowed
      else map_option (\<lambda>flag. FlagNotAllowed (flag_longName flag) (flag_shorthand flag))
             (find (\<lambda>flag. flag_longName flag \<notin> set allowedFlags) (ka_flags p)))"

definition hiddenLogVerbosityRequested :: "kubectl_lib \<Rightarrow> CommandRequest \<Rightarrow> rejection option" where
  "hiddenLogVerbosityRequested lib req =
     (let level = kl_GetLogVerbosity lib (kubectlCommand # req_Arguments req)
      in if level = ''0'' then None else Some (LogVerbosityHidden level))"

definition hiddenKubercRequested :: "CommandRequest \<Rightarrow> rejection option" where
  "hiddenKubercRequested req =
     map_option KubercHidden
       (find (\<lambda>argument. argument = ''--kuberc'' \<or> Contains argument ''--kuberc='') (req_Arguments req))"

definition disallowedKubectlCommandRequested ::
  "kubectlArguments \<Rightarrow> AllowedKubectlCommands \<Rightarrow> rejection option" where
  "disallowedKubectlCommandRequested p allowed =
     (let cmd = ka_kubectlCommand p
      in if cmd = [] then None
         else if cmd \<notin> set supportedKubectlCommands
         then Some (NotAReadOnlyCommand cmd (akc_humanReadable allowed))
         else if cmd \<in> set unconditionallyRejectedKubectlCommands then Some (UnconditionallyRejected cmd)
         else if \<not> Allows allowed cmd then Some (DisabledInConfiguration cmd (akc_humanReadable allowed))
         else None)"

definition allowedSubcommandsPerKubectlCommand :: "(string \<times> string list) list" where
  "allowedSubcommandsPerKubectlCommand = [(''auth'', [''can-i'']), (''cluster-info'', [''''])]"

definition disallowedSubcommandRequested :: "kubectlArguments \<Rightarrow> rejection option" where
  "disallowedSubcommandRequested p =
     (case map_of allowedSubcommandsPerKubectlCommand (ka_kubectlCommand p) of
        None \<Rightarrow> None
      | Some allowedSubcommands \<Rightarrow>
          if ka_subcommand p \<in> set allowedSubcommands then None
          else if allowedSubcommands = ['''']
          then Some (OnlyWithoutSubcommand (ka_kubectlCommand p) (ka_subcommand p))
          else if ka_subcommand p = [] then Some (SubcommandMissing (ka_kubectlCommand p) allowedSubcommands)
          else Some (OtherSubcommand (ka_kubectlCommand p) allowedSubcommands (ka_subcommand p)))"

definition eventResourceTypes :: "string list" where
  "eventResourceTypes = [''event'', ''events'', ''ev'']"

definition eventsReadViaGetRequested ::
  "kubectlArguments \<Rightarrow> AllowedKubectlCommands \<Rightarrow> rejection option" where
  "eventsReadViaGetRequested p allowed =
     (if ka_kubectlCommand p \<noteq> kubectlCommandGet \<or> Allows allowed kubectlCommandEvents then None
      else if list_ex (\<lambda>resourceType. resourceType \<in> set eventResourceTypes) (ka_resourceTypes p)
      then Some EventsDisabled
      else None)"

text \<open>The guard of a sensitive resource type is its display name.\<close>

definition sensitiveResourceTypes :: "(string \<times> string) list" where
  "sensitiveResourceTypes = [(''secret'', ''secret''), (''secrets'', ''secret'')]"

definition lookupSensitiveResourceType :: "kubectl_lib \<Rightarrow> string \<Rightarrow> string option" where
  "lookupSensitiveResourceType lib resourceType =
     map_of sensitiveResourceTypes (normalizeResourceType lib resourceType)"

definition targetedSensitiveResource :: "kubectl_lib \<Rightarrow> kubectlArguments \<Rightarrow> string option" where
  "targetedSensitiveResource lib p =
     (case find (\<lambda>resourceType. lookupSensitiveResourceType lib resourceType \<noteq> None) (ka_resourceTypes p) of
        None \<Rightarrow> None
      | Some resourceType \<Rightarrow> lookupSensitiveResourceType lib resourceType)"

definition sensitiveContentRequested :: "kubectl_lib \<Rightarrow> kubectlArguments \<Rightarrow> rejection option" where
  "sensitiveContentRequested lib p =
     (case targetedSensitiveResource lib p of
        None \<Rightarrow> None
      | Some resource \<Rightarrow> if outputIsContentFree lib p then None else Some (SensitiveContent resource))"

fun unsupportedFormat :: "string list \<Rightarrow> rejection option" where
  "unsupportedFormat [] = None"
| "unsupportedFormat (format # formats) =
     (case handling_of format of
        outputFormatUnknown \<Rightarrow> Some (OutputFormatNotAllowed format)
      | outputFormatUnredactable \<Rightarrow> Some (OutputFormatNotRedactable format)
      | _ \<Rightarrow> unsupportedFormat formats)"

definition unsupportedOutputFormatRequested :: "kubectl_lib \<Rightarrow> kubectlArguments \<Rightarrow> rejection option" where
  "unsupportedOutputFormatRequested lib p =
     unsupportedFormat
       ((case outputFormat lib p of None \<Rightarrow> [] | Some format \<Rightarrow> [format]) @
        (if hasTemplateFlag p then [goTemplateOutputFormat] else []))"

subsection \<open>Sort expressions\<close>

fun selectsSingleListElement :: "jsonpath_node \<Rightarrow> bool" where
  "selectsSingleListElement (ArrayNode (known0, _) (_, derived1) (known2, _)) \<longleftrightarrow>
     known0 \<and> derived1 \<and> \<not> known2"
| "selectsSingleListElement _ \<longleftrightarrow> False"

text \<open>The loop over the nodes of the path.\<close>

fun plainPath :: "jsonpath_node list \<Rightarrow> string list option" where
  "plainPath [] = Some []"
| "plainPath (FieldNode name # nodes) =
     (if name = [] then None else map_option ((#) name) (plainPath nodes))"
| "plainPath (ArrayNode p0 p1 p2 # nodes) =
     (if selectsSingleListElement (ArrayNode p0 p1 p2) then plainPath nodes else None)"
| "plainPath (_ # nodes) = None"

definition parseSortByPath :: "kubectl_lib \<Rightarrow> string \<Rightarrow> string list option" where
  "parseSortByPath lib expression =
     (case kl_RelaxedJSONPathExpression lib expression of
        None \<Rightarrow> None
      | Some relaxed \<Rightarrow>
          if relaxed = [] then None
          else case kl_jsonpathParse lib relaxed of
                 Some [ListNode nodes] \<Rightarrow>
                   (case plainPath nodes of
                      Some path \<Rightarrow> if 0 < length path then Some path else None
                    | None \<Rightarrow> None)
               | _ \<Rightarrow> None)"

definition isSortByPathBelow :: "string list \<Rightarrow> string list \<Rightarrow> bool" where
  "isSortByPathBelow path pre \<longleftrightarrow> length pre \<le> length path \<and> take (length pre) path = pre"

definition safeSortByPathPrefixes :: "string list list" where
  "safeSortByPathPrefixes = [[''metadata''], [''status'']]"

definition unsafeSortByPathPrefix :: "string list" where
  "unsafeSortByPathPrefix = [''metadata'', ''annotations'']"

definition sortByExpressionIsSafe :: "kubectl_lib \<Rightarrow> string \<Rightarrow> bool" where
  "sortByExpressionIsSafe lib expression =
     (case parseSortByPath lib expression of
        None \<Rightarrow> False
      | Some path \<Rightarrow>
          if isSortByPathBelow path unsafeSortByPathPrefix then False
          else list_ex (isSortByPathBelow path) safeSortByPathPrefixes)"

definition unsafeSortByRequested :: "kubectl_lib \<Rightarrow> kubectlArguments \<Rightarrow> rejection option" where
  "unsafeSortByRequested lib p =
     (if ka_kubectlCommand p \<noteq> kubectlCommandGet then None
      else case valueOf p ''sort-by'' of
             None \<Rightarrow> None
           | Some expression \<Rightarrow>
               if sortByExpressionIsSafe lib expression then None else Some (SortByNotAllowed expression))"

definition containerSpecFieldsPerStatusField :: "(string \<times> string) list" where
  "containerSpecFieldsPerStatusField =
     [(''containerStatuses'', ''containers''),
      (''initContainerStatuses'', ''initContainers''),
      (''ephemeralContainerStatuses'', ''ephemeralContainers'')]"

definition terminationMessageSortByPaths :: "string list list" where
  "terminationMessageSortByPaths =
     concat (map (\<lambda>(statusField, _).
         map (\<lambda>stateField. [''status'', statusField, stateField, ''terminated'', ''message''])
           [''state'', ''lastState''])
       containerSpecFieldsPerStatusField)"

definition terminationMessageSortByRequested ::
  "kubectl_lib \<Rightarrow> kubectlArguments \<Rightarrow> AllowedKubectlCommands \<Rightarrow> rejection option" where
  "terminationMessageSortByRequested lib p allowed =
     (if ka_kubectlCommand p \<noteq> kubectlCommandGet \<or> Allows allowed kubectlCommandLogs then None
      else case valueOf p ''sort-by'' of
             None \<Rightarrow> None
           | Some expression \<Rightarrow>
               (case parseSortByPath lib expression of
                  None \<Rightarrow> None
                | Some path \<Rightarrow>
                    if list_ex (\<lambda>messagePath. isSortByPathBelow messagePath path \<or>
                                              isSortByPathBelow path messagePath)
                         terminationMessageSortByPaths
                    then Some (SortByTerminationMessage expression)
                    else None))"

section \<open>The validation\<close>

definition unparseable :: "AllowedKubectlCommands \<Rightarrow> parse_error \<Rightarrow> rejection" where
  "unparseable allowed err =
     (case err of
        UnknownKubectlCommand e \<Rightarrow> UnknownCommandRejected e (akc_humanReadable allowed)
      | _ \<Rightarrow> ArgumentsCannotBeParsed err)"

text \<open>The first check that gives a reason decides.\<close>

fun firstRejection :: "rejection option list \<Rightarrow> rejection option" where
  "firstRejection [] = None"
| "firstRejection (Some reason # checks) = Some reason"
| "firstRejection (None # checks) = firstRejection checks"

definition validateCommandAndParseArguments ::
  "kubectl_lib \<Rightarrow> CommandRequest \<Rightarrow> AllowedKubectlCommands \<Rightarrow> rejection + kubectlArguments" where
  "validateCommandAndParseArguments lib req allowed =
     (case disallowedExecutableRequested req of
        Some reason \<Rightarrow> Inl reason
      | None \<Rightarrow>
          (case parseKubectlArguments lib (req_Arguments req) of
             Inl err \<Rightarrow> Inl (unparseable allowed err)
           | Inr arguments \<Rightarrow>
               (case firstRejection
                       [disallowedFlagRequested arguments,
                        hiddenLogVerbosityRequested lib req,
                        hiddenKubercRequested req,
                        disallowedKubectlCommandRequested arguments allowed,
                        disallowedSubcommandRequested arguments,
                        eventsReadViaGetRequested arguments allowed,
                        sensitiveContentRequested lib arguments,
                        unsupportedOutputFormatRequested lib arguments,
                        unsafeSortByRequested lib arguments,
                        terminationMessageSortByRequested lib arguments allowed] of
                  Some reason \<Rightarrow> Inl reason
                | None \<Rightarrow> Inr arguments)))"

end
