(* ===== verification/Redaction.thy ===== *)
theory Redaction
  imports KubectlValidation
begin

text \<open>
  The redaction of responses: \<open>redaction.go\<close> of \<open>images/agent0-connector/src/kubectl\<close>.

  A parsed response is a \<open>document\<close>; a number keeps its notation. The walk changes the maps and slices of
  a document in place; here every function returns the new value of the slot \<open>node[key]\<close> it is called
  for, together with the redactor. Go leaves the order of the keys of a map open; the order of an
  association list stands for it.

  The codecs (the decoders and encoders of JSON, YAML and base64, and the URL parser) are the fields of the record
  \<open>codecs\<close>. A string in an annotation or in a config map can hold a document again, and so on; the
  walk carries the number of such levels it still enters, and marks the redactor as exhausted if that
  is not enough.
\<close>

section \<open>Documents\<close>

datatype document =
    DNull
  | DBool bool
  | DNumber string
  | DString string
  | DList "document list"
  | DMap "(string \<times> document) list"

fun isWalkableNode :: "document \<Rightarrow> bool" where
  "isWalkableNode (DMap _) \<longleftrightarrow> True"
| "isWalkableNode (DList _) \<longleftrightarrow> True"
| "isWalkableNode _ \<longleftrightarrow> False"

text \<open>A URL as far as the code looks at it: the user name and the password, if there is user information.\<close>

type_synonym userinfo = "string \<times> string option"

record codecs =
  cd_unicodeLower :: "string \<Rightarrow> string"
  cd_decodeJson :: "string \<Rightarrow> (document \<times> string) option" \<comment> \<open>the first value and the rest\<close>
  cd_marshalIndent :: "document \<Rightarrow> string + string"
  cd_marshal :: "document \<Rightarrow> string + string"
  cd_YAMLToJSON :: "string \<Rightarrow> string option"
  cd_yamlMarshal :: "document \<Rightarrow> string + string"
  cd_yamlDocuments :: "string \<Rightarrow> string list option" \<comment> \<open>every document of a stream, marshalled again\<close>
  cd_base64Decode :: "string \<Rightarrow> string option"
  cd_base64Encode :: "string \<Rightarrow> string"
  cd_urlParse :: "string \<Rightarrow> userinfo option option"
  cd_QueryUnescape :: "string \<Rightarrow> string option"

section \<open>The redactor\<close>

definition redactedValue :: string where
  "redactedValue = ''(redacted)''"

definition minCredentialValueLength :: nat where
  "minCredentialValueLength = 4"

record redactor =
  rd_values :: "string list"
  rd_count :: nat
  rd_redactTerminationMessages :: bool
  rd_err :: "(string \<times> string) option" \<comment> \<open>annotation and reason\<close>
  rd_exhausted :: bool

definition redactor_add :: "string \<Rightarrow> redactor \<Rightarrow> redactor" where
  "redactor_add v r = r\<lparr>rd_values := List.insert v (rd_values r), rd_count := rd_count r + 1\<rparr>"

definition addWithoutStderrScrub :: "redactor \<Rightarrow> redactor" where
  "addWithoutStderrScrub r = r\<lparr>rd_count := rd_count r + 1\<rparr>"

definition redactor_fail :: "string \<times> string \<Rightarrow> redactor \<Rightarrow> redactor" where
  "redactor_fail e r = (if rd_err r = None then r\<lparr>rd_err := Some e\<rparr> else r)"

definition valuesToScrubFromStderr :: "redactor \<Rightarrow> string list" where
  "valuesToScrubFromStderr r =
     sort_key (\<lambda>v. - int (length v))
       (sort (filter (\<lambda>v. minCredentialValueLength \<le> length v) (rd_values r)))"

section \<open>Loops\<close>

fun over_list :: "('a \<Rightarrow> redactor \<Rightarrow> 'b \<times> redactor) \<Rightarrow> 'a list \<Rightarrow> redactor \<Rightarrow> 'b list \<times> redactor" where
  "over_list f [] r = ([], r)"
| "over_list f (x # xs) r =
     (let (x', r1) = f x r; (xs', r2) = over_list f xs r1 in (x' # xs', r2))"

definition over_map ::
  "(string \<Rightarrow> document \<Rightarrow> redactor \<Rightarrow> document \<times> redactor) \<Rightarrow> (string \<times> document) list \<Rightarrow> redactor \<Rightarrow>
   (string \<times> document) list \<times> redactor" where
  "over_map f m r = over_list (\<lambda>(k, v) r. let (v', r') = f k v r in ((k, v'), r')) m r"

text \<open>A change of the slot \<open>node[key]\<close>; nothing happens without the key.\<close>

definition at_key ::
  "string \<Rightarrow> (document \<Rightarrow> redactor \<Rightarrow> document \<times> redactor) \<Rightarrow> (string \<times> document) list \<Rightarrow> redactor \<Rightarrow>
   (string \<times> document) list \<times> redactor" where
  "at_key k f m r =
     (case map_of m k of
        None \<Rightarrow> (m, r)
      | Some v \<Rightarrow> let (v', r') = f v r in (AList.update k v' m, r'))"

lemma over_list_cong [fundef_cong]:
  "xs = ys \<Longrightarrow> r = s \<Longrightarrow> (\<And>x q. x \<in> set ys \<Longrightarrow> f x q = g x q) \<Longrightarrow> over_list f xs r = over_list g ys s"
  by (induction xs arbitrary: ys r s) (auto split: prod.splits)

lemma over_map_cong [fundef_cong]:
  "m = n \<Longrightarrow> r = s \<Longrightarrow> (\<And>k v q. (k, v) \<in> set n \<Longrightarrow> f k v q = g k v q) \<Longrightarrow> over_map f m r = over_map g n s"
  unfolding over_map_def by (rule over_list_cong) auto

lemma at_key_cong [fundef_cong]:
  "k = l \<Longrightarrow> m = n \<Longrightarrow> r = s \<Longrightarrow> (\<And>v. (l, v) \<in> set n \<Longrightarrow> f v s = g v s) \<Longrightarrow> at_key k f m r = at_key l g n s"
  by (auto simp: at_key_def dest: map_of_SomeD split: option.splits)

section \<open>Scalar values\<close>

fun scalarValue :: "document \<Rightarrow> string option" where
  "scalarValue (DString s) = (if s = [] \<or> s = redactedValue then None else Some s)"
| "scalarValue (DNumber n) = Some n"
| "scalarValue (DBool b) = Some (if b then ''true'' else ''false'')"
| "scalarValue _ = None"

definition replaceValueOf :: "document \<Rightarrow> (document \<times> string) option" where
  "replaceValueOf v = map_option (\<lambda>s. (DString redactedValue, s)) (scalarValue v)"

definition redactValueOf :: "document \<Rightarrow> redactor \<Rightarrow> document \<times> redactor" where
  "redactValueOf v r =
     (case replaceValueOf v of None \<Rightarrow> (v, r) | Some (v', s) \<Rightarrow> (v', redactor_add s r))"

definition redactEnvVarValue :: "document \<Rightarrow> redactor \<Rightarrow> document \<times> redactor" where
  "redactEnvVarValue v r =
     (case replaceValueOf v of None \<Rightarrow> (v, r) | Some (v', _) \<Rightarrow> (v', addWithoutStderrScrub r))"

definition wellKnownNonSecretValues :: "string list" where
  "wellKnownNonSecretValues =
     [''true'', ''false'', ''null'', ''none'', ''unset'', ''undefined'', ''empty'', ''auto'', ''default'',
      ''enabled'', ''disabled'', ''gzip'', ''deflate'', ''identity'', ''chunked'', ''close'', ''keep-alive'',
      ''no-cache'', ''utf-8'', ''*/*'', ''text/plain'', ''application/json'', ''application/grpc'',
      ''application/x-protobuf'']"

definition isWellKnownNonSecretValue :: "codecs \<Rightarrow> string \<Rightarrow> bool" where
  "isWellKnownNonSecretValue cd v \<longleftrightarrow> ToLower (cd_unicodeLower cd) v \<in> set wellKnownNonSecretValues"

section \<open>Environment variables, command lines and headers\<close>

definition redactEnvVarValues :: "document \<Rightarrow> redactor \<Rightarrow> document \<times> redactor" where
  "redactEnvVarValues v r =
     (case v of
        DList xs \<Rightarrow>
          map_prod DList id
            (over_list (\<lambda>envVar r. case envVar of
                DMap envVarMap \<Rightarrow> map_prod DMap id (at_key ''value'' redactEnvVarValue envVarMap r)
              | _ \<Rightarrow> redactEnvVarValue envVar r) xs r)
      | DMap m \<Rightarrow> map_prod DMap id (over_map (\<lambda>_. redactEnvVarValue) m r)
      | _ \<Rightarrow> (v, r))"

definition redactArgumentValues :: "document \<Rightarrow> redactor \<Rightarrow> document \<times> redactor" where
  "redactArgumentValues v r =
     (case v of
        DList xs \<Rightarrow> map_prod DList id (over_list redactEnvVarValue xs r)
      | _ \<Rightarrow> redactEnvVarValue v r)"

definition redactListElementIfPlausible :: "codecs \<Rightarrow> document \<Rightarrow> redactor \<Rightarrow> document \<times> redactor" where
  "redactListElementIfPlausible cd v r =
     (case scalarValue v of
        None \<Rightarrow> (v, r)
      | Some s \<Rightarrow>
          if isWellKnownNonSecretValue cd s then (v, r) else (DString redactedValue, redactor_add s r))"

definition redactHeaderValueIfPlausible :: "codecs \<Rightarrow> document \<Rightarrow> redactor \<Rightarrow> document \<times> redactor" where
  "redactHeaderValueIfPlausible cd v r =
     (case v of
        DList xs \<Rightarrow> map_prod DList id (over_list (redactListElementIfPlausible cd) xs r)
      | _ \<Rightarrow>
          (case scalarValue v of
             None \<Rightarrow> (v, r)
           | Some s \<Rightarrow> if isWellKnownNonSecretValue cd s then (v, r) else redactValueOf v r))"

definition redactHeaderValues :: "codecs \<Rightarrow> document \<Rightarrow> redactor \<Rightarrow> document \<times> redactor" where
  "redactHeaderValues cd v r =
     (case v of
        DList xs \<Rightarrow>
          map_prod DList id
            (over_list (\<lambda>header r. case header of
                DMap headerMap \<Rightarrow>
                  map_prod DMap id
                    (let (m1, r1) = at_key ''value'' (redactHeaderValueIfPlausible cd) headerMap r
                     in at_key ''values'' (redactHeaderValueIfPlausible cd) m1 r1)
              | _ \<Rightarrow> redactListElementIfPlausible cd header r) xs r)
      | DMap m \<Rightarrow> map_prod DMap id (over_map (\<lambda>_. redactHeaderValueIfPlausible cd) m r)
      | _ \<Rightarrow> redactHeaderValueIfPlausible cd v r)"

section \<open>Paths of fields\<close>

function resolveFieldPath ::
  "((string \<times> document) list \<Rightarrow> redactor \<Rightarrow> (string \<times> document) list \<times> redactor) \<Rightarrow>
   string list \<Rightarrow> document \<Rightarrow> redactor \<Rightarrow> document \<times> redactor" where
  "resolveFieldPath f path (DList xs) r = map_prod DList id (over_list (resolveFieldPath f path) xs r)"
| "resolveFieldPath f [] (DMap m) r = map_prod DMap id (f m r)"
| "resolveFieldPath f (k # path) (DMap m) r = map_prod DMap id (at_key k (resolveFieldPath f path) m r)"
| "resolveFieldPath f path DNull r = (DNull, r)"
| "resolveFieldPath f path (DBool b) r = (DBool b, r)"
| "resolveFieldPath f path (DNumber n) r = (DNumber n, r)"
| "resolveFieldPath f path (DString s) r = (DString s, r)"
  by pat_completeness auto
termination
proof (relation "measure (\<lambda>(f, path, node, r). size node)", goal_cases)
  case (2 f path xs r x q)
  then show ?case by (induction xs) auto
next
  case (3 f k path m r v)
  then show ?case by (induction m) auto
qed simp

definition redactCredentialFields :: "document \<Rightarrow> string list \<Rightarrow> redactor \<Rightarrow> document \<times> redactor" where
  "redactCredentialFields node credentialFields r =
     fold (\<lambda>field (node, r).
         let path = Split field CHR ''.''
         in resolveFieldPath (at_key (last path) redactValueOf) (butlast path) node r)
       credentialFields (node, r)"

definition credentialFieldsPerConfigObject :: "(string \<times> string list) list" where
  "credentialFieldsPerConfigObject =
     [(''slackConfig'', [''webhookURL'']),
      (''webhookConfig'', [''url'']),
      (''incidentioConfig'', [''url'', ''headers'']),
      (''opsgenieConfig'', [''apiKey'']),
      (''pagerdutyConfig'', [''key'']),
      (''teamsWebhookConfig'', [''url'']),
      (''discordWebhookConfig'', [''url'']),
      (''googleChatWebhookConfig'', [''url'']),
      (''ilertConfig'', [''url'']),
      (''allQuietConfig'', [''url'']),
      (''body'', [''spec.content'']),
      (''scalewaySDConfigs'', [''accessKey'']),
      (''ovhcloudSDConfigs'', [''applicationKey''])]"

definition queryParameterFieldsPerResourceKind :: "(string \<times> string list) list" where
  "queryParameterFieldsPerResourceKind =
     [(''ServiceMonitor'', [''spec.endpoints.params'']),
      (''PodMonitor'', [''spec.podMetricsEndpoints.params'']),
      (''ScrapeConfig'', [''spec.params'']),
      (''Probe'', [''spec.params''])]"

fun string_of :: "document \<Rightarrow> string option" where
  "string_of (DString s) = Some s"
| "string_of _ = None"

fun map_of_document :: "document \<Rightarrow> (string \<times> document) list option" where
  "map_of_document (DMap m) = Some m"
| "map_of_document _ = None"

definition kind_of :: "(string \<times> document) list \<Rightarrow> string option" where
  "kind_of m = Option.bind (map_of m ''kind'') string_of"

text \<open>\<open>resolveFieldPath\<close> on the resource itself, which is a map, unfolded by one step.\<close>

definition redactQueryParameterFields ::
  "codecs \<Rightarrow> (string \<times> document) list \<Rightarrow> redactor \<Rightarrow> (string \<times> document) list \<times> redactor" where
  "redactQueryParameterFields cd resource r =
     (case kind_of resource of
        None \<Rightarrow> (resource, r)
      | Some kind \<Rightarrow>
          (case map_of queryParameterFieldsPerResourceKind kind of
             None \<Rightarrow> (resource, r)
           | Some paramFields \<Rightarrow>
               fold (\<lambda>field (m, r).
                   let path = Split field CHR ''.'';
                       f = at_key (last path) (redactHeaderValues cd)
                   in case butlast path of
                        [] \<Rightarrow> f m r
                      | k # ks \<Rightarrow> at_key k (resolveFieldPath f ks) m r)
                 paramFields (resource, r)))"

section \<open>Termination messages\<close>

definition list_of_document :: "document \<Rightarrow> document list option" where
  "list_of_document v = (case v of DList xs \<Rightarrow> Some xs | _ \<Rightarrow> None)"

definition terminationMessagePolicies :: "(string \<times> document) list \<Rightarrow> string \<Rightarrow> (string \<times> string) list" where
  "terminationMessagePolicies spec specField =
     fold (\<lambda>item policies.
         case map_of_document item of
           None \<Rightarrow> policies
         | Some container \<Rightarrow>
             (case (Option.bind (map_of container ''name'') string_of,
                    Option.bind (map_of container ''terminationMessagePolicy'') string_of) of
                (Some name, Some policy) \<Rightarrow> AList.update name policy policies
              | _ \<Rightarrow> policies))
       (case Option.bind (map_of spec specField) list_of_document of None \<Rightarrow> [] | Some xs \<Rightarrow> xs) []"

definition redactTerminatedMessage :: "document \<Rightarrow> redactor \<Rightarrow> document \<times> redactor" where
  "redactTerminatedMessage state r =
     (case state of
        DMap m \<Rightarrow>
          map_prod DMap id
            (at_key ''terminated'' (\<lambda>terminated r. case terminated of
                DMap t \<Rightarrow> map_prod DMap id (at_key ''message'' redactValueOf t r)
              | _ \<Rightarrow> (terminated, r)) m r)
      | _ \<Rightarrow> (state, r))"

definition redactContainerStatus :: "(string \<times> string) list \<Rightarrow> document \<Rightarrow> redactor \<Rightarrow> document \<times> redactor" where
  "redactContainerStatus policies item r =
     (case item of
        DMap containerStatus \<Rightarrow>
          (let name = (case Option.bind (map_of containerStatus ''name'') string_of of None \<Rightarrow> [] | Some n \<Rightarrow> n)
           in if map_of policies name = Some ''File'' then (item, r)
              else
                (let (m1, r1) = at_key ''state'' redactTerminatedMessage containerStatus r
                 in map_prod DMap id (at_key ''lastState'' redactTerminatedMessage m1 r1)))
      | _ \<Rightarrow> (item, r))"

text \<open>The step of the loop over \<open>containerSpecFieldsPerStatusField\<close>, with the field of the status and that of the spec.\<close>

definition redactContainerStatuses ::
  "(string \<times> document) list \<Rightarrow> string \<times> string \<Rightarrow> (string \<times> document) list \<Rightarrow> redactor \<Rightarrow>
   (string \<times> document) list \<times> redactor" where
  "redactContainerStatuses spec p =
     at_key (fst p) (\<lambda>statuses r. case statuses of
         DList xs \<Rightarrow>
           map_prod DList id (over_list (redactContainerStatus (terminationMessagePolicies spec (snd p))) xs r)
       | _ \<Rightarrow> (statuses, r))"

definition redactTerminationMessages ::
  "(string \<times> document) list \<Rightarrow> redactor \<Rightarrow> (string \<times> document) list \<times> redactor" where
  "redactTerminationMessages resource r =
     (if \<not> rd_redactTerminationMessages r \<or> kind_of resource \<noteq> Some ''Pod'' then (resource, r)
      else
        (let spec = (case Option.bind (map_of resource ''spec'') map_of_document of None \<Rightarrow> [] | Some m \<Rightarrow> m)
         in at_key ''status'' (\<lambda>status r. case status of
                DMap m \<Rightarrow>
                  map_prod DMap id
                    (fold (\<lambda>p (m, r). redactContainerStatuses spec p m r) containerSpecFieldsPerStatusField (m, r))
              | _ \<Rightarrow> (status, r)) resource r))"

section \<open>URLs\<close>

text \<open>\<open>strings.Index\<close>: the position of the first occurrence.\<close>

fun Index :: "string \<Rightarrow> string \<Rightarrow> nat option" where
  "Index [] sub = (if sub = [] then Some 0 else None)"
| "Index (c # s) sub = (if prefix sub (c # s) then Some 0 else map_option Suc (Index s sub))"

definition LastIndexByte :: "string \<Rightarrow> char \<Rightarrow> nat option" where
  "LastIndexByte s c = map_option (\<lambda>i. length s - Suc i) (Index (rev s) [c])"

definition isAsciiLetterOrDigit :: "char \<Rightarrow> bool" where
  "isAsciiLetterOrDigit c \<longleftrightarrow> in_range 97 122 c \<or> in_range 65 90 c \<or> in_range 48 57 c"

definition isUrlField :: "string \<Rightarrow> bool" where
  "isUrlField key =
     (if length key < 3 then False
      else
        (let suffix = drop (length key - 3) key
         in if map ascii_lower suffix \<noteq> ''url'' then False
            else if length key = 3 then True
            else if hd suffix = CHR ''U'' then True
            else \<not> isAsciiLetterOrDigit (key ! (length key - 4))))"

definition userinfoSpan :: "string \<Rightarrow> (nat \<times> nat) option" where
  "userinfoSpan rawUrl =
     (case Index rawUrl ''//'' of
        None \<Rightarrow> None
      | Some i \<Rightarrow>
          (let authorityStart = i + 2;
               authority = takeWhile (\<lambda>c. c \<notin> set ''/?#'') (drop authorityStart rawUrl)
           in map_option (\<lambda>offset. (authorityStart, authorityStart + offset)) (LastIndexByte authority CHR ''@'')))"

definition querySpan :: "string \<Rightarrow> (nat \<times> nat) option" where
  "querySpan rawUrl =
     (case Index rawUrl ''?'' of
        None \<Rightarrow> None
      | Some i \<Rightarrow>
          (let start = i + 1
           in Some (start, start + length (takeWhile (\<lambda>c. c \<noteq> CHR ''#'') (drop start rawUrl)))))"

definition redactUrlPart :: "string \<Rightarrow> string \<Rightarrow> redactor \<Rightarrow> string \<times> redactor" where
  "redactUrlPart rawPart decodedPart r =
     (if rawPart = [] \<or> rawPart = redactedValue then (rawPart, r)
      else
        (let r1 = redactor_add rawPart r
         in (redactedValue,
             if decodedPart \<noteq> [] \<and> decodedPart \<noteq> rawPart then redactor_add decodedPart r1 else r1)))"

definition redactUserinfo :: "userinfo \<Rightarrow> string \<Rightarrow> redactor \<Rightarrow> string \<times> redactor" where
  "redactUserinfo userinfo rawUserinfo r =
     (case snd userinfo of
        None \<Rightarrow> redactUrlPart rawUserinfo (fst userinfo) r
      | Some password \<Rightarrow>
          (let separator = (case Index rawUserinfo '':'' of None \<Rightarrow> 0 | Some i \<Rightarrow> i + 1);
               (part, r') = redactUrlPart (drop separator rawUserinfo) password r
           in (take separator rawUserinfo @ part, r')))"

definition redactQueryParameterValue :: "codecs \<Rightarrow> string \<Rightarrow> redactor \<Rightarrow> string \<times> redactor" where
  "redactQueryParameterValue cd parameter r =
     (case Index parameter ''='' of
        None \<Rightarrow> (parameter, r)
      | Some separator \<Rightarrow>
          (let rawValue = drop (separator + 1) parameter;
               decodedValue = (case cd_QueryUnescape cd rawValue of None \<Rightarrow> rawValue | Some d \<Rightarrow> d)
           in if isWellKnownNonSecretValue cd decodedValue then (parameter, r)
              else
                (let (part, r') = redactUrlPart rawValue decodedValue r
                 in (take (separator + 1) parameter @ part, r'))))"

definition redactQueryParameterValues :: "codecs \<Rightarrow> string \<Rightarrow> redactor \<Rightarrow> string \<times> redactor" where
  "redactQueryParameterValues cd rawQuery r =
     (let (parameters, r') = over_list (redactQueryParameterValue cd) (Split rawQuery CHR ''&'') r
      in (Join parameters ''&'', r'))"

text \<open>Replacing the part of a string within a span.\<close>

definition replace_span :: "string \<Rightarrow> nat \<times> nat \<Rightarrow> string \<Rightarrow> string" where
  "replace_span s sp new = take (fst sp) s @ new @ drop (snd sp) s"

definition span_of :: "string \<Rightarrow> nat \<times> nat \<Rightarrow> string" where
  "span_of s sp = take (snd sp - fst sp) (drop (fst sp) s)"

definition redactUrlUserinfo :: "userinfo option \<Rightarrow> string \<Rightarrow> redactor \<Rightarrow> string \<times> redactor" where
  "redactUrlUserinfo user rawUrl r =
     (case user of
        None \<Rightarrow> (rawUrl, r)
      | Some userinfo \<Rightarrow>
          (case userinfoSpan rawUrl of
             None \<Rightarrow> (rawUrl, r)
           | Some sp \<Rightarrow>
               (let (part, r') = redactUserinfo userinfo (span_of rawUrl sp) r in (replace_span rawUrl sp part, r'))))"

definition redactUrlQuery :: "codecs \<Rightarrow> string \<Rightarrow> redactor \<Rightarrow> string \<times> redactor" where
  "redactUrlQuery cd rawUrl r =
     (case querySpan rawUrl of
        None \<Rightarrow> (rawUrl, r)
      | Some sp \<Rightarrow>
          (let (part, r') = redactQueryParameterValues cd (span_of rawUrl sp) r in (replace_span rawUrl sp part, r')))"

definition redactUrlParts :: "codecs \<Rightarrow> document \<Rightarrow> redactor \<Rightarrow> document \<times> redactor" where
  "redactUrlParts cd v r =
     (case string_of v of
        None \<Rightarrow> (v, r)
      | Some rawUrl \<Rightarrow>
          if rawUrl = [] \<or> rawUrl = redactedValue then (v, r)
          else case cd_urlParse cd rawUrl of
                 None \<Rightarrow> redactValueOf v r
               | Some user \<Rightarrow>
                   (let (url1, r1) = redactUrlUserinfo user rawUrl r;
                        (url2, r2) = redactUrlQuery cd url1 r1
                    in (if url2 \<noteq> rawUrl then DString url2 else v, r2)))"

section \<open>Documents within strings\<close>

definition outputFormatJson :: string where
  "outputFormatJson = ''json''"

definition outputFormatYaml :: string where
  "outputFormatYaml = ''yaml''"

definition unmarshalPreservingNumbers :: "codecs \<Rightarrow> string \<Rightarrow> document option" where
  "unmarshalPreservingNumbers cd text =
     (case cd_decodeJson cd text of
        None \<Rightarrow> None
      | Some (document, rest) \<Rightarrow>
          if list_all (\<lambda>c. c \<in> {CHR '' '', CHR 0x09, CHR 0x0A, CHR 0x0D}) rest then Some document else None)"

definition unmarshalYamlPreservingNumbers :: "codecs \<Rightarrow> string \<Rightarrow> document option" where
  "unmarshalYamlPreservingNumbers cd text =
     Option.bind (cd_YAMLToJSON cd text) (unmarshalPreservingNumbers cd)"

definition parseYamlDocuments :: "codecs \<Rightarrow> string \<Rightarrow> document list option" where
  "parseYamlDocuments cd text =
     (case Option.bind (cd_yamlDocuments cd text) (\<lambda>ts. those (map (unmarshalYamlPreservingNumbers cd) ts)) of
        None \<Rightarrow> None
      | Some documents \<Rightarrow>
          (let kept = rev (dropWhile (\<lambda>d. d = DNull) (rev documents))
           in if kept = [] then None else Some kept))"

definition parseConfigMapValue :: "codecs \<Rightarrow> string \<Rightarrow> (document list \<times> string) option" where
  "parseConfigMapValue cd text =
     (case unmarshalPreservingNumbers cd text of
        Some content \<Rightarrow> if isWalkableNode content then Some ([content], outputFormatJson) else None
      | None \<Rightarrow>
          (case parseYamlDocuments cd text of
             None \<Rightarrow> None
           | Some documents \<Rightarrow>
               if list_ex isWalkableNode documents then Some (documents, outputFormatYaml) else None))"

definition renderResponseDocument :: "codecs \<Rightarrow> string \<Rightarrow> document \<Rightarrow> string + string" where
  "renderResponseDocument cd format document =
     (if format = outputFormatJson then map_sum id (\<lambda>s. s @ [CHR 0x0A]) (cd_marshalIndent cd document)
      else if format = outputFormatYaml then cd_yamlMarshal cd document
      else Inl ''unsupported output format'')"

fun renderAll :: "codecs \<Rightarrow> string \<Rightarrow> document list \<Rightarrow> string + string list" where
  "renderAll cd format [] = Inr []"
| "renderAll cd format (d # ds) =
     (case renderResponseDocument cd format d of
        Inl e \<Rightarrow> Inl e
      | Inr s \<Rightarrow> map_sum id ((#) s) (renderAll cd format ds))"

definition renderConfigMapValue :: "codecs \<Rightarrow> string \<Rightarrow> document list \<Rightarrow> string + string" where
  "renderConfigMapValue cd format documents =
     map_sum id (\<lambda>rendered. Join rendered (''---'' @ [CHR 0x0A])) (renderAll cd format documents)"

definition renderAnnotationValue :: "codecs \<Rightarrow> string \<Rightarrow> document list \<Rightarrow> string + string" where
  "renderAnnotationValue cd format documents =
     (if format = outputFormatJson \<and> length documents = 1 then cd_marshal cd (hd documents)
      else renderConfigMapValue cd format documents)"

text \<open>
  The walk over the documents in a string is the argument \<open>emb\<close> of the functions below.
\<close>

type_synonym embedded_walk = "document \<Rightarrow> redactor \<Rightarrow> document \<times> redactor"

definition redactConfigMapValue :: "codecs \<Rightarrow> embedded_walk \<Rightarrow> bool \<Rightarrow> document \<Rightarrow> redactor \<Rightarrow> document \<times> redactor" where
  "redactConfigMapValue cd emb isBase64 v r =
     (case string_of v of
        None \<Rightarrow> (v, r)
      | Some value \<Rightarrow>
          if value = [] then (v, r)
          else case (if isBase64 then cd_base64Decode cd value else Some value) of
                 None \<Rightarrow> (v, r)
               | Some content \<Rightarrow>
                   (case parseConfigMapValue cd content of
                      None \<Rightarrow> (v, r)
                    | Some (documents, format) \<Rightarrow>
                        (let (documents', r1) = over_list emb documents r
                         in if rd_count r1 = rd_count r then (v, r1)
                            else case renderConfigMapValue cd format documents' of
                                   Inl _ \<Rightarrow> redactValueOf v r1
                                 | Inr rendered \<Rightarrow>
                                     if isBase64
                                     then (DString (cd_base64Encode cd rendered), redactor_add value r1)
                                     else (DString rendered, r1))))"

definition configMapDataFields :: "string list" where
  "configMapDataFields = [''data'', ''binaryData'']"

definition redactConfigMapData ::
  "codecs \<Rightarrow> embedded_walk \<Rightarrow> (string \<times> document) list \<Rightarrow> redactor \<Rightarrow> (string \<times> document) list \<times> redactor" where
  "redactConfigMapData cd emb resource r =
     (if kind_of resource \<noteq> Some ''ConfigMap'' then (resource, r)
      else
        fold (\<lambda>dataField (m, r).
            at_key dataField (\<lambda>v r. case v of
                DMap d \<Rightarrow>
                  map_prod DMap id
                    (over_map (\<lambda>_. redactConfigMapValue cd emb (dataField = ''binaryData'')) d r)
              | _ \<Rightarrow> (v, r)) m r)
          configMapDataFields (resource, r))"

definition redactAnnotationValue :: "codecs \<Rightarrow> embedded_walk \<Rightarrow> string \<Rightarrow> document \<Rightarrow> redactor \<Rightarrow> document \<times> redactor" where
  "redactAnnotationValue cd emb name v r =
     (case Option.bind (string_of v) (parseConfigMapValue cd) of
        None \<Rightarrow> (v, r)
      | Some (documents, format) \<Rightarrow>
          (let (documents', r1) = over_list emb documents r
           in if rd_count r1 = rd_count r then (v, r1)
              else case renderAnnotationValue cd format documents' of
                     Inl e \<Rightarrow> (v, redactor_fail (name, e) r1)
                   | Inr rendered \<Rightarrow> (DString rendered, r1)))"

definition redactAnnotationValues :: "codecs \<Rightarrow> embedded_walk \<Rightarrow> document \<Rightarrow> redactor \<Rightarrow> document \<times> redactor" where
  "redactAnnotationValues cd emb node r =
     (case node of
        DMap annotations \<Rightarrow> map_prod DMap id (over_map (redactAnnotationValue cd emb) annotations r)
      | _ \<Rightarrow> (node, r))"

section \<open>The walk\<close>

text \<open>What happens to the value of a key before the walk descends into it.\<close>

definition redactKey :: "codecs \<Rightarrow> embedded_walk \<Rightarrow> string \<Rightarrow> document \<Rightarrow> redactor \<Rightarrow> document \<times> redactor" where
  "redactKey cd emb key v r =
     (if key \<in> {''token'', ''password''} then redactValueOf v r
      else if key \<in> {''headers'', ''queryParameters'', ''httpHeaders'', ''endpointParams''}
      then redactHeaderValues cd v r
      else if key = ''env'' then redactEnvVarValues v r
      else if key \<in> {''command'', ''args''} then redactArgumentValues v r
      else if key = ''annotations'' then redactAnnotationValues cd emb v r
      else
        (let (v1, r1) = (if isUrlField key then redactUrlParts cd v r else (v, r))
         in case map_of credentialFieldsPerConfigObject key of
              None \<Rightarrow> (v1, r1)
            | Some credentialFields \<Rightarrow> redactCredentialFields v1 credentialFields r1))"

end
