(* ===== verification/RedactionWalk.thy ===== *)
theory RedactionWalk
  imports Redaction
begin

text \<open>
  The recursive walk over a document, \<open>redactDocumentNodeRecursively\<close> of \<open>redaction.go\<close>.

  Every change of the walk is a change of a scalar value: the maps with their keys and the lists of a
  document stay. The relation \<open>redaction P\<close> says so, with \<open>P\<close> relating the old and the new
  scalar. The locale \<open>leaf_change\<close> shows for all helpers of the walk that they make such changes, for every
  order \<open>P\<close> in which the placeholder is the greatest element; with the order that is always true
  this is why the walk terminates although it descends into values it has just changed.
\<close>

section \<open>Changes of the scalars of a document\<close>

fun is_leaf :: "document \<Rightarrow> bool" where
  "is_leaf (DBool _) \<longleftrightarrow> True"
| "is_leaf (DNumber _) \<longleftrightarrow> True"
| "is_leaf (DString _) \<longleftrightarrow> True"
| "is_leaf _ \<longleftrightarrow> False"

inductive redaction :: "(document \<Rightarrow> document \<Rightarrow> bool) \<Rightarrow> document \<Rightarrow> document \<Rightarrow> bool" for P where
  null: "redaction P DNull DNull"
| leaf: "is_leaf v \<Longrightarrow> is_leaf w \<Longrightarrow> P v w \<Longrightarrow> redaction P v w"
| list: "list_all2 (redaction P) xs ys \<Longrightarrow> redaction P (DList xs) (DList ys)"
| map: "list_all2 (\<lambda>p q. fst p = fst q \<and> redaction P (snd p) (snd q)) m n \<Longrightarrow> redaction P (DMap m) (DMap n)"

definition redactionm ::
  "(document \<Rightarrow> document \<Rightarrow> bool) \<Rightarrow> (string \<times> document) list \<Rightarrow> (string \<times> document) list \<Rightarrow> bool" where
  "redactionm P = list_all2 (\<lambda>p q. fst p = fst q \<and> redaction P (snd p) (snd q))"

lemma redaction_DMap [simp]: "redaction P (DMap m) (DMap n) \<longleftrightarrow> redactionm P m n"
  by (auto simp: redactionm_def elim: redaction.cases intro: redaction.map)

lemma redactionm_Nil [simp]: "redactionm P [] n \<longleftrightarrow> n = []"
  by (simp add: redactionm_def)

lemma redactionm_Cons [simp]:
  "redactionm P (p # m) (q # n) \<longleftrightarrow> fst p = fst q \<and> redaction P (snd p) (snd q) \<and> redactionm P m n"
  by (simp add: redactionm_def)

inductive_simps redaction_left:
  "redaction P DNull w" "redaction P (DList xs) w" "redaction P (DMap m) w"
  "redaction P (DString s) w" "redaction P (DNumber s) w" "redaction P (DBool b) w"

lemma list_all2_set2: "list_all2 R xs ys \<Longrightarrow> y \<in> set ys \<Longrightarrow> \<exists>x \<in> set xs. R x y"
  by (induction rule: list_all2_induct) auto

lemma redaction_size: "redaction P v w \<Longrightarrow> size w = size v"
proof (induction rule: redaction.induct)
  case (leaf v w)
  then show ?case by (cases v; cases w) auto
next
  case (list xs ys)
  then have "size_list size ys = size_list size xs"
    by (induction rule: list_all2_induct) auto
  then show ?case by simp
next
  case (map m n)
  then have "size_list (size_prod (\<lambda>_. 0) size) n = size_list (size_prod (\<lambda>_. 0) size) m"
    by (induction rule: list_all2_induct) (auto simp: size_prod_def split: prod.splits)
  then show ?case by simp
qed simp

lemma redaction_scalarValue: "redaction P v w \<Longrightarrow> is_leaf w = is_leaf v"
  by (induction rule: redaction.induct) auto

lemma redactionm_map_of:
  "redactionm P m n \<Longrightarrow> rel_option (redaction P) (map_of m k) (map_of n k)"
  unfolding redactionm_def by (induction rule: list_all2_induct) auto

section \<open>Helpers of the walk\<close>

lemma over_list_Cons:
  "over_list f (x # xs) r =
     (fst (f x r) # fst (over_list f xs (snd (f x r))), snd (over_list f xs (snd (f x r))))"
  by (simp add: split_def Let_def)

lemma over_map_Nil [simp]: "over_map f [] r = ([], r)"
  by (simp add: over_map_def)

lemma over_map_Cons:
  "over_map f ((k, v) # m) r =
     ((k, fst (f k v r)) # fst (over_map f m (snd (f k v r))), snd (over_map f m (snd (f k v r))))"
  by (simp add: over_map_def split_def Let_def)

lemma over_list_related:
  assumes "\<And>x r. x \<in> set xs \<Longrightarrow> R x (fst (f x r))"
  shows "list_all2 R xs (fst (over_list f xs r))"
  using assms by (induction xs arbitrary: r) (simp_all add: over_list_Cons del: over_list.simps(2))

lemma over_map_related:
  assumes "\<And>k v r. (k, v) \<in> set m \<Longrightarrow> redaction P v (fst (f k v r))"
  shows "redactionm P m (fst (over_map f m r))"
  using assms
proof (induction m arbitrary: r)
  case (Cons p m)
  then show ?case by (cases p) (simp add: over_map_Cons)
qed simp

definition change :: "(document \<Rightarrow> document \<Rightarrow> bool) \<Rightarrow> (document \<Rightarrow> redactor \<Rightarrow> document \<times> redactor) \<Rightarrow> bool" where
  "change P f \<longleftrightarrow> (\<forall>v r. redaction P v (fst (f v r)))"

definition changem ::
  "(document \<Rightarrow> document \<Rightarrow> bool) \<Rightarrow>
   ((string \<times> document) list \<Rightarrow> redactor \<Rightarrow> (string \<times> document) list \<times> redactor) \<Rightarrow> bool" where
  "changem P f \<longleftrightarrow> (\<forall>m r. redactionm P m (fst (f m r)))"

lemma changeD: "change P f \<Longrightarrow> redaction P v (fst (f v r))"
  by (simp add: change_def)

lemma changemD: "changem P f \<Longrightarrow> redactionm P m (fst (f m r))"
  by (simp add: changem_def)

named_theorems changes \<open>changes of slots and maps that keep the shape of a document\<close>

locale leaf_change =
  fixes P :: "document \<Rightarrow> document \<Rightarrow> bool"
  assumes leaf_refl: "P v v"
    and leaf_trans: "P u v \<Longrightarrow> P v w \<Longrightarrow> P u w"
    and leaf_redacted: "P v (DString redactedValue)"
begin

lemma redaction_refl [simp, intro]: "redaction P v v"
proof (induction v)
  case (DList xs)
  then show ?case by (auto intro!: redaction.list list.rel_refl_strong)
next
  case (DMap m)
  then show ?case by (auto intro!: list.rel_refl_strong simp: snds.simps redactionm_def)
qed (auto simp: leaf_refl intro: redaction.intros)

lemma redaction_trans: "redaction P u v \<Longrightarrow> redaction P v w \<Longrightarrow> redaction P u w"
proof (induction arbitrary: w rule: redaction.induct)
  case (leaf u v)
  then show ?case
    by (cases v) (auto simp: redaction_left intro: redaction.leaf leaf_trans)
next
  case (list xs ys)
  then obtain zs where "w = DList zs" "list_all2 (redaction P) ys zs" by (auto simp: redaction_left)
  with list show ?case by (auto simp: list_all2_conv_all_nth intro!: redaction.list)
next
  case (map m n)
  then obtain l where "w = DMap l" "redactionm P n l" by (auto simp: redaction_left redactionm_def)
  with map show ?case by (auto simp: list_all2_conv_all_nth redactionm_def)
qed simp

lemma redactionm_refl [simp, intro]: "redactionm P m m"
  using redaction_refl [of "DMap m"] by (simp del: redaction_refl)

lemma redactionm_trans: "redactionm P l m \<Longrightarrow> redactionm P m n \<Longrightarrow> redactionm P l n"
  using redaction_trans [of "DMap l" "DMap m" "DMap n"] by simp

lemma at_key_related:
  assumes "\<And>v. map_of m k = Some v \<Longrightarrow> redaction P v (fst (f v r))"
  shows "redactionm P m (fst (at_key k f m r))"
proof -
  have "redactionm P m (AList.update k w m)" if "map_of m k = Some v" "redaction P v w" for v w
    using that by (induction m) (auto split: if_splits)
  with assms show ?thesis
    by (auto simp: at_key_def split_def Let_def split: option.splits)
qed

lemma changem_at_key [changes]: "change P f \<Longrightarrow> changem P (at_key k f)"
  by (simp add: changem_def change_def at_key_related)

lemma change_over_list: "change P f \<Longrightarrow> redaction P (DList xs) (DList (fst (over_list f xs r)))"
  by (simp add: change_def over_list_related redaction.list)

lemma change_over_map: "(\<And>k. change P (f k)) \<Longrightarrow> redactionm P m (fst (over_map f m r))"
  by (simp add: change_def over_map_related)

lemma change_fields: "changem P f \<Longrightarrow> redactionm P m (fst (f m r))"
  by (rule changemD)

lemmas change_containers = change_over_list change_over_map change_fields

lemma changem_fold [changes]:
  assumes "\<And>x. x \<in> set xs \<Longrightarrow> changem P (f x)"
  shows "changem P (\<lambda>m r. fold (\<lambda>x (m, r). f x m r) xs (m, r))"
proof -
  have "redactionm P m (fst (fold (\<lambda>x (m, r). f x m r) xs mr))" if "redactionm P m (fst mr)" for m mr
    using assms that
  proof (induction xs arbitrary: mr)
    case (Cons x xs)
    have "redactionm P m (fst (f x (fst mr) (snd mr)))"
      using Cons.prems by (auto intro: redactionm_trans changemD)
    with Cons show ?case by (simp add: split_def)
  qed simp
  then show ?thesis by (simp add: changem_def)
qed

lemma change_fold [changes]:
  assumes "\<And>x. x \<in> set xs \<Longrightarrow> change P (f x)"
  shows "change P (\<lambda>v r. fold (\<lambda>x (v, r). f x v r) xs (v, r))"
proof -
  have "redaction P v (fst (fold (\<lambda>x (v, r). f x v r) xs vr))" if "redaction P v (fst vr)" for v vr
    using assms that
  proof (induction xs arbitrary: vr)
    case (Cons x xs)
    have "redaction P v (fst (f x (fst vr) (snd vr)))"
      using Cons.prems by (auto intro: redaction_trans changeD)
    with Cons show ?case by (simp add: split_def)
  qed simp
  then show ?thesis by (simp add: change_def)
qed

lemma changem_comp [changes]:
  assumes "changem P f" "changem P g"
  shows "changem P (\<lambda>m r. let (m1, r1) = f m r in g m1 r1)"
proof -
  have "redactionm P m (fst (g (fst (f m r)) (snd (f m r))))" for m r
    by (rule redactionm_trans [OF changemD [OF assms(1)] changemD [OF assms(2)]])
  then show ?thesis by (simp add: changem_def split_def Let_def)
qed

lemma change_list:
  assumes "change P f"
  shows "change P (\<lambda>v r. case v of DList xs \<Rightarrow> map_prod DList id (over_list f xs r) | _ \<Rightarrow> (v, r))"
  unfolding change_def using change_over_list [OF assms] by (auto split: document.split)

lemma change_dispatch:
  assumes "change P f" "changem P g"
  shows "change P (\<lambda>v r. case v of DMap m \<Rightarrow> map_prod DMap id (g m r) | _ \<Rightarrow> f v r)"
  using changeD [OF assms(1)] changemD [OF assms(2)] by (auto simp: change_def split: document.split)

lemma change_id [changes]: "change P Pair"
  by (simp add: change_def)

lemma scalarValue_leaf: "scalarValue v = Some s \<Longrightarrow> is_leaf v"
  by (cases v) auto

lemma change_redactValueOf [changes]: "change P redactValueOf"
  by (auto simp: change_def redactValueOf_def replaceValueOf_def split: option.splits
      intro: redaction.leaf leaf_redacted scalarValue_leaf)

lemma change_redactEnvVarValue [changes]: "change P redactEnvVarValue"
  by (auto simp: change_def redactEnvVarValue_def replaceValueOf_def split: option.splits
      intro: redaction.leaf leaf_redacted scalarValue_leaf)

lemma change_redactListElementIfPlausible [changes]: "change P (redactListElementIfPlausible cd)"
  by (auto simp: change_def redactListElementIfPlausible_def split: option.splits
      intro: redaction.leaf leaf_redacted scalarValue_leaf)

lemma change_redactEnvVarValues [changes]: "change P redactEnvVarValues"
  using change_dispatch [OF change_redactEnvVarValue changem_at_key [OF change_redactEnvVarValue]]
  by (auto simp: change_def [of P redactEnvVarValues] redactEnvVarValues_def change_containers changes
      split: document.split)

lemma change_redactArgumentValues [changes]: "change P redactArgumentValues"
  by (auto simp: change_def [of P redactArgumentValues] redactArgumentValues_def change_containers changes changeD
      split: document.split)

lemma change_redactHeaderValueIfPlausible [changes]: "change P (redactHeaderValueIfPlausible cd)"
  by (auto simp: change_def [of P "redactHeaderValueIfPlausible cd"] redactHeaderValueIfPlausible_def
      change_containers changes changeD split: document.split option.split)

lemma change_redactHeaderValues [changes]: "change P (redactHeaderValues cd)"
proof -
  have "changem P (\<lambda>headerMap r.
      let (m1, r1) = at_key ''value'' (redactHeaderValueIfPlausible cd) headerMap r
      in at_key ''values'' (redactHeaderValueIfPlausible cd) m1 r1)"
    by (intro changes)
  from change_dispatch [OF change_redactListElementIfPlausible this] show ?thesis
    by (auto simp: change_def [of P "redactHeaderValues cd"] redactHeaderValues_def change_containers changes changeD
        split: document.split)
qed

lemma change_resolveFieldPath:
  "changem P f \<Longrightarrow> redaction P node (fst (resolveFieldPath f path node r))"
  by (induction f path node r rule: resolveFieldPath.induct)
     (auto intro!: redaction.list over_list_related at_key_related dest: map_of_SomeD changemD)

lemma changeI_resolveFieldPath [changes]: "changem P f \<Longrightarrow> change P (resolveFieldPath f path)"
  by (simp add: change_def change_resolveFieldPath)

lemma change_redactCredentialFields [changes]: "change P (\<lambda>v. redactCredentialFields v credentialFields)"
  unfolding redactCredentialFields_def Let_def by (intro changes)

lemma changem_redactQueryParameterFields [changes]: "changem P (redactQueryParameterFields cd)"
proof -
  have "changem P (\<lambda>m r. fold (\<lambda>field (m, r).
      let path = Split field CHR ''.'';
          f = at_key (last path) (redactHeaderValues cd)
      in case butlast path of [] \<Rightarrow> f m r | k # ks \<Rightarrow> at_key k (resolveFieldPath f ks) m r) paramFields (m, r))"
    for paramFields
    unfolding Let_def
  proof (intro changem_fold)
    fix field
    show "changem P (\<lambda>m r. case butlast (Split field CHR ''.'') of
              [] \<Rightarrow> at_key (last (Split field CHR ''.'')) (redactHeaderValues cd) m r
            | k # ks \<Rightarrow>
                at_key k (resolveFieldPath (at_key (last (Split field CHR ''.'')) (redactHeaderValues cd)) ks) m r)"
      by (cases "butlast (Split field CHR ''.'')") (simp_all, (intro changes)+)
  qed
  then show ?thesis
    by (auto simp: changem_def redactQueryParameterFields_def split: option.split)
qed

lemma change_redactTerminatedMessage [changes]: "change P redactTerminatedMessage"
  unfolding redactTerminatedMessage_def by (intro change_dispatch changes)

lemma change_redactContainerStatus [changes]: "change P (redactContainerStatus policies)"
proof -
  have "changem P (\<lambda>m r.
      let (m1, r1) = at_key ''state'' redactTerminatedMessage m r
      in at_key ''lastState'' redactTerminatedMessage m1 r1)"
    by (intro changes)
  then show ?thesis
    by (auto simp: change_def redactContainerStatus_def split_def Let_def dest: changemD split: document.split)
qed

lemma changem_redactContainerStatuses [changes]: "changem P (redactContainerStatuses spec p)"
  unfolding redactContainerStatuses_def by (intro changem_at_key change_list changes)

lemma changem_redactTerminationMessages [changes]: "changem P redactTerminationMessages"
  using changem_at_key [OF change_dispatch [OF change_id changem_fold
    [where f = "redactContainerStatuses spec" for spec, OF changem_redactContainerStatuses]]]
  by (auto simp: changem_def redactTerminationMessages_def Let_def)

end

text \<open>The changes of a string that the codecs take part in.\<close>

lemma string_of_Some [simp]: "string_of v = Some s \<longleftrightarrow> v = DString s"
  by (cases v) auto

lemma redactUrlParts_string: "is_leaf (fst (redactUrlParts cd (DString s) r))"
  by (auto simp: redactUrlParts_def redactValueOf_def replaceValueOf_def Let_def split: option.split prod.split)

lemma redactConfigMapValue_string: "is_leaf (fst (redactConfigMapValue cd emb isBase64 (DString s) r))"
  by (auto simp: redactConfigMapValue_def redactValueOf_def replaceValueOf_def Let_def
      split: option.split prod.split sum.split)

lemma redactAnnotationValue_string: "is_leaf (fst (redactAnnotationValue cd emb name (DString s) r))"
  by (auto simp: redactAnnotationValue_def Let_def split: option.split prod.split sum.split)

locale codec_change = leaf_change +
  fixes cd :: codecs
  assumes leaf_url: "P (DString s) (fst (redactUrlParts cd (DString s) r))"
    and leaf_configMapValue: "P (DString s) (fst (redactConfigMapValue cd emb isBase64 (DString s) r))"
    and leaf_annotationValue: "P (DString s) (fst (redactAnnotationValue cd emb name (DString s) r))"
begin

lemma change_string:
  assumes "\<And>v r. string_of v = None \<Longrightarrow> f v r = (v, r)"
    and "\<And>s r. is_leaf (fst (f (DString s) r))" "\<And>s r. P (DString s) (fst (f (DString s) r))"
  shows "change P f"
  unfolding change_def
proof (intro allI)
  fix v r show "redaction P v (fst (f v r))"
    using assms by (cases v) (auto intro: redaction.leaf)
qed

lemma change_redactUrlParts [changes]: "change P (redactUrlParts cd)"
  by (rule change_string) (simp_all add: leaf_url redactUrlParts_string, simp add: redactUrlParts_def)

lemma change_redactConfigMapValue [changes]: "change P (redactConfigMapValue cd emb isBase64)"
  by (rule change_string)
     (simp_all add: leaf_configMapValue redactConfigMapValue_string, simp add: redactConfigMapValue_def)

lemma change_redactAnnotationValue [changes]: "change P (redactAnnotationValue cd emb name)"
  by (rule change_string)
     (simp_all add: leaf_annotationValue redactAnnotationValue_string, simp add: redactAnnotationValue_def)

lemma change_over_map' [changes]:
  "(\<And>k. change P (f k)) \<Longrightarrow>
   change P (\<lambda>v r. case v of DMap d \<Rightarrow> map_prod DMap id (over_map f d r) | _ \<Rightarrow> (v, r))"
  unfolding change_def [of P "\<lambda>v r. case v of DMap d \<Rightarrow> map_prod DMap id (over_map f d r) | _ \<Rightarrow> (v, r)"]
  by (auto simp: change_over_map split: document.split)

lemma changem_redactConfigMapData [changes]: "changem P (redactConfigMapData cd emb)"
proof -
  have "changem P (\<lambda>m r. fold (\<lambda>dataField (m, r).
            at_key dataField (\<lambda>v r. case v of
                DMap d \<Rightarrow>
                  map_prod DMap id
                    (over_map (\<lambda>_. redactConfigMapValue cd emb (dataField = ''binaryData'')) d r)
              | _ \<Rightarrow> (v, r)) m r) configMapDataFields (m, r))"
    by (intro changes)
  then show ?thesis by (auto simp: changem_def redactConfigMapData_def)
qed

lemma change_redactAnnotationValues [changes]: "change P (redactAnnotationValues cd emb)"
  unfolding redactAnnotationValues_def by (intro changes)

lemma change_redactKey [changes]: "change P (redactKey cd emb key)"
proof -
  have "redaction P v (fst (redactCredentialFields (fst (redactUrlParts cd v r)) credentialFields r'))"
    for v credentialFields r r'
    by (rule redaction_trans [OF changeD [OF change_redactUrlParts] changeD [OF change_redactCredentialFields]])
  then show ?thesis
    using changeD [OF change_redactCredentialFields]
    by (auto simp: change_def [of P "redactKey cd emb key"] redactKey_def changes changeD split_def Let_def
        split: option.split)
qed

end

interpretation shape: codec_change "\<lambda>_ _. True" cd for cd
  by unfold_locales auto

section \<open>The walk\<close>

definition redactResourceFields ::
  "codecs \<Rightarrow> embedded_walk \<Rightarrow> (string \<times> document) list \<Rightarrow> redactor \<Rightarrow> (string \<times> document) list \<times> redactor" where
  "redactResourceFields cd emb m r =
     (let (m1, r1) = redactConfigMapData cd emb m r;
          (m2, r2) = redactQueryParameterFields cd m1 r1
      in redactTerminationMessages m2 r2)"

context codec_change
begin

lemma changem_redactResourceFields [changes]: "changem P (redactResourceFields cd emb)"
  unfolding redactResourceFields_def by (intro changes)

end

lemma size_redactResourceFields: "size (DMap (fst (redactResourceFields cd emb m r))) = size (DMap m)"
  using redaction_size [of "\<lambda>_ _. True" "DMap m" "DMap (fst (redactResourceFields cd emb m r))"]
    changemD [OF shape.changem_redactResourceFields] by simp

lemma size_redactKey: "size (fst (redactKey cd emb k v r)) = size v"
  using redaction_size [OF changeD [OF shape.change_redactKey]] .

lemma size_in_map: "(k, v) \<in> set m \<Longrightarrow> size v < size (DMap m)"
  by (induction m) auto

lemma size_in_list: "v \<in> set xs \<Longrightarrow> size v < size (DList xs)"
  by (induction xs) auto

function walk :: "codecs \<Rightarrow> embedded_walk \<Rightarrow> document \<Rightarrow> redactor \<Rightarrow> document \<times> redactor" where
  "walk cd emb (DMap m) r =
     (let (m1, r1) = redactResourceFields cd emb m r
      in map_prod DMap id
           (over_map (\<lambda>key v r. let (v1, r1) = redactKey cd emb key v r in walk cd emb v1 r1) m1 r1))"
| "walk cd emb (DList xs) r = map_prod DList id (over_list (walk cd emb) xs r)"
| "walk cd emb DNull r = (DNull, r)"
| "walk cd emb (DBool b) r = (DBool b, r)"
| "walk cd emb (DNumber n) r = (DNumber n, r)"
| "walk cd emb (DString s) r = (DString s, r)"
  by pat_completeness auto
termination
proof (relation "measure (\<lambda>(cd, emb, node, r). size node)", goal_cases)
  case (2 cd emb m r p m1 r1 key v r2 q v1 r3)
  then show ?case
    using size_in_map [of key v m1] size_redactResourceFields [of cd emb m r] size_redactKey [of cd emb key v r2]
    by (simp add: split_def del: document.size) (metis fst_conv)
next
  case (3 cd emb xs r x r1)
  then show ?case using size_in_list [of x xs] by (simp del: document.size)
qed simp

context codec_change
begin

lemma change_walk: "redaction P v (fst (walk cd emb v r))"
proof (induction v arbitrary: r rule: measure_induct_rule [of size])
  case (less v)
  show ?case
  proof (cases v)
    case (DList xs)
    then show ?thesis using less size_in_list by (auto intro!: redaction.list over_list_related)
  next
    case (DMap m)
    let ?m = "fst (redactResourceFields cd emb m r)"
    have m: "redactionm P m ?m" by (rule changemD [OF changem_redactResourceFields])
    have "redaction P v' (fst (walk cd emb (fst (redactKey cd emb key v' q)) (snd (redactKey cd emb key v' q))))"
      if "(key, v') \<in> set ?m" for key v' q
    proof (rule redaction_trans [OF changeD [OF change_redactKey] less])
      show "size (fst (redactKey cd emb key v' q)) < size v"
        using size_in_map [OF that] size_redactResourceFields [of cd emb m r]
        by (simp add: DMap size_redactKey del: document.size)
    qed
    then have "redactionm P ?m (fst (over_map
        (\<lambda>key v r. let (v1, r1) = redactKey cd emb key v r in walk cd emb v1 r1) ?m
        (snd (redactResourceFields cd emb m r))))"
      by (intro over_map_related) (simp add: split_def Let_def)
    with redactionm_trans [OF m] show ?thesis by (simp add: DMap split_def Let_def)
  qed simp_all
qed

end

text \<open>
  The walk over a document with \<open>n\<close> levels of documents within strings; a document below these levels
  is not entered and marks the redactor as exhausted.
\<close>

primrec redactDocumentNodeRecursively :: "codecs \<Rightarrow> nat \<Rightarrow> document \<Rightarrow> redactor \<Rightarrow> document \<times> redactor" where
  "redactDocumentNodeRecursively cd 0 = walk cd (\<lambda>d r. (d, r\<lparr>rd_exhausted := True\<rparr>))"
| "redactDocumentNodeRecursively cd (Suc n) = walk cd (redactDocumentNodeRecursively cd n)"

section \<open>Resources\<close>

datatype redaction_error =
    FormatNotParseable
  | OutputTruncated
  | NotASingleDocument string
  | NotAResourceDocument
  | AnnotationNotRendered string string
  | ResponseNotRendered string string

text \<open>The result is \<open>None\<close> if the levels of documents in strings were not enough.\<close>

definition redactResourceItem ::
  "codecs \<Rightarrow> nat \<Rightarrow> document \<Rightarrow> redactor \<Rightarrow> (redaction_error + document \<times> redactor) option" where
  "redactResourceItem cd n resource r =
     (let (resource', r') = redactDocumentNodeRecursively cd n resource r
      in if rd_exhausted r' then None
         else Some (case rd_err r' of
                      Some (name, e) \<Rightarrow> Inl (AnnotationNotRendered name e)
                    | None \<Rightarrow> Inr (resource', r')))"

fun redactItems ::
  "codecs \<Rightarrow> nat \<Rightarrow> document list \<Rightarrow> redactor \<Rightarrow> (redaction_error + document list \<times> redactor) option" where
  "redactItems cd n [] r = Some (Inr ([], r))"
| "redactItems cd n (item # items) r =
     (case redactResourceItem cd n item r of
        None \<Rightarrow> None
      | Some (Inl e) \<Rightarrow> Some (Inl e)
      | Some (Inr (item', r1)) \<Rightarrow>
          map_option (map_sum id (map_prod ((#) item') id)) (redactItems cd n items r1))"

definition redactResourceList ::
  "codecs \<Rightarrow> nat \<Rightarrow> document \<Rightarrow> redactor \<Rightarrow> (redaction_error + document \<times> redactor) option" where
  "redactResourceList cd n document r =
     (case document of
        DMap documentMap \<Rightarrow>
          (case map_of documentMap ''items'' of
             Some (DList items) \<Rightarrow>
               map_option
                 (map_sum id (map_prod (\<lambda>items'. DMap (AList.update ''items'' (DList items') documentMap)) id))
                 (redactItems cd n items r)
           | _ \<Rightarrow> redactResourceItem cd n document r)
      | _ \<Rightarrow> Some (Inl NotAResourceDocument))"

end
