(* ===== verification/RedactionSafety.thy ===== *)
theory RedactionSafety
  imports RedactionWalk
begin

text \<open>
  What the walk guarantees: no field it treats as a credential keeps its value, wherever the field sits in the
  document. \<open>clean\<close> says this of a document.
\<close>

section \<open>Documents without credentials\<close>

definition blank :: "document \<Rightarrow> bool" where
  "blank v \<longleftrightarrow> scalarValue v = None"

definition harmless :: "codecs \<Rightarrow> document \<Rightarrow> bool" where
  "harmless cd v \<longleftrightarrow> (case scalarValue v of None \<Rightarrow> True | Some s \<Rightarrow> isWellKnownNonSecretValue cd s)"

definition plausible_clean :: "codecs \<Rightarrow> document \<Rightarrow> bool" where
  "plausible_clean cd v \<longleftrightarrow> (case v of DList xs \<Rightarrow> list_all (harmless cd) xs | _ \<Rightarrow> harmless cd v)"

definition at_key_all :: "string \<Rightarrow> (document \<Rightarrow> bool) \<Rightarrow> (string \<times> document) list \<Rightarrow> bool" where
  "at_key_all k Q m \<longleftrightarrow> (case map_of m k of None \<Rightarrow> True | Some v \<Rightarrow> Q v)"

definition header_element_clean :: "codecs \<Rightarrow> document \<Rightarrow> bool" where
  "header_element_clean cd x \<longleftrightarrow>
     (case x of
        DMap m \<Rightarrow> at_key_all ''value'' (plausible_clean cd) m \<and> at_key_all ''values'' (plausible_clean cd) m
      | _ \<Rightarrow> harmless cd x)"

definition header_clean :: "codecs \<Rightarrow> document \<Rightarrow> bool" where
  "header_clean cd v \<longleftrightarrow>
     (case v of
        DList xs \<Rightarrow> list_all (header_element_clean cd) xs
      | DMap m \<Rightarrow> list_all (\<lambda>p. plausible_clean cd (snd p)) m
      | _ \<Rightarrow> harmless cd v)"

definition env_var_clean :: "document \<Rightarrow> bool" where
  "env_var_clean x \<longleftrightarrow> (case x of DMap m \<Rightarrow> at_key_all ''value'' blank m | _ \<Rightarrow> blank x)"

definition env_clean :: "document \<Rightarrow> bool" where
  "env_clean v \<longleftrightarrow>
     (case v of
        DList xs \<Rightarrow> list_all env_var_clean xs
      | DMap m \<Rightarrow> list_all (\<lambda>p. blank (snd p)) m
      | _ \<Rightarrow> True)"

definition args_clean :: "document \<Rightarrow> bool" where
  "args_clean v \<longleftrightarrow> (case v of DList xs \<Rightarrow> list_all blank xs | _ \<Rightarrow> blank v)"

text \<open>All objects below a path, through lists on the way.\<close>

function all_at :: "((string \<times> document) list \<Rightarrow> bool) \<Rightarrow> string list \<Rightarrow> document \<Rightarrow> bool" where
  "all_at Q path (DList xs) \<longleftrightarrow> (\<forall>x \<in> set xs. all_at Q path x)"
| "all_at Q [] (DMap m) \<longleftrightarrow> Q m"
| "all_at Q (k # path) (DMap m) \<longleftrightarrow> (\<forall>p \<in> set m. fst p = k \<and> map_of m k = Some (snd p) \<longrightarrow> all_at Q path (snd p))"
| "all_at Q path DNull \<longleftrightarrow> True"
| "all_at Q path (DBool b) \<longleftrightarrow> True"
| "all_at Q path (DNumber n) \<longleftrightarrow> True"
| "all_at Q path (DString s) \<longleftrightarrow> True"
  by pat_completeness auto
termination
  by (relation "measure (\<lambda>(Q, path, node). size node)")
     (auto simp del: document.size dest: size_in_list size_in_map)

definition credentials_clean :: "string list \<Rightarrow> document \<Rightarrow> bool" where
  "credentials_clean credentialFields v \<longleftrightarrow>
     list_all (\<lambda>field. let path = Split field CHR ''.''
                       in all_at (at_key_all (last path) blank) (butlast path) v) credentialFields"

definition key_clean :: "codecs \<Rightarrow> string \<Rightarrow> document \<Rightarrow> bool" where
  "key_clean cd key v \<longleftrightarrow>
     (if key \<in> {''token'', ''password''} then blank v
      else if key \<in> {''headers'', ''queryParameters'', ''httpHeaders'', ''endpointParams''} then header_clean cd v
      else if key = ''env'' then env_clean v
      else if key \<in> {''command'', ''args''} then args_clean v
      else if key = ''annotations'' then True
      else case map_of credentialFieldsPerConfigObject key of
             None \<Rightarrow> True
           | Some credentialFields \<Rightarrow> credentials_clean credentialFields v)"

function clean :: "codecs \<Rightarrow> document \<Rightarrow> bool" where
  "clean cd (DMap m) \<longleftrightarrow> (\<forall>p \<in> set m. key_clean cd (fst p) (snd p) \<and> clean cd (snd p))"
| "clean cd (DList xs) \<longleftrightarrow> (\<forall>x \<in> set xs. clean cd x)"
| "clean cd DNull \<longleftrightarrow> True"
| "clean cd (DBool b) \<longleftrightarrow> True"
| "clean cd (DNumber n) \<longleftrightarrow> True"
| "clean cd (DString s) \<longleftrightarrow> True"
  by pat_completeness auto
termination
  by (relation "measure (\<lambda>(cd, node). size node)")
     (auto simp del: document.size dest: size_in_list size_in_map)

section \<open>Redacted values stay redacted\<close>

text \<open>
  What the code relies on of its codecs: a well-known harmless word, an empty string and the placeholder are
  no JSON or YAML object or list, also not after decoding them as base64, and lower case leaves
  the two characters alone that delimit the parts of a URL.
\<close>

definition codecs_ok :: "codecs \<Rightarrow> bool" where
  "codecs_ok cd \<longleftrightarrow>
     (\<forall>s. harmless cd (DString s) \<longrightarrow>
        parseConfigMapValue cd s = None \<and>
        (\<forall>c. cd_base64Decode cd s = Some c \<longrightarrow> parseConfigMapValue cd c = None)) \<and>
     (\<forall>s. \<forall>c \<in> {CHR ''?'', CHR ''@''}. c \<in> set (cd_unicodeLower cd s) \<longleftrightarrow> c \<in> set s)"

definition stays :: "codecs \<Rightarrow> document \<Rightarrow> document \<Rightarrow> bool" where
  "stays cd v w \<longleftrightarrow> (codecs_ok cd \<longrightarrow> (blank v \<longrightarrow> blank w) \<and> (harmless cd v \<longrightarrow> harmless cd w))"

lemma Index_char: "Index s [c] = None \<longleftrightarrow> c \<notin> set s"
  by (induction s) auto

lemma wellKnown_words: "w \<in> set wellKnownNonSecretValues \<Longrightarrow> c \<in> {CHR ''?'', CHR ''@''} \<Longrightarrow> c \<notin> set w"
proof -
  have "list_all (\<lambda>w. CHR ''?'' \<notin> set w \<and> CHR ''@'' \<notin> set w) wellKnownNonSecretValues"
    by code_simp
  then show "w \<in> set wellKnownNonSecretValues \<Longrightarrow> c \<in> {CHR ''?'', CHR ''@''} \<Longrightarrow> c \<notin> set w"
    by (auto simp: list_all_iff)
qed

lemma wellKnown_chars:
  assumes "codecs_ok cd" "isWellKnownNonSecretValue cd s" "c \<in> {CHR ''?'', CHR ''@''}"
  shows "c \<notin> set s"
proof
  assume "c \<in> set s"
  moreover have "ascii_lower c = c" using assms(3) by (auto simp: ascii_lower_def in_range_def)
  ultimately have "c \<in> set (ToLower (cd_unicodeLower cd) s)"
    using assms(1,3) by (auto simp: ToLower_def codecs_ok_def intro: rev_image_eqI)
  with wellKnown_words assms(2,3) show False
    by (auto simp: isWellKnownNonSecretValue_def)
qed

lemma userinfoSpan_None: "CHR ''@'' \<notin> set s \<Longrightarrow> userinfoSpan s = None"
  by (auto simp: userinfoSpan_def LastIndexByte_def Index_char Let_def split: option.split
      dest!: set_takeWhileD in_set_dropD)

lemma querySpan_None: "CHR ''?'' \<notin> set s \<Longrightarrow> querySpan s = None"
  using Index_char [of s "CHR ''?''"] by (simp add: querySpan_def)

lemma blank_harmless: "blank v \<Longrightarrow> harmless cd v"
  by (simp add: blank_def harmless_def)

lemma blank_redacted [simp]: "blank (DString redactedValue)" "harmless cd (DString redactedValue)"
  by (simp_all add: blank_def harmless_def)

lemma staysI: "(codecs_ok cd \<Longrightarrow> harmless cd v \<Longrightarrow> w = v \<or> blank w) \<Longrightarrow> stays cd v w"
  using blank_harmless by (auto simp: stays_def)

lemma harmless_string: "harmless cd (DString s) \<longleftrightarrow> s = [] \<or> s = redactedValue \<or> isWellKnownNonSecretValue cd s"
  by (auto simp: harmless_def)

lemma redactUrlParts_harmless:
  assumes "codecs_ok cd" "harmless cd (DString s)"
  shows "fst (redactUrlParts cd (DString s) r) = DString s \<or> blank (fst (redactUrlParts cd (DString s) r))"
proof (cases "isWellKnownNonSecretValue cd s")
  case True
  then have "userinfoSpan s = None" "querySpan s = None"
    using wellKnown_chars [OF assms(1)] userinfoSpan_None querySpan_None by blast+
  then show ?thesis
    by (auto simp: redactUrlParts_def redactUrlUserinfo_def redactUrlQuery_def redactValueOf_def replaceValueOf_def blank_def split: option.split)
next
  case False
  with assms(2) show ?thesis by (auto simp: redactUrlParts_def harmless_string)
qed

interpretation redacted: codec_change "stays cd" cd for cd
proof (unfold_locales, goal_cases)
  case (4 s r)
  then show ?case using redactUrlParts_harmless by (intro staysI) blast
next
  case (5 s emb isBase64 r)
  then show ?case
    by (intro staysI) (auto simp: redactConfigMapValue_def codecs_ok_def split: option.split)
next
  case (6 s emb name r)
  then show ?case
    by (intro staysI) (auto simp: redactAnnotationValue_def codecs_ok_def split: option.split)
qed (auto simp: stays_def)

section \<open>Cleanness is kept\<close>

lemma redaction_blank: "redaction (stays cd) v w \<Longrightarrow> codecs_ok cd \<Longrightarrow> blank v \<Longrightarrow> blank w"
  by (erule redaction.cases) (auto simp: stays_def blank_def)

lemma redaction_harmless: "redaction (stays cd) v w \<Longrightarrow> codecs_ok cd \<Longrightarrow> harmless cd v \<Longrightarrow> harmless cd w"
  by (erule redaction.cases) (auto simp: stays_def harmless_def)

lemma list_all_redaction:
  assumes "list_all2 R xs ys" "list_all Q xs" "\<And>x y. R x y \<Longrightarrow> Q x \<Longrightarrow> Q y"
  shows "list_all Q ys"
  using assms by (induction rule: list_all2_induct) auto

lemma redaction_plausible:
  assumes "redaction (stays cd) v w" "codecs_ok cd" "plausible_clean cd v"
  shows "plausible_clean cd w"
  using assms(1)
proof cases
  case leaf
  then show ?thesis using assms redaction_harmless [OF assms(1,2)]
    by (cases v; cases w) (auto simp: plausible_clean_def)
next
  case (list xs ys)
  then show ?thesis using assms redaction_harmless
    by (auto simp: plausible_clean_def intro: list_all_redaction)
qed (use assms in \<open>auto simp: plausible_clean_def harmless_def\<close>)

lemma redaction_at_key:
  assumes "redactionm (stays cd) m n" "at_key_all k Q m" "\<And>x y. redaction (stays cd) x y \<Longrightarrow> Q x \<Longrightarrow> Q y"
  shows "at_key_all k Q n"
  using redactionm_map_of [OF assms(1), of k] assms(2,3)
  by (auto simp: at_key_all_def option.rel_sel split: option.splits)

lemma redaction_header:
  assumes "redaction (stays cd) v w" "codecs_ok cd" "header_clean cd v"
  shows "header_clean cd w"
  using assms(1)
proof cases
  case leaf
  then show ?thesis using assms redaction_harmless [OF assms(1,2)]
    by (cases v; cases w) (auto simp: header_clean_def)
next
  case (list xs ys)
  have element: "header_element_clean cd y"
    if "redaction (stays cd) x y" "header_element_clean cd x" for x y
    using that redaction_harmless [OF that(1) assms(2)] redaction_plausible [OF _ assms(2)]
    by (cases x; cases y) (auto simp: header_element_clean_def redaction_left redactionm_def [symmetric] intro: redaction_at_key)
  from list assms(3) show ?thesis
    by (auto simp: header_clean_def intro: list_all_redaction [OF _ _ element])
next
  case (map m n)
  then show ?thesis using assms redaction_plausible
    by (auto simp: header_clean_def intro: list_all_redaction)
qed (use assms in \<open>auto simp: header_clean_def harmless_def\<close>)

lemma redaction_env:
  assumes "redaction (stays cd) v w" "codecs_ok cd" "env_clean v"
  shows "env_clean w"
  using assms(1)
proof cases
  case leaf
  then show ?thesis by (cases w) (auto simp: env_clean_def)
next
  case (list xs ys)
  have element: "env_var_clean y" if "redaction (stays cd) x y" "env_var_clean x" for x y
    using that redaction_blank [OF that(1) assms(2)] redaction_blank [OF _ assms(2)]
    by (cases x; cases y) (auto simp: env_var_clean_def redaction_left redactionm_def [symmetric] intro: redaction_at_key)
  from list assms(3) show ?thesis
    by (auto simp: env_clean_def intro: list_all_redaction [OF _ _ element])
next
  case (map m n)
  then show ?thesis using assms redaction_blank
    by (auto simp: env_clean_def intro: list_all_redaction)
qed (use assms in \<open>auto simp: env_clean_def\<close>)

lemma redaction_args:
  assumes "redaction (stays cd) v w" "codecs_ok cd" "args_clean v"
  shows "args_clean w"
  using assms(1)
proof cases
  case leaf
  then show ?thesis using assms redaction_blank [OF assms(1,2)]
    by (cases v; cases w) (auto simp: args_clean_def)
next
  case (list xs ys)
  then show ?thesis using assms redaction_blank
    by (auto simp: args_clean_def intro: list_all_redaction)
qed (use assms in \<open>auto simp: args_clean_def blank_def\<close>)

lemma redaction_all_at:
  assumes "codecs_ok cd" "redaction (stays cd) v w" "all_at (at_key_all k blank) path v"
  shows "all_at (at_key_all k blank) path w"
  using assms(2,3)
proof (induction "at_key_all k blank" path v arbitrary: w rule: all_at.induct)
  case (1 path xs)
  then obtain ys where ys: "w = DList ys" "list_all2 (redaction (stays cd)) xs ys"
    by (auto simp: redaction_left)
  have "all_at (at_key_all k blank) path y" if y: "y \<in> set ys" for y
  proof -
    obtain x where "x \<in> set xs" "redaction (stays cd) x y"
      using list_all2_set2 [OF ys(2) y] by blast
    with 1 show ?thesis by auto
  qed
  then show ?case by (simp add: ys)
next
  case (2 m)
  then show ?case
    using redaction_at_key [OF _ _ redaction_blank [OF _ assms(1)]]
    by (auto simp: redaction_left redactionm_def [symmetric])
next
  case (3 j path m)
  then obtain n where n: "w = DMap n" "redactionm (stays cd) m n"
    by (auto simp: redaction_left redactionm_def)
  have "all_at (at_key_all k blank) path y" if y: "map_of n j = Some y" for y
  proof -
    from redactionm_map_of [OF n(2), of j] y obtain x where "map_of m j = Some x" "redaction (stays cd) x y"
      by (auto simp: option.rel_sel)
    with 3 show ?thesis by (auto dest: map_of_SomeD)
  qed
  then show ?case by (auto simp: n)
qed (auto simp: redaction_left elim: is_leaf.elims)

lemma redaction_key_clean:
  assumes "redaction (stays cd) v w" "codecs_ok cd" "key_clean cd key v"
  shows "key_clean cd key w"
  using assms(3) redaction_blank [OF assms(1,2)] redaction_header [OF assms(1,2)] redaction_env [OF assms(1,2)]
    redaction_args [OF assms(1,2)] redaction_all_at [OF assms(2,1)]
  by (auto simp: key_clean_def credentials_clean_def Let_def list_all_iff split: option.splits)

section \<open>The helpers clean their fields\<close>

lemma over_list_all:
  "(\<And>x r. x \<in> set xs \<Longrightarrow> Q (fst (f x r))) \<Longrightarrow> list_all Q (fst (over_list f xs r))"
  by (induction xs arbitrary: r) (simp_all add: over_list_Cons del: over_list.simps(2))

lemma over_map_all:
  "(\<And>k v r. (k, v) \<in> set m \<Longrightarrow> Q (k, fst (f k v r))) \<Longrightarrow> list_all Q (fst (over_map f m r))"
proof (induction m arbitrary: r)
  case (Cons p m)
  then show ?case by (cases p) (simp add: over_map_Cons)
qed simp

lemma map_of_at_key:
  "map_of (fst (at_key k f m r)) j =
     (if j = k then map_option (\<lambda>v. fst (f v r)) (map_of m k) else map_of m j)"
  by (auto simp: at_key_def split_def Let_def update_conv' split: option.split)

lemma at_key_all_same: "(\<And>v r. Q (fst (f v r))) \<Longrightarrow> at_key_all k Q (fst (at_key k f m r))"
  by (simp add: at_key_all_def map_of_at_key split: option.split)

lemma at_key_all_other: "j \<noteq> k \<Longrightarrow> at_key_all j Q (fst (at_key k f m r)) = at_key_all j Q m"
  by (simp add: at_key_all_def map_of_at_key)

lemma redactValueOf_blank: "blank (fst (redactValueOf v r))"
  by (auto simp: redactValueOf_def replaceValueOf_def blank_def split: option.split)

lemma redactEnvVarValue_blank: "blank (fst (redactEnvVarValue v r))"
  by (auto simp: redactEnvVarValue_def replaceValueOf_def blank_def split: option.split)

lemma redactListElement_harmless: "harmless cd (fst (redactListElementIfPlausible cd v r))"
  by (auto simp: redactListElementIfPlausible_def harmless_def split: option.split)

lemma redactHeaderValue_clean: "plausible_clean cd (fst (redactHeaderValueIfPlausible cd v r))"
proof (cases v)
  case (DList xs)
  then show ?thesis
    using over_list_all [of xs "harmless cd" "redactListElementIfPlausible cd", OF redactListElement_harmless]
    by (simp add: redactHeaderValueIfPlausible_def plausible_clean_def)
qed (auto simp: redactHeaderValueIfPlausible_def plausible_clean_def
      harmless_def redactValueOf_def replaceValueOf_def split: option.split)

lemma redactHeaderElement_clean:
  "header_element_clean cd (fst (case x of
     DMap m \<Rightarrow>
       map_prod DMap id
         (let (m1, r1) = at_key ''value'' (redactHeaderValueIfPlausible cd) m r
          in at_key ''values'' (redactHeaderValueIfPlausible cd) m1 r1)
   | _ \<Rightarrow> redactListElementIfPlausible cd x r))"
  using redactListElement_harmless [of cd x r]
  by (auto simp: header_element_clean_def at_key_all_same at_key_all_other redactHeaderValue_clean
      redactListElementIfPlausible_def split_def Let_def split: document.split option.split)

lemma redactHeaderValues_clean: "header_clean cd (fst (redactHeaderValues cd v r))"
proof (cases v)
  case (DList xs)
  then show ?thesis
    by (auto simp: redactHeaderValues_def header_clean_def intro!: over_list_all redactHeaderElement_clean)
next
  case (DMap m)
  then show ?thesis
    by (simp add: redactHeaderValues_def header_clean_def over_map_all redactHeaderValue_clean)
qed (use redactHeaderValue_clean [of cd v r] in
    \<open>auto simp: redactHeaderValues_def header_clean_def redactHeaderValueIfPlausible_def plausible_clean_def
       redactValueOf_def replaceValueOf_def split: option.split\<close>)

lemma redactEnvVar_clean:
  "env_var_clean (fst (case x of
     DMap m \<Rightarrow> map_prod DMap id (at_key ''value'' redactEnvVarValue m r)
   | _ \<Rightarrow> redactEnvVarValue x r))"
proof (cases x)
  case (DMap m)
  then show ?thesis by (simp add: env_var_clean_def at_key_all_same redactEnvVarValue_blank)
qed (use redactEnvVarValue_blank [of x r] in
    \<open>auto simp: env_var_clean_def redactEnvVarValue_def replaceValueOf_def split: option.split\<close>)

lemma redactEnvVarValues_clean: "env_clean (fst (redactEnvVarValues v r))"
  by (cases v)
     (auto simp: redactEnvVarValues_def env_clean_def over_map_all redactEnvVarValue_blank
      intro: over_list_all redactEnvVar_clean)

lemma redactArgumentValues_clean: "args_clean (fst (redactArgumentValues v r))"
  by (cases v) (auto simp: redactArgumentValues_def args_clean_def over_list_all redactEnvVarValue_blank
      redactEnvVarValue_def replaceValueOf_def blank_def split: option.split)

lemma resolveFieldPath_all:
  "(\<And>m r. Q (fst (f m r))) \<Longrightarrow> all_at Q path (fst (resolveFieldPath f path v r))"
proof (induction f path v r rule: resolveFieldPath.induct)
  case (1 f path xs r)
  then show ?case using over_list_all [of xs "all_at Q path" "resolveFieldPath f path" r]
    by (auto simp: list_all_iff)
next
  case (3 f k path m r)
  have "all_at Q path (fst (resolveFieldPath f path z r))" if "map_of m k = Some z" for z
    using 3 map_of_SomeD [OF that] by blast
  then show ?case by (auto simp: map_of_at_key)
qed auto

lemma redactCredentialFields_clean:
  assumes "codecs_ok cd"
  shows "credentials_clean credentialFields (fst (redactCredentialFields v credentialFields r))"
proof -
  define step where "step field = (\<lambda>v. resolveFieldPath (at_key (last (Split field CHR ''.'')) redactValueOf)
      (butlast (Split field CHR ''.'')) v)" for field
  define ok where "ok field = all_at (at_key_all (last (Split field CHR ''.'')) blank)
      (butlast (Split field CHR ''.''))" for field
  have step: "change (stays cd) (step field)" for field
    unfolding step_def by (intro redacted.changeI_resolveFieldPath redacted.changem_at_key redacted.change_redactValueOf)
  have "ok field (fst (step field v r))" for field v r
    unfolding step_def ok_def by (intro resolveFieldPath_all at_key_all_same redactValueOf_blank)
  moreover have "ok field w" if "redaction (stays cd) v w" "ok field v" for field v w
    using that redaction_all_at [OF assms] unfolding ok_def by blast
  ultimately have "list_all (\<lambda>field. ok field (fst (fold (\<lambda>field (v, r). step field v r) fields vr))) fields" for fields vr
  proof (induction fields rule: rev_induct)
    case (snoc field fields)
    let ?vr = "fold (\<lambda>field (v, r). step field v r) fields vr"
    have "redaction (stays cd) (fst ?vr) (fst (step field (fst ?vr) (snd ?vr)))"
      by (rule changeD [OF step])
    with snoc show ?case by (auto simp: split_def list_all_iff)
  qed simp
  then show ?thesis
    by (simp add: credentials_clean_def redactCredentialFields_def step_def ok_def Let_def)
qed

lemma redactKey_clean:
  assumes "codecs_ok cd"
  shows "key_clean cd key (fst (redactKey cd emb key v r))"
  using redactValueOf_blank redactHeaderValues_clean redactEnvVarValues_clean redactArgumentValues_clean
    redactCredentialFields_clean [OF assms]
  by (auto simp: key_clean_def redactKey_def split_def Let_def split: option.split)

section \<open>The walk cleans a document\<close>

lemma walk_map_all:
  assumes "\<And>key v r v1 r1. (key, v) \<in> set (fst (redactResourceFields cd emb m r0)) \<Longrightarrow>
      redactKey cd emb key v r = (v1, r1) \<Longrightarrow> Q (key, fst (walk cd emb v1 r1))"
  shows "\<exists>n. fst (walk cd emb (DMap m) r0) = DMap n \<and> list_all Q n"
  using assms
  by (auto simp: split_def Let_def intro!: over_map_all)

lemma walk_clean:
  assumes "codecs_ok cd"
  shows "clean cd (fst (walk cd emb v r))"
  using assms
proof (induction cd emb v r rule: walk.induct)
  case (1 cd emb m r)
  have "key_clean cd key (fst (walk cd emb v1 r1)) \<and> clean cd (fst (walk cd emb v1 r1))"
    if "(key, v) \<in> set (fst (redactResourceFields cd emb m r))" "redactKey cd emb key v r' = (v1, r1)"
    for key v r' v1 r1
  proof
    have "key_clean cd key v1"
      using redactKey_clean [OF 1(2), of key emb v r'] that by simp
    then show "key_clean cd key (fst (walk cd emb v1 r1))"
      by (rule redaction_key_clean [OF redacted.change_walk 1(2)])
    show "clean cd (fst (walk cd emb v1 r1))"
      using 1 that by (metis prod.collapse)
  qed
  with walk_map_all [of cd emb m r "\<lambda>p. key_clean cd (fst p) (snd p) \<and> clean cd (snd p)"]
  obtain n where "fst (walk cd emb (DMap m) r) = DMap n"
    "list_all (\<lambda>p. key_clean cd (fst p) (snd p) \<and> clean cd (snd p)) n"
    by auto
  then show ?case by (simp add: list_all_iff)
next
  case (2 cd emb xs r)
  then show ?case using over_list_all [of xs "clean cd" "walk cd emb" r] by (auto simp: list_all_iff)
qed auto

end
