(* ===== verification/RedactionCount.thy ===== *)
theory RedactionCount
  imports RedactionSafety
begin

text \<open>
  The count of the redactor. The code compares it before and after a walk to tell whether something was
  replaced, and renders a document within a string again only in this case. This is sound: if the count
  is the same, so is the document.

  The locale \<open>redactor_order\<close> shows this for all steps of the walk, together with any further order \<open>G\<close> of redactors
  that holds for the three elementary steps.
\<close>

section \<open>Counted changes\<close>

definition counted_at ::
  "(redactor \<Rightarrow> redactor \<Rightarrow> bool) \<Rightarrow> ('a \<Rightarrow> redactor \<Rightarrow> 'a \<times> redactor) \<Rightarrow> 'a \<Rightarrow> bool" where
  "counted_at G f x \<longleftrightarrow>
     (\<forall>r. rd_count r \<le> rd_count (snd (f x r)) \<and> G r (snd (f x r)) \<and>
          (rd_count (snd (f x r)) = rd_count r \<longrightarrow> fst (f x r) = x))"

definition counted :: "(redactor \<Rightarrow> redactor \<Rightarrow> bool) \<Rightarrow> ('a \<Rightarrow> redactor \<Rightarrow> 'a \<times> redactor) \<Rightarrow> bool" where
  "counted G f \<longleftrightarrow> (\<forall>x. counted_at G f x)"

lemma counted_atI:
  assumes "\<And>r. rd_count r \<le> rd_count (snd (f x r)) \<and> G r (snd (f x r)) \<and>
      (rd_count (snd (f x r)) = rd_count r \<longrightarrow> fst (f x r) = x)"
  shows "counted_at G f x"
  using assms unfolding counted_at_def by blast

lemma counted_atD:
  "counted_at G f x \<Longrightarrow> rd_count r \<le> rd_count (snd (f x r)) \<and> G r (snd (f x r)) \<and>
     (rd_count (snd (f x r)) = rd_count r \<longrightarrow> fst (f x r) = x)"
  unfolding counted_at_def by blast

lemma add_count [simp]:
  "rd_count (redactor_add v r) = Suc (rd_count r)" "rd_count (addWithoutStderrScrub r) = Suc (rd_count r)"
  "rd_count (redactor_fail e r) = rd_count r"
  by (simp_all add: redactor_add_def addWithoutStderrScrub_def redactor_fail_def)

lemma replace_span_of: "fst sp \<le> snd sp \<Longrightarrow> replace_span s sp (span_of s sp) = s"
proof -
  assume "fst sp \<le> snd sp"
  then have "drop (snd sp) s = drop (snd sp - fst sp) (drop (fst sp) s)" by simp
  then show ?thesis
    unfolding replace_span_def span_of_def by (metis append_take_drop_id)
qed

lemma spans_ordered: "userinfoSpan s = Some sp \<Longrightarrow> fst sp \<le> snd sp" "querySpan s = Some sp \<Longrightarrow> fst sp \<le> snd sp"
  by (auto simp: userinfoSpan_def querySpan_def Let_def split: option.splits)

named_theorems counts \<open>counted changes\<close>

locale redactor_order =
  fixes G :: "redactor \<Rightarrow> redactor \<Rightarrow> bool"
  assumes G_refl [simp, intro]: "G r r"
    and G_trans: "G r s \<Longrightarrow> G s t \<Longrightarrow> G r t"
    and G_add [simp, intro]: "G r (redactor_add v r)"
    and G_addWithoutStderrScrub [simp, intro]: "G r (addWithoutStderrScrub r)"
    and G_fail [simp, intro]: "G r (redactor_fail e r)"
begin

lemma G_steps [simp]:
  "G r s \<Longrightarrow> G r (redactor_add v s)" "G r s \<Longrightarrow> G r (redactor_fail e s)"
  using G_trans by blast+

lemma countedI: "(\<And>x. counted_at G f x) \<Longrightarrow> counted G f"
  by (simp add: counted_def)

lemma counted_at: "counted G f \<Longrightarrow> counted_at G f x"
  by (simp add: counted_def)

lemma counted_at_id: "counted_at G (\<lambda>x r. (x, r)) x" "counted_at G Pair x"
  by (simp_all add: counted_at_def)

lemma counted_id [counts]: "counted G (\<lambda>x r. (x, r))" "counted G Pair"
  by (simp_all add: counted_def counted_at_id)

lemma counted_at_comp:
  assumes "counted_at G f x" "\<And>r. counted_at G g (fst (f x r))"
  shows "counted_at G (\<lambda>x r. let (x1, r1) = f x r in g x1 r1) x"
proof (rule counted_atI)
  fix r
  show "rd_count r \<le> rd_count (snd (let (x1, r1) = f x r in g x1 r1)) \<and> G r (snd (let (x1, r1) = f x r in g x1 r1)) \<and>
      (rd_count (snd (let (x1, r1) = f x r in g x1 r1)) = rd_count r \<longrightarrow> fst (let (x1, r1) = f x r in g x1 r1) = x)"
    using counted_atD [OF assms(1), of r] counted_atD [OF assms(2), of "snd (f x r)" r]
    by (auto simp: split_def Let_def intro: G_trans)
qed

lemma counted_comp [counts]: "counted G f \<Longrightarrow> counted G g \<Longrightarrow> counted G (\<lambda>x r. let (x1, r1) = f x r in g x1 r1)"
  by (rule countedI, rule counted_at_comp) (simp_all add: counted_at)

lemma counted_if [counts]: "counted G f \<Longrightarrow> counted G g \<Longrightarrow> counted G (\<lambda>x r. if b then f x r else g x r)"
  by (cases b) (simp_all add: counted_def)

lemma counted_fold [counts]:
  assumes "\<And>x. counted G (f x)"
  shows "counted G (\<lambda>m r. fold (\<lambda>x (m, r). f x m r) xs (m, r))"
proof (induction xs)
  case (Cons x xs)
  from counted_comp [OF assms [of x] Cons] show ?case by (simp add: split_def Let_def)
qed (simp add: counts)

lemma counted_at_over_list:
  assumes "\<And>x. x \<in> set xs \<Longrightarrow> counted_at G f x"
  shows "counted_at G (over_list f) xs"
  using assms
proof (induction xs)
  case (Cons x xs)
  show ?case
  proof (rule counted_atI)
    fix r
    have "counted_at G f x" "counted_at G (over_list f) xs" using Cons by simp_all
    then show "rd_count r \<le> rd_count (snd (over_list f (x # xs) r)) \<and> G r (snd (over_list f (x # xs) r)) \<and>
      (rd_count (snd (over_list f (x # xs) r)) = rd_count r \<longrightarrow> fst (over_list f (x # xs) r) = x # xs)"
      unfolding over_list_Cons using counted_atD [of G f x r] counted_atD [of G "over_list f" xs "snd (f x r)"]
      by (auto intro: G_trans)
  qed
qed (simp add: counted_at_def)

lemma counted_over_list: "counted G f \<Longrightarrow> counted G (over_list f)"
  by (simp add: counted_def counted_at_over_list)

lemma counted_at_over_map:
  assumes "\<And>k v. (k, v) \<in> set m \<Longrightarrow> counted_at G (f k) v"
  shows "counted_at G (over_map f) m"
proof -
  have "counted_at G (\<lambda>(k, v) r. let (v', r') = f k v r in ((k, v'), r')) p" if "p \<in> set m" for p
    using assms that by (cases p) (auto simp: counted_at_def split_def Let_def)
  then show ?thesis
    using counted_at_over_list [of m] unfolding over_map_def by (simp add: counted_at_def)
qed

lemma counted_over_map: "(\<And>k. counted G (f k)) \<Longrightarrow> counted G (over_map f)"
  by (simp add: counted_def counted_at_over_map)

lemma counted_at_at_key:
  assumes "\<And>v. (k, v) \<in> set m \<Longrightarrow> counted_at G f v"
  shows "counted_at G (at_key k f) m"
proof (cases "map_of m k")
  case (Some v)
  then have "counted_at G f v" using assms by (simp add: map_of_SomeD)
  with Some show ?thesis by (auto simp: counted_at_def at_key_def split_def Let_def update_same)
qed (simp add: counted_at_def at_key_def)

lemma counted_at_key [counts]: "counted G f \<Longrightarrow> counted G (at_key k f)"
  by (simp add: counted_def counted_at_at_key)

lemma counted_at_DList: "counted_at G f xs \<Longrightarrow> counted_at G (\<lambda>_ r. map_prod DList id (f xs r)) (DList xs)"
  by (simp add: counted_at_def)

lemma counted_at_DMap: "counted_at G f m \<Longrightarrow> counted_at G (\<lambda>_ r. map_prod DMap id (f m r)) (DMap m)"
  by (simp add: counted_at_def)

lemma counted_dispatch [counts]:
  assumes "counted G (f :: document \<Rightarrow> _)" "counted G g" "counted G h"
  shows "counted G (\<lambda>v r. case v of DList xs \<Rightarrow> map_prod DList id (g xs r) | DMap m \<Rightarrow> map_prod DMap id (h m r) | _ \<Rightarrow> f v r)"
  using assms by (auto simp: counted_def counted_at_def split: document.split)

lemma counted_dispatch_map [counts]:
  assumes "counted G f" "counted G h"
  shows "counted G (\<lambda>v r. case v of DMap m \<Rightarrow> map_prod DMap id (h m r) | _ \<Rightarrow> f v r)"
  using assms by (auto simp: counted_def counted_at_def split: document.split)

lemma counted_dispatch_list [counts]:
  assumes "counted G f" "counted G g"
  shows "counted G (\<lambda>v r. case v of DList xs \<Rightarrow> map_prod DList id (g xs r) | _ \<Rightarrow> f v r)"
  using assms by (auto simp: counted_def counted_at_def split: document.split)

text \<open>The helpers of the walk.\<close>

lemma counted_redactValueOf [counts]: "counted G redactValueOf"
  by (auto simp: counted_def counted_at_def redactValueOf_def replaceValueOf_def split: option.split)

lemma counted_redactEnvVarValue [counts]: "counted G redactEnvVarValue"
  by (auto simp: counted_def counted_at_def redactEnvVarValue_def replaceValueOf_def split: option.split)

lemma counted_redactListElementIfPlausible [counts]: "counted G (redactListElementIfPlausible cd)"
  by (auto simp: counted_def counted_at_def redactListElementIfPlausible_def split: option.split)

lemma counted_redactEnvVarValues [counts]: "counted G redactEnvVarValues"
  unfolding redactEnvVarValues_def by (intro counts counted_over_list counted_over_map)

lemma counted_redactArgumentValues [counts]: "counted G redactArgumentValues"
  unfolding redactArgumentValues_def by (intro counts counted_over_list)

lemma counted_redactHeaderValueIfPlausible [counts]: "counted G (redactHeaderValueIfPlausible cd)"
proof -
  have "counted G (\<lambda>v r. case scalarValue v of
      None \<Rightarrow> (v, r)
    | Some s \<Rightarrow> if isWellKnownNonSecretValue cd s then (v, r) else redactValueOf v r)"
    using counted_redactValueOf by (auto simp: counted_def counted_at_def split: option.split)
  then show ?thesis
    unfolding redactHeaderValueIfPlausible_def by (intro counts counted_over_list)
qed

lemma counted_redactHeaderValues [counts]: "counted G (redactHeaderValues cd)"
  unfolding redactHeaderValues_def by (intro counts counted_over_list counted_over_map)

lemma counted_resolveFieldPath [counts]:
  assumes "counted G f"
  shows "counted G (resolveFieldPath f path)"
proof (rule countedI)
  fix v show "counted_at G (resolveFieldPath f path) v"
  proof (induction v arbitrary: path rule: measure_induct_rule [of size])
    case (less v)
    show ?case
    proof (cases v)
      case (DList xs)
      then have "counted_at G (over_list (resolveFieldPath f path)) xs"
        using less size_in_list by (intro counted_at_over_list) blast
      with DList show ?thesis by (simp add: counted_at_def)
    next
      case (DMap m)
      have "counted_at G (at_key k (resolveFieldPath f ks)) m" for k ks
        using less size_in_map DMap by (intro counted_at_at_key) blast
      with DMap counted_at [OF assms, of m] show ?thesis by (cases path) (simp_all add: counted_at_def)
    qed (simp_all add: counted_at_def)
  qed
qed

lemma counted_redactCredentialFields [counts]: "counted G (\<lambda>v. redactCredentialFields v credentialFields)"
  unfolding redactCredentialFields_def Let_def by (intro counts)

lemma counted_redactQueryParameterFields [counts]: "counted G (redactQueryParameterFields cd)"
proof -
  have "counted G (\<lambda>m r. case butlast (Split field CHR ''.'') of
            [] \<Rightarrow> at_key (last (Split field CHR ''.'')) (redactHeaderValues cd) m r
          | k # ks \<Rightarrow>
              at_key k (resolveFieldPath (at_key (last (Split field CHR ''.'')) (redactHeaderValues cd)) ks) m r)"
    for field
    by (cases "butlast (Split field CHR ''.'')") (simp_all, (intro counts)+)
  then have "counted G (\<lambda>m r. fold (\<lambda>field (m, r).
      let path = Split field CHR ''.'';
          f = at_key (last path) (redactHeaderValues cd)
      in case butlast path of [] \<Rightarrow> f m r | k # ks \<Rightarrow> at_key k (resolveFieldPath f ks) m r) paramFields (m, r))"
    for paramFields
    unfolding Let_def by (rule counted_fold)
  then show ?thesis
    by (auto simp: counted_def counted_at_def redactQueryParameterFields_def split: option.split)
qed

lemma counted_redactTerminatedMessage [counts]: "counted G redactTerminatedMessage"
  unfolding redactTerminatedMessage_def by (intro counts)

lemma counted_redactContainerStatus [counts]: "counted G (redactContainerStatus policies)"
proof -
  have "counted G (\<lambda>m r.
      let (m1, r1) = at_key ''state'' redactTerminatedMessage m r
      in at_key ''lastState'' redactTerminatedMessage m1 r1)"
    by (intro counts)
  then show ?thesis
    by (auto simp: counted_def counted_at_def redactContainerStatus_def split_def Let_def split: document.split)
qed

lemma counted_redactContainerStatuses [counts]: "counted G (redactContainerStatuses spec p)"
  unfolding redactContainerStatuses_def by (intro counts counted_over_list)

lemma counted_redactTerminationMessages [counts]: "counted G redactTerminationMessages"
proof -
  have "counted G (at_key ''status'' (\<lambda>status r. case status of
      DMap m \<Rightarrow>
        map_prod DMap id
          (fold (\<lambda>p (m, r). redactContainerStatuses spec p m r) containerSpecFieldsPerStatusField (m, r))
    | _ \<Rightarrow> (status, r)))" for spec
    by (intro counts)
  then show ?thesis
    by (auto simp: counted_def counted_at_def redactTerminationMessages_def Let_def)
qed

lemma counted_redactUrlPart: "counted G (\<lambda>rawPart. redactUrlPart rawPart (decode rawPart))"
  by (auto simp: counted_def counted_at_def redactUrlPart_def Let_def)

lemma counted_redactUserinfo [counts]: "counted G (redactUserinfo userinfo)"
  by (auto simp: counted_def counted_at_def redactUserinfo_def redactUrlPart_def Let_def split: option.split)

lemma counted_redactQueryParameterValue: "counted G (redactQueryParameterValue cd)"
  by (auto simp: counted_def counted_at_def redactQueryParameterValue_def redactUrlPart_def Let_def
      split: option.split)

lemma counted_redactQueryParameterValues: "counted G (redactQueryParameterValues cd)"
proof (rule countedI)
  fix q
  have "counted_at G (over_list (redactQueryParameterValue cd)) (Split q CHR ''&'')"
    by (intro counted_at counted_over_list counted_redactQueryParameterValue)
  then show "counted_at G (redactQueryParameterValues cd) q"
    by (auto simp: counted_at_def redactQueryParameterValues_def split_def Let_def Join_Split)
qed

lemma counted_replace_span:
  assumes "counted G f" "\<And>s sp. span s = Some sp \<Longrightarrow> fst sp \<le> snd sp"
  shows "counted G (\<lambda>s r. case span s of
      Some sp \<Rightarrow> (let (part, r') = f (span_of s sp) r in (replace_span s sp part, r')) | None \<Rightarrow> (s, r))"
  using assms by (auto simp: counted_def counted_at_def split_def Let_def replace_span_of split: option.split)

lemma counted_redactUrlUserinfo: "counted G (redactUrlUserinfo user)"
  unfolding redactUrlUserinfo_def
  by (cases user) (simp_all add: counted_id counted_replace_span [OF counted_redactUserinfo spans_ordered(1)])

lemma counted_redactUrlQuery: "counted G (redactUrlQuery cd)"
  unfolding redactUrlQuery_def by (rule counted_replace_span [OF counted_redactQueryParameterValues spans_ordered(2)])

lemma counted_redactUrlParts [counts]: "counted G (redactUrlParts cd)"
proof (rule countedI)
  fix v show "counted_at G (redactUrlParts cd) v"
  proof (cases v)
    case (DString s)
    have "counted_at G (\<lambda>s r. let (s1, r1) = redactUrlUserinfo user s r in redactUrlQuery cd s1 r1) s" for user
      by (intro counted_at counted_comp counted_redactUrlUserinfo counted_redactUrlQuery)
    then show ?thesis
      using DString counted_at [OF counted_redactValueOf, of v]
      by (cases "cd_urlParse cd s") (auto simp: counted_at_def redactUrlParts_def split_def Let_def)
  qed (simp_all add: counted_at_def redactUrlParts_def)
qed

text \<open>For every walk over the documents in strings that is counted itself.\<close>

lemma counted_redactConfigMapValue [counts]:
  assumes "counted G emb"
  shows "counted G (redactConfigMapValue cd emb isBase64)"
proof (rule countedI, rule counted_atI)
  fix v r
  have emb: "rd_count r \<le> rd_count (snd (over_list emb ds r)) \<and> G r (snd (over_list emb ds r))" for ds
    using counted_atD [OF counted_at [OF counted_over_list [OF assms]], of r ds] by blast
  then have "rd_count r \<noteq> Suc (rd_count (snd (over_list emb ds r)))"
    "Suc (rd_count (snd (over_list emb ds r))) \<noteq> rd_count r" for ds
    by (metis not_less_eq_eq order_refl)+
  with emb show "rd_count r \<le> rd_count (snd (redactConfigMapValue cd emb isBase64 v r)) \<and>
      G r (snd (redactConfigMapValue cd emb isBase64 v r)) \<and>
      (rd_count (snd (redactConfigMapValue cd emb isBase64 v r)) = rd_count r \<longrightarrow>
       fst (redactConfigMapValue cd emb isBase64 v r) = v)"
    by (auto simp: redactConfigMapValue_def redactValueOf_def replaceValueOf_def split_def Let_def
        intro: le_SucI split: option.split sum.split)
qed

lemma counted_redactConfigMapData [counts]: "counted G emb \<Longrightarrow> counted G (redactConfigMapData cd emb)"
proof -
  assume "counted G emb"
  then have "counted G (\<lambda>m r. fold (\<lambda>dataField (m, r).
            at_key dataField (\<lambda>v r. case v of
                DMap d \<Rightarrow>
                  map_prod DMap id
                    (over_map (\<lambda>_. redactConfigMapValue cd emb (dataField = ''binaryData'')) d r)
              | _ \<Rightarrow> (v, r)) m r) configMapDataFields (m, r))"
    by (intro counts counted_over_map)
  then show ?thesis by (auto simp: counted_def counted_at_def redactConfigMapData_def)
qed

lemma counted_redactAnnotationValue [counts]:
  assumes "counted G emb"
  shows "counted G (redactAnnotationValue cd emb name)"
proof (rule countedI, rule counted_atI)
  fix v r
  have emb: "rd_count r \<le> rd_count (snd (over_list emb ds r)) \<and> G r (snd (over_list emb ds r))" for ds
    using counted_atD [OF counted_at [OF counted_over_list [OF assms]], of r ds] by blast
  then show "rd_count r \<le> rd_count (snd (redactAnnotationValue cd emb name v r)) \<and>
      G r (snd (redactAnnotationValue cd emb name v r)) \<and>
      (rd_count (snd (redactAnnotationValue cd emb name v r)) = rd_count r \<longrightarrow>
       fst (redactAnnotationValue cd emb name v r) = v)"
    by (auto simp: redactAnnotationValue_def split_def Let_def split: option.split sum.split)
qed

lemma counted_redactAnnotationValues [counts]: "counted G emb \<Longrightarrow> counted G (redactAnnotationValues cd emb)"
  unfolding redactAnnotationValues_def by (intro counts counted_over_map)

lemma counted_redactKey [counts]:
  assumes "counted G emb"
  shows "counted G (redactKey cd emb key)"
proof -
  have "counted G (\<lambda>v r. if isUrlField key then redactUrlParts cd v r else (v, r))"
    by (cases "isUrlField key") (simp_all, (intro counts)+)
  moreover have "counted G (\<lambda>v r. case map_of credentialFieldsPerConfigObject key of
      None \<Rightarrow> (v, r) | Some credentialFields \<Rightarrow> redactCredentialFields v credentialFields r)"
    by (cases "map_of credentialFieldsPerConfigObject key") (simp_all, (intro counts)+)
  ultimately have rest: "counted G (\<lambda>v r. let (v1, r1) = (if isUrlField key then redactUrlParts cd v r else (v, r))
      in case map_of credentialFieldsPerConfigObject key of
           None \<Rightarrow> (v1, r1) | Some credentialFields \<Rightarrow> redactCredentialFields v1 credentialFields r1)"
    by (rule counted_comp)
  show ?thesis
    unfolding redactKey_def by (intro rest counted_if counts assms)
qed

lemma counted_redactResourceFields [counts]: "counted G emb \<Longrightarrow> counted G (redactResourceFields cd emb)"
  unfolding redactResourceFields_def by (intro counts)

lemma counted_walk [counts]:
  assumes "counted G emb"
  shows "counted G (walk cd emb)"
proof (rule countedI)
  fix v show "counted_at G (walk cd emb) v"
  proof (induction v rule: measure_induct_rule [of size])
    case (less v)
    show ?case
    proof (cases v)
      case (DList xs)
      then have "counted_at G (over_list (walk cd emb)) xs"
        using less size_in_list by (intro counted_at_over_list) blast
      with DList show ?thesis by (simp add: counted_at_def)
    next
      case (DMap m)
      show ?thesis
      proof (rule counted_atI)
        fix r
        let ?m = "fst (redactResourceFields cd emb m r)"
        let ?step = "\<lambda>key v r. let (v1, r1) = redactKey cd emb key v r in walk cd emb v1 r1"
        have "counted_at G (?step key) v'" if "(key, v') \<in> set ?m" for key v'
          using less size_in_map [OF that] size_redactResourceFields [of cd emb m r]
          by (intro counted_at_comp counted_at [OF counted_redactKey [OF assms]])
             (simp add: DMap size_redactKey del: document.size)
        then have "counted_at G (over_map ?step) ?m"
          by (rule counted_at_over_map)
        with counted_atD [OF counted_at [OF counted_redactResourceFields [OF assms]], of r cd m]
        show "rd_count r \<le> rd_count (snd (walk cd emb v r)) \<and> G r (snd (walk cd emb v r)) \<and>
      (rd_count (snd (walk cd emb v r)) = rd_count r \<longrightarrow> fst (walk cd emb v r) = v)"
          using counted_atD [of G "over_map ?step" ?m "snd (redactResourceFields cd emb m r)"]
          by (auto simp: DMap split_def Let_def intro: G_trans)
      qed
    qed (simp_all add: counted_at_def)
  qed
qed

end

section \<open>The order of redactors\<close>

text \<open>How a redactor develops: errors are kept, and so is the mark of an exhausted walk.\<close>

definition grows :: "redactor \<Rightarrow> redactor \<Rightarrow> bool" where
  "grows r r' \<longleftrightarrow>
     (rd_err r' = None \<longrightarrow> rd_err r = None) \<and> (rd_exhausted r \<longrightarrow> rd_exhausted r') \<and>
     rd_redactTerminationMessages r' = rd_redactTerminationMessages r"

interpretation growth: redactor_order grows
  by unfold_locales (auto simp: grows_def redactor_add_def addWithoutStderrScrub_def redactor_fail_def)

lemma counted_redactDocumentNodeRecursively: "counted grows (redactDocumentNodeRecursively cd n)"
proof (induction n)
  case 0
  have "counted grows (\<lambda>d r. (d, r\<lparr>rd_exhausted := True\<rparr>))" by (simp add: counted_def counted_at_def grows_def)
  then show ?case unfolding redactDocumentNodeRecursively.simps by (rule growth.counted_walk)
qed (simp add: growth.counted_walk)

end
