(* ===== verification/RedactionDeep.thy ===== *)
theory RedactionDeep
  imports RedactionCount
begin

text \<open>
  Documents within strings: the copies of resources that tools leave in annotations, and the files in the data of
  config maps, which may hold such documents again. A walk that enters \<open>n\<close> levels of them leaves no
  credential in any document on these levels.
\<close>

section \<open>Clean documents within strings\<close>

definition value_ok :: "codecs \<Rightarrow> bool \<Rightarrow> (document \<Rightarrow> bool) \<Rightarrow> document \<Rightarrow> bool" where
  "value_ok cd isBase64 Q v \<longleftrightarrow>
     (case string_of v of
        None \<Rightarrow> True
      | Some s \<Rightarrow>
          (case Option.bind (if isBase64 then cd_base64Decode cd s else Some s) (parseConfigMapValue cd) of
             None \<Rightarrow> True
           | Some (documents, _) \<Rightarrow> list_all Q documents))"

text \<open>The values of a map, apart from those whose key says that they are URLs, which are cut as such.\<close>

definition values_ok :: "codecs \<Rightarrow> bool \<Rightarrow> (document \<Rightarrow> bool) \<Rightarrow> document \<Rightarrow> bool" where
  "values_ok cd isBase64 Q v \<longleftrightarrow>
     (case v of
        DMap m \<Rightarrow> list_all (\<lambda>p. isUrlField (fst p) \<or> value_ok cd isBase64 Q (snd p)) m
      | _ \<Rightarrow> True)"

definition config_map_ok :: "codecs \<Rightarrow> (document \<Rightarrow> bool) \<Rightarrow> (string \<times> document) list \<Rightarrow> bool" where
  "config_map_ok cd Q m \<longleftrightarrow>
     (kind_of m = Some ''ConfigMap'' \<longrightarrow>
        at_key_all ''data'' (values_ok cd False Q) m \<and> at_key_all ''binaryData'' (values_ok cd True Q) m)"

function embedded :: "codecs \<Rightarrow> (document \<Rightarrow> bool) \<Rightarrow> document \<Rightarrow> bool" where
  "embedded cd Q (DMap m) \<longleftrightarrow>
     config_map_ok cd Q m \<and>
     (\<forall>p \<in> set m. (fst p = ''annotations'' \<longrightarrow> values_ok cd False Q (snd p)) \<and> embedded cd Q (snd p))"
| "embedded cd Q (DList xs) \<longleftrightarrow> (\<forall>x \<in> set xs. embedded cd Q x)"
| "embedded cd Q DNull \<longleftrightarrow> True"
| "embedded cd Q (DBool b) \<longleftrightarrow> True"
| "embedded cd Q (DNumber n) \<longleftrightarrow> True"
| "embedded cd Q (DString s) \<longleftrightarrow> True"
  by pat_completeness auto
termination
  by (relation "measure (\<lambda>(cd, Q, node). size node)")
     (auto simp del: document.size dest: size_in_list size_in_map)

primrec deep_clean :: "codecs \<Rightarrow> nat \<Rightarrow> document \<Rightarrow> bool" where
  "deep_clean cd 0 d \<longleftrightarrow> clean cd d"
| "deep_clean cd (Suc n) d \<longleftrightarrow> clean cd d \<and> embedded cd (deep_clean cd n) d"

text \<open>
  Rendering a value that was parsed, with other scalars, and parsing it again gives the same documents, and base64
  decodes what it encodes.
\<close>

definition codecs_roundtrip :: "codecs \<Rightarrow> bool" where
  "codecs_roundtrip cd \<longleftrightarrow>
     (\<forall>s0 ds0 format ds s.
        parseConfigMapValue cd s0 = Some (ds0, format) \<and> list_all2 (redaction (\<lambda>_ _. True)) ds0 ds \<and>
        Inr s \<in> {renderConfigMapValue cd format ds, renderAnnotationValue cd format ds} \<longrightarrow>
        map_option fst (parseConfigMapValue cd s) = Some ds) \<and>
     (\<forall>s. cd_base64Decode cd (cd_base64Encode cd s) = Some s)"

section \<open>The changes of a string\<close>

text \<open>What is used of the walk over the documents in a string, to show \<open>Q\<close> of these documents.\<close>

definition embedded_ok :: "(document \<Rightarrow> bool) \<Rightarrow> embedded_walk \<Rightarrow> bool" where
  "embedded_ok Q emb \<longleftrightarrow>
     counted grows emb \<and> change (\<lambda>_ _. True) emb \<and> (\<forall>d r. rd_err (snd (emb d r)) = None \<longrightarrow> Q (fst (emb d r)))"

lemmas growth_counts = growth.counted_id growth.counted_comp growth.counted_at_key growth.counted_dispatch_map
  growth.counted_redactKey growth.counted_walk growth.counted_redactConfigMapValue

lemma counted_grows: "counted grows f \<Longrightarrow> grows r (snd (f x r))"
  by (simp add: counted_def counted_at_def)

lemma counted_unchanged: "counted grows f \<Longrightarrow> rd_count (snd (f x r)) = rd_count r \<Longrightarrow> fst (f x r) = x"
  by (simp add: counted_def counted_at_def)

lemma grows_err: "grows r s \<Longrightarrow> rd_err s = None \<Longrightarrow> rd_err r = None"
  by (simp add: grows_def)

lemma over_list_err:
  assumes "counted grows f" "rd_err (snd (over_list f xs r)) = None"
    and "\<And>x r. x \<in> set xs \<Longrightarrow> rd_err (snd (f x r)) = None \<Longrightarrow> Q (fst (f x r))"
  shows "list_all Q (fst (over_list f xs r))"
  using assms(2,3)
proof (induction xs arbitrary: r)
  case (Cons x xs)
  have "rd_err (snd (f x r)) = None"
    using Cons.prems(1) grows_err [OF counted_grows [OF growth.counted_over_list [OF assms(1)]]]
    unfolding over_list_Cons by auto
  with Cons show ?case unfolding over_list_Cons by auto
qed simp

lemma over_list_ok:
  "embedded_ok Q emb \<Longrightarrow> rd_err (snd (over_list emb ds r)) = None \<Longrightarrow> list_all Q (fst (over_list emb ds r))"
  by (rule over_list_err) (auto simp: embedded_ok_def)

lemma value_ok_redacted:
  assumes "codecs_ok cd"
  shows "value_ok cd isBase64 Q (DString redactedValue)"
proof -
  have "harmless cd (DString redactedValue)" by simp
  with assms have "parseConfigMapValue cd redactedValue = None"
    "cd_base64Decode cd redactedValue = Some c \<Longrightarrow> parseConfigMapValue cd c = None" for c
    unfolding codecs_ok_def by blast+
  then show ?thesis
    by (cases "cd_base64Decode cd redactedValue") (auto simp: value_ok_def)
qed

lemma redactAnnotationValue_ok:
  assumes "codecs_roundtrip cd" "embedded_ok Q emb" "rd_err (snd (redactAnnotationValue cd emb name v r)) = None"
  shows "value_ok cd False Q (fst (redactAnnotationValue cd emb name v r))"
proof (cases "Option.bind (string_of v) (parseConfigMapValue cd)")
  case None
  then show ?thesis
    by (cases "string_of v") (auto simp: redactAnnotationValue_def value_ok_def)
next
  case (Some p)
  then obtain s ds format where s: "v = DString s" "parseConfigMapValue cd s = Some (ds, format)"
    by (cases p) (auto simp: bind_eq_Some_conv)
  let ?ds = "fst (over_list emb ds r)" and ?r = "snd (over_list emb ds r)"
  have "rd_err ?r = None"
    using assms(3) s
    by (auto simp: redactAnnotationValue_def split_def Let_def redactor_fail_def split: if_splits sum.splits)
  then have Q: "list_all Q ?ds" by (rule over_list_ok [OF assms(2)])
  show ?thesis
  proof (cases "rd_count ?r = rd_count r")
    case True
    then have "?ds = ds"
      using assms(2) by (simp add: counted_unchanged growth.counted_over_list embedded_ok_def)
    with True Q s show ?thesis
      by (simp add: redactAnnotationValue_def value_ok_def split_def Let_def)
  next
    case False
    with assms(3) s obtain t where t: "renderAnnotationValue cd format ?ds = Inr t"
      by (cases "renderAnnotationValue cd format ?ds")
         (auto simp: redactAnnotationValue_def split_def Let_def redactor_fail_def split: if_splits)
    have "list_all2 (redaction (\<lambda>_ _. True)) ds ?ds"
      using assms(2) by (intro over_list_related) (simp add: embedded_ok_def changeD)
    with assms(1) s t have "map_option fst (parseConfigMapValue cd t) = Some ?ds"
      unfolding codecs_roundtrip_def by (metis insertI1 insertI2)
    with False s t Q show ?thesis
      by (auto simp: redactAnnotationValue_def value_ok_def split_def Let_def split: option.split)
  qed
qed

lemma redactConfigMapValue_ok:
  assumes "codecs_ok cd" "codecs_roundtrip cd" "embedded_ok Q emb"
    and err: "rd_err (snd (redactConfigMapValue cd emb isBase64 v r)) = None"
  shows "value_ok cd isBase64 Q (fst (redactConfigMapValue cd emb isBase64 v r))"
proof (cases "\<exists>s c ds format. v = DString s \<and> s \<noteq> [] \<and> (if isBase64 then cd_base64Decode cd s else Some s) = Some c \<and>
    parseConfigMapValue cd c = Some (ds, format)")
  case False
  have "value_ok cd isBase64 Q v"
  proof (cases "v = DString []")
    case True
    have "harmless cd (DString [])" by (simp add: harmless_string)
    with assms(1) have "parseConfigMapValue cd [] = None"
      "cd_base64Decode cd [] = Some c \<Longrightarrow> parseConfigMapValue cd c = None" for c
      unfolding codecs_ok_def by blast+
    with True show ?thesis by (cases "cd_base64Decode cd []") (auto simp: value_ok_def)
  next
    case no: False
    with False show ?thesis by (cases v) (auto simp: value_ok_def split: option.split bind_splits)
  qed
  moreover have "fst (redactConfigMapValue cd emb isBase64 v r) = v"
    using False by (cases v) (auto simp: redactConfigMapValue_def split: option.split)
  ultimately show ?thesis by simp
next
  case True
  then obtain s c ds format where s: "v = DString s" "s \<noteq> []"
    "(if isBase64 then cd_base64Decode cd s else Some s) = Some c" "parseConfigMapValue cd c = Some (ds, format)"
    by blast
  let ?ds = "fst (over_list emb ds r)" and ?r = "snd (over_list emb ds r)"
  have result: "redactConfigMapValue cd emb isBase64 v r =
      (if rd_count ?r = rd_count r then (v, ?r)
       else case renderConfigMapValue cd format ?ds of
              Inl _ \<Rightarrow> redactValueOf v ?r
            | Inr rendered \<Rightarrow>
                if isBase64 then (DString (cd_base64Encode cd rendered), redactor_add s ?r) else (DString rendered, ?r))"
    using s by (cases "over_list emb ds r") (simp add: redactConfigMapValue_def split: sum.split)
  have "rd_err ?r = None"
    using err grows_err [OF counted_grows [OF growth.counted_redactValueOf, of ?r v]]
    by (cases "renderConfigMapValue cd format ?ds") (auto simp: result redactor_add_def split: if_splits)
  then have Q: "list_all Q ?ds" by (rule over_list_ok [OF assms(3)])
  show ?thesis
  proof (cases "rd_count ?r = rd_count r")
    case True
    then have "?ds = ds"
      using assms(3) by (simp add: counted_unchanged growth.counted_over_list embedded_ok_def)
    with True Q s show ?thesis unfolding result by (auto simp: value_ok_def)
  next
    case False
    show ?thesis
    proof (cases "renderConfigMapValue cd format ?ds")
      case (Inl e)
      have "fst (redactValueOf v ?r) = DString redactedValue \<or> fst (redactValueOf v ?r) = v \<and> s = redactedValue"
        using s by (auto simp: redactValueOf_def replaceValueOf_def)
      with False Inl value_ok_redacted [OF assms(1)] s(1) show ?thesis unfolding result by auto
    next
      case (Inr t)
      have "list_all2 (redaction (\<lambda>_ _. True)) ds ?ds"
        using assms(3) by (intro over_list_related) (simp add: embedded_ok_def changeD)
      with assms(2) s Inr have "map_option fst (parseConfigMapValue cd t) = Some ?ds"
        unfolding codecs_roundtrip_def by (metis insertI1)
      moreover have "cd_base64Decode cd (cd_base64Encode cd t) = Some t"
        using assms(2) by (simp add: codecs_roundtrip_def)
      ultimately show ?thesis
        unfolding result using False Q Inr by (auto simp: value_ok_def)
    qed
  qed
qed

lemma over_map_err:
  assumes "\<And>k. counted grows (f k)" "rd_err (snd (over_map f m r)) = None"
    and "\<And>k v r. (k, v) \<in> set m \<Longrightarrow> rd_err (snd (f k v r)) = None \<Longrightarrow> Q (k, fst (f k v r))"
  shows "list_all Q (fst (over_map f m r))"
  using assms(2,3)
proof (induction m arbitrary: r)
  case (Cons p m)
  obtain k v where p: "p = (k, v)" by (cases p)
  have "rd_err (snd (f k v r)) = None"
    using Cons.prems(1) grows_err [OF counted_grows [OF growth.counted_over_map [OF assms(1)]]]
    by (auto simp: p over_map_Cons)
  with Cons show ?case by (auto simp: p over_map_Cons)
qed simp

lemma redactAnnotationValues_ok:
  assumes "codecs_roundtrip cd" "embedded_ok Q emb" "rd_err (snd (redactAnnotationValues cd emb v r)) = None"
  shows "values_ok cd False Q (fst (redactAnnotationValues cd emb v r))"
proof (cases v)
  case (DMap m)
  have "list_all (\<lambda>p. isUrlField (fst p) \<or> value_ok cd False Q (snd p)) (fst (over_map (redactAnnotationValue cd emb) m r))"
    using assms DMap
    by (intro over_map_err)
       (auto simp: embedded_ok_def redactAnnotationValues_def intro: growth.counted_redactAnnotationValue redactAnnotationValue_ok)
  with DMap show ?thesis by (simp add: redactAnnotationValues_def values_ok_def)
qed (simp_all add: redactAnnotationValues_def values_ok_def)

lemma redactData_ok:
  assumes "codecs_ok cd" "codecs_roundtrip cd" "embedded_ok Q emb"
    and "rd_err (snd (over_map (\<lambda>_. redactConfigMapValue cd emb isBase64) d r)) = None"
  shows "values_ok cd isBase64 Q (DMap (fst (over_map (\<lambda>_. redactConfigMapValue cd emb isBase64) d r)))"
proof -
  have "list_all (\<lambda>p. isUrlField (fst p) \<or> value_ok cd isBase64 Q (snd p))
      (fst (over_map (\<lambda>_. redactConfigMapValue cd emb isBase64) d r))"
    using assms
    by (intro over_map_err) (auto simp: embedded_ok_def intro: growth.counted_redactConfigMapValue redactConfigMapValue_ok)
  then show ?thesis by (simp add: values_ok_def)
qed

lemma map_of_queryParameterFields:
  "map_of queryParameterFieldsPerResourceKind ''ConfigMap'' = None"
  by code_simp

text \<open>The steps on a map as a whole; a config map only has the first of them.\<close>

lemma kind_of_at_key: "k \<noteq> ''kind'' \<Longrightarrow> kind_of (fst (at_key k f m r)) = kind_of m"
  by (simp add: kind_of_def map_of_at_key)

lemma kind_of_redactConfigMapData: "kind_of (fst (redactConfigMapData cd emb m r)) = kind_of m"
  by (simp add: redactConfigMapData_def configMapDataFields_def split_def kind_of_at_key)

lemma paths_queryParameterFields:
  assumes "map_of queryParameterFieldsPerResourceKind kind = Some paramFields" "field \<in> set paramFields"
  shows "\<exists>ks. butlast (Split field CHR ''.'') = ''spec'' # ks"
proof -
  have "list_all (\<lambda>p. list_all (\<lambda>field. take 1 (butlast (Split field CHR ''.'')) = [''spec'']) (snd p))
      queryParameterFieldsPerResourceKind"
    by code_simp
  with map_of_SomeD [OF assms(1)] assms(2) have "take 1 (butlast (Split field CHR ''.'')) = [''spec'']"
    by (auto simp: list_all_iff)
  then show ?thesis by (cases "butlast (Split field CHR ''.'')") auto
qed

lemma redactConfigMapData_ok:
  assumes "codecs_ok cd" "codecs_roundtrip cd" "embedded_ok Q emb"
    and err: "rd_err (snd (redactConfigMapData cd emb m r)) = None"
  shows "config_map_ok cd Q (fst (redactConfigMapData cd emb m r))"
proof (cases "kind_of m = Some ''ConfigMap''")
  case False
  then show ?thesis by (simp add: config_map_ok_def redactConfigMapData_def)
next
  case True
  define step where "step field = (\<lambda>v r. case v of
      DMap d \<Rightarrow> map_prod DMap id (over_map (\<lambda>_. redactConfigMapValue cd emb (field = ''binaryData'')) d r)
    | _ \<Rightarrow> (v, r))" for field
  let ?ok = "\<lambda>field. values_ok cd (field = ''binaryData'') Q"
  have step: "?ok field (fst (step field v r))" if "rd_err (snd (step field v r)) = None" for field v r
    using that redactData_ok [OF assms(1-3)] by (cases v) (auto simp: step_def values_ok_def)
  have counted: "counted grows (step field)" for field
    unfolding step_def using assms(3) by (intro growth_counts growth.counted_over_map) (simp add: embedded_ok_def)
  have at: "at_key_all field (?ok field) (fst (at_key field (step field) m r))"
    if "rd_err (snd (at_key field (step field) m r)) = None" for field m r
    using that step by (cases "map_of m field") (simp_all add: at_key_all_def at_key_def split_def Let_def update_conv')
  let ?m1 = "at_key ''data'' (step ''data'') m r"
  have result: "redactConfigMapData cd emb m r = at_key ''binaryData'' (step ''binaryData'') (fst ?m1) (snd ?m1)"
    using True by (simp add: redactConfigMapData_def configMapDataFields_def step_def split_def)
  have "rd_err (snd ?m1) = None"
    using err grows_err [OF counted_grows [OF growth.counted_at_key [OF counted]]] by (simp add: result)
  then show ?thesis
    using at [of "''data''" m r] at [of "''binaryData''" "fst ?m1" "snd ?m1"] err
    by (simp add: config_map_ok_def result at_key_all_other)
qed

lemma kind_of_redactQueryParameterFields: "kind_of (fst (redactQueryParameterFields cd m r)) = kind_of m"
proof -
  have "kind_of (fst (fold (\<lambda>field (m, r).
      let path = Split field CHR ''.'';
          f = at_key (last path) (redactHeaderValues cd)
      in case butlast path of [] \<Rightarrow> f m r | k # ks \<Rightarrow> at_key k (resolveFieldPath f ks) m r) fields mr)) =
      kind_of (fst mr)"
    if "\<And>field. field \<in> set fields \<Longrightarrow> \<exists>ks. butlast (Split field CHR ''.'') = ''spec'' # ks" for fields mr
    using that
  proof (induction fields arbitrary: mr)
    case (Cons field fields)
    obtain ks where "butlast (Split field CHR ''.'') = ''spec'' # ks" using Cons.prems [of field] by auto
    with Cons show ?case by (simp add: split_def kind_of_at_key)
  qed simp
  then show ?thesis
    using paths_queryParameterFields by (auto simp: redactQueryParameterFields_def split: option.split)
qed

lemma kind_of_redactTerminationMessages: "kind_of (fst (redactTerminationMessages m r)) = kind_of m"
  by (simp add: redactTerminationMessages_def Let_def kind_of_at_key)

lemma kind_of_redactResourceFields: "kind_of (fst (redactResourceFields cd emb m r)) = kind_of m"
  by (simp add: redactResourceFields_def split_def Let_def kind_of_redactConfigMapData
      kind_of_redactQueryParameterFields kind_of_redactTerminationMessages)

lemma redactResourceFields_ok:
  assumes "codecs_ok cd" "codecs_roundtrip cd" "embedded_ok Q emb"
    and err: "rd_err (snd (redactResourceFields cd emb m r)) = None"
  shows "config_map_ok cd Q (fst (redactResourceFields cd emb m r))"
proof (cases "kind_of m = Some ''ConfigMap''")
  case True
  let ?p = "redactConfigMapData cd emb m r"
  have "redactQueryParameterFields cd (fst ?p) (snd ?p) = ?p"
    using True map_of_queryParameterFields by (simp add: redactQueryParameterFields_def kind_of_redactConfigMapData)
  moreover have "redactTerminationMessages (fst ?p) (snd ?p) = ?p"
    using True by (simp add: redactTerminationMessages_def kind_of_redactConfigMapData)
  ultimately have "redactResourceFields cd emb m r = ?p"
    by (simp add: redactResourceFields_def split_def Let_def)
  with redactConfigMapData_ok [OF assms(1-3)] err show ?thesis by simp
qed (simp add: config_map_ok_def kind_of_redactResourceFields)

section \<open>The scalars of a map\<close>

text \<open>The steps on a map as a whole do not touch the scalars that are entries of the map itself.\<close>

definition direct_entry :: "string \<times> document \<Rightarrow> string \<times> document \<Rightarrow> bool" where
  "direct_entry p q \<longleftrightarrow> fst p = fst q \<and> (if is_leaf (snd p) then snd q = snd p else \<not> is_leaf (snd q))"

definition direct :: "(string \<times> document) list \<Rightarrow> (string \<times> document) list \<Rightarrow> bool" where
  "direct = list_all2 direct_entry"

lemma direct_entry_refl [simp]: "direct_entry p p"
  by (simp add: direct_entry_def)

lemma direct_entry_trans: "direct_entry p q \<Longrightarrow> direct_entry q t \<Longrightarrow> direct_entry p t"
  by (auto simp: direct_entry_def split: if_splits)

lemma direct_Cons [simp]: "direct (p # m) (q # n) \<longleftrightarrow> direct_entry p q \<and> direct m n"
  by (simp add: direct_def)

lemma direct_refl [simp]: "direct m m"
  by (simp add: direct_def list.rel_refl_strong)

lemma direct_trans: "direct l m \<Longrightarrow> direct m n \<Longrightarrow> direct l n"
  unfolding direct_def by (rule list_all2_trans [of direct_entry direct_entry direct_entry]) (rule direct_entry_trans)

lemma direct_at_key:
  assumes "change (\<lambda>_ _. True) f" "\<And>v r. is_leaf v \<Longrightarrow> fst (f v r) = v"
  shows "direct m (fst (at_key k f m r))"
proof -
  have "direct m (AList.update k w m)" if "map_of m k = Some v" "direct_entry (k, v) (k, w)" for v w
    using that by (induction m) (auto split: if_splits)
  moreover have "direct_entry (k, v) (k, fst (f v r))" for v
    using redaction_scalarValue [OF changeD [OF assms(1)], of v r] assms(2) by (simp add: direct_entry_def)
  ultimately show ?thesis
    by (auto simp: at_key_def split_def Let_def split: option.split)
qed

lemma direct_fold:
  assumes "\<And>x m r. x \<in> set xs \<Longrightarrow> direct m (fst (f x m r))"
  shows "direct m (fst (fold (\<lambda>x (m, r). f x m r) xs (m, r)))"
proof -
  have "direct m (fst (fold (\<lambda>x (m, r). f x m r) xs mr))" if "direct m (fst mr)" for mr
    using assms that
  proof (induction xs arbitrary: mr)
    case (Cons x xs)
    have "direct m (fst (f x (fst mr) (snd mr)))"
      by (rule direct_trans [OF Cons.prems(2) Cons.prems(1)]) simp
    with Cons show ?case by (simp add: split_def)
  qed simp
  then show ?thesis by simp
qed

lemma resolveFieldPath_leaf: "is_leaf v \<Longrightarrow> resolveFieldPath f path v r = (v, r)"
  by (cases v) auto

lemma direct_redactConfigMapData: "direct m (fst (redactConfigMapData cd emb m r))"
proof -
  have "direct m (fst (fold (\<lambda>dataField (m, r).
            at_key dataField (\<lambda>v r. case v of
                DMap d \<Rightarrow>
                  map_prod DMap id
                    (over_map (\<lambda>_. redactConfigMapValue cd emb (dataField = ''binaryData'')) d r)
              | _ \<Rightarrow> (v, r)) m r) configMapDataFields (m, r)))"
    by (intro direct_fold direct_at_key shape.change_over_map' shape.change_redactConfigMapValue)
       (auto split: document.split)
  then show ?thesis by (simp add: redactConfigMapData_def)
qed

lemma direct_redactQueryParameterFields: "direct m (fst (redactQueryParameterFields cd m r))"
proof -
  have "direct m (fst (fold (\<lambda>field (m, r).
      let path = Split field CHR ''.'';
          f = at_key (last path) (redactHeaderValues cd)
      in case butlast path of [] \<Rightarrow> f m r | k # ks \<Rightarrow> at_key k (resolveFieldPath f ks) m r) fields (m, r)))"
    if fields: "map_of queryParameterFieldsPerResourceKind kind = Some fields" for kind fields
  proof (rule direct_fold)
    fix field m r
    assume "field \<in> set fields"
    then obtain ks where ks: "butlast (Split field CHR ''.'') = ''spec'' # ks"
      using paths_queryParameterFields [OF fields] by blast
    show "direct m (fst (let path = Split field CHR ''.'';
          f = at_key (last path) (redactHeaderValues cd)
      in case butlast path of [] \<Rightarrow> f m r | k # ks \<Rightarrow> at_key k (resolveFieldPath f ks) m r))"
      unfolding ks Let_def list.case
      by (intro direct_at_key shape.changeI_resolveFieldPath shape.changem_at_key shape.change_redactHeaderValues)
         (simp add: resolveFieldPath_leaf)
  qed
  then show ?thesis by (auto simp: redactQueryParameterFields_def split: option.split)
qed

lemma direct_redactTerminationMessages: "direct m (fst (redactTerminationMessages m r))"
proof -
  have "direct m (fst (at_key ''status'' (\<lambda>status r. case status of
      DMap m \<Rightarrow>
        map_prod DMap id
          (fold (\<lambda>p (m, r). redactContainerStatuses spec p m r) containerSpecFieldsPerStatusField (m, r))
    | _ \<Rightarrow> (status, r)) m r))" for spec
    by (intro direct_at_key shape.change_dispatch shape.change_id shape.changem_fold shape.changem_redactContainerStatuses)
       (auto split: document.split)
  then show ?thesis by (simp add: redactTerminationMessages_def Let_def)
qed

lemma direct_redactResourceFields: "direct m (fst (redactResourceFields cd emb m r))"
  unfolding redactResourceFields_def split_def Let_def
  by (rule direct_trans [OF direct_redactConfigMapData direct_trans
        [OF direct_redactQueryParameterFields direct_redactTerminationMessages]])

text \<open>A scalar under a key is left alone, replaced, or cut as a URL.\<close>

lemma redactCredentialFields_leaf: "is_leaf v \<Longrightarrow> redactCredentialFields v credentialFields r = (v, r)"
proof -
  assume "is_leaf v"
  then have "fold (\<lambda>field (node, r).
      let path = Split field CHR ''.''
      in resolveFieldPath (at_key (last path) redactValueOf) (butlast path) node r) fields (v, r) = (v, r)" for fields
    by (induction fields) (simp_all add: resolveFieldPath_leaf)
  then show ?thesis by (simp add: redactCredentialFields_def)
qed

lemma redactKey_leaf:
  assumes "is_leaf v" "\<not> isUrlField key"
  shows "fst (redactKey cd emb key v r) \<in> {v, DString redactedValue}"
  using assms
  by (cases v)
     (auto simp: redactKey_def redactValueOf_def redactHeaderValues_def redactHeaderValueIfPlausible_def
      redactEnvVarValues_def redactArgumentValues_def redactEnvVarValue_def replaceValueOf_def
      redactAnnotationValues_def redactCredentialFields_leaf split: option.split)

lemma walk_leaf [simp]: "is_leaf v \<Longrightarrow> walk cd emb v r = (v, r)"
  by (cases v) auto

lemma is_leaf_redactKey: "is_leaf (fst (redactKey cd emb key v r)) = is_leaf v"
  by (rule redaction_scalarValue [OF changeD [OF shape.change_redactKey]])

lemma is_leaf_walk: "is_leaf (fst (walk cd emb v r)) = is_leaf v"
  by (rule redaction_scalarValue [OF shape.change_walk])

lemma walk_values_ok:
  assumes "codecs_ok cd" "values_ok cd isBase64 Q v"
  shows "values_ok cd isBase64 Q (fst (walk cd emb v r))"
proof (cases v)
  case (DMap m)
  let ?m = "fst (redactResourceFields cd emb m r)"
  let ?step = "\<lambda>key v r. let (v1, r1) = redactKey cd emb key v r in walk cd emb v1 r1"
  let ?ok = "\<lambda>p. isUrlField (fst p) \<or> value_ok cd isBase64 Q (snd p)"
  have entry: "?ok q" if "direct_entry p q" "?ok p" for p q
    using that by (cases "snd q") (auto simp: direct_entry_def value_ok_def split: if_splits)
  have m: "list_all ?ok ?m"
    using list_all_redaction [of direct_entry m ?m ?ok, OF _ _ entry] direct_redactResourceFields [of m cd emb r] assms(2)
    by (simp add: DMap values_ok_def direct_def)
  have "?ok (k, fst (?step k v' r'))" if "(k, v') \<in> set ?m" for k v' r'
  proof (cases "is_leaf v'")
    case True
    then have "fst (?step k v' r') = fst (redactKey cd emb k v' r')"
      by (simp add: split_def Let_def is_leaf_redactKey)
    moreover have "?ok (k, v')" using m that by (auto simp: list_all_iff)
    ultimately show ?thesis
      using redactKey_leaf [OF True, of k cd emb r'] value_ok_redacted [OF assms(1)]
      by (cases "isUrlField k") auto
  next
    case False
    then have "\<not> is_leaf (fst (?step k v' r'))"
      by (simp add: split_def Let_def is_leaf_walk is_leaf_redactKey)
    then have "string_of (fst (?step k v' r')) = None" by (cases "fst (?step k v' r')") simp_all
    then show ?thesis by (simp add: value_ok_def)
  qed
  then have "list_all ?ok (fst (over_map ?step ?m (snd (redactResourceFields cd emb m r))))"
    by (intro over_map_all) blast
  then show ?thesis by (simp add: DMap values_ok_def split_def Let_def)
qed (simp_all add: values_ok_def)

section \<open>The walk\<close>

lemma redactKey_values_ok:
  assumes "codecs_roundtrip cd" "embedded_ok Q emb" "rd_err (snd (redactKey cd emb ''annotations'' v r)) = None"
  shows "values_ok cd False Q (fst (redactKey cd emb ''annotations'' v r))"
  using redactAnnotationValues_ok [OF assms(1,2)] assms(3) by (simp add: redactKey_def)

lemma redactKey_data:
  assumes "key \<in> {''kind'', ''data'', ''binaryData''}"
  shows "redactKey cd emb key v r = (v, r)"
proof -
  have "\<not> isUrlField ''kind''" "\<not> isUrlField ''data''" "\<not> isUrlField ''binaryData''"
    by code_simp+
  moreover have "map_of credentialFieldsPerConfigObject ''kind'' = None"
    "map_of credentialFieldsPerConfigObject ''data'' = None" "map_of credentialFieldsPerConfigObject ''binaryData'' = None"
    by code_simp+
  ultimately show ?thesis
    using assms by (elim insertE emptyE) (simp_all add: redactKey_def)
qed

lemma string_of_walk: "string_of (fst (walk cd emb v r)) = string_of v"
  by (cases v) (simp_all add: split_def Let_def)

lemma map_of_over_map:
  "rel_option (\<lambda>v w. \<exists>r'. w = fst (f k v r')) (map_of m k) (map_of (fst (over_map f m r)) k)"
proof (induction m arbitrary: r)
  case (Cons p m)
  then show ?case by (cases p) (auto simp: over_map_Cons)
qed simp

lemma config_map_ok_step:
  assumes "codecs_ok cd" "config_map_ok cd Q m"
  shows "config_map_ok cd Q (fst (over_map (\<lambda>key v r. let (v1, r1) = redactKey cd emb key v r in walk cd emb v1 r1) m r))"
    (is "config_map_ok cd Q ?n")
proof -
  have entry: "rel_option (\<lambda>v w. \<exists>r'. w = fst (walk cd emb v r')) (map_of m key) (map_of ?n key)"
    if "key \<in> {''kind'', ''data'', ''binaryData''}" for key
    using map_of_over_map [of "\<lambda>key v r. let (v1, r1) = redactKey cd emb key v r in walk cd emb v1 r1" key m r]
    by (simp add: redactKey_data [OF that])
  have "kind_of ?n = kind_of m"
    using entry [of "''kind''"] by (auto simp: kind_of_def string_of_walk option.rel_sel split: bind_splits)
  moreover have "at_key_all key (values_ok cd b Q) ?n"
    if "key \<in> {''data'', ''binaryData''}" "at_key_all key (values_ok cd b Q) m" for key b
    using entry [of key] that walk_values_ok [OF assms(1)]
    by (auto simp: at_key_all_def option.rel_sel split: option.splits)
  ultimately show ?thesis using assms(2) by (simp add: config_map_ok_def)
qed

lemma walk_embedded:
  assumes cd: "codecs_ok cd" "codecs_roundtrip cd" and emb: "embedded_ok Q emb"
    and "rd_err (snd (walk cd emb v r)) = None"
  shows "embedded cd Q (fst (walk cd emb v r))"
  using assms(4)
proof (induction v arbitrary: r rule: measure_induct_rule [of size])
  case (less v)
  show ?case
  proof (cases v)
    case (DList xs)
    have "counted grows (walk cd emb)" using emb by (simp add: embedded_ok_def growth.counted_walk)
    then have "list_all (embedded cd Q) (fst (over_list (walk cd emb) xs r))"
      using less DList size_in_list by (intro over_list_err) auto
    then show ?thesis by (simp add: DList list_all_iff)
  next
    case (DMap m)
    let ?p = "redactResourceFields cd emb m r"
    let ?step = "\<lambda>key v r. let (v1, r1) = redactKey cd emb key v r in walk cd emb v1 r1"
    let ?n = "over_map ?step (fst ?p) (snd ?p)"
    let ?ok = "\<lambda>p. (fst p = ''annotations'' \<longrightarrow> values_ok cd False Q (snd p)) \<and> embedded cd Q (snd p)"
    have result: "walk cd emb v r = map_prod DMap id ?n"
      by (simp add: DMap split_def Let_def)
    have c: "counted grows emb" using emb by (simp add: embedded_ok_def)
    have counted: "counted grows (?step key)" for key by (intro growth_counts c)
    have err: "rd_err (snd ?n) = None" using less.prems by (simp add: result)
    then have "rd_err (snd ?p) = None" by (rule grows_err [OF counted_grows [OF growth.counted_over_map [OF counted]]])
    then have "config_map_ok cd Q (fst ?p)" by (rule redactResourceFields_ok [OF cd emb])
    then have "config_map_ok cd Q (fst ?n)" by (rule config_map_ok_step [OF cd(1)])
    moreover have "?ok (key, fst (?step key v' r'))"
      if entry: "(key, v') \<in> set (fst ?p)" "rd_err (snd (?step key v' r')) = None" for key v' r'
    proof -
      let ?q = "redactKey cd emb key v' r'"
      have step: "?step key v' r' = walk cd emb (fst ?q) (snd ?q)" by (simp add: split_def Let_def)
      have "size (fst ?q) < size v"
        using size_in_map [OF entry(1)] size_redactResourceFields [of cd emb m r]
        by (simp add: DMap size_redactKey del: document.size)
      then have "embedded cd Q (fst (?step key v' r'))"
        using less.IH entry(2) by (simp add: step)
      moreover have "rd_err (snd ?q) = None"
        using entry(2) grows_err [OF counted_grows [OF growth.counted_walk [OF c]]] by (simp add: step)
      then have "values_ok cd False Q (fst (?step key v' r'))" if "key = ''annotations''"
        unfolding step using redactKey_values_ok [OF cd(2) emb] walk_values_ok [OF cd(1)] that by simp
      ultimately show ?thesis by simp
    qed
    then have "list_all ?ok (fst ?n)"
      by (rule over_map_err [OF counted err])
    ultimately show ?thesis by (simp add: result list_all_iff)
  qed simp_all
qed

lemma change_redactDocumentNodeRecursively: "change (\<lambda>_ _. True) (redactDocumentNodeRecursively cd n)"
  by (cases n) (simp_all add: change_def shape.change_walk)

lemma redactDocumentNodeRecursively_clean:
  "codecs_ok cd \<Longrightarrow> clean cd (fst (redactDocumentNodeRecursively cd n v r))"
  by (cases n) (simp_all add: walk_clean)

lemma redactDocumentNodeRecursively_deep:
  assumes "codecs_ok cd" "codecs_roundtrip cd" "rd_err (snd (redactDocumentNodeRecursively cd n v r)) = None"
  shows "deep_clean cd n (fst (redactDocumentNodeRecursively cd n v r))"
  using assms(3)
proof (induction n arbitrary: v r)
  case 0
  then show ?case using redactDocumentNodeRecursively_clean [OF assms(1), of 0 v r] by simp
next
  case (Suc n)
  have "embedded_ok (deep_clean cd n) (redactDocumentNodeRecursively cd n)"
    using Suc.IH change_redactDocumentNodeRecursively counted_redactDocumentNodeRecursively
    by (simp add: embedded_ok_def)
  from walk_embedded [OF assms(1,2) this] Suc.prems
    redactDocumentNodeRecursively_clean [OF assms(1), of "Suc n" v r] show ?case by simp
qed

end
