(* ===== verification/RedactionLevels.thy ===== *)
theory RedactionLevels
  imports RedactionDeep
begin

text \<open>
  The number of levels of documents within strings that a walk enters is bounded by the document: a string within a
  document that was parsed from a string nests fewer levels than that string. So the walk of the code,
  which enters every level, ends, and the model with enough levels does not run out of them.
\<close>

section \<open>The depth of nesting\<close>

text \<open>The depth of a string, for instance its length in characters. Only strings that hold a document count.\<close>

definition string_bounded :: "codecs \<Rightarrow> (string \<Rightarrow> nat) \<Rightarrow> nat \<Rightarrow> string \<Rightarrow> bool" where
  "string_bounded cd depth n s \<longleftrightarrow>
     depth s \<le> n \<or>
     parseConfigMapValue cd s = None \<and> (\<forall>c. cd_base64Decode cd s = Some c \<longrightarrow> parseConfigMapValue cd c = None)"

definition values_bounded :: "codecs \<Rightarrow> (string \<Rightarrow> nat) \<Rightarrow> nat \<Rightarrow> document \<Rightarrow> bool" where
  "values_bounded cd depth n v \<longleftrightarrow>
     (case v of DMap m \<Rightarrow> list_all (\<lambda>p. pred_option (string_bounded cd depth n) (string_of (snd p))) m | _ \<Rightarrow> True)"

function bounded :: "codecs \<Rightarrow> (string \<Rightarrow> nat) \<Rightarrow> nat \<Rightarrow> document \<Rightarrow> bool" where
  "bounded cd depth n (DMap m) \<longleftrightarrow>
     (\<forall>p \<in> set m. (fst p \<in> {''annotations'', ''data'', ''binaryData''} \<longrightarrow> values_bounded cd depth n (snd p)) \<and>
        bounded cd depth n (snd p))"
| "bounded cd depth n (DList xs) \<longleftrightarrow> (\<forall>x \<in> set xs. bounded cd depth n x)"
| "bounded cd depth n DNull \<longleftrightarrow> True"
| "bounded cd depth n (DBool b) \<longleftrightarrow> True"
| "bounded cd depth n (DNumber s) \<longleftrightarrow> True"
| "bounded cd depth n (DString s) \<longleftrightarrow> True"
  by pat_completeness auto
termination
  by (relation "measure (\<lambda>(cd, depth, n, node). size node)")
     (auto simp del: document.size dest: size_in_list size_in_map)

definition nests :: "codecs \<Rightarrow> (string \<Rightarrow> nat) \<Rightarrow> bool" where
  "nests cd depth \<longleftrightarrow>
     (\<forall>s ds format. parseConfigMapValue cd s = Some (ds, format) \<longrightarrow>
        (\<exists>n. depth s = Suc n \<and> (\<forall>d \<in> set ds. bounded cd depth n d))) \<and>
     (\<forall>s c. cd_base64Decode cd s = Some c \<longrightarrow> depth c \<le> depth s)"

lemma string_bounded_mono: "string_bounded cd depth n s \<Longrightarrow> n \<le> m \<Longrightarrow> string_bounded cd depth m s"
  by (auto simp: string_bounded_def)

lemma values_bounded_mono: "values_bounded cd depth n v \<Longrightarrow> n \<le> m \<Longrightarrow> values_bounded cd depth m v"
  unfolding values_bounded_def
  by (auto simp: list_all_iff split: document.splits elim!: option.pred_mono_strong intro: string_bounded_mono)

lemma bounded_mono: "bounded cd depth n v \<Longrightarrow> n \<le> m \<Longrightarrow> bounded cd depth m v"
  by (induction cd depth n v rule: bounded.induct) (auto intro: values_bounded_mono)

lemma values_bounded_exists: "\<exists>n. values_bounded cd depth n v"
proof (cases v)
  case (DMap m)
  have "\<exists>n. list_all (\<lambda>p. pred_option (string_bounded cd depth n) (string_of (snd p))) m"
  proof (induction m)
    case (Cons p m)
    then obtain n where n: "list_all (\<lambda>p. pred_option (string_bounded cd depth n) (string_of (snd p))) m" by blast
    let ?n = "max n (case string_of (snd p) of None \<Rightarrow> 0 | Some s \<Rightarrow> depth s)"
    have "list_all (\<lambda>p. pred_option (string_bounded cd depth ?n) (string_of (snd p))) m"
      using n by (auto simp: list_all_iff elim!: option.pred_mono_strong string_bounded_mono)
    then have "list_all (\<lambda>p. pred_option (string_bounded cd depth ?n) (string_of (snd p))) (p # m)"
      by (auto simp: string_bounded_def split: option.split)
    then show ?case by blast
  qed simp
  then show ?thesis by (simp add: DMap values_bounded_def)
qed (simp_all add: values_bounded_def)

lemma bounded_exists: "\<exists>n. bounded cd depth n v"
proof (induction v rule: measure_induct_rule [of size])
  case (less v)
  show ?case
  proof (cases v)
    case (DList xs)
    have "\<exists>n. \<forall>x \<in> set ys. bounded cd depth n x" if "set ys \<subseteq> set xs" for ys
      using that
    proof (induction ys)
      case (Cons y ys)
      then obtain n where "\<forall>x \<in> set ys. bounded cd depth n x" by auto
      moreover obtain k where "bounded cd depth k y"
        using less [of y] size_in_list [of y xs] Cons.prems DList by auto
      ultimately have "\<forall>x \<in> set (y # ys). bounded cd depth (max n k) x"
        by (auto intro: bounded_mono)
      then show ?case by blast
    qed simp
    then show ?thesis by (simp add: DList)
  next
    case (DMap m)
    let ?ok = "\<lambda>n p. (fst p \<in> {''annotations'', ''data'', ''binaryData''} \<longrightarrow> values_bounded cd depth n (snd p)) \<and>
        bounded cd depth n (snd p)"
    have "\<exists>n. \<forall>p \<in> set l. ?ok n p" if "set l \<subseteq> set m" for l
      using that
    proof (induction l)
      case (Cons p l)
      then obtain n where n: "\<forall>p \<in> set l. ?ok n p" by auto
      obtain k where k: "bounded cd depth k (snd p)"
        using less [of "snd p"] size_in_map [of "fst p" "snd p" m] Cons.prems DMap by auto
      obtain j where j: "values_bounded cd depth j (snd p)" using values_bounded_exists by blast
      let ?n = "max n (max k j)"
      have "?ok ?n q" if "q \<in> set l" for q
        using n that by (auto intro: bounded_mono values_bounded_mono)
      moreover have "?ok ?n p"
        using k j by (auto intro: bounded_mono values_bounded_mono)
      ultimately have "\<forall>q \<in> set (p # l). ?ok ?n q" by auto
      then show ?case by blast
    qed simp
    then show ?thesis by (simp add: DMap)
  qed simp_all
qed

section \<open>Steps that enter no documents in strings\<close>

definition same_level :: "redactor \<Rightarrow> redactor \<Rightarrow> bool" where
  "same_level r r' \<longleftrightarrow> rd_exhausted r' = rd_exhausted r"

interpretation level: redactor_order same_level
  by unfold_locales (auto simp: same_level_def redactor_add_def addWithoutStderrScrub_def redactor_fail_def)

lemma same_level: "counted same_level f \<Longrightarrow> rd_exhausted (snd (f x r)) = rd_exhausted r"
  by (simp add: counted_def counted_at_def same_level_def)

text \<open>Only the placeholder replaces scalars in these steps.\<close>

definition placeholder :: "document \<Rightarrow> document \<Rightarrow> bool" where
  "placeholder v w \<longleftrightarrow> w = v \<or> w = DString redactedValue"

interpretation replaced: leaf_change placeholder
  by unfold_locales (auto simp: placeholder_def)

lemma string_bounded_redacted: "codecs_ok cd \<Longrightarrow> string_bounded cd depth n redactedValue"
proof -
  assume "codecs_ok cd"
  moreover have "harmless cd (DString redactedValue)" by simp
  ultimately show ?thesis unfolding codecs_ok_def string_bounded_def by blast
qed

lemma replaced_values_bounded:
  assumes "codecs_ok cd" "redaction placeholder v w" "values_bounded cd depth n v"
  shows "values_bounded cd depth n w"
  using assms(2)
proof cases
  case (map l m)
  have "pred_option (string_bounded cd depth n) (string_of (snd q))"
    if "fst p = fst q \<and> redaction placeholder (snd p) (snd q)" "pred_option (string_bounded cd depth n) (string_of (snd p))"
    for p q :: "string \<times> document"
    using that string_bounded_redacted [OF assms(1)]
    by (cases "snd p"; cases "snd q") (auto simp: redaction_left placeholder_def)
  with map assms(3) show ?thesis
    by (auto simp: values_bounded_def elim: list_all_redaction)
qed (use assms(3) in \<open>auto simp: values_bounded_def elim: is_leaf.elims split: document.split\<close>)

lemma replaced_bounded:
  assumes "codecs_ok cd" "redaction placeholder v w" "bounded cd depth n v"
  shows "bounded cd depth n w"
  using assms(2,3)
proof (induction rule: redaction.induct)
  case (leaf v w)
  then show ?case by (cases w) auto
next
  case (list xs ys)
  then show ?case by (simp add: list_all2_conv_all_nth all_set_conv_all_nth)
next
  case (map l m)
  have "(fst q \<in> {''annotations'', ''data'', ''binaryData''} \<longrightarrow> values_bounded cd depth n (snd q)) \<and>
      bounded cd depth n (snd q)" if q: "q \<in> set m" for q
  proof -
    obtain p where p: "p \<in> set l" "fst p = fst q" "redaction placeholder (snd p) (snd q)"
      "bounded cd depth n (snd p) \<longrightarrow> bounded cd depth n (snd q)"
      using list_all2_set2 [OF map.IH q] by auto
    with map.prems have "bounded cd depth n (snd q)"
      "fst q \<in> {''annotations'', ''data'', ''binaryData''} \<longrightarrow> values_bounded cd depth n (snd p)"
      by simp_all
    with replaced_values_bounded [OF assms(1) p(3)] show ?thesis by blast
  qed
  then show ?case by simp
qed simp

section \<open>Steps that enter documents in strings\<close>

text \<open>A walk over documents that nest less deep than a string of depth \<open>n\<close> does not run out of levels.\<close>

definition emb_enough :: "codecs \<Rightarrow> (string \<Rightarrow> nat) \<Rightarrow> nat \<Rightarrow> embedded_walk \<Rightarrow> bool" where
  "emb_enough cd depth n emb \<longleftrightarrow>
     (\<forall>k d r. k < n \<and> bounded cd depth k d \<longrightarrow> rd_exhausted (snd (emb d r)) = rd_exhausted r)"

lemma over_list_level:
  assumes "\<And>x r. x \<in> set xs \<Longrightarrow> rd_exhausted (snd (f x r)) = rd_exhausted r"
  shows "rd_exhausted (snd (over_list f xs r)) = rd_exhausted r"
  using assms by (induction xs arbitrary: r) (simp_all add: over_list_Cons del: over_list.simps(2))

lemma over_map_level:
  assumes "\<And>k v r. (k, v) \<in> set m \<Longrightarrow> rd_exhausted (snd (f k v r)) = rd_exhausted r"
  shows "rd_exhausted (snd (over_map f m r)) = rd_exhausted r"
  using assms
proof (induction m arbitrary: r)
  case (Cons p m)
  then show ?case by (cases p) (simp add: over_map_Cons)
qed simp

lemma at_key_level:
  assumes "\<And>v r. (k, v) \<in> set m \<Longrightarrow> rd_exhausted (snd (f v r)) = rd_exhausted r"
  shows "rd_exhausted (snd (at_key k f m r)) = rd_exhausted r"
  using assms by (auto simp: at_key_def split_def Let_def dest: map_of_SomeD split: option.split)

lemma documents_level:
  assumes "nests cd depth" "emb_enough cd depth n emb" "string_bounded cd depth n s"
    and "parseConfigMapValue cd c = Some (ds, format)" "c = s \<or> cd_base64Decode cd s = Some c"
  shows "rd_exhausted (snd (over_list emb ds r)) = rd_exhausted r"
proof -
  have "depth s \<le> n"
    using assms(3-5) by (auto simp: string_bounded_def)
  moreover have "depth c \<le> depth s" using assms(1,5) by (auto simp: nests_def)
  moreover obtain k where "depth c = Suc k" "\<forall>d \<in> set ds. bounded cd depth k d"
    using assms(1,4) unfolding nests_def by blast
  ultimately have "k < n" "\<forall>d \<in> set ds. bounded cd depth k d" by simp_all
  then show ?thesis
    using assms(2) unfolding emb_enough_def by (intro over_list_level) blast
qed

lemma redactor_level [simp]:
  "rd_exhausted (redactor_add v r) = rd_exhausted r" "rd_exhausted (redactor_fail e r) = rd_exhausted r"
  by (simp_all add: redactor_add_def redactor_fail_def)

lemma redactAnnotationValue_level:
  assumes "nests cd depth" "emb_enough cd depth n emb" "pred_option (string_bounded cd depth n) (string_of v)"
  shows "rd_exhausted (snd (redactAnnotationValue cd emb name v r)) = rd_exhausted r"
proof (cases v)
  case (DString s)
  then show ?thesis
    using documents_level [OF assms(1,2), of s s] assms(3)
    by (auto simp: redactAnnotationValue_def split_def Let_def split: option.split sum.split)
qed (simp_all add: redactAnnotationValue_def)

lemma redactConfigMapValue_level:
  assumes "nests cd depth" "emb_enough cd depth n emb" "pred_option (string_bounded cd depth n) (string_of v)"
  shows "rd_exhausted (snd (redactConfigMapValue cd emb isBase64 v r)) = rd_exhausted r"
proof (cases v)
  case (DString s)
  have "rd_exhausted (snd (redactValueOf v r)) = rd_exhausted r" for v r
    by (rule same_level [OF level.counted_redactValueOf])
  then show ?thesis
    using documents_level [OF assms(1,2), of s] assms(3) DString
    by (auto simp: redactConfigMapValue_def split_def Let_def split: option.split sum.split)
qed (simp_all add: redactConfigMapValue_def)

lemma redactAnnotationValues_level:
  assumes "nests cd depth" "emb_enough cd depth n emb" "values_bounded cd depth n v"
  shows "rd_exhausted (snd (redactAnnotationValues cd emb v r)) = rd_exhausted r"
proof (cases v)
  case (DMap m)
  then show ?thesis
    using assms(3) redactAnnotationValue_level [OF assms(1,2)]
    by (simp add: redactAnnotationValues_def values_bounded_def list_all_iff) (rule over_map_level, auto)
qed (simp_all add: redactAnnotationValues_def)

lemma redactData_level:
  assumes "nests cd depth" "emb_enough cd depth n emb" "values_bounded cd depth n v"
  shows "rd_exhausted (snd (case v of
      DMap d \<Rightarrow> map_prod DMap id (over_map (\<lambda>_. redactConfigMapValue cd emb isBase64) d r) | _ \<Rightarrow> (v, r))) =
    rd_exhausted r"
proof (cases v)
  case (DMap m)
  then show ?thesis
    using assms(3) redactConfigMapValue_level [OF assms(1,2)]
    by (simp add: values_bounded_def list_all_iff) (rule over_map_level, auto)
qed simp_all

text \<open>Strings that are entries of a map can change without a change of what the map nests.\<close>

lemma bounded_direct_strings:
  assumes "bounded cd depth n (DMap m)"
    and "list_all2 (\<lambda>p q. fst p = fst q \<and> (snd q = snd p \<or> is_leaf (snd q))) m l"
  shows "bounded cd depth n (DMap l)"
proof -
  have "(fst q \<in> {''annotations'', ''data'', ''binaryData''} \<longrightarrow> values_bounded cd depth n (snd q)) \<and>
      bounded cd depth n (snd q)" if q: "q \<in> set l" for q
  proof -
    obtain p where "p \<in> set m" "fst p = fst q" "snd q = snd p \<or> is_leaf (snd q)"
      using list_all2_set2 [OF assms(2) q] by auto
    with assms(1) show ?thesis by (cases "snd q") (auto simp: values_bounded_def)
  qed
  then show ?thesis by simp
qed

lemma over_map_strings:
  assumes "\<And>k v r. fst (f k v r) = v \<or> is_leaf (fst (f k v r))"
  shows "list_all2 (\<lambda>p q. fst p = fst q \<and> (snd q = snd p \<or> is_leaf (snd q))) m (fst (over_map f m r))"
proof (induction m arbitrary: r)
  case (Cons p m)
  then show ?case using assms by (cases p) (simp add: over_map_Cons)
qed simp

lemma string_or_same:
  "fst (redactConfigMapValue cd emb isBase64 v r) = v \<or> is_leaf (fst (redactConfigMapValue cd emb isBase64 v r))"
  "fst (redactAnnotationValue cd emb name v r) = v \<or> is_leaf (fst (redactAnnotationValue cd emb name v r))"
  "fst (redactUrlParts cd v r) = v \<or> is_leaf (fst (redactUrlParts cd v r))"
  using redactConfigMapValue_string redactAnnotationValue_string redactUrlParts_string
  by (cases v; simp add: redactConfigMapValue_def redactAnnotationValue_def redactUrlParts_def; fail)+

section \<open>The walk\<close>

text \<open>What the steps on a map as a whole leave of the bound: the data of a config map has been dealt with.\<close>

definition children_bounded :: "codecs \<Rightarrow> (string \<Rightarrow> nat) \<Rightarrow> nat \<Rightarrow> (string \<times> document) list \<Rightarrow> bool" where
  "children_bounded cd depth n m \<longleftrightarrow>
     (\<forall>p \<in> set m. (fst p = ''annotations'' \<longrightarrow> values_bounded cd depth n (snd p)) \<and> bounded cd depth n (snd p))"

lemma set_at_key:
  "p \<in> set (fst (at_key k f m r)) \<Longrightarrow> p \<in> set m \<or> (\<exists>v. (k, v) \<in> set m \<and> p = (k, fst (f v r)))"
proof -
  have "p \<in> set (AList.update k w m) \<Longrightarrow> p \<in> set m \<or> p = (k, w)" for w
    by (induction m) (auto split: if_splits)
  then show "p \<in> set (fst (at_key k f m r)) \<Longrightarrow> ?thesis"
    by (auto simp: at_key_def split_def Let_def dest: map_of_SomeD split: option.splits)
qed

lemma redactConfigMapData_level:
  assumes "nests cd depth" "emb_enough cd depth n emb" "bounded cd depth n (DMap m)"
  shows "rd_exhausted (snd (redactConfigMapData cd emb m r)) = rd_exhausted r"
    and "children_bounded cd depth n (fst (redactConfigMapData cd emb m r))"
proof -
  define step where "step field = (\<lambda>v r. case v of
      DMap d \<Rightarrow> map_prod DMap id (over_map (\<lambda>_. redactConfigMapValue cd emb (field = ''binaryData'')) d r)
    | _ \<Rightarrow> (v, r))" for field
  have bounded: "bounded cd depth n (fst (step field v r))" if "bounded cd depth n v" for field v r
    using that bounded_direct_strings [OF _ over_map_strings [OF string_or_same(1)]]
    by (cases v) (simp_all add: step_def del: bounded.simps(1))
  have level: "rd_exhausted (snd (step field v r)) = rd_exhausted r" if "values_bounded cd depth n v" for field v r
    unfolding step_def by (rule redactData_level [OF assms(1,2) that])
  have data: "values_bounded cd depth n v" if "(''data'', v) \<in> set m \<or> (''binaryData'', v) \<in> set m" for v
    using assms(3) that by auto
  have children: "children_bounded cd depth n m" using assms(3) by (simp add: children_bounded_def)
  let ?p = "at_key ''data'' (step ''data'') m r"
  have result: "redactConfigMapData cd emb m r =
      (if kind_of m \<noteq> Some ''ConfigMap'' then (m, r) else at_key ''binaryData'' (step ''binaryData'') (fst ?p) (snd ?p))"
    by (simp add: redactConfigMapData_def configMapDataFields_def step_def split_def)
  have "rd_exhausted (snd ?p) = rd_exhausted r"
    by (rule at_key_level) (use level data in blast)
  moreover have "(''binaryData'', v) \<in> set m" if "(''binaryData'', v) \<in> set (fst ?p)" for v
    using set_at_key [OF that] by auto
  then have "rd_exhausted (snd (at_key ''binaryData'' (step ''binaryData'') (fst ?p) (snd ?p))) = rd_exhausted (snd ?p)"
    by (intro at_key_level) (use level data in blast)
  ultimately show "rd_exhausted (snd (redactConfigMapData cd emb m r)) = rd_exhausted r"
    by (simp add: result)
  have at: "children_bounded cd depth n (fst (at_key field (step field) l r))"
    if "children_bounded cd depth n l" "field \<noteq> ''annotations''" for field l r
    using that bounded unfolding children_bounded_def by (fastforce dest: set_at_key)
  show "children_bounded cd depth n (fst (redactConfigMapData cd emb m r))"
    using children at by (simp add: result)
qed

lemma replaced_children_bounded:
  assumes "codecs_ok cd" "redactionm placeholder m l" "children_bounded cd depth n m"
  shows "children_bounded cd depth n l"
proof -
  have "(fst q = ''annotations'' \<longrightarrow> values_bounded cd depth n (snd q)) \<and> bounded cd depth n (snd q)"
    if q: "q \<in> set l" for q
  proof -
    obtain p where p: "p \<in> set m" "fst p = fst q" "redaction placeholder (snd p) (snd q)"
      using list_all2_set2 [OF _ q] assms(2) unfolding redactionm_def by blast
    then have "bounded cd depth n (snd p)" "fst q = ''annotations'' \<longrightarrow> values_bounded cd depth n (snd p)"
      using assms(3) by (auto simp: children_bounded_def)
    then show ?thesis
      using replaced_bounded [OF assms(1) p(3)] replaced_values_bounded [OF assms(1) p(3)] by blast
  qed
  then show ?thesis by (simp add: children_bounded_def)
qed

lemma redactResourceFields_level:
  assumes "codecs_ok cd" "nests cd depth" "emb_enough cd depth n emb" "bounded cd depth n (DMap m)"
  shows "rd_exhausted (snd (redactResourceFields cd emb m r)) = rd_exhausted r"
    and "children_bounded cd depth n (fst (redactResourceFields cd emb m r))"
proof -
  let ?p = "redactConfigMapData cd emb m r"
  let ?q = "redactQueryParameterFields cd (fst ?p) (snd ?p)"
  have result: "redactResourceFields cd emb m r = redactTerminationMessages (fst ?q) (snd ?q)"
    by (simp add: redactResourceFields_def split_def Let_def)
  show "rd_exhausted (snd (redactResourceFields cd emb m r)) = rd_exhausted r"
    by (simp add: result same_level [OF level.counted_redactTerminationMessages]
        same_level [OF level.counted_redactQueryParameterFields] redactConfigMapData_level(1) [OF assms(2-4)])
  show "children_bounded cd depth n (fst (redactResourceFields cd emb m r))"
    unfolding result
    by (intro replaced_children_bounded [OF assms(1) changemD [OF replaced.changem_redactTerminationMessages]]
        replaced_children_bounded [OF assms(1) changemD [OF replaced.changem_redactQueryParameterFields]]
        redactConfigMapData_level(2) [OF assms(2-4)])
qed

lemma redactKey_level:
  assumes "nests cd depth" "emb_enough cd depth n emb" "key = ''annotations'' \<longrightarrow> values_bounded cd depth n v"
  shows "rd_exhausted (snd (redactKey cd emb key v r)) = rd_exhausted r"
  using assms redactAnnotationValues_level [OF assms(1,2)]
  by (simp add: redactKey_def split_def Let_def same_level [OF level.counted_redactValueOf]
      same_level [OF level.counted_redactHeaderValues] same_level [OF level.counted_redactEnvVarValues]
      same_level [OF level.counted_redactArgumentValues] same_level [OF level.counted_redactUrlParts]
      same_level [OF level.counted_redactCredentialFields] split: option.split)

lemma redactKey_bounded:
  assumes "codecs_ok cd" "bounded cd depth n v"
  shows "bounded cd depth n (fst (redactKey cd emb key v r))"
proof -
  have url: "bounded cd depth n (fst (redactUrlParts cd v r))"
    using assms(2) string_or_same(3) [of cd v r] by (cases "fst (redactUrlParts cd v r)") auto
  have annotations: "bounded cd depth n (fst (redactAnnotationValues cd emb v r))"
    using assms(2) bounded_direct_strings [OF _ over_map_strings [OF string_or_same(2)]]
    by (cases v) (simp_all add: redactAnnotationValues_def del: bounded.simps(1))
  have credentials: "bounded cd depth n (fst (redactCredentialFields w fields q))" if "bounded cd depth n w" for w fields q
    by (rule replaced_bounded [OF assms(1) changeD [OF replaced.change_redactCredentialFields] that])
  note rest = replaced_bounded [OF assms(1) changeD [OF replaced.change_redactValueOf] assms(2)]
    replaced_bounded [OF assms(1) changeD [OF replaced.change_redactHeaderValues] assms(2)]
    replaced_bounded [OF assms(1) changeD [OF replaced.change_redactEnvVarValues] assms(2)]
    replaced_bounded [OF assms(1) changeD [OF replaced.change_redactArgumentValues] assms(2)]
  show ?thesis
    by (simp add: redactKey_def split_def Let_def url annotations credentials rest assms(2) split: option.split)
qed

lemma walk_level:
  assumes "codecs_ok cd" "nests cd depth" "emb_enough cd depth n emb" "bounded cd depth n v"
  shows "rd_exhausted (snd (walk cd emb v r)) = rd_exhausted r"
  using assms(4)
proof (induction v arbitrary: r rule: measure_induct_rule [of size])
  case (less v)
  show ?case
  proof (cases v)
    case (DList xs)
    have "rd_exhausted (snd (over_list (walk cd emb) xs r)) = rd_exhausted r"
      by (rule over_list_level) (use less DList size_in_list in auto)
    then show ?thesis by (simp add: DList)
  next
    case (DMap m)
    let ?p = "redactResourceFields cd emb m r"
    let ?step = "\<lambda>key v r. let (v1, r1) = redactKey cd emb key v r in walk cd emb v1 r1"
    have p: "rd_exhausted (snd ?p) = rd_exhausted r" "children_bounded cd depth n (fst ?p)"
      using redactResourceFields_level [OF assms(1-3)] less.prems DMap by blast+
    have "rd_exhausted (snd (over_map ?step (fst ?p) (snd ?p))) = rd_exhausted (snd ?p)"
    proof (rule over_map_level)
      fix key v' r'
      assume entry: "(key, v') \<in> set (fst ?p)"
      let ?q = "redactKey cd emb key v' r'"
      have b: "bounded cd depth n v'" "key = ''annotations'' \<longrightarrow> values_bounded cd depth n v'"
        using p(2) entry by (auto simp: children_bounded_def)
      have "size (fst ?q) < size v"
        using size_in_map [OF entry] size_redactResourceFields [of cd emb m r]
        by (simp add: DMap size_redactKey del: document.size)
      then have "rd_exhausted (snd (walk cd emb (fst ?q) (snd ?q))) = rd_exhausted (snd ?q)"
        using less.IH redactKey_bounded [OF assms(1) b(1)] by blast
      then show "rd_exhausted (snd (?step key v' r')) = rd_exhausted r'"
        using redactKey_level [OF assms(2,3) b(2)] by (simp add: split_def Let_def)
    qed
    then show ?thesis using p(1) by (simp add: DMap split_def Let_def)
  qed simp_all
qed

lemma redactDocumentNodeRecursively_level:
  assumes "codecs_ok cd" "nests cd depth" "bounded cd depth n v"
  shows "rd_exhausted (snd (redactDocumentNodeRecursively cd n v r)) = rd_exhausted r"
  using assms(3)
proof (induction n arbitrary: v r)
  case 0
  have "emb_enough cd depth 0 (\<lambda>d r. (d, r\<lparr>rd_exhausted := True\<rparr>))" by (simp add: emb_enough_def)
  from walk_level [OF assms(1,2) this 0] show ?case by simp
next
  case (Suc n)
  have "emb_enough cd depth (Suc n) (redactDocumentNodeRecursively cd n)"
    using Suc.IH bounded_mono by (auto simp: emb_enough_def less_Suc_eq_le)
  from walk_level [OF assms(1,2) this Suc.prems] show ?case by simp
qed

end
