(* ===== verification/RedactionProps.thy ===== *)
theory RedactionProps
  imports RedactionLevels
begin

text \<open>
  The properties of the walk over a document, and codecs for a small language of documents on which their
  hypotheses hold.
\<close>

section \<open>Sample codecs\<close>

text \<open>
  Two kinds of documents: a token, and a resource with one annotation. The texts of the two are the value after
  a tag; the indented form has tags of its own and ends in a newline.
\<close>

fun sample_decode :: "string \<Rightarrow> (document \<times> string) option" where
  "sample_decode (c # k # t) =
     (if c \<noteq> CHR ''{'' then None
      else if k = CHR ''T'' then Some (DMap [(''token'', DString t)], [])
      else if k = CHR ''t'' then Some (DMap [(''token'', DString (butlast t))], [])
      else if k = CHR ''A'' then Some (DMap [(''annotations'', DMap [(''a'', DString t)])], [])
      else if k = CHR ''a'' then Some (DMap [(''annotations'', DMap [(''a'', DString (butlast t))])], [])
      else None)"
| "sample_decode _ = None"

fun sample_marshal :: "string \<Rightarrow> string \<Rightarrow> document \<Rightarrow> string + string" where
  "sample_marshal tokenTag annotationTag (DMap [(k, DString t)]) =
     (if k = ''token'' then Inr (tokenTag @ t) else Inl ''unsupported'')"
| "sample_marshal tokenTag annotationTag (DMap [(k, DMap [(j, DString t)])]) =
     (if k = ''annotations'' \<and> j = ''a'' then Inr (annotationTag @ t) else Inl ''unsupported'')"
| "sample_marshal tokenTag annotationTag _ = Inl ''unsupported''"

definition sample_codecs :: codecs where
  "sample_codecs =
     \<lparr>cd_unicodeLower = (\<lambda>s. s), cd_decodeJson = sample_decode,
      cd_marshalIndent = sample_marshal ''{t'' ''{a'', cd_marshal = sample_marshal ''{T'' ''{A'',
      cd_YAMLToJSON = (\<lambda>_. None), cd_yamlMarshal = (\<lambda>_. Inl ''unsupported''), cd_yamlDocuments = (\<lambda>_. None),
      cd_base64Decode = Some, cd_base64Encode = (\<lambda>s. s), cd_urlParse = (\<lambda>_. None), cd_QueryUnescape = Some\<rparr>"

lemma sample_sel [simp]:
  "cd_marshalIndent sample_codecs = sample_marshal ''{t'' ''{a''" "cd_marshal sample_codecs = sample_marshal ''{T'' ''{A''"
  "cd_base64Decode sample_codecs = Some" "cd_base64Encode sample_codecs s = s" "cd_unicodeLower sample_codecs s = s"
  by (simp_all add: sample_codecs_def)

lemma sample_parse:
  "parseConfigMapValue sample_codecs s =
     (case sample_decode s of None \<Rightarrow> None | Some (d, _) \<Rightarrow> Some ([d], outputFormatJson))"
  by (cases s rule: sample_decode.cases)
     (auto simp: parseConfigMapValue_def unmarshalPreservingNumbers_def parseYamlDocuments_def sample_codecs_def)

lemma sample_decode_Some:
  assumes "sample_decode s = Some (d, rest)"
  shows "\<exists>t. length t < length s \<and> (d = DMap [(''token'', DString t)] \<or> d = DMap [(''annotations'', DMap [(''a'', DString t)])])"
proof -
  obtain c k t where s: "s = c # k # t" using assms by (cases s rule: sample_decode.cases) auto
  have "length (butlast t) < length s" "length t < length s" by (simp_all add: s)
  then show ?thesis using assms unfolding s by (auto split: if_splits)
qed

lemma sample_codecs_ok: "codecs_ok sample_codecs"
proof -
  have "sample_decode s = None" if "harmless sample_codecs (DString s)" for s
  proof (rule ccontr)
    assume "sample_decode s \<noteq> None"
    then obtain k t where s: "s = CHR ''{'' # k # t"
      by (cases s rule: sample_decode.cases) (auto split: if_splits)
    have "list_all (\<lambda>w. CHR ''{'' \<notin> set w) wellKnownNonSecretValues" by code_simp
    moreover have "ascii_lower (CHR ''{'') = CHR ''{''" by code_simp
    ultimately have "\<not> isWellKnownNonSecretValue sample_codecs s"
      by (auto simp: s isWellKnownNonSecretValue_def ToLower_def sample_codecs_def list_all_iff)
    with that show False by (simp add: s harmless_string redactedValue_def)
  qed
  then show ?thesis by (simp add: codecs_ok_def sample_parse)
qed

lemma sample_render:
  assumes "d = DMap [(''token'', w)] \<or> d = DMap [(''annotations'', DMap [(''a'', w)])]" "is_leaf w"
    and "Inr s \<in> {renderConfigMapValue sample_codecs outputFormatJson [d], renderAnnotationValue sample_codecs outputFormatJson [d]}"
  shows "map_option fst (parseConfigMapValue sample_codecs s) = Some [d]"
  using assms
  by (cases w)
     (auto simp: renderConfigMapValue_def renderAnnotationValue_def renderResponseDocument_def sample_parse)

lemma sample_codecs_roundtrip: "codecs_roundtrip sample_codecs"
proof -
  have "map_option fst (parseConfigMapValue sample_codecs s) = Some ds"
    if parse: "parseConfigMapValue sample_codecs s0 = Some (ds0, format)"
      and related: "list_all2 (redaction (\<lambda>_ _. True)) ds0 ds"
      and render: "Inr s \<in> {renderConfigMapValue sample_codecs format ds, renderAnnotationValue sample_codecs format ds}"
    for s0 ds0 format ds s
  proof -
    obtain d rest where d: "sample_decode s0 = Some (d, rest)" "ds0 = [d]" "format = outputFormatJson"
      using parse by (auto simp: sample_parse split: option.splits)
    obtain d' where d': "ds = [d']" "redaction (\<lambda>_ _. True) d d'"
      using related d(2) by (auto simp: list_all2_Cons1)
    obtain t where "d = DMap [(''token'', DString t)] \<or> d = DMap [(''annotations'', DMap [(''a'', DString t)])]"
      using sample_decode_Some [OF d(1)] by blast
    with d'(2) obtain w where "is_leaf w" "d' = DMap [(''token'', w)] \<or> d' = DMap [(''annotations'', DMap [(''a'', w)])]"
      by (fastforce simp: redaction_left list_all2_Cons1)
    with sample_render render show ?thesis by (simp add: d d')
  qed
  then show ?thesis by (auto simp: codecs_roundtrip_def)
qed

lemma sample_codecs_nests: "nests sample_codecs length"
proof -
  have "\<exists>n. length s = Suc n \<and> (\<forall>d \<in> set ds. bounded sample_codecs length n d)"
    if parse: "parseConfigMapValue sample_codecs s = Some (ds, format)" for s ds format
  proof -
    obtain d rest where d: "sample_decode s = Some (d, rest)" "ds = [d]"
      using parse by (auto simp: sample_parse split: option.splits)
    from sample_decode_Some [OF d(1)] obtain t where "length t < length s"
      "d = DMap [(''token'', DString t)] \<or> d = DMap [(''annotations'', DMap [(''a'', DString t)])]" by blast
    then show ?thesis
      by (cases "length s") (auto simp: d(2) values_bounded_def string_bounded_def)
  qed
  then show ?thesis by (simp add: nests_def)
qed

section \<open>Properties\<close>

text \<open>
  C37: The walk only replaces scalar values: the redacted document has the same maps with the same keys in the same
  places, the same lists with the same lengths, and a scalar where the document has a scalar.
\<close>

theorem redaction_keeps_shape:
  "redaction (\<lambda>_ _. True) d (fst (redactDocumentNodeRecursively cd n d r))"
  by (rule changeD [OF change_redactDocumentNodeRecursively])

text \<open>
  The count of replacements tells whether a walk changed a document: a document that is not counted as
  changed is unchanged. The code relies on it when it renders a value again only if the count has grown.
\<close>

theorem uncounted_unchanged:
  "rd_count r < rd_count (snd (redactDocumentNodeRecursively cd n d r)) \<or>
   rd_count (snd (redactDocumentNodeRecursively cd n d r)) = rd_count r \<and>
   fst (redactDocumentNodeRecursively cd n d r) = d"
  using counted_redactDocumentNodeRecursively [of cd n]
  by (metis counted_at_def counted_def le_neq_implies_less)



text \<open>
  C36: The walk ends: documents within strings are nested finitely often, as a string in a document is less deep than the
  string that the document was parsed from. So there is a number of levels from which on the walk
  enters all documents there are.
\<close>

theorem walk_ends:
  assumes "codecs_ok cd" "nests cd depth"
  shows "\<exists>n. \<forall>m r. n \<le> m \<longrightarrow> rd_exhausted (snd (redactDocumentNodeRecursively cd m d r)) = rd_exhausted r"
  using bounded_exists [of cd depth d] bounded_mono redactDocumentNodeRecursively_level [OF assms] by meson

theorem walk_ends_witness:
  "\<exists>n. \<forall>m r. n \<le> m \<longrightarrow> rd_exhausted (snd (redactDocumentNodeRecursively sample_codecs m
      (DMap [(''annotations'', DMap [(''a'', DString ''{A{A{T42'')])]) r)) = rd_exhausted r"
  using walk_ends [OF sample_codecs_ok sample_codecs_nests] by blast

end
