(* ===== verification/KubectlPolicy.thy ===== *)
theory KubectlPolicy
  imports KubectlValidation
begin

text \<open>
  What the validation of command requests guarantees. \<open>request_policy\<close> states the rules for a request
  without the order of the checks; the validation accepts exactly the requests that follow it. The
  further properties are about the guard of secrets for every spelling of the resource type, about
  the commands that the configuration enables, and about responses that have to be redacted.
\<close>

section \<open>Responses that have to be redacted\<close>

definition responseHasToBeRedacted :: "kubectl_lib \<Rightarrow> kubectlArguments \<Rightarrow> bool" where
  "responseHasToBeRedacted lib p =
     (if ka_kubectlCommand p \<noteq> kubectlCommandGet then False else \<not> outputIsContentFree lib p)"

section \<open>The policy\<close>

definition sort_path_ok :: "AllowedKubectlCommands \<Rightarrow> string list \<Rightarrow> bool" where
  "sort_path_ok allowed path \<longleftrightarrow>
     (prefix [''metadata''] path \<or> prefix [''status''] path) \<and>
     \<not> prefix [''metadata'', ''annotations''] path \<and>
     (Allows allowed ''logs'' \<or>
      list_all (\<lambda>message. \<not> prefix path message \<and> \<not> prefix message path) terminationMessageSortByPaths)"

definition request_policy ::
  "kubectl_lib \<Rightarrow> CommandRequest \<Rightarrow> AllowedKubectlCommands \<Rightarrow> kubectlArguments \<Rightarrow> bool" where
  "request_policy lib req allowed p \<longleftrightarrow>
     \<not> ka_hasEndOfFlagsSeparator p \<and>
     (\<forall>flag\<in>set (ka_flags p). flag_longName flag \<in> set allowedFlags) \<and>
     kl_GetLogVerbosity lib (kubectlCommand # req_Arguments req) = ''0'' \<and>
     (\<forall>argument\<in>set (req_Arguments req). argument \<noteq> ''--kuberc'' \<and> \<not> Contains argument ''--kuberc='') \<and>
     (ka_kubectlCommand p = '''' \<or>
      ka_kubectlCommand p \<in> set supportedKubectlCommands - {''describe''} \<and>
      Allows allowed (ka_kubectlCommand p)) \<and>
     (ka_kubectlCommand p = ''auth'' \<longrightarrow> ka_subcommand p = ''can-i'') \<and>
     (ka_kubectlCommand p = ''cluster-info'' \<longrightarrow> ka_subcommand p = '''') \<and>
     (ka_kubectlCommand p = ''get'' \<longrightarrow>
      Allows allowed ''events'' \<or> set (ka_resourceTypes p) \<inter> {''event'', ''events'', ''ev''} = {}) \<and>
     valueOf p ''template'' = None \<and>
     (\<forall>v. valueOf p ''output'' = Some v \<longrightarrow>
        normalizeOutputFormat lib v \<in> {'''', ''name'', ''wide'', ''json'', ''yaml''} \<and>
        (normalizeResourceType lib ` set (ka_resourceTypes p) \<inter> {''secret'', ''secrets''} \<noteq> {} \<longrightarrow>
         normalizeOutputFormat lib v \<in> {'''', ''name'', ''wide''})) \<and>
     (ka_kubectlCommand p = ''get'' \<longrightarrow>
      (\<forall>e. valueOf p ''sort-by'' = Some e \<longrightarrow> pred_option (sort_path_ok allowed) (parseSortByPath lib e) \<and>
         parseSortByPath lib e \<noteq> None))"

section \<open>The checks, one by one\<close>

lemma firstRejection_None: "firstRejection checks = None \<longleftrightarrow> (\<forall>c\<in>set checks. c = None)"
  by (induction checks rule: firstRejection.induct) auto

lemma firstRejection_split:
  "firstRejection (c # checks) = None \<longleftrightarrow> c = None \<and> firstRejection checks = None"
  by (cases c) auto

lemma executable_ok: "disallowedExecutableRequested req = None \<longleftrightarrow> req_Command req = kubectlCommand"
  by (auto simp: disallowedExecutableRequested_def kubectlCommand_def)

lemma flags_ok:
  "disallowedFlagRequested p = None \<longleftrightarrow>
     \<not> ka_hasEndOfFlagsSeparator p \<and> (\<forall>flag\<in>set (ka_flags p). flag_longName flag \<in> set allowedFlags)"
  by (auto simp: disallowedFlagRequested_def find_None_iff)

lemma verbosity_ok:
  "hiddenLogVerbosityRequested lib req = None \<longleftrightarrow>
     kl_GetLogVerbosity lib (kubectlCommand # req_Arguments req) = ''0''"
  by (simp add: hiddenLogVerbosityRequested_def Let_def)

lemma kuberc_ok:
  "hiddenKubercRequested req = None \<longleftrightarrow>
     (\<forall>argument\<in>set (req_Arguments req). argument \<noteq> ''--kuberc'' \<and> \<not> Contains argument ''--kuberc='')"
  by (auto simp: hiddenKubercRequested_def find_None_iff)

lemma command_ok:
  "disallowedKubectlCommandRequested p allowed = None \<longleftrightarrow>
     ka_kubectlCommand p = '''' \<or>
     ka_kubectlCommand p \<in> set supportedKubectlCommands - {''describe''} \<and>
     Allows allowed (ka_kubectlCommand p)"
  by (auto simp: disallowedKubectlCommandRequested_def unconditionallyRejectedKubectlCommands_def Let_def)

lemma subcommand_ok:
  "disallowedSubcommandRequested p = None \<longleftrightarrow>
     (ka_kubectlCommand p = ''auth'' \<longrightarrow> ka_subcommand p = ''can-i'') \<and>
     (ka_kubectlCommand p = ''cluster-info'' \<longrightarrow> ka_subcommand p = '''')"
  by (auto simp: disallowedSubcommandRequested_def allowedSubcommandsPerKubectlCommand_def)

lemma events_ok:
  "eventsReadViaGetRequested p allowed = None \<longleftrightarrow>
     (ka_kubectlCommand p = ''get'' \<longrightarrow>
      Allows allowed ''events'' \<or> set (ka_resourceTypes p) \<inter> {''event'', ''events'', ''ev''} = {})"
  by (auto simp: eventsReadViaGetRequested_def kubectlCommandGet_def kubectlCommandEvents_def
      eventResourceTypes_def list_ex_iff)

lemma handling_content_free:
  "handling_of format = outputFormatContentFree \<longleftrightarrow> format \<in> {'''', ''name'', ''wide''}"
  by (simp add: handling_of_def knownOutputFormats_def goTemplateOutputFormat_def)

lemma handling_redactable: "handling_of format = outputFormatRedactable \<longleftrightarrow> format \<in> {''json'', ''yaml''}"
  by (simp add: handling_of_def knownOutputFormats_def goTemplateOutputFormat_def)

lemma handling_template: "handling_of goTemplateOutputFormat = outputFormatUnredactable"
  by (simp add: handling_of_def knownOutputFormats_def goTemplateOutputFormat_def)

lemma content_free_iff:
  "outputIsContentFree lib p \<longleftrightarrow>
     valueOf p ''template'' = None \<and>
     (\<forall>v. valueOf p ''output'' = Some v \<longrightarrow> normalizeOutputFormat lib v \<in> {'''', ''name'', ''wide''})"
  by (auto simp: outputIsContentFree_def hasTemplateFlag_def outputFormat_def handling_content_free
      split: option.splits)

lemma findSomeD: "find P xs = Some x \<Longrightarrow> P x \<and> x \<in> set xs"
  by (auto simp: find_Some_iff)

lemma sensitive_iff:
  "targetedSensitiveResource lib p = None \<longleftrightarrow>
     normalizeResourceType lib ` set (ka_resourceTypes p) \<inter> {''secret'', ''secrets''} = {}"
proof -
  have "targetedSensitiveResource lib p = None \<longleftrightarrow>
      find (\<lambda>t. lookupSensitiveResourceType lib t \<noteq> None) (ka_resourceTypes p) = None"
    by (cases "find (\<lambda>t. lookupSensitiveResourceType lib t \<noteq> None) (ka_resourceTypes p)")
      (auto simp: targetedSensitiveResource_def dest: findSomeD)
  also have "\<dots> \<longleftrightarrow> (\<forall>t\<in>set (ka_resourceTypes p). normalizeResourceType lib t \<notin> {''secret'', ''secrets''})"
    by (auto simp: find_None_iff lookupSensitiveResourceType_def sensitiveResourceTypes_def)
  finally show ?thesis by blast
qed

lemma sensitive_ok:
  "sensitiveContentRequested lib p = None \<longleftrightarrow>
     (normalizeResourceType lib ` set (ka_resourceTypes p) \<inter> {''secret'', ''secrets''} \<noteq> {} \<longrightarrow>
      outputIsContentFree lib p)"
  unfolding sensitive_iff[symmetric] by (auto simp: sensitiveContentRequested_def split: option.splits)

lemma unsupportedFormat_None:
  "unsupportedFormat formats = None \<longleftrightarrow>
     (\<forall>f\<in>set formats. handling_of f = outputFormatContentFree \<or> handling_of f = outputFormatRedactable)"
  by (induction formats) (auto split: outputFormatHandling.splits)

lemma handling_known:
  "handling_of format = outputFormatContentFree \<or> handling_of format = outputFormatRedactable \<longleftrightarrow>
     format \<in> {'''', ''name'', ''wide'', ''json'', ''yaml''}"
  unfolding handling_content_free handling_redactable by blast

lemma format_ok:
  "unsupportedOutputFormatRequested lib p = None \<longleftrightarrow>
     valueOf p ''template'' = None \<and>
     (\<forall>v. valueOf p ''output'' = Some v \<longrightarrow>
        normalizeOutputFormat lib v \<in> {'''', ''name'', ''wide'', ''json'', ''yaml''})"
proof -
  have "unsupportedOutputFormatRequested lib p = None \<longleftrightarrow> \<not> hasTemplateFlag p \<and>
      (\<forall>f. outputFormat lib p = Some f \<longrightarrow>
         handling_of f = outputFormatContentFree \<or> handling_of f = outputFormatRedactable)"
    unfolding unsupportedOutputFormatRequested_def unsupportedFormat_None
    by (cases "outputFormat lib p") (auto simp: handling_template)
  then show ?thesis
    unfolding handling_known by (auto simp: hasTemplateFlag_def outputFormat_def)
qed

lemma below_iff_prefix: "isSortByPathBelow path pre \<longleftrightarrow> prefix pre path"
  by (metis isSortByPathBelow_def append_eq_conv_conj prefix_def prefix_length_le)

lemma sort_by_ok:
  "unsafeSortByRequested lib p = None \<and> terminationMessageSortByRequested lib p allowed = None \<longleftrightarrow>
     (ka_kubectlCommand p = ''get'' \<longrightarrow>
      (\<forall>e. valueOf p ''sort-by'' = Some e \<longrightarrow> pred_option (sort_path_ok allowed) (parseSortByPath lib e) \<and>
         parseSortByPath lib e \<noteq> None))"
proof (cases "ka_kubectlCommand p = ''get''")
  case False
  then show ?thesis
    by (simp add: unsafeSortByRequested_def terminationMessageSortByRequested_def kubectlCommandGet_def)
next
  case get: True
  show ?thesis
  proof (cases "valueOf p ''sort-by''")
    case None
    then show ?thesis by (simp add: unsafeSortByRequested_def terminationMessageSortByRequested_def)
  next
    case (Some e)
    have "(unsafeSortByRequested lib p = None) = sortByExpressionIsSafe lib e"
      using get Some by (simp add: unsafeSortByRequested_def kubectlCommandGet_def)
    with get Some show ?thesis
      by (cases "parseSortByPath lib e")
        (auto simp: terminationMessageSortByRequested_def kubectlCommandGet_def kubectlCommandLogs_def
          sortByExpressionIsSafe_def below_iff_prefix safeSortByPathPrefixes_def unsafeSortByPathPrefix_def
          sort_path_ok_def list_ex_iff list_all_iff)
  qed
qed

lemma validate_Inr_iff:
  "validateCommandAndParseArguments lib req allowed = Inr p \<longleftrightarrow>
     req_Command req = kubectlCommand \<and> parseKubectlArguments lib (req_Arguments req) = Inr p \<and>
     firstRejection
       [disallowedFlagRequested p, hiddenLogVerbosityRequested lib req, hiddenKubercRequested req,
        disallowedKubectlCommandRequested p allowed, disallowedSubcommandRequested p,
        eventsReadViaGetRequested p allowed, sensitiveContentRequested lib p,
        unsupportedOutputFormatRequested lib p, unsafeSortByRequested lib p,
        terminationMessageSortByRequested lib p allowed] = None"
  unfolding validateCommandAndParseArguments_def executable_ok[symmetric]
  by (auto split: option.splits sum.splits)

lemmas checks_ok = flags_ok verbosity_ok kuberc_ok command_ok subcommand_ok events_ok

text \<open>With a supported output format, the guard of secrets only has to look at the format.\<close>

lemma sensitive_format_ok:
  "sensitiveContentRequested lib p = None \<and> unsupportedOutputFormatRequested lib p = None \<longleftrightarrow>
     valueOf p ''template'' = None \<and>
     (\<forall>v. valueOf p ''output'' = Some v \<longrightarrow>
        normalizeOutputFormat lib v \<in> {'''', ''name'', ''wide'', ''json'', ''yaml''} \<and>
        (normalizeResourceType lib ` set (ka_resourceTypes p) \<inter> {''secret'', ''secrets''} \<noteq> {} \<longrightarrow>
         normalizeOutputFormat lib v \<in> {'''', ''name'', ''wide''}))"
  unfolding sensitive_ok format_ok content_free_iff by blast

section \<open>Spellings of resource types\<close>

text \<open>
  The ways to write the resource type of secrets that kubectl or the API server might accept: singular or
  plural, in any case, padded with blanks, and with an API group or version behind a dot.
\<close>

definition secret_spelling :: "string \<Rightarrow> bool" where
  "secret_spelling t \<longleftrightarrow>
     (\<exists>pad name tail. t = pad @ name @ tail \<and> list_all is_blank pad \<and>
        map ascii_lower name \<in> {''secret'', ''secrets''} \<and> list_all is_ascii tail \<and>
        (tail = [] \<or> hd tail = CHR ''.'' \<or> list_all is_blank tail))"

text \<open>
  A list of positional arguments refers to secrets: in the first one, or as a part of a pair of type and
  name in any of them, possibly within a list separated by commas.
\<close>

definition mentions_secret :: "string list \<Rightarrow> bool" where
  "mentions_secret args \<longleftrightarrow>
     (\<exists>i<length args. \<exists>part\<in>set (Split (args ! i) CHR '',''). (i = 0 \<or> CHR ''/'' \<in> set part) \<and>
        secret_spelling (takeWhile (\<lambda>c. c \<noteq> CHR ''/'') part))"

text \<open>The letters of the two names, in either case; checked for all 256 bytes.\<close>

lemma secret_letters:
  "list_all (\<lambda>c. ascii_lower c \<in> set ''secrets'' \<longrightarrow> c \<in> set ''CERSTcerst'') Enum.enum"
  "list_all (\<lambda>c. is_ascii c \<and> plain_char c \<and> c \<noteq> CHR ''.'') ''CERSTcerst''"
  by code_simp+

lemma ascii_lower_letter:
  "ascii_lower c \<in> set ''secrets'' \<Longrightarrow> is_ascii c \<and> plain_char c \<and> c \<noteq> CHR ''.''"
  using secret_letters unfolding list_all_iff enum_UNIV by blast

lemma secret_names:
  "s \<in> {''secret'', ''secrets''} \<Longrightarrow> set s \<subseteq> set ''secrets'' \<and> CHR ''.'' \<notin> set s"
  by (elim insertE emptyE; hypsubst; code_simp)

lemma takeWhile_stop: "c \<notin> set xs \<Longrightarrow> ys = [] \<or> hd ys = c \<Longrightarrow> takeWhile (\<lambda>x. x \<noteq> c) (xs @ ys) = xs"
  by (induction xs) (cases ys; auto)+

lemma normalize_secret:
  assumes "secret_spelling t"
  shows "normalizeResourceType lib t \<in> {''secret'', ''secrets''}"
proof -
  obtain pad name tail where t: "t = pad @ name @ tail" "list_all is_blank pad"
    "map ascii_lower name \<in> {''secret'', ''secrets''}" "list_all is_ascii tail"
    "tail = [] \<or> hd tail = CHR ''.'' \<or> list_all is_blank tail"
    using assms unfolding secret_spelling_def by (elim exE conjE) (rule that)
  have letters: "is_ascii c \<and> plain_char c \<and> c \<noteq> CHR ''.''" if "c \<in> set name" for c
  proof -
    from that have "ascii_lower c \<in> set (map ascii_lower name)" by simp
    with secret_names[OF t(3)] have "ascii_lower c \<in> set ''secrets''" by blast
    then show ?thesis by (rule ascii_lower_letter)
  qed
  have "name \<noteq> []" using t(3) by (cases name) simp_all
  then obtain tail' where tail': "TrimSpace t = name @ tail'" "prefix tail' tail"
    "tail' = [] \<or> \<not> is_blank (last tail')"
    unfolding t(1) using t(2) letters by (metis TrimSpace_core hd_in_set last_in_set)
  have "list_all is_ascii (name @ tail')"
    using letters t(4) tail'(2) by (auto simp: list_all_iff prefix_def)
  then have lower: "ToLower (kl_unicodeLower lib) (TrimSpace t) = map ascii_lower name @ map ascii_lower tail'"
    by (simp add: tail'(1) ToLower_def)
  have "tail' = [] \<or> hd tail' = CHR ''.''"
  proof (cases "list_all is_blank tail")
    case True
    with tail'(2) have "list_all is_blank tail'" by (auto simp: list_all_iff prefix_def)
    with tail'(3) show ?thesis by (metis last_in_set list_all_iff)
  next
    case False
    with t(5) tail'(2) show ?thesis by (cases tail') (auto simp: prefix_def)
  qed
  moreover have "ascii_lower (CHR ''.'') = CHR ''.''" by (simp add: ascii_lower_def in_range_def)
  moreover have "CHR ''.'' \<notin> set (map ascii_lower name)" using secret_names[OF t(3)] by blast
  ultimately have "takeWhile (\<lambda>c. c \<noteq> CHR ''.'') (map ascii_lower name @ map ascii_lower tail') = map ascii_lower name"
    by (intro takeWhile_stop) (auto simp: hd_map)
  with t(3) lower show ?thesis by (simp add: normalizeResourceType_def)
qed

lemma normalize_fixed: "t \<in> {''secret'', ''secrets''} \<Longrightarrow> normalizeResourceType lib t = t"
proof -
  have "TrimSpace ''secret'' = ''secret''" "TrimSpace ''secrets'' = ''secrets''" by code_simp+
  moreover assume "t \<in> {''secret'', ''secrets''}"
  ultimately show ?thesis
    by (auto simp: normalizeResourceType_def ToLower_def is_ascii_def ascii_lower_def in_range_def)
qed

lemma mentions_secret_types:
  assumes "mentions_secret args"
  shows "set (positionalResourceTypes lib args) \<inter> {''secret'', ''secrets''} \<noteq> {}"
proof -
  from assms obtain i part where i: "i < length args" "part \<in> set (Split (args ! i) CHR '','')"
    "i = 0 \<or> CHR ''/'' \<in> set part" "secret_spelling (takeWhile (\<lambda>c. c \<noteq> CHR ''/'') part)"
    unfolding mentions_secret_def by blast
  let ?t = "normalizeResourceType lib (takeWhile (\<lambda>c. c \<noteq> CHR ''/'') part)"
  have "?t \<in> set (extractNormalizedResourceTypes lib (args ! i) (i = 0))"
    unfolding extractNormalizedResourceTypes_def using i(2,3)
    by (auto simp: Cut_def intro!: bexI[of _ part])
  moreover have "(i, args ! i) \<in> set (enumerate 0 args)" using i(1) by (simp add: in_set_enumerate_eq)
  ultimately have "?t \<in> set (positionalResourceTypes lib args)"
    unfolding positionalResourceTypes_def by (auto intro!: bexI[of _ "(i, args ! i)"])
  with normalize_secret[OF i(4)] show ?thesis by blast
qed

lemma parsed_resource_types:
  "parseKubectlArguments lib args = Inr p \<Longrightarrow>
     ka_resourceTypes p = positionalResourceTypes lib (ka_positionalArguments p)"
  by (auto simp: parseKubectlArguments_def Let_def split: sum.splits)

section \<open>The configured allowlist\<close>

definition can_be_enabled :: "string \<Rightarrow> bool" where
  "can_be_enabled c \<longleftrightarrow>
     c \<in> {''api-resources'', ''auth'', ''api-versions'', ''cluster-info'', ''events'', ''explain'', ''get'',
          ''logs'', ''top'', ''version''}"

lemma can_be_enabled_iff:
  "can_be_enabled c \<longleftrightarrow>
     \<not> (c \<notin> set supportedKubectlCommands \<or> c \<in> set unconditionallyRejectedKubectlCommands)"
  by (auto simp: can_be_enabled_def supportedKubectlCommands_def unconditionallyRejectedKubectlCommands_def)

lemma supported_shape:
  "list_all (\<lambda>c. c \<noteq> [] \<and> TrimSpace c = c \<and> CHR '','' \<notin> set c \<and> list_all plain_char c) supportedKubectlCommands"
  by code_simp

lemma can_be_enabled_shape:
  "can_be_enabled c \<Longrightarrow> c \<noteq> [] \<and> TrimSpace c = c \<and> CHR '','' \<notin> set c \<and> list_all plain_char c"
  using supported_shape unfolding can_be_enabled_iff list_all_iff by blast

lemma collectAllowedCommands_Cons:
  "collectAllowedCommands (e # es) commands invalid =
     (if TrimSpace e = [] then Inl AllowlistEmptyEntry
      else if can_be_enabled (TrimSpace e)
      then collectAllowedCommands es (List.insert (TrimSpace e) commands) invalid
      else collectAllowedCommands es commands (invalid @ [TrimSpace e]))"
  by (simp add: can_be_enabled_iff Let_def)

lemma collectAllowedCommands_Inr:
  "collectAllowedCommands entries commands invalid = Inr (commands', invalid') \<longleftrightarrow>
     [] \<notin> set (map TrimSpace entries) \<and>
     commands' = fold List.insert (filter can_be_enabled (map TrimSpace entries)) commands \<and>
     invalid' = invalid @ filter (\<lambda>c. \<not> can_be_enabled c) (map TrimSpace entries)"
  by (induction entries arbitrary: commands invalid)
    (auto simp: collectAllowedCommands_Cons simp del: collectAllowedCommands.simps(2))

lemma ParseAllowed_iff:
  "ParseAllowedKubectlCommands value = Inr a \<longleftrightarrow>
     list_all can_be_enabled (map TrimSpace (Split value CHR '','')) \<and>
     a = \<lparr>akc_commands = fold List.insert (map TrimSpace (Split value CHR '','')) [],
          akc_humanReadable = renderAllowedKubectlCommandsHumanReadable
            (sort (fold List.insert (map TrimSpace (Split value CHR '','')) []))\<rparr>"
proof -
  let ?entries = "map TrimSpace (Split value CHR '','')"
  have set_insert: "set (fold List.insert cs []) = set cs" for cs :: "string list"
  proof -
    have "set (fold List.insert cs acc) = set cs \<union> set acc" for acc :: "string list"
      by (induction cs arbitrary: acc) auto
    then show ?thesis by simp
  qed
  have nonempty: "TrimSpace value \<noteq> []" if enabled: "list_all can_be_enabled ?entries"
  proof -
    obtain e es where split: "Split value CHR '','' = e # es" by (cases "Split value CHR '',''") auto
    with enabled have c: "TrimSpace e \<noteq> []" "list_all plain_char (TrimSpace e)"
      using can_be_enabled_shape[of "TrimSpace e"] by auto
    then have "hd (TrimSpace e) \<in> set e" "plain_char (hd (TrimSpace e))"
      using set_mono_sublist[OF TrimSpace_sublist[of e]] hd_in_set[OF c(1)] by (auto simp: list_all_iff)
    moreover have "set e \<subseteq> set value"
      using Join_Split[of "value" "CHR '',''"] Contains_Join[of e "Split value CHR '',''" "'',''"] split
      by (auto simp: Contains_def dest: set_mono_sublist)
    ultimately show ?thesis using TrimSpace_keeps_plain[of "hd (TrimSpace e)" "value"] by auto
  qed
  have "list_all can_be_enabled ?entries \<longleftrightarrow> filter (\<lambda>c. \<not> can_be_enabled c) ?entries = []"
    by (auto simp: list_all_iff filter_empty_conv)
  moreover have "filter can_be_enabled ?entries = ?entries" if "list_all can_be_enabled ?entries"
    using that by (auto simp: list_all_iff filter_id_conv)
  moreover have "[] \<notin> set ?entries" if "list_all can_be_enabled ?entries"
    using that can_be_enabled_shape[of "[]"] by (auto simp: list_all_iff)
  moreover have "fold List.insert ?entries [] \<noteq> []" using set_insert[of ?entries] by force
  moreover have "collectAllowedCommands (Split value CHR '','') [] [] =
      Inr (fold List.insert (filter can_be_enabled ?entries) [], filter (\<lambda>c. \<not> can_be_enabled c) ?entries)"
    if "[] \<notin> set ?entries"
    using that by (simp add: collectAllowedCommands_Inr)
  ultimately show ?thesis
    unfolding ParseAllowedKubectlCommands_def
    using nonempty
    by (cases "collectAllowedCommands (Split value CHR '','') [] []")
      (auto simp: collectAllowedCommands_Inr split: if_splits)
qed

lemma fold_insert_set: "set (fold List.insert cs acc) = set cs \<union> set acc"
  by (induction cs arbitrary: acc) auto

lemma fold_insert_distinct: "distinct acc \<Longrightarrow> distinct (fold List.insert cs acc)"
  by (induction cs arbitrary: acc) auto

lemma fold_insert_rev: "distinct (cs @ acc) \<Longrightarrow> fold List.insert cs acc = rev cs @ acc"
  by (induction cs arbitrary: acc) (auto simp: List.insert_def)

lemma ParseAllowed_commands:
  assumes "ParseAllowedKubectlCommands value = Inr a"
  shows "set (akc_commands a) = TrimSpace ` set (Split value CHR '','')" and "distinct (akc_commands a)"
    and "list_all can_be_enabled (akc_commands a)" and "akc_commands a \<noteq> []"
    and "akc_humanReadable a = renderAllowedKubectlCommandsHumanReadable (sort (akc_commands a))"
proof -
  let ?entries = "map TrimSpace (Split value CHR '','')"
  have a: "list_all can_be_enabled ?entries" "akc_commands a = fold List.insert ?entries []"
    "akc_humanReadable a = renderAllowedKubectlCommandsHumanReadable (sort (akc_commands a))"
    using assms unfolding ParseAllowed_iff by simp_all
  show set: "set (akc_commands a) = TrimSpace ` set (Split value CHR '','')"
    unfolding a(2) fold_insert_set by simp
  show "distinct (akc_commands a)" unfolding a(2) by (simp add: fold_insert_distinct)
  show "list_all can_be_enabled (akc_commands a)" using a(1) set by (simp add: list_all_iff)
  show "akc_commands a \<noteq> []" using set by (metis Split_ne_Nil image_is_empty set_empty)
  show "akc_humanReadable a = renderAllowedKubectlCommandsHumanReadable (sort (akc_commands a))" by (rule a(3))
qed

section \<open>Properties\<close>

text \<open>
  C22: The validation accepts a request exactly if it invokes kubectl, kubectl's own parser accepts the
  arguments, and they follow the policy: no flag outside the allowlist, no log verbosity or kuberc
  file smuggled into an argument, only enabled read-only commands with their allowed subcommands,
  events only where they are enabled, no secret in a format that shows its content, no template, and
  only sort expressions that cannot observe what is redacted.
\<close>

theorem validate_iff_policy:
  "validateCommandAndParseArguments lib req allowed = Inr p \<longleftrightarrow>
     req_Command req = ''kubectl'' \<and> parseKubectlArguments lib (req_Arguments req) = Inr p \<and>
     request_policy lib req allowed p"
  unfolding validate_Inr_iff firstRejection_split checks_ok request_policy_def kubectlCommand_def
    sort_by_ok[symmetric] firstRejection.simps
  using sensitive_format_ok[of lib p] by argo


text \<open>
  C23: However the resource type of secrets is spelled, an accepted request that refers to secrets asks
  for no output format that shows their content: none at all, or one of \<open>name\<close> and \<open>wide\<close>, and no
  template.
\<close>

theorem secret_contents_guarded:
  assumes "validateCommandAndParseArguments lib req allowed = Inr p"
    and "mentions_secret (ka_positionalArguments p)"
  shows "valueOf p ''template'' = None \<and>
         (\<forall>v. valueOf p ''output'' = Some v \<longrightarrow> normalizeOutputFormat lib v \<in> {'''', ''name'', ''wide''})"
proof -
  have "ka_resourceTypes p = positionalResourceTypes lib (ka_positionalArguments p)"
    using assms(1) unfolding validate_Inr_iff by (blast intro: parsed_resource_types)
  with mentions_secret_types[OF assms(2), of lib] obtain t where
    "t \<in> set (ka_resourceTypes p)" "t \<in> {''secret'', ''secrets''}" by auto
  with normalize_fixed[of t lib] have
    "normalizeResourceType lib ` set (ka_resourceTypes p) \<inter> {''secret'', ''secrets''} \<noteq> {}" by blast
  moreover have "sensitiveContentRequested lib p = None \<and> unsupportedOutputFormatRequested lib p = None"
    using assms(1) unfolding validate_Inr_iff firstRejection_split by blast
  ultimately show ?thesis unfolding sensitive_format_ok by blast
qed

text \<open>
  A configuration of the libraries for examples: every argument that starts with two dashes is a flag with
  its value behind an equals sign, the first other argument is the command, and a sort expression is a
  path of fields.
\<close>

definition sample_flag :: "string \<Rightarrow> pflag" where
  "sample_flag argument =
     \<lparr>pf_Name = drop 2 (takeWhile (\<lambda>c. c \<noteq> CHR ''='') argument), pf_Shorthand = [],
      pf_NoOptDefVal = [], pf_DefValue = [], pf_Value = drop 1 (dropWhile (\<lambda>c. c \<noteq> CHR ''='') argument),
      pf_Changed = True\<rparr>"

definition sample_lib :: kubectl_lib where
  "sample_lib =
     \<lparr>kl_unicodeLower = id,
      kl_TraverseChildren = False,
      kl_Find = (\<lambda>args. case args of
          [] \<Rightarrow> Inr (cobra_Command ''kubectl'' None False [], [])
        | cmd # rest \<Rightarrow>
            Inr (cobra_Command cmd (Some (cobra_Command ''kubectl'' None False [])) False [], rest)),
      kl_Parse = (\<lambda>_ _ args.
        Inr \<lparr>fs_Args = filter (\<lambda>a. \<not> prefix ''--'' a) args, fs_ArgsLenAtDash = - 1,
             fs_Visited = map sample_flag (filter (prefix ''--'') args)\<rparr>),
      kl_GetLogVerbosity = (\<lambda>_. ''0''),
      kl_RelaxedJSONPathExpression = Some,
      kl_jsonpathParse = (\<lambda>e. Some [ListNode (map FieldNode (tl (Split e CHR ''.'')))])\<rparr>"

definition sample_allowed :: AllowedKubectlCommands where
  "sample_allowed = \<lparr>akc_commands = [''get'', ''auth''], akc_humanReadable = []\<rparr>"

theorem secret_contents_guarded_witness:
  "\<exists>p. validateCommandAndParseArguments sample_lib
          \<lparr>req_RequestId = [], req_Command = ''kubectl'', req_Arguments = [''get'', ''pods'', ''SECRETS.v1/x'', ''--output=name'']\<rparr>
          sample_allowed = Inr p \<and>
       valueOf p ''template'' = None \<and> normalizeOutputFormat sample_lib ''name'' \<in> {'''', ''name'', ''wide''}"
proof -
  let ?req = "\<lparr>req_RequestId = [], req_Command = ''kubectl'',
    req_Arguments = [''get'', ''pods'', ''SECRETS.v1/x'', ''--output=name'']\<rparr>"
  let ?p = "\<lparr>ka_kubectlCommand = ''get'', ka_subcommand = [],
    ka_flags = [\<lparr>flag_longName = ''output'', flag_shorthand = [], flag_value = ''name''\<rparr>],
    ka_hasEndOfFlagsSeparator = False, ka_resourceTypes = [''pods'', ''secrets''],
    ka_positionalArguments = [''pods'', ''SECRETS.v1/x'']\<rparr>"
  have accepted: "validateCommandAndParseArguments sample_lib ?req sample_allowed = Inr ?p" by code_simp
  have "secret_spelling ''SECRETS.v1''"
    unfolding secret_spelling_def
    by (rule exI[of _ "[]"], rule exI[of _ "''SECRETS''"], rule exI[of _ "''.v1''"]) code_simp
  then have "mentions_secret (ka_positionalArguments ?p)"
    unfolding mentions_secret_def by (intro exI[of _ 1]) simp
  from secret_contents_guarded[OF accepted this] accepted show ?thesis
    by (simp add: valueOf_def)
qed


text \<open>
  Only commands that the configuration enables run: the command of an accepted request is one of the
  entries of the configured list, and never one outside of the ten read-only commands; a request
  without a command is the only exception.
\<close>

theorem accepted_command_enabled:
  assumes "ParseAllowedKubectlCommands value = Inr allowed"
    and "validateCommandAndParseArguments lib req allowed = Inr p"
  shows "ka_kubectlCommand p = '''' \<or>
         ka_kubectlCommand p \<in> TrimSpace ` set (Split value CHR '','') \<and> can_be_enabled (ka_kubectlCommand p)"
proof -
  note allowed = ParseAllowed_commands[OF assms(1)]
  have "ka_kubectlCommand p = '''' \<or> Allows allowed (ka_kubectlCommand p)"
    using assms(2) unfolding validate_Inr_iff firstRejection_split command_ok by blast
  with allowed(1,3) show ?thesis by (auto simp: Allows_def list_all_iff)
qed

theorem accepted_command_enabled_witness:
  "\<exists>allowed p. ParseAllowedKubectlCommands ''get, top'' = Inr allowed \<and>
     validateCommandAndParseArguments sample_lib
       \<lparr>req_RequestId = [], req_Command = ''kubectl'', req_Arguments = [''get'', ''pods'']\<rparr> allowed = Inr p \<and>
     can_be_enabled (ka_kubectlCommand p)"
proof -
  let ?a = "\<lparr>akc_commands = [''top'', ''get''], akc_humanReadable =
    renderAllowedKubectlCommandsHumanReadable [''get'', ''top'']\<rparr>"
  let ?p = "\<lparr>ka_kubectlCommand = ''get'', ka_subcommand = [], ka_flags = [], ka_hasEndOfFlagsSeparator = False,
    ka_resourceTypes = [''pods''], ka_positionalArguments = [''pods'']\<rparr>"
  have a: "ParseAllowedKubectlCommands ''get, top'' = Inr ?a" by code_simp
  have p: "validateCommandAndParseArguments sample_lib
      \<lparr>req_RequestId = [], req_Command = ''kubectl'', req_Arguments = [''get'', ''pods'']\<rparr> ?a = Inr ?p"
    by code_simp
  show ?thesis using accepted_command_enabled[OF a p] a p by fastforce
qed

text \<open>
  C24: The response to an accepted request is one that can be handed out: where it has to be redacted, the
  request asks for one of the two formats that the redaction can parse. The branch of the redaction
  that withholds a response for its format is therefore never taken.
\<close>

theorem accepted_response_parseable:
  assumes "validateCommandAndParseArguments lib req allowed = Inr p" and "responseHasToBeRedacted lib p"
  shows "parseableOutputFormat lib p \<in> {Some ''json'', Some ''yaml''}"
proof -
  from assms(2) have "\<not> outputIsContentFree lib p"
    by (auto simp: responseHasToBeRedacted_def split: if_splits)
  moreover have "valueOf p ''template'' = None" and
    "\<And>v. valueOf p ''output'' = Some v \<Longrightarrow>
       normalizeOutputFormat lib v \<in> {'''', ''name'', ''wide'', ''json'', ''yaml''}"
    using assms(1) unfolding validate_Inr_iff firstRejection_split format_ok by blast+
  ultimately show ?thesis
    unfolding content_free_iff
    by (auto simp: parseableOutputFormat_def hasTemplateFlag_def outputFormat_def parseableOutputFormats_def)
qed

theorem accepted_response_parseable_witness:
  "\<exists>p. validateCommandAndParseArguments sample_lib
         \<lparr>req_RequestId = [], req_Command = ''kubectl'', req_Arguments = [''get'', ''pods'', ''--output= JSON '']\<rparr>
         sample_allowed = Inr p \<and>
       parseableOutputFormat sample_lib p \<in> {Some ''json'', Some ''yaml''}"
proof -
  let ?p = "\<lparr>ka_kubectlCommand = ''get'', ka_subcommand = [],
    ka_flags = [\<lparr>flag_longName = ''output'', flag_shorthand = [], flag_value = '' JSON ''\<rparr>],
    ka_hasEndOfFlagsSeparator = False, ka_resourceTypes = [''pods''], ka_positionalArguments = [''pods'']\<rparr>"
  have p: "validateCommandAndParseArguments sample_lib
      \<lparr>req_RequestId = [], req_Command = ''kubectl'', req_Arguments = [''get'', ''pods'', ''--output= JSON '']\<rparr>
      sample_allowed = Inr ?p"
    by code_simp
  moreover have "responseHasToBeRedacted sample_lib ?p" by code_simp
  ultimately show ?thesis using accepted_response_parseable by blast
qed

text \<open>
  The allowlist makes the round trip through its printed form: parsing what \<open>String\<close> renders gives an
  allowlist that allows the same commands and renders the same two texts.
\<close>

theorem allowlist_roundtrip:
  assumes "ParseAllowedKubectlCommands value = Inr a"
  shows "\<exists>a'. ParseAllowedKubectlCommands (AllowedKubectlCommands_String a) = Inr a' \<and>
              Allows a' = Allows a \<and> akc_humanReadable a' = akc_humanReadable a \<and>
              AllowedKubectlCommands_String a' = AllowedKubectlCommands_String a"
proof -
  let ?cs = "sort (akc_commands a)"
  note a = ParseAllowed_commands[OF assms]
  have shape: "c \<noteq> [] \<and> TrimSpace c = c \<and> CHR '','' \<notin> set c" if "c \<in> set ?cs" for c
    using can_be_enabled_shape[of c] a(3) that by (auto simp: list_all_iff)
  have "?cs \<noteq> []" using a(4) by (metis set_empty set_sort)
  then have "Split (Join ?cs [CHR '','']) CHR '','' = ?cs"
    using shape by (intro Split_Join) auto
  then have entries: "map TrimSpace (Split (AllowedKubectlCommands_String a) CHR '','') = ?cs"
    using map_idI[of ?cs TrimSpace] shape by (simp add: AllowedKubectlCommands_String_def)
  moreover have "fold List.insert ?cs [] = rev ?cs" using fold_insert_rev[of ?cs "[]"] a(2) by simp
  moreover have "sort (rev ?cs) = ?cs" by (rule sorted_distinct_set_unique) (simp_all add: a(2))
  ultimately have "ParseAllowedKubectlCommands (AllowedKubectlCommands_String a) =
      Inr \<lparr>akc_commands = rev ?cs, akc_humanReadable = renderAllowedKubectlCommandsHumanReadable ?cs\<rparr>"
    using a(3) unfolding ParseAllowed_iff by (simp add: list_all_iff)
  moreover note \<open>sort (rev ?cs) = ?cs\<close>
  ultimately show ?thesis
    by (simp add: a(5) Allows_def fun_eq_iff AllowedKubectlCommands_String_def)
qed

theorem allowlist_roundtrip_witness:
  "\<exists>a a'. ParseAllowedKubectlCommands '' get ,auth'' = Inr a \<and>
     ParseAllowedKubectlCommands (AllowedKubectlCommands_String a) = Inr a' \<and> Allows a' = Allows a"
proof -
  have "ParseAllowedKubectlCommands '' get ,auth'' =
      Inr \<lparr>akc_commands = [''auth'', ''get''], akc_humanReadable =
            renderAllowedKubectlCommandsHumanReadable [''auth'', ''get'']\<rparr>"
    by code_simp
  with allowlist_roundtrip[OF this] show ?thesis by blast
qed

end
