(* ===== verification/KubectlExecution.thy ===== *)
theory KubectlExecution
  imports KubectlValidation KubernetesVersion
begin

text \<open>
  Running kubectl for a command request: the capture of its output, its environment and its exit code, as
  in \<open>kubectl.go\<close> of \<open>images/agent0-connector/src/kubectl\<close>. The process itself is a parameter: what it
  writes to the two streams, in chunks, and how it ends.
\<close>

section \<open>Limits and exit codes\<close>

definition maxStdoutBytes :: nat where
  "maxStdoutBytes = 3 * 1024 * 1024"

definition maxStderrBytes :: nat where
  "maxStderrBytes = 256 * 1024"

definition exitCodeRejected :: int where
  "exitCodeRejected = 1"

definition exitCodeNotExecutable :: int where
  "exitCodeNotExecutable = 127"

definition exitCodeTimedOut :: int where
  "exitCodeTimedOut = - 1"

section \<open>The capped buffer\<close>

record cappedBuffer =
  cb_limit :: nat
  cb_buf :: string
  cb_truncated :: bool

definition newCappedBuffer :: "nat \<Rightarrow> cappedBuffer" where
  "newCappedBuffer limit = \<lparr>cb_limit = limit, cb_buf = [], cb_truncated = False\<rparr>"

text \<open>\<open>Write\<close> returns the number of bytes it was given, whatever it keeps.\<close>

definition cappedBuffer_Write :: "cappedBuffer \<Rightarrow> string \<Rightarrow> cappedBuffer \<times> nat" where
  "cappedBuffer_Write c p =
     (let remaining = int (cb_limit c) - int (length (cb_buf c))
      in (if 0 < remaining
          then if remaining < int (length p)
               then c\<lparr>cb_buf := cb_buf c @ take (nat remaining) p, cb_truncated := True\<rparr>
               else c\<lparr>cb_buf := cb_buf c @ p\<rparr>
          else if 0 < length p then c\<lparr>cb_truncated := True\<rparr>
          else c,
          length p))"

definition cappedBuffer_String :: "cappedBuffer \<Rightarrow> string" where
  "cappedBuffer_String c = cb_buf c"

section \<open>Texts\<close>

definition appendLine :: "string \<Rightarrow> string \<Rightarrow> string" where
  "appendLine existing line = (if existing = [] then line else existing @ [CHR 0x0A] @ line)"

definition truncationNotice :: "nat \<Rightarrow> string" where
  "truncationNotice limit = ''[dash0 agent0-connector truncated the output at '' @ showInt (int limit) @ '' bytes]''"

definition withTruncationNotice :: "string \<Rightarrow> nat \<Rightarrow> string" where
  "withTruncationNotice output limit = appendLine output (truncationNotice limit)"

section \<open>Running kubectl\<close>

text \<open>How \<open>cmd.Run\<close> ends: without an error, with an exit code, or because kubectl could not be started.\<close>

datatype run_error = ExitError int | NotStarted string

definition kubectlEnvPassThrough :: "string list" where
  "kubectlEnvPassThrough =
     [''KUBERNETES_SERVICE_HOST'', ''KUBERNETES_SERVICE_PORT'',
      ''HTTP_PROXY'', ''HTTPS_PROXY'', ''NO_PROXY'', ''http_proxy'', ''https_proxy'', ''no_proxy'',
      ''SSL_CERT_FILE'', ''SSL_CERT_DIR'', ''PATH'']"

definition kubectlEnv :: "(string \<Rightarrow> string option) \<Rightarrow> string \<Rightarrow> string list" where
  "kubectlEnv LookupEnv kubectlTmpDir =
     concat (map (\<lambda>name. case LookupEnv name of Some v \<Rightarrow> [name @ ''='' @ v] | None \<Rightarrow> [])
       kubectlEnvPassThrough) @
     [''HOME='' @ kubectlTmpDir, ''KUBERC=off'']"

type_synonym kubectl_process =
  "string list \<Rightarrow> string list \<Rightarrow> string list \<times> string list \<times> run_error option"
  \<comment> \<open>environment and arguments to the chunks on the two streams and the error\<close>

definition runKubectl ::
  "kubectl_process \<Rightarrow> string list \<Rightarrow> string list \<Rightarrow> nat \<Rightarrow> nat \<Rightarrow>
   cappedBuffer \<times> cappedBuffer \<times> run_error option" where
  "runKubectl kubectl env arguments stdoutLimit stderrLimit =
     (let (stdoutChunks, stderrChunks, err) = kubectl env arguments
      in (foldl (\<lambda>b p. fst (cappedBuffer_Write b p)) (newCappedBuffer stdoutLimit) stdoutChunks,
          foldl (\<lambda>b p. fst (cappedBuffer_Write b p)) (newCappedBuffer stderrLimit) stderrChunks,
          err))"

text \<open>The exit code of a process is an \<open>int\<close> in Go, converted to 32 bits for the response.\<close>

definition to_int32 :: "int \<Rightarrow> int" where
  "to_int32 i = (i + 2 ^ 31) mod 2 ^ 32 - 2 ^ 31"

definition postProcessRunResult :: "run_error option \<Rightarrow> bool \<Rightarrow> int \<times> string" where
  "postProcessRunResult err timedOut =
     (if timedOut then (exitCodeTimedOut, ''dash0 agent0-connector aborted kubectl after the 30s timeout'')
      else case err of
             None \<Rightarrow> (0, [])
           | Some (ExitError code) \<Rightarrow> (to_int32 code, [])
           | Some (NotStarted msg) \<Rightarrow>
               (exitCodeNotExecutable, ''dash0 agent0-connector failed to execute kubectl: '' @ msg))"

definition commandErrorType :: "int \<Rightarrow> bool \<Rightarrow> string option" where
  "commandErrorType exitCode timedOut =
     (if timedOut then Some ''TimedOut'' else if exitCode \<noteq> 0 then Some ''NonZeroExitCode'' else None)"

section \<open>Contract of a writer with a limit\<close>

text \<open>
  A sink keeps what it is given up to a limit. The laws determine what it holds after any sequence of
  writes, however the output is cut into chunks.
\<close>

locale capped_sink =
  fixes limit :: "'b \<Rightarrow> nat"
    and content :: "'b \<Rightarrow> string"
    and truncated :: "'b \<Rightarrow> bool"
    and emit :: "'b \<Rightarrow> string \<Rightarrow> 'b"
  assumes limit_emit: "limit (emit b p) = limit b"
    and content_emit: "length (content b) \<le> limit b \<Longrightarrow> content (emit b p) = take (limit b) (content b @ p)"
    and truncated_emit: "length (content b) \<le> limit b \<Longrightarrow>
      truncated (emit b p) \<longleftrightarrow> truncated b \<or> limit b < length (content b) + length p"
begin

lemma writes:
  assumes "length (content b) \<le> limit b"
  shows "limit (foldl emit b ps) = limit b"
    and "content (foldl emit b ps) = take (limit b) (content b @ concat ps)"
    and "truncated (foldl emit b ps) \<longleftrightarrow> truncated b \<or> limit b < length (content b @ concat ps)"
proof -
  have "limit (foldl emit b ps) = limit b \<and>
      content (foldl emit b ps) = take (limit b) (content b @ concat ps) \<and>
      (truncated (foldl emit b ps) \<longleftrightarrow> truncated b \<or> limit b < length (content b @ concat ps))"
    using assms
  proof (induction ps arbitrary: b)
    case Nil
    then show ?case by auto
  next
    case (Cons p ps)
    have "length (content (emit b p)) \<le> limit (emit b p)"
      using Cons.prems by (simp add: content_emit limit_emit)
    from Cons.IH[OF this] Cons.prems show ?case
      by (auto simp: content_emit limit_emit truncated_emit min_def)
  qed
  then show "limit (foldl emit b ps) = limit b"
    and "content (foldl emit b ps) = take (limit b) (content b @ concat ps)"
    and "truncated (foldl emit b ps) \<longleftrightarrow> truncated b \<or> limit b < length (content b @ concat ps)"
    by blast+
qed

end

interpretation capped: capped_sink cb_limit cb_buf cb_truncated "\<lambda>b p. fst (cappedBuffer_Write b p)"
  by unfold_locales (auto simp: cappedBuffer_Write_def Let_def nat_diff_distrib')

lemma writes_newCappedBuffer:
  "foldl (\<lambda>b p. fst (cappedBuffer_Write b p)) (newCappedBuffer k) ps =
     \<lparr>cb_limit = k, cb_buf = take k (concat ps), cb_truncated = (k < length (concat ps))\<rparr>"
  using capped.writes[of "newCappedBuffer k" ps]
  by (intro cappedBuffer.equality) (simp_all add: newCappedBuffer_def)

section \<open>Properties\<close>

text \<open>
  C25: What the connector captures of the output of kubectl is a prefix of what kubectl wrote, exactly the
  first bytes up to the limit, and it is marked as truncated exactly if there was more, however the
  process cuts its output into writes.
\<close>

theorem runKubectl_captures:
  "runKubectl kubectl env arguments n m =
     (case kubectl env arguments of
        (out, err, e) \<Rightarrow>
          (\<lparr>cb_limit = n, cb_buf = take n (concat out), cb_truncated = (n < length (concat out))\<rparr>,
           \<lparr>cb_limit = m, cb_buf = take m (concat err), cb_truncated = (m < length (concat err))\<rparr>, e))"
  by (simp add: runKubectl_def writes_newCappedBuffer split: prod.splits)

end
