(* ===== verification/KubectlResponse.thy ===== *)
theory KubectlResponse
  imports RedactionProps KubectlPolicy KubectlExecution
begin

text \<open>
  A command request from end to end: \<open>ExecuteCommandRequest\<close> of \<open>kubectl.go\<close> and
  \<open>redactSecretsInResponse\<close> of \<open>redaction.go\<close>. A request is validated, kubectl runs, its output is parsed, redacted
  and rendered again, and a response that cannot be redacted is withheld. The reasons that the connector
  reports on stderr itself are kept as values.
\<close>

section \<open>Redacting a response\<close>

definition yamlDocumentSeparator :: string where
  "yamlDocumentSeparator = ''---''"

definition hasYamlDocumentSeparator :: "string \<Rightarrow> bool" where
  "hasYamlDocumentSeparator stdout =
     list_ex (\<lambda>line. let trimmed = TrimRight line [CHR '' '', CHR 0x09, CHR 0x0D]
                     in trimmed = yamlDocumentSeparator \<or> HasPrefix trimmed (yamlDocumentSeparator @ '' ''))
       (Split stdout (CHR 0x0A))"

definition parseResponseDocument :: "codecs \<Rightarrow> string \<Rightarrow> string \<Rightarrow> document option" where
  "parseResponseDocument cd format stdout =
     (if format = outputFormatJson then unmarshalPreservingNumbers cd stdout
      else if format = outputFormatYaml
      then if hasYamlDocumentSeparator stdout then None else unmarshalYamlPreservingNumbers cd stdout
      else None)"

definition newRedactor :: "AllowedKubectlCommands \<Rightarrow> redactor" where
  "newRedactor allowed =
     \<lparr>rd_values = [], rd_count = 0, rd_redactTerminationMessages = (\<not> Allows allowed kubectlCommandLogs),
      rd_err = None, rd_exhausted = False\<rparr>"

definition redactAllSecrets :: "string \<Rightarrow> string list \<Rightarrow> string" where
  "redactAllSecrets text secrets = fold (\<lambda>secret text. ReplaceAll text secret redactedValue) secrets text"

definition redactSecretsInResponse ::
  "kubectl_lib \<Rightarrow> codecs \<Rightarrow> nat \<Rightarrow> kubectlArguments \<Rightarrow> string \<Rightarrow> string \<Rightarrow> bool \<Rightarrow> AllowedKubectlCommands \<Rightarrow>
   (redaction_error + string \<times> string) option" where
  "redactSecretsInResponse lib cd n parsed stdout stderr stdoutTruncated allowed =
     (if stdout = [] \<and> stderr = [] then Some (Inr (stdout, stderr))
      else if \<not> responseHasToBeRedacted lib parsed then Some (Inr (stdout, stderr))
      else case parseableOutputFormat lib parsed of
             None \<Rightarrow> Some (Inl FormatNotParseable)
           | Some format \<Rightarrow>
               if stdoutTruncated then Some (Inl OutputTruncated)
               else if stdout = [] then Some (Inr (stdout, stderr))
               else case parseResponseDocument cd format stdout of
                      None \<Rightarrow> Some (Inl (NotASingleDocument format))
                    | Some document \<Rightarrow>
                        (case redactResourceList cd n document (newRedactor allowed) of
                           None \<Rightarrow> None
                         | Some (Inl e) \<Rightarrow> Some (Inl e)
                         | Some (Inr (document', r)) \<Rightarrow>
                             Some (case renderResponseDocument cd format document' of
                                     Inl e \<Rightarrow> Inl (ResponseNotRendered format e)
                                   | Inr rendered \<Rightarrow>
                                       Inr (rendered, redactAllSecrets stderr (valuesToScrubFromStderr r)))))"

section \<open>Executing a request\<close>

datatype stderr_part = Printed string | RejectedFor rejection | WithheldFor redaction_error

record CommandResponse =
  resp_RequestId :: string
  resp_ExitCode :: int
  resp_Stdout :: string
  resp_Stderr :: "stderr_part list" \<comment> \<open>joined by newlines\<close>
  resp_Timeout :: bool

text \<open>\<open>appendLine\<close> for stderr.\<close>

definition append_stderr :: "stderr_part list \<Rightarrow> string \<Rightarrow> stderr_part list" where
  "append_stderr existing line = (if existing = [Printed []] then [Printed line] else existing @ [Printed line])"

definition withholdResponse :: "CommandResponse \<Rightarrow> redaction_error \<Rightarrow> CommandResponse" where
  "withholdResponse resp reason =
     resp\<lparr>resp_Stdout := [], resp_Stderr := [WithheldFor reason], resp_ExitCode := exitCodeRejected\<rparr>"

text \<open>The response from the outcome of the redaction: it is withheld, or the notices are appended.\<close>

definition deliverResponse ::
  "CommandResponse \<Rightarrow> bool \<Rightarrow> bool \<Rightarrow> string \<Rightarrow> redaction_error + string \<times> string \<Rightarrow> CommandResponse" where
  "deliverResponse resp stdoutTruncated stderrTruncated additionalStdErrMsg redacted =
     (case redacted of
        Inl redactionErr \<Rightarrow>
          (let resp1 = withholdResponse resp redactionErr;
               resp2 = (if additionalStdErrMsg \<noteq> []
                        then resp1\<lparr>resp_Stderr := append_stderr (resp_Stderr resp1) additionalStdErrMsg\<rparr>
                        else resp1)
           in if resp_Timeout resp then resp2\<lparr>resp_ExitCode := exitCodeTimedOut\<rparr> else resp2)
      | Inr (out, err) \<Rightarrow>
          (let out1 = (if stdoutTruncated then withTruncationNotice out maxStdoutBytes else out);
               err1 = (if stderrTruncated then append_stderr [Printed err] (truncationNotice maxStderrBytes)
                       else [Printed err]);
               err2 = (if additionalStdErrMsg \<noteq> [] then append_stderr err1 additionalStdErrMsg else err1)
           in resp\<lparr>resp_Stdout := out1, resp_Stderr := err2\<rparr>))"

definition ExecuteCommandRequest ::
  "kubectl_lib \<Rightarrow> codecs \<Rightarrow> nat \<Rightarrow> kubectl_process \<Rightarrow> bool \<Rightarrow> (string \<Rightarrow> string option) \<Rightarrow> string \<Rightarrow>
   AllowedKubectlCommands \<Rightarrow> CommandRequest \<Rightarrow> CommandResponse option" where
  "ExecuteCommandRequest lib cd n kubectl timedOut LookupEnv kubectlTmpDir allowed req =
     (case validateCommandAndParseArguments lib req allowed of
        Inl reason \<Rightarrow>
          Some \<lparr>resp_RequestId = req_RequestId req, resp_ExitCode = exitCodeRejected, resp_Stdout = [],
                resp_Stderr = [RejectedFor reason], resp_Timeout = False\<rparr>
      | Inr parsed \<Rightarrow>
          (let (stdout, stderr, err) =
                 runKubectl kubectl (kubectlEnv LookupEnv kubectlTmpDir) (req_Arguments req) maxStdoutBytes maxStderrBytes;
               (exitCode, additionalStdErrMsg) = postProcessRunResult err timedOut;
               resp = \<lparr>resp_RequestId = req_RequestId req, resp_ExitCode = exitCode,
                       resp_Stdout = cappedBuffer_String stdout, resp_Stderr = [Printed (cappedBuffer_String stderr)],
                       resp_Timeout = timedOut\<rparr>
           in map_option (deliverResponse resp (cb_truncated stdout) (cb_truncated stderr) additionalStdErrMsg)
                (redactSecretsInResponse lib cd n parsed (cappedBuffer_String stdout) (cappedBuffer_String stderr)
                   (cb_truncated stdout) allowed)))"

section \<open>Resources without credentials\<close>

definition resources_clean :: "codecs \<Rightarrow> nat \<Rightarrow> document \<Rightarrow> bool" where
  "resources_clean cd n d \<longleftrightarrow>
     (case d of
        DMap m \<Rightarrow>
          (case map_of m ''items'' of
             Some (DList items) \<Rightarrow> list_all (deep_clean cd n) items
           | _ \<Rightarrow> deep_clean cd n d)
      | _ \<Rightarrow> False)"

lemma redactResourceItem_Inr:
  assumes "redactResourceItem cd n d r = Some (Inr (d', r'))"
  shows "redaction (\<lambda>_ _. True) d d'" and "codecs_ok cd \<Longrightarrow> codecs_roundtrip cd \<Longrightarrow> deep_clean cd n d'"
    and "\<not> rd_exhausted r'"
proof -
  let ?p = "redactDocumentNodeRecursively cd n d r"
  have p: "?p = (d', r')" "rd_err r' = None" "\<not> rd_exhausted r'"
    using assms by (auto simp: redactResourceItem_def split_def Let_def prod_eq_iff split: if_splits option.splits)
  show "redaction (\<lambda>_ _. True) d d'"
    using changeD [OF change_redactDocumentNodeRecursively, of d cd n r] p by simp
  show "codecs_ok cd \<Longrightarrow> codecs_roundtrip cd \<Longrightarrow> deep_clean cd n d'"
    using redactDocumentNodeRecursively_deep [of cd n d r] p by simp
  show "\<not> rd_exhausted r'" by (rule p(3))
qed

lemma map_sum_Inr [simp]: "map_sum f g z = Inr y \<longleftrightarrow> (\<exists>x. z = Inr x \<and> y = g x)"
  by (cases z) auto

lemma redactItems_Cons:
  assumes "redactItems cd n (item # items) r = Some (Inr (items', r'))"
  shows "\<exists>d r1 ds. redactResourceItem cd n item r = Some (Inr (d, r1)) \<and>
    redactItems cd n items r1 = Some (Inr (ds, r')) \<and> items' = d # ds"
  using assms by (auto split: option.splits sum.splits)

lemma redactItems_Inr:
  assumes "redactItems cd n items r = Some (Inr (items', r'))"
  shows "list_all2 (redaction (\<lambda>_ _. True)) items items' \<and>
    (codecs_ok cd \<and> codecs_roundtrip cd \<longrightarrow> list_all (deep_clean cd n) items')"
  using assms
proof (induction items arbitrary: r items')
  case (Cons item items)
  obtain d r1 ds where "redactResourceItem cd n item r = Some (Inr (d, r1))"
    "redactItems cd n items r1 = Some (Inr (ds, r'))" "items' = d # ds"
    using redactItems_Cons [OF Cons.prems] by blast
  with Cons.IH redactResourceItem_Inr show ?case by auto
qed simp

lemma redactResourceList_Inr:
  assumes "redactResourceList cd n d r = Some (Inr (d', r'))"
  shows "redaction (\<lambda>_ _. True) d d'" and "codecs_ok cd \<Longrightarrow> codecs_roundtrip cd \<Longrightarrow> resources_clean cd n d'"
proof -
  obtain m where m: "d = DMap m" using assms by (cases d) (auto simp: redactResourceList_def)
  have "redaction (\<lambda>_ _. True) d d' \<and> (codecs_ok cd \<and> codecs_roundtrip cd \<longrightarrow> resources_clean cd n d')"
  proof (cases "\<exists>items. map_of m ''items'' = Some (DList items)")
    case True
    then obtain items where items: "map_of m ''items'' = Some (DList items)" by blast
    with assms obtain items' where items': "redactItems cd n items r = Some (Inr (items', r'))"
      "d' = DMap (AList.update ''items'' (DList items') m)"
      by (auto simp: redactResourceList_def m)
    have "redactionm (\<lambda>_ _. True) m (fst (at_key ''items'' (\<lambda>_ r. (DList items', r)) m r))"
      using redactItems_Inr [OF items'(1)] items
      by (intro shape.at_key_related) (auto intro: redaction.list)
    then show ?thesis
      using redactItems_Inr [OF items'(1)] items
      by (simp add: m items'(2) at_key_def resources_clean_def update_conv')
  next
    case False
    then have item: "redactResourceItem cd n d r = Some (Inr (d', r'))"
      using assms by (auto simp: redactResourceList_def m split: option.splits document.splits)
    note related = redactResourceItem_Inr(1) [OF item]
    obtain m' where m': "d' = DMap m'" "redactionm (\<lambda>_ _. True) m m'"
      using related by (auto simp: m redaction_left redactionm_def)
    have "\<nexists>items. map_of m' ''items'' = Some (DList items)"
      using redactionm_map_of [OF m'(2), of "''items''"] False
      by (auto simp: option_rel_Some2 elim!: redaction.cases)
    then show ?thesis
      using related redactResourceItem_Inr(2) [OF item]
      by (auto simp: resources_clean_def m'(1) split: option.split document.split)
  qed
  then show "redaction (\<lambda>_ _. True) d d'"
    and "codecs_ok cd \<Longrightarrow> codecs_roundtrip cd \<Longrightarrow> resources_clean cd n d'"
    by blast+
qed

text \<open>With a list of items, the other fields of the document are not walked.\<close>

lemma items_hide_fields:
  "redactResourceList cd n (DMap [(''items'', DList []), (''token'', DString ''secret'')]) r =
     Some (Inr (DMap [(''items'', DList []), (''token'', DString ''secret'')], r))"
  by (simp add: redactResourceList_def)

section \<open>Enough levels\<close>

lemma redactResourceItem_ends:
  assumes "codecs_ok cd" "nests cd depth" "bounded cd depth n d" "\<not> rd_exhausted r"
  shows "redactResourceItem cd n d r \<noteq> None"
  using redactDocumentNodeRecursively_level [OF assms(1-3), of r] assms(4)
  by (simp add: redactResourceItem_def split_def Let_def)

lemma redactItems_ends:
  assumes "codecs_ok cd" "nests cd depth" "\<forall>d \<in> set items. bounded cd depth n d" "\<not> rd_exhausted r"
  shows "redactItems cd n items r \<noteq> None"
  using assms(3,4)
proof (induction items arbitrary: r)
  case (Cons d items)
  then obtain x where x: "redactResourceItem cd n d r = Some x"
    using redactResourceItem_ends [OF assms(1,2)] by fastforce
  show ?case
  proof (cases x)
    case (Inr p)
    then have "\<not> rd_exhausted (snd p)"
      using redactResourceItem_Inr(3) x by (metis prod.collapse)
    with Cons x Inr show ?thesis by (cases p) simp
  qed (simp add: x)
qed simp

lemma redactResourceList_ends:
  assumes "codecs_ok cd" "nests cd depth" "bounded cd depth n d" "\<not> rd_exhausted r"
  shows "redactResourceList cd n d r \<noteq> None"
proof (cases d)
  case (DMap m)
  have "\<forall>d \<in> set items. bounded cd depth n d" if "map_of m ''items'' = Some (DList items)" for items
    using assms(3) DMap map_of_SomeD [OF that] by auto
  then show ?thesis
    using redactItems_ends [OF assms(1,2) _ assms(4)] redactResourceItem_ends [OF assms]
    by (auto simp: redactResourceList_def DMap split: option.split document.split)
qed (simp_all add: redactResourceList_def)

section \<open>Properties\<close>

lemma runKubectl_writes:
  "kubectl env arguments = (out, err, e) \<Longrightarrow>
   runKubectl kubectl env arguments n m =
     (\<lparr>cb_limit = n, cb_buf = take n (concat out), cb_truncated = (n < length (concat out))\<rparr>,
      \<lparr>cb_limit = m, cb_buf = take m (concat err), cb_truncated = (m < length (concat err))\<rparr>, e)"
  by (simp add: runKubectl_def writes_newCappedBuffer)

lemma redactSecretsInResponse_Inr:
  assumes "redactSecretsInResponse lib cd n p stdout stderr truncated allowed = Some (Inr (out, err))"
    and "responseHasToBeRedacted lib p"
  shows "out = [] \<and> stdout = [] \<or>
    \<not> truncated \<and>
    (\<exists>format document document'. parseResponseDocument cd format stdout = Some document \<and>
       redaction (\<lambda>_ _. True) document document' \<and>
       (codecs_ok cd \<and> codecs_roundtrip cd \<longrightarrow> resources_clean cd n document') \<and>
       renderResponseDocument cd format document' = Inr out)"
proof (cases "stdout = []")
  case True
  with assms show ?thesis
    by (auto simp: redactSecretsInResponse_def split: if_splits option.splits)
next
  case False
  with assms obtain format document document' r where
    "\<not> truncated" "parseResponseDocument cd format stdout = Some document"
    "redactResourceList cd n document (newRedactor allowed) = Some (Inr (document', r))"
    "renderResponseDocument cd format document' = Inr out"
    by (auto simp: redactSecretsInResponse_def split: if_splits option.splits sum.splits)
  with redactResourceList_Inr show ?thesis by blast
qed

lemma deliverResponse_fields:
  "resp_Stdout (deliverResponse resp stdoutTruncated stderrTruncated msg x) =
     (case x of
        Inl _ \<Rightarrow> []
      | Inr q \<Rightarrow> if stdoutTruncated then withTruncationNotice (fst q) maxStdoutBytes else fst q)"
  "resp_ExitCode (deliverResponse resp stdoutTruncated stderrTruncated msg x) =
     (case x of
        Inl _ \<Rightarrow> if resp_Timeout resp then exitCodeTimedOut else exitCodeRejected
      | Inr _ \<Rightarrow> resp_ExitCode resp)"
  "resp_RequestId (deliverResponse resp stdoutTruncated stderrTruncated msg x) = resp_RequestId resp"
  "resp_Timeout (deliverResponse resp stdoutTruncated stderrTruncated msg x) = resp_Timeout resp"
  by (cases x; simp add: deliverResponse_def withholdResponse_def split_def Let_def)+

lemma execute_accepted:
  assumes "validateCommandAndParseArguments lib req allowed = Inr p"
    and "kubectl (kubectlEnv env dir) (req_Arguments req) = (out, err, e)"
  shows "ExecuteCommandRequest lib cd n kubectl timedOut env dir allowed req =
      map_option
        (deliverResponse
           \<lparr>resp_RequestId = req_RequestId req, resp_ExitCode = fst (postProcessRunResult e timedOut),
            resp_Stdout = take maxStdoutBytes (concat out), resp_Stderr = [Printed (take maxStderrBytes (concat err))],
            resp_Timeout = timedOut\<rparr>
           (maxStdoutBytes < length (concat out)) (maxStderrBytes < length (concat err))
           (snd (postProcessRunResult e timedOut)))
        (redactSecretsInResponse lib cd n p (take maxStdoutBytes (concat out)) (take maxStderrBytes (concat err))
          (maxStdoutBytes < length (concat out)) allowed)"
  by (simp add: ExecuteCommandRequest_def assms(1) runKubectl_writes [of kubectl, OF assms(2)] cappedBuffer_String_def
      split_def Let_def)


text \<open>A request for pods as JSON, and a kubectl that prints one resource with a token in its annotation.\<close>

definition sample_request :: CommandRequest where
  "sample_request =
     \<lparr>req_RequestId = ''1'', req_Command = ''kubectl'', req_Arguments = [''get'', ''pods'', ''--output= JSON '']\<rparr>"

definition sample_arguments :: kubectlArguments where
  "sample_arguments =
     \<lparr>ka_kubectlCommand = ''get'', ka_subcommand = [],
      ka_flags = [\<lparr>flag_longName = ''output'', flag_shorthand = [], flag_value = '' JSON ''\<rparr>],
      ka_hasEndOfFlagsSeparator = False, ka_resourceTypes = [''pods''], ka_positionalArguments = [''pods'']\<rparr>"

definition sample_kubectl :: kubectl_process where
  "sample_kubectl env arguments = ([''{A{T01'', ''2345''], [], None)"

lemma sample_accepted:
  "validateCommandAndParseArguments sample_lib sample_request sample_allowed = Inr sample_arguments"
  "responseHasToBeRedacted sample_lib sample_arguments"
  by code_simp+

lemma sample_redacted:
  "redactSecretsInResponse sample_lib sample_codecs 1 sample_arguments ''{A{T012345'' [] False sample_allowed =
     Some (Inr (''{a{T(redacted)'' @ [CHR 0x0A], []))"
  by code_simp

lemma sample_executed:
  "ExecuteCommandRequest sample_lib sample_codecs 1 sample_kubectl False (\<lambda>_. None) ''/tmp'' sample_allowed sample_request =
     Some \<lparr>resp_RequestId = ''1'', resp_ExitCode = 0, resp_Stdout = ''{a{T(redacted)'' @ [CHR 0x0A],
           resp_Stderr = [Printed []], resp_Timeout = False\<rparr>"
proof -
  have run: "sample_kubectl (kubectlEnv (\<lambda>_. None) ''/tmp'') (req_Arguments sample_request) =
      ([''{A{T01'', ''2345''], [], None)"
    by (simp add: sample_kubectl_def)
  show ?thesis
    unfolding execute_accepted [of sample_lib sample_request sample_allowed sample_arguments sample_kubectl,
        OF sample_accepted(1) run]
    using sample_redacted
    by (simp add: deliverResponse_def postProcessRunResult_def sample_request_def maxStdoutBytes_def maxStderrBytes_def)
qed


text \<open>
  C35: Every request is answered, with the identifier of the request: the walk over the response ends, as documents
  within strings are nested finitely often.
\<close>

theorem every_request_answered:
  assumes "codecs_ok cd" "nests cd depth"
  shows "\<exists>n. \<forall>m. n \<le> m \<longrightarrow> (\<exists>resp.
    ExecuteCommandRequest lib cd m kubectl timedOut env dir allowed req = Some resp \<and>
    resp_RequestId resp = req_RequestId req)"
proof (cases "validateCommandAndParseArguments lib req allowed")
  case (Inl reason)
  then show ?thesis by (simp add: ExecuteCommandRequest_def)
next
  case (Inr p)
  obtain out err e where run: "kubectl (kubectlEnv env dir) (req_Arguments req) = (out, err, e)"
    by (cases "kubectl (kubectlEnv env dir) (req_Arguments req)")
  let ?d = "Option.bind (parseableOutputFormat lib p)
      (\<lambda>format. parseResponseDocument cd format (take maxStdoutBytes (concat out)))"
  obtain n where n: "bounded cd depth n (case ?d of None \<Rightarrow> DNull | Some d \<Rightarrow> d)"
    using bounded_exists by blast
  have "\<exists>x. redactSecretsInResponse lib cd m p (take maxStdoutBytes (concat out)) stderr truncated allowed = Some x"
    if "n \<le> m" for m stderr truncated
  proof -
    have "redactResourceList cd m d (newRedactor allowed) \<noteq> None" if "?d = Some d" for d
      using redactResourceList_ends [OF assms bounded_mono [OF _ \<open>n \<le> m\<close>], of d "newRedactor allowed"] n that
      by (simp add: newRedactor_def)
    then show ?thesis
      by (auto simp: redactSecretsInResponse_def split: option.split sum.split prod.split)
  qed
  then show ?thesis
    unfolding execute_accepted [of lib req allowed p kubectl, OF Inr run]
    by (fastforce simp: deliverResponse_fields)
qed

theorem every_request_answered_witness:
  "\<exists>n. \<forall>m. n \<le> m \<longrightarrow> (\<exists>resp.
    ExecuteCommandRequest sample_lib sample_codecs m sample_kubectl False (\<lambda>_. None) ''/tmp'' sample_allowed sample_request =
      Some resp \<and> resp_RequestId resp = req_RequestId sample_request)"
  using every_request_answered [OF sample_codecs_ok sample_codecs_nests] by blast

text \<open>
  C38: An exit code of zero means that kubectl ran and succeeded: the request was accepted, there was no timeout,
  kubectl ended without an error or with an exit code that is zero in 32 bits, and the response is
  not one that the connector rejected or withheld.
\<close>

theorem exit_code_zero:
  assumes "ExecuteCommandRequest lib cd n kubectl timedOut env dir allowed req = Some resp" "resp_ExitCode resp = 0"
  shows "\<exists>p out err e. validateCommandAndParseArguments lib req allowed = Inr p \<and> \<not> timedOut \<and>
    kubectl (kubectlEnv env dir) (req_Arguments req) = (out, err, e) \<and>
    (e = None \<or> (\<exists>code. e = Some (ExitError code) \<and> to_int32 code = 0)) \<and>
    (\<forall>part \<in> set (resp_Stderr resp). \<exists>s. part = Printed s)"
proof -
  obtain p where p: "validateCommandAndParseArguments lib req allowed = Inr p"
    using assms by (cases "validateCommandAndParseArguments lib req allowed")
      (auto simp: ExecuteCommandRequest_def exitCodeRejected_def)
  obtain out err e where run: "kubectl (kubectlEnv env dir) (req_Arguments req) = (out, err, e)"
    by (cases "kubectl (kubectlEnv env dir) (req_Arguments req)")
  from assms(1) obtain x where
    resp: "resp = deliverResponse
      \<lparr>resp_RequestId = req_RequestId req, resp_ExitCode = fst (postProcessRunResult e timedOut),
       resp_Stdout = take maxStdoutBytes (concat out), resp_Stderr = [Printed (take maxStderrBytes (concat err))],
       resp_Timeout = timedOut\<rparr>
      (maxStdoutBytes < length (concat out)) (maxStderrBytes < length (concat err))
      (snd (postProcessRunResult e timedOut)) x"
    unfolding execute_accepted [of lib req allowed p kubectl, OF p run] by auto
  obtain q where x: "x = Inr q"
    using assms(2) unfolding resp
    by (cases x) (auto simp: deliverResponse_fields exitCodeTimedOut_def exitCodeRejected_def split: if_splits)
  have "fst (postProcessRunResult e timedOut) = 0"
    using assms(2) unfolding resp x by (simp add: deliverResponse_fields)
  then have "\<not> timedOut" "e = None \<or> (\<exists>code. e = Some (ExitError code) \<and> to_int32 code = 0)"
    by (auto simp: postProcessRunResult_def exitCodeTimedOut_def exitCodeNotExecutable_def
        split: if_splits option.splits run_error.splits)
  moreover have "\<forall>part \<in> set (resp_Stderr resp). \<exists>s. part = Printed s"
    unfolding resp x by (cases q) (simp add: deliverResponse_def append_stderr_def Let_def)
  ultimately show ?thesis using p run by blast
qed

theorem exit_code_zero_witness:
  "\<exists>p out err e. validateCommandAndParseArguments sample_lib sample_request sample_allowed = Inr p \<and> \<not> False \<and>
    sample_kubectl (kubectlEnv (\<lambda>_. None) ''/tmp'') (req_Arguments sample_request) = (out, err, e) \<and>
    (e = None \<or> (\<exists>code. e = Some (ExitError code) \<and> to_int32 code = 0))"
  using exit_code_zero [OF sample_executed] by auto

end
