(* ===== verification/CertMaterial.thy ===== *)
theory CertMaterial
  imports Prelude "HOL-Library.Product_Lexorder"
begin

text \<open>
  The certificates of the webhook server: \<open>certificates.go\<close> and \<open>state.go\<close> of \<open>internal/webhookcerts\<close>.

  Times and durations are nanoseconds. Cryptography is symbolic: a private key is a name, which also
  stands for its public key, and a certificate records the key that signed it. Bytes are represented
  by what the decoders of the Go library read in them: PEM blocks (with the text around them), a time stamp, or
  neither. What comes from the random source, the new key and the encoding of a new certificate, is an argument.
\<close>

section \<open>Time\<close>

type_synonym time = int

definition hour :: time where
  "hour = 3600 * 1000000000"

definition days :: "int \<Rightarrow> time" where
  "days n = n * 24 * hour"

text \<open>The zero value of \<open>time.Time\<close>, the first of January of the year 1, in nanoseconds of the Unix epoch.\<close>

definition zero_time :: time where
  "zero_time = -62135596800 * 1000000000"

text \<open>Certificates and RFC 3339 time stamps have a resolution of one second.\<close>

definition truncate_second :: "time \<Rightarrow> time" where
  "truncate_second t = t - t mod 1000000000"

definition caValidity :: time where
  "caValidity = days (10 * 365)"

definition servingCertValidity :: time where
  "servingCertValidity = days 365"

definition servingCertRenewBefore :: time where
  "servingCertRenewBefore = days 90"

definition caRotationLeadTime :: time where
  "caRotationLeadTime = days 365"

definition forcedSwitchLeadTime :: time where
  "forcedSwitchLeadTime = days 30"

definition minimumRotationAge :: time where
  "minimumRotationAge = days 1"

definition foreignCertRetention :: time where
  "foreignCertRetention = days 7"

definition expiryWarningThreshold :: time where
  "expiryWarningThreshold = days 30"

definition backdate :: time where
  "backdate = hour"

section \<open>Certificates\<close>

record pkix_name =
  pn_CommonName :: string
  pn_Organization :: "string list"

datatype key_usage = KeyUsageDigitalSignature | KeyUsageCertSign | KeyUsageCRLSign | OtherKeyUsage string

datatype ext_key_usage = ExtKeyUsageServerAuth | ExtKeyUsageAny | OtherExtKeyUsage string

record certificate =
  x_Raw :: string
  x_Subject :: pkix_name
  x_Issuer :: pkix_name
  x_DNSNames :: "string list"
  x_NotBefore :: time
  x_NotAfter :: time
  x_KeyUsage :: "key_usage list"
  x_ExtKeyUsage :: "ext_key_usage list"
  x_IsCA :: bool
  x_PublicKey :: string
  x_SignedBy :: string

text \<open>
  A block of PEM data is a certificate that can be parsed, a private key that can be parsed, or anything else. The
  string of \<open>Pem\<close> is the text around the blocks, that of \<open>Timestamp\<close> the layout; both are empty in what the operator writes.
\<close>

datatype pem_block = CertificateBlock certificate | PrivateKeyBlock string | OtherBlock string

datatype bytes = Pem string "pem_block list" | Timestamp string time | Other string

definition no_bytes :: bytes where
  "no_bytes = Other []"

record keyPair =
  kp_cert :: certificate
  kp_certPem :: bytes
  kp_key :: string
  kp_keyPem :: bytes

definition operatorMarkerOrganization :: string where
  "operatorMarkerOrganization = ''dash0-operator-managed''"

definition caCommonName :: string where
  "caCommonName = ''dash0-operator-webhook-ca''"

definition legacyChartCaCommonName :: string where
  "legacyChartCaCommonName = ''dash0-operator-ca''"

fun parseCertificates :: "bytes \<Rightarrow> certificate list" where
  "parseCertificates (Pem _ blocks) =
     concat (map (\<lambda>b. case b of CertificateBlock c \<Rightarrow> [c] | _ \<Rightarrow> []) blocks)"
| "parseCertificates _ = []"

definition encodeCertificates :: "certificate list \<Rightarrow> bytes" where
  "encodeCertificates certs = (if certs = [] then no_bytes else Pem [] (map CertificateBlock certs))"

fun parsePrivateKey :: "bytes \<Rightarrow> string option" where
  "parsePrivateKey (Pem _ (PrivateKeyBlock k # _)) = Some k"
| "parsePrivateKey _ = None"

text \<open>New key and encoding; \<open>None\<close> if the random source or the encoder fails.\<close>

type_synonym entropy = "(string \<times> string) option"

text \<open>
  \<open>x509.CreateCertificate\<close> refuses a signer that is not the key of the parent, where the parent has one (the
  template of a self-signed certificate has none), and takes the issuer from the subject of the parent.
\<close>

definition createKeyPair :: "certificate \<Rightarrow> certificate \<Rightarrow> string \<Rightarrow> string \<Rightarrow> string \<Rightarrow> keyPair option" where
  "createKeyPair template parent key signer raw =
     (if x_PublicKey parent \<noteq> [] \<and> x_PublicKey parent \<noteq> signer then None
      else
        (let cert = template\<lparr>x_Raw := raw, x_PublicKey := key, x_SignedBy := signer, x_Issuer := x_Subject parent,
               x_NotBefore := truncate_second (x_NotBefore template),
               x_NotAfter := truncate_second (x_NotAfter template)\<rparr>
         in Some \<lparr>kp_cert = cert, kp_certPem = Pem [] [CertificateBlock cert], kp_key = key,
                  kp_keyPem = Pem [] [PrivateKeyBlock key]\<rparr>))"

definition no_name :: pkix_name where
  "no_name = \<lparr>pn_CommonName = [], pn_Organization = []\<rparr>"

definition ca_template :: "time \<Rightarrow> certificate" where
  "ca_template now =
     \<lparr>x_Raw = [],
      x_Subject = \<lparr>pn_CommonName = caCommonName, pn_Organization = [operatorMarkerOrganization]\<rparr>,
      x_Issuer = no_name, x_DNSNames = [],
      x_NotBefore = now - backdate, x_NotAfter = now + caValidity,
      x_KeyUsage = [KeyUsageCertSign, KeyUsageCRLSign, KeyUsageDigitalSignature], x_ExtKeyUsage = [],
      x_IsCA = True, x_PublicKey = [], x_SignedBy = []\<rparr>"

definition generateCa :: "time \<Rightarrow> entropy \<Rightarrow> keyPair option" where
  "generateCa now entropy =
     (case entropy of
        None \<Rightarrow> None
      | Some (key, raw) \<Rightarrow> createKeyPair (ca_template now) (ca_template now) key key raw)"

definition servingCertNotAfter :: "keyPair \<Rightarrow> time \<Rightarrow> time" where
  "servingCertNotAfter ca now =
     (let notAfter = now + servingCertValidity
      in if x_NotAfter (kp_cert ca) < notAfter then x_NotAfter (kp_cert ca) else notAfter)"

definition serving_template :: "keyPair \<Rightarrow> string list \<Rightarrow> time \<Rightarrow> certificate" where
  "serving_template ca dnsNames now =
     \<lparr>x_Raw = [],
      x_Subject = \<lparr>pn_CommonName = hd dnsNames, pn_Organization = [operatorMarkerOrganization]\<rparr>,
      x_Issuer = no_name, x_DNSNames = dnsNames,
      x_NotBefore = now - backdate, x_NotAfter = servingCertNotAfter ca now,
      x_KeyUsage = [KeyUsageDigitalSignature], x_ExtKeyUsage = [ExtKeyUsageServerAuth],
      x_IsCA = False, x_PublicKey = [], x_SignedBy = []\<rparr>"

definition issueServingCert :: "keyPair \<Rightarrow> string list \<Rightarrow> time \<Rightarrow> entropy \<Rightarrow> keyPair option" where
  "issueServingCert ca dnsNames now entropy =
     (if dnsNames = [] then None
      else
        case entropy of
          None \<Rightarrow> None
        | Some (key, raw) \<Rightarrow> createKeyPair (serving_template ca dnsNames now) (kp_cert ca) key (kp_key ca) raw)"

definition parseKeyPair :: "bytes \<Rightarrow> bytes \<Rightarrow> keyPair option" where
  "parseKeyPair certPem keyPem =
     (let certs = parseCertificates certPem
      in if length certs \<noteq> 1 then None
         else case parsePrivateKey keyPem of
                None \<Rightarrow> None
              | Some key \<Rightarrow>
                  if x_PublicKey (hd certs) \<noteq> key then None
                  else Some \<lparr>kp_cert = hd certs, kp_certPem = encodeCertificates certs, kp_key = key, kp_keyPem = keyPem\<rparr>)"

text \<open>\<open>Certificate.Equal\<close> compares the encodings.\<close>

definition containsCertificate :: "certificate list \<Rightarrow> certificate \<Rightarrow> bool" where
  "containsCertificate certs candidate = list_ex (\<lambda>c. x_Raw c = x_Raw candidate) certs"

definition appendUnique :: "certificate list \<Rightarrow> certificate list \<Rightarrow> certificate list" where
  "appendUnique certs additional =
     foldl (\<lambda>certs candidate. if containsCertificate certs candidate then certs else certs @ [candidate]) certs additional"

definition isOperatorCreated :: "certificate \<Rightarrow> bool" where
  "isOperatorCreated cert \<longleftrightarrow> operatorMarkerOrganization \<in> set (pn_Organization (x_Subject cert))"

definition isLegacyChartCa :: "certificate \<Rightarrow> bool" where
  "isLegacyChartCa cert \<longleftrightarrow> pn_CommonName (x_Subject cert) = legacyChartCaCommonName \<and> \<not> isOperatorCreated cert"

definition isExpired :: "certificate \<Rightarrow> time \<Rightarrow> bool" where
  "isExpired cert now \<longleftrightarrow> x_NotAfter cert < now"

definition withoutExpired :: "certificate list \<Rightarrow> time \<Rightarrow> certificate list" where
  "withoutExpired certs now = filter (\<lambda>c. \<not> isExpired c now) certs"

definition servingDnsNames :: "string \<Rightarrow> string \<Rightarrow> string list" where
  "servingDnsNames serviceName namespace =
     [serviceName @ ''.'' @ namespace @ ''.svc'', serviceName @ ''.'' @ namespace @ ''.svc.cluster.local'']"

definition missingDnsNames :: "certificate \<Rightarrow> string list \<Rightarrow> string list" where
  "missingDnsNames cert dnsNames = filter (\<lambda>n. n \<notin> set (x_DNSNames cert)) dnsNames"

definition latest :: "time \<Rightarrow> time list \<Rightarrow> time" where
  "latest t ts = foldl (\<lambda>result t. if result < t then t else result) t ts"

text \<open>
  \<open>Certificate.Verify\<close> against a pool with a single root, for server authentication: the leaf is that root, or the root
  is its issuer, may sign certificates and has signed it; a certificate without extended key usages serves any.
\<close>

definition valid_at :: "certificate \<Rightarrow> time \<Rightarrow> bool" where
  "valid_at cert t \<longleftrightarrow> x_NotBefore cert \<le> t \<and> t \<le> x_NotAfter cert"

definition serves_tls :: "certificate \<Rightarrow> bool" where
  "serves_tls cert \<longleftrightarrow>
     x_ExtKeyUsage cert = [] \<or> ExtKeyUsageServerAuth \<in> set (x_ExtKeyUsage cert) \<or> ExtKeyUsageAny \<in> set (x_ExtKeyUsage cert)"

definition signed_by :: "certificate \<Rightarrow> certificate \<Rightarrow> bool" where
  "signed_by cert root \<longleftrightarrow>
     x_Issuer cert = x_Subject root \<and> x_SignedBy cert = x_PublicKey root \<and> x_IsCA root \<and>
     (x_KeyUsage root = [] \<or> KeyUsageCertSign \<in> set (x_KeyUsage root))"

definition verifies :: "certificate \<Rightarrow> certificate \<Rightarrow> time \<Rightarrow> bool" where
  "verifies cert root t \<longleftrightarrow>
     valid_at cert t \<and> serves_tls cert \<and>
     (x_Raw cert = x_Raw root \<or> signed_by cert root \<and> valid_at root t \<and> serves_tls root)"

definition verifyServingCertChain :: "certificate \<Rightarrow> certificate \<Rightarrow> time \<Rightarrow> bool" where
  "verifyServingCertChain serving ca now =
     verifies serving ca (latest now [x_NotBefore serving, x_NotBefore ca])"

section \<open>The material\<close>

record material =
  m_activeCa :: keyPair
  m_pendingCa :: "keyPair option"
  m_rotationStartedAt :: time
  m_previousCas :: "certificate list"
  m_retainedChartCas :: "certificate list"
  m_retainedCerts :: "certificate list"
  m_retainedSince :: time
  m_serving :: "keyPair option"

text \<open>The order of the bundle: by \<open>NotBefore\<close>, then by the encoding.\<close>

definition bundleCerts :: "material \<Rightarrow> certificate list" where
  "bundleCerts m =
     (let certs = appendUnique [] [kp_cert (m_activeCa m)];
          certs = (case m_pendingCa m of None \<Rightarrow> certs | Some p \<Rightarrow> appendUnique certs [kp_cert p]);
          certs = appendUnique certs (m_previousCas m);
          certs = appendUnique certs (m_retainedChartCas m);
          certs = appendUnique certs (m_retainedCerts m)
      in sort_key (\<lambda>c. (x_NotBefore c, x_Raw c)) certs)"

definition material_bundle :: "material \<Rightarrow> bytes" where
  "material_bundle m = encodeCertificates (bundleCerts m)"

type_synonym secret_data = "(string \<times> bytes) list"

definition toSecretData :: "material \<Rightarrow> secret_data" where
  "toSecretData m =
     [(''ca.crt'', material_bundle m), (''active-ca.crt'', kp_certPem (m_activeCa m)), (''active-ca.key'', kp_keyPem (m_activeCa m))] @
     (case m_pendingCa m of
        None \<Rightarrow> []
      | Some p \<Rightarrow>
          [(''pending-ca.crt'', kp_certPem p), (''pending-ca.key'', kp_keyPem p),
           (''rotation-started-at'', Timestamp [] (truncate_second (m_rotationStartedAt m)))]) @
     (if m_previousCas m \<noteq> [] then [(''previous-ca.crt'', encodeCertificates (m_previousCas m))] else []) @
     (if m_retainedChartCas m \<noteq> [] then [(''retained-chart-ca.crt'', encodeCertificates (m_retainedChartCas m))] else []) @
     (if m_retainedCerts m \<noteq> []
      then [(''retained-ca.crt'', encodeCertificates (m_retainedCerts m)),
            (''retained-since'', Timestamp [] (truncate_second (m_retainedSince m)))]
      else []) @
     (case m_serving m of
        None \<Rightarrow> []
      | Some s \<Rightarrow> [(''tls.crt'', kp_certPem s), (''tls.key'', kp_keyPem s)])"

definition data_at :: "secret_data \<Rightarrow> string \<Rightarrow> bytes" where
  "data_at data key = (case map_of data key of None \<Rightarrow> no_bytes | Some b \<Rightarrow> b)"

definition parseTimestamp :: "bytes \<Rightarrow> time \<Rightarrow> time" where
  "parseTimestamp raw now = (case raw of Timestamp _ t \<Rightarrow> t | _ \<Rightarrow> now)"

datatype material_error = NoData | ActiveCaNotUsable | ActiveCaNotACa | ActiveCaExpired time

definition materialFromSecretData :: "secret_data \<Rightarrow> time \<Rightarrow> material_error + material" where
  "materialFromSecretData data now =
     (if data = [] then Inl NoData
      else case parseKeyPair (data_at data ''active-ca.crt'') (data_at data ''active-ca.key'') of
             None \<Rightarrow> Inl ActiveCaNotUsable
           | Some activeCa \<Rightarrow>
               if \<not> x_IsCA (kp_cert activeCa) then Inl ActiveCaNotACa
               else if isExpired (kp_cert activeCa) now then Inl (ActiveCaExpired (x_NotAfter (kp_cert activeCa)))
               else
                 (let pendingCa =
                        (case parseKeyPair (data_at data ''pending-ca.crt'') (data_at data ''pending-ca.key'') of
                           None \<Rightarrow> None
                         | Some p \<Rightarrow> if x_IsCA (kp_cert p) \<and> \<not> isExpired (kp_cert p) now then Some p else None);
                      serving =
                        (case parseKeyPair (data_at data ''tls.crt'') (data_at data ''tls.key'') of
                           None \<Rightarrow> None
                         | Some s \<Rightarrow>
                             if verifyServingCertChain (kp_cert s) (kp_cert activeCa) now then Some s else None)
                  in Inr \<lparr>m_activeCa = activeCa, m_pendingCa = pendingCa,
                          m_rotationStartedAt =
                            (if pendingCa = None then zero_time else parseTimestamp (data_at data ''rotation-started-at'') now),
                          m_previousCas = parseCertificates (data_at data ''previous-ca.crt''),
                          m_retainedChartCas = parseCertificates (data_at data ''retained-chart-ca.crt''),
                          m_retainedCerts = parseCertificates (data_at data ''retained-ca.crt''),
                          m_retainedSince = parseTimestamp (data_at data ''retained-since'') now,
                          m_serving = serving\<rparr>))"

section \<open>Retention\<close>

record retentionCandidates =
  rc_chartCas :: "certificate list"
  rc_other :: "certificate list"

definition retentionCandidates_add :: "retentionCandidates \<Rightarrow> certificate list \<Rightarrow> bool \<Rightarrow> time \<Rightarrow> retentionCandidates" where
  "retentionCandidates_add c certs fromChartSecret now =
     (let c1 = foldl (\<lambda>c cert.
            if isExpired cert now \<or> isOperatorCreated cert then c
            else if fromChartSecret \<or> isLegacyChartCa cert then c\<lparr>rc_chartCas := appendUnique (rc_chartCas c) [cert]\<rparr>
            else c\<lparr>rc_other := appendUnique (rc_other c) [cert]\<rparr>) c certs
      in c1\<lparr>rc_other := filter (\<lambda>cert. \<not> containsCertificate (rc_chartCas c1) cert) (rc_other c1)\<rparr>)"

definition generateMaterial ::
  "string list \<Rightarrow> retentionCandidates \<Rightarrow> time \<Rightarrow> entropy \<Rightarrow> entropy \<Rightarrow> material option" where
  "generateMaterial dnsNames candidates now e1 e2 =
     (case generateCa now e1 of
        None \<Rightarrow> None
      | Some activeCa \<Rightarrow>
          (case issueServingCert activeCa dnsNames now e2 of
             None \<Rightarrow> None
           | Some serving \<Rightarrow>
               Some \<lparr>m_activeCa = activeCa, m_pendingCa = None, m_rotationStartedAt = zero_time, m_previousCas = [],
                     m_retainedChartCas = rc_chartCas candidates, m_retainedCerts = rc_other candidates,
                     m_retainedSince = now, m_serving = Some serving\<rparr>))"

text \<open>The bundle is computed once, before the loop.\<close>

definition retainChartCas :: "material \<Rightarrow> certificate list \<Rightarrow> material \<times> nat" where
  "retainChartCas m chartCas =
     (let added = filter (\<lambda>ca. \<not> containsCertificate (bundleCerts m) ca) chartCas
      in (m\<lparr>m_retainedChartCas := m_retainedChartCas m @ added\<rparr>, length added))"

section \<open>Maintenance\<close>

datatype change =
    StartedRotation | RemovedForeign | IssuedServing | AddedDnsNames "string list" | RenewedServing

record maintenanceResult =
  mr_changes :: "change list"
  mr_bundleChanged :: bool
  mr_retentionOverdue :: bool

definition ensureServingCert ::
  "material \<Rightarrow> string list \<Rightarrow> time \<Rightarrow> entropy \<Rightarrow> (material \<times> change option) option" where
  "ensureServingCert m dnsNames now e =
     (case m_serving m of
        None \<Rightarrow>
          map_option (\<lambda>s. (m\<lparr>m_serving := Some s\<rparr>, Some IssuedServing)) (issueServingCert (m_activeCa m) dnsNames now e)
      | Some serving \<Rightarrow>
          (let missing = missingDnsNames (kp_cert serving) dnsNames
           in if missing \<noteq> []
              then map_option (\<lambda>s. (m\<lparr>m_serving := Some s\<rparr>, Some (AddedDnsNames missing)))
                     (issueServingCert (m_activeCa m) (x_DNSNames (kp_cert serving) @ missing) now e)
              else if x_NotAfter (kp_cert serving) < now + servingCertRenewBefore \<and>
                      x_NotAfter (kp_cert serving) < servingCertNotAfter (m_activeCa m) now
              then map_option (\<lambda>s. (m\<lparr>m_serving := Some s\<rparr>, Some RenewedServing))
                     (issueServingCert (m_activeCa m) dnsNames now e)
              else Some (m, None)))"

text \<open>The three steps of \<open>maintain\<close> before the serving certificate; \<open>None\<close> if no new CA can be generated.\<close>

definition startRotation :: "material \<Rightarrow> time \<Rightarrow> entropy \<Rightarrow> (material \<times> maintenanceResult) option" where
  "startRotation m now e =
     (if m_pendingCa m = None \<and> x_NotAfter (kp_cert (m_activeCa m)) < now + caRotationLeadTime
      then map_option (\<lambda>pendingCa.
             (m\<lparr>m_pendingCa := Some pendingCa, m_rotationStartedAt := now\<rparr>,
              \<lparr>mr_changes = [StartedRotation], mr_bundleChanged = True, mr_retentionOverdue = False\<rparr>)) (generateCa now e)
      else Some (m, \<lparr>mr_changes = [], mr_bundleChanged = False, mr_retentionOverdue = False\<rparr>))"

definition removeForeign :: "bool \<Rightarrow> time \<Rightarrow> material \<times> maintenanceResult \<Rightarrow> material \<times> maintenanceResult" where
  "removeForeign rolloutComplete now = (\<lambda>(m, result).
     if m_retainedCerts m \<noteq> [] \<and> \<not> now < m_retainedSince m + foreignCertRetention
     then if rolloutComplete
          then (m\<lparr>m_retainedCerts := []\<rparr>,
                result\<lparr>mr_changes := mr_changes result @ [RemovedForeign], mr_bundleChanged := True\<rparr>)
          else (m, result\<lparr>mr_retentionOverdue := True\<rparr>)
     else (m, result))"

definition removeExpired :: "time \<Rightarrow> material \<times> maintenanceResult \<Rightarrow> material \<times> maintenanceResult" where
  "removeExpired now = (\<lambda>(m, result).
     if mr_bundleChanged result
     then (m\<lparr>m_previousCas := withoutExpired (m_previousCas m) now,
             m_retainedChartCas := withoutExpired (m_retainedChartCas m) now,
             m_retainedCerts := withoutExpired (m_retainedCerts m) now\<rparr>, result)
     else (m, result))"

definition maintain ::
  "material \<Rightarrow> time \<Rightarrow> string list \<Rightarrow> bool \<Rightarrow> entropy \<Rightarrow> entropy \<Rightarrow> (material \<times> maintenanceResult) option" where
  "maintain m now dnsNames rolloutComplete e1 e2 =
     (case startRotation m now e1 of
        None \<Rightarrow> None
      | Some started \<Rightarrow>
          (let (m1, result) = removeExpired now (removeForeign rolloutComplete now started)
           in map_option (\<lambda>(m2, change).
                 (m2, case change of None \<Rightarrow> result | Some c \<Rightarrow> result\<lparr>mr_changes := mr_changes result @ [c]\<rparr>))
                (ensureServingCert m1 dnsNames now e2)))"

section \<open>Switching to the pending CA\<close>

datatype switchDecision =
    noRotationPending | rotationWaiting | rotationBlocked | rotationSwitch | rotationForcedSwitch

definition evaluateSwitch :: "material \<Rightarrow> bool \<Rightarrow> time \<Rightarrow> switchDecision" where
  "evaluateSwitch m allTargetsInjected now =
     (if m_pendingCa m = None then noRotationPending
      else if x_NotAfter (kp_cert (m_activeCa m)) < now + forcedSwitchLeadTime
      then if allTargetsInjected then rotationSwitch else rotationForcedSwitch
      else if now < m_rotationStartedAt m + minimumRotationAge then rotationWaiting
      else if \<not> allTargetsInjected then rotationBlocked
      else rotationSwitch)"

definition switchToPendingCa :: "material \<Rightarrow> string list \<Rightarrow> time \<Rightarrow> entropy \<Rightarrow> material option" where
  "switchToPendingCa m dnsNames now e =
     (case m_pendingCa m of
        None \<Rightarrow> None
      | Some pendingCa \<Rightarrow>
          (let names = (case m_serving m of
                 None \<Rightarrow> dnsNames
               | Some s \<Rightarrow> x_DNSNames (kp_cert s) @ missingDnsNames (kp_cert s) dnsNames)
           in map_option (\<lambda>serving.
                m\<lparr>m_previousCas := appendUnique (m_previousCas m) [kp_cert (m_activeCa m)], m_activeCa := pendingCa,
                  m_pendingCa := None, m_rotationStartedAt := zero_time, m_serving := Some serving\<rparr>)
                (issueServingCert pendingCa names now e)))"

text \<open>Both compare the keys and their values.\<close>

definition dataEqual :: "secret_data \<Rightarrow> secret_data \<Rightarrow> bool" where
  "dataEqual a b \<longleftrightarrow> list_all (\<lambda>k. map_of a k = map_of b k) (map fst a @ map fst b)"

end
