(* ===== verification/CertLaws.thy ===== *)
theory CertLaws
  imports CertMaterial
begin

text \<open>
  Laws of the certificate material: what the CA bundle consists of, when material survives being stored and read back,
  and the invariant of the material the operator has produced itself, over all histories of its operations.
\<close>

section \<open>Lists of certificates without duplicates\<close>

lemma containsCertificate_raws: "containsCertificate certs c \<longleftrightarrow> x_Raw c \<in> x_Raw ` set certs"
  unfolding containsCertificate_def list_ex_iff image_iff by metis

lemma appendUnique_Nil [simp]: "appendUnique certs [] = certs"
  by (simp add: appendUnique_def)

lemma appendUnique_Cons [simp]:
  "appendUnique certs (c # cs) =
     appendUnique (if containsCertificate certs c then certs else certs @ [c]) cs"
  by (simp add: appendUnique_def)

lemma appendUnique_append [simp]: "appendUnique (appendUnique certs cs) ds = appendUnique certs (cs @ ds)"
  by (simp add: appendUnique_def)

lemma appendUnique_distinct:
  "distinct (map x_Raw certs) \<Longrightarrow> distinct (map x_Raw (appendUnique certs cs))"
  by (induction cs arbitrary: certs) (auto simp: containsCertificate_raws)

lemma set_appendUnique:
  "inj_on x_Raw (set certs \<union> set cs) \<Longrightarrow> set (appendUnique certs cs) = set certs \<union> set cs"
proof (induction cs arbitrary: certs)
  case (Cons c cs)
  have "containsCertificate certs c \<Longrightarrow> c \<in> set certs"
    using Cons.prems by (auto simp: containsCertificate_raws dest: inj_onD)
  then show ?case
    using Cons.IH[of "if containsCertificate certs c then certs else certs @ [c]"] Cons.prems
    by (auto split: if_splits intro: inj_on_subset)
qed simp

section \<open>The bundle\<close>

text \<open>Everything the API server is meant to trust while the material is in use.\<close>

definition trusted :: "material \<Rightarrow> certificate set" where
  "trusted m =
     insert (kp_cert (m_activeCa m))
       (kp_cert ` set_option (m_pendingCa m) \<union> set (m_previousCas m) \<union> set (m_retainedChartCas m) \<union> set (m_retainedCerts m))"

definition trusted_list :: "material \<Rightarrow> certificate list" where
  "trusted_list m =
     [kp_cert (m_activeCa m)] @ (case m_pendingCa m of None \<Rightarrow> [] | Some p \<Rightarrow> [kp_cert p]) @
     m_previousCas m @ m_retainedChartCas m @ m_retainedCerts m"

definition bundle_key :: "certificate \<Rightarrow> time \<times> string" where
  "bundle_key c = (x_NotBefore c, x_Raw c)"

lemma inj_bundle_key: "inj_on x_Raw A \<Longrightarrow> inj_on bundle_key A"
  by (auto simp: inj_on_def bundle_key_def)

lemma set_trusted_list: "set (trusted_list m) = trusted m"
  by (auto simp: trusted_list_def trusted_def split: option.splits)

lemma bundleCerts_trusted_list: "bundleCerts m = sort_key bundle_key (appendUnique [] (trusted_list m))"
proof -
  have "(case m_pendingCa m of None \<Rightarrow> certs | Some p \<Rightarrow> appendUnique certs [kp_cert p]) =
      appendUnique certs (case m_pendingCa m of None \<Rightarrow> [] | Some p \<Rightarrow> [kp_cert p])" for certs
    by (simp split: option.split)
  then show ?thesis
    by (simp add: bundleCerts_def trusted_list_def bundle_key_def[abs_def] Let_def del: appendUnique_Cons)
qed

lemma set_bundleCerts: "inj_on x_Raw (trusted m) \<Longrightarrow> set (bundleCerts m) = trusted m"
  by (simp add: bundleCerts_trusted_list set_appendUnique set_trusted_list)

lemma bundleCerts_sorted: "sorted (map bundle_key (bundleCerts m))"
  by (simp add: bundleCerts_trusted_list)

lemma bundleCerts_distinct: "distinct (map x_Raw (bundleCerts m))"
  using appendUnique_distinct[of "[]" "trusted_list m"] by (simp add: bundleCerts_trusted_list distinct_map)

text \<open>The bundle is determined by the set of the trusted certificates.\<close>

lemma bundleCerts_cong:
  assumes "trusted m' = trusted m" and inj: "inj_on x_Raw (trusted m)"
  shows "bundleCerts m' = bundleCerts m"
proof (rule map_sorted_distinct_set_unique[where f = bundle_key])
  show "set (bundleCerts m') = set (bundleCerts m)" "inj_on bundle_key (set (bundleCerts m') \<union> set (bundleCerts m))"
    using assms by (simp_all add: set_bundleCerts inj_bundle_key)
  have "distinct (map bundle_key cs)" if "distinct (map x_Raw cs)" for cs
    using that by (auto simp: distinct_map bundle_key_def inj_on_def)
  then show "distinct (map bundle_key (bundleCerts m'))" "distinct (map bundle_key (bundleCerts m))"
    by (simp_all add: bundleCerts_distinct)
qed (rule bundleCerts_sorted)+

lemma switch_keeps_trusted:
  assumes "switchToPendingCa m dnsNames now e = Some m'" and "inj_on x_Raw (trusted m)"
  shows "trusted m' = trusted m"
proof -
  obtain p serving where p: "m_pendingCa m = Some p"
    and m': "m' = m\<lparr>m_previousCas := appendUnique (m_previousCas m) [kp_cert (m_activeCa m)], m_activeCa := p,
                    m_pendingCa := None, m_rotationStartedAt := zero_time, m_serving := Some serving\<rparr>"
    using assms(1) by (auto simp: switchToPendingCa_def Let_def split: option.splits)
  have "set (appendUnique (m_previousCas m) [kp_cert (m_activeCa m)]) = insert (kp_cert (m_activeCa m)) (set (m_previousCas m))"
    using assms(2) by (subst set_appendUnique) (auto simp: trusted_def intro: inj_on_subset)
  then show ?thesis
    by (auto simp: trusted_def p m' simp del: appendUnique_Cons)
qed

section \<open>Storing and reading back\<close>

definition usable_pair :: "keyPair \<Rightarrow> bool" where
  "usable_pair kp \<longleftrightarrow>
     kp_certPem kp = Pem [] [CertificateBlock (kp_cert kp)] \<and> parsePrivateKey (kp_keyPem kp) = Some (kp_key kp) \<and>
     x_PublicKey (kp_cert kp) = kp_key kp"

lemma parseKeyPair_Some:
  "parseKeyPair certPem keyPem = Some kp \<Longrightarrow> usable_pair kp"
  by (auto simp: parseKeyPair_def usable_pair_def encodeCertificates_def Let_def length_Suc_conv
      split: if_splits option.splits)

lemma parseKeyPair_usable: "usable_pair kp \<Longrightarrow> parseKeyPair (kp_certPem kp) (kp_keyPem kp) = Some kp"
  by (simp add: parseKeyPair_def usable_pair_def encodeCertificates_def)

lemma parseCertificates_encodeCertificates [simp]: "parseCertificates (encodeCertificates certs) = certs"
proof -
  have "concat (map (case_pem_block (\<lambda>c. [c]) (\<lambda>_. []) (\<lambda>_. []) \<circ> CertificateBlock) certs) = certs"
    by (induction certs) simp_all
  then show ?thesis
    by (simp add: encodeCertificates_def no_bytes_def)
qed

lemma parse_no_bytes [simp]:
  "parseCertificates no_bytes = []" "parseKeyPair no_bytes b = None" "parseTimestamp no_bytes now = now"
  by (simp_all add: no_bytes_def parseKeyPair_def parseTimestamp_def)

definition live_ca :: "time \<Rightarrow> keyPair \<Rightarrow> bool" where
  "live_ca now ca \<longleftrightarrow> usable_pair ca \<and> x_IsCA (kp_cert ca) \<and> \<not> isExpired (kp_cert ca) now"

text \<open>Material in which nothing is unusable at the given time.\<close>

definition live_material :: "time \<Rightarrow> material \<Rightarrow> bool" where
  "live_material now m \<longleftrightarrow>
     live_ca now (m_activeCa m) \<and> pred_option (live_ca now) (m_pendingCa m) \<and>
     pred_option (\<lambda>s. usable_pair s \<and> verifyServingCertChain (kp_cert s) (kp_cert (m_activeCa m)) now) (m_serving m)"

definition persisted_form :: "time \<Rightarrow> material \<Rightarrow> material" where
  "persisted_form now m =
     m\<lparr>m_rotationStartedAt := (if m_pendingCa m = None then zero_time else truncate_second (m_rotationStartedAt m)),
       m_retainedSince := (if m_retainedCerts m = [] then now else truncate_second (m_retainedSince m))\<rparr>"

lemma data_at_toSecretData:
  "data_at (toSecretData m) ''active-ca.crt'' = kp_certPem (m_activeCa m)"
  "data_at (toSecretData m) ''active-ca.key'' = kp_keyPem (m_activeCa m)"
  "data_at (toSecretData m) ''pending-ca.crt'' = (case m_pendingCa m of None \<Rightarrow> no_bytes | Some p \<Rightarrow> kp_certPem p)"
  "data_at (toSecretData m) ''pending-ca.key'' = (case m_pendingCa m of None \<Rightarrow> no_bytes | Some p \<Rightarrow> kp_keyPem p)"
  "data_at (toSecretData m) ''rotation-started-at'' =
     (if m_pendingCa m = None then no_bytes else Timestamp [] (truncate_second (m_rotationStartedAt m)))"
  "data_at (toSecretData m) ''previous-ca.crt'' = encodeCertificates (m_previousCas m)"
  "data_at (toSecretData m) ''retained-chart-ca.crt'' = encodeCertificates (m_retainedChartCas m)"
  "data_at (toSecretData m) ''retained-ca.crt'' = encodeCertificates (m_retainedCerts m)"
  "data_at (toSecretData m) ''retained-since'' =
     (if m_retainedCerts m = [] then no_bytes else Timestamp [] (truncate_second (m_retainedSince m)))"
  "data_at (toSecretData m) ''tls.crt'' = (case m_serving m of None \<Rightarrow> no_bytes | Some s \<Rightarrow> kp_certPem s)"
  "data_at (toSecretData m) ''tls.key'' = (case m_serving m of None \<Rightarrow> no_bytes | Some s \<Rightarrow> kp_keyPem s)"
  by (simp_all add: data_at_def toSecretData_def encodeCertificates_def split: option.split)

text \<open>What material that has been read successfully consists of.\<close>

lemma materialFromSecretData_Inr:
  assumes "materialFromSecretData data now = Inr m"
  shows "parseKeyPair (data_at data ''active-ca.crt'') (data_at data ''active-ca.key'') = Some (m_activeCa m)"
    and "x_IsCA (kp_cert (m_activeCa m))" and "\<not> isExpired (kp_cert (m_activeCa m)) now"
    and "m_pendingCa m = Some p \<Longrightarrow> parseKeyPair (data_at data ''pending-ca.crt'') (data_at data ''pending-ca.key'') = Some p"
    and "m_serving m = Some s \<Longrightarrow>
      parseKeyPair (data_at data ''tls.crt'') (data_at data ''tls.key'') = Some s \<and>
      verifyServingCertChain (kp_cert s) (kp_cert (m_activeCa m)) now"
proof -
  obtain ca where ca: "parseKeyPair (data_at data ''active-ca.crt'') (data_at data ''active-ca.key'') = Some ca"
    "x_IsCA (kp_cert ca)" "\<not> isExpired (kp_cert ca) now"
    using assms unfolding materialFromSecretData_def
    by (cases "parseKeyPair (data_at data ''active-ca.crt'') (data_at data ''active-ca.key'')"; cases "data = []"; simp)
      (metis sum.distinct(1))
  have m: "m = \<lparr>m_activeCa = ca, m_pendingCa = m_pendingCa m, m_rotationStartedAt = m_rotationStartedAt m,
      m_previousCas = m_previousCas m, m_retainedChartCas = m_retainedChartCas m, m_retainedCerts = m_retainedCerts m,
      m_retainedSince = m_retainedSince m, m_serving = m_serving m\<rparr>"
    and pending: "m_pendingCa m = (case parseKeyPair (data_at data ''pending-ca.crt'') (data_at data ''pending-ca.key'') of
      None \<Rightarrow> None | Some p \<Rightarrow> if x_IsCA (kp_cert p) \<and> \<not> isExpired (kp_cert p) now then Some p else None)"
    and serving: "m_serving m = (case parseKeyPair (data_at data ''tls.crt'') (data_at data ''tls.key'') of
      None \<Rightarrow> None | Some s \<Rightarrow> if verifyServingCertChain (kp_cert s) (kp_cert ca) now then Some s else None)"
    using assms ca unfolding materialFromSecretData_def by (cases "data = []"; simp add: Let_def; fastforce)+
  then have "m_activeCa m = ca"
    by (metis material.select_convs(1))
  with ca show "parseKeyPair (data_at data ''active-ca.crt'') (data_at data ''active-ca.key'') = Some (m_activeCa m)"
    "x_IsCA (kp_cert (m_activeCa m))" "\<not> isExpired (kp_cert (m_activeCa m)) now"
    by simp_all
  show "m_pendingCa m = Some p \<Longrightarrow> parseKeyPair (data_at data ''pending-ca.crt'') (data_at data ''pending-ca.key'') = Some p"
    using pending by (simp split: option.splits if_splits)
  show "m_serving m = Some s \<Longrightarrow>
      parseKeyPair (data_at data ''tls.crt'') (data_at data ''tls.key'') = Some s \<and>
      verifyServingCertChain (kp_cert s) (kp_cert (m_activeCa m)) now"
    using serving \<open>m_activeCa m = ca\<close> by (simp split: option.splits if_splits)
qed

lemma truncate_second_idem [simp]: "truncate_second (truncate_second t) = truncate_second t"
  by (simp add: truncate_second_def mod_diff_left_eq)

lemma bundleCerts_persisted_form [simp]: "bundleCerts (persisted_form now m) = bundleCerts m"
  by (simp add: bundleCerts_def persisted_form_def)

lemma toSecretData_persisted_form: "toSecretData (persisted_form now m) = toSecretData m"
  by (simp add: toSecretData_def material_bundle_def)
    (simp add: persisted_form_def split: option.split)

lemma read_back:
  assumes "live_material now m"
  shows "materialFromSecretData (toSecretData m) now = Inr (persisted_form now m)"
proof -
  have "toSecretData m \<noteq> []"
    by (simp add: toSecretData_def)
  then show ?thesis
    using assms
    by (cases "m_pendingCa m"; cases "m_serving m")
      (simp_all add: materialFromSecretData_def live_material_def live_ca_def data_at_toSecretData parseKeyPair_usable
        persisted_form_def parseTimestamp_def no_bytes_def[symmetric] parse_no_bytes[unfolded parseTimestamp_def])
qed

end
