(* ===== verification/CertHistory.thy ===== *)
theory CertHistory
  imports CertLaws
begin

text \<open>
  The material the operator has produced itself: every history of generating, storing, reading back, retaining,
  maintaining and switching, as an inductive relation, and the invariant of its states.
\<close>

section \<open>Issued certificates\<close>

lemmas durations =
  caValidity_def servingCertValidity_def servingCertRenewBefore_def caRotationLeadTime_def forcedSwitchLeadTime_def
  minimumRotationAge_def foreignCertRetention_def expiryWarningThreshold_def backdate_def days_def hour_def

lemma truncate_second_bounds: "truncate_second t \<le> t" "t - 1000000000 < truncate_second t"
  using pos_mod_bound[of 1000000000 t] by (auto simp: truncate_second_def intro: pos_mod_sign)

lemma truncate_second_mono: "a \<le> b \<Longrightarrow> truncate_second a \<le> truncate_second b"
  by (simp add: truncate_second_def minus_mod_eq_mult_div zdiv_mono1)

definition whole_second :: "time \<Rightarrow> bool" where
  "whole_second t \<longleftrightarrow> truncate_second t = t"

lemma createKeyPair_SomeE:
  assumes "createKeyPair template parent key signer raw = Some kp"
  obtains "kp_cert kp = template\<lparr>x_Raw := raw, x_PublicKey := key, x_SignedBy := signer, x_Issuer := x_Subject parent,
      x_NotBefore := truncate_second (x_NotBefore template), x_NotAfter := truncate_second (x_NotAfter template)\<rparr>"
    and "kp_key kp = key" and "usable_pair kp"
  using assms by (auto simp: createKeyPair_def usable_pair_def Let_def split: if_splits)

text \<open>A CA that may sign serving certificates, with a validity in whole seconds.\<close>

definition signing_ca :: "keyPair \<Rightarrow> bool" where
  "signing_ca ca \<longleftrightarrow>
     usable_pair ca \<and> x_IsCA (kp_cert ca) \<and> KeyUsageCertSign \<in> set (x_KeyUsage (kp_cert ca)) \<and>
     x_ExtKeyUsage (kp_cert ca) = [] \<and> whole_second (x_NotAfter (kp_cert ca))"

lemma generateCa_Some:
  assumes "generateCa now e = Some ca"
  shows "signing_ca ca" and "x_NotAfter (kp_cert ca) = truncate_second (now + caValidity)"
    and "x_NotBefore (kp_cert ca) = truncate_second (now - backdate)"
proof -
  obtain key raw where "createKeyPair (ca_template now) (ca_template now) key key raw = Some ca"
    using assms by (auto simp: generateCa_def split: option.splits)
  then show "signing_ca ca" "x_NotAfter (kp_cert ca) = truncate_second (now + caValidity)"
    "x_NotBefore (kp_cert ca) = truncate_second (now - backdate)"
    by (auto elim!: createKeyPair_SomeE simp: signing_ca_def ca_template_def whole_second_def)
qed

text \<open>A serving certificate of a CA: signed by it, not valid for longer than it.\<close>

definition serving_of :: "keyPair \<Rightarrow> keyPair \<Rightarrow> bool" where
  "serving_of ca s \<longleftrightarrow>
     usable_pair s \<and> signed_by (kp_cert s) (kp_cert ca) \<and> serves_tls (kp_cert s) \<and>
     x_NotAfter (kp_cert s) \<le> x_NotAfter (kp_cert ca)"

lemma servingCertNotAfter_min: "servingCertNotAfter ca now = min (x_NotAfter (kp_cert ca)) (now + servingCertValidity)"
  by (auto simp: servingCertNotAfter_def Let_def)

lemma issueServingCert_Some:
  assumes "issueServingCert ca dnsNames now e = Some s" and "signing_ca ca"
  shows "serving_of ca s" and "x_DNSNames (kp_cert s) = dnsNames"
    and "min (x_NotAfter (kp_cert ca)) (truncate_second (now + servingCertValidity)) \<le> x_NotAfter (kp_cert s)"
    and "x_NotBefore (kp_cert s) = truncate_second (now - backdate)"
proof -
  obtain key raw where create:
    "createKeyPair (serving_template ca dnsNames now) (kp_cert ca) key (kp_key ca) raw = Some s"
    using assms(1) by (auto simp: issueServingCert_def split: option.splits if_splits)
  have notAfter: "truncate_second (servingCertNotAfter ca now) \<le> x_NotAfter (kp_cert ca)"
    using truncate_second_bounds(1)[of "servingCertNotAfter ca now"] by (simp add: servingCertNotAfter_min)
  have "min (x_NotAfter (kp_cert ca)) (truncate_second (now + servingCertValidity)) \<le> truncate_second (servingCertNotAfter ca now)"
    using assms(2) by (auto simp: servingCertNotAfter_min signing_ca_def whole_second_def min_def)
  with create notAfter show "serving_of ca s" "x_DNSNames (kp_cert s) = dnsNames"
    "min (x_NotAfter (kp_cert ca)) (truncate_second (now + servingCertValidity)) \<le> x_NotAfter (kp_cert s)"
    "x_NotBefore (kp_cert s) = truncate_second (now - backdate)"
    using assms(2)
    by (auto elim!: createKeyPair_SomeE
        simp: serving_of_def serving_template_def signed_by_def serves_tls_def signing_ca_def usable_pair_def)
qed

section \<open>The invariant\<close>

text \<open>
  The pending CA was generated when the active one had at most \<open>caRotationLeadTime\<close> left, so it
  outlives it by the difference of the two durations (less the fraction of a second that the encoding drops).
\<close>

definition rotationGap :: time where
  "rotationGap = caValidity - caRotationLeadTime - 1000000000"

definition material_ok :: "material \<Rightarrow> bool" where
  "material_ok m \<longleftrightarrow>
     signing_ca (m_activeCa m) \<and>
     pred_option (\<lambda>p. signing_ca p \<and> x_NotAfter (kp_cert (m_activeCa m)) + rotationGap \<le> x_NotAfter (kp_cert p)) (m_pendingCa m) \<and>
     pred_option (serving_of (m_activeCa m)) (m_serving m)"

inductive produced :: "material \<Rightarrow> bool" where
  generated: "generateMaterial dnsNames candidates now e1 e2 = Some m \<Longrightarrow> produced m"
| read_again: "produced m \<Longrightarrow> materialFromSecretData (toSecretData m) now = Inr m' \<Longrightarrow> produced m'"
| retained: "produced m \<Longrightarrow> produced (fst (retainChartCas m chartCas))"
| maintained: "produced m \<Longrightarrow> maintain m now dnsNames rolloutComplete e1 e2 = Some (m', result) \<Longrightarrow> produced m'"
| switched: "produced m \<Longrightarrow> switchToPendingCa m dnsNames now e = Some m' \<Longrightarrow> produced m'"

lemma generateMaterial_ok: "generateMaterial dnsNames candidates now e1 e2 = Some m \<Longrightarrow> material_ok m"
  by (auto simp: generateMaterial_def material_ok_def split: option.splits
      dest: generateCa_Some issueServingCert_Some)

lemma startRotation_ok:
  assumes "material_ok m" and "startRotation m now e = Some (m', result)"
  shows "material_ok m'" and "m_activeCa m' = m_activeCa m" and "m_serving m' = m_serving m"
    and "m_pendingCa m' = None \<Longrightarrow> now + caRotationLeadTime \<le> x_NotAfter (kp_cert (m_activeCa m))"
proof -
  have "x_NotAfter (kp_cert (m_activeCa m)) + rotationGap \<le> x_NotAfter (kp_cert ca)"
    if "generateCa now e = Some ca" "x_NotAfter (kp_cert (m_activeCa m)) < now + caRotationLeadTime" for ca
    using that(2) generateCa_Some(2)[OF that(1)] truncate_second_bounds(2)[of "now + caValidity"]
    by (simp add: rotationGap_def)
  then show "material_ok m'" "m_activeCa m' = m_activeCa m" "m_serving m' = m_serving m"
    "m_pendingCa m' = None \<Longrightarrow> now + caRotationLeadTime \<le> x_NotAfter (kp_cert (m_activeCa m))"
    using assms generateCa_Some(1)
    by (auto simp: startRotation_def material_ok_def split: if_splits)
qed

lemma removal_frame:
  "removeForeign rolloutComplete now (m, r) = (m', r') \<Longrightarrow>
     m_activeCa m' = m_activeCa m \<and> m_pendingCa m' = m_pendingCa m \<and> m_serving m' = m_serving m"
  "removeExpired now (m, r) = (m', r') \<Longrightarrow>
     m_activeCa m' = m_activeCa m \<and> m_pendingCa m' = m_pendingCa m \<and> m_serving m' = m_serving m"
  by (auto simp: removeForeign_def removeExpired_def split: if_splits)

lemma material_ok_cong:
  "m_activeCa m' = m_activeCa m \<Longrightarrow> m_pendingCa m' = m_pendingCa m \<Longrightarrow> m_serving m' = m_serving m \<Longrightarrow>
     material_ok m' = material_ok m"
  by (simp add: material_ok_def)

text \<open>What a successful \<open>ensureServingCert\<close> leaves behind.\<close>

definition serving_fresh :: "material \<Rightarrow> string list \<Rightarrow> time \<Rightarrow> bool" where
  "serving_fresh m dnsNames now \<longleftrightarrow>
     (\<exists>s. m_serving m = Some s \<and> set dnsNames \<subseteq> set (x_DNSNames (kp_cert s)) \<and>
          min (x_NotAfter (kp_cert (m_activeCa m))) (now + servingCertRenewBefore) \<le> x_NotAfter (kp_cert s))"

lemma issued_fresh:
  assumes "issueServingCert (m_activeCa m) names now e = Some s" and "signing_ca (m_activeCa m)" and "set dnsNames \<subseteq> set names"
  shows "serving_fresh (m\<lparr>m_serving := Some s\<rparr>) dnsNames now"
  using issueServingCert_Some[OF assms(1,2)] truncate_second_bounds(2)[of "now + servingCertValidity"] assms(3)
  by (auto simp: serving_fresh_def durations)

lemma set_missingDnsNames: "set dnsNames \<subseteq> set (x_DNSNames c @ missingDnsNames c dnsNames)"
  by (auto simp: missingDnsNames_def)

lemma ensureServingCert_Some:
  assumes ok: "material_ok m" and run: "ensureServingCert m dnsNames now e = Some (m', change)"
  shows "material_ok m'" and "m_activeCa m' = m_activeCa m" and "m_pendingCa m' = m_pendingCa m"
    and "serving_fresh m' dnsNames now"
proof -
  have ca: "signing_ca (m_activeCa m)"
    using ok by (simp add: material_ok_def)
  consider (kept) "m' = m" "serving_fresh m dnsNames now"
    | (issued) s names where "m' = m\<lparr>m_serving := Some s\<rparr>" "issueServingCert (m_activeCa m) names now e = Some s"
        "set dnsNames \<subseteq> set names"
  proof (cases "m_serving m")
    case None
    with run that(2) show ?thesis
      by (auto simp: ensureServingCert_def)
  next
    case (Some s)
    let ?missing = "missingDnsNames (kp_cert s) dnsNames"
    have names: "set dnsNames \<subseteq> set (x_DNSNames (kp_cert s))" if "?missing = []"
      using that by (auto simp: missingDnsNames_def filter_empty_conv)
    have fresh: "serving_fresh m dnsNames now" if "?missing = []"
      "\<not> (x_NotAfter (kp_cert s) < now + servingCertRenewBefore \<and> x_NotAfter (kp_cert s) < servingCertNotAfter (m_activeCa m) now)"
      using that(2) names[OF that(1)] Some
      by (auto simp: serving_fresh_def servingCertNotAfter_min durations)
    show ?thesis
      using run that Some fresh set_missingDnsNames[of dnsNames "kp_cert s"]
      by (auto simp: ensureServingCert_def Let_def split: if_splits)
  qed
  then have "material_ok m' \<and> m_activeCa m' = m_activeCa m \<and> m_pendingCa m' = m_pendingCa m \<and> serving_fresh m' dnsNames now"
  proof cases
    case kept
    with ok show ?thesis
      by simp
  next
    case (issued s names)
    with ok issueServingCert_Some(1)[OF issued(2) ca] issued_fresh[OF issued(2) ca issued(3)] show ?thesis
      by (simp add: material_ok_def)
  qed
  then show "material_ok m'" "m_activeCa m' = m_activeCa m" "m_pendingCa m' = m_pendingCa m" "serving_fresh m' dnsNames now"
    by simp_all
qed

lemma maintain_Some:
  assumes ok: "material_ok m" and run: "maintain m now dnsNames rolloutComplete e1 e2 = Some (m', result)"
  shows "material_ok m'" and "m_activeCa m' = m_activeCa m" and "serving_fresh m' dnsNames now"
    and "m_pendingCa m' = None \<Longrightarrow> now + caRotationLeadTime \<le> x_NotAfter (kp_cert (m_activeCa m))"
proof -
  obtain m1 r1 where start: "startRotation m now e1 = Some (m1, r1)"
    using run by (auto simp: maintain_def split: option.splits)
  obtain m2 r2 where foreign: "removeForeign rolloutComplete now (m1, r1) = (m2, r2)"
    by fastforce
  obtain m3 r3 where expired: "removeExpired now (m2, r2) = (m3, r3)"
    by fastforce
  obtain c where ensure: "ensureServingCert m3 dnsNames now e2 = Some (m', c)"
    using run by (auto simp: maintain_def start foreign expired)
  note started = startRotation_ok[OF ok start]
  have m3: "material_ok m3" "m_activeCa m3 = m_activeCa m" "m_pendingCa m3 = m_pendingCa m1"
    using started removal_frame(1)[OF foreign] removal_frame(2)[OF expired] material_ok_cong[of m3 m1] by simp_all
  note ensured = ensureServingCert_Some[OF m3(1) ensure]
  show "material_ok m'" "m_activeCa m' = m_activeCa m" "serving_fresh m' dnsNames now"
    "m_pendingCa m' = None \<Longrightarrow> now + caRotationLeadTime \<le> x_NotAfter (kp_cert (m_activeCa m))"
    using ensured m3 started(4) by simp_all
qed

lemma switchToPendingCa_Some:
  assumes "material_ok m" and "switchToPendingCa m dnsNames now e = Some m'"
  shows "material_ok m'" and "Some (m_activeCa m') = m_pendingCa m" and "m_pendingCa m' = None"
  using assms issueServingCert_Some(1)
  by (auto simp: switchToPendingCa_def material_ok_def Let_def split: option.splits)

lemma read_back_ok:
  assumes ok: "material_ok m" and read: "materialFromSecretData (toSecretData m) now = Inr m'"
  shows "material_ok m'" and "m_activeCa m' = m_activeCa m" and "\<not> isExpired (kp_cert (m_activeCa m')) now"
proof -
  note parts = materialFromSecretData_Inr[OF read, unfolded data_at_toSecretData]
  show active: "m_activeCa m' = m_activeCa m"
    using parts(1) ok by (simp add: material_ok_def signing_ca_def parseKeyPair_usable)
  have "m_pendingCa m' = None \<or> m_pendingCa m' = m_pendingCa m"
    using parts(4) ok
    by (cases "m_pendingCa m"; cases "m_pendingCa m'") (auto simp: material_ok_def signing_ca_def parseKeyPair_usable)
  moreover have "m_serving m' = None \<or> m_serving m' = m_serving m"
    using parts(5) ok
    by (cases "m_serving m"; cases "m_serving m'") (auto simp: material_ok_def serving_of_def parseKeyPair_usable)
  ultimately show "material_ok m'"
    using ok active by (auto simp: material_ok_def)
  show "\<not> isExpired (kp_cert (m_activeCa m')) now"
    by (rule parts(3))
qed

lemma produced_material_ok: "produced m \<Longrightarrow> material_ok m"
proof (induction rule: produced.induct)
  case (retained m chartCas)
  then show ?case
    by (simp add: retainChartCas_def Let_def material_ok_def)
qed (auto dest: generateMaterial_ok read_back_ok maintain_Some switchToPendingCa_Some)

end
