(* ===== verification/ApiCalls.thy ===== *)
theory ApiCalls
  imports Prelude "HOL-Library.State_Monad"
begin

text \<open>
  Programs that call the Kubernetes API: the errors of the API, computations in the state monad over the state of the
  program and that of the outside world, and their weakest preconditions.
\<close>

section \<open>Errors\<close>

datatype api_error = NotFound | Conflict | Forbidden | Invalid | BadRequest | OtherApiError string

text \<open>An error that the code passes on: it wraps an error of the API, or it is a message of its own.\<close>

datatype call_error = Api api_error | Message string

definition IsNotFound :: "call_error \<Rightarrow> bool" where
  "IsNotFound e \<longleftrightarrow> e = Api NotFound"

definition IsConflict :: "call_error \<Rightarrow> bool" where
  "IsConflict e \<longleftrightarrow> e = Api Conflict"

definition IsForbidden :: "call_error \<Rightarrow> bool" where
  "IsForbidden e \<longleftrightarrow> e = Api Forbidden"

section \<open>Calls\<close>

text \<open>
  The state of a computation has two parts: that of the program, and that of the outside world (the Kubernetes
  API, the clock, the random source), on which the functions that a record of calls provides work.
\<close>

definition call :: "('w \<Rightarrow> 'a \<times> 'w) \<Rightarrow> ('m \<times> 'w, 'a) state" where
  "call f = State (\<lambda>(mg, w). case f w of (a, w') \<Rightarrow> (a, (mg, w')))"

definition change :: "('m \<Rightarrow> 'm) \<Rightarrow> ('m \<times> 'w, unit) state" where
  "change f = State (\<lambda>(mg, w). ((), (f mg, w)))"

definition the_manager :: "('m \<times> 'w, 'm) state" where
  "the_manager = State (\<lambda>(mg, w). (mg, (mg, w)))"

text \<open>A step that may panic ends the computation with the panic.\<close>

definition pbind :: "('s, 'a outcome) state \<Rightarrow> ('a \<Rightarrow> ('s, 'b outcome) state) \<Rightarrow> ('s, 'b outcome) state" where
  "pbind f g = do {
     r \<leftarrow> f;
     (case r of Inl p \<Rightarrow> State_Monad.return (Inl p) | Inr a \<Rightarrow> g a)
   }"

definition ok :: "'a \<Rightarrow> ('s, 'a outcome) state" where
  "ok a = State_Monad.return (Inr a)"

definition safely :: "('s, 'a) state \<Rightarrow> ('s, 'a outcome) state" where
  "safely f = do {
     a \<leftarrow> f;
     ok a
   }"

section \<open>Weakest preconditions\<close>

definition wp :: "('s, 'a) state \<Rightarrow> ('a \<Rightarrow> 's \<Rightarrow> bool) \<Rightarrow> 's \<Rightarrow> bool" where
  "wp f Q s = (case run_state f s of (a, s') \<Rightarrow> Q a s')"

named_theorems wp_simps \<open>weakest preconditions of the primitive steps\<close>

lemma wp_return [wp_simps]: "wp (State_Monad.return a) Q = Q a"
  by (simp add: wp_def fun_eq_iff)

lemma wp_bind [wp_simps]: "wp (State_Monad.bind f g) Q = wp f (\<lambda>a. wp (g a) Q)"
  by (simp add: wp_def fun_eq_iff split: prod.split)

lemma wp_cases [wp_simps]:
  "wp (if b then f else g) Q = (if b then wp f Q else wp g Q)"
  "wp (case x of None \<Rightarrow> n | Some y \<Rightarrow> h y) Q = (case x of None \<Rightarrow> wp n Q | Some y \<Rightarrow> wp (h y) Q)"
  "wp (case r of Inl e \<Rightarrow> l e | Inr v \<Rightarrow> k v) Q = (case r of Inl e \<Rightarrow> wp (l e) Q | Inr v \<Rightarrow> wp (k v) Q)"
  "wp (case p of (u, v) \<Rightarrow> j u v) Q = (case p of (u, v) \<Rightarrow> wp (j u v) Q)"
  by (simp_all split: option.split sum.split prod.split)

lemma wp_ok [wp_simps]: "wp (ok a) Q = Q (Inr a)"
  by (simp add: ok_def wp_return)

lemma wp_safely [wp_simps]: "wp (safely f) Q = wp f (\<lambda>a. Q (Inr a))"
  by (simp add: safely_def wp_bind wp_ok)

lemma wp_pbind [wp_simps]:
  "wp (pbind f g) Q = wp f (\<lambda>r. case r of Inl p \<Rightarrow> Q (Inl p) | Inr a \<Rightarrow> wp (g a) Q)"
  by (simp add: pbind_def wp_bind fun_eq_iff wp_def split: sum.split prod.split)

lemma wp_change [wp_simps]: "wp (change f) Q (mg, w) = Q () (f mg, w)"
  by (simp add: wp_def change_def)

lemma wp_the_manager [wp_simps]: "wp the_manager Q (mg, w) = Q mg (mg, w)"
  by (simp add: wp_def the_manager_def)

text \<open>The outside world may answer anything and go on in any state.\<close>

lemma wp_call: "(\<And>a w'. Q a (mg, w')) \<Longrightarrow> wp (call f) Q (mg, w)"
  by (simp add: wp_def call_def split: prod.split)

lemma wp_mono: "wp f P s \<Longrightarrow> (\<And>a s'. P a s' \<Longrightarrow> Q a s') \<Longrightarrow> wp f Q s"
  by (auto simp: wp_def)

end
