(* ===== verification/CertManager.thy ===== *)
theory CertManager
  imports CertMaterial ApiCalls
begin

text \<open>
  The manager of the webhook certificates: \<open>manager.go\<close>, \<open>store.go\<close>, \<open>config.go\<close> and \<open>rollout.go\<close> of
  \<open>internal/webhookcerts\<close>.

  The Kubernetes API, the clock and the random source are arguments: a record of functions on a state of the outside
  world about which nothing is assumed, so that every call may fail and the world may change between two calls. A pass is
  a computation in the state monad over the manager and the world. Log messages are left out; events are recorded by their reason.
\<close>

section \<open>Configuration\<close>

record target =
  tg_Kind :: string
  tg_Name :: string

definition Target_String :: "target \<Rightarrow> string" where
  "Target_String t = tg_Kind t @ ''/'' @ tg_Name t"

definition TargetKindMutatingWebhookConfiguration :: string where
  "TargetKindMutatingWebhookConfiguration = ''MutatingWebhookConfiguration''"

definition TargetKindValidatingWebhookConfiguration :: string where
  "TargetKindValidatingWebhookConfiguration = ''ValidatingWebhookConfiguration''"

definition TargetKindCustomResourceDefinition :: string where
  "TargetKindCustomResourceDefinition = ''CustomResourceDefinition''"

definition targetKinds :: "string list" where
  "targetKinds =
     [TargetKindMutatingWebhookConfiguration, TargetKindValidatingWebhookConfiguration, TargetKindCustomResourceDefinition]"

record config =
  cf_OperatorNamespace :: string
  cf_SecretName :: string
  cf_PreviousSecretName :: string
  cf_DeploymentName :: string
  cf_WebhookServiceName :: string
  cf_Targets :: "target list"
  cf_PersesCrdName :: string

text \<open>\<open>strings.Cut\<close> at the first slash: the two sides, or \<open>None\<close>.\<close>

definition cut_slash :: "string \<Rightarrow> (string \<times> string) option" where
  "cut_slash s =
     (case dropWhile (\<lambda>c. c \<noteq> CHR ''/'') s of [] \<Rightarrow> None | _ # rest \<Rightarrow> Some (takeWhile (\<lambda>c. c \<noteq> CHR ''/'') s, rest))"

fun parse_entries :: "string list \<Rightarrow> string + target list" where
  "parse_entries [] = Inr []"
| "parse_entries (raw # entries) =
     (let entry = TrimSpace raw
      in if entry = [] then parse_entries entries
         else case cut_slash entry of
                None \<Rightarrow> Inl (''invalid injection target '' @ entry)
              | Some (kind, name) \<Rightarrow>
                  if name = [] then Inl (''invalid injection target '' @ entry)
                  else if kind \<notin> set targetKinds then Inl (''unsupported kind in injection target '' @ entry)
                  else case parse_entries entries of
                         Inl e \<Rightarrow> Inl e
                       | Inr targets \<Rightarrow> Inr (\<lparr>tg_Kind = kind, tg_Name = name\<rparr> # targets))"

definition ParseTargets :: "string \<Rightarrow> string + target list" where
  "ParseTargets raw = parse_entries (Split raw CHR '','')"

definition InjectionTargetLabel :: string where
  "InjectionTargetLabel = ''dash0.com/inject-ca-bundle''"

section \<open>Rollout of the deployment\<close>

record deployment_condition =
  dc_Type :: string
  dc_Status :: string
  dc_Reason :: string

record deployment =
  dp_Generation :: int
  dp_ObservedGeneration :: int
  dp_SpecReplicas :: "int option"
  dp_Replicas :: int
  dp_UpdatedReplicas :: int
  dp_AvailableReplicas :: int
  dp_Conditions :: "deployment_condition list"

datatype rollout_status =
    SpecNotObserved | RolloutFailed | NotUpdated int int | OldReplicasRunning int | NotAvailable int int | RolloutComplete

definition EvaluateDeploymentRollout :: "deployment \<Rightarrow> rollout_status" where
  "EvaluateDeploymentRollout d =
     (if dp_ObservedGeneration d < dp_Generation d then SpecNotObserved
      else if list_ex (\<lambda>c. dc_Type c = ''Progressing'' \<and> dc_Status c = ''False'' \<and> dc_Reason c = ''ProgressDeadlineExceeded'')
                (dp_Conditions d) then RolloutFailed
      else
        (let desiredReplicas = (case dp_SpecReplicas d of None \<Rightarrow> 1 | Some n \<Rightarrow> n)
         in if dp_UpdatedReplicas d < desiredReplicas then NotUpdated (dp_UpdatedReplicas d) desiredReplicas
            else if dp_UpdatedReplicas d < dp_Replicas d then OldReplicasRunning (dp_Replicas d - dp_UpdatedReplicas d)
            else if dp_AvailableReplicas d < dp_UpdatedReplicas d
            then NotAvailable (dp_AvailableReplicas d) (dp_UpdatedReplicas d)
            else RolloutComplete))"

section \<open>Objects of the API\<close>

record k8s_secret =
  se_UID :: string
  se_ResourceVersion :: string
  se_Data :: secret_data

record service_reference =
  sr_Name :: string
  sr_Namespace :: string

record client_config =
  cc_Service :: "service_reference option"
  cc_CABundle :: bytes

record webhook =
  wh_Name :: string
  wh_ClientConfig :: client_config

text \<open>A custom resource definition has an optional conversion, with an optional webhook, with an optional client configuration.\<close>

datatype target_object =
    MutatingWebhookConfiguration "(string \<times> string) list" "webhook list"
  | ValidatingWebhookConfiguration "(string \<times> string) list" "webhook list"
  | CustomResourceDefinition "(string \<times> string) list" "client_config option option option"

fun GetLabels :: "target_object \<Rightarrow> (string \<times> string) list" where
  "GetLabels (MutatingWebhookConfiguration ls _) = ls"
| "GetLabels (ValidatingWebhookConfiguration ls _) = ls"
| "GetLabels (CustomResourceDefinition ls _) = ls"

record 'w client =
  cl_getSecret :: "string \<Rightarrow> string \<Rightarrow> 'w \<Rightarrow> (api_error + k8s_secret) \<times> 'w"
  cl_updateSecret :: "k8s_secret \<Rightarrow> 'w \<Rightarrow> (api_error + k8s_secret) \<times> 'w"
  cl_getObject :: "string \<Rightarrow> string \<Rightarrow> 'w \<Rightarrow> (api_error + target_object) \<times> 'w"
  cl_patchObject :: "target \<Rightarrow> target_object \<Rightarrow> target_object \<Rightarrow> 'w \<Rightarrow> api_error option \<times> 'w"
  cl_getDeployment :: "string \<Rightarrow> string \<Rightarrow> 'w \<Rightarrow> (api_error + deployment) \<times> 'w"
  cl_now :: "'w \<Rightarrow> time \<times> 'w"
  cl_random :: "'w \<Rightarrow> entropy \<times> 'w"

section \<open>The store\<close>

text \<open>The listeners are called in goroutines of their own; the store records the bundles they are called with.\<close>

record store =
  st_certificate :: "(bytes \<times> bytes) option"
  st_leaf :: "certificate option"
  st_caBundle :: bytes
  st_ready :: bool
  st_notified :: "bytes list"

definition NewStore :: store where
  "NewStore = \<lparr>st_certificate = None, st_leaf = None, st_caBundle = no_bytes, st_ready = False, st_notified = []\<rparr>"

definition GetCertificate :: "store \<Rightarrow> call_error + bytes \<times> bytes" where
  "GetCertificate s =
     (case st_certificate s of
        None \<Rightarrow> Inl (Message ''the webhook serving certificate has not been loaded yet'')
      | Some c \<Rightarrow> Inr c)"

definition ReadyCheck :: "store \<Rightarrow> call_error option" where
  "ReadyCheck s =
     (if \<not> st_ready s then Some (Message ''the webhook certificates have not been loaded and injected yet'') else None)"

definition notifyListeners :: "store \<Rightarrow> store" where
  "notifyListeners s = s\<lparr>st_notified := st_notified s @ [st_caBundle s]\<rparr>"

text \<open>\<open>tls.X509KeyPair\<close>: the first certificate must belong to the first private key.\<close>

fun firstPrivateKey :: "bytes \<Rightarrow> string option" where
  "firstPrivateKey (Pem _ blocks) =
     (case concat (map (\<lambda>b. case b of PrivateKeyBlock k \<Rightarrow> [k] | _ \<Rightarrow> []) blocks) of [] \<Rightarrow> None | k # _ \<Rightarrow> Some k)"
| "firstPrivateKey _ = None"

definition X509KeyPair :: "bytes \<Rightarrow> bytes \<Rightarrow> (bytes \<times> bytes) option" where
  "X509KeyPair certPem keyPem =
     (case (parseCertificates certPem, firstPrivateKey keyPem) of
        (c # _, Some k) \<Rightarrow> if x_PublicKey c = k then Some (certPem, keyPem) else None
      | _ \<Rightarrow> None)"

text \<open>Loading material without a serving certificate would dereference a nil pointer; it does not happen.\<close>

definition store_load :: "material \<Rightarrow> store \<Rightarrow> call_error option \<times> store" where
  "store_load m s =
     (case m_serving m of
        None \<Rightarrow> (Some (Message ''nil pointer dereference''), s)
      | Some serving \<Rightarrow>
          (case X509KeyPair (kp_certPem serving) (kp_keyPem serving) of
             None \<Rightarrow> (Some (Message ''cannot load the serving certificate''), s)
           | Some certificate \<Rightarrow>
               (let loaded = s\<lparr>st_certificate := Some certificate, st_leaf := Some (kp_cert serving),
                               st_caBundle := material_bundle m\<rparr>
                in (None, if st_caBundle s \<noteq> material_bundle m then notifyListeners loaded else loaded))))"

section \<open>The manager\<close>

record rememberedMaterial =
  rm_secretUid :: string
  rm_data :: secret_data

record manager =
  mg_store :: store
  mg_remembered :: "rememberedMaterial option"
  mg_lastInjected :: "target \<Rightarrow> bytes option"
  mg_missingLogged :: "target \<Rightarrow> bool"
  mg_hasRecorder :: bool
  mg_events :: "string list"

definition NewManager :: manager where
  "NewManager =
     \<lparr>mg_store = NewStore, mg_remembered = None, mg_lastInjected = (\<lambda>_. None), mg_missingLogged = (\<lambda>_. False),
      mg_hasRecorder = False, mg_events = []\<rparr>"

type_synonym ('w, 'a) pass = "(manager \<times> 'w, 'a) state"

definition warningEvent :: "string \<Rightarrow> ('w, unit) pass" where
  "warningEvent reason = change (\<lambda>mg. if mg_hasRecorder mg then mg\<lparr>mg_events := mg_events mg @ [reason]\<rparr> else mg)"

definition SetEventRecorder :: "('w, unit) pass" where
  "SetEventRecorder = change (\<lambda>mg. mg\<lparr>mg_hasRecorder := True\<rparr>)"

definition remember :: "k8s_secret \<Rightarrow> secret_data \<Rightarrow> ('w, unit) pass" where
  "remember secret data = change (\<lambda>mg. mg\<lparr>mg_remembered := Some \<lparr>rm_secretUid = se_UID secret, rm_data = data\<rparr>\<rparr>)"

definition load :: "material \<Rightarrow> ('w, call_error option) pass" where
  "load m = do {
     mg \<leftarrow> the_manager;
     let (err, st) = store_load m (mg_store mg);
     change (\<lambda>mg. mg\<lparr>mg_store := st\<rparr>);
     State_Monad.return err
   }"

definition writeSecret :: "'w client \<Rightarrow> k8s_secret \<Rightarrow> secret_data \<Rightarrow> ('w, call_error + k8s_secret) pass" where
  "writeSecret c secret data = do {
     answer \<leftarrow> call (cl_updateSecret c (secret\<lparr>se_Data := data\<rparr>));
     (case answer of
        Inl e \<Rightarrow> do {
          (if e = Conflict then State_Monad.return () else warningEvent ''WebhookCertificatesSecretUpdateFailed'');
          State_Monad.return (Inl (Api e))
        }
      | Inr updated \<Rightarrow> do {
          remember updated data;
          State_Monad.return (Inr updated)
        })
   }"

section \<open>Targets\<close>

definition isOwnService :: "config \<Rightarrow> client_config \<Rightarrow> bool" where
  "isOwnService cf cc \<longleftrightarrow>
     cc_Service cc = Some \<lparr>sr_Name = cf_WebhookServiceName cf, sr_Namespace = cf_OperatorNamespace cf\<rparr>"

text \<open>The bundles the references point at, and writing through the references.\<close>

fun clientConfigsOf :: "config \<Rightarrow> target_object \<Rightarrow> bytes list" where
  "clientConfigsOf cf (MutatingWebhookConfiguration _ whs) =
     map cc_CABundle (filter (isOwnService cf) (map wh_ClientConfig whs))"
| "clientConfigsOf cf (ValidatingWebhookConfiguration _ whs) =
     map cc_CABundle (filter (isOwnService cf) (map wh_ClientConfig whs))"
| "clientConfigsOf cf (CustomResourceDefinition _ conversion) =
     (case conversion of
        Some (Some (Some cc)) \<Rightarrow> if isOwnService cf cc then [cc_CABundle cc] else []
      | _ \<Rightarrow> [])"

definition set_own :: "config \<Rightarrow> bytes \<Rightarrow> client_config \<Rightarrow> client_config" where
  "set_own cf caBundle cc = (if isOwnService cf cc then cc\<lparr>cc_CABundle := caBundle\<rparr> else cc)"

definition set_webhook :: "config \<Rightarrow> bytes \<Rightarrow> webhook \<Rightarrow> webhook" where
  "set_webhook cf caBundle wh = wh\<lparr>wh_ClientConfig := set_own cf caBundle (wh_ClientConfig wh)\<rparr>"

fun setClientConfigs :: "config \<Rightarrow> bytes \<Rightarrow> target_object \<Rightarrow> target_object" where
  "setClientConfigs cf caBundle (MutatingWebhookConfiguration ls whs) =
     MutatingWebhookConfiguration ls (map (set_webhook cf caBundle) whs)"
| "setClientConfigs cf caBundle (ValidatingWebhookConfiguration ls whs) =
     ValidatingWebhookConfiguration ls (map (set_webhook cf caBundle) whs)"
| "setClientConfigs cf caBundle (CustomResourceDefinition ls conversion) =
     CustomResourceDefinition ls (map_option (map_option (map_option (set_own cf caBundle))) conversion)"

definition getTarget :: "config \<Rightarrow> 'w client \<Rightarrow> target \<Rightarrow> ('w, call_error + target_object option) pass" where
  "getTarget cf c t =
     (if tg_Kind t \<notin> set targetKinds then State_Monad.return (Inl (Message ''unsupported target kind''))
      else do {
        answer \<leftarrow> call (cl_getObject c (tg_Kind t) (tg_Name t));
        State_Monad.return (case answer of
          Inl NotFound \<Rightarrow> Inr None
        | Inl e \<Rightarrow> Inl (Api e)
        | Inr object \<Rightarrow>
            if (case map_of (GetLabels object) InjectionTargetLabel of None \<Rightarrow> [] | Some v \<Rightarrow> v) \<noteq> cf_OperatorNamespace cf
            then Inr None else Inr (Some object))
      })"

definition readTargetBundles :: "config \<Rightarrow> 'w client \<Rightarrow> target \<Rightarrow> ('w, call_error + bytes list) pass" where
  "readTargetBundles cf c t = do {
     answer \<leftarrow> getTarget cf c t;
     State_Monad.return (case answer of
       Inl e \<Rightarrow> Inl e
     | Inr None \<Rightarrow> Inr []
     | Inr (Some object) \<Rightarrow> Inr (clientConfigsOf cf object))
   }"

record targetOutcome =
  to_target :: target
  to_injected :: bool
  to_ignored :: bool
  to_permanent :: bool
  to_err :: "call_error option"

definition outcome_of :: "target \<Rightarrow> targetOutcome" where
  "outcome_of t = \<lparr>to_target = t, to_injected = False, to_ignored = False, to_permanent = False, to_err = None\<rparr>"

definition inject :: "config \<Rightarrow> 'w client \<Rightarrow> target \<Rightarrow> bytes \<Rightarrow> ('w, targetOutcome) pass" where
  "inject cf c t caBundle = do {
     answer \<leftarrow> getTarget cf c t;
     (case answer of
        Inl e \<Rightarrow> State_Monad.return ((outcome_of t)\<lparr>to_err := Some e, to_permanent := IsForbidden e\<rparr>)
      | Inr None \<Rightarrow> do {
          change (\<lambda>mg. mg\<lparr>mg_missingLogged := (mg_missingLogged mg)(t := True)\<rparr>);
          State_Monad.return ((outcome_of t)\<lparr>to_ignored := True\<rparr>)
        }
      | Inr (Some object) \<Rightarrow> do {
          change (\<lambda>mg. mg\<lparr>mg_missingLogged := (mg_missingLogged mg)(t := False)\<rparr>);
          (if clientConfigsOf cf object = []
           then State_Monad.return ((outcome_of t)\<lparr>
                  to_err := Some (Message ''no webhook client configuration points at the service''), to_permanent := True\<rparr>)
           else if list_all (\<lambda>b. b = caBundle) (clientConfigsOf cf object)
           then do {
             change (\<lambda>mg. mg\<lparr>mg_lastInjected := (mg_lastInjected mg)(t := Some caBundle)\<rparr>);
             State_Monad.return ((outcome_of t)\<lparr>to_injected := True\<rparr>)
           }
           else do {
             answer \<leftarrow> call (cl_patchObject c t object (setClientConfigs cf caBundle object));
             (case answer of
                Some e \<Rightarrow> State_Monad.return ((outcome_of t)\<lparr>to_err := Some (Api e),
                    to_permanent := (e = Forbidden \<or> e = Invalid \<or> e = BadRequest)\<rparr>)
              | None \<Rightarrow> do {
                  change (\<lambda>mg. mg\<lparr>mg_lastInjected := (mg_lastInjected mg)(t := Some caBundle)\<rparr>);
                  State_Monad.return ((outcome_of t)\<lparr>to_injected := True\<rparr>)
                })
           })
        })
   }"

definition maxConflictRetries :: nat where
  "maxConflictRetries = 3"

text \<open>The argument counts the attempts after the current one.\<close>

fun inject_attempts :: "nat \<Rightarrow> config \<Rightarrow> 'w client \<Rightarrow> target \<Rightarrow> bytes \<Rightarrow> ('w, targetOutcome) pass" where
  "inject_attempts n cf c t caBundle = do {
     outcome \<leftarrow> inject cf c t caBundle;
     (if pred_option IsConflict (to_err outcome) \<and> to_err outcome \<noteq> None \<and> 0 < n
      then inject_attempts (n - 1) cf c t caBundle
      else State_Monad.return outcome)
   }"

declare inject_attempts.simps [simp del]

definition injectWithRetry :: "config \<Rightarrow> 'w client \<Rightarrow> target \<Rightarrow> bytes \<Rightarrow> ('w, targetOutcome) pass" where
  "injectWithRetry = inject_attempts maxConflictRetries"

definition injectAll :: "config \<Rightarrow> 'w client \<Rightarrow> bytes \<Rightarrow> ('w, targetOutcome list) pass" where
  "injectAll cf c caBundle = State_Monad.traverse_list (\<lambda>t. injectWithRetry cf c t caBundle) (cf_Targets cf)"

definition checkPersesCrdBundle :: "config \<Rightarrow> 'w client \<Rightarrow> bytes \<Rightarrow> ('w, bool) pass" where
  "checkPersesCrdBundle cf c caBundle =
     (if cf_PersesCrdName cf = [] then State_Monad.return True
      else do {
        answer \<leftarrow> call (cl_getObject c TargetKindCustomResourceDefinition (cf_PersesCrdName cf));
        (case answer of
           Inl e \<Rightarrow> State_Monad.return (e = NotFound)
         | Inr crd \<Rightarrow>
             (case clientConfigsOf cf crd of
                [] \<Rightarrow> State_Monad.return True
              | b # _ \<Rightarrow>
                  if b = caBundle then State_Monad.return True
                  else do {
                    change (\<lambda>mg. mg\<lparr>mg_store := notifyListeners (mg_store mg)\<rparr>);
                    State_Monad.return False
                  }))
      })"

section \<open>A pass\<close>

definition isRolloutComplete :: "config \<Rightarrow> 'w client \<Rightarrow> ('w, bool) pass" where
  "isRolloutComplete cf c = do {
     answer \<leftarrow> call (cl_getDeployment c (cf_OperatorNamespace cf) (cf_DeploymentName cf));
     State_Monad.return (case answer of Inl _ \<Rightarrow> False | Inr d \<Rightarrow> EvaluateDeploymentRollout d = RolloutComplete)
   }"

definition no_candidates :: retentionCandidates where
  "no_candidates = \<lparr>rc_chartCas = [], rc_other = []\<rparr>"

fun collect_from_targets ::
  "config \<Rightarrow> 'w client \<Rightarrow> time \<Rightarrow> target list \<Rightarrow> retentionCandidates \<Rightarrow> ('w, retentionCandidates) pass" where
  "collect_from_targets cf c now [] candidates = State_Monad.return candidates"
| "collect_from_targets cf c now (t # ts) candidates = do {
     answer \<leftarrow> readTargetBundles cf c t;
     collect_from_targets cf c now ts
       (case answer of
          Inl _ \<Rightarrow> candidates
        | Inr bundles \<Rightarrow> foldl (\<lambda>cs b. retentionCandidates_add cs (parseCertificates b) False now) candidates bundles)
   }"

definition collectRetentionCandidates :: "config \<Rightarrow> 'w client \<Rightarrow> time \<Rightarrow> ('w, retentionCandidates) pass" where
  "collectRetentionCandidates cf c now = do {
     candidates \<leftarrow> collect_from_targets cf c now (cf_Targets cf) no_candidates;
     (if cf_PreviousSecretName cf = [] then State_Monad.return candidates
      else do {
        answer \<leftarrow> call (cl_getSecret c (cf_OperatorNamespace cf) (cf_PreviousSecretName cf));
        State_Monad.return (case answer of
          Inl _ \<Rightarrow> candidates
        | Inr previous \<Rightarrow>
            retentionCandidates_add candidates (parseCertificates (data_at (se_Data previous) ''ca.crt'')) True now)
      })
   }"

definition dnsNames_of :: "config \<Rightarrow> string list" where
  "dnsNames_of cf = servingDnsNames (cf_WebhookServiceName cf) (cf_OperatorNamespace cf)"

text \<open>The material in the secret, in the memory of the process, or newly generated; the flag is \<open>isNew\<close>.\<close>

definition restored :: "manager \<Rightarrow> k8s_secret \<Rightarrow> time \<Rightarrow> material option" where
  "restored mg secret now =
     (case mg_remembered mg of
        None \<Rightarrow> None
      | Some r \<Rightarrow>
          if rm_secretUid r \<noteq> se_UID secret then None
          else case materialFromSecretData (rm_data r) now of Inl _ \<Rightarrow> None | Inr m \<Rightarrow> Some m)"

definition obtainMaterial ::
  "config \<Rightarrow> 'w client \<Rightarrow> k8s_secret \<Rightarrow> time \<Rightarrow> ('w, (material \<times> bool) option) pass" where
  "obtainMaterial cf c secret now =
     (case materialFromSecretData (se_Data secret) now of
        Inr m \<Rightarrow> State_Monad.return (Some (m, False))
      | Inl _ \<Rightarrow> do {
          mg \<leftarrow> the_manager;
          (case restored mg secret now of
             Some m \<Rightarrow> State_Monad.return (Some (m, False))
           | None \<Rightarrow> do {
               candidates \<leftarrow> collectRetentionCandidates cf c now;
               e1 \<leftarrow> call (cl_random c);
               e2 \<leftarrow> call (cl_random c);
               State_Monad.return (map_option (\<lambda>m. (m, True)) (generateMaterial (dnsNames_of cf) candidates now e1 e2))
             })
        })"

definition retainCandidates :: "config \<Rightarrow> 'w client \<Rightarrow> time \<Rightarrow> material \<times> bool \<Rightarrow> ('w, material) pass" where
  "retainCandidates cf c now = (\<lambda>(m, isNew).
     if isNew then State_Monad.return m
     else do {
       candidates \<leftarrow> collectRetentionCandidates cf c now;
       State_Monad.return (fst (retainChartCas m (rc_chartCas candidates)))
     })"

definition retention_due :: "material \<Rightarrow> time \<Rightarrow> bool" where
  "retention_due m now \<longleftrightarrow> m_retainedCerts m \<noteq> [] \<and> \<not> now < m_retainedSince m + foreignCertRetention"

text \<open>The three parts of \<open>ensureMaterial\<close> after the secret has been read, from the last one.\<close>

definition persistMaterial :: "'w client \<Rightarrow> k8s_secret \<Rightarrow> material \<Rightarrow> ('w, call_error + material \<times> k8s_secret) pass" where
  "persistMaterial c secret current =
     (if dataEqual (toSecretData current) (se_Data secret)
      then do {
        remember secret (toSecretData current);
        State_Monad.return (Inr (current, secret))
      }
      else do {
        written \<leftarrow> writeSecret c secret (toSecretData current);
        State_Monad.return (case written of Inl e \<Rightarrow> Inl e | Inr updated \<Rightarrow> Inr (current, updated))
      })"

definition maintainMaterial ::
  "config \<Rightarrow> 'w client \<Rightarrow> k8s_secret \<Rightarrow> time \<Rightarrow> material \<Rightarrow> ('w, call_error + material \<times> k8s_secret) pass" where
  "maintainMaterial cf c secret now m = do {
     rolloutComplete \<leftarrow> (if retention_due m now then isRolloutComplete cf c else State_Monad.return False);
     e1 \<leftarrow> call (cl_random c);
     e2 \<leftarrow> call (cl_random c);
     (case maintain m now (dnsNames_of cf) rolloutComplete e1 e2 of
        None \<Rightarrow> State_Monad.return (Inl (Message ''cannot maintain the material''))
      | Some (current, result) \<Rightarrow> do {
          (if mr_retentionOverdue result then warningEvent ''WebhookCertificateRetentionOverdue'' else State_Monad.return ());
          persistMaterial c secret current
        })
   }"

definition ensureFromSecret ::
  "config \<Rightarrow> 'w client \<Rightarrow> time \<Rightarrow> k8s_secret \<Rightarrow> ('w, call_error + material \<times> k8s_secret) pass" where
  "ensureFromSecret cf c now secret = do {
     obtained \<leftarrow> obtainMaterial cf c secret now;
     (case obtained of
        None \<Rightarrow> State_Monad.return (Inl (Message ''cannot generate material''))
      | Some found \<Rightarrow> do {
          m \<leftarrow> retainCandidates cf c now found;
          maintainMaterial cf c secret now m
        })
   }"

definition ensureMaterial :: "config \<Rightarrow> 'w client \<Rightarrow> ('w, call_error + material \<times> k8s_secret) pass" where
  "ensureMaterial cf c = do {
     now \<leftarrow> call (cl_now c);
     answer \<leftarrow> call (cl_getSecret c (cf_OperatorNamespace cf) (cf_SecretName cf));
     (case answer of
        Inl e \<Rightarrow> do {
          (if e = NotFound then warningEvent ''WebhookCertificatesSecretMissing'' else State_Monad.return ());
          State_Monad.return (Inl (Api e))
        }
      | Inr secret \<Rightarrow> ensureFromSecret cf c now secret)
   }"

fun ensure_attempts :: "nat \<Rightarrow> config \<Rightarrow> 'w client \<Rightarrow> ('w, call_error + material \<times> k8s_secret) pass" where
  "ensure_attempts n cf c = do {
     ensured \<leftarrow> ensureMaterial cf c;
     (case ensured of
        Inr found \<Rightarrow> State_Monad.return (Inr found)
      | Inl e \<Rightarrow> if IsConflict e \<and> 0 < n then ensure_attempts (n - 1) cf c else State_Monad.return (Inl e))
   }"

declare ensure_attempts.simps [simp del]

definition all_injected :: "targetOutcome list \<Rightarrow> bool \<Rightarrow> bool" where
  "all_injected outcomes persesCrdCarriesBundle \<longleftrightarrow>
     list_all (\<lambda>outcome. to_injected outcome \<or> to_ignored outcome) outcomes \<and> persesCrdCarriesBundle"

definition switchAndStore ::
  "config \<Rightarrow> 'w client \<Rightarrow> material \<Rightarrow> k8s_secret \<Rightarrow> time \<Rightarrow> ('w, call_error option) pass" where
  "switchAndStore cf c current secret now = do {
     e \<leftarrow> call (cl_random c);
     (case switchToPendingCa current (dnsNames_of cf) now e of
        None \<Rightarrow> State_Monad.return (Some (Message ''cannot switch to the pending CA''))
      | Some switched \<Rightarrow> do {
          written \<leftarrow> writeSecret c secret (toSecretData switched);
          (case written of
             Inl e \<Rightarrow> State_Monad.return (Some e)
           | Inr _ \<Rightarrow> load switched)
        })
   }"

definition completeRotationIfPossible ::
  "config \<Rightarrow> 'w client \<Rightarrow> material \<Rightarrow> k8s_secret \<Rightarrow> targetOutcome list \<Rightarrow> bool \<Rightarrow> ('w, call_error option) pass" where
  "completeRotationIfPossible cf c current secret outcomes persesCrdCarriesBundle =
     (if m_pendingCa current = None then State_Monad.return None
      else do {
        now \<leftarrow> call (cl_now c);
        (case evaluateSwitch current (all_injected outcomes persesCrdCarriesBundle) now of
           noRotationPending \<Rightarrow> State_Monad.return None
         | rotationWaiting \<Rightarrow> State_Monad.return None
         | rotationBlocked \<Rightarrow> do {
             warningEvent ''WebhookCaRotationBlocked'';
             State_Monad.return None
           }
         | rotationForcedSwitch \<Rightarrow> do {
             warningEvent ''WebhookCaRotationForced'';
             switchAndStore cf c current secret now
           }
         | rotationSwitch \<Rightarrow> switchAndStore cf c current secret now)
      })"

datatype pass_error = PassError call_error | InjectionErrors "(target \<times> call_error) list"

definition outcome_errors :: "targetOutcome list \<Rightarrow> (target \<times> call_error) list" where
  "outcome_errors outcomes =
     concat (map (\<lambda>outcome. case to_err outcome of None \<Rightarrow> [] | Some e \<Rightarrow> [(to_target outcome, e)]) outcomes)"

fun report_permanent :: "targetOutcome list \<Rightarrow> ('w, unit) pass" where
  "report_permanent [] = State_Monad.return ()"
| "report_permanent (outcome # outcomes) = do {
     (if to_err outcome \<noteq> None \<and> to_permanent outcome then warningEvent ''WebhookCaBundleInjectionFailed''
      else State_Monad.return ());
     report_permanent outcomes
   }"

definition allSettled :: "targetOutcome list \<Rightarrow> bool" where
  "allSettled outcomes \<longleftrightarrow> list_all (\<lambda>outcome. to_err outcome = None \<or> to_permanent outcome) outcomes"

definition evaluateOutcomes :: "targetOutcome list \<Rightarrow> ('w, pass_error option) pass" where
  "evaluateOutcomes outcomes = do {
     report_permanent outcomes;
     (if allSettled outcomes then change (\<lambda>mg. mg\<lparr>mg_store := (mg_store mg)\<lparr>st_ready := True\<rparr>\<rparr>)
      else State_Monad.return ());
     State_Monad.return (if outcome_errors outcomes = [] then None else Some (InjectionErrors (outcome_errors outcomes)))
   }"

definition warnAboutServingCertificateExpiry :: "'w client \<Rightarrow> ('w, unit) pass" where
  "warnAboutServingCertificateExpiry c = do {
     mg \<leftarrow> the_manager;
     (case st_leaf (mg_store mg) of
        None \<Rightarrow> State_Monad.return ()
      | Some leaf \<Rightarrow> do {
          now \<leftarrow> call (cl_now c);
          (if x_NotAfter leaf < now + expiryWarningThreshold then warningEvent ''WebhookServingCertificateExpiring''
           else State_Monad.return ())
        })
   }"

definition pass_body :: "config \<Rightarrow> 'w client \<Rightarrow> ('w, pass_error option) pass" where
  "pass_body cf c = do {
     ensured \<leftarrow> ensure_attempts maxConflictRetries cf c;
     (case ensured of
        Inl e \<Rightarrow> State_Monad.return (Some (PassError e))
      | Inr (current, secret) \<Rightarrow> do {
          err \<leftarrow> load current;
          (case err of
             Some e \<Rightarrow> State_Monad.return (Some (PassError e))
           | None \<Rightarrow> do {
               outcomes \<leftarrow> injectAll cf c (material_bundle current);
               persesCrdCarriesBundle \<leftarrow> checkPersesCrdBundle cf c (material_bundle current);
               err \<leftarrow> completeRotationIfPossible cf c current secret outcomes persesCrdCarriesBundle;
               (case err of
                  Some e \<Rightarrow> State_Monad.return (Some (PassError e))
                | None \<Rightarrow> evaluateOutcomes outcomes)
             })
        })
   }"

text \<open>The deferred warning runs on every way out of the pass.\<close>

definition runPass :: "config \<Rightarrow> 'w client \<Rightarrow> ('w, pass_error option) pass" where
  "runPass cf c = do {
     err \<leftarrow> pass_body cf c;
     warnAboutServingCertificateExpiry c;
     State_Monad.return err
   }"

end
