(* ===== verification/CertPasses.thy ===== *)
theory CertPasses
  imports CertHistory CertManager
begin

text \<open>
  Passes of the certificate manager, whatever the Kubernetes API answers: what the webhook server serves has been
  stored before and belongs to the CA bundle, and no target is left behind by a CA rotation that is not forced.

  Steps that change neither the served certificate nor the remembered material are collected in \<open>frame_intros\<close>; the
  other steps are specified by weakest preconditions.
\<close>

section \<open>Steps that keep what is served\<close>

definition core :: "manager \<Rightarrow> (bytes \<times> bytes) option \<times> certificate option \<times> bytes \<times> bool \<times> rememberedMaterial option" where
  "core mg =
     (st_certificate (mg_store mg), st_leaf (mg_store mg), st_caBundle (mg_store mg), st_ready (mg_store mg), mg_remembered mg)"

abbreviation frames :: "('w, 'a) pass \<Rightarrow> bool" where
  "frames \<equiv> state_io_rel (\<lambda>s s'. core (fst s') = core (fst s))"

lemma frames_return [frame_intros]: "frames (State_Monad.return a)"
  by (simp add: state_io_rel_def)

lemma frames_bind [frame_intros]: "frames f \<Longrightarrow> (\<And>a. frames (g a)) \<Longrightarrow> frames (State_Monad.bind f g)"
  unfolding state_io_rel_def by (auto split: prod.split) (metis fst_conv snd_conv)

lemma frames_cases [frame_intros]:
  "(b \<Longrightarrow> frames f) \<Longrightarrow> (\<not> b \<Longrightarrow> frames g) \<Longrightarrow> frames (if b then f else g)"
  "frames n \<Longrightarrow> (\<And>y. frames (h y)) \<Longrightarrow> frames (case x of None \<Rightarrow> n | Some y \<Rightarrow> h y)"
  "(\<And>e. frames (l e)) \<Longrightarrow> (\<And>v. frames (k v)) \<Longrightarrow> frames (case r of Inl e \<Rightarrow> l e | Inr v \<Rightarrow> k v)"
  "(\<And>u v. frames (j u v)) \<Longrightarrow> frames (case p of (u, v) \<Rightarrow> j u v)"
  "frames n' \<Longrightarrow> (\<And>u us. frames (h' u us)) \<Longrightarrow> frames (case us of [] \<Rightarrow> n' | u # us \<Rightarrow> h' u us)"
  by (auto split: option.split sum.split prod.split list.split)

lemma frames_call [frame_intros]: "frames (call f)"
  by (auto simp: state_io_rel_def call_def split: prod.split)

lemma frames_the_manager [frame_intros]: "frames the_manager"
  by (auto simp: state_io_rel_def the_manager_def)

lemma frames_change: "(\<And>mg. core (f mg) = core mg) \<Longrightarrow> frames (change f)"
  by (auto simp: state_io_rel_def change_def)

lemma frames_warningEvent [frame_intros]: "frames (warningEvent reason)"
  unfolding warningEvent_def by (rule frames_change) (simp add: core_def)

lemma frames_log [frame_intros]:
  "frames (change (\<lambda>mg. mg\<lparr>mg_missingLogged := h mg\<rparr>))" "frames (change (\<lambda>mg. mg\<lparr>mg_lastInjected := k mg\<rparr>))"
  "frames (change (\<lambda>mg. mg\<lparr>mg_store := notifyListeners (mg_store mg)\<rparr>))"
  by (rule frames_change; simp add: core_def notifyListeners_def)+

lemma frames_traverse [frame_intros]: "(\<And>x. frames (f x)) \<Longrightarrow> frames (State_Monad.traverse_list f xs)"
  by (induction xs) (auto intro!: frame_intros)

lemma frames_targets [frame_intros]:
  "frames (getTarget cf c t)" "frames (readTargetBundles cf c t)" "frames (inject cf c t b)"
  "frames (isRolloutComplete cf c)" "frames (checkPersesCrdBundle cf c b)" "frames (warnAboutServingCertificateExpiry c)"
  unfolding readTargetBundles_def inject_def getTarget_def isRolloutComplete_def checkPersesCrdBundle_def
    warnAboutServingCertificateExpiry_def
  by (intro frame_intros)+

lemma frames_inject_attempts [frame_intros]: "frames (inject_attempts n cf c t b)"
proof (induction n)
  case 0
  show ?case
    by (subst inject_attempts.simps) (simp add: frame_intros)
next
  case (Suc n)
  then show ?case
    by (subst inject_attempts.simps) (intro frame_intros, simp)
qed

lemma frames_injectAll [frame_intros]: "frames (injectAll cf c b)"
  unfolding injectAll_def injectWithRetry_def by (intro frame_intros)

lemma frames_collect [frame_intros]: "frames (collect_from_targets cf c now ts candidates)"
  by (induction ts arbitrary: candidates) (auto intro!: frame_intros)

lemma frames_candidates [frame_intros]:
  "frames (collectRetentionCandidates cf c now)" "frames (obtainMaterial cf c secret now)" "frames (retainCandidates cf c now found)"
  unfolding collectRetentionCandidates_def obtainMaterial_def retainCandidates_def by (intro frame_intros)+

lemma frames_report_permanent [frame_intros]: "frames (report_permanent outcomes)"
  by (induction outcomes) (auto intro!: frame_intros)

lemma wp_frame:
  assumes "frames f" and "\<And>a mg' w'. core mg' = core mg \<Longrightarrow> Q a (mg', w')"
  shows "wp f Q (mg, w)"
proof -
  obtain a mg' w' where run: "run_state f (mg, w) = (a, (mg', w'))"
    by (metis prod.collapse)
  with assms(1) have "core mg' = core mg"
    by (auto dest: state_io_relD)
  with assms(2) run show ?thesis
    by (simp add: wp_def)
qed

section \<open>Sound material\<close>

text \<open>A serving certificate that the key of a CA has signed (or that is that CA itself, which \<open>Verify\<close> accepts).\<close>

definition chained :: "keyPair \<Rightarrow> keyPair \<Rightarrow> bool" where
  "chained ca s \<longleftrightarrow>
     usable_pair s \<and> (x_SignedBy (kp_cert s) = x_PublicKey (kp_cert ca) \<or> x_Raw (kp_cert s) = x_Raw (kp_cert ca))"

definition sound_material :: "material \<Rightarrow> bool" where
  "sound_material m \<longleftrightarrow>
     usable_pair (m_activeCa m) \<and> pred_option usable_pair (m_pendingCa m) \<and> pred_option (chained (m_activeCa m)) (m_serving m)"

definition servable :: "config \<Rightarrow> material \<Rightarrow> bool" where
  "servable cf m \<longleftrightarrow>
     sound_material m \<and> (\<exists>s. m_serving m = Some s \<and> set (dnsNames_of cf) \<subseteq> set (x_DNSNames (kp_cert s)))"

lemma read_sound: "materialFromSecretData data now = Inr m \<Longrightarrow> sound_material m"
  using materialFromSecretData_Inr[of data now m]
  by (auto simp: sound_material_def chained_def verifyServingCertChain_def verifies_def signed_by_def
      pred_option_def dest!: parseKeyPair_Some)

lemma issue_chained:
  "issueServingCert ca names now e = Some s \<Longrightarrow> usable_pair ca \<Longrightarrow> chained ca s \<and> x_DNSNames (kp_cert s) = names"
  by (auto simp: issueServingCert_def chained_def serving_template_def usable_pair_def
      elim!: createKeyPair_SomeE split: if_splits option.splits)

lemma generateCa_usable: "generateCa now e = Some ca \<Longrightarrow> usable_pair ca"
  using generateCa_Some(1) by (auto simp: signing_ca_def)

lemma generate_sound: "generateMaterial names candidates now e1 e2 = Some m \<Longrightarrow> sound_material m"
  by (auto simp: generateMaterial_def sound_material_def split: option.splits
      dest!: generateCa_usable dest: issue_chained)

lemma retain_sound: "sound_material m \<Longrightarrow> sound_material (fst (retainChartCas m cas))"
  by (simp add: retainChartCas_def Let_def sound_material_def)

lemma ensureServingCert_servable:
  assumes sound: "sound_material m" and run: "ensureServingCert m (dnsNames_of cf) now e = Some (m', ch)"
  shows "servable cf m'"
proof (cases "m_serving m")
  case None
  with run sound show ?thesis
    by (auto simp: ensureServingCert_def servable_def sound_material_def dest: issue_chained)
next
  case (Some s)
  have names: "set (dnsNames_of cf) \<subseteq> set (x_DNSNames (kp_cert s))" if "missingDnsNames (kp_cert s) (dnsNames_of cf) = []"
    using that by (auto simp: missingDnsNames_def filter_empty_conv)
  show ?thesis
    using run sound Some names set_missingDnsNames[of "dnsNames_of cf" "kp_cert s"]
    by (auto simp: ensureServingCert_def servable_def sound_material_def Let_def split: if_splits dest!: issue_chained)
qed

lemma startRotation_sound: "startRotation m now e = Some (m', r) \<Longrightarrow> sound_material m \<Longrightarrow> sound_material m'"
  by (auto simp: startRotation_def sound_material_def dest: generateCa_usable split: if_splits)

lemma maintain_servable:
  assumes "sound_material m" and "maintain m now (dnsNames_of cf) rolloutComplete e1 e2 = Some (m', result)"
  shows "servable cf m'"
proof -
  obtain m1 r1 where start: "startRotation m now e1 = Some (m1, r1)"
    using assms(2) by (auto simp: maintain_def split: option.splits)
  obtain m2 r2 where foreign: "removeForeign rolloutComplete now (m1, r1) = (m2, r2)"
    by fastforce
  obtain m3 r3 where expired: "removeExpired now (m2, r2) = (m3, r3)"
    by fastforce
  obtain ch where ensure: "ensureServingCert m3 (dnsNames_of cf) now e2 = Some (m', ch)"
    using assms(2) by (auto simp: maintain_def start foreign expired)
  have "sound_material m3"
    using startRotation_sound[OF start assms(1)] removal_frame(1)[OF foreign] removal_frame(2)[OF expired]
    by (simp add: sound_material_def)
  with ensure show ?thesis
    by (rule ensureServingCert_servable[rotated])
qed

lemma switch_servable:
  assumes "servable cf m" and "switchToPendingCa m (dnsNames_of cf) now e = Some m'"
  shows "servable cf m'"
proof -
  obtain s where s: "m_serving m = Some s"
    using assms(1) by (auto simp: servable_def)
  show ?thesis
    using assms s set_missingDnsNames[of "dnsNames_of cf" "kp_cert s"]
    by (auto simp: switchToPendingCa_def servable_def sound_material_def Let_def split: option.splits dest!: issue_chained)
qed

section \<open>What is served\<close>

text \<open>The material whose stored form the process remembers, and which it is fit to serve.\<close>

definition remembers :: "config \<Rightarrow> manager \<Rightarrow> material \<Rightarrow> bool" where
  "remembers cf mg m \<longleftrightarrow> servable cf m \<and> map_option rm_data (mg_remembered mg) = Some (toSecretData m)"

definition serves :: "config \<Rightarrow> manager \<Rightarrow> material \<Rightarrow> bool" where
  "serves cf mg m \<longleftrightarrow>
     remembers cf mg m \<and>
     (\<exists>s. m_serving m = Some s \<and> st_certificate (mg_store mg) = Some (kp_certPem s, kp_keyPem s) \<and>
          st_leaf (mg_store mg) = Some (kp_cert s) \<and> st_caBundle (mg_store mg) = material_bundle m)"

definition manager_ok :: "config \<Rightarrow> manager \<Rightarrow> bool" where
  "manager_ok cf mg \<longleftrightarrow>
     (case st_certificate (mg_store mg) of
        None \<Rightarrow> st_leaf (mg_store mg) = None \<and> \<not> st_ready (mg_store mg)
      | Some _ \<Rightarrow> \<exists>m. serves cf mg m)"

lemma serves_core: "serves cf mg m \<Longrightarrow> core mg' = core mg \<Longrightarrow> serves cf mg' m"
  by (simp add: core_def serves_def remembers_def)

lemma manager_ok_core: "manager_ok cf mg \<Longrightarrow> core mg' = core mg \<Longrightarrow> manager_ok cf mg'"
  by (auto simp: core_def manager_ok_def serves_def remembers_def split: option.splits)

lemma serves_ok:
  assumes "serves cf mg m"
  shows "manager_ok cf mg"
proof -
  have "st_certificate (mg_store mg) \<noteq> None"
    using assms by (auto simp: serves_def)
  with assms show ?thesis
    by (auto simp: manager_ok_def)
qed

lemma X509KeyPair_usable:
  assumes "usable_pair s"
  shows "X509KeyPair (kp_certPem s) (kp_keyPem s) = Some (kp_certPem s, kp_keyPem s)"
proof -
  obtain around blocks where "kp_keyPem s = Pem around (PrivateKeyBlock (kp_key s) # blocks)"
    using assms by (cases "kp_keyPem s" rule: parsePrivateKey.cases) (auto simp: usable_pair_def)
  with assms show ?thesis
    by (simp add: X509KeyPair_def usable_pair_def)
qed

lemma wp_load:
  assumes "remembers cf mg m" and "\<And>mg'. serves cf mg' m \<Longrightarrow> Q None (mg', w)"
  shows "wp (load m) Q (mg, w)"
proof -
  obtain s where s: "m_serving m = Some s" "usable_pair s"
    using assms(1) by (auto simp: remembers_def servable_def sound_material_def chained_def)
  let ?st = "snd (store_load m (mg_store mg))"
  have load: "store_load m (mg_store mg) = (None, ?st)"
    by (simp add: store_load_def s X509KeyPair_usable Let_def)
  have "serves cf (mg\<lparr>mg_store := ?st\<rparr>) m"
    using assms(1) s
    by (auto simp: serves_def remembers_def store_load_def X509KeyPair_usable Let_def notifyListeners_def)
  then show ?thesis
    using assms(2) by (simp add: load_def wp_simps split: prod.split) (metis load prod.inject)
qed

lemma wp_writeSecret:
  assumes "servable cf m"
    and "\<And>e mg' w'. core mg' = core mg \<Longrightarrow> Q (Inl e) (mg', w')"
    and "\<And>u mg' w'. remembers cf mg' m \<Longrightarrow> Q (Inr u) (mg', w')"
  shows "wp (writeSecret c secret (toSecretData m)) Q (mg, w)"
  unfolding writeSecret_def wp_bind
proof (rule wp_call)
  fix answer :: "api_error + k8s_secret" and w' :: 'a
  have "wp (if e = Conflict then State_Monad.return () else warningEvent ''WebhookCertificatesSecretUpdateFailed'')
      (\<lambda>_. Q (Inl (Api e))) (mg, w')" for e
    using assms(2) by (intro wp_frame frame_intros)
  moreover have "wp (remember u (toSecretData m)) (\<lambda>_. Q (Inr u)) (mg, w')" for u
    using assms(1,3) by (simp add: remember_def wp_simps remembers_def)
  ultimately show "wp (case answer of
      Inl e \<Rightarrow> do {
        (if e = Conflict then State_Monad.return () else warningEvent ''WebhookCertificatesSecretUpdateFailed'');
        State_Monad.return (Inl (Api e))
      }
    | Inr u \<Rightarrow> do {
        remember u (toSecretData m);
        State_Monad.return (Inr u)
      }) Q (mg, w')"
    by (cases answer) (simp_all add: wp_simps(1,2))
qed

lemma wp_frame_result:
  assumes "frames f" and "wp f (\<lambda>a _. P a) (mg, w)" and "\<And>a mg' w'. core mg' = core mg \<Longrightarrow> P a \<Longrightarrow> Q a (mg', w')"
  shows "wp f Q (mg, w)"
proof -
  obtain a mg' w' where run: "run_state f (mg, w) = (a, (mg', w'))"
    by (metis prod.collapse)
  with assms(1) have "core mg' = core mg"
    by (auto dest: state_io_relD)
  with assms(2,3) run show ?thesis
    by (simp add: wp_def)
qed

lemma obtainMaterial_sound: "wp (obtainMaterial cf c secret now) (\<lambda>r _. pred_option (\<lambda>(m, _). sound_material m) r) (mg, w)"
proof (cases "materialFromSecretData (se_Data secret) now")
  case (Inl err)
  have restored: "sound_material m" if "restored mg secret now = Some m" for m
    using that read_sound by (auto simp: restored_def split: option.splits sum.splits if_splits)
  show ?thesis
  proof (cases "restored mg secret now")
    case None
    then show ?thesis
      by (simp add: obtainMaterial_def Inl wp_simps)
        (intro wp_frame wp_call frame_intros, auto simp: option.pred_map comp_def pred_option_def dest: generate_sound)
  qed (simp add: obtainMaterial_def Inl wp_simps restored)
qed (simp add: obtainMaterial_def wp_simps read_sound)

lemma retainCandidates_sound:
  assumes "sound_material (fst found)"
  shows "wp (retainCandidates cf c now found) (\<lambda>m _. sound_material m) (mg, w)"
  using assms
  by (cases found) (auto simp: retainCandidates_def wp_simps retain_sound intro!: wp_frame frame_intros)

definition ensured_post ::
  "config \<Rightarrow> manager \<Rightarrow> call_error + material \<times> k8s_secret \<Rightarrow> manager \<Rightarrow> bool" where
  "ensured_post cf mg r mg' \<longleftrightarrow>
     (case r of
        Inl _ \<Rightarrow> core mg' = core mg
      | Inr (m, _) \<Rightarrow> remembers cf mg' m)"

lemma ensured_post_simps [simp]:
  "ensured_post cf mg (Inl e) mg' \<longleftrightarrow> core mg' = core mg"
  "ensured_post cf mg (Inr (m, u)) mg' \<longleftrightarrow> remembers cf mg' m"
  by (simp_all add: ensured_post_def)

lemma persistMaterial_post:
  assumes "servable cf m" and "core mg' = core mg"
  shows "wp (persistMaterial c secret m) (\<lambda>r s. ensured_post cf mg r (fst s)) (mg', w)"
proof (cases "dataEqual (toSecretData m) (se_Data secret)")
  case True
  with assms(1) show ?thesis
    by (simp add: persistMaterial_def wp_simps remember_def ensured_post_def remembers_def)
next
  case False
  then show ?thesis
    unfolding persistMaterial_def wp_simps
    by simp (intro wp_writeSecret[OF assms(1)], simp_all add: assms(2) ensured_post_def)
qed

lemma maintainMaterial_post:
  assumes "sound_material m" and "core mg' = core mg"
  shows "wp (maintainMaterial cf c secret now m) (\<lambda>r s. ensured_post cf mg r (fst s)) (mg', w)"
proof -
  have step: "wp (case maintain m now (dnsNames_of cf) rolloutComplete e1 e2 of
        None \<Rightarrow> State_Monad.return (Inl (Message ''cannot maintain the material''))
      | Some (current, result) \<Rightarrow> do {
          (if mr_retentionOverdue result then warningEvent ''WebhookCertificateRetentionOverdue''
           else State_Monad.return ());
          persistMaterial c secret current
        }) (\<lambda>r s. ensured_post cf mg r (fst s)) (mg'', w'')" if "core mg'' = core mg"
    for rolloutComplete e1 e2 mg'' and w'' :: 'a
  proof (cases "maintain m now (dnsNames_of cf) rolloutComplete e1 e2")
    case (Some mr)
    then have "servable cf (fst mr)"
      using maintain_servable[OF assms(1)] by (metis prod.collapse)
    then show ?thesis
      unfolding Some option.case prod.case_eq_if wp_bind
      by (intro wp_frame frame_intros persistMaterial_post) (simp_all add: that)
  qed (use that in \<open>simp add: wp_simps\<close>)
  have rollout: "frames (if retention_due m now then isRolloutComplete cf c else State_Monad.return False)"
    by (intro frame_intros)
  show ?thesis
    unfolding maintainMaterial_def wp_bind
    by (rule wp_frame[OF rollout], rule wp_call, rule wp_call, rule step) (simp add: assms(2))
qed

lemma ensureFromSecret_post:
  assumes "core mg' = core mg"
  shows "wp (ensureFromSecret cf c now secret) (\<lambda>r s. ensured_post cf mg r (fst s)) (mg', w)"
  unfolding ensureFromSecret_def wp_bind
proof (rule wp_frame_result[OF frames_candidates(2) obtainMaterial_sound])
  fix obtained :: "(material \<times> bool) option" and mg1 and w1 :: 'a
  assume core: "core mg1 = core mg'" and sound: "pred_option (\<lambda>(m, _). sound_material m) obtained"
  show "wp (case obtained of
        None \<Rightarrow> State_Monad.return (Inl (Message ''cannot generate material''))
      | Some found \<Rightarrow> do {
          m \<leftarrow> retainCandidates cf c now found;
          maintainMaterial cf c secret now m
        }) (\<lambda>r s. ensured_post cf mg r (fst s)) (mg1, w1)"
  proof (cases obtained)
    case (Some found)
    with sound have "sound_material (fst found)"
      by (simp add: case_prod_beta)
    then show ?thesis
      unfolding Some option.case wp_bind using core assms
      by (intro wp_frame_result[OF frames_candidates(3) retainCandidates_sound] maintainMaterial_post) simp_all
  qed (simp add: wp_simps core assms)
qed

lemma ensureMaterial_post: "wp (ensureMaterial cf c) (\<lambda>r s. ensured_post cf mg r (fst s)) (mg, w)"
  unfolding ensureMaterial_def wp_bind
proof (intro wp_call)
  fix now answer and w' :: 'a
  show "wp (case answer of
        Inl e \<Rightarrow> do {
          (if e = NotFound then warningEvent ''WebhookCertificatesSecretMissing'' else State_Monad.return ());
          State_Monad.return (Inl (Api e))
        }
      | Inr secret \<Rightarrow> ensureFromSecret cf c now secret) (\<lambda>r s. ensured_post cf mg r (fst s)) (mg, w')"
  proof (cases answer)
    case (Inl e)
    show ?thesis
      unfolding Inl sum.case wp_bind wp_return by (intro wp_frame frame_intros) simp
  qed (simp add: ensureFromSecret_post)
qed

lemma ensure_attempts_post: "core mg' = core mg \<Longrightarrow> wp (ensure_attempts n cf c) (\<lambda>r s. ensured_post cf mg r (fst s)) (mg', w)"
proof (induction n arbitrary: mg' w)
  case 0
  then show ?case
    by (subst ensure_attempts.simps, unfold wp_bind)
      (rule wp_mono[OF ensureMaterial_post[of _ _ mg']], auto simp: wp_simps ensured_post_def split: sum.splits)
next
  case (Suc n)
  have retry: "wp (ensure_attempts n cf c) (\<lambda>r s. ensured_post cf mg r (fst s)) s" if "core (fst s) = core mg'" for s
    using Suc.IH[of "fst s" "snd s"] that Suc.prems by simp
  show ?case
    by (subst ensure_attempts.simps, unfold wp_bind)
      (rule wp_mono[OF ensureMaterial_post[of _ _ mg']], auto simp: wp_simps Suc.prems retry split: sum.splits)
qed

lemma switchAndStore_ok:
  assumes "serves cf mg m"
  shows "wp (switchAndStore cf c m secret now) (\<lambda>_ s. \<exists>m'. serves cf (fst s) m') (mg, w)"
  unfolding switchAndStore_def wp_bind
proof (rule wp_call)
  fix e and w' :: 'a
  show "wp (case switchToPendingCa m (dnsNames_of cf) now e of
        None \<Rightarrow> State_Monad.return (Some (Message ''cannot switch to the pending CA''))
      | Some switched \<Rightarrow> do {
          written \<leftarrow> writeSecret c secret (toSecretData switched);
          (case written of
             Inl e \<Rightarrow> State_Monad.return (Some e)
           | Inr _ \<Rightarrow> load switched)
        }) (\<lambda>_ s. \<exists>m'. serves cf (fst s) m') (mg, w')"
  proof (cases "switchToPendingCa m (dnsNames_of cf) now e")
    case None
    with assms show ?thesis
      by (auto simp: wp_simps)
  next
    case (Some m')
    have "servable cf m'"
      using assms by (intro switch_servable[OF _ Some]) (simp add: serves_def remembers_def)
    then show ?thesis
      unfolding Some option.case wp_bind
    proof (rule wp_writeSecret)
      show "wp (case Inl e' of Inl e \<Rightarrow> State_Monad.return (Some e) | Inr _ \<Rightarrow> load m')
          (\<lambda>_ s. \<exists>m'. serves cf (fst s) m') (mg', w'')" if "core mg' = core mg" for e' mg' and w'' :: 'a
        using serves_core[OF assms that] by (auto simp: wp_simps)
      show "wp (case Inr u of Inl e \<Rightarrow> State_Monad.return (Some e) | Inr _ \<Rightarrow> load m')
          (\<lambda>_ s. \<exists>m'. serves cf (fst s) m') (mg', w'')" if "remembers cf mg' m'" for u :: k8s_secret and mg' and w'' :: 'a
        unfolding sum.case by (rule wp_load[OF that]) auto
    qed
  qed
qed

lemma completeRotation_ok:
  assumes "serves cf mg m"
  shows "wp (completeRotationIfPossible cf c m secret outcomes perses) (\<lambda>_ s. \<exists>m'. serves cf (fst s) m') (mg, w)"
proof (cases "m_pendingCa m = None")
  case False
  have frame: "wp f (\<lambda>_ s. \<exists>m'. serves cf (fst s) m') (mg, w')" if "frames f" for f :: "('a, call_error option) pass" and w'
    using that by (rule wp_frame) (auto intro: serves_core[OF assms])
  have forced: "wp (do {
        warningEvent ''WebhookCaRotationForced'';
        switchAndStore cf c m secret now
      }) (\<lambda>_ s. \<exists>m'. serves cf (fst s) m') (mg, w')" for now and w' :: 'a
    unfolding wp_bind by (rule wp_frame[OF frames_warningEvent], rule switchAndStore_ok) (rule serves_core[OF assms])
  show ?thesis
    unfolding completeRotationIfPossible_def wp_bind if_not_P[OF False]
    by (rule wp_call) (simp add: forced switchAndStore_ok[OF assms] frame frame_intros split: switchDecision.split)
qed (use assms in \<open>auto simp: completeRotationIfPossible_def wp_simps\<close>)

lemma pass_body_ok:
  assumes "manager_ok cf mg"
  shows "wp (pass_body cf c) (\<lambda>_ s. manager_ok cf (fst s)) (mg, w)"
proof -
  let ?Q = "\<lambda>_ s. manager_ok cf (fst s)"
  have outcomes: "wp (evaluateOutcomes outcomes) ?Q (mg', w')" if "serves cf mg' m" for mg' m outcomes and w' :: 'a
  proof -
    have "manager_ok cf (mg''\<lparr>mg_store := (mg_store mg'')\<lparr>st_ready := True\<rparr>\<rparr>)" if "serves cf mg'' m" for mg''
      using that by (intro serves_ok[of _ _ m]) (auto simp: serves_def remembers_def)
    then show ?thesis
      unfolding evaluateOutcomes_def wp_bind 
      by (intro wp_frame[OF frames_report_permanent]) (auto simp: wp_simps intro: serves_ok serves_core[OF that])
  qed
  have rest: "wp (do {
        outcomes \<leftarrow> injectAll cf c (material_bundle m);
        perses \<leftarrow> checkPersesCrdBundle cf c (material_bundle m);
        err \<leftarrow> completeRotationIfPossible cf c m secret outcomes perses;
        (case err of
           Some e \<Rightarrow> State_Monad.return (Some (PassError e))
         | None \<Rightarrow> evaluateOutcomes outcomes)
      }) ?Q (mg', w')" if "serves cf mg' m" for mg' m secret and w' :: 'a
    unfolding wp_bind
    by (rule wp_frame[OF frames_injectAll], rule wp_frame[OF frames_targets(5)], rule wp_mono[OF completeRotation_ok],
        rule serves_core[OF that], simp) (auto simp: wp_simps serves_ok outcomes split: option.split)
  have loaded: "wp (do {
        err \<leftarrow> load m;
        (case err of
           Some e \<Rightarrow> State_Monad.return (Some (PassError e))
         | None \<Rightarrow> do {
             outcomes \<leftarrow> injectAll cf c (material_bundle m);
             perses \<leftarrow> checkPersesCrdBundle cf c (material_bundle m);
             err \<leftarrow> completeRotationIfPossible cf c m secret outcomes perses;
             (case err of
                Some e \<Rightarrow> State_Monad.return (Some (PassError e))
              | None \<Rightarrow> evaluateOutcomes outcomes)
           })
      }) ?Q (mg', w')" if "remembers cf mg' m" for m secret mg' and w' :: 'a
    unfolding wp_bind[of "load m"] by (rule wp_load[OF that]) (simp add: rest)
  show ?thesis
    unfolding pass_body_def wp_bind[of "ensure_attempts _ _ _"]
    by (rule wp_mono[OF ensure_attempts_post[OF refl]])
      (auto simp: wp_simps(1) loaded intro: manager_ok_core[OF assms] split: sum.splits prod.splits)
qed

lemma runPass_ok:
  assumes "manager_ok cf mg"
  shows "wp (runPass cf c) (\<lambda>_ s. manager_ok cf (fst s)) (mg, w)"
proof -
  have "wp (warnAboutServingCertificateExpiry c) (\<lambda>_ s. manager_ok cf (fst s)) s" if "manager_ok cf (fst s)" for s :: "manager \<times> 'a"
    using that by (cases s) (auto intro!: wp_frame[OF frames_targets(6)] intro: manager_ok_core)
  then show ?thesis
    unfolding runPass_def wp_simps by (intro wp_mono[OF pass_body_ok[OF assms]])
qed

end
