(* ===== verification/CertProps.thy ===== *)
theory CertProps
  imports CertPasses
begin

text \<open>
  The properties of the webhook certificates, with concrete material that instantiates them: a
  CA generated on the first of January 2025, and the rotation of that CA nine and a half years later.
\<close>

section \<open>Concrete material\<close>

definition sample_dnsNames :: "string list" where
  "sample_dnsNames = servingDnsNames ''webhook'' ''ops''"

definition sample_start :: time where
  "sample_start = 1735689600 * 1000000000"

definition sample_late :: time where
  "sample_late = sample_start + days 3500"

definition sample_material :: material where
  "sample_material =
     (case generateMaterial sample_dnsNames \<lparr>rc_chartCas = [], rc_other = []\<rparr> sample_start
             (Some (''key-1'', ''raw-1'')) (Some (''key-2'', ''raw-2'')) of
        Some m \<Rightarrow> m | None \<Rightarrow> undefined)"

definition sample_maintained :: "material \<times> maintenanceResult" where
  "sample_maintained =
     (case maintain sample_material sample_late sample_dnsNames True (Some (''key-3'', ''raw-3'')) (Some (''key-4'', ''raw-4'')) of
        Some r \<Rightarrow> r | None \<Rightarrow> undefined)"

definition sample_switched :: material where
  "sample_switched =
     (case switchToPendingCa (fst sample_maintained) sample_dnsNames sample_late (Some (''key-5'', ''raw-5'')) of
        Some m \<Rightarrow> m | None \<Rightarrow> undefined)"

lemma sample_generated:
  "generateMaterial sample_dnsNames \<lparr>rc_chartCas = [], rc_other = []\<rparr> sample_start
     (Some (''key-1'', ''raw-1'')) (Some (''key-2'', ''raw-2'')) = Some sample_material"
  by code_simp

lemma sample_maintain:
  "maintain sample_material sample_late sample_dnsNames True (Some (''key-3'', ''raw-3'')) (Some (''key-4'', ''raw-4'')) =
     Some (fst sample_maintained, snd sample_maintained)"
  by code_simp

lemma sample_switch:
  "switchToPendingCa (fst sample_maintained) sample_dnsNames sample_late (Some (''key-5'', ''raw-5'')) = Some sample_switched"
  by code_simp

lemma sample_produced: "produced sample_material" "produced (fst sample_maintained)"
  using produced.generated[OF sample_generated] produced.maintained[OF produced.generated[OF sample_generated] sample_maintain]
  by simp_all

section \<open>The bundle across a rotation\<close>

text \<open>
  C28: completing a CA rotation does not change the CA bundle, byte for byte, so that no injected object has to be patched
  when the pending CA becomes active. The encoding of a certificate determines the certificate.
\<close>

theorem switch_keeps_bundle:
  assumes "inj_on x_Raw (trusted m)"
    and "switchToPendingCa m dnsNames now e = Some m'"
  shows "material_bundle m' = material_bundle m"
  using bundleCerts_cong[OF switch_keeps_trusted[OF assms(2,1)] assms(1)] by (simp add: material_bundle_def)

theorem switch_keeps_bundle_witness:
  "inj_on x_Raw (trusted (fst sample_maintained)) \<and>
   switchToPendingCa (fst sample_maintained) sample_dnsNames sample_late (Some (''key-5'', ''raw-5'')) = Some sample_switched \<and>
   kp_key (m_activeCa sample_switched) \<noteq> kp_key (m_activeCa (fst sample_maintained)) \<and>
   material_bundle sample_switched = material_bundle (fst sample_maintained)"
proof -
  have "distinct (map x_Raw (trusted_list (fst sample_maintained)))"
    by code_simp
  then have inj: "inj_on x_Raw (trusted (fst sample_maintained))"
    by (simp add: distinct_map flip: set_trusted_list)
  moreover have "kp_key (m_activeCa sample_switched) \<noteq> kp_key (m_activeCa (fst sample_maintained))"
    by code_simp
  ultimately show ?thesis
    using switch_keeps_bundle[OF inj sample_switch] sample_switch by blast
qed

section \<open>Storing and reading back\<close>

text \<open>
  C32: material that is stored and read back is the same material, with its two time stamps in seconds, and storing
  it again writes the same data: a second pass over a stored secret does not change it.
\<close>

theorem secret_roundtrip:
  assumes "live_material now m"
  shows "\<exists>m'. materialFromSecretData (toSecretData m) now = Inr m' \<and>
     m' = m\<lparr>m_rotationStartedAt := (if m_pendingCa m = None then zero_time else truncate_second (m_rotationStartedAt m)),
            m_retainedSince := (if m_retainedCerts m = [] then now else truncate_second (m_retainedSince m))\<rparr> \<and>
     toSecretData m' = toSecretData m \<and> dataEqual (toSecretData m') (toSecretData m)"
  using read_back[OF assms] toSecretData_persisted_form[of now m]
  by (auto simp: persisted_form_def dataEqual_def list_all_iff)

theorem secret_roundtrip_witness:
  "live_material sample_late (fst sample_maintained) \<and>
   (\<exists>m'. materialFromSecretData (toSecretData (fst sample_maintained)) sample_late = Inr m' \<and> m_pendingCa m' \<noteq> None \<and>
      toSecretData m' = toSecretData (fst sample_maintained))"
proof -
  have live: "live_material sample_late (fst sample_maintained)"
    by code_simp
  have "m_pendingCa (fst sample_maintained) \<noteq> None"
    by code_simp
  with secret_roundtrip[OF live] live show ?thesis
    by force
qed

section \<open>Maintenance\<close>

text \<open>
  C31: after a successful maintenance of material that the operator has produced, there is a serving certificate that
  the active CA verifies at every time at which both are valid; it names all required DNS names, and it is valid for another
  90 days, or for as long as the active CA.
\<close>

theorem maintained_serving_certificate:
  assumes "produced m"
    and "maintain m now dnsNames rolloutComplete e1 e2 = Some (m', result)"
  shows "\<exists>s. m_serving m' = Some s \<and>
     (\<forall>t. valid_at (kp_cert s) t \<and> valid_at (kp_cert (m_activeCa m')) t \<longrightarrow>
          verifies (kp_cert s) (kp_cert (m_activeCa m')) t) \<and>
     set dnsNames \<subseteq> set (x_DNSNames (kp_cert s)) \<and>
     min (x_NotAfter (kp_cert (m_activeCa m'))) (now + servingCertRenewBefore) \<le> x_NotAfter (kp_cert s) \<and>
     x_NotAfter (kp_cert s) \<le> x_NotAfter (kp_cert (m_activeCa m'))"
proof -
  note maintained = maintain_Some[OF produced_material_ok[OF assms(1)] assms(2)]
  obtain s where s: "m_serving m' = Some s" "set dnsNames \<subseteq> set (x_DNSNames (kp_cert s))"
    "min (x_NotAfter (kp_cert (m_activeCa m'))) (now + servingCertRenewBefore) \<le> x_NotAfter (kp_cert s)"
    using maintained(3) by (auto simp: serving_fresh_def)
  then show ?thesis
    using maintained(1)
    by (auto simp: material_ok_def serving_of_def signing_ca_def verifies_def serves_tls_def)
qed

theorem maintained_serving_certificate_witness:
  "produced sample_material \<and>
   (\<exists>s. m_serving (fst sample_maintained) = Some s \<and>
      min (x_NotAfter (kp_cert (m_activeCa (fst sample_maintained)))) (sample_late + servingCertRenewBefore) \<le> x_NotAfter (kp_cert s))"
  using maintained_serving_certificate[OF sample_produced(1) sample_maintain] sample_produced(1) by blast



section \<open>Passes of the manager\<close>

inductive manager_states :: "config \<Rightarrow> 'w client \<Rightarrow> manager \<Rightarrow> bool" for cf :: config and c :: "'w client" where
  started: "manager_states cf c NewManager"
| recorder: "manager_states cf c mg \<Longrightarrow> run_state SetEventRecorder (mg, w :: 'w) = (u, (mg', w')) \<Longrightarrow> manager_states cf c mg'"
| passed: "manager_states cf c mg \<Longrightarrow> run_state (runPass cf c) (mg, w) = (err, (mg', w')) \<Longrightarrow> manager_states cf c mg'"

lemma manager_states_ok: "manager_states cf c mg \<Longrightarrow> manager_ok cf mg"
proof (induction rule: manager_states.induct)
  case started
  show ?case
    by (simp add: manager_ok_def NewManager_def NewStore_def)
next
  case (recorder mg w u mg' w')
  have "core mg' = core mg"
    using recorder.hyps(2) by (auto simp: SetEventRecorder_def change_def core_def)
  with recorder.IH show ?case
    by (rule manager_ok_core)
next
  case (passed mg w err mg' w')
  then show ?case
    using runPass_ok[of cf mg c w] by (simp add: wp_def)
qed

lemma set_appendUnique_mono: "set certs \<subseteq> set (appendUnique certs cs)"
proof (induction cs arbitrary: certs)
  case (Cons x cs)
  from Cons[of "if containsCertificate certs x then certs else certs @ [x]"] show ?case
    by (auto split: if_splits)
qed simp

lemma active_in_bundle: "kp_cert (m_activeCa m) \<in> set (bundleCerts m)"
  using set_appendUnique_mono[of "[kp_cert (m_activeCa m)]"]
  by (simp add: bundleCerts_trusted_list trusted_list_def containsCertificate_def)


text \<open>A cluster with an empty secret and one validating webhook, which accepts every request.\<close>

record sample_cluster =
  sc_secret :: k8s_secret
  sc_webhook :: target_object
  sc_clock :: time
  sc_random :: "(string \<times> string) list"

definition sample_client :: "sample_cluster client" where
  "sample_client =
     \<lparr>cl_getSecret = (\<lambda>_ _ w. (Inr (sc_secret w), w)),
      cl_updateSecret = (\<lambda>s w. (Inr s, w\<lparr>sc_secret := s\<rparr>)),
      cl_getObject = (\<lambda>_ _ w. (Inr (sc_webhook w), w)),
      cl_patchObject = (\<lambda>_ _ object w. (None, w\<lparr>sc_webhook := object\<rparr>)),
      cl_getDeployment = (\<lambda>_ _ w. (Inl NotFound, w)),
      cl_now = (\<lambda>w. (sc_clock w, w\<lparr>sc_clock := sc_clock w + hour\<rparr>)),
      cl_random = (\<lambda>w. case sc_random w of [] \<Rightarrow> (None, w) | e # es \<Rightarrow> (Some e, w\<lparr>sc_random := es\<rparr>))\<rparr>"

definition sample_config :: config where
  "sample_config =
     \<lparr>cf_OperatorNamespace = ''ops'', cf_SecretName = ''certs'', cf_PreviousSecretName = [], cf_DeploymentName = ''manager'',
      cf_WebhookServiceName = ''webhook'',
      cf_Targets = [\<lparr>tg_Kind = TargetKindValidatingWebhookConfiguration, tg_Name = ''validation''\<rparr>], cf_PersesCrdName = []\<rparr>"

definition sample_cluster_state :: sample_cluster where
  "sample_cluster_state =
     \<lparr>sc_secret = \<lparr>se_UID = ''uid'', se_ResourceVersion = ''1'', se_Data = []\<rparr>,
      sc_webhook = ValidatingWebhookConfiguration [(InjectionTargetLabel, ''ops'')]
        [\<lparr>wh_Name = ''a'', wh_ClientConfig = \<lparr>cc_Service = Some \<lparr>sr_Name = ''webhook'', sr_Namespace = ''ops''\<rparr>, cc_CABundle = no_bytes\<rparr>\<rparr>],
      sc_clock = sample_start,
      sc_random = [(''key-1'', ''raw-1''), (''key-2'', ''raw-2''), (''key-3'', ''raw-3''), (''key-4'', ''raw-4'')]\<rparr>"

definition sample_pass :: "pass_error option \<times> manager \<times> sample_cluster" where
  "sample_pass = run_state (runPass sample_config sample_client) (NewManager, sample_cluster_state)"

lemma sample_manager_states: "manager_states sample_config sample_client (fst (snd sample_pass))"
  by (rule manager_states.passed[OF manager_states.started, where w = sample_cluster_state])
    (simp add: sample_pass_def prod_eq_iff)


text \<open>
  C29: as long as the active CA is valid for another 30 days, the rotation is not completed while a labelled target,
  or the Perses CRD, does not carry the bundle: \<open>completeRotationIfPossible\<close> then makes no call to the Kubernetes API
  and changes neither what is served nor what is remembered; it at most records an event.
\<close>

theorem rotation_waits_for_targets:
  assumes "\<not> (\<forall>outcome\<in>set outcomes. to_injected outcome \<or> to_ignored outcome) \<or> \<not> persesCrdCarriesBundle"
    and "cl_now c w = (now, w1)" and "now + forcedSwitchLeadTime \<le> x_NotAfter (kp_cert (m_activeCa current))"
    and "m_pendingCa current \<noteq> None"
  shows "\<exists>es. run_state (completeRotationIfPossible cf c current secret outcomes persesCrdCarriesBundle) (mg, w) =
     (None, (mg\<lparr>mg_events := mg_events mg @ es\<rparr>, w1))"
proof -
  have "\<not> all_injected outcomes persesCrdCarriesBundle"
    using assms(1) by (auto simp: all_injected_def list_all_iff)
  then have decision: "evaluateSwitch current (all_injected outcomes persesCrdCarriesBundle) now \<in> {rotationWaiting, rotationBlocked}"
    using assms(3,4) by (auto simp: evaluateSwitch_def)
  have "mg\<lparr>mg_events := mg_events mg @ []\<rparr> = mg"
    by simp
  with decision assms(2,4) show ?thesis
    by (auto simp: completeRotationIfPossible_def call_def warningEvent_def change_def simp del: append_Nil2
        split: switchDecision.split intro: exI[of _ "[]"])
qed

theorem rotation_waits_for_targets_witness:
  "\<exists>es. run_state (completeRotationIfPossible sample_config sample_client (fst sample_maintained)
       (sc_secret sample_cluster_state) [outcome_of \<lparr>tg_Kind = TargetKindValidatingWebhookConfiguration, tg_Name = ''validation''\<rparr>] True)
       (NewManager, sample_cluster_state\<lparr>sc_clock := sample_late\<rparr>) =
     (None, (NewManager\<lparr>mg_events := mg_events NewManager @ es\<rparr>, sample_cluster_state\<lparr>sc_clock := sample_late + hour\<rparr>))"
proof (rule rotation_waits_for_targets)
  show "cl_now sample_client (sample_cluster_state\<lparr>sc_clock := sample_late\<rparr>) =
      (sample_late, sample_cluster_state\<lparr>sc_clock := sample_late + hour\<rparr>)"
    by (simp add: sample_client_def)
  show "sample_late + forcedSwitchLeadTime \<le> x_NotAfter (kp_cert (m_activeCa (fst sample_maintained)))"
    "m_pendingCa (fst sample_maintained) \<noteq> None"
    by code_simp+
qed (simp add: outcome_of_def)

section \<open>Injection\<close>

text \<open>The client configurations of a target that do not point at the service of the operator.\<close>

fun foreignConfigs :: "config \<Rightarrow> target_object \<Rightarrow> client_config list" where
  "foreignConfigs cf (MutatingWebhookConfiguration _ whs) = filter (Not \<circ> isOwnService cf) (map wh_ClientConfig whs)"
| "foreignConfigs cf (ValidatingWebhookConfiguration _ whs) = filter (Not \<circ> isOwnService cf) (map wh_ClientConfig whs)"
| "foreignConfigs cf (CustomResourceDefinition _ conversion) =
     (case conversion of
        Some (Some (Some cc)) \<Rightarrow> if isOwnService cf cc then [] else [cc]
      | _ \<Rightarrow> [])"

lemma isOwnService_update [simp]: "isOwnService cf (cc\<lparr>cc_CABundle := b\<rparr>) = isOwnService cf cc"
  by (simp add: isOwnService_def)

lemma set_webhooks:
  "map cc_CABundle (filter (isOwnService cf) (map wh_ClientConfig (map (set_webhook cf b) whs))) =
     map (\<lambda>_. b) (filter (isOwnService cf) (map wh_ClientConfig whs))"
  "filter (Not \<circ> isOwnService cf) (map wh_ClientConfig (map (set_webhook cf b) whs)) =
     filter (Not \<circ> isOwnService cf) (map wh_ClientConfig whs)"
  by (induction whs) (auto simp: set_webhook_def set_own_def)

lemma set_conversion:
  "clientConfigsOf cf (setClientConfigs cf b (CustomResourceDefinition ls conversion)) =
     map (\<lambda>_. b) (clientConfigsOf cf (CustomResourceDefinition ls conversion))"
  "foreignConfigs cf (setClientConfigs cf b (CustomResourceDefinition ls conversion)) =
     foreignConfigs cf (CustomResourceDefinition ls conversion)"
proof -
  consider "conversion = None" | "conversion = Some None" | "conversion = Some (Some None)"
    | cc where "conversion = Some (Some (Some cc))"
    by (metis option.exhaust)
  then show "clientConfigsOf cf (setClientConfigs cf b (CustomResourceDefinition ls conversion)) =
      map (\<lambda>_. b) (clientConfigsOf cf (CustomResourceDefinition ls conversion))"
    "foreignConfigs cf (setClientConfigs cf b (CustomResourceDefinition ls conversion)) =
      foreignConfigs cf (CustomResourceDefinition ls conversion)"
    by (cases; simp add: set_own_def)+
qed

lemma setClientConfigs_spec:
  "clientConfigsOf cf (setClientConfigs cf b object) = map (\<lambda>_. b) (clientConfigsOf cf object) \<and>
   foreignConfigs cf (setClientConfigs cf b object) = foreignConfigs cf object \<and>
   GetLabels (setClientConfigs cf b object) = GetLabels object"
proof (cases object)
  case (MutatingWebhookConfiguration ls whs)
  then show ?thesis
    using set_webhooks[of cf b whs] by (simp add: comp_def)
next
  case (ValidatingWebhookConfiguration ls whs)
  then show ?thesis
    using set_webhooks[of cf b whs] by (simp add: comp_def)
next
  case (CustomResourceDefinition ls conversion)
  then show ?thesis
    using set_conversion[of cf b ls conversion] by simp
qed


definition sample_injected :: "targetOutcome \<times> manager \<times> sample_cluster" where
  "sample_injected =
     run_state (inject sample_config sample_client (hd (cf_Targets sample_config)) (Pem [] [OtherBlock ''bundle'']))
       (NewManager, sample_cluster_state)"


end
