(* ===== verification/MonitoringResource.thy ===== *)
theory MonitoringResource
  imports InstrumentationConfig ApiCalls
begin

text \<open>
  The monitoring resource, \<open>api/operator/v1beta1/dash0monitoring_types.go\<close> with the types of
  \<open>api/operator/common\<close> that it uses: what the operator reads of it and how it changes its status.

  A condition is the pair of its type and its status; reasons, messages and time stamps of conditions are left out. The functions
  of the Kubernetes libraries that set and remove conditions and finalizers are arguments.
\<close>

section \<open>The resource\<close>

record Authorization =
  au_Token :: "string option"
  au_SecretRef :: "string option"

record Dash0Configuration =
  dc_ApiEndpoint :: string
  dc_Dataset :: string
  dc_Authorization :: Authorization

record GrpcConfiguration =
  gc_Endpoint :: string
  gc_Insecure :: "bool option"
  gc_InsecureSkipVerify :: "bool option"

text \<open>An export: the parts for Dash0 and for gRPC, and the rest.\<close>

record Export =
  ex_Dash0 :: "Dash0Configuration option"
  ex_Grpc :: "GrpcConfiguration option"
  ex_Rest :: string

record TraceFilter =
  tf_SpanFilter :: "string list"
  tf_SpanEventFilter :: "string list"

record MetricFilter =
  mf_MetricFilter :: "string list"
  mf_DataPointFilter :: "string list"

text \<open>The filters for logs and for profiles have one list of conditions each.\<close>

record Filter =
  fi_ErrorMode :: string
  fi_Traces :: "TraceFilter option"
  fi_Metrics :: "MetricFilter option"
  fi_Logs :: "string list option"
  fi_Profiles :: "string list option"

text \<open>A transformation; its statements are JSON texts that have not been parsed yet.\<close>

record Transform =
  tr_ErrorMode :: "string option"
  tr_Traces :: "string list"
  tr_Metrics :: "string list"
  tr_Logs :: "string list"
  tr_Profiles :: "string list"

record NormalizedTransformGroup =
  ng_Context :: "string option"
  ng_ErrorMode :: "string option"
  ng_Conditions :: "string list"
  ng_Statements :: "string list"

record NormalizedTransformSpec =
  nt_ErrorMode :: "string option"
  nt_Traces :: "NormalizedTransformGroup list"
  nt_Metrics :: "NormalizedTransformGroup list"
  nt_Logs :: "NormalizedTransformGroup list"
  nt_Profiles :: "NormalizedTransformGroup list"

record monitoring_spec =
  sp_Export :: "Export option"
  sp_Exports :: "Export list"
  sp_Mode :: string
  sp_LabelSelector :: string
  sp_Propagators :: "string option"
  sp_CaptureSqlQueryParameters :: "bool option"
  sp_LogCollectionEnabled :: "bool option"
  sp_EventCollectionEnabled :: "bool option"
  sp_KubernetesObjectCollectionEnabled :: "bool option"
  sp_PrometheusScrapingEnabled :: "bool option"
  sp_Filter :: "Filter option"
  sp_Transform :: "Transform option"
  sp_NormalizedTransformSpec :: "NormalizedTransformSpec option"
  sp_SynchronizePersesDashboards :: "bool option"
  sp_SynchronizePrometheusRules :: "bool option"

text \<open>The fields are those of the metadata, the specification and the status.\<close>

record monitoring =
  mo_Namespace :: string
  mo_Name :: string
  mo_UID :: string
  mo_CreationTimestamp :: int
  mo_Deleting :: bool
  mo_Finalizers :: "string list"
  mo_Labels :: stringmap
  mo_Annotations :: stringmap
  mo_Spec :: monitoring_spec
  mo_Conditions :: "(string \<times> string) list"
  mo_PreviousMode :: string
  mo_PreviousLabelSelector :: string
  mo_PreviousPropagators :: "string option"
  mo_PreviousCaptureSqlQueryParameters :: "bool option"
  mo_PreviousLogCollectionEnabled :: "bool option"

abbreviation mo_Mode :: "monitoring \<Rightarrow> string" where "mo_Mode d \<equiv> sp_Mode (mo_Spec d)"

abbreviation mo_LabelSelector :: "monitoring \<Rightarrow> string" where "mo_LabelSelector d \<equiv> sp_LabelSelector (mo_Spec d)"

abbreviation mo_Propagators :: "monitoring \<Rightarrow> string option" where "mo_Propagators d \<equiv> sp_Propagators (mo_Spec d)"

abbreviation mo_CaptureSqlQueryParameters :: "monitoring \<Rightarrow> bool option" where
  "mo_CaptureSqlQueryParameters d \<equiv> sp_CaptureSqlQueryParameters (mo_Spec d)"

abbreviation mo_LogCollectionEnabled :: "monitoring \<Rightarrow> bool option" where
  "mo_LogCollectionEnabled d \<equiv> sp_LogCollectionEnabled (mo_Spec d)"

abbreviation mo_Exports :: "monitoring \<Rightarrow> Export list" where "mo_Exports d \<equiv> sp_Exports (mo_Spec d)"

abbreviation mo_Export :: "monitoring \<Rightarrow> Export option" where "mo_Export d \<equiv> sp_Export (mo_Spec d)"

definition InstrumentWorkloadsModeAll :: string where
  "InstrumentWorkloadsModeAll = ''all''"

definition InstrumentWorkloadsModeCreatedAndUpdated :: string where
  "InstrumentWorkloadsModeCreatedAndUpdated = ''created-and-updated''"

definition InstrumentWorkloadsModeNone :: string where
  "InstrumentWorkloadsModeNone = ''none''"

definition AllInstrumentWorkloadsModes :: "string list" where
  "AllInstrumentWorkloadsModes =
     [InstrumentWorkloadsModeAll, InstrumentWorkloadsModeCreatedAndUpdated, InstrumentWorkloadsModeNone]"

definition ReadInstrumentWorkloadsMode :: "monitoring \<Rightarrow> string" where
  "ReadInstrumentWorkloadsMode d =
     (if mo_Mode d = [] then InstrumentWorkloadsModeAll
      else if mo_Mode d \<notin> set AllInstrumentWorkloadsModes then InstrumentWorkloadsModeAll
      else mo_Mode d)"

definition IsMarkedForDeletion :: "monitoring \<Rightarrow> bool" where
  "IsMarkedForDeletion d = mo_Deleting d"

definition ConditionTypeAvailable :: string where
  "ConditionTypeAvailable = ''Available''"

definition ConditionTypeDegraded :: string where
  "ConditionTypeDegraded = ''Degraded''"

text \<open>\<open>getCondition\<close>: the status of the first condition of a type.\<close>

definition getCondition :: "monitoring \<Rightarrow> string \<Rightarrow> string option" where
  "getCondition d conditionType = map_of (mo_Conditions d) conditionType"

definition IsAvailable :: "monitoring \<Rightarrow> bool" where
  "IsAvailable d = (case getCondition d ConditionTypeAvailable of Some status \<Rightarrow> status = ''True'' | None \<Rightarrow> False)"

definition IsDegraded :: "monitoring \<Rightarrow> bool" where
  "IsDegraded d = (case getCondition d ConditionTypeDegraded of Some status \<Rightarrow> status = ''True'' | None \<Rightarrow> False)"

definition GetNamespaceInstrumentationConfig :: "monitoring \<Rightarrow> NamespaceInstrumentationConfig" where
  "GetNamespaceInstrumentationConfig d =
     \<lparr>nic_InstrumentationLabelSelector = mo_LabelSelector d,
      nic_TraceContextPropagators = mo_Propagators d,
      nic_PreviousTraceContextPropagators = mo_PreviousPropagators d,
      nic_CaptureSqlQueryParameters = mo_CaptureSqlQueryParameters d,
      nic_PreviousCaptureSqlQueryParameters = mo_PreviousCaptureSqlQueryParameters d,
      nic_LogCollectionEnabled = ReadBoolPointerWithDefault (mo_LogCollectionEnabled d) True,
      nic_PreviousLogCollectionEnabled = ReadBoolPointerWithDefault (mo_PreviousLogCollectionEnabled d) True\<rparr>"

definition IsStringPointerValueDifferent :: "string option \<Rightarrow> string option \<Rightarrow> bool" where
  "IsStringPointerValueDifferent a b =
     (if IsEmpty a \<and> \<not> IsEmpty b then True
      else if \<not> IsEmpty a \<and> IsEmpty b then True
      else case (a, b) of (Some x, Some y) \<Rightarrow> TrimSpace x \<noteq> TrimSpace y | _ \<Rightarrow> False)"

section \<open>Exports\<close>

definition EffectiveExports :: "monitoring \<Rightarrow> Export list" where
  "EffectiveExports d =
     (if length (mo_Exports d) > 0 then mo_Exports d
      else case mo_Export d of Some export \<Rightarrow> [export] | None \<Rightarrow> [])"

definition Export_HasDash0ApiAccessConfigured :: "Export \<Rightarrow> bool" where
  "Export_HasDash0ApiAccessConfigured e =
     (case ex_Dash0 e of
        None \<Rightarrow> False
      | Some dash0 \<Rightarrow> dc_ApiEndpoint dash0 \<noteq> [] \<and>
          (au_Token (dc_Authorization dash0) \<noteq> None \<or> au_SecretRef (dc_Authorization dash0) \<noteq> None))"

definition HasDash0ApiAccessConfigured :: "monitoring \<Rightarrow> bool" where
  "HasDash0ApiAccessConfigured d = list_ex Export_HasDash0ApiAccessConfigured (EffectiveExports d)"

definition GetDash0Exports :: "monitoring \<Rightarrow> Dash0Configuration list" where
  "GetDash0Exports d = List.map_filter ex_Dash0 (EffectiveExports d)"

section \<open>Conditions and finalizers\<close>

record resource_lib =
  rl_SetStatusCondition :: "(string \<times> string) list \<Rightarrow> string \<Rightarrow> string \<Rightarrow> (string \<times> string) list"
  rl_RemoveStatusCondition :: "(string \<times> string) list \<Rightarrow> string \<Rightarrow> (string \<times> string) list"
  rl_FindStatusCondition :: "(string \<times> string) list \<Rightarrow> string \<Rightarrow> string option"
  rl_AddFinalizer :: "string list \<Rightarrow> string \<Rightarrow> string list \<times> bool"
  rl_RemoveFinalizer :: "string list \<Rightarrow> string \<Rightarrow> string list \<times> bool"
  rl_ContainsFinalizer :: "string list \<Rightarrow> string \<Rightarrow> bool"

text \<open>Their documented behaviour.\<close>

definition resource_lib_laws :: "resource_lib \<Rightarrow> bool" where
  "resource_lib_laws lib \<longleftrightarrow>
     (\<forall>cs t status t'. map_of (rl_SetStatusCondition lib cs t status) t' = (if t' = t then Some status else map_of cs t')) \<and>
     (\<forall>cs t t'. map_of (rl_RemoveStatusCondition lib cs t) t' = (if t' = t then None else map_of cs t')) \<and>
     (\<forall>cs t. rl_FindStatusCondition lib cs t = map_of cs t) \<and>
     (\<forall>fs f. rl_AddFinalizer lib fs f = (if f \<in> set fs then (fs, False) else (fs @ [f], True))) \<and>
     (\<forall>fs f. set (fst (rl_RemoveFinalizer lib fs f)) = set fs - {f} \<and> (snd (rl_RemoveFinalizer lib fs f) \<longleftrightarrow> f \<in> set fs)) \<and>
     (\<forall>fs f. rl_ContainsFinalizer lib fs f \<longleftrightarrow> f \<in> set fs)"

definition SetAvailableConditionToUnknown :: "resource_lib \<Rightarrow> monitoring \<Rightarrow> monitoring" where
  "SetAvailableConditionToUnknown lib d =
     d\<lparr>mo_Conditions := rl_SetStatusCondition lib
         (rl_SetStatusCondition lib (mo_Conditions d) ConditionTypeAvailable ''Unknown'') ConditionTypeDegraded ''True''\<rparr>"

definition EnsureResourceIsMarkedAsAvailable :: "resource_lib \<Rightarrow> monitoring \<Rightarrow> monitoring" where
  "EnsureResourceIsMarkedAsAvailable lib d =
     d\<lparr>mo_Conditions := rl_RemoveStatusCondition lib
         (rl_SetStatusCondition lib (mo_Conditions d) ConditionTypeAvailable ''True'') ConditionTypeDegraded\<rparr>"

definition EnsureResourceIsMarkedAsDegraded :: "resource_lib \<Rightarrow> monitoring \<Rightarrow> monitoring" where
  "EnsureResourceIsMarkedAsDegraded lib d =
     d\<lparr>mo_Conditions := rl_SetStatusCondition lib
         (rl_SetStatusCondition lib (mo_Conditions d) ConditionTypeAvailable ''False'') ConditionTypeDegraded ''True''\<rparr>"

definition EnsureResourceIsMarkedAsAboutToBeDeleted :: "resource_lib \<Rightarrow> monitoring \<Rightarrow> monitoring" where
  "EnsureResourceIsMarkedAsAboutToBeDeleted lib d = EnsureResourceIsMarkedAsDegraded lib d"

definition MonitoringFinalizerId :: string where
  "MonitoringFinalizerId = ''operator.dash0.com/dash0-monitoring-finalizer''"

end
