(* ===== verification/InstrumentationWebhook.thy ===== *)
theory InstrumentationWebhook
  imports WorkloadModifier MonitoringResource
begin

text \<open>
  The admission webhook that instruments new and updated workloads: \<open>internal/webhooks/instrumentation_webhook.go\<close>, with
  \<open>ReadControllingCronJob\<close>.

  The decoders and encoders of the Kubernetes libraries are arguments, as is the API. A response that patches the
  object is the pair of the object as received and as it should be. The texts of responses and events are left out.
\<close>

section \<open>Objects\<close>

record controller_ref =
  cr_APIVersion :: string
  cr_Kind :: string
  cr_Name :: string
  cr_UID :: string

text \<open>
  A workload with the metadata that the code reads: \<open>ob_Controller\<close> is the owner reference of the controller,
  \<open>ob_Rest\<close> everything that is neither read nor written.
\<close>

record k8s_object =
  ob_Kind :: string
  ob_Namespace :: string
  ob_Name :: string
  ob_UID :: string
  ob_Deleting :: bool
  ob_Controller :: "controller_ref option"
  ob_Workload :: Workload
  ob_Rest :: string

abbreviation ob_Meta :: "k8s_object \<Rightarrow> ObjectMeta" where
  "ob_Meta obj \<equiv> w_Meta (ob_Workload obj)"

abbreviation on_meta :: "(ObjectMeta \<Rightarrow> ObjectMeta) \<Rightarrow> k8s_object \<Rightarrow> k8s_object" where
  "on_meta f obj \<equiv> obj\<lparr>ob_Workload := (ob_Workload obj)\<lparr>w_Meta := f (w_Meta (ob_Workload obj))\<rparr>\<rparr>"

section \<open>The Kubernetes API\<close>

text \<open>The metadata of a cron job that \<open>ReadControllingCronJob\<close> asks for: its UID and its labels and annotations.\<close>

record 'w workload_api =
  wa_monitoring :: "string \<Rightarrow> 'w \<Rightarrow> (api_error + monitoring list) \<times> 'w"
  wa_cronJob :: "string \<Rightarrow> string \<Rightarrow> 'w \<Rightarrow> (api_error + string \<times> ObjectMeta) \<times> 'w"

datatype event =
    SuccessfulInstrumentation | PartiallyUnsuccessfulInstrumentation | NoInstrumentationNecessary | FailedInstrumentation
  | SuccessfulUninstrumentation | NoUninstrumentationNecessary | FailedUninstrumentation

text \<open>The state of a program that queues events, and a computation of it.\<close>

type_synonym ('w, 'a) action = "(event list \<times> 'w, 'a) state"

definition queue :: "event \<Rightarrow> ('w, unit) action" where
  "queue e = change (\<lambda>es. es @ [e])"

definition HandlePotentiallySuccessfulInstrumentationEvent :: "(string \<times> string list) list \<Rightarrow> ('w, unit) action" where
  "HandlePotentiallySuccessfulInstrumentationEvent instrumentationIssuesPerContainer =
     (if instrumentationIssuesPerContainer = [] then queue SuccessfulInstrumentation
      else queue PartiallyUnsuccessfulInstrumentation)"

definition ReadControllingCronJob ::
  "('w, 'x) workload_api_scheme \<Rightarrow> string \<Rightarrow> k8s_object \<Rightarrow> ('w, call_error + ObjectMeta option) action" where
  "ReadControllingCronJob api namespace job =
     (case ob_Controller job of
        None \<Rightarrow> State_Monad.return (Inr None)
      | Some ref \<Rightarrow>
          if cr_APIVersion ref \<noteq> or_APIVersion K8sTypeMetaCronJob \<or> cr_Kind ref \<noteq> or_Kind K8sTypeMetaCronJob
          then State_Monad.return (Inr None)
          else do {
            answer \<leftarrow> call (wa_cronJob api namespace (cr_Name ref));
            State_Monad.return (case answer of
              Inl e \<Rightarrow> if e = NotFound then Inr None else Inl (Api e)
            | Inr (uid, meta) \<Rightarrow> if uid \<noteq> cr_UID ref then Inr None else Inr (Some meta))
          })"

section \<open>Requests and responses\<close>

record 'r request =
  rq_Group :: string
  rq_Version :: string
  rq_Kind :: string
  rq_Namespace :: string
  rq_Object :: 'r

datatype allowed_reason =
    NoMonitoringResource | MonitoringResourceNotReadable | MonitoringResourceNotAvailable | MonitoringResourceAboutToBeDeleted
  | InstrumentationNotEnabled | ResourceTypeNotSupported | OptedOut | NoChanges | CannotBeParsed | CannotBeMarshalled
  | ControllingCronJobNotReadable | ImmutableWorkload

datatype 'r response = Allowed allowed_reason | PatchResponseFromRaw 'r 'r | Denied string | Errored string

record 'r codec =
  cd_labels :: "'r \<Rightarrow> stringmap option"
  cd_setLabels :: "'r \<Rightarrow> stringmap \<Rightarrow> 'r option"
  cd_decode :: "string \<Rightarrow> 'r \<Rightarrow> k8s_object option"
  cd_encode :: "k8s_object \<Rightarrow> 'r option"
  cd_decodePod :: "'r \<Rightarrow> (Pod \<times> string) option"
  cd_encodePod :: "Pod \<times> string \<Rightarrow> 'r option"

text \<open>The handler with what it is configured with: the cluster configuration and the parser of label selectors.\<close>

record webhook_handler =
  wh_config :: ClusterInstrumentationConfig
  wh_labelsParse :: selector_parser

definition webhook_actor :: string where
  "webhook_actor = ''webhook''"

definition webhook_modifier :: "webhook_handler \<Rightarrow> NamespaceInstrumentationConfig \<Rightarrow> ResourceModifier" where
  "webhook_modifier h ns = NewResourceModifier (wh_config h) ns webhook_actor"

definition consumeIgnoreOnceLabel :: "'r codec \<Rightarrow> 'r request \<Rightarrow> 'r response option" where
  "consumeIgnoreOnceLabel cd request =
     (case cd_labels cd (rq_Object request) of
        None \<Rightarrow> None
      | Some labels \<Rightarrow>
          (let (remaining, removed) = RemoveWebhookIgnoreOnceLabel labels
           in if \<not> removed then None
              else case cd_setLabels cd (rq_Object request) remaining of
                     None \<Rightarrow> Some (Allowed CannotBeMarshalled)
                   | Some marshalled \<Rightarrow> Some (PatchResponseFromRaw (rq_Object request) marshalled)))"

section \<open>Handlers\<close>

definition webhook_postProcessInstrumentation ::
  "'r \<Rightarrow> 'r option \<Rightarrow> ModificationResult \<Rightarrow> bool \<Rightarrow> ('w, 'r response) action" where
  "webhook_postProcessInstrumentation raw marshalled modificationResult isPod =
     (if \<not> mr_HasBeenModified modificationResult
      then do {
        (if \<not> isPod then queue NoInstrumentationNecessary else State_Monad.return ());
        State_Monad.return (Allowed NoChanges)
      }
      else case marshalled of
        None \<Rightarrow> do {
          queue FailedInstrumentation;
          State_Monad.return (Allowed CannotBeMarshalled)
        }
      | Some current \<Rightarrow> do {
          HandlePotentiallySuccessfulInstrumentationEvent (mr_InstrumentationIssuesPerContainer modificationResult);
          State_Monad.return (PatchResponseFromRaw raw current)
        })"

definition webhook_postProcessUninstrumentation ::
  "'r \<Rightarrow> 'r option \<Rightarrow> ModificationResult \<Rightarrow> ('w, 'r response) action" where
  "webhook_postProcessUninstrumentation raw marshalled modificationResult =
     (if mr_ImmutableWorkload modificationResult
      then do {
        queue FailedUninstrumentation;
        State_Monad.return (Allowed ImmutableWorkload)
      }
      else if \<not> mr_HasBeenModified modificationResult
      then do {
        queue NoUninstrumentationNecessary;
        State_Monad.return (Allowed NoChanges)
      }
      else case marshalled of
        None \<Rightarrow> do {
          queue FailedUninstrumentation;
          State_Monad.return (Allowed CannotBeMarshalled)
        }
      | Some current \<Rightarrow> do {
          queue SuccessfulUninstrumentation;
          State_Monad.return (PatchResponseFromRaw raw current)
        })"

text \<open>
  What the handlers of the mutable workloads share: they decode the object, leave it alone if it has opted out, revert
  it if it has opted out after it was instrumented, and instrument it otherwise.
\<close>

definition handle_mutable ::
  "(ResourceModifier \<Rightarrow> Workload \<Rightarrow> (ModificationResult \<times> Workload) outcome) \<Rightarrow>
   (ResourceModifier \<Rightarrow> Workload \<Rightarrow> (ModificationResult \<times> Workload) outcome) \<Rightarrow>
   webhook_handler \<Rightarrow> 'r codec \<Rightarrow> 'r request \<Rightarrow> NamespaceInstrumentationConfig \<Rightarrow> ('w, 'r response outcome) action" where
  "handle_mutable modify revert h cd request ns =
     (case cd_decode cd (rq_Kind request) (rq_Object request) of
        None \<Rightarrow> do {
          queue FailedInstrumentation;
          ok (Allowed CannotBeParsed)
        }
      | Some obj \<Rightarrow>
          pbind (State_Monad.return (HasOptedOutOfInstrumentationAndIsUninstrumented (wh_labelsParse h) (ob_Meta obj)
                   (nic_InstrumentationLabelSelector ns))) (\<lambda>optedOut.
            if optedOut then ok (Allowed OptedOut)
            else pbind (State_Monad.return (WasInstrumentedButHasOptedOutNow (wh_labelsParse h) (ob_Meta obj)
                   (nic_InstrumentationLabelSelector ns))) (\<lambda>optedOutNow.
              if optedOutNow
              then pbind (State_Monad.return (revert (webhook_modifier h ns) (ob_Workload obj))) (\<lambda>(result, w).
                     safely (webhook_postProcessUninstrumentation (rq_Object request) (cd_encode cd (obj\<lparr>ob_Workload := w\<rparr>)) result))
              else pbind (State_Monad.return (modify (webhook_modifier h ns) (ob_Workload obj))) (\<lambda>(result, w).
                     safely (webhook_postProcessInstrumentation (rq_Object request)
                       (cd_encode cd (obj\<lparr>ob_Workload := w\<rparr>)) result False)))))"

definition handleCronJob ::
  "webhook_handler \<Rightarrow> 'r codec \<Rightarrow> 'r request \<Rightarrow> NamespaceInstrumentationConfig \<Rightarrow> ('w, 'r response outcome) action" where
  "handleCronJob = handle_mutable ModifyCronJob RevertCronJob"

definition handleDaemonSet ::
  "webhook_handler \<Rightarrow> 'r codec \<Rightarrow> 'r request \<Rightarrow> NamespaceInstrumentationConfig \<Rightarrow> ('w, 'r response outcome) action" where
  "handleDaemonSet = handle_mutable ModifyDaemonSet RevertDaemonSet"

definition handleDeployment ::
  "webhook_handler \<Rightarrow> 'r codec \<Rightarrow> 'r request \<Rightarrow> NamespaceInstrumentationConfig \<Rightarrow> ('w, 'r response outcome) action" where
  "handleDeployment = handle_mutable ModifyDeployment RevertDeployment"

definition handleReplicaSet ::
  "webhook_handler \<Rightarrow> 'r codec \<Rightarrow> 'r request \<Rightarrow> NamespaceInstrumentationConfig \<Rightarrow> ('w, 'r response outcome) action" where
  "handleReplicaSet = handle_mutable ModifyReplicaSet RevertReplicaSet"

definition handleStatefulSet ::
  "webhook_handler \<Rightarrow> 'r codec \<Rightarrow> 'r request \<Rightarrow> NamespaceInstrumentationConfig \<Rightarrow> ('w, 'r response outcome) action" where
  "handleStatefulSet = handle_mutable ModifyStatefulSet RevertStatefulSet"

definition handleJob ::
  "webhook_handler \<Rightarrow> 'r codec \<Rightarrow> ('w, 'x) workload_api_scheme \<Rightarrow> 'r request \<Rightarrow> NamespaceInstrumentationConfig \<Rightarrow>
   ('w, 'r response outcome) action" where
  "handleJob h cd api request ns =
     (case cd_decode cd (rq_Kind request) (rq_Object request) of
        None \<Rightarrow> do {
          queue FailedInstrumentation;
          ok (Allowed CannotBeParsed)
        }
      | Some job \<Rightarrow> do {
          answer \<leftarrow> ReadControllingCronJob api (rq_Namespace request) job;
          (case answer of
             Inl e \<Rightarrow> do {
               queue FailedInstrumentation;
               ok (Allowed ControllingCronJobNotReadable)
             }
           | Inr controllingCronJob \<Rightarrow>
               pbind (State_Monad.return (JobHasOptedOutOfInstrumentation (wh_labelsParse h) (ob_Meta job) controllingCronJob
                        (nic_InstrumentationLabelSelector ns))) (\<lambda>hasOptedOut.
                 if hasOptedOut \<and> \<not> HasBeenInstrumentedSuccessfully (ob_Meta job) then ok (Allowed OptedOut)
                 else if hasOptedOut
                 then safely (webhook_postProcessUninstrumentation (rq_Object request) (cd_encode cd job)
                        NewNotModifiedImmutableWorkloadCannotBeRevertedResult)
                 else pbind (State_Monad.return (ModifyJob (webhook_modifier h ns) (ob_Workload job))) (\<lambda>(result, w).
                        safely (webhook_postProcessInstrumentation (rq_Object request)
                          (cd_encode cd (job\<lparr>ob_Workload := w\<rparr>)) result False))))
        })"

definition handlePod ::
  "webhook_handler \<Rightarrow> 'r codec \<Rightarrow> 'r request \<Rightarrow> NamespaceInstrumentationConfig \<Rightarrow> ('w, 'r response outcome) action" where
  "handlePod h cd request ns =
     (case cd_decodePod cd (rq_Object request) of
        None \<Rightarrow> do {
          queue FailedInstrumentation;
          ok (Allowed CannotBeParsed)
        }
      | Some (pod, rest) \<Rightarrow>
          pbind (State_Monad.return (HasOptedOutOfInstrumentationAndIsUninstrumented (wh_labelsParse h) (p_Meta pod)
                   (nic_InstrumentationLabelSelector ns))) (\<lambda>optedOut.
            if optedOut then ok (Allowed OptedOut)
            else pbind (State_Monad.return (WasInstrumentedButHasOptedOutNow (wh_labelsParse h) (p_Meta pod)
                   (nic_InstrumentationLabelSelector ns))) (\<lambda>optedOutNow.
              if optedOutNow
              then safely (webhook_postProcessUninstrumentation (rq_Object request) (cd_encodePod cd (pod, rest))
                     NewNotModifiedImmutableWorkloadCannotBeRevertedResult)
              else pbind (State_Monad.return (ModifyPod (webhook_modifier h ns) pod)) (\<lambda>(result, pod').
                     safely (webhook_postProcessInstrumentation (rq_Object request) (cd_encodePod cd (pod', rest)) result True)))))"

section \<open>Routing\<close>

datatype route = FallbackRoute | PodRoute | CronJobRoute | JobRoute | DaemonSetRoute | DeploymentRoute | ReplicaSetRoute | StatefulSetRoute

definition routes :: "(string \<times> (string \<times> (string \<times> route) list) list) list" where
  "routes =
     [('''', [(''Pod'', [(''v1'', PodRoute)])]),
      (''batch'', [(''CronJob'', [(''v1'', CronJobRoute)]), (''Job'', [(''v1'', JobRoute)])]),
      (''apps'', [(''DaemonSet'', [(''v1'', DaemonSetRoute)]), (''Deployment'', [(''v1'', DeploymentRoute)]),
                  (''ReplicaSet'', [(''v1'', ReplicaSetRoute)]), (''StatefulSet'', [(''v1'', StatefulSetRoute)])])]"

text \<open>\<open>None\<close> is a nil handler.\<close>

definition routeFor :: "string \<Rightarrow> string \<Rightarrow> string \<Rightarrow> route option" where
  "routeFor grp kind version =
     (case map_of routes grp of
        None \<Rightarrow> None
      | Some routesForGroup \<Rightarrow>
          (case map_of routesForGroup kind of
             None \<Rightarrow> None
           | Some routesForKind \<Rightarrow>
               (case map_of routesForKind version of None \<Rightarrow> Some FallbackRoute | Some r \<Rightarrow> Some r)))"

fun run_route ::
  "route \<Rightarrow> webhook_handler \<Rightarrow> 'r codec \<Rightarrow> ('w, 'x) workload_api_scheme \<Rightarrow> 'r request \<Rightarrow> NamespaceInstrumentationConfig \<Rightarrow>
   ('w, 'r response outcome) action" where
  "run_route FallbackRoute h cd api request ns = ok (Allowed ResourceTypeNotSupported)"
| "run_route PodRoute h cd api request ns = handlePod h cd request ns"
| "run_route CronJobRoute h cd api request ns = handleCronJob h cd request ns"
| "run_route JobRoute h cd api request ns = handleJob h cd api request ns"
| "run_route DaemonSetRoute h cd api request ns = handleDaemonSet h cd request ns"
| "run_route DeploymentRoute h cd api request ns = handleDeployment h cd request ns"
| "run_route ReplicaSetRoute h cd api request ns = handleReplicaSet h cd request ns"
| "run_route StatefulSetRoute h cd api request ns = handleStatefulSet h cd request ns"

definition Handle ::
  "webhook_handler \<Rightarrow> 'r codec \<Rightarrow> ('w, 'x) workload_api_scheme \<Rightarrow> 'r request \<Rightarrow> ('w, 'r response outcome) action" where
  "Handle h cd api request =
     (case consumeIgnoreOnceLabel cd request of
        Some response \<Rightarrow> ok response
      | None \<Rightarrow> do {
          answer \<leftarrow> call (wa_monitoring api (rq_Namespace request));
          (case answer of
             Inl e \<Rightarrow> ok (Allowed (if e = NotFound then NoMonitoringResource else MonitoringResourceNotReadable))
           | Inr [] \<Rightarrow> ok (Allowed NoMonitoringResource)
           | Inr (resource # _) \<Rightarrow>
               if \<not> IsAvailable resource then ok (Allowed MonitoringResourceNotAvailable)
               else if IsMarkedForDeletion resource then ok (Allowed MonitoringResourceAboutToBeDeleted)
               else if ReadInstrumentWorkloadsMode resource = InstrumentWorkloadsModeNone
               then ok (Allowed InstrumentationNotEnabled)
               else case routeFor (rq_Group request) (rq_Kind request) (rq_Version request) of
                      None \<Rightarrow> State_Monad.return (Inl NilPointerDereference)
                    | Some r \<Rightarrow> run_route r h cd api request (GetNamespaceInstrumentationConfig resource))
        })"

end
