(* ===== verification/Instrumenter.thy ===== *)
theory Instrumenter
  imports InstrumentationWebhook
begin

text \<open>
  The controller that instruments existing workloads and removes the instrumentation again:
  \<open>internal/instrumentation/instrumenter.go\<close> and \<open>instrumentable_workloads.go\<close>, with \<open>internal/util/retry/retry.go\<close>.

  The Kubernetes API is an argument, and so is \<open>OnError\<close>, the retry loop of client-go: what the code relies on is the
  hypothesis \<open>on_error_contract\<close>. A closure that is retried works on the local variables it captures, the
  record \<open>attempt\<close>. Listing the workloads gives the listed objects and the error that ended the listing, if any. Pauses between workloads are left out.
\<close>

section \<open>Retrying\<close>

datatype ModificationMode = ModificationModeInstrumentation | ModificationModeUninstrumentation

datatype wrapped_error = Plain call_error | RetryableError call_error bool | ImmutableWorkloadError ModificationMode

fun IsRetryable :: "wrapped_error \<Rightarrow> bool" where
  "IsRetryable (RetryableError _ retryable) = retryable"
| "IsRetryable _ = True"

record attempt =
  at_object :: k8s_object
  at_result :: ModificationResult
  at_flag :: bool

type_synonym 'w attempt_step = "attempt \<Rightarrow> ('w, (attempt \<times> wrapped_error option) outcome) action"

record owner_reference =
  ow_Kind :: string
  ow_Name :: string
  ow_UID :: string

record pod_ref =
  pr_Namespace :: string
  pr_Name :: string
  pr_Owners :: "owner_reference list"

record 'w instrumenter_api = "'w workload_api" +
  ia_get :: "string \<Rightarrow> string \<Rightarrow> string \<Rightarrow> 'w \<Rightarrow> (api_error + k8s_object) \<times> 'w"
  ia_update :: "k8s_object \<Rightarrow> 'w \<Rightarrow> (api_error + k8s_object) \<times> 'w"
  ia_list :: "string \<Rightarrow> string \<Rightarrow> bool \<Rightarrow> 'w \<Rightarrow> (k8s_object list \<times> api_error option) \<times> 'w"
  ia_pods :: "string \<Rightarrow> 'w \<Rightarrow> (api_error + pod_ref list) \<times> 'w"
  ia_deletePod :: "pod_ref \<Rightarrow> 'w \<Rightarrow> api_error option \<times> 'w"
  ia_onError :: "nat \<Rightarrow> (wrapped_error \<Rightarrow> bool) \<Rightarrow> 'w attempt_step \<Rightarrow> 'w attempt_step"

text \<open>A backoff with no steps is normalized to a single attempt.\<close>

definition Retry :: "'w instrumenter_api \<Rightarrow> int \<Rightarrow> 'w attempt_step \<Rightarrow> 'w attempt_step" where
  "Retry api steps operation =
     (let steps = (if steps \<le> 0 then 1 else steps)
      in ia_onError api (nat steps) IsRetryable operation)"

definition instrumentationRetryBackoff_Steps :: int where
  "instrumentationRetryBackoff_Steps = 5"

text \<open>
  The contract of \<open>OnError\<close>: the operation is executed until it succeeds, fails with an error that is not retriable, or has
  been executed as often as there are steps; the last error is returned.
\<close>

definition on_error_contract :: "'w instrumenter_api \<Rightarrow> bool" where
  "on_error_contract api \<longleftrightarrow>
     (\<forall>n retriable operation a.
        ia_onError api (Suc n) retriable operation a =
          pbind (operation a) (\<lambda>(a', err).
            case err of
              None \<Rightarrow> ok (a', None)
            | Some e \<Rightarrow> if retriable e \<and> 0 < n then ia_onError api n retriable operation a' else ok (a', Some e)))"

section \<open>Workloads\<close>

datatype instrumentableWorkload =
    cronJobWorkload | daemonSetWorkload | deploymentWorkload | replicaSetWorkload | statefulSetWorkload

fun getKind :: "instrumentableWorkload \<Rightarrow> string" where
  "getKind cronJobWorkload = ''CronJob''"
| "getKind daemonSetWorkload = ''DaemonSet''"
| "getKind deploymentWorkload = ''Deployment''"
| "getKind replicaSetWorkload = ''ReplicaSet''"
| "getKind statefulSetWorkload = ''StatefulSet''"

fun workload_instrument ::
  "instrumentableWorkload \<Rightarrow> ResourceModifier \<Rightarrow> Workload \<Rightarrow> (ModificationResult \<times> Workload) outcome" where
  "workload_instrument cronJobWorkload = ModifyCronJob"
| "workload_instrument daemonSetWorkload = ModifyDaemonSet"
| "workload_instrument deploymentWorkload = ModifyDeployment"
| "workload_instrument replicaSetWorkload = ModifyReplicaSet"
| "workload_instrument statefulSetWorkload = ModifyStatefulSet"

fun workload_revert ::
  "instrumentableWorkload \<Rightarrow> ResourceModifier \<Rightarrow> Workload \<Rightarrow> (ModificationResult \<times> Workload) outcome" where
  "workload_revert cronJobWorkload = RevertCronJob"
| "workload_revert daemonSetWorkload = RevertDaemonSet"
| "workload_revert deploymentWorkload = RevertDeployment"
| "workload_revert replicaSetWorkload = RevertReplicaSet"
| "workload_revert statefulSetWorkload = RevertStatefulSet"

definition NewNotModifiedReasonUnknownResult :: ModificationResult where
  "NewNotModifiedReasonUnknownResult = newNotModifiedResult NoModificationReasonUnknown"

definition NewNotModifiedDueToErrorResult :: ModificationResult where
  "NewNotModifiedDueToErrorResult = newNotModifiedResult NoModificationReasonError"

record instrumenter =
  it_config :: ClusterInstrumentationConfig
  it_labelsParse :: selector_parser

definition controller_actor :: string where
  "controller_actor = ''controller''"

definition newWorkloadModifier :: "instrumenter \<Rightarrow> NamespaceInstrumentationConfig \<Rightarrow> ResourceModifier" where
  "newWorkloadModifier i ns = NewResourceModifier (it_config i) ns controller_actor"

section \<open>Outcome of a modification\<close>

definition postProcessInstrumentation ::
  "ModificationResult \<Rightarrow> wrapped_error option \<Rightarrow> ('w, bool) action" where
  "postProcessInstrumentation modificationResult retryErr =
     (if retryErr \<noteq> None
      then do {
        queue FailedInstrumentation;
        State_Monad.return False
      }
      else if \<not> mr_HasBeenModified modificationResult
      then do {
        queue NoInstrumentationNecessary;
        State_Monad.return False
      }
      else do {
        HandlePotentiallySuccessfulInstrumentationEvent (mr_InstrumentationIssuesPerContainer modificationResult);
        State_Monad.return True
      })"

definition postProcessUninstrumentation ::
  "ModificationResult \<Rightarrow> wrapped_error option \<Rightarrow> ('w, bool) action" where
  "postProcessUninstrumentation modificationResult retryErr =
     (if retryErr \<noteq> None
      then do {
        queue FailedUninstrumentation;
        State_Monad.return False
      }
      else if \<not> mr_HasBeenModified modificationResult
      then do {
        queue NoUninstrumentationNecessary;
        State_Monad.return False
      }
      else do {
        queue SuccessfulUninstrumentation;
        State_Monad.return True
      })"

section \<open>A single workload\<close>

definition fetch :: "'w instrumenter_api \<Rightarrow> k8s_object \<Rightarrow> ('w, api_error + k8s_object) action" where
  "fetch api obj = call (ia_get api (ob_Kind obj) (ob_Namespace obj) (ob_Name obj))"

text \<open>\<open>Update\<close> replaces the object by what the API server has stored.\<close>

definition update :: "'w instrumenter_api \<Rightarrow> attempt \<Rightarrow> ('w, (attempt \<times> wrapped_error option) outcome) action" where
  "update api a = do {
     answer \<leftarrow> call (ia_update api (at_object a));
     (case answer of
        Inl e \<Rightarrow> ok (a, Some (Plain (Api e)))
      | Inr stored \<Rightarrow> ok (a\<lparr>at_object := stored\<rparr>, None))
   }"

text \<open>The closure that reads the workload, modifies it and updates it if something has been modified.\<close>

definition modify_attempt ::
  "'w instrumenter_api \<Rightarrow> bool \<Rightarrow> (Workload \<Rightarrow> (ModificationResult \<times> Workload) outcome) \<Rightarrow> 'w attempt_step" where
  "modify_attempt api addIgnoreOnceLabel modify a = do {
     answer \<leftarrow> fetch api (at_object a);
     (case answer of
        Inl e \<Rightarrow> ok (a, Some (Plain (Api e)))
      | Inr obj \<Rightarrow>
          pbind (State_Monad.return (modify (ob_Workload obj))) (\<lambda>(result, w).
            let modified = obj\<lparr>ob_Workload := w\<rparr>
            in if mr_HasBeenModified result
               then update api (a\<lparr>at_result := result,
                      at_object := (if addIgnoreOnceLabel then on_meta AddWebhookIgnoreOnceLabel modified else modified)\<rparr>)
               else ok (a\<lparr>at_result := result, at_object := modified\<rparr>, None)))
   }"

definition remove_label_attempt :: "'w instrumenter_api \<Rightarrow> 'w attempt_step" where
  "remove_label_attempt api a = do {
     answer \<leftarrow> fetch api (at_object a);
     (case answer of
        Inl e \<Rightarrow> ok (a, Some (Plain (Api e)))
      | Inr obj \<Rightarrow>
          (let (labels, labelRemoved) = RemoveWebhookIgnoreOnceLabel (om_Labels (ob_Meta obj))
           in if \<not> labelRemoved then ok (a\<lparr>at_object := obj, at_flag := False\<rparr>, None)
              else update api (a\<lparr>at_object := on_meta (\<lambda>m. m\<lparr>om_Labels := labels\<rparr>) obj, at_flag := True\<rparr>)))
   }"

definition removeLeftoverWebhookIgnoreOnceLabel :: "'w instrumenter_api \<Rightarrow> k8s_object \<Rightarrow> ('w, unit outcome) action" where
  "removeLeftoverWebhookIgnoreOnceLabel api obj =
     (if \<not> HasWebhookIgnoreOnceLabel (ob_Meta obj) then ok ()
      else pbind (Retry api instrumentationRetryBackoff_Steps (remove_label_attempt api)
             \<lparr>at_object = obj, at_result = NewNotModifiedReasonUnknownResult, at_flag = False\<rparr>) (\<lambda>_. ok ()))"

definition run_modification ::
  "'w instrumenter_api \<Rightarrow> bool \<Rightarrow> (Workload \<Rightarrow> (ModificationResult \<times> Workload) outcome) \<Rightarrow> k8s_object \<Rightarrow>
   ('w, (attempt \<times> wrapped_error option) outcome) action" where
  "run_modification api addIgnoreOnceLabel modify obj =
     Retry api instrumentationRetryBackoff_Steps (modify_attempt api addIgnoreOnceLabel modify)
       \<lparr>at_object = obj, at_result = NewNotModifiedReasonUnknownResult, at_flag = False\<rparr>"

text \<open>The end of \<open>instrumentWorkload\<close>, once the required action is known.\<close>

definition apply_action ::
  "instrumenter \<Rightarrow> 'w instrumenter_api \<Rightarrow> NamespaceInstrumentationConfig \<Rightarrow> instrumentableWorkload \<Rightarrow> k8s_object \<Rightarrow>
   ModificationMode \<Rightarrow> bool \<Rightarrow> ('w, bool outcome) action" where
  "apply_action i api ns workload obj requiredAction addIgnoreOnceLabel =
     pbind (run_modification api addIgnoreOnceLabel
              (case requiredAction of
                 ModificationModeInstrumentation \<Rightarrow> workload_instrument workload (newWorkloadModifier i ns)
               | ModificationModeUninstrumentation \<Rightarrow> workload_revert workload (newWorkloadModifier i ns)) obj)
       (\<lambda>(a, retryErr).
         pbind (if retryErr = None \<and> \<not> mr_HasBeenModified (at_result a)
                then removeLeftoverWebhookIgnoreOnceLabel api (at_object a) else ok ()) (\<lambda>_.
           safely (case requiredAction of
             ModificationModeInstrumentation \<Rightarrow> postProcessInstrumentation (at_result a) retryErr
           | ModificationModeUninstrumentation \<Rightarrow> postProcessUninstrumentation (at_result a) retryErr)))"

definition instrumentWorkload ::
  "instrumenter \<Rightarrow> 'w instrumenter_api \<Rightarrow> NamespaceInstrumentationConfig \<Rightarrow> instrumentableWorkload \<Rightarrow> k8s_object \<Rightarrow>
   ('w, bool outcome) action" where
  "instrumentWorkload i api ns workload obj =
     (if ob_Deleting obj then ok False
      else
        pbind (State_Monad.return (WasInstrumentedButHasOptedOutNow (it_labelsParse i) (ob_Meta obj)
                 (nic_InstrumentationLabelSelector ns))) (\<lambda>optedOutNow.
          if optedOutNow then apply_action i api ns workload obj ModificationModeUninstrumentation False
          else if InstrumentationIsUpToDate (ob_Meta obj) (ps_Containers (pts_Spec (w_Template (ob_Workload obj)))) (it_config i) ns
          then pbind (removeLeftoverWebhookIgnoreOnceLabel api obj) (\<lambda>_. ok False)
          else pbind (State_Monad.return (HasOptedOutOfInstrumentationAndIsUninstrumented (it_labelsParse i) (ob_Meta obj)
                 (nic_InstrumentationLabelSelector ns))) (\<lambda>optedOut.
            if optedOut then pbind (removeLeftoverWebhookIgnoreOnceLabel api obj) (\<lambda>_. ok False)
            else apply_action i api ns workload obj ModificationModeInstrumentation True)))"

definition revertWorkloadInstrumentation ::
  "instrumenter \<Rightarrow> 'w instrumenter_api \<Rightarrow> NamespaceInstrumentationConfig \<Rightarrow> instrumentableWorkload \<Rightarrow> k8s_object \<Rightarrow>
   ('w, bool outcome) action" where
  "revertWorkloadInstrumentation i api ns workload obj =
     (if ob_Deleting obj then ok False
      else pbind (run_modification api True (workload_revert workload (newWorkloadModifier i ns)) obj)
             (\<lambda>(a, retryErr). safely (postProcessUninstrumentation (at_result a) retryErr)))"

section \<open>Replica sets\<close>

fun delete_pods :: "'w instrumenter_api \<Rightarrow> pod_ref list \<Rightarrow> ('w, unit) action" where
  "delete_pods api [] = State_Monad.return ()"
| "delete_pods api (pod # pods) = do {
     _ \<leftarrow> call (ia_deletePod api pod);
     delete_pods api pods
   }"

definition restartPodsOfReplicaSet :: "'w instrumenter_api \<Rightarrow> k8s_object \<Rightarrow> ('w, unit) action" where
  "restartPodsOfReplicaSet api replicaSet = do {
     answer \<leftarrow> call (ia_pods api (ob_Namespace replicaSet));
     (case answer of
        Inl _ \<Rightarrow> State_Monad.return ()
      | Inr pods \<Rightarrow>
          delete_pods api
            (filter (\<lambda>pod. list_ex (\<lambda>o'. ow_Kind o' = ''ReplicaSet'' \<and> ow_Name o' = ob_Name replicaSet \<and> ow_UID o' = ob_UID replicaSet)
                       (pr_Owners pod)) pods))
   }"

section \<open>Jobs\<close>

definition job_update_attempt ::
  "'w instrumenter_api \<Rightarrow> (Workload \<Rightarrow> ModificationResult \<times> Workload) \<Rightarrow> 'w attempt_step" where
  "job_update_attempt api modify a = do {
     answer \<leftarrow> fetch api (at_object a);
     (case answer of
        Inl e \<Rightarrow> ok (a, Some (Plain (Api e)))
      | Inr job \<Rightarrow>
          (let (result, w) = modify (ob_Workload job)
           in if mr_HasBeenModified result then update api (a\<lparr>at_result := result, at_object := job\<lparr>ob_Workload := w\<rparr>\<rparr>)
              else ok (a\<lparr>at_result := result, at_object := job\<lparr>ob_Workload := w\<rparr>\<rparr>, None)))
   }"

text \<open>The required action for a job, whether its labels are modified, and whether this counts as a failure.\<close>

definition job_action :: "bool \<Rightarrow> ObjectMeta \<Rightarrow> (ModificationMode \<times> bool \<times> bool) option" where
  "job_action hasOptedOut meta =
     (if hasOptedOut \<and> InstrumentationAttemptHasFailed meta then Some (ModificationModeUninstrumentation, True, False)
      else if hasOptedOut \<and> HasBeenInstrumentedSuccessfully meta then Some (ModificationModeUninstrumentation, False, True)
      else if hasOptedOut then None
      else if HasBeenInstrumentedSuccessfully meta \<or> InstrumentationAttemptHasFailed meta then None
      else Some (ModificationModeInstrumentation, True, True))"

definition handleJobOnInstrumentation ::
  "instrumenter \<Rightarrow> 'w instrumenter_api \<Rightarrow> NamespaceInstrumentationConfig \<Rightarrow> k8s_object \<Rightarrow> ('w, unit outcome) action" where
  "handleJobOnInstrumentation i api ns job =
     (if ob_Deleting job then ok ()
      else do {
        answer \<leftarrow> ReadControllingCronJob api (ob_Namespace job) job;
        (case answer of
           Inl e \<Rightarrow> ok ()
         | Inr controllingCronJob \<Rightarrow>
             pbind (State_Monad.return (JobHasOptedOutOfInstrumentation (it_labelsParse i) (ob_Meta job) controllingCronJob
                      (nic_InstrumentationLabelSelector ns))) (\<lambda>hasOptedOut.
               case job_action hasOptedOut (ob_Meta job) of
                 None \<Rightarrow> ok ()
               | Some (requiredAction, modifyLabels, createImmutableWorkloadsError) \<Rightarrow>
                   (let postProcess = (case requiredAction of
                          ModificationModeInstrumentation \<Rightarrow> postProcessInstrumentation
                        | ModificationModeUninstrumentation \<Rightarrow> postProcessUninstrumentation)
                    in pbind (Retry api instrumentationRetryBackoff_Steps
                          (if \<not> modifyLabels then (\<lambda>a. ok (a, None))
                           else job_update_attempt api (case requiredAction of
                             ModificationModeInstrumentation \<Rightarrow> AddLabelsToImmutableJob (newWorkloadModifier i ns)
                           | ModificationModeUninstrumentation \<Rightarrow> RemoveLabelsFromImmutableJob))
                          \<lparr>at_object = job, at_result = NewNotModifiedReasonUnknownResult, at_flag = False\<rparr>)
                        (\<lambda>(a, retryErr).
                          if retryErr \<noteq> None
                          then safely (do { _ \<leftarrow> postProcess NewNotModifiedDueToErrorResult retryErr; State_Monad.return () })
                          else if createImmutableWorkloadsError
                          then safely (do {
                            _ \<leftarrow> postProcess NewNotModifiedImmutableWorkloadCannotBeInstrumentedResult
                                   (Some (ImmutableWorkloadError requiredAction));
                            State_Monad.return () })
                          else safely (do { _ \<leftarrow> postProcess (at_result a) None; State_Monad.return () }))))
           )
      })"

text \<open>The flag of an attempt is \<open>createImmutableWorkloadsError\<close>.\<close>

definition job_revert_attempt :: "'w instrumenter_api \<Rightarrow> 'w attempt_step" where
  "job_revert_attempt api a = do {
     answer \<leftarrow> fetch api (at_object a);
     (case answer of
        Inl e \<Rightarrow> ok (a, Some (Plain (Api e)))
      | Inr job \<Rightarrow>
          if HasBeenInstrumentedSuccessfully (ob_Meta job)
          then ok (a\<lparr>at_object := job, at_flag := True, at_result := NewNotModifiedImmutableWorkloadCannotBeRevertedResult\<rparr>, None)
          else if InstrumentationAttemptHasFailed (ob_Meta job)
          then (let (result, w) = RemoveLabelsFromImmutableJob (ob_Workload job)
                in update api (a\<lparr>at_result := result, at_object := job\<lparr>ob_Workload := w\<rparr>\<rparr>))
          else ok (a\<lparr>at_object := job, at_result := NewNotModifiedNoChangesResult\<rparr>, None))
   }"

definition handleJobOnUninstrumentation :: "'w instrumenter_api \<Rightarrow> k8s_object \<Rightarrow> ('w, unit outcome) action" where
  "handleJobOnUninstrumentation api job =
     (if ob_Deleting job then ok ()
      else pbind (Retry api instrumentationRetryBackoff_Steps (job_revert_attempt api)
             \<lparr>at_object = job, at_result = NewNotModifiedReasonUnknownResult, at_flag = False\<rparr>)
        (\<lambda>(a, retryErr).
          if retryErr \<noteq> None
          then safely (do { _ \<leftarrow> postProcessUninstrumentation NewNotModifiedDueToErrorResult retryErr; State_Monad.return () })
          else if at_flag a
          then safely (do {
            _ \<leftarrow> postProcessUninstrumentation NewNotModifiedImmutableWorkloadCannotBeRevertedResult
                   (Some (ImmutableWorkloadError ModificationModeUninstrumentation));
            State_Monad.return () })
          else safely (do { _ \<leftarrow> postProcessUninstrumentation (at_result a) None; State_Monad.return () })))"

section \<open>All workloads of a namespace\<close>

fun for_each :: "(k8s_object \<Rightarrow> ('w, unit outcome) action) \<Rightarrow> k8s_object list \<Rightarrow> ('w, unit outcome) action" where
  "for_each f [] = ok ()"
| "for_each f (obj # objs) = pbind (f obj) (\<lambda>_. for_each f objs)"

text \<open>The pager of client-go: the flag restricts the listing to objects with the label \<open>dash0.com/instrumented\<close>.\<close>

definition eachListItem_of ::
  "'w instrumenter_api \<Rightarrow> string \<Rightarrow> string \<Rightarrow> bool \<Rightarrow> (k8s_object \<Rightarrow> ('w, unit outcome) action) \<Rightarrow>
   ('w, api_error option outcome) action" where
  "eachListItem_of api kind namespace onlyInstrumented f = do {
     (objs, err) \<leftarrow> call (ia_list api kind namespace onlyInstrumented);
     pbind (for_each f objs) (\<lambda>_. ok err)
   }"

definition instrumentCronJob ::
  "instrumenter \<Rightarrow> 'w instrumenter_api \<Rightarrow> NamespaceInstrumentationConfig \<Rightarrow> k8s_object \<Rightarrow> ('w, unit outcome) action" where
  "instrumentCronJob i api ns cronJob =
     pbind (instrumentWorkload i api ns cronJobWorkload cronJob) (\<lambda>_. ok ())"

definition findAndInstrumentCronJobs ::
  "instrumenter \<Rightarrow> 'w instrumenter_api \<Rightarrow> string \<Rightarrow> NamespaceInstrumentationConfig \<Rightarrow> ('w, api_error option outcome) action" where
  "findAndInstrumentCronJobs i api namespace ns = eachListItem_of api ''CronJob'' namespace False (instrumentCronJob i api ns)"

definition instrumentDaemonSet ::
  "instrumenter \<Rightarrow> 'w instrumenter_api \<Rightarrow> NamespaceInstrumentationConfig \<Rightarrow> k8s_object \<Rightarrow> ('w, unit outcome) action" where
  "instrumentDaemonSet i api ns daemonSet =
     pbind (instrumentWorkload i api ns daemonSetWorkload daemonSet) (\<lambda>_. ok ())"

definition findAndInstrumentyDaemonSets ::
  "instrumenter \<Rightarrow> 'w instrumenter_api \<Rightarrow> string \<Rightarrow> NamespaceInstrumentationConfig \<Rightarrow> ('w, api_error option outcome) action" where
  "findAndInstrumentyDaemonSets i api namespace ns = eachListItem_of api ''DaemonSet'' namespace False (instrumentDaemonSet i api ns)"

definition instrumentDeployment ::
  "instrumenter \<Rightarrow> 'w instrumenter_api \<Rightarrow> NamespaceInstrumentationConfig \<Rightarrow> k8s_object \<Rightarrow> ('w, unit outcome) action" where
  "instrumentDeployment i api ns deployment =
     pbind (instrumentWorkload i api ns deploymentWorkload deployment) (\<lambda>_. ok ())"

definition findAndInstrumentDeployments ::
  "instrumenter \<Rightarrow> 'w instrumenter_api \<Rightarrow> string \<Rightarrow> NamespaceInstrumentationConfig \<Rightarrow> ('w, api_error option outcome) action" where
  "findAndInstrumentDeployments i api namespace ns = eachListItem_of api ''Deployment'' namespace False (instrumentDeployment i api ns)"

definition instrumentStatefulSet ::
  "instrumenter \<Rightarrow> 'w instrumenter_api \<Rightarrow> NamespaceInstrumentationConfig \<Rightarrow> k8s_object \<Rightarrow> ('w, unit outcome) action" where
  "instrumentStatefulSet i api ns statefulSet =
     pbind (instrumentWorkload i api ns statefulSetWorkload statefulSet) (\<lambda>_. ok ())"

definition findAndInstrumentStatefulSets ::
  "instrumenter \<Rightarrow> 'w instrumenter_api \<Rightarrow> string \<Rightarrow> NamespaceInstrumentationConfig \<Rightarrow> ('w, api_error option outcome) action" where
  "findAndInstrumentStatefulSets i api namespace ns = eachListItem_of api ''StatefulSet'' namespace False (instrumentStatefulSet i api ns)"

definition instrumentReplicaSet ::
  "instrumenter \<Rightarrow> 'w instrumenter_api \<Rightarrow> NamespaceInstrumentationConfig \<Rightarrow> k8s_object \<Rightarrow> ('w, unit outcome) action" where
  "instrumentReplicaSet i api ns replicaSet =
     pbind (instrumentWorkload i api ns replicaSetWorkload replicaSet) (\<lambda>hasBeenUpdated.
       if hasBeenUpdated then safely (restartPodsOfReplicaSet api replicaSet) else ok ())"

definition findAndInstrumentReplicaSets ::
  "instrumenter \<Rightarrow> 'w instrumenter_api \<Rightarrow> string \<Rightarrow> NamespaceInstrumentationConfig \<Rightarrow> ('w, api_error option outcome) action" where
  "findAndInstrumentReplicaSets i api namespace ns = eachListItem_of api ''ReplicaSet'' namespace False (instrumentReplicaSet i api ns)"

definition findAndAddLabelsToImmutableJobsOnInstrumentation ::
  "instrumenter \<Rightarrow> 'w instrumenter_api \<Rightarrow> string \<Rightarrow> NamespaceInstrumentationConfig \<Rightarrow> ('w, api_error option outcome) action" where
  "findAndAddLabelsToImmutableJobsOnInstrumentation i api namespace ns = eachListItem_of api ''Job'' namespace False (handleJobOnInstrumentation i api ns)"

text \<open>The errors of the six listings are joined; each is run whether or not the ones before it have failed.\<close>

fun join_errors :: "('w, api_error option outcome) action list \<Rightarrow> ('w, api_error list outcome) action" where
  "join_errors [] = ok []"
| "join_errors (f # fs) =
     pbind f (\<lambda>err. pbind (join_errors fs) (\<lambda>errs. ok (case err of None \<Rightarrow> errs | Some e \<Rightarrow> e # errs)))"

definition instrumentAllWorkloads :: "instrumenter \<Rightarrow> 'w instrumenter_api \<Rightarrow> monitoring \<Rightarrow> ('w, api_error list outcome) action" where
  "instrumentAllWorkloads i api resource =
     (let namespace = mo_Namespace resource; ns = GetNamespaceInstrumentationConfig resource
      in join_errors
           [findAndInstrumentCronJobs i api namespace ns, findAndInstrumentyDaemonSets i api namespace ns,
            findAndInstrumentDeployments i api namespace ns,
            findAndAddLabelsToImmutableJobsOnInstrumentation i api namespace ns,
            findAndInstrumentReplicaSets i api namespace ns, findAndInstrumentStatefulSets i api namespace ns])"

definition CheckSettingsAndInstrumentExistingWorkloads ::
  "instrumenter \<Rightarrow> 'w instrumenter_api \<Rightarrow> monitoring \<Rightarrow> ('w, api_error list outcome) action" where
  "CheckSettingsAndInstrumentExistingWorkloads i api resource =
     (if ReadInstrumentWorkloadsMode resource = InstrumentWorkloadsModeNone then ok []
      else if ReadInstrumentWorkloadsMode resource = InstrumentWorkloadsModeCreatedAndUpdated then ok []
      else instrumentAllWorkloads i api resource)"

definition uninstrumentCronJob ::
  "instrumenter \<Rightarrow> 'w instrumenter_api \<Rightarrow> NamespaceInstrumentationConfig \<Rightarrow> k8s_object \<Rightarrow> ('w, unit outcome) action" where
  "uninstrumentCronJob i api ns cronJob =
     pbind (revertWorkloadInstrumentation i api ns cronJobWorkload cronJob) (\<lambda>_. ok ())"

definition findAndUninstrumentCronJobs ::
  "instrumenter \<Rightarrow> 'w instrumenter_api \<Rightarrow> string \<Rightarrow> NamespaceInstrumentationConfig \<Rightarrow> ('w, api_error option outcome) action" where
  "findAndUninstrumentCronJobs i api namespace ns = eachListItem_of api ''CronJob'' namespace True (uninstrumentCronJob i api ns)"

definition uninstrumentDaemonSet ::
  "instrumenter \<Rightarrow> 'w instrumenter_api \<Rightarrow> NamespaceInstrumentationConfig \<Rightarrow> k8s_object \<Rightarrow> ('w, unit outcome) action" where
  "uninstrumentDaemonSet i api ns daemonSet =
     pbind (revertWorkloadInstrumentation i api ns daemonSetWorkload daemonSet) (\<lambda>_. ok ())"

definition findAndUninstrumentDaemonSets ::
  "instrumenter \<Rightarrow> 'w instrumenter_api \<Rightarrow> string \<Rightarrow> NamespaceInstrumentationConfig \<Rightarrow> ('w, api_error option outcome) action" where
  "findAndUninstrumentDaemonSets i api namespace ns = eachListItem_of api ''DaemonSet'' namespace True (uninstrumentDaemonSet i api ns)"

definition uninstrumentDeployment ::
  "instrumenter \<Rightarrow> 'w instrumenter_api \<Rightarrow> NamespaceInstrumentationConfig \<Rightarrow> k8s_object \<Rightarrow> ('w, unit outcome) action" where
  "uninstrumentDeployment i api ns deployment =
     pbind (revertWorkloadInstrumentation i api ns deploymentWorkload deployment) (\<lambda>_. ok ())"

definition findAndUninstrumentDeployments ::
  "instrumenter \<Rightarrow> 'w instrumenter_api \<Rightarrow> string \<Rightarrow> NamespaceInstrumentationConfig \<Rightarrow> ('w, api_error option outcome) action" where
  "findAndUninstrumentDeployments i api namespace ns = eachListItem_of api ''Deployment'' namespace True (uninstrumentDeployment i api ns)"

definition uninstrumentStatefulSet ::
  "instrumenter \<Rightarrow> 'w instrumenter_api \<Rightarrow> NamespaceInstrumentationConfig \<Rightarrow> k8s_object \<Rightarrow> ('w, unit outcome) action" where
  "uninstrumentStatefulSet i api ns statefulSet =
     pbind (revertWorkloadInstrumentation i api ns statefulSetWorkload statefulSet) (\<lambda>_. ok ())"

definition findAndUninstrumentStatefulSets ::
  "instrumenter \<Rightarrow> 'w instrumenter_api \<Rightarrow> string \<Rightarrow> NamespaceInstrumentationConfig \<Rightarrow> ('w, api_error option outcome) action" where
  "findAndUninstrumentStatefulSets i api namespace ns = eachListItem_of api ''StatefulSet'' namespace True (uninstrumentStatefulSet i api ns)"

definition uninstrumentReplicaSet ::
  "instrumenter \<Rightarrow> 'w instrumenter_api \<Rightarrow> NamespaceInstrumentationConfig \<Rightarrow> k8s_object \<Rightarrow> ('w, unit outcome) action" where
  "uninstrumentReplicaSet i api ns replicaSet =
     pbind (revertWorkloadInstrumentation i api ns replicaSetWorkload replicaSet) (\<lambda>hasBeenUpdated.
       if hasBeenUpdated then safely (restartPodsOfReplicaSet api replicaSet) else ok ())"

definition findAndUninstrumentReplicaSets ::
  "instrumenter \<Rightarrow> 'w instrumenter_api \<Rightarrow> string \<Rightarrow> NamespaceInstrumentationConfig \<Rightarrow> ('w, api_error option outcome) action" where
  "findAndUninstrumentReplicaSets i api namespace ns = eachListItem_of api ''ReplicaSet'' namespace True (uninstrumentReplicaSet i api ns)"

definition findAndHandleJobOnUninstrumentation ::
  "instrumenter \<Rightarrow> 'w instrumenter_api \<Rightarrow> string \<Rightarrow> NamespaceInstrumentationConfig \<Rightarrow> ('w, api_error option outcome) action" where
  "findAndHandleJobOnUninstrumentation i api namespace ns = eachListItem_of api ''Job'' namespace True (handleJobOnUninstrumentation api)"

definition uninstrumentAllWorkloads :: "instrumenter \<Rightarrow> 'w instrumenter_api \<Rightarrow> monitoring \<Rightarrow> ('w, api_error list outcome) action" where
  "uninstrumentAllWorkloads i api resource =
     (let namespace = mo_Namespace resource; ns = GetNamespaceInstrumentationConfig resource
      in join_errors
           [findAndUninstrumentCronJobs i api namespace ns, findAndUninstrumentDaemonSets i api namespace ns,
            findAndUninstrumentDeployments i api namespace ns, findAndHandleJobOnUninstrumentation i api namespace ns,
            findAndUninstrumentReplicaSets i api namespace ns, findAndUninstrumentStatefulSets i api namespace ns])"

definition UninstrumentWorkloadsIfAvailable ::
  "instrumenter \<Rightarrow> 'w instrumenter_api \<Rightarrow> monitoring \<Rightarrow> ('w, api_error list outcome) action" where
  "UninstrumentWorkloadsIfAvailable i api resource =
     (if IsAvailable resource then uninstrumentAllWorkloads i api resource else ok [])"

end
