(* ===== verification/WebhookProps.thy ===== *)
theory WebhookProps
  imports InstrumentationWebhook WorkloadProps
begin

text \<open>
  What the webhook answers: it never rejects a request, and a patch touches only what belongs to the operator.
\<close>

definition foreign_pod :: "Pod \<Rightarrow> Pod" where
  "foreign_pod pod = \<lparr>p_Meta = foreign_meta (p_Meta pod), p_Spec = foreign_spec (p_Spec pod)\<rparr>"

lemma ModifyPod_foreign: "ModifyPod m pod = Inr (r, pod') \<Longrightarrow> foreign_pod pod' = foreign_pod pod"
  by (auto simp: ModifyPod_def foreign_pod_def foreign_labels dest!: foreign_modifyPodSpec
      split: option.splits sum.splits if_splits)

lemma Modify_workload_foreign:
  "ModifyCronJob m w = Inr (r, w') \<Longrightarrow> foreign w' = foreign w"
  "ModifyDaemonSet m w = Inr (r, w') \<Longrightarrow> foreign w' = foreign w"
  "ModifyDeployment m w = Inr (r, w') \<Longrightarrow> foreign w' = foreign w"
  "ModifyJob m w = Inr (r, w') \<Longrightarrow> foreign w' = foreign w"
  "ModifyReplicaSet m w = Inr (r, w') \<Longrightarrow> foreign w' = foreign w"
  "ModifyStatefulSet m w = Inr (r, w') \<Longrightarrow> foreign w' = foreign w"
  using modify_or_revert_foreign[of m w r w']
  by (auto simp: ModifyCronJob_def ModifyDaemonSet_def ModifyDeployment_def ModifyJob_def ModifyReplicaSet_def
      ModifyStatefulSet_def split: if_splits)

lemma Revert_workload_foreign:
  "RevertCronJob m w = Inr (r, w') \<Longrightarrow> foreign w' = foreign w"
  "RevertDaemonSet m w = Inr (r, w') \<Longrightarrow> foreign w' = foreign w"
  "RevertDeployment m w = Inr (r, w') \<Longrightarrow> foreign w' = foreign w"
  "RevertReplicaSet m w = Inr (r, w') \<Longrightarrow> foreign w' = foreign w"
  "RevertStatefulSet m w = Inr (r, w') \<Longrightarrow> foreign w' = foreign w"
  using modify_or_revert_foreign[of m w r w']
  by (auto simp: RevertCronJob_def RevertDaemonSet_def RevertDeployment_def RevertReplicaSet_def
      RevertStatefulSet_def split: if_splits)

text \<open>Neither of them dereferences a nil pointer.\<close>

lemma modify_no_nil:
  "modifyPodSpec m wm ps pm \<noteq> Inl NilPointerDereference"
  "revertPodSpec m ps pm \<noteq> Inl NilPointerDereference"
  by (auto simp: modifyPodSpec_def revertPodSpec_def Let_def case_prod_unfold removeSafeToEvictLocalVolumesAnnotation_def
      split: sum.splits option.splits if_splits)

lemma workloads_no_nil:
  "modifyResource m w \<noteq> Inl NilPointerDereference" "revertResource m w \<noteq> Inl NilPointerDereference"
  "ModifyPod m pod \<noteq> Inl NilPointerDereference" "shouldBeInstrumented labelsParse meta selector \<noteq> Inl NilPointerDereference"
  using modify_no_nil
  by (auto simp: modifyResource_def revertResource_def ModifyPod_def shouldBeInstrumented_def
      split: option.splits sum.splits if_splits)

lemma Modify_no_nil:
  "ModifyCronJob m w \<noteq> Inl NilPointerDereference" "ModifyDaemonSet m w \<noteq> Inl NilPointerDereference"
  "ModifyDeployment m w \<noteq> Inl NilPointerDereference" "ModifyJob m w \<noteq> Inl NilPointerDereference"
  "ModifyReplicaSet m w \<noteq> Inl NilPointerDereference" "ModifyStatefulSet m w \<noteq> Inl NilPointerDereference"
  "RevertCronJob m w \<noteq> Inl NilPointerDereference" "RevertDaemonSet m w \<noteq> Inl NilPointerDereference"
  "RevertDeployment m w \<noteq> Inl NilPointerDereference" "RevertReplicaSet m w \<noteq> Inl NilPointerDereference"
  "RevertStatefulSet m w \<noteq> Inl NilPointerDereference"
  by (simp_all add: ModifyCronJob_def ModifyDaemonSet_def ModifyDeployment_def ModifyJob_def ModifyReplicaSet_def
      ModifyStatefulSet_def RevertCronJob_def RevertDaemonSet_def RevertDeployment_def RevertReplicaSet_def
      RevertStatefulSet_def workloads_no_nil)

lemma opt_out_no_nil:
  "HasOptedOutOfInstrumentationAndIsUninstrumented labelsParse meta selector \<noteq> Inl NilPointerDereference"
  "WasInstrumentedButHasOptedOutNow labelsParse meta selector \<noteq> Inl NilPointerDereference"
  "JobHasOptedOutOfInstrumentation labelsParse meta cronJob selector \<noteq> Inl NilPointerDereference"
  using workloads_no_nil(4)
  by (auto simp: HasOptedOutOfInstrumentationAndIsUninstrumented_def WasInstrumentedButHasOptedOutNow_def
      JobHasOptedOutOfInstrumentation_def hasOptedOutOfInstrumentation_def Let_def map_sum_def id_def split: sum.splits)

lemmas no_nil = workloads_no_nil Modify_no_nil opt_out_no_nil

text \<open>
  The patches of the webhook: the ignore-once label taken away, or a workload or a pod with a change
  of what belongs to the operator.
\<close>

fun harmless :: "'r codec \<Rightarrow> 'r request \<Rightarrow> 'r response \<Rightarrow> bool" where
  "harmless cd request (Allowed _) \<longleftrightarrow> True"
| "harmless cd request (PatchResponseFromRaw raw current) \<longleftrightarrow>
     raw = rq_Object request \<and>
     ((\<exists>labels. cd_labels cd raw = Some labels \<and> map_of labels webhookIgnoreOnceLabelKey = Some ''true'' \<and>
         cd_setLabels cd raw (AList.delete webhookIgnoreOnceLabelKey labels) = Some current) \<or>
      (\<exists>obj w. rq_Kind request \<noteq> ''Pod'' \<and> cd_decode cd (rq_Kind request) raw = Some obj \<and>
         cd_encode cd (obj\<lparr>ob_Workload := w\<rparr>) = Some current \<and> foreign w = foreign (ob_Workload obj)) \<or>
      (\<exists>pod rest pod'. rq_Kind request = ''Pod'' \<and> cd_decodePod cd raw = Some (pod, rest) \<and>
         cd_encodePod cd (pod', rest) = Some current \<and> foreign_pod pod' = foreign_pod pod))"
| "harmless cd request (Denied _) \<longleftrightarrow> False"
| "harmless cd request (Errored _) \<longleftrightarrow> False"

abbreviation answers :: "'r codec \<Rightarrow> 'r request \<Rightarrow> 'r response outcome \<Rightarrow> 's \<Rightarrow> bool" where
  "answers cd request answer s \<equiv> (case answer of Inl p \<Rightarrow> p \<noteq> NilPointerDereference | Inr response \<Rightarrow> harmless cd request response)"

lemma wp_queue [wp_simps]: "wp (queue e) Q (es, w) = Q () (es @ [e], w)"
  by (simp add: queue_def wp_change)

lemma wp_postProcess:
  assumes "\<And>s. Q (Allowed NoChanges) s" and "\<And>s. Q (Allowed CannotBeMarshalled) s" and "\<And>s. Q (Allowed ImmutableWorkload) s"
    and "\<And>current s. marshalled = Some current \<Longrightarrow> Q (PatchResponseFromRaw raw current) s"
  shows "wp (webhook_postProcessInstrumentation raw marshalled result isPod) Q s"
    and "wp (webhook_postProcessUninstrumentation raw marshalled result) Q s"
  using assms
  by (cases s; auto simp: webhook_postProcessInstrumentation_def webhook_postProcessUninstrumentation_def
      HandlePotentiallySuccessfulInstrumentationEvent_def wp_simps split: option.split)+

lemma harmless_patchI:
  "rq_Kind request \<noteq> ''Pod'' \<Longrightarrow> cd_decode cd (rq_Kind request) (rq_Object request) = Some obj \<Longrightarrow>
   cd_encode cd (obj\<lparr>ob_Workload := w\<rparr>) = Some current \<Longrightarrow> foreign w = foreign (ob_Workload obj) \<Longrightarrow>
   harmless cd request (PatchResponseFromRaw (rq_Object request) current)"
  "rq_Kind request = ''Pod'' \<Longrightarrow> cd_decodePod cd (rq_Object request) = Some (pod, rest) \<Longrightarrow>
   cd_encodePod cd (pod', rest) = Some current \<Longrightarrow> foreign_pod pod' = foreign_pod pod \<Longrightarrow>
   harmless cd request (PatchResponseFromRaw (rq_Object request) current)"
  unfolding harmless.simps by blast+

declare harmless.simps(2) [simp del]

lemma answers_postProcess:
  assumes "\<And>current. marshalled = Some current \<Longrightarrow> harmless cd request (PatchResponseFromRaw raw current)"
  shows "wp (webhook_postProcessInstrumentation raw marshalled result isPod) (\<lambda>a. answers cd request (Inr a)) s"
    and "wp (webhook_postProcessUninstrumentation raw marshalled result) (\<lambda>a. answers cd request (Inr a)) s"
  by (rule wp_postProcess; simp add: assms)+

lemma handle_mutable_answers:
  assumes "\<And>m w r w'. modify m w = Inr (r, w') \<Longrightarrow> foreign w' = foreign w"
    and "\<And>m w r w'. revert m w = Inr (r, w') \<Longrightarrow> foreign w' = foreign w"
    and "rq_Kind request \<noteq> ''Pod''"
    and "\<And>m w. modify m w \<noteq> Inl NilPointerDereference" "\<And>m w. revert m w \<noteq> Inl NilPointerDereference"
  shows "wp (handle_mutable modify revert h cd request ns) (answers cd request) s"
proof (cases s)
  case (Pair es w)
  show ?thesis
    unfolding Pair handle_mutable_def
    by (auto simp: wp_simps split: option.split sum.split
        intro!: answers_postProcess[simplified] intro: harmless_patchI(1)[OF assms(3)] assms(1,2) dest: no_nil[THEN notE] assms(4,5)[THEN notE])
qed

lemma handleJob_answers:
  assumes "rq_Kind request \<noteq> ''Pod''"
  shows "wp (handleJob h cd api request ns) (answers cd request) s"
proof (cases s)
  case (Pair es w)
  have encoded: "harmless cd request (PatchResponseFromRaw (rq_Object request) current)"
    if "cd_decode cd (rq_Kind request) (rq_Object request) = Some obj" "cd_encode cd obj = Some current" for obj current
    using harmless_patchI(1)[OF assms that(1), of "ob_Workload obj"] that(2) by simp
  have modified: "harmless cd request (PatchResponseFromRaw (rq_Object request) current)"
    if "ModifyJob m (ob_Workload obj) = Inr (r, w')" "cd_decode cd (rq_Kind request) (rq_Object request) = Some obj"
      "cd_encode cd (obj\<lparr>ob_Workload := w'\<rparr>) = Some current" for m obj r w' current
    using harmless_patchI(1)[OF assms that(2,3)] Modify_workload_foreign(4)[OF that(1)] by simp
  show ?thesis
    unfolding Pair handleJob_def ReadControllingCronJob_def
    by (auto simp: wp_simps split: option.split sum.split intro!: wp_call
        intro!: answers_postProcess[simplified]
        dest: encoded modified no_nil[THEN notE])
qed

lemma handlePod_answers:
  assumes "rq_Kind request = ''Pod''"
  shows "wp (handlePod h cd request ns) (answers cd request) s"
proof (cases s)
  case (Pair es w)
  show ?thesis
    unfolding Pair handlePod_def
    by (auto simp: wp_simps split: option.split sum.split
        intro!: answers_postProcess[simplified] intro: harmless_patchI(2)[OF assms] ModifyPod_foreign dest: no_nil[THEN notE])
qed

lemma routeFor_pod:
  assumes "routeFor grp kind version = Some r" and "r \<noteq> FallbackRoute"
  shows "kind = ''Pod'' \<longleftrightarrow> r = PodRoute"
  using assms by (auto simp: routeFor_def routes_def split: if_splits option.splits)

lemma run_route_answers:
  assumes "routeFor (rq_Group request) (rq_Kind request) (rq_Version request) = Some r"
  shows "wp (run_route r h cd api request ns) (answers cd request) s"
proof (cases "r = FallbackRoute")
  case False
  note pod = routeFor_pod[OF assms False]
  show ?thesis
    using pod False
    by (cases r) (simp_all add: handlePod_answers handleJob_answers handleCronJob_def handleDaemonSet_def handleDeployment_def
        handleReplicaSet_def handleStatefulSet_def handle_mutable_answers Modify_workload_foreign Revert_workload_foreign no_nil)
qed (simp add: wp_ok)

lemma consume_harmless: "consumeIgnoreOnceLabel cd request = Some response \<Longrightarrow> harmless cd request response"
  by (auto simp: consumeIgnoreOnceLabel_def RemoveWebhookIgnoreOnceLabel_def harmless.simps(2) split: option.splits if_splits)

lemma Handle_answers:
  "wp (Handle h cd api request) (\<lambda>answer _. case answer of
       Inl p \<Rightarrow> p = NilPointerDereference \<longrightarrow> routeFor (rq_Group request) (rq_Kind request) (rq_Version request) = None
     | Inr response \<Rightarrow> harmless cd request response) s"
proof (cases s)
  case (Pair es w)
  have route: "wp (run_route r h cd api request ns) (\<lambda>answer _. case answer of
       Inl p \<Rightarrow> p = NilPointerDereference \<longrightarrow> routeFor (rq_Group request) (rq_Kind request) (rq_Version request) = None
     | Inr response \<Rightarrow> harmless cd request response) s'"
    if "routeFor (rq_Group request) (rq_Kind request) (rq_Version request) = Some r" for r ns s'
    by (rule wp_mono[OF run_route_answers[OF that]]) (auto split: sum.splits)
  show ?thesis
    unfolding Pair Handle_def
    by (auto simp: wp_simps split: option.split sum.split list.split intro!: wp_call
        intro: consume_harmless route)
qed

section \<open>A sample request\<close>

text \<open>Objects stand for their own encoding, and a request for the sample workload in a monitored namespace.\<close>

definition sample_codec :: "k8s_object codec" where
  "sample_codec =
     \<lparr>cd_labels = (\<lambda>obj. Some (om_Labels (ob_Meta obj))),
      cd_setLabels = (\<lambda>obj labels. Some (on_meta (\<lambda>m. m\<lparr>om_Labels := labels\<rparr>) obj)),
      cd_decode = (\<lambda>_. Some), cd_encode = Some, cd_decodePod = (\<lambda>_. None), cd_encodePod = (\<lambda>_. None)\<rparr>"

definition sample_parser :: selector_parser where
  "sample_parser _ = Some (\<lambda>labels. labels ''dash0.com/enable'' \<noteq> Some ''false'')"

definition sample_handler :: webhook_handler where
  "sample_handler = \<lparr>wh_config = sample_cluster, wh_labelsParse = sample_parser\<rparr>"

definition sample_spec :: monitoring_spec where
  "sample_spec =
     \<lparr>sp_Export = None, sp_Exports = [], sp_Mode = ''all'', sp_LabelSelector = ''dash0.com/enable!=false'',
      sp_Propagators = Some ''tracecontext'', sp_CaptureSqlQueryParameters = None, sp_LogCollectionEnabled = None,
      sp_EventCollectionEnabled = None, sp_KubernetesObjectCollectionEnabled = None, sp_PrometheusScrapingEnabled = None,
      sp_Filter = None, sp_Transform = None, sp_NormalizedTransformSpec = None,
      sp_SynchronizePersesDashboards = None, sp_SynchronizePrometheusRules = None\<rparr>"

definition sample_monitoring :: monitoring where
  "sample_monitoring =
     \<lparr>mo_Namespace = ''shop'', mo_Name = ''monitoring'', mo_UID = ''m1'', mo_CreationTimestamp = 0, mo_Deleting = False,
      mo_Finalizers = [], mo_Labels = [], mo_Annotations = [], mo_Spec = sample_spec,
      mo_Conditions = [(''Available'', ''True'')], mo_PreviousMode = [], mo_PreviousLabelSelector = [],
      mo_PreviousPropagators = None, mo_PreviousCaptureSqlQueryParameters = None, mo_PreviousLogCollectionEnabled = None\<rparr>"

definition sample_workload_api :: "unit workload_api" where
  "sample_workload_api = \<lparr>wa_monitoring = (\<lambda>_ w. (Inr [sample_monitoring], w)), wa_cronJob = (\<lambda>_ _ w. (Inl NotFound, w))\<rparr>"

definition sample_object :: k8s_object where
  "sample_object = \<lparr>ob_Kind = ''Deployment'', ob_Namespace = ''shop'', ob_Name = ''web'', ob_UID = ''u1'', ob_Deleting = False,
     ob_Controller = None, ob_Workload = sample_workload, ob_Rest = []\<rparr>"

definition sample_request :: "k8s_object request" where
  "sample_request = \<lparr>rq_Group = ''apps'', rq_Version = ''v1'', rq_Kind = ''Deployment'', rq_Namespace = ''shop'',
     rq_Object = sample_object\<rparr>"

section \<open>Properties\<close>

text \<open>
  C8: The webhook never rejects a request, whatever the API, the decoders and the label selectors do: it either lets the
  object pass or answers with a patch of the object it received. The patch takes away the ignore-once label and nothing
  else, or it is the encoding of the decoded workload or pod with a change only of what belongs to the operator. If it
  dereferences a nil pointer instead, then there is no route for the group and kind of the request.
\<close>

theorem webhook_answers_harmless:
  "case fst (run_state (Handle h cd api request) s) of
     Inl p \<Rightarrow> p = NilPointerDereference \<longrightarrow> routeFor (rq_Group request) (rq_Kind request) (rq_Version request) = None
   | Inr response \<Rightarrow> harmless cd request response"
  using Handle_answers[of h cd api request s] by (simp add: wp_def case_prod_unfold)

theorem webhook_answers_harmless_witness:
  "\<exists>raw current. fst (run_state (Handle sample_handler sample_codec sample_workload_api sample_request) ([], ())) =
       Inr (PatchResponseFromRaw raw current) \<and> harmless sample_codec sample_request (PatchResponseFromRaw raw current)"
proof -
  have "case fst (run_state (Handle sample_handler sample_codec sample_workload_api sample_request) ([], ())) of
      Inr (PatchResponseFromRaw _ _) \<Rightarrow> True | _ \<Rightarrow> False"
    by code_simp
  with webhook_answers_harmless[where h = sample_handler and cd = sample_codec and api = sample_workload_api and request = sample_request and s = "([], ())"]
  show ?thesis by (auto split: sum.splits response.splits)
qed

text \<open>
  A request for a kind without a route panics instead of reaching the fallback route, once the namespace is monitored.
\<close>

lemma Handle_unrouted:
  assumes "routeFor (rq_Group request) (rq_Kind request) (rq_Version request) = None"
    and "cd_labels cd (rq_Object request) = None" and "wa_monitoring api (rq_Namespace request) w = (Inr (resource # resources), w')"
    and "IsAvailable resource" and "\<not> IsMarkedForDeletion resource"
    and "ReadInstrumentWorkloadsMode resource \<noteq> InstrumentWorkloadsModeNone"
  shows "run_state (Handle h cd api request) (es, w) = (Inl NilPointerDereference, (es, w'))"
  using assms by (simp add: Handle_def consumeIgnoreOnceLabel_def call_def)

end
