(* ===== verification/InstrumenterProps.thy ===== *)
theory InstrumenterProps
  imports Instrumenter WebhookProps
begin

text \<open>
  The controller and the webhook together: instrumenting existing workloads converges, and neither of them touches
  what does not belong to the operator.
\<close>

section \<open>Retrying\<close>

fun attempts ::
  "(go_panic \<Rightarrow> 's \<Rightarrow> bool) \<Rightarrow> (attempt \<Rightarrow> wrapped_error option \<Rightarrow> 's \<Rightarrow> bool) \<Rightarrow>
   (attempt \<times> wrapped_error option) outcome \<Rightarrow> 's \<Rightarrow> bool" where
  "attempts F Q (Inl p) s = F p s"
| "attempts F Q (Inr (a, err)) s = Q a err s"

lemma attempts_mono:
  assumes "wp f (attempts F Q) s" and "\<And>a err s'. Q a err s' \<Longrightarrow> Q' a err s'"
  shows "wp f (attempts F Q') s"
proof (rule wp_mono[OF assms(1)])
  fix r s'
  assume "attempts F Q r s'"
  then show "attempts F Q' r s'" by (cases r rule: sum.exhaust) (use assms(2) in auto)
qed

text \<open>The rule for a retried operation: the invariant holds before every attempt.\<close>

lemma wp_onError:
  assumes contract: "on_error_contract api" and "0 < n" and "P a s"
    and step: "\<And>a s. P a s \<Longrightarrow>
      wp (operation a) (attempts F (\<lambda>a' err s'. Q a' err s' \<and> (err \<noteq> None \<longrightarrow> P a' s'))) s"
  shows "wp (ia_onError api n retriable operation a) (attempts F Q) s"
  using assms(2,3)
proof (induction n arbitrary: a s)
  case (Suc n)
  have unfold: "ia_onError api (Suc n) retriable operation a =
      pbind (operation a) (\<lambda>(a', err).
        case err of
          None \<Rightarrow> ok (a', None)
        | Some e \<Rightarrow> if retriable e \<and> 0 < n then ia_onError api n retriable operation a' else ok (a', Some e))"
    using contract by (simp add: on_error_contract_def)
  have again: "wp (case err of
        None \<Rightarrow> ok (a', None)
      | Some e \<Rightarrow> if retriable e \<and> 0 < n then ia_onError api n retriable operation a' else ok (a', Some e)) (attempts F Q) s'"
    if "Q a' err s'" and "err \<noteq> None \<longrightarrow> P a' s'" for a' err s'
    using that Suc.IH[of a' s'] by (cases err) (simp_all add: wp_simps)
  show ?case
    unfolding unfold wp_pbind
  proof (rule wp_mono[OF step[OF Suc.prems(2)]])
    fix r s'
    assume *: "attempts F (\<lambda>a' err s'. Q a' err s' \<and> (err \<noteq> None \<longrightarrow> P a' s')) r s'"
    show "(case r of Inl p \<Rightarrow> attempts F Q (Inl p) | Inr x \<Rightarrow> wp (case x of (a', err) \<Rightarrow> case err of
          None \<Rightarrow> ok (a', None)
        | Some e \<Rightarrow> if retriable e \<and> 0 < n then ia_onError api n retriable operation a' else ok (a', Some e)) (attempts F Q)) s'"
    proof (cases r)
      case (Inr x)
      obtain a' err where "x = (a', err)" by fastforce
      with Inr * again[of a' err s'] show ?thesis by simp
    qed (use * in simp)
  qed
qed simp

lemma wp_Retry:
  assumes "on_error_contract api" and "P a s"
    and "\<And>a s. P a s \<Longrightarrow>
      wp (operation a) (attempts F (\<lambda>a' err s'. Q a' err s' \<and> (err \<noteq> None \<longrightarrow> P a' s'))) s"
  shows "wp (Retry api steps operation a) (attempts F Q) s"
  unfolding Retry_def Let_def by (rule wp_onError[where P = P]) (use assms in auto)

section \<open>The API server\<close>

type_synonym object_key = "string \<times> string \<times> string"

definition key_of :: "k8s_object \<Rightarrow> object_key" where
  "key_of obj = (ob_Kind obj, ob_Namespace obj, ob_Name obj)"

text \<open>
  An API server with a single client: the store holds workloads; reading gives the stored object or fails, an update that
  succeeds stores the object as admitted, and one that fails may or may not have been carried out. The other calls do not
  change the stored workloads.
\<close>

definition store_laws :: "'w instrumenter_api \<Rightarrow> ('w \<Rightarrow> object_key \<Rightarrow> k8s_object option) \<Rightarrow> (k8s_object \<Rightarrow> k8s_object) \<Rightarrow> bool" where
  "store_laws api stored admit \<longleftrightarrow>
     (\<forall>w k obj. stored w k = Some obj \<longrightarrow> key_of obj = k \<and> ob_Kind obj \<noteq> ''Pod'') \<and>
     (\<forall>kind namespace name w r w'. ia_get api kind namespace name w = (r, w') \<longrightarrow>
        stored w' = stored w \<and> (\<forall>obj. r = Inr obj \<longrightarrow> stored w (kind, namespace, name) = Some obj)) \<and>
     (\<forall>obj w r w'. ia_update api obj w = (r, w') \<longrightarrow>
        (case r of
           Inl _ \<Rightarrow> stored w' = stored w \<or> stored w' = (stored w)(key_of obj \<mapsto> admit obj)
         | Inr obj' \<Rightarrow> obj' = admit obj \<and> stored w' = (stored w)(key_of obj \<mapsto> admit obj)))"

definition other_calls_keep :: "'w instrumenter_api \<Rightarrow> ('w \<Rightarrow> object_key \<Rightarrow> k8s_object option) \<Rightarrow> bool" where
  "other_calls_keep api stored \<longleftrightarrow>
     (\<forall>namespace name w. stored (snd (wa_cronJob api namespace name w)) = stored w) \<and>
     (\<forall>kind namespace b w. stored (snd (ia_list api kind namespace b w)) = stored w) \<and>
     (\<forall>namespace w. stored (snd (ia_pods api namespace w)) = stored w) \<and>
     (\<forall>pod w. stored (snd (ia_deletePod api pod w)) = stored w)"

text \<open>No call fails: stored objects can be read and updated.\<close>

definition reliable :: "'w instrumenter_api \<Rightarrow> ('w \<Rightarrow> object_key \<Rightarrow> k8s_object option) \<Rightarrow> bool" where
  "reliable api stored \<longleftrightarrow>
     (\<forall>kind namespace name w. stored w (kind, namespace, name) \<noteq> None \<longrightarrow> \<not> isl (fst (ia_get api kind namespace name w))) \<and>
     (\<forall>obj w. stored w (key_of obj) \<noteq> None \<longrightarrow> \<not> isl (fst (ia_update api obj w)))"

lemma stored_workload:
  "store_laws api stored admit \<Longrightarrow> stored w k = Some obj \<Longrightarrow> key_of obj = k \<and> ob_Kind obj \<noteq> ''Pod''"
  unfolding store_laws_def by (elim conjE allE) (erule mp)

lemma wp_fetch:
  assumes "store_laws api stored admit"
    and failed: "\<And>e w'. stored w' = stored w \<Longrightarrow> (stored w (key_of obj) \<noteq> None \<longrightarrow> \<not> reliable api stored) \<Longrightarrow> Q (Inl e) (es, w')"
    and read: "\<And>obj' w'. stored w' = stored w \<Longrightarrow> stored w (key_of obj) = Some obj' \<Longrightarrow> Q (Inr obj') (es, w')"
  shows "wp (fetch api obj) Q (es, w)"
proof -
  obtain r w' where get: "ia_get api (ob_Kind obj) (ob_Namespace obj) (ob_Name obj) w = (r, w')"
    by fastforce
  have laws: "stored w' = stored w \<and> (\<forall>obj'. r = Inr obj' \<longrightarrow> stored w (key_of obj) = Some obj')"
    using assms(1) get unfolding store_laws_def key_of_def by blast
  have "reliable api stored \<longrightarrow> stored w (ob_Kind obj, ob_Namespace obj, ob_Name obj) \<noteq> None \<longrightarrow>
      \<not> isl (fst (ia_get api (ob_Kind obj) (ob_Namespace obj) (ob_Name obj) w))"
    unfolding reliable_def by blast
  with get have "isl r \<longrightarrow> stored w (key_of obj) \<noteq> None \<longrightarrow> \<not> reliable api stored" by (auto simp: key_of_def)
  with laws have "Q r (es, w')"
    using failed[of w'] read[of w'] by (cases r) simp_all
  with get show ?thesis by (simp add: wp_def fetch_def call_def)
qed

lemma wp_update:
  assumes "store_laws api stored admit"
    and failed: "\<And>e w'. stored w' = stored w \<or> stored w' = (stored w)(key_of (at_object a) \<mapsto> admit (at_object a)) \<Longrightarrow>
      (stored w (key_of (at_object a)) \<noteq> None \<longrightarrow> \<not> reliable api stored) \<Longrightarrow> Q (Inr (a, Some e)) (es, w')"
    and updated: "\<And>w'. stored w' = (stored w)(key_of (at_object a) \<mapsto> admit (at_object a)) \<Longrightarrow>
      Q (Inr (a\<lparr>at_object := admit (at_object a)\<rparr>, None)) (es, w')"
  shows "wp (update api a) Q (es, w)"
proof -
  obtain r w' where upd: "ia_update api (at_object a) w = (r, w')"
    by fastforce
  have laws: "case r of
      Inl _ \<Rightarrow> stored w' = stored w \<or> stored w' = (stored w)(key_of (at_object a) \<mapsto> admit (at_object a))
    | Inr obj' \<Rightarrow> obj' = admit (at_object a) \<and> stored w' = (stored w)(key_of (at_object a) \<mapsto> admit (at_object a))"
    using assms(1) upd unfolding store_laws_def by blast
  have "reliable api stored \<longrightarrow> stored w (key_of (at_object a)) \<noteq> None \<longrightarrow> \<not> isl (fst (ia_update api (at_object a) w))"
    unfolding reliable_def by blast
  with upd have "isl r \<longrightarrow> stored w (key_of (at_object a)) \<noteq> None \<longrightarrow> \<not> reliable api stored" by auto
  with laws have "Q (case r of Inl e \<Rightarrow> Inr (a, Some (Plain (Api e))) | Inr obj' \<Rightarrow> Inr (a\<lparr>at_object := obj'\<rparr>, None)) (es, w')"
    using failed[of w'] updated[of w'] by (cases r) simp_all
  with upd show ?thesis by (cases r) (simp_all add: wp_def update_def call_def ok_def)
qed

section \<open>Admission of the updates of the controller\<close>

text \<open>
  Encoding an object never fails, decoding gives it back, the encoding shows the labels of the object, and setting the labels of the encoding sets
  those of the object.
\<close>

definition codec_laws :: "'r codec \<Rightarrow> bool" where
  "codec_laws cd \<longleftrightarrow>
     (\<forall>obj. \<exists>raw. cd_encode cd obj = Some raw \<and> cd_decode cd (ob_Kind obj) raw = Some obj \<and>
        cd_labels cd raw = Some (om_Labels (ob_Meta obj)) \<and>
        (\<forall>labels. \<exists>current. cd_setLabels cd raw labels = Some current \<and>
           cd_decode cd (ob_Kind obj) current = Some (on_meta (\<lambda>m. m\<lparr>om_Labels := labels\<rparr>) obj)))"

text \<open>The object after the webhook has been asked about an update: its response applied, if it is a patch.\<close>

definition admitted :: "webhook_handler \<Rightarrow> 'r codec \<Rightarrow> 'w instrumenter_api \<Rightarrow> event list \<times> 'w \<Rightarrow> 'r request \<Rightarrow> k8s_object \<Rightarrow> k8s_object option" where
  "admitted h cd api s request obj =
     (case fst (run_state (Handle h cd api request) s) of
        Inr (PatchResponseFromRaw _ current) \<Rightarrow> cd_decode cd (ob_Kind obj) current
      | Inr (Allowed _) \<Rightarrow> Some obj
      | _ \<Rightarrow> None)"

text \<open>What is stored for an updated object is what the webhook makes of a request with the encoded object.\<close>

definition admitted_by ::
  "webhook_handler \<Rightarrow> 'r codec \<Rightarrow> 'w instrumenter_api \<Rightarrow> (k8s_object \<Rightarrow> k8s_object) \<Rightarrow> bool" where
  "admitted_by h cd api admit \<longleftrightarrow>
     (\<forall>obj. ob_Kind obj \<noteq> ''Pod'' \<longrightarrow> (\<exists>s request. rq_Kind request = ob_Kind obj \<and>
        cd_encode cd obj = Some (rq_Object request) \<and> admitted h cd api s request obj = Some (admit obj)))"

definition strip_label :: "k8s_object \<Rightarrow> k8s_object" where
  "strip_label = on_meta (\<lambda>m. m\<lparr>om_Labels := AList.delete webhookIgnoreOnceLabelKey (om_Labels m)\<rparr>)"

text \<open>The webhook lets a labelled update pass and takes the label away, before it looks at anything else.\<close>

lemma admitted_labelled:
  assumes "codec_laws cd" and "admitted_by h cd api admit" and "ob_Kind obj \<noteq> ''Pod''"
    and "HasWebhookIgnoreOnceLabel (ob_Meta obj)"
  shows "admit obj = strip_label obj"
proof -
  obtain s request where request: "cd_encode cd obj = Some (rq_Object request)"
    "admitted h cd api s request obj = Some (admit obj)"
    using assms(2,3) unfolding admitted_by_def by blast
  obtain raw where "cd_encode cd obj = Some raw" and labels: "cd_labels cd raw = Some (om_Labels (ob_Meta obj))"
    and set_labels: "\<And>labels. \<exists>current. cd_setLabels cd raw labels = Some current \<and>
       cd_decode cd (ob_Kind obj) current = Some (on_meta (\<lambda>m. m\<lparr>om_Labels := labels\<rparr>) obj)"
    using assms(1) unfolding codec_laws_def by blast
  with request have raw: "rq_Object request = raw" by simp
  obtain current where current:
    "cd_setLabels cd raw (AList.delete webhookIgnoreOnceLabelKey (om_Labels (ob_Meta obj))) = Some current"
    "cd_decode cd (ob_Kind obj) current = Some (strip_label obj)"
    using set_labels[of "AList.delete webhookIgnoreOnceLabelKey (om_Labels (ob_Meta obj))"] by (auto simp: strip_label_def)
  have "consumeIgnoreOnceLabel cd request = Some (PatchResponseFromRaw raw current)"
    using assms(4) labels current(1) raw
    by (simp add: consumeIgnoreOnceLabel_def RemoveWebhookIgnoreOnceLabel_def HasWebhookIgnoreOnceLabel_def)
  then have "admitted h cd api s request obj = Some (strip_label obj)"
    using current(2) by (simp add: admitted_def Handle_def ok_def)
  with request(2) show ?thesis by simp
qed

lemma strip_added_label:
  assumes "webhookIgnoreOnceLabelKey \<notin> fst ` set (om_Labels (ob_Meta obj))"
  shows "strip_label (on_meta AddWebhookIgnoreOnceLabel obj) = obj"
  using assms by (simp add: strip_label_def AddWebhookIgnoreOnceLabel_def addLabel_def delete_without
      without_update without_absent)

section \<open>Instrumenting an existing workload\<close>

lemma workload_instrument_modifies:
  "workload_instrument wk m w = Inr (r, w') \<Longrightarrow> mr_HasBeenModified r \<Longrightarrow> modifyResource m w = Inr (r, w')"
  by (cases wk) (auto simp: ModifyCronJob_def ModifyDaemonSet_def ModifyDeployment_def ModifyReplicaSet_def
      ModifyStatefulSet_def NewNotModifiedOwnedByHigherOrderWorkloadResult_def newNotModifiedResult_def split: if_splits)

lemma workload_instrument_twice:
  assumes "modifyResource m w' = Inr (r', w')" and "\<not> mr_HasBeenModified r'"
  shows "\<exists>r2. workload_instrument wk m w' = Inr (r2, w') \<and> \<not> mr_HasBeenModified r2"
  using assms
  by (cases wk) (simp_all add: ModifyCronJob_def ModifyDaemonSet_def ModifyDeployment_def ModifyReplicaSet_def
      ModifyStatefulSet_def NewNotModifiedOwnedByHigherOrderWorkloadResult_def newNotModifiedResult_def)

lemma instrumented_label_absent:
  assumes "modifyResource m w = Inr (r, w')" and "webhookIgnoreOnceLabelKey \<notin> fst ` set (om_Labels (w_Meta w))"
  shows "webhookIgnoreOnceLabelKey \<notin> fst ` set (om_Labels (w_Meta w'))"
proof -
  have "without instrumentation_label_keys (om_Labels (w_Meta w')) = without instrumentation_label_keys (om_Labels (w_Meta w))"
  proof -
    have "foreign w' = foreign w" using modify_or_revert_foreign assms(1) by blast
    then have "om_Labels (foreign_meta (w_Meta w')) = om_Labels (foreign_meta (w_Meta w))" by (simp add: foreign_def)
    then show ?thesis by (simp add: foreign_meta_def)
  qed
  then have "set (without instrumentation_label_keys (om_Labels (w_Meta w'))) \<subseteq> set (om_Labels (w_Meta w))"
    by (auto simp: without_def)
  moreover have "webhookIgnoreOnceLabelKey \<notin> instrumentation_label_keys"
    by code_simp
  ultimately show ?thesis using assms(2) by (force simp: without_def)
qed

text \<open>A workload that the controller should instrument, and the configuration it does it with.\<close>

definition selected :: "instrumenter \<Rightarrow> NamespaceInstrumentationConfig \<Rightarrow> ObjectMeta \<Rightarrow> bool" where
  "selected i ns meta \<longleftrightarrow>
     shouldBeInstrumented (it_labelsParse i) meta (nic_InstrumentationLabelSelector ns) = Inr True"

definition to_be_instrumented ::
  "instrumenter \<Rightarrow> NamespaceInstrumentationConfig \<Rightarrow> instrumentableWorkload \<Rightarrow> k8s_object \<Rightarrow> Workload \<Rightarrow> bool" where
  "to_be_instrumented i ns wk obj w' \<longleftrightarrow>
     \<not> ob_Deleting obj \<and> webhookIgnoreOnceLabelKey \<notin> fst ` set (om_Labels (ob_Meta obj)) \<and>
     selected i ns (ob_Meta obj) \<and> selected i ns (w_Meta w') \<and>
     \<not> InstrumentationIsUpToDate (ob_Meta obj) (ps_Containers (pts_Spec (w_Template (ob_Workload obj)))) (it_config i) ns \<and>
     (case workload_instrument wk (newWorkloadModifier i ns) (ob_Workload obj) of
        Inl _ \<Rightarrow> False | Inr (r, w'') \<Rightarrow> mr_HasBeenModified r \<and> w'' = w') \<and>
     list_all (no_legacy_values \<circ> c_Env) (ps_Containers (pts_Spec (w_Template (ob_Workload obj)))) \<and>
     (isInstrumentationDeliveryImageVolume (newWorkloadModifier i ns) \<longrightarrow> evict_unlisted (pts_Meta (w_Template (ob_Workload obj))))"

lemma to_be_instrumentedE:
  assumes "to_be_instrumented i ns wk obj w'"
  obtains r r2 where "workload_instrument wk (newWorkloadModifier i ns) (ob_Workload obj) = Inr (r, w')"
    and "mr_HasBeenModified r" and "modifyResource (newWorkloadModifier i ns) (ob_Workload obj) = Inr (r, w')"
    and "workload_instrument wk (newWorkloadModifier i ns) w' = Inr (r2, w')" and "\<not> mr_HasBeenModified r2"
    and "webhookIgnoreOnceLabelKey \<notin> fst ` set (om_Labels (w_Meta w'))"
proof -
  obtain r where r: "workload_instrument wk (newWorkloadModifier i ns) (ob_Workload obj) = Inr (r, w')" "mr_HasBeenModified r"
    using assms by (auto simp: to_be_instrumented_def split: sum.splits)
  note modifies = workload_instrument_modifies[OF r]
  obtain r' where "modifyResource (newWorkloadModifier i ns) w' = Inr (r', w')" "\<not> mr_HasBeenModified r'"
    using modifyResource_twice[OF modifies] assms by (auto simp: to_be_instrumented_def)
  from workload_instrument_twice[OF this] obtain r2 where
    "workload_instrument wk (newWorkloadModifier i ns) w' = Inr (r2, w')" "\<not> mr_HasBeenModified r2" by blast
  moreover have "webhookIgnoreOnceLabelKey \<notin> fst ` set (om_Labels (w_Meta w'))"
    using instrumented_label_absent[OF modifies] assms by (simp add: to_be_instrumented_def)
  ultimately show thesis using that r modifies by blast
qed

text \<open>
  One attempt: the stored object is the original one or the instrumented one, before and after it; an attempt without an
  error leaves the instrumented one.
\<close>

lemma modify_attempt_converges:
  fixes stored :: "'w \<Rightarrow> object_key \<Rightarrow> k8s_object option" and S0 :: "object_key \<Rightarrow> k8s_object option"
  defines "instrumented_store obj w' \<equiv> S0(key_of obj \<mapsto> obj\<lparr>ob_Workload := w'\<rparr>)"
  assumes laws: "store_laws api stored admit" and "codec_laws cd" and "admitted_by h cd api admit"
    and todo: "to_be_instrumented i ns wk obj w'" and "S0 (key_of obj) = Some obj"
    and "key_of (at_object a) = key_of obj" and "stored w \<in> {S0, instrumented_store obj w'}"
    and "reliable api stored \<longrightarrow> stored w = S0"
  shows "wp (modify_attempt api True (workload_instrument wk (newWorkloadModifier i ns)) a)
     (attempts (\<lambda>_ _. False) (\<lambda>a' err (es', v).
        stored v \<in> {S0, instrumented_store obj w'} \<and> key_of (at_object a') = key_of obj \<and>
        (err = None \<longrightarrow> stored v = instrumented_store obj w' \<and>
           (mr_HasBeenModified (at_result a') \<or> \<not> HasWebhookIgnoreOnceLabel (ob_Meta (at_object a')))) \<and>
        (reliable api stored \<longrightarrow> err = None \<and> mr_HasBeenModified (at_result a')))) (es, w)"
proof -
  obtain r r2 where first: "workload_instrument wk (newWorkloadModifier i ns) (ob_Workload obj) = Inr (r, w')"
      "mr_HasBeenModified r"
    and second: "workload_instrument wk (newWorkloadModifier i ns) w' = Inr (r2, w')" "\<not> mr_HasBeenModified r2"
    and absent: "webhookIgnoreOnceLabelKey \<notin> fst ` set (om_Labels (w_Meta w'))"
    using todo by (rule to_be_instrumentedE)
  let ?new = "obj\<lparr>ob_Workload := w'\<rparr>"
  have key: "key_of (o'\<lparr>ob_Workload := v\<rparr>) = key_of o'" for o' v by (simp add: key_of_def)
  have "ob_Kind (on_meta AddWebhookIgnoreOnceLabel ?new) \<noteq> ''Pod''"
    using stored_workload[OF laws, of w "key_of obj" obj] stored_workload[OF laws, of w "key_of obj" ?new] assms(6,8)
    by (auto simp: instrumented_store_def)
  moreover have "HasWebhookIgnoreOnceLabel (ob_Meta (on_meta AddWebhookIgnoreOnceLabel ?new))"
    by (simp add: HasWebhookIgnoreOnceLabel_def AddWebhookIgnoreOnceLabel_def addLabel_def update_conv')
  ultimately have "admit (on_meta AddWebhookIgnoreOnceLabel ?new) = strip_label (on_meta AddWebhookIgnoreOnceLabel ?new)"
    using assms(3,4) by (rule_tac admitted_labelled)
  with strip_added_label[of ?new] absent
  have admit: "admit (obj\<lparr>ob_Workload := w'\<lparr>w_Meta := AddWebhookIgnoreOnceLabel (w_Meta w')\<rparr>\<rparr>) = ?new" by simp
  have unlabelled: "\<not> HasWebhookIgnoreOnceLabel (w_Meta w')"
    using absent by (metis HasWebhookIgnoreOnceLabel_def map_of_eq_None_iff option.discI)
  have cases: "stored w = S0 \<or> stored w = instrumented_store obj w'" using assms(8) by simp
  show ?thesis
    unfolding modify_attempt_def wp_bind
  proof (rule wp_fetch[OF laws], goal_cases)
    case (1 e v)
    moreover have "stored w (key_of (at_object a)) \<noteq> None" using assms(6,7) cases by (auto simp: instrumented_store_def)
    ultimately show ?case using assms(7) cases by (auto simp: wp_ok)
  next
    case (2 obj' v)
    show ?case
    proof (cases "stored w = S0")
      case True
      with 2 assms(6,7) have [simp]: "obj' = obj" by simp
      show ?thesis
        by (simp add: wp_pbind wp_return Let_def first)
          (rule wp_update[OF laws]; simp add: key admit 2 True assms(6) instrumented_store_def first)
    next
      case False
      with cases 2 assms(7,9) have "obj' = ?new" "\<not> reliable api stored" by (auto simp: instrumented_store_def)
      with False cases 2 show ?thesis
        by (auto simp: wp_pbind wp_return wp_ok second key unlabelled)
    qed
  qed
qed

lemma instrumentWorkload_action:
  assumes "to_be_instrumented i ns wk obj w'"
  shows "instrumentWorkload i api ns wk obj = apply_action i api ns wk obj ModificationModeInstrumentation True"
  using assms by (simp add: to_be_instrumented_def instrumentWorkload_def selected_def WasInstrumentedButHasOptedOutNow_def
      HasOptedOutOfInstrumentationAndIsUninstrumented_def hasOptedOutOfInstrumentation_def pbind_def)

lemma instrumentWorkload_converges:
  fixes stored :: "'w \<Rightarrow> object_key \<Rightarrow> k8s_object option"
  assumes "on_error_contract api" and "store_laws api stored admit" and "codec_laws cd" and "admitted_by h cd api admit"
    and todo: "to_be_instrumented i ns wk obj w'" and "stored w (key_of obj) = Some obj"
  shows "wp (instrumentWorkload i api ns wk obj)
     (\<lambda>b (es', v). \<exists>hasBeenUpdated. b = Inr hasBeenUpdated \<and>
        stored v \<in> {stored w, (stored w)(key_of obj \<mapsto> obj\<lparr>ob_Workload := w'\<rparr>)} \<and>
        (hasBeenUpdated \<longrightarrow> stored v = (stored w)(key_of obj \<mapsto> obj\<lparr>ob_Workload := w'\<rparr>)) \<and>
        (reliable api stored \<longrightarrow> hasBeenUpdated)) (es, w)"
proof -
  let ?S1 = "(stored w)(key_of obj \<mapsto> obj\<lparr>ob_Workload := w'\<rparr>)"
  let ?P = "\<lambda>a (es' :: event list, v). key_of (at_object a) = key_of obj \<and> stored v \<in> {stored w, ?S1} \<and>
      (reliable api stored \<longrightarrow> stored v = stored w)"
  let ?Q = "\<lambda>a' err (es' :: event list, v). stored v \<in> {stored w, ?S1} \<and> 
        (err = None \<longrightarrow> stored v = ?S1 \<and>
           (mr_HasBeenModified (at_result a') \<or> \<not> HasWebhookIgnoreOnceLabel (ob_Meta (at_object a')))) \<and>
        (reliable api stored \<longrightarrow> err = None \<and> mr_HasBeenModified (at_result a'))"
  have "wp (run_modification api True (workload_instrument wk (newWorkloadModifier i ns)) obj) (attempts (\<lambda>_ _. False) ?Q) (es, w)"
    unfolding run_modification_def
  proof (rule wp_Retry[OF assms(1), where P = ?P])
    fix a :: attempt and s :: "event list \<times> 'w"
    assume "?P a s"
    then show "wp (modify_attempt api True (workload_instrument wk (newWorkloadModifier i ns)) a)
        (attempts (\<lambda>_ _. False) (\<lambda>a' err s'. ?Q a' err s' \<and> (err \<noteq> None \<longrightarrow> ?P a' s'))) s"
      using modify_attempt_converges[OF assms(2,3,4) todo, where ?S0.0 = "stored w" and a = a and w = "snd s" and es = "fst s"]
        assms(6)
      by (auto elim!: attempts_mono)
  qed simp
  then show ?thesis
    unfolding instrumentWorkload_action[OF todo] apply_action_def wp_pbind
    by (auto simp: wp_simps removeLeftoverWebhookIgnoreOnceLabel_def postProcessInstrumentation_def queue_def
        HandlePotentiallySuccessfulInstrumentationEvent_def elim!: wp_mono elim!: attempts.elims)
qed

text \<open>The next pass has nothing left to do.\<close>

lemma instrumentWorkload_again:
  assumes "to_be_instrumented i ns wk obj w'"
    and "TrimSpace (cic_OTelCollectorBaseUrl (it_config i)) = cic_OTelCollectorBaseUrl (it_config i)"
    and "cic_OTelCollectorBaseUrl (it_config i) \<noteq> []"
  shows "run_state (instrumentWorkload i api ns wk (obj\<lparr>ob_Workload := w'\<rparr>)) s = (Inr False, s)"
proof -
  obtain r where modifies: "modifyResource (newWorkloadModifier i ns) (ob_Workload obj) = Inr (r, w')" "mr_HasBeenModified r"
    and absent: "webhookIgnoreOnceLabelKey \<notin> fst ` set (om_Labels (w_Meta w'))"
    using to_be_instrumentedE[OF assms(1)] by metis
  have config: "rm_clusterInstrumentationConfig (newWorkloadModifier i ns) = it_config i"
    "rm_namespaceInstrumentationConfig (newWorkloadModifier i ns) = ns"
    by (simp_all add: newWorkloadModifier_def NewResourceModifier_def)
  have "InstrumentationIsUpToDate (w_Meta w') (ps_Containers (pts_Spec (w_Template w'))) (it_config i) ns"
    using modified_up_to_date[OF modifies] assms(2,3) by (simp add: config)
  moreover have "\<not> HasWebhookIgnoreOnceLabel (w_Meta w')"
    using absent by (metis HasWebhookIgnoreOnceLabel_def map_of_eq_None_iff option.discI)
  moreover have "WasInstrumentedButHasOptedOutNow (it_labelsParse i) (w_Meta w') (nic_InstrumentationLabelSelector ns) = Inr False"
    using assms(1) by (simp add: to_be_instrumented_def selected_def WasInstrumentedButHasOptedOutNow_def
        hasOptedOutOfInstrumentation_def)
  ultimately show ?thesis
    using assms(1) by (simp add: to_be_instrumented_def instrumentWorkload_def removeLeftoverWebhookIgnoreOnceLabel_def
        pbind_def ok_def)
qed

section \<open>What passes over a namespace leave alone\<close>

definition foreign_object :: "k8s_object \<Rightarrow> k8s_object" where
  "foreign_object obj = strip_label (obj\<lparr>ob_Workload := foreign (ob_Workload obj)\<rparr>)"

definition keeps :: "('s \<Rightarrow> bool) \<Rightarrow> ('s, 'a) state \<Rightarrow> bool" where
  "keeps I f \<longleftrightarrow> (\<forall>s. I s \<longrightarrow> wp f (\<lambda>_. I) s)"

named_theorems keeps_intros \<open>computations that keep an invariant\<close>

lemma keeps_basics [keeps_intros]:
  "keeps I (State_Monad.return a)"
  "keeps I (ok a)"
  "keeps I f \<Longrightarrow> (\<And>a. keeps I (g a)) \<Longrightarrow> keeps I (State_Monad.bind f g)"
  "keeps I f' \<Longrightarrow> (\<And>a. keeps I (g' a)) \<Longrightarrow> keeps I (pbind f' g')"
  "keeps I f \<Longrightarrow> keeps I (safely f)"
  by (auto simp: keeps_def wp_simps split: sum.split elim!: wp_mono)

lemma keeps_cases [keeps_intros]:
  "(b \<Longrightarrow> keeps I f) \<Longrightarrow> (\<not> b \<Longrightarrow> keeps I g) \<Longrightarrow> keeps I (if b then f else g)"
  "(x = None \<Longrightarrow> keeps I n) \<Longrightarrow> (\<And>y. x = Some y \<Longrightarrow> keeps I (h y)) \<Longrightarrow> keeps I (case x of None \<Rightarrow> n | Some y \<Rightarrow> h y)"
  "(\<And>e. r = Inl e \<Longrightarrow> keeps I (l e)) \<Longrightarrow> (\<And>v. r = Inr v \<Longrightarrow> keeps I (k v)) \<Longrightarrow>
   keeps I (case r of Inl e \<Rightarrow> l e | Inr v \<Rightarrow> k v)"
  "(\<And>u v. p = (u, v) \<Longrightarrow> keeps I (j u v)) \<Longrightarrow> keeps I (case p of (u, v) \<Rightarrow> j u v)"
  by (simp_all split: option.split sum.split prod.split)

lemma keeps_onError:
  assumes contract: "on_error_contract api" and "0 < n" and step: "\<And>a. keeps I (operation a)"
  shows "keeps I (ia_onError api n retriable operation a)"
  using assms(2)
proof (induction n arbitrary: a)
  case (Suc n)
  have unfold: "ia_onError api (Suc n) retriable operation a =
      pbind (operation a) (\<lambda>(a', err).
        case err of
          None \<Rightarrow> ok (a', None)
        | Some e \<Rightarrow> if retriable e \<and> 0 < n then ia_onError api n retriable operation a' else ok (a', Some e))"
    using contract by (simp add: on_error_contract_def)
  show ?case unfolding unfold by (intro keeps_intros step) (use Suc.IH in auto)
qed simp

lemma keeps_Retry:
  assumes "on_error_contract api" and "\<And>a. keeps I (operation a)"
  shows "keeps I (Retry api steps operation a)"
  unfolding Retry_def Let_def by (rule keeps_onError) (use assms in auto)

lemma keeps_for_each: "(\<And>obj. keeps I (f obj)) \<Longrightarrow> keeps I (for_each f objs)"
  by (induction objs) (auto intro: keeps_intros)

lemma keeps_join: "(\<And>f. f \<in> set fs \<Longrightarrow> keeps I f) \<Longrightarrow> keeps I (join_errors fs)"
  by (induction fs) (auto intro!: keeps_intros)

lemma foreign_object_workload: "foreign w = foreign (ob_Workload obj) \<Longrightarrow> foreign_object (obj\<lparr>ob_Workload := w\<rparr>) = foreign_object obj"
  by (simp add: foreign_object_def)

lemma foreign_object_labels:
  assumes "without {webhookIgnoreOnceLabelKey} labels = without {webhookIgnoreOnceLabelKey} (om_Labels (ob_Meta obj))"
  shows "foreign_object (on_meta (\<lambda>m. m\<lparr>om_Labels := labels\<rparr>) obj) = foreign_object obj"
proof -
  have "without {webhookIgnoreOnceLabelKey} (without instrumentation_label_keys labels) =
      without {webhookIgnoreOnceLabelKey} (without instrumentation_label_keys (om_Labels (ob_Meta obj)))"
    using assms by (metis without_without Un_commute)
  then show ?thesis
    by (simp add: foreign_object_def strip_label_def foreign_def foreign_meta_def delete_without)
qed

lemma foreign_object_add_label:
  "foreign_object (obj\<lparr>ob_Workload := w\<lparr>w_Meta := AddWebhookIgnoreOnceLabel (w_Meta w)\<rparr>\<rparr>) = foreign_object (obj\<lparr>ob_Workload := w\<rparr>)"
  using foreign_object_labels[of "AList.update webhookIgnoreOnceLabelKey ''true'' (om_Labels (w_Meta w))" "obj\<lparr>ob_Workload := w\<rparr>"]
  by (simp add: AddWebhookIgnoreOnceLabel_def addLabel_def without_update)

lemma foreign_object_strip: "foreign_object (strip_label obj) = foreign_object obj"
  unfolding strip_label_def
  using foreign_object_labels[of "AList.delete webhookIgnoreOnceLabelKey (om_Labels (ob_Meta obj))" obj]
  by (simp add: delete_without without_without)

text \<open>What the webhook makes of an update keeps the part that does not belong to the operator.\<close>

lemma admit_foreign:
  assumes "codec_laws cd" and "admitted_by h cd api admit" and "ob_Kind obj \<noteq> ''Pod''"
  shows "foreign_object (admit obj) = foreign_object obj"
proof -
  have codec: "\<exists>raw. cd_encode cd o' = Some raw \<and> cd_decode cd (ob_Kind o') raw = Some o' \<and>
        cd_labels cd raw = Some (om_Labels (ob_Meta o')) \<and>
        (\<forall>labels. \<exists>current. cd_setLabels cd raw labels = Some current \<and>
           cd_decode cd (ob_Kind o') current = Some (on_meta (\<lambda>m. m\<lparr>om_Labels := labels\<rparr>) o'))" for o'
    using assms(1) unfolding codec_laws_def by blast
  obtain s request where kind: "rq_Kind request = ob_Kind obj"
    and raw: "cd_encode cd obj = Some (rq_Object request)" "admitted h cd api s request obj = Some (admit obj)"
    using assms(2,3) unfolding admitted_by_def by blast
  have obj: "cd_decode cd (ob_Kind obj) (rq_Object request) = Some obj"
    "cd_labels cd (rq_Object request) = Some (om_Labels (ob_Meta obj))"
    and labelled: "\<And>labels. \<exists>current. cd_setLabels cd (rq_Object request) labels = Some current \<and>
       cd_decode cd (ob_Kind obj) current = Some (on_meta (\<lambda>m. m\<lparr>om_Labels := labels\<rparr>) obj)"
    using codec[of obj] raw(1) by simp_all
  obtain answer where answer: "fst (run_state (Handle h cd api request) s) = Inr answer"
    and current: "(case answer of PatchResponseFromRaw _ current \<Rightarrow> cd_decode cd (ob_Kind obj) current
      | Allowed _ \<Rightarrow> Some obj | _ \<Rightarrow> None) = Some (admit obj)"
    using raw(2) by (auto simp: admitted_def split: sum.splits)
  have "harmless cd request answer"
    using Handle_answers[of h cd api request s] answer by (auto simp: wp_def split: prod.splits)
  moreover have "foreign_object o' = foreign_object obj"
    if "cd_encode cd (obj\<lparr>ob_Workload := w\<rparr>) = Some c" "cd_decode cd (ob_Kind obj) c = Some o'"
      "foreign w = foreign (ob_Workload obj)" for w c o'
    using codec[of "obj\<lparr>ob_Workload := w\<rparr>"] that by (auto simp: foreign_object_workload)
  ultimately show ?thesis
    using current kind assms(3) obj labelled[of "AList.delete webhookIgnoreOnceLabelKey (om_Labels (ob_Meta obj))"]
      foreign_object_strip[of obj]
    by (cases answer) (auto simp: harmless.simps(2) strip_label_def)
qed

definition same_foreign ::
  "('w \<Rightarrow> object_key \<Rightarrow> k8s_object option) \<Rightarrow> (object_key \<Rightarrow> k8s_object option) \<Rightarrow> event list \<times> 'w \<Rightarrow> bool" where
  "same_foreign stored S s \<longleftrightarrow> (\<forall>k. map_option foreign_object (stored (snd s) k) = map_option foreign_object (S k))"

lemma same_foreign_update:
  assumes "same_foreign stored S (es, w)" and "stored w k = Some obj" and "foreign_object obj' = foreign_object obj"
    and "stored w' = stored w \<or> stored w' = (stored w)(k \<mapsto> obj')"
  shows "same_foreign stored S (es, w')"
proof -
  have "map_option foreign_object (S k) = Some (foreign_object obj)"
    using assms(1,2) by (metis option.simps(9) same_foreign_def snd_conv)
  with assms show ?thesis by (auto simp: same_foreign_def)
qed

text \<open>A computation that keeps the foreign parts if it starts with a given object in the store.\<close>

definition keeps_at ::
  "('w \<Rightarrow> object_key \<Rightarrow> k8s_object option) \<Rightarrow> (object_key \<Rightarrow> k8s_object option) \<Rightarrow> k8s_object \<Rightarrow> ('w, 'a) action \<Rightarrow> bool" where
  "keeps_at stored S obj f \<longleftrightarrow>
     (\<forall>es w. same_foreign stored S (es, w) \<longrightarrow> stored w (key_of obj) = Some obj \<longrightarrow> wp f (\<lambda>_. same_foreign stored S) (es, w))"

lemma keeps_at_basics:
  "keeps_at stored S obj (ok a)"
  "(\<And>x. r = Inr x \<Longrightarrow> keeps_at stored S obj (g x)) \<Longrightarrow> keeps_at stored S obj (pbind (State_Monad.return r) g)"
  by (auto simp: keeps_at_def wp_simps split: sum.split)

lemma keeps_at_update:
  assumes laws: "store_laws api stored admit" and "codec_laws cd" and "admitted_by h cd api admit"
    and "ob_Kind obj \<noteq> ''Pod''" and same: "foreign_object (at_object a) = foreign_object obj"
  shows "keeps_at stored S obj (update api a)"
  unfolding keeps_at_def
proof (intro allI impI)
  fix es w assume *: "same_foreign stored S (es, w)" "stored w (key_of obj) = Some obj"
  have "key_of o' = key_of (foreign_object o')" "ob_Kind o' = ob_Kind (foreign_object o')" for o'
    by (simp_all add: key_of_def foreign_object_def strip_label_def)
  then have key: "key_of (at_object a) = key_of obj" "ob_Kind (at_object a) \<noteq> ''Pod''"
    using same assms(4) by (metis, metis)
  have "foreign_object (admit (at_object a)) = foreign_object obj"
    using admit_foreign[OF assms(2,3) key(2)] same by simp
  then show "wp (update api a) (\<lambda>_. same_foreign stored S) (es, w)"
    using same_foreign_update[OF *] by (intro wp_update[OF laws]) (auto simp: key)
qed

text \<open>An attempt that reads an object and goes on with it.\<close>

lemma keeps_fetch:
  assumes laws: "store_laws api stored admit" and failed: "\<And>e. keeps (same_foreign stored S) (g (Inl e))"
    and read: "\<And>obj'. ob_Kind obj' \<noteq> ''Pod'' \<Longrightarrow> keeps_at stored S obj' (g (Inr obj'))"
  shows "keeps (same_foreign stored S) (do { answer \<leftarrow> fetch api obj; g answer })"
  unfolding keeps_def wp_bind
proof (intro allI impI)
  fix s assume I: "same_foreign stored S s"
  obtain es w where s: "s = (es, w)" by fastforce
  show "wp (fetch api obj) (\<lambda>a. wp (g a) (\<lambda>_. same_foreign stored S)) s"
    unfolding s
  proof (rule wp_fetch[OF laws], goal_cases)
    case (1 e w')
    then show ?case using failed I by (simp add: keeps_def s same_foreign_def)
  next
    case (2 obj' w')
    with stored_workload[OF laws 2(2)] read[of obj'] I show ?case by (simp add: s keeps_at_def same_foreign_def)
  qed
qed

lemma keeps_attempts:
  assumes "store_laws api stored admit" and "codec_laws cd" and "admitted_by h cd api admit"
  shows "(\<And>w r w'. modify w = Inr (r, w') \<Longrightarrow> foreign w' = foreign w) \<Longrightarrow>
      keeps (same_foreign stored S) (modify_attempt api addLabel' modify a)"
    and "keeps (same_foreign stored S) (remove_label_attempt api a)"
    and "(\<And>w. foreign (snd (modifyJob w)) = foreign w) \<Longrightarrow> keeps (same_foreign stored S) (job_update_attempt api modifyJob a)"
    and "keeps (same_foreign stored S) (job_revert_attempt api a)"
  using keeps_at_update[OF assms]
  unfolding modify_attempt_def remove_label_attempt_def job_update_attempt_def job_revert_attempt_def
  apply -
  subgoal premises p
    by (intro keeps_fetch[OF assms(1)])
      (auto simp: Let_def foreign_object_add_label p(1) intro!: keeps_basics keeps_at_basics p(2) foreign_object_workload)
  subgoal premises p
    by (intro keeps_fetch[OF assms(1)])
      (auto simp: RemoveWebhookIgnoreOnceLabel_def delete_without without_without intro!: keeps_basics keeps_at_basics p foreign_object_labels)
  subgoal premises p
    by (intro keeps_fetch[OF assms(1)])
      (auto simp: case_prod_unfold Let_def p(1) intro!: keeps_basics keeps_at_basics p(2) foreign_object_workload)
  subgoal premises p
    by (intro keeps_fetch[OF assms(1)])
      (auto simp: RemoveLabelsFromImmutableJob_def foreign_def foreign_labels intro!: keeps_basics keeps_at_basics p foreign_object_workload)
  done

lemma keeps_queue [keeps_intros]:
  "keeps (same_foreign stored S) (queue e)"
  "keeps (same_foreign stored S) (HandlePotentiallySuccessfulInstrumentationEvent issues)"
  by (auto simp: keeps_def wp_simps same_foreign_def HandlePotentiallySuccessfulInstrumentationEvent_def)

lemma keeps_postProcess [keeps_intros]:
  "keeps (same_foreign stored S) (postProcessInstrumentation result err)"
  "keeps (same_foreign stored S) (postProcessUninstrumentation result err)"
  unfolding postProcessInstrumentation_def postProcessUninstrumentation_def by (intro keeps_intros)+

lemma keeps_call:
  assumes "\<And>w. stored (snd (f w)) = stored w"
  shows "keeps (same_foreign stored S) (call f)"
proof -
  have "same_foreign stored S (es, snd (f w))" if "same_foreign stored S (es, w)" for es w
    using that assms by (simp add: same_foreign_def)
  then show ?thesis by (auto simp: keeps_def wp_def call_def split: prod.split) (metis snd_conv)
qed

lemma keeps_delete_pods:
  "other_calls_keep api stored \<Longrightarrow> keeps (same_foreign stored S) (delete_pods api pods)"
  by (induction pods) (auto simp: other_calls_keep_def intro!: keeps_intros keeps_call)

text \<open>The operations on single workloads.\<close>

lemma keeps_workloads:
  assumes contract: "on_error_contract api" and laws: "store_laws api stored admit" "codec_laws cd" "admitted_by h cd api admit"
    and others: "other_calls_keep api stored"
  shows "keeps (same_foreign stored S) (instrumentWorkload i api ns wk obj)"
    and "keeps (same_foreign stored S) (revertWorkloadInstrumentation i api ns wk obj)"
    and "keeps (same_foreign stored S) (restartPodsOfReplicaSet api obj)"
    and "keeps (same_foreign stored S) (handleJobOnInstrumentation i api ns obj)"
    and "keeps (same_foreign stored S) (handleJobOnUninstrumentation api obj)"
proof -
  note attempts = keeps_attempts[OF laws]
  have instrument: "workload_instrument wk m w = Inr (r, w') \<Longrightarrow> foreign w' = foreign w"
    and revert: "workload_revert wk m w = Inr (r, w') \<Longrightarrow> foreign w' = foreign w" for m w r w'
    by (cases wk; auto dest: Modify_workload_foreign Revert_workload_foreign)+
  have leftover: "keeps (same_foreign stored S) (removeLeftoverWebhookIgnoreOnceLabel api o')" for o'
    unfolding removeLeftoverWebhookIgnoreOnceLabel_def by (intro keeps_intros keeps_Retry[OF contract] attempts)
  have "keeps (same_foreign stored S) (apply_action i api ns wk obj mode label)" for mode label
    unfolding apply_action_def run_modification_def
    by (cases mode) (auto intro!: keeps_intros keeps_Retry[OF contract] attempts leftover dest: instrument revert)
  then show "keeps (same_foreign stored S) (instrumentWorkload i api ns wk obj)"
    unfolding instrumentWorkload_def by (intro keeps_intros leftover) auto
  show "keeps (same_foreign stored S) (revertWorkloadInstrumentation i api ns wk obj)"
    unfolding revertWorkloadInstrumentation_def run_modification_def
    by (auto intro!: keeps_intros keeps_Retry[OF contract] attempts dest: revert)
  show "keeps (same_foreign stored S) (restartPodsOfReplicaSet api obj)"
    using others unfolding restartPodsOfReplicaSet_def
    by (auto simp: other_calls_keep_def intro!: keeps_intros keeps_call keeps_delete_pods)
  have jobs: "foreign (snd (AddLabelsToImmutableJob m w)) = foreign w" "foreign (snd (RemoveLabelsFromImmutableJob w)) = foreign w" for m w
    by (simp_all add: AddLabelsToImmutableJob_def RemoveLabelsFromImmutableJob_def foreign_def foreign_labels)
  have "keeps (same_foreign stored S) (ReadControllingCronJob api (ob_Namespace obj) obj)"
    using others unfolding ReadControllingCronJob_def
    by (auto simp: other_calls_keep_def intro!: keeps_intros keeps_call)
  then show "keeps (same_foreign stored S) (handleJobOnInstrumentation i api ns obj)"
    unfolding handleJobOnInstrumentation_def Let_def
    by (auto intro!: keeps_intros keeps_Retry[OF contract] attempts jobs split: ModificationMode.split)
  show "keeps (same_foreign stored S) (handleJobOnUninstrumentation api obj)"
    unfolding handleJobOnUninstrumentation_def
    by (intro keeps_intros keeps_Retry[OF contract] attempts)
qed

lemma keeps_listing:
  assumes "other_calls_keep api stored" and "\<And>obj. keeps (same_foreign stored S) (f obj)"
  shows "keeps (same_foreign stored S) (eachListItem_of api kind namespace b f)"
  using assms unfolding eachListItem_of_def
  by (auto simp: other_calls_keep_def intro!: keeps_intros keeps_call keeps_for_each)

lemma keeps_passes:
  assumes "on_error_contract api" "store_laws api stored admit" "codec_laws cd" "admitted_by h cd api admit"
    "other_calls_keep api stored"
  shows "keeps (same_foreign stored S) (CheckSettingsAndInstrumentExistingWorkloads i api resource)"
    and "keeps (same_foreign stored S) (UninstrumentWorkloadsIfAvailable i api resource)"
proof -
  note single = keeps_workloads[OF assms] and listing = keeps_listing[OF assms(5)]
  show "keeps (same_foreign stored S) (CheckSettingsAndInstrumentExistingWorkloads i api resource)"
    unfolding CheckSettingsAndInstrumentExistingWorkloads_def instrumentAllWorkloads_def Let_def
      findAndInstrumentCronJobs_def findAndInstrumentyDaemonSets_def findAndInstrumentDeployments_def
      findAndAddLabelsToImmutableJobsOnInstrumentation_def findAndInstrumentReplicaSets_def findAndInstrumentStatefulSets_def
      instrumentCronJob_def instrumentDaemonSet_def instrumentDeployment_def instrumentReplicaSet_def instrumentStatefulSet_def
    by (auto intro!: keeps_intros keeps_join listing single)
  show "keeps (same_foreign stored S) (UninstrumentWorkloadsIfAvailable i api resource)"
    unfolding UninstrumentWorkloadsIfAvailable_def uninstrumentAllWorkloads_def Let_def
      findAndUninstrumentCronJobs_def findAndUninstrumentDaemonSets_def findAndUninstrumentDeployments_def
      findAndHandleJobOnUninstrumentation_def findAndUninstrumentReplicaSets_def findAndUninstrumentStatefulSets_def
      uninstrumentCronJob_def uninstrumentDaemonSet_def uninstrumentDeployment_def uninstrumentReplicaSet_def uninstrumentStatefulSet_def
    by (auto intro!: keeps_intros keeps_join listing single)
qed

section \<open>A sample cluster\<close>

text \<open>A cluster whose calls never fail, with a webhook for which no namespace is monitored.\<close>

type_synonym sample_store = "object_key \<Rightarrow> k8s_object option"

primrec sample_onError :: "nat \<Rightarrow> (wrapped_error \<Rightarrow> bool) \<Rightarrow> 'w attempt_step \<Rightarrow> 'w attempt_step" where
  "sample_onError 0 retriable operation a = ok (a, None)"
| "sample_onError (Suc n) retriable operation a =
     pbind (operation a) (\<lambda>(a', err).
       case err of
         None \<Rightarrow> ok (a', None)
       | Some e \<Rightarrow> if retriable e \<and> 0 < n then sample_onError n retriable operation a' else ok (a', Some e))"

definition sample_admit :: "k8s_object \<Rightarrow> k8s_object" where
  "sample_admit obj = (if HasWebhookIgnoreOnceLabel (ob_Meta obj) then strip_label obj else obj)"

definition sample_stored :: "sample_store \<Rightarrow> object_key \<Rightarrow> k8s_object option" where
  "sample_stored w k =
     (case w k of None \<Rightarrow> None | Some obj \<Rightarrow> if key_of obj = k \<and> ob_Kind obj \<noteq> ''Pod'' then Some obj else None)"

definition sample_api :: "sample_store instrumenter_api" where
  "sample_api =
     \<lparr>wa_monitoring = (\<lambda>_ w. (Inr [], w)),
      wa_cronJob = (\<lambda>_ _ w. (Inl NotFound, w)),
      ia_get = (\<lambda>kind namespace name w. (case sample_stored w (kind, namespace, name) of
        None \<Rightarrow> Inl NotFound | Some obj \<Rightarrow> Inr obj, w)),
      ia_update = (\<lambda>obj w. if ob_Kind obj = ''Pod'' then (Inl Invalid, w)
        else (Inr (sample_admit obj), w(key_of obj \<mapsto> sample_admit obj))),
      ia_list = (\<lambda>kind namespace _ w. ((case sample_stored w (kind, namespace, ''web'') of
        None \<Rightarrow> [] | Some obj \<Rightarrow> [obj], None), w)),
      ia_pods = (\<lambda>_ w. (Inr [], w)),
      ia_deletePod = (\<lambda>_ w. (None, w)),
      ia_onError = sample_onError\<rparr>"

definition sample_instrumenter :: instrumenter where
  "sample_instrumenter = \<lparr>it_config = sample_cluster, it_labelsParse = sample_parser\<rparr>"

definition sample_world :: sample_store where
  "sample_world = [key_of sample_object \<mapsto> sample_object]"

lemma key_of_strip [simp]: "key_of (strip_label obj) = key_of obj" "ob_Kind (strip_label obj) = ob_Kind obj"
  by (simp_all add: strip_label_def key_of_def)

lemma sample_laws:
  "on_error_contract sample_api" "store_laws sample_api sample_stored sample_admit" "reliable sample_api sample_stored"
  "other_calls_keep sample_api sample_stored" "codec_laws sample_codec"
proof -
  have "sample_stored (w(key_of obj \<mapsto> sample_admit obj)) = (sample_stored w)(key_of obj \<mapsto> sample_admit obj)"
    if "ob_Kind obj \<noteq> ''Pod''" for w obj
    using that by (auto simp: sample_stored_def sample_admit_def fun_eq_iff)
  moreover have "sample_stored w k = Some obj \<Longrightarrow> key_of obj = k \<and> ob_Kind obj \<noteq> ''Pod''" for w k obj
    by (auto simp: sample_stored_def split: option.splits if_splits)
  ultimately show "store_laws sample_api sample_stored sample_admit"
    unfolding store_laws_def by (auto simp: sample_api_def split: option.splits if_splits)
  show "reliable sample_api sample_stored"
    by (auto simp: reliable_def sample_api_def sample_stored_def key_of_def split: option.splits if_splits)
  have "ia_onError sample_api = sample_onError" by (simp add: sample_api_def)
  then show "on_error_contract sample_api" unfolding on_error_contract_def by (metis sample_onError.simps(2))
qed (simp_all add: other_calls_keep_def codec_laws_def sample_api_def sample_codec_def)

lemma sample_is_stored: "sample_stored sample_world (key_of sample_object) = Some sample_object"
  by (simp add: sample_stored_def sample_world_def key_of_def sample_object_def)

lemma sample_admitted: "admitted_by sample_handler sample_codec sample_api sample_admit"
  unfolding admitted_by_def
proof (intro allI impI)
  fix obj :: k8s_object
  let ?request = "\<lparr>rq_Group = ''apps'', rq_Version = ''v1'', rq_Kind = ob_Kind obj, rq_Namespace = ''shop'', rq_Object = obj\<rparr>"
  have "admitted sample_handler sample_codec sample_api ([], Map.empty) ?request obj = Some (sample_admit obj)"
    by (simp add: admitted_def Handle_def consumeIgnoreOnceLabel_def RemoveWebhookIgnoreOnceLabel_def sample_codec_def
        sample_api_def sample_admit_def HasWebhookIgnoreOnceLabel_def strip_label_def ok_def call_def)
  then show "\<exists>s request. rq_Kind request = ob_Kind obj \<and> cd_encode sample_codec obj = Some (rq_Object request) \<and>
      admitted sample_handler sample_codec sample_api s request obj = Some (sample_admit obj)"
    by (intro exI[of _ "([], Map.empty)"] exI[of _ ?request]) (simp add: sample_codec_def)
qed

lemma sample_to_be_instrumented:
  "\<exists>w'. to_be_instrumented sample_instrumenter sample_namespace deploymentWorkload sample_object w'"
proof -
  have object: "\<not> ob_Deleting sample_object \<and> webhookIgnoreOnceLabelKey \<notin> fst ` set (om_Labels (ob_Meta sample_object)) \<and>
      selected sample_instrumenter sample_namespace (ob_Meta sample_object) \<and>
      list_all (no_legacy_values \<circ> c_Env) (ps_Containers (pts_Spec (w_Template (ob_Workload sample_object)))) \<and>
      \<not> isInstrumentationDeliveryImageVolume (newWorkloadModifier sample_instrumenter sample_namespace)"
    by code_simp
  have outdated: "\<not> InstrumentationIsUpToDate (ob_Meta sample_object)
      (ps_Containers (pts_Spec (w_Template (ob_Workload sample_object)))) (it_config sample_instrumenter) sample_namespace"
    by code_simp
  have "case workload_instrument deploymentWorkload (newWorkloadModifier sample_instrumenter sample_namespace) (ob_Workload sample_object) of
      Inl _ \<Rightarrow> False
    | Inr (r, w') \<Rightarrow> mr_HasBeenModified r \<and> selected sample_instrumenter sample_namespace (w_Meta w')"
    by code_simp
  with object outdated show ?thesis unfolding to_be_instrumented_def by (auto split: sum.splits)
qed

section \<open>Properties\<close>



text \<open>
  C7: The controller and the webhook leave alone what does not belong to the operator. A pass over a namespace that
  instruments its workloads, and one that removes the instrumentation, change in every stored workload at
  most the variables, mounts, volumes, containers, labels and annotations of the operator and the ignore-once label, whatever
  calls fail, and even if the pass ends in a panic; no workload appears or disappears.
\<close>

theorem passes_keep_foreign:
  assumes "on_error_contract api" and "store_laws api stored admit" and "codec_laws cd" and "admitted_by h cd api admit"
    and "other_calls_keep api stored"
    and "run_state (CheckSettingsAndInstrumentExistingWorkloads i api resource) (es, w) = (r, (es', w')) \<or>
         run_state (UninstrumentWorkloadsIfAvailable i api resource) (es, w) = (r, (es', w'))"
  shows "map_option foreign_object (stored w' k) = map_option foreign_object (stored w k)"
proof -
  have "same_foreign stored (stored w) (es, w)" by (simp add: same_foreign_def)
  with keeps_passes[OF assms(1-5), where S = "stored w" and i = i and resource = resource]
  have "wp (CheckSettingsAndInstrumentExistingWorkloads i api resource) (\<lambda>_. same_foreign stored (stored w)) (es, w)"
    "wp (UninstrumentWorkloadsIfAvailable i api resource) (\<lambda>_. same_foreign stored (stored w)) (es, w)"
    by (simp_all add: keeps_def)
  with assms(6) have "same_foreign stored (stored w) (es', w')" by (auto simp: wp_def)
  then show ?thesis unfolding same_foreign_def snd_conv by blast
qed

theorem passes_keep_foreign_witness:
  "\<exists>r es' w'. run_state (CheckSettingsAndInstrumentExistingWorkloads sample_instrumenter sample_api sample_monitoring) ([], sample_world) =
       (r, (es', w')) \<and>
     map_option foreign_object (sample_stored w' (key_of sample_object)) = Some (foreign_object sample_object)"
proof -
  obtain r es' w' where run: "run_state (CheckSettingsAndInstrumentExistingWorkloads sample_instrumenter sample_api sample_monitoring) ([], sample_world) =
       (r, (es', w'))"
    by (metis prod.exhaust)
  from run passes_keep_foreign[OF sample_laws(1,2,5) sample_admitted sample_laws(4) disjI1[OF run], of "key_of sample_object"]
  show ?thesis by (simp add: sample_is_stored)
qed

end
