(* ===== verification/DashResources.thy ===== *)
theory DashResources
  imports InstrumentationWebhook
begin

text \<open>
  The resources of the operator, \<open>internal/resources/resources_util.go\<close>: finding the resource of a reconcile
  request, checking that it is the only one in its scope, its status conditions and its finalizer.

  The functions work for every type of resource: the record \<open>dash0_resource\<close> has the methods of the interface
  \<open>Dash0Resource\<close> of \<open>api/operator/resource_interface.go\<close>, and \<open>monitoring_resource\<close> is its implementation by the monitoring
  resource. \<open>sort.Sort\<close> is not stable, so which order it chooses for resources of the same second is an argument.
\<close>

section \<open>Resources\<close>

record 'r dash0_resource =
  dr_GetUID :: "'r \<Rightarrow> string"
  dr_GetCreationTimestamp :: "'r \<Rightarrow> int"
  dr_IsClusterResource :: bool
  dr_IsMarkedForDeletion :: "'r \<Rightarrow> bool"
  dr_IsDegraded :: "'r \<Rightarrow> bool"
  dr_SetAvailableConditionToUnknown :: "'r \<Rightarrow> 'r"
  dr_EnsureResourceIsMarkedAsDegraded :: "'r \<Rightarrow> 'r"
  dr_Finalizers :: "'r \<Rightarrow> string list"
  dr_setFinalizers :: "string list \<Rightarrow> 'r \<Rightarrow> 'r"

definition monitoring_resource :: "resource_lib \<Rightarrow> monitoring dash0_resource" where
  "monitoring_resource lib =
     \<lparr>dr_GetUID = mo_UID, dr_GetCreationTimestamp = mo_CreationTimestamp, dr_IsClusterResource = False,
      dr_IsMarkedForDeletion = IsMarkedForDeletion, dr_IsDegraded = IsDegraded,
      dr_SetAvailableConditionToUnknown = SetAvailableConditionToUnknown lib,
      dr_EnsureResourceIsMarkedAsDegraded = EnsureResourceIsMarkedAsDegraded lib,
      dr_Finalizers = mo_Finalizers, dr_setFinalizers = (\<lambda>fs d. d\<lparr>mo_Finalizers := fs\<rparr>)\<rparr>"

text \<open>
  The calls of the client for a type of resource. \<open>Update\<close> and \<open>Status().Update\<close> replace the object by the one the API
  server returns. The namespace of a listing is \<open>None\<close> for all namespaces.
\<close>

record ('r, 'w) resource_calls =
  rc_get :: "string \<Rightarrow> string \<Rightarrow> 'w \<Rightarrow> (api_error + 'r) \<times> 'w"
  rc_list :: "string option \<Rightarrow> 'w \<Rightarrow> (api_error + 'r list) \<times> 'w"
  rc_update :: "'r \<Rightarrow> 'w \<Rightarrow> (api_error + 'r) \<times> 'w"
  rc_updateStatus :: "'r \<Rightarrow> 'w \<Rightarrow> (api_error + 'r) \<times> 'w"

type_synonym 'r sorter = "('r \<Rightarrow> 'r \<Rightarrow> bool) \<Rightarrow> 'r list \<Rightarrow> 'r list"

record 'r CheckResourceResult =
  crr_Resource :: "'r option"
  crr_StopReconcile :: bool
  crr_ResourceDoesNotExist :: bool

definition newCheckResourceResult :: "'r option \<Rightarrow> bool \<Rightarrow> bool \<Rightarrow> 'r CheckResourceResult" where
  "newCheckResourceResult resource stopReconcile resourceDoesNotExist =
     \<lparr>crr_Resource = resource, crr_StopReconcile = stopReconcile, crr_ResourceDoesNotExist = resourceDoesNotExist\<rparr>"

text \<open>Reading a namespace, for \<open>CheckIfNamespaceExists\<close>.\<close>

definition CheckIfNamespaceExists :: "(string \<Rightarrow> 'w \<Rightarrow> api_error option \<times> 'w) \<Rightarrow> string \<Rightarrow> ('w, bool \<times> api_error option) action" where
  "CheckIfNamespaceExists getNamespace namespace = do {
     err \<leftarrow> call (getNamespace namespace);
     State_Monad.return (case err of
       None \<Rightarrow> (True, None)
     | Some e \<Rightarrow> if e = NotFound then (False, None) else (True, Some e))
   }"

section \<open>The resource of a request\<close>

definition VerifyThatResourceExists ::
  "('r, 'w) resource_calls \<Rightarrow> string \<Rightarrow> string \<Rightarrow> ('m \<times> 'w, 'r CheckResourceResult \<times> api_error option) state" where
  "VerifyThatResourceExists calls namespace name = do {
     answer \<leftarrow> call (rc_get calls namespace name);
     State_Monad.return (case answer of
       Inl e \<Rightarrow> if e = NotFound then (newCheckResourceResult None True True, None)
               else (newCheckResourceResult None True False, Some e)
     | Inr resource \<Rightarrow> (newCheckResourceResult (Some resource) False False, None))
   }"

definition findAllResourceInstancesInScope ::
  "'r dash0_resource \<Rightarrow> ('r, 'w) resource_calls \<Rightarrow> string \<Rightarrow> ('m \<times> 'w, api_error + 'r list) state" where
  "findAllResourceInstancesInScope cls calls namespace =
     call (rc_list calls (if dr_IsClusterResource cls then None else Some namespace))"

definition SortByCreationTimestamp_Less :: "'r dash0_resource \<Rightarrow> 'r \<Rightarrow> 'r \<Rightarrow> bool" where
  "SortByCreationTimestamp_Less cls x y \<longleftrightarrow> dr_GetCreationTimestamp cls x < dr_GetCreationTimestamp cls y"

definition markAsDegradedDueToNonUniqueResource :: "'r dash0_resource \<Rightarrow> 'r \<Rightarrow> 'r" where
  "markAsDegradedDueToNonUniqueResource cls resource = dr_EnsureResourceIsMarkedAsDegraded cls resource"

text \<open>The loops that mark resources as degraded; an update that fails does not end them.\<close>

fun mark_others :: "'r dash0_resource \<Rightarrow> ('r, 'w) resource_calls \<Rightarrow> ('r \<Rightarrow> bool) \<Rightarrow> 'r list \<Rightarrow> ('w, unit) action" where
  "mark_others cls calls skip [] = State_Monad.return ()"
| "mark_others cls calls skip (r # rs) =
     (if skip r then mark_others cls calls skip rs
      else do {
        _ \<leftarrow> call (rc_updateStatus calls (markAsDegradedDueToNonUniqueResource cls r));
        mark_others cls calls skip rs
      })"

text \<open>The resource after the call, whether to stop the reconcile request, and the error.\<close>

definition VerifyThatResourceIsUniqueInScope ::
  "'r sorter \<Rightarrow> 'r dash0_resource \<Rightarrow> ('r, 'w) resource_calls \<Rightarrow> string \<Rightarrow> 'r \<Rightarrow> ('w, 'r \<times> bool \<times> api_error option) action" where
  "VerifyThatResourceIsUniqueInScope sort_Sort cls calls namespace resource = do {
     answer \<leftarrow> findAllResourceInstancesInScope cls calls namespace;
     (case answer of
        Inl e \<Rightarrow> State_Monad.return (resource, True, Some e)
      | Inr allResources \<Rightarrow>
          if length allResources \<le> 1 then State_Monad.return (resource, False, None)
          else
            (let remaining = filter (\<lambda>r. \<not> dr_IsMarkedForDeletion cls r) allResources
             in if length remaining \<le> 1 then State_Monad.return (resource, False, None)
                else
                  (let sorted = sort_Sort (SortByCreationTimestamp_Less cls) remaining;
                       mostRecentResource = sorted ! (length sorted - 1);
                       uid = dr_GetUID cls
                   in if uid mostRecentResource = uid resource
                      then do {
                        mark_others cls calls (\<lambda>r. uid r = uid resource) sorted;
                        State_Monad.return (resource, False, None)
                      }
                      else do {
                        (resource', err) \<leftarrow>
                          (if \<not> dr_IsDegraded cls resource
                           then do {
                             let marked = markAsDegradedDueToNonUniqueResource cls resource;
                             updated \<leftarrow> call (rc_updateStatus calls marked);
                             State_Monad.return (case updated of Inl e \<Rightarrow> (marked, Some e) | Inr stored \<Rightarrow> (stored, None))
                           }
                           else State_Monad.return (resource, None));
                        (case err of
                           Some e \<Rightarrow> State_Monad.return (resource', True, Some e)
                         | None \<Rightarrow> do {
                             mark_others cls calls (\<lambda>r. uid r = uid mostRecentResource \<or> uid r = uid resource') sorted;
                             State_Monad.return (resource', True, None)
                           })
                      })))
   }"

definition VerifyThatUniqueNonDegradedResourceExists ::
  "'r sorter \<Rightarrow> 'r dash0_resource \<Rightarrow> ('r, 'w) resource_calls \<Rightarrow> string \<Rightarrow> string \<Rightarrow>
   ('w, 'r CheckResourceResult \<times> api_error option) action" where
  "VerifyThatUniqueNonDegradedResourceExists sort_Sort cls calls namespace name = do {
     (checkResourceResult, err) \<leftarrow> VerifyThatResourceExists calls namespace name;
     (if err \<noteq> None \<or> crr_StopReconcile checkResourceResult \<or> crr_ResourceDoesNotExist checkResourceResult
      then State_Monad.return (checkResourceResult, err)
      else case crr_Resource checkResourceResult of
        None \<Rightarrow> State_Monad.return (checkResourceResult, err)
      | Some resource \<Rightarrow> do {
          (resource', stopReconcile, err') \<leftarrow> VerifyThatResourceIsUniqueInScope sort_Sort cls calls namespace resource;
          State_Monad.return (checkResourceResult\<lparr>crr_Resource := Some resource', crr_StopReconcile := stopReconcile\<rparr>, err')
        })
   }"

text \<open>
  \<open>Items\<close> gives pointers to the items of the list, in a slice of its own: sorting them does not change the order of the list
  that \<open>At\<close> reads.
\<close>

definition findMostRecentResource :: "'r sorter \<Rightarrow> 'r dash0_resource \<Rightarrow> 'r list \<Rightarrow> 'r option" where
  "findMostRecentResource sort_Sort cls allResourcesInScope =
     (let items = allResourcesInScope
      in if length items = 0 then None
         else if length items = 1 then Some (allResourcesInScope ! 0)
         else (let items = sort_Sort (SortByCreationTimestamp_Less cls) items
               in Some (allResourcesInScope ! (length items - 1))))"

definition FindUniqueOrMostRecentResourceInScope ::
  "'r sorter \<Rightarrow> 'r dash0_resource \<Rightarrow> ('r, 'w) resource_calls \<Rightarrow> string \<Rightarrow> ('m \<times> 'w, api_error + 'r option) state" where
  "FindUniqueOrMostRecentResourceInScope sort_Sort cls calls namespace = do {
     answer \<leftarrow> findAllResourceInstancesInScope cls calls namespace;
     State_Monad.return (case answer of
       Inl e \<Rightarrow> Inl e
     | Inr allResourcesInScope \<Rightarrow> Inr (findMostRecentResource sort_Sort cls allResourcesInScope))
   }"

section \<open>Status and finalizer\<close>

definition updateResourceStatus :: "('r, 'w) resource_calls \<Rightarrow> 'r \<Rightarrow> ('w, 'r \<times> api_error option) action" where
  "updateResourceStatus calls resource = do {
     answer \<leftarrow> call (rc_updateStatus calls resource);
     State_Monad.return (case answer of Inl e \<Rightarrow> (resource, Some e) | Inr stored \<Rightarrow> (stored, None))
   }"

definition InitStatusConditions ::
  "resource_lib \<Rightarrow> 'r dash0_resource \<Rightarrow> ('r, 'w) resource_calls \<Rightarrow> 'r \<Rightarrow> (string \<times> string) list \<Rightarrow>
   ('w, 'r \<times> bool \<times> api_error option) action" where
  "InitStatusConditions lib cls calls resource conditions =
     (let firstReconcile = (length conditions = 0);
          needsRefresh = (firstReconcile \<or> rl_FindStatusCondition lib conditions ConditionTypeAvailable = None)
      in if needsRefresh
         then do {
           (resource', err) \<leftarrow> updateResourceStatus calls (dr_SetAvailableConditionToUnknown cls resource);
           State_Monad.return (resource', firstReconcile, err)
         }
         else State_Monad.return (resource, firstReconcile, None))"

definition addFinalizerIfNecessary ::
  "resource_lib \<Rightarrow> 'r dash0_resource \<Rightarrow> ('r, 'w) resource_calls \<Rightarrow> 'r \<Rightarrow> string \<Rightarrow> ('w, 'r \<times> api_error option) action" where
  "addFinalizerIfNecessary lib cls calls resource finalizerId =
     (let (finalizers, finalizerHasBeenAdded) = rl_AddFinalizer lib (dr_Finalizers cls resource) finalizerId;
          resource = dr_setFinalizers cls finalizers resource
      in if finalizerHasBeenAdded
         then do {
           answer \<leftarrow> call (rc_update calls resource);
           State_Monad.return (case answer of Inl e \<Rightarrow> (resource, Some e) | Inr stored \<Rightarrow> (stored, None))
         }
         else State_Monad.return (resource, None))"

text \<open>The resource, whether it is marked for deletion, whether to run the cleanup actions, and the error.\<close>

definition CheckImminentDeletionAndHandleFinalizers ::
  "resource_lib \<Rightarrow> 'r dash0_resource \<Rightarrow> ('r, 'w) resource_calls \<Rightarrow> 'r \<Rightarrow> string \<Rightarrow>
   ('w, 'r \<times> bool \<times> bool \<times> api_error option) action" where
  "CheckImminentDeletionAndHandleFinalizers lib cls calls resource finalizerId =
     (let isMarkedForDeletion = dr_IsMarkedForDeletion cls resource
      in if \<not> isMarkedForDeletion
         then do {
           (resource', err) \<leftarrow> addFinalizerIfNecessary lib cls calls resource finalizerId;
           State_Monad.return (resource', isMarkedForDeletion, False, err)
         }
         else State_Monad.return (resource, isMarkedForDeletion, rl_ContainsFinalizer lib (dr_Finalizers cls resource) finalizerId, None))"

end
