(* ===== verification/MonitoringController.thy ===== *)
theory MonitoringController
  imports DashResources Instrumenter
begin

text \<open>
  The controller of the monitoring resource, \<open>internal/controller/monitoring_controller.go\<close>, and \<open>InstrumentAtStartup\<close>
  of \<open>internal/instrumentation/instrumenter.go\<close>.

  The collaborators of the reconciler that are reached through an interface or that may be absent (the clients for the API
  synchronization, the managers of the collector and of the target allocator, the lookup of tokens) are arguments. Attaching
  dangling events in the background, the event filter and the pauses are left out.
\<close>

section \<open>The reconciler\<close>

record ApiConfig =
  ac_Endpoint :: string
  ac_Dataset :: string
  ac_Token :: string

record 'w NamespacedApiClient =
  nc_SetNamespacedApiConfigs :: "string \<Rightarrow> ApiConfig list \<Rightarrow> 'w \<Rightarrow> unit \<times> 'w"
  nc_RemoveNamespacedApiConfigs :: "string \<Rightarrow> 'w \<Rightarrow> unit \<times> 'w"
  nc_SetSynchronizationEnabled :: "string \<Rightarrow> monitoring \<Rightarrow> 'w \<Rightarrow> unit \<times> 'w"
  nc_RemoveSynchronizationEnabled :: "string \<Rightarrow> 'w \<Rightarrow> unit \<times> 'w"

record 'w MonitoringReconciler =
  mr_lib :: resource_lib
  mr_sort :: "monitoring sorter"
  mr_calls :: "(monitoring, 'w) resource_calls"
  mr_api :: "'w instrumenter_api"
  mr_getNamespace :: "string \<Rightarrow> 'w \<Rightarrow> api_error option \<times> 'w"
  mr_getToken :: "Dash0Configuration \<Rightarrow> 'w \<Rightarrow> (api_error + string option) \<times> 'w"
  mr_namespacedApiClients :: "'w NamespacedApiClient list"
  mr_instrumenter :: "instrumenter option"
  mr_collectorManager :: "('w \<Rightarrow> api_error option \<times> 'w) option"
  mr_targetAllocatorManager :: "('w \<Rightarrow> api_error option \<times> 'w) option"

text \<open>The errors with which a reconcile request is requeued.\<close>

datatype reconcile_error = CallFailed api_error | WorkloadsFailed "api_error list"

record statusUpdateInfo =
  su_previousInstrumentWorkloadsMode :: string
  su_currentInstrumentWorkloadsMode :: string
  su_previousInstrumentWorkloadsLabelSelector :: string
  su_currentInstrumentWorkloadsLabelSelector :: string
  su_previousTraceContextPropagators :: "string option"
  su_currentTraceContextPropagators :: "string option"
  su_previousCaptureSqlQueryParameters :: "bool option"
  su_currentCaptureSqlQueryParameters :: "bool option"
  su_previousLogCollectionEnabled :: bool
  su_currentLogCollectionEnabled :: bool

section \<open>Changes of the settings\<close>

definition manageInstrumentWorkloadsChanges :: "monitoring \<Rightarrow> bool \<Rightarrow> ModificationMode option \<times> statusUpdateInfo" where
  "manageInstrumentWorkloadsChanges d isFirstReconcile =
     (let previousMode = mo_PreviousMode d; currentMode = ReadInstrumentWorkloadsMode d;
          previousLabelSelector = mo_PreviousLabelSelector d; currentLabelSelector = mo_LabelSelector d;
          previousPropagators = mo_PreviousPropagators d; currentPropagators = mo_Propagators d;
          previousSql = mo_PreviousCaptureSqlQueryParameters d; currentSql = mo_CaptureSqlQueryParameters d;
          previousLog = ReadBoolPointerWithDefault (mo_PreviousLogCollectionEnabled d) True;
          currentLog = ReadBoolPointerWithDefault (mo_LogCollectionEnabled d) True;
          action =
            (if isFirstReconcile then None
             else if previousMode \<noteq> InstrumentWorkloadsModeAll \<and> previousMode \<noteq> [] \<and> currentMode = InstrumentWorkloadsModeAll
             then Some ModificationModeInstrumentation
             else if previousMode \<noteq> InstrumentWorkloadsModeNone \<and> currentMode = InstrumentWorkloadsModeNone
             then Some ModificationModeUninstrumentation
             else if TrimSpace previousLabelSelector \<noteq> TrimSpace currentLabelSelector \<or>
                     IsStringPointerValueDifferent previousPropagators currentPropagators \<or>
                     ReadBoolPointerWithDefault previousSql False \<noteq> ReadBoolPointerWithDefault currentSql False \<or>
                     previousLog \<noteq> currentLog
             then Some ModificationModeInstrumentation
             else None)
      in (action,
          \<lparr>su_previousInstrumentWorkloadsMode = previousMode, su_currentInstrumentWorkloadsMode = currentMode,
           su_previousInstrumentWorkloadsLabelSelector = previousLabelSelector,
           su_currentInstrumentWorkloadsLabelSelector = currentLabelSelector,
           su_previousTraceContextPropagators = previousPropagators, su_currentTraceContextPropagators = currentPropagators,
           su_previousCaptureSqlQueryParameters = previousSql, su_currentCaptureSqlQueryParameters = currentSql,
           su_previousLogCollectionEnabled = previousLog, su_currentLogCollectionEnabled = currentLog\<rparr>))"

text \<open>The status that \<open>updateStatusAfterReconcile\<close> writes.\<close>

definition status_after_reconcile :: "resource_lib \<Rightarrow> statusUpdateInfo \<Rightarrow> monitoring \<Rightarrow> monitoring" where
  "status_after_reconcile lib su d =
     (let d = EnsureResourceIsMarkedAsAvailable lib d;
          d = (if su_previousInstrumentWorkloadsMode su \<noteq> su_currentInstrumentWorkloadsMode su
               then d\<lparr>mo_PreviousMode := su_currentInstrumentWorkloadsMode su\<rparr> else d);
          d = (if TrimSpace (su_previousInstrumentWorkloadsLabelSelector su) \<noteq> TrimSpace (su_currentInstrumentWorkloadsLabelSelector su)
               then d\<lparr>mo_PreviousLabelSelector := su_currentInstrumentWorkloadsLabelSelector su\<rparr> else d);
          d = (if IsStringPointerValueDifferent (su_previousTraceContextPropagators su) (su_currentTraceContextPropagators su)
               then d\<lparr>mo_PreviousPropagators := su_currentTraceContextPropagators su\<rparr> else d);
          d = (if ReadBoolPointerWithDefault (su_previousCaptureSqlQueryParameters su) False \<noteq>
                  ReadBoolPointerWithDefault (su_currentCaptureSqlQueryParameters su) False
               then d\<lparr>mo_PreviousCaptureSqlQueryParameters := su_currentCaptureSqlQueryParameters su\<rparr> else d)
      in if su_previousLogCollectionEnabled su \<noteq> su_currentLogCollectionEnabled su \<or> mo_PreviousLogCollectionEnabled d = None
         then d\<lparr>mo_PreviousLogCollectionEnabled := Some (su_currentLogCollectionEnabled su)\<rparr> else d)"

definition updateStatusAfterReconcile ::
  "'w MonitoringReconciler \<Rightarrow> monitoring \<Rightarrow> statusUpdateInfo \<Rightarrow> ('w, monitoring \<times> api_error option) action" where
  "updateStatusAfterReconcile r d statusUpdate =
     updateResourceStatus (mr_calls r) (status_after_reconcile (mr_lib r) statusUpdate d)"

section \<open>Collaborators\<close>

definition reconcileOpenTelemetryCollector :: "'w MonitoringReconciler \<Rightarrow> ('w, api_error option) action" where
  "reconcileOpenTelemetryCollector r =
     (case mr_collectorManager r of None \<Rightarrow> State_Monad.return None | Some reconcile \<Rightarrow> call reconcile)"

definition reconcileOpenTelemetryTargetAllocator :: "'w MonitoringReconciler \<Rightarrow> ('w, api_error option) action" where
  "reconcileOpenTelemetryTargetAllocator r =
     (case mr_targetAllocatorManager r of None \<Rightarrow> State_Monad.return None | Some reconcile \<Rightarrow> call reconcile)"

text \<open>Both, in this order; the second is not reached if the first fails.\<close>

definition reconcile_managers :: "'w MonitoringReconciler \<Rightarrow> ('w, reconcile_error option) action" where
  "reconcile_managers r = do {
     err \<leftarrow> reconcileOpenTelemetryCollector r;
     (case err of
        Some e \<Rightarrow> State_Monad.return (Some (CallFailed e))
      | None \<Rightarrow> do {
          err \<leftarrow> reconcileOpenTelemetryTargetAllocator r;
          State_Monad.return (map_option CallFailed err)
        })
   }"

fun each_client :: "('w NamespacedApiClient \<Rightarrow> 'w \<Rightarrow> unit \<times> 'w) \<Rightarrow> 'w NamespacedApiClient list \<Rightarrow> ('w, unit) action" where
  "each_client f [] = State_Monad.return ()"
| "each_client f (client # clients) = do {
     _ \<leftarrow> call (f client);
     each_client f clients
   }"

fun collect_api_configs :: "'w MonitoringReconciler \<Rightarrow> Dash0Configuration list \<Rightarrow> ('w, ApiConfig list) action" where
  "collect_api_configs r [] = State_Monad.return []"
| "collect_api_configs r (dash0Config # configs) = do {
     token \<leftarrow> call (mr_getToken r dash0Config);
     apiConfigs \<leftarrow> collect_api_configs r configs;
     State_Monad.return (case token of
       Inr (Some token) \<Rightarrow>
         \<lparr>ac_Endpoint = dc_ApiEndpoint dash0Config, ac_Dataset = dc_Dataset dash0Config, ac_Token = token\<rparr> # apiConfigs
     | _ \<Rightarrow> apiConfigs)
   }"

definition applyApiAccessSettings :: "'w MonitoringReconciler \<Rightarrow> monitoring \<Rightarrow> ('w, unit) action" where
  "applyApiAccessSettings r d =
     (let clients = mr_namespacedApiClients r; namespace = mo_Namespace d
      in do {
        (if HasDash0ApiAccessConfigured d
         then do {
           apiConfigs \<leftarrow> collect_api_configs r (GetDash0Exports d);
           (if length apiConfigs = 0
            then each_client (\<lambda>client. nc_RemoveNamespacedApiConfigs client namespace) clients
            else each_client (\<lambda>client. nc_SetNamespacedApiConfigs client namespace apiConfigs) clients)
         }
         else each_client (\<lambda>client. nc_RemoveNamespacedApiConfigs client namespace) clients);
        each_client (\<lambda>client. nc_SetSynchronizationEnabled client namespace d) clients
      })"

section \<open>Reconciling\<close>

definition runCleanupActions :: "'w MonitoringReconciler \<Rightarrow> monitoring \<Rightarrow> ('w, reconcile_error option outcome) action" where
  "runCleanupActions r d =
     pbind (case mr_instrumenter r of
              None \<Rightarrow> ok []
            | Some i \<Rightarrow> UninstrumentWorkloadsIfAvailable i (mr_api r) d) (\<lambda>errs.
       if errs \<noteq> [] then ok (Some (WorkloadsFailed errs))
       else safely (do {
         each_client (\<lambda>client. nc_RemoveSynchronizationEnabled client (mo_Namespace d)) (mr_namespacedApiClients r);
         (d, err) \<leftarrow> updateResourceStatus (mr_calls r) (EnsureResourceIsMarkedAsAboutToBeDeleted (mr_lib r) d);
         (case err of
            Some e \<Rightarrow> State_Monad.return (Some (CallFailed e))
          | None \<Rightarrow> do {
              err \<leftarrow> reconcile_managers r;
              (case err of
                 Some e \<Rightarrow> State_Monad.return (Some e)
               | None \<Rightarrow>
                   (let (finalizers, finalizersUpdated) = rl_RemoveFinalizer (mr_lib r) (mo_Finalizers d) MonitoringFinalizerId
                    in if finalizersUpdated
                       then do {
                         answer \<leftarrow> call (rc_update (mr_calls r) (d\<lparr>mo_Finalizers := finalizers\<rparr>));
                         State_Monad.return (case answer of Inl e \<Rightarrow> Some (CallFailed e) | Inr _ \<Rightarrow> None)
                       }
                       else State_Monad.return None))
            })
       }))"

text \<open>The part of \<open>Reconcile\<close> that changes the workloads, for a resource that is not about to be deleted.\<close>

definition reconcile_workloads ::
  "'w MonitoringReconciler \<Rightarrow> monitoring \<Rightarrow> bool \<Rightarrow> ModificationMode option \<Rightarrow> ('w, api_error list outcome) action" where
  "reconcile_workloads r d isFirstReconcile requiredAction =
     (case mr_instrumenter r of
        None \<Rightarrow> ok []
      | Some i \<Rightarrow>
          if isFirstReconcile \<or> requiredAction = Some ModificationModeInstrumentation
          then CheckSettingsAndInstrumentExistingWorkloads i (mr_api r) d
          else if requiredAction = Some ModificationModeUninstrumentation
          then UninstrumentWorkloadsIfAvailable i (mr_api r) d
          else ok [])"

definition reconcile_settings :: "'w MonitoringReconciler \<Rightarrow> monitoring \<Rightarrow> bool \<Rightarrow> ('w, reconcile_error option outcome) action" where
  "reconcile_settings r d isFirstReconcile =
     (let (requiredAction, statusUpdate) = manageInstrumentWorkloadsChanges d isFirstReconcile
      in pbind (reconcile_workloads r d isFirstReconcile requiredAction) (\<lambda>errs.
           if errs \<noteq> [] then ok (Some (WorkloadsFailed errs))
           else safely (do {
             (d, err) \<leftarrow> updateStatusAfterReconcile r d statusUpdate;
             (case err of
                Some e \<Rightarrow> State_Monad.return (Some (CallFailed e))
              | None \<Rightarrow> do {
                  applyApiAccessSettings r d;
                  reconcile_managers r
                })
           })))"

definition reconcile_resource :: "'w MonitoringReconciler \<Rightarrow> monitoring \<Rightarrow> ('w, reconcile_error option outcome) action" where
  "reconcile_resource r d = do {
     (d, isFirstReconcile, err) \<leftarrow> InitStatusConditions (mr_lib r) (monitoring_resource (mr_lib r)) (mr_calls r) d (mo_Conditions d);
     (case err of
        Some e \<Rightarrow> ok (Some (CallFailed e))
      | None \<Rightarrow> do {
          (d, isMarkedForDeletion, runCleanup, err) \<leftarrow>
            CheckImminentDeletionAndHandleFinalizers (mr_lib r) (monitoring_resource (mr_lib r)) (mr_calls r) d MonitoringFinalizerId;
          (case err of
             Some e \<Rightarrow> ok (Some (CallFailed e))
           | None \<Rightarrow>
               if runCleanup then runCleanupActions r d
               else if isMarkedForDeletion then safely (reconcile_managers r)
               else reconcile_settings r d isFirstReconcile)
        })
   }"

definition Reconcile :: "'w MonitoringReconciler \<Rightarrow> string \<Rightarrow> string \<Rightarrow> ('w, reconcile_error option outcome) action" where
  "Reconcile r namespace name = do {
     (namespaceStillExists, err) \<leftarrow> CheckIfNamespaceExists (mr_getNamespace r) namespace;
     (case err of
        Some e \<Rightarrow> ok (Some (CallFailed e))
      | None \<Rightarrow>
          if \<not> namespaceStillExists then ok None
          else do {
            (checkResourceResult, err) \<leftarrow>
              VerifyThatUniqueNonDegradedResourceExists (mr_sort r) (monitoring_resource (mr_lib r)) (mr_calls r) namespace name;
            (case err of
               Some e \<Rightarrow> ok (Some (CallFailed e))
             | None \<Rightarrow>
                 if crr_ResourceDoesNotExist checkResourceResult then safely (reconcile_managers r)
                 else if crr_StopReconcile checkResourceResult then ok None
                 else case crr_Resource checkResourceResult of
                   None \<Rightarrow> State_Monad.return (Inl NilPointerDereference)
                 | Some d \<Rightarrow> reconcile_resource r d)
          })
   }"

section \<open>Startup\<close>

text \<open>The loop of \<open>InstrumentAtStartup\<close>: an error in one namespace does not keep it from the next one.\<close>

fun startup_loop ::
  "'w MonitoringReconciler \<Rightarrow> instrumenter \<Rightarrow> monitoring list \<Rightarrow> ('w, unit outcome) action" where
  "startup_loop r i [] = ok ()"
| "startup_loop r i (d # ds) =
     (if IsMarkedForDeletion d then startup_loop r i ds
      else do {
        (checkResourceResult, err) \<leftarrow>
          VerifyThatUniqueNonDegradedResourceExists (mr_sort r) (monitoring_resource (mr_lib r)) (mr_calls r) (mo_Namespace d) (mo_Name d);
        (if err \<noteq> None \<or> crr_StopReconcile checkResourceResult \<or> crr_ResourceDoesNotExist checkResourceResult
         then startup_loop r i ds
         else case crr_Resource checkResourceResult of
           None \<Rightarrow> State_Monad.return (Inl NilPointerDereference)
         | Some d' \<Rightarrow>
             if IsDegraded d' then startup_loop r i ds
             else pbind (CheckSettingsAndInstrumentExistingWorkloads i (mr_api r) d) (\<lambda>_. startup_loop r i ds))
      })"

definition InstrumentAtStartup :: "'w MonitoringReconciler \<Rightarrow> instrumenter \<Rightarrow> ('w, unit outcome) action" where
  "InstrumentAtStartup r i = do {
     answer \<leftarrow> call (rc_list (mr_calls r) None);
     (case answer of
        Inl _ \<Rightarrow> ok ()
      | Inr resources \<Rightarrow> startup_loop r i resources)
   }"

end
