(* ===== verification/MonitoringProps.thy ===== *)
theory MonitoringProps
  imports InstrumenterProps MonitoringController "HOL-Library.Multiset"
begin

text \<open>
  Properties of the controller of the monitoring resource: of several resources in a namespace one is reconciled, a successful
  reconcile request leaves nothing to do, and a resource is not released before its workloads have been taken care of.
\<close>

section \<open>One resource per scope\<close>

text \<open>What \<open>sort.Sort\<close> guarantees: a permutation in which no element is less than one before it.\<close>

definition sort_laws :: "'r sorter \<Rightarrow> 'r dash0_resource \<Rightarrow> bool" where
  "sort_laws sort_Sort cls \<longleftrightarrow>
     (\<forall>rs. mset (sort_Sort (SortByCreationTimestamp_Less cls) rs) = mset rs \<and>
           sorted_wrt (\<lambda>x y. \<not> SortByCreationTimestamp_Less cls y x) (sort_Sort (SortByCreationTimestamp_Less cls) rs))"

text \<open>
  Finding the most recent resource sorts a copy of the list, so that its answer is the last one of the listing, however old.
\<close>

lemma findMostRecentResource_last:
  assumes "sort_laws sort_Sort cls"
  shows "findMostRecentResource sort_Sort cls rs = (if rs = [] then None else Some (last rs))"
proof -
  have "mset (sort_Sort (SortByCreationTimestamp_Less cls) rs) = mset rs" using assms by (simp add: sort_laws_def)
  then have "length (sort_Sort (SortByCreationTimestamp_Less cls) rs) = length rs" by (rule mset_eq_length)
  then show ?thesis by (cases rs rule: rev_cases) (auto simp: findMostRecentResource_def nth_append Let_def)
qed

text \<open>The resource that wins: the last one after sorting those that are not about to be deleted.\<close>

definition most_recent :: "'r sorter \<Rightarrow> 'r dash0_resource \<Rightarrow> 'r list \<Rightarrow> 'r" where
  "most_recent sort_Sort cls rs =
     last (sort_Sort (SortByCreationTimestamp_Less cls) (filter (\<lambda>r. \<not> dr_IsMarkedForDeletion cls r) rs))"

lemma most_recent_latest:
  assumes "sort_laws sort_Sort cls" and "r \<in> set rs" and "\<not> dr_IsMarkedForDeletion cls r"
  shows "most_recent sort_Sort cls rs \<in> set rs \<and>
    dr_GetCreationTimestamp cls r \<le> dr_GetCreationTimestamp cls (most_recent sort_Sort cls rs)"
proof -
  let ?rs = "filter (\<lambda>r. \<not> dr_IsMarkedForDeletion cls r) rs"
  let ?sorted = "sort_Sort (SortByCreationTimestamp_Less cls) ?rs"
  have perm: "set ?sorted = set ?rs" and ordered: "sorted_wrt (\<lambda>x y. \<not> SortByCreationTimestamp_Less cls y x) ?sorted"
    using assms(1) unfolding sort_laws_def by (metis set_mset_mset, metis)
  have r: "r \<in> set ?sorted" using assms(2,3) perm by simp
  then have ne: "?sorted \<noteq> []" by auto
  have "last ?sorted \<in> set rs" using last_in_set[OF ne] perm by auto
  moreover have "dr_GetCreationTimestamp cls r \<le> dr_GetCreationTimestamp cls (last ?sorted)"
  proof -
    obtain ys where sorted: "?sorted = ys @ [last ?sorted]" using ne by (metis append_butlast_last_id)
    have "sorted_wrt (\<lambda>x y. \<not> SortByCreationTimestamp_Less cls y x) (ys @ [last ?sorted])"
      using ordered sorted by metis
    moreover have "r \<in> set (ys @ [last ?sorted])" using r sorted by metis
    ultimately show ?thesis by (auto simp: sorted_wrt_append SortByCreationTimestamp_Less_def)
  qed
  ultimately show ?thesis by (simp add: most_recent_def)
qed

text \<open>When the check lets a reconcile request continue.\<close>

lemma unique_continues:
  assumes "sort_laws sort_Sort cls"
  shows "wp (VerifyThatResourceIsUniqueInScope sort_Sort cls calls namespace resource)
    (\<lambda>(resource', stop, err) _.
       \<not> stop \<longrightarrow> (\<exists>rs w'. rc_list calls (if dr_IsClusterResource cls then None else Some namespace) w = (Inr rs, w') \<and>
          (length (filter (\<lambda>r. \<not> dr_IsMarkedForDeletion cls r) rs) \<le> 1 \<or>
           dr_GetUID cls (most_recent sort_Sort cls rs) = dr_GetUID cls resource))) (es, w)"
proof -
  have len: "length (sort_Sort (SortByCreationTimestamp_Less cls) rs) = length rs" for rs
    using assms unfolding sort_laws_def by (metis mset_eq_length)
  then have last: "sort_Sort (SortByCreationTimestamp_Less cls) rs ! (length rs - 1) = last (sort_Sort (SortByCreationTimestamp_Less cls) rs)"
    if "length rs > 1" for rs using that by (metis last_conv_nth length_0_conv not_one_less_zero)
  have wp_any: "(\<And>a s'. Q a s') \<Longrightarrow> wp f Q s" for f :: "('c, 'd) state" and Q s by (simp add: wp_def case_prod_unfold)
  obtain answer w' where list: "rc_list calls (if dr_IsClusterResource cls then None else Some namespace) w = (answer, w')"
    by fastforce
  show ?thesis
  proof (cases answer)
    case (Inl e)
    with list show ?thesis
      by (simp add: VerifyThatResourceIsUniqueInScope_def findAllResourceInstancesInScope_def wp_def call_def)
  next
    case (Inr rs)
    let ?rs = "filter (\<lambda>r. \<not> dr_IsMarkedForDeletion cls r) rs"
    have fetched: "wp (findAllResourceInstancesInScope cls calls namespace) Q (es, w) = Q (Inr rs) (es, w')" for Q
      using list Inr by (simp add: findAllResourceInstancesInScope_def wp_def call_def)
    have few: "length rs \<le> 1 \<Longrightarrow> length ?rs \<le> 1" using length_filter_le[of _ rs] by (rule order_trans)
    show ?thesis
    proof (cases "length ?rs \<le> 1")
      case True
      with list Inr few show ?thesis
        by (simp add: VerifyThatResourceIsUniqueInScope_def wp_bind fetched wp_cases wp_return Let_def)
    next
      case False
      then have "length rs > 1" using few by linarith
      moreover have "sort_Sort (SortByCreationTimestamp_Less cls) ?rs ! (length ?rs - Suc 0) = most_recent sort_Sort cls rs"
        using last[of ?rs] False by (simp add: most_recent_def)
      ultimately show ?thesis using False list Inr
        by (auto simp: VerifyThatResourceIsUniqueInScope_def wp_bind fetched wp_cases wp_return Let_def len
            intro!: wp_any split: option.split)
    qed
  qed
qed

lemma continuing_is_latest:
  assumes laws: "sort_laws sort_Sort cls" and inj: "inj_on (dr_GetUID cls) (set rs)"
    and "resource \<in> set rs" and "\<not> dr_IsMarkedForDeletion cls resource"
    and "fst (rc_list calls (if dr_IsClusterResource cls then None else Some namespace) w) = Inr rs"
    and "run_state (VerifyThatResourceIsUniqueInScope sort_Sort cls calls namespace resource) (es, w) = ((resource', False, err), s')"
    and "r \<in> set rs" and "\<not> dr_IsMarkedForDeletion cls r"
  shows "dr_GetCreationTimestamp cls r \<le> dr_GetCreationTimestamp cls resource \<and>
    (length (filter (\<lambda>r. \<not> dr_IsMarkedForDeletion cls r) rs) \<le> 1 \<or> resource = most_recent sort_Sort cls rs)"
proof -
  have "length (filter (\<lambda>r. \<not> dr_IsMarkedForDeletion cls r) rs) \<le> 1 \<or>
      dr_GetUID cls (most_recent sort_Sort cls rs) = dr_GetUID cls resource"
    using unique_continues[OF laws, where calls = calls and namespace = namespace and resource = resource and es = es and w = w] assms(5,6) by (auto simp: wp_def)
  then show ?thesis
  proof
    assume few: "length (filter (\<lambda>r. \<not> dr_IsMarkedForDeletion cls r) rs) \<le> 1"
    have "resource \<in> set (filter (\<lambda>r. \<not> dr_IsMarkedForDeletion cls r) rs)" "r \<in> set (filter (\<lambda>r. \<not> dr_IsMarkedForDeletion cls r) rs)"
      using assms(3,4,7,8) by simp_all
    with few have "r = resource"
      by (cases "filter (\<lambda>r. \<not> dr_IsMarkedForDeletion cls r) rs") auto
    with few show ?thesis by simp
  next
    assume "dr_GetUID cls (most_recent sort_Sort cls rs) = dr_GetUID cls resource"
    with inj assms(3) most_recent_latest[OF laws assms(7,8)] have "resource = most_recent sort_Sort cls rs"
      by (auto dest: inj_onD)
    with most_recent_latest[OF laws assms(7,8)] show ?thesis by simp
  qed
qed

lemmas passes_defs =
  CheckSettingsAndInstrumentExistingWorkloads_def instrumentAllWorkloads_def Let_def
  findAndInstrumentCronJobs_def findAndInstrumentyDaemonSets_def findAndInstrumentDeployments_def
  findAndAddLabelsToImmutableJobsOnInstrumentation_def findAndInstrumentReplicaSets_def findAndInstrumentStatefulSets_def
  instrumentCronJob_def instrumentDaemonSet_def instrumentDeployment_def instrumentReplicaSet_def instrumentStatefulSet_def
  UninstrumentWorkloadsIfAvailable_def uninstrumentAllWorkloads_def
  findAndUninstrumentCronJobs_def findAndUninstrumentDaemonSets_def findAndUninstrumentDeployments_def
  findAndHandleJobOnUninstrumentation_def findAndUninstrumentReplicaSets_def findAndUninstrumentStatefulSets_def
  uninstrumentCronJob_def uninstrumentDaemonSet_def uninstrumentDeployment_def uninstrumentReplicaSet_def uninstrumentStatefulSet_def

section \<open>What the passes over the workloads do not see\<close>

text \<open>A part of the world that none of the calls for workloads changes.\<close>

definition observes :: "('w \<Rightarrow> 'x) \<Rightarrow> 'x \<Rightarrow> event list \<times> 'w \<Rightarrow> bool" where
  "observes f x s \<longleftrightarrow> f (snd s) = x"

definition api_preserves :: "'w instrumenter_api \<Rightarrow> ('w \<Rightarrow> 'x) \<Rightarrow> bool" where
  "api_preserves api f \<longleftrightarrow>
     (\<forall>kind namespace name w. f (snd (ia_get api kind namespace name w)) = f w) \<and>
     (\<forall>obj w. f (snd (ia_update api obj w)) = f w) \<and>
     (\<forall>kind namespace b w. f (snd (ia_list api kind namespace b w)) = f w) \<and>
     (\<forall>namespace w. f (snd (ia_pods api namespace w)) = f w) \<and>
     (\<forall>pod w. f (snd (ia_deletePod api pod w)) = f w) \<and>
     (\<forall>namespace name w. f (snd (wa_cronJob api namespace name w)) = f w)"

lemma observes_call: "(\<And>w. f (snd (c w)) = f w) \<Longrightarrow> keeps (observes f x) (call c)"
  by (auto simp: keeps_def observes_def wp_def call_def case_prod_unfold)

lemma observes_queue:
  "keeps (observes f x) (queue e)"
  "keeps (observes f x) (HandlePotentiallySuccessfulInstrumentationEvent issues)"
  by (auto simp: keeps_def wp_simps observes_def HandlePotentiallySuccessfulInstrumentationEvent_def)

lemma observes_postProcess:
  "keeps (observes f x) (postProcessInstrumentation result err)"
  "keeps (observes f x) (postProcessUninstrumentation result err)"
  unfolding postProcessInstrumentation_def postProcessUninstrumentation_def
  by (intro keeps_intros observes_queue)+

lemma observes_delete_pods: "api_preserves api f \<Longrightarrow> keeps (observes f x) (delete_pods api pods)"
  by (induction pods) (auto simp: api_preserves_def intro!: keeps_intros observes_call)

lemma observes_workloads:
  assumes contract: "on_error_contract api" and api: "api_preserves api f"
  shows "keeps (observes f x) (instrumentWorkload i api ns wk obj)"
    and "keeps (observes f x) (revertWorkloadInstrumentation i api ns wk obj)"
    and "keeps (observes f x) (restartPodsOfReplicaSet api obj)"
    and "keeps (observes f x) (handleJobOnInstrumentation i api ns obj)"
    and "keeps (observes f x) (handleJobOnUninstrumentation api obj)"
proof -
  have calls: "keeps (observes f x) (fetch api o')" "keeps (observes f x) (update api a)" for o' a
    using api unfolding fetch_def update_def api_preserves_def by (auto intro!: keeps_intros observes_call)
  have attempts: "keeps (observes f x) (modify_attempt api label modify a)" "keeps (observes f x) (remove_label_attempt api a)"
    "keeps (observes f x) (job_update_attempt api modifyJob a)" "keeps (observes f x) (job_revert_attempt api a)" for label modify modifyJob a
    unfolding modify_attempt_def remove_label_attempt_def job_update_attempt_def job_revert_attempt_def Let_def
    by (intro keeps_intros calls)+
  note retry = keeps_Retry[OF contract]
  have leftover: "keeps (observes f x) (removeLeftoverWebhookIgnoreOnceLabel api o')" for o'
    unfolding removeLeftoverWebhookIgnoreOnceLabel_def by (intro keeps_intros retry attempts)
  have "keeps (observes f x) (apply_action i api ns wk obj mode label)" for mode label
    unfolding apply_action_def run_modification_def
    by (cases mode) (auto intro!: keeps_intros retry attempts leftover observes_postProcess)
  then show "keeps (observes f x) (instrumentWorkload i api ns wk obj)"
    unfolding instrumentWorkload_def by (intro keeps_intros leftover) auto
  show "keeps (observes f x) (revertWorkloadInstrumentation i api ns wk obj)"
    unfolding revertWorkloadInstrumentation_def run_modification_def
    by (intro keeps_intros retry attempts observes_postProcess)
  show "keeps (observes f x) (restartPodsOfReplicaSet api obj)"
    using api unfolding restartPodsOfReplicaSet_def
    by (auto simp: api_preserves_def intro!: keeps_intros observes_call observes_delete_pods)
  have "keeps (observes f x) (ReadControllingCronJob api (ob_Namespace obj) obj)"
    using api unfolding ReadControllingCronJob_def by (auto simp: api_preserves_def intro!: keeps_intros observes_call)
  then show "keeps (observes f x) (handleJobOnInstrumentation i api ns obj)"
    unfolding handleJobOnInstrumentation_def Let_def
    by (auto intro!: keeps_intros retry attempts observes_postProcess split: ModificationMode.split)
  show "keeps (observes f x) (handleJobOnUninstrumentation api obj)"
    unfolding handleJobOnUninstrumentation_def by (intro keeps_intros retry attempts observes_postProcess)
qed

lemma observes_passes:
  assumes contract: "on_error_contract api" and api: "api_preserves api f"
  shows "keeps (observes f x) (CheckSettingsAndInstrumentExistingWorkloads i api resource)"
    and "keeps (observes f x) (UninstrumentWorkloadsIfAvailable i api resource)"
proof -
  note single = observes_workloads[OF assms]
  have listing: "keeps (observes f x) (eachListItem_of api kind namespace b g)" if "\<And>obj. keeps (observes f x) (g obj)"
    for kind namespace b g
    using api that unfolding eachListItem_of_def
    by (auto simp: api_preserves_def intro!: keeps_intros observes_call keeps_for_each)
  show "keeps (observes f x) (CheckSettingsAndInstrumentExistingWorkloads i api resource)"
    unfolding passes_defs by (auto intro!: keeps_intros keeps_join listing single)
  show "keeps (observes f x) (UninstrumentWorkloadsIfAvailable i api resource)"
    unfolding passes_defs by (auto intro!: keeps_intros keeps_join listing single)
qed

section \<open>The stored resources\<close>

type_synonym resource_key = "string \<times> string"

definition resource_key :: "monitoring \<Rightarrow> resource_key" where
  "resource_key d = (mo_Namespace d, mo_Name d)"

text \<open>A resource with the status of another one.\<close>

definition with_status_of :: "monitoring \<Rightarrow> monitoring \<Rightarrow> monitoring" where
  "with_status_of status d =
     d\<lparr>mo_Conditions := mo_Conditions status, mo_PreviousMode := mo_PreviousMode status,
       mo_PreviousLabelSelector := mo_PreviousLabelSelector status, mo_PreviousPropagators := mo_PreviousPropagators status,
       mo_PreviousCaptureSqlQueryParameters := mo_PreviousCaptureSqlQueryParameters status,
       mo_PreviousLogCollectionEnabled := mo_PreviousLogCollectionEnabled status\<rparr>"

text \<open>
  The API server with a single client: \<open>Update\<close> ignores the status and \<open>Status().Update\<close> everything else, and both return
  the stored object. An update of a resource that is being deleted and has no finalizer left deletes it. An update that fails
  may or may not have been carried out.
\<close>

definition get_answer :: "(resource_key \<Rightarrow> monitoring option) \<Rightarrow> resource_key \<Rightarrow> api_error + monitoring \<Rightarrow> bool" where
  "get_answer S k r \<longleftrightarrow> (case r of Inl e \<Rightarrow> e = NotFound \<longrightarrow> S k = None | Inr d \<Rightarrow> S k = Some d)"

definition list_answer :: "(resource_key \<Rightarrow> monitoring option) \<Rightarrow> string option \<Rightarrow> api_error + monitoring list \<Rightarrow> bool" where
  "list_answer S scope r \<longleftrightarrow>
     (case r of Inl _ \<Rightarrow> True | Inr rs \<Rightarrow> distinct rs \<and>
        (\<forall>d\<in>set rs. S (resource_key d) = Some d \<and> pred_option (\<lambda>namespace. mo_Namespace d = namespace) scope))"

definition status_answer ::
  "(resource_key \<Rightarrow> monitoring option) \<Rightarrow> monitoring \<Rightarrow> api_error + monitoring \<Rightarrow> (resource_key \<Rightarrow> monitoring option) \<Rightarrow> bool" where
  "status_answer S d r S' \<longleftrightarrow>
     isl r \<and> S' = S \<or>
     (\<exists>base. S (resource_key d) = Some base \<and> S' = S(resource_key d \<mapsto> with_status_of d base) \<and>
        (\<forall>d'. r = Inr d' \<longrightarrow> d' = with_status_of d base))"

definition update_answer ::
  "(resource_key \<Rightarrow> monitoring option) \<Rightarrow> monitoring \<Rightarrow> api_error + monitoring \<Rightarrow> (resource_key \<Rightarrow> monitoring option) \<Rightarrow> bool" where
  "update_answer S d r S' \<longleftrightarrow>
     isl r \<and> S' = S \<or>
     (\<exists>base. S (resource_key d) = Some base \<and>
        (S' = S(resource_key d \<mapsto> with_status_of base d) \<or>
         mo_Deleting base \<and> mo_Finalizers d = [] \<and> S' = S(resource_key d := None)) \<and>
        (\<forall>d'. r = Inr d' \<longrightarrow> d' = with_status_of base d))"

definition resource_store_laws :: "(monitoring, 'w) resource_calls \<Rightarrow> ('w \<Rightarrow> resource_key \<Rightarrow> monitoring option) \<Rightarrow> bool" where
  "resource_store_laws calls stored \<longleftrightarrow>
     (\<forall>w k d. stored w k = Some d \<longrightarrow> resource_key d = k) \<and>
     (\<forall>namespace name w. get_answer (stored w) (namespace, name) (fst (rc_get calls namespace name w)) \<and>
        stored (snd (rc_get calls namespace name w)) = stored w) \<and>
     (\<forall>scope w. list_answer (stored w) scope (fst (rc_list calls scope w)) \<and> stored (snd (rc_list calls scope w)) = stored w) \<and>
     (\<forall>d w. status_answer (stored w) d (fst (rc_updateStatus calls d w)) (stored (snd (rc_updateStatus calls d w)))) \<and>
     (\<forall>d w. update_answer (stored w) d (fst (rc_update calls d w)) (stored (snd (rc_update calls d w))))"

lemma stored_key: "resource_store_laws calls stored \<Longrightarrow> stored w k = Some d \<Longrightarrow> resource_key d = k"
  unfolding resource_store_laws_def by (elim conjE allE) (erule mp)

lemma wp_answer:
  assumes "\<And>w'. w' = snd (c w) \<Longrightarrow> Q (fst (c w)) (es, w')"
  shows "wp (call c) Q (es, w)"
  using assms by (simp add: wp_def call_def case_prod_unfold)

lemma wp_updateResourceStatus:
  assumes "resource_store_laws calls stored" and "stored w (resource_key d) = Some base"
    and failed: "\<And>e w'. stored w' = stored w \<or> stored w' = (stored w)(resource_key d \<mapsto> with_status_of d base) \<Longrightarrow> Q (d, Some e) (es, w')"
    and updated: "\<And>w'. stored w' = (stored w)(resource_key d \<mapsto> with_status_of d base) \<Longrightarrow> Q (with_status_of d base, None) (es, w')"
  shows "wp (updateResourceStatus calls d) Q (es, w)"
  unfolding updateResourceStatus_def wp_bind wp_return
proof (rule wp_answer)
  fix w' assume w': "w' = snd (rc_updateStatus calls d w)"
  have "status_answer (stored w) d (fst (rc_updateStatus calls d w)) (stored w')"
    using assms(1) by (simp add: resource_store_laws_def w')
  then show "Q (case fst (rc_updateStatus calls d w) of Inl e \<Rightarrow> (d, Some e) | Inr stored \<Rightarrow> (stored, None)) (es, w')"
    using assms(2) failed[of w'] updated[of w']
    by (cases "fst (rc_updateStatus calls d w)") (auto simp: status_answer_def)
qed

text \<open>The collaborators of the reconciler leave the monitoring resources alone.\<close>

definition collaborators_preserve :: "'w MonitoringReconciler \<Rightarrow> ('w \<Rightarrow> 'x) \<Rightarrow> bool" where
  "collaborators_preserve r f \<longleftrightarrow>
     (\<forall>namespace w. f (snd (mr_getNamespace r namespace w)) = f w) \<and>
     (\<forall>config w. f (snd (mr_getToken r config w)) = f w) \<and>
     (\<forall>client\<in>set (mr_namespacedApiClients r).
        (\<forall>namespace configs w. f (snd (nc_SetNamespacedApiConfigs client namespace configs w)) = f w) \<and>
        (\<forall>namespace w. f (snd (nc_RemoveNamespacedApiConfigs client namespace w)) = f w) \<and>
        (\<forall>namespace d w. f (snd (nc_SetSynchronizationEnabled client namespace d w)) = f w) \<and>
        (\<forall>namespace w. f (snd (nc_RemoveSynchronizationEnabled client namespace w)) = f w)) \<and>
     pred_option (\<lambda>reconcile. \<forall>w. f (snd (reconcile w)) = f w) (mr_collectorManager r) \<and>
     pred_option (\<lambda>reconcile. \<forall>w. f (snd (reconcile w)) = f w) (mr_targetAllocatorManager r)"

lemma observes_each_client:
  "(\<And>client w. client \<in> set clients \<Longrightarrow> f (snd (g client w)) = f w) \<Longrightarrow> keeps (observes f x) (each_client g clients)"
  by (induction clients) (auto intro!: keeps_intros observes_call)

lemma observes_collaborators:
  assumes "collaborators_preserve r f"
  shows "keeps (observes f x) (CheckIfNamespaceExists (mr_getNamespace r) namespace)"
    and "keeps (observes f x) (reconcile_managers r)"
    and "keeps (observes f x) (applyApiAccessSettings r d)"
    and "keeps (observes f x) (each_client (\<lambda>client. nc_RemoveSynchronizationEnabled client namespace) (mr_namespacedApiClients r))"
proof -
  show "keeps (observes f x) (CheckIfNamespaceExists (mr_getNamespace r) namespace)"
    using assms unfolding CheckIfNamespaceExists_def collaborators_preserve_def by (auto intro!: keeps_intros observes_call)
  show "keeps (observes f x) (reconcile_managers r)"
    using assms
    unfolding reconcile_managers_def reconcileOpenTelemetryCollector_def reconcileOpenTelemetryTargetAllocator_def collaborators_preserve_def
    by (auto intro!: keeps_intros observes_call)
  have "keeps (observes f x) (collect_api_configs r configs)" for configs
    using assms unfolding collaborators_preserve_def
    by (induction configs) (auto intro!: keeps_intros observes_call)
  then show "keeps (observes f x) (applyApiAccessSettings r d)"
    using assms unfolding applyApiAccessSettings_def Let_def collaborators_preserve_def
    by (auto intro!: keeps_intros observes_each_client)
  show "keeps (observes f x) (each_client (\<lambda>client. nc_RemoveSynchronizationEnabled client namespace) (mr_namespacedApiClients r))"
    using assms unfolding collaborators_preserve_def by (auto intro!: observes_each_client)
qed

section \<open>A successful reconcile request\<close>

lemma different_refl [simp]: "\<not> IsStringPointerValueDifferent a a"
  by (simp add: IsStringPointerValueDifferent_def split: option.split)

text \<open>The resource is available, and its settings are the ones that have been applied.\<close>

definition settled :: "monitoring \<Rightarrow> bool" where
  "settled d \<longleftrightarrow> IsAvailable d \<and> \<not> IsDegraded d \<and> fst (manageInstrumentWorkloadsChanges d False) = None"

lemma update_if:
  "(if c then d\<lparr>mo_PreviousMode := m\<rparr> else d) = d\<lparr>mo_PreviousMode := if c then m else mo_PreviousMode d\<rparr>"
  "(if c then d\<lparr>mo_PreviousLabelSelector := l\<rparr> else d) = d\<lparr>mo_PreviousLabelSelector := if c then l else mo_PreviousLabelSelector d\<rparr>"
  "(if c then d\<lparr>mo_PreviousPropagators := p\<rparr> else d) = d\<lparr>mo_PreviousPropagators := if c then p else mo_PreviousPropagators d\<rparr>"
  "(if c then d\<lparr>mo_PreviousCaptureSqlQueryParameters := q\<rparr> else d) =
     d\<lparr>mo_PreviousCaptureSqlQueryParameters := if c then q else mo_PreviousCaptureSqlQueryParameters d\<rparr>"
  "(if c then d\<lparr>mo_PreviousLogCollectionEnabled := q\<rparr> else d) =
     d\<lparr>mo_PreviousLogCollectionEnabled := if c then q else mo_PreviousLogCollectionEnabled d\<rparr>"
  by simp_all

lemma status_settled:
  assumes "resource_lib_laws lib" and "d' = status_after_reconcile lib (snd (manageInstrumentWorkloadsChanges d b)) d"
  shows "settled d'" and "with_status_of d' d = d'"
proof -
  let ?d = "EnsureResourceIsMarkedAsAvailable lib d"
  have keeps: "mo_Conditions d' = mo_Conditions ?d" "mo_Mode d' = mo_Mode d" "mo_LabelSelector d' = mo_LabelSelector d"
    "mo_Propagators d' = mo_Propagators d" "mo_CaptureSqlQueryParameters d' = mo_CaptureSqlQueryParameters d"
    "mo_LogCollectionEnabled d' = mo_LogCollectionEnabled d"
    unfolding assms(2) status_after_reconcile_def Let_def update_if EnsureResourceIsMarkedAsAvailable_def by simp_all
  then have mode: "ReadInstrumentWorkloadsMode d' = ReadInstrumentWorkloadsMode d"
    by (simp add: ReadInstrumentWorkloadsMode_def)
  have "mo_PreviousMode d' = ReadInstrumentWorkloadsMode d"
    "TrimSpace (mo_PreviousLabelSelector d') = TrimSpace (mo_LabelSelector d)"
    "\<not> IsStringPointerValueDifferent (mo_PreviousPropagators d') (mo_Propagators d)"
    "ReadBoolPointerWithDefault (mo_PreviousCaptureSqlQueryParameters d') False =
       ReadBoolPointerWithDefault (mo_CaptureSqlQueryParameters d) False"
    "ReadBoolPointerWithDefault (mo_PreviousLogCollectionEnabled d') True = ReadBoolPointerWithDefault (mo_LogCollectionEnabled d) True"
    unfolding assms(2) status_after_reconcile_def manageInstrumentWorkloadsChanges_def Let_def update_if EnsureResourceIsMarkedAsAvailable_def
    by (simp_all add: ReadBoolPointerWithDefault_def)
  then have "fst (manageInstrumentWorkloadsChanges d' False) = None"
    by (auto simp: manageInstrumentWorkloadsChanges_def Let_def keeps mode)
  moreover have "IsAvailable ?d \<and> \<not> IsDegraded ?d"
    using assms(1) by (simp add: resource_lib_laws_def IsAvailable_def IsDegraded_def getCondition_def
        EnsureResourceIsMarkedAsAvailable_def ConditionTypeAvailable_def ConditionTypeDegraded_def)
  ultimately show "settled d'"
    by (simp add: settled_def IsAvailable_def IsDegraded_def getCondition_def keeps)
  show "with_status_of d' d = d'"
    unfolding assms(2) status_after_reconcile_def Let_def update_if EnsureResourceIsMarkedAsAvailable_def with_status_of_def by simp
qed

lemma keeps_wp:
  assumes "keeps (observes f x) c" and "f w = x" and "\<And>a es' w'. f w' = x \<Longrightarrow> Q a (es', w')"
  shows "wp c Q (es, w)"
proof -
  have "wp c (\<lambda>_. observes f x) (es, w)" using assms(1,2) by (simp add: keeps_def observes_def)
  then show ?thesis
  proof (rule wp_mono)
    fix a s' assume "observes f x s'"
    then show "Q a s'" using assms(3)[of "snd s'" a "fst s'"] by (simp add: observes_def)
  qed
qed

text \<open>If no error is reported then the stored resource is settled and has its finalizer.\<close>

definition success :: "('w \<Rightarrow> resource_key \<Rightarrow> monitoring option) \<Rightarrow> resource_key \<Rightarrow> reconcile_error option outcome \<Rightarrow> event list \<times> 'w \<Rightarrow> bool" where
  "success stored k r s \<longleftrightarrow>
     (r = Inr None \<longrightarrow> (\<exists>d. stored (snd s) k = Some d \<and> settled d \<and> MonitoringFinalizerId \<in> set (mo_Finalizers d)))"

lemma reconcile_workloads_keeps:
  assumes "on_error_contract (mr_api r)" and "api_preserves (mr_api r) f"
  shows "keeps (observes f x) (reconcile_workloads r d b act)"
  unfolding reconcile_workloads_def by (intro keeps_intros observes_passes[OF assms])

lemma reconcile_settings_success:
  assumes laws: "resource_store_laws (mr_calls r) stored" "resource_lib_laws (mr_lib r)"
    and passes: "on_error_contract (mr_api r)" "api_preserves (mr_api r) stored" and others: "collaborators_preserve r stored"
    and "stored w (resource_key d) = Some d" and "MonitoringFinalizerId \<in> set (mo_Finalizers d)"
  shows "wp (reconcile_settings r d b) (success stored (resource_key d)) (es, w)"
proof -
  obtain act su where manage: "manageInstrumentWorkloadsChanges d b = (act, su)" by fastforce
  let ?d = "status_after_reconcile (mr_lib r) su d"
  have d': "settled ?d" "with_status_of ?d d = ?d" using status_settled[OF laws(2), of ?d d b] manage by simp_all
  have key: "resource_key ?d = resource_key d" and fin: "mo_Finalizers ?d = mo_Finalizers d"
    unfolding resource_key_def status_after_reconcile_def Let_def update_if EnsureResourceIsMarkedAsAvailable_def by simp_all
  have after: "wp (safely (do {
       (d, err) \<leftarrow> updateStatusAfterReconcile r d su;
       (case err of Some e \<Rightarrow> State_Monad.return (Some (CallFailed e))
        | None \<Rightarrow> do { applyApiAccessSettings r d; reconcile_managers r })})) (success stored (resource_key d)) (es', w')"
    if "stored w' = stored w" for es' w'
    unfolding wp_safely wp_bind updateStatusAfterReconcile_def
  proof (rule wp_updateResourceStatus[OF laws(1), where base = d], goal_cases)
    case 1
    show ?case using that assms(6) key by simp
  next
    case (2 e w'')
    show ?case by (simp add: wp_simps success_def)
  next
    case (3 w'')
    have "wp (applyApiAccessSettings r ?d) (\<lambda>_. wp (reconcile_managers r) (\<lambda>a. success stored (resource_key d) (Inr a))) (es', w'')"
      using d' fin assms(7) 3
      by (intro keeps_wp[OF observes_collaborators(3)[OF others] refl] keeps_wp[OF observes_collaborators(2)[OF others]])
        (auto simp: success_def key d')
    then show ?case by (simp add: wp_simps d')
  qed
  show ?thesis
    unfolding reconcile_settings_def manage prod.case Let_def wp_pbind
  proof (rule keeps_wp[OF reconcile_workloads_keeps[OF passes] refl], goal_cases)
    case (1 answer es' w')
    show ?case
    proof (cases answer)
      case (Inr errs)
      with after[OF 1] show ?thesis by (cases "errs = []") (simp_all add: wp_ok success_def)
    qed (simp add: success_def)
  qed
qed

lemma wp_InitStatusConditions:
  assumes laws: "resource_store_laws calls stored" and "stored w (resource_key d) = Some d"
    and failed: "\<And>d' b e s'. Q (d', b, Some e) s'"
    and init: "\<And>d' b w'. stored w' (resource_key d) = Some d' \<Longrightarrow> d' \<in> {d, SetAvailableConditionToUnknown lib d} \<Longrightarrow> Q (d', b, None) (es, w')"
  shows "wp (InitStatusConditions lib (monitoring_resource lib) calls d (mo_Conditions d)) Q (es, w)"
proof -
  let ?d = "SetAvailableConditionToUnknown lib d"
  have key: "resource_key ?d = resource_key d" and status: "with_status_of ?d d = ?d"
    by (simp_all add: resource_key_def SetAvailableConditionToUnknown_def with_status_of_def)
  have "wp (updateResourceStatus calls ?d) (\<lambda>(d', err). Q (d', b, err)) (es, w)" for b
    using assms(2) by (intro wp_updateResourceStatus[OF laws, where base = d]) (auto simp: key status failed init)
  then show ?thesis
    using assms(2)
    by (auto simp: InitStatusConditions_def monitoring_resource_def Let_def wp_simps case_prod_unfold init)
qed

lemma wp_addFinalizer:
  assumes laws: "resource_store_laws calls stored" "resource_lib_laws lib"
    and "stored w (resource_key d) = Some d" and "\<not> mo_Deleting d"
    and failed: "\<And>d' e s'. Q (d', Some e) s'"
    and added: "\<And>d' w'. stored w' (resource_key d) = Some d' \<Longrightarrow> finalizerId \<in> set (mo_Finalizers d') \<Longrightarrow>
      resource_key d' = resource_key d \<Longrightarrow> Q (d', None) (es, w')"
  shows "wp (addFinalizerIfNecessary lib (monitoring_resource lib) calls d finalizerId) Q (es, w)"
proof (cases "finalizerId \<in> set (mo_Finalizers d)")
  case True
  with laws(2) assms(3) added[of w d] show ?thesis
    by (simp add: addFinalizerIfNecessary_def resource_lib_laws_def monitoring_resource_def wp_simps)
next
  case False
  let ?d = "d\<lparr>mo_Finalizers := mo_Finalizers d @ [finalizerId]\<rparr>"
  have key: "resource_key ?d = resource_key d" and status: "with_status_of d ?d = ?d"
    by (simp_all add: resource_key_def with_status_of_def)
  have "wp (call (rc_update calls ?d)) (\<lambda>answer. Q (case answer of Inl e \<Rightarrow> (?d, Some e) | Inr stored \<Rightarrow> (stored, None))) (es, w)"
  proof (rule wp_answer)
    fix w' assume w': "w' = snd (rc_update calls ?d w)"
    have "update_answer (stored w) ?d (fst (rc_update calls ?d w)) (stored w')"
      using laws(1) by (simp add: resource_store_laws_def w')
    then show "Q (case fst (rc_update calls ?d w) of Inl e \<Rightarrow> (?d, Some e) | Inr stored \<Rightarrow> (stored, None)) (es, w')"
      using assms(3,4) failed added[of w' ?d] key status
      by (cases "fst (rc_update calls ?d w)") (auto simp: update_answer_def)
  qed
  with False laws(2) show ?thesis
    by (simp add: addFinalizerIfNecessary_def resource_lib_laws_def monitoring_resource_def wp_simps Let_def)
qed

lemma reconcile_resource_success:
  assumes laws: "resource_store_laws (mr_calls r) stored" "resource_lib_laws (mr_lib r)"
    and passes: "on_error_contract (mr_api r)" "api_preserves (mr_api r) stored" and others: "collaborators_preserve r stored"
    and "stored w (resource_key d) = Some d" and "\<not> mo_Deleting d"
  shows "wp (reconcile_resource r d) (success stored (resource_key d)) (es, w)"
  unfolding reconcile_resource_def wp_bind
proof (rule wp_InitStatusConditions[OF laws(1) assms(6)], goal_cases)
  case (1 d' b e s')
  show ?case by (simp add: wp_simps success_def)
next
  case (2 d' b w')
  then have d': "resource_key d' = resource_key d" "\<not> mo_Deleting d'"
    using assms(7) by (auto simp: resource_key_def SetAvailableConditionToUnknown_def)
  have "wp (addFinalizerIfNecessary (mr_lib r) (monitoring_resource (mr_lib r)) (mr_calls r) d' MonitoringFinalizerId)
     (\<lambda>(d'', err). wp (case err of Some e \<Rightarrow> ok (Some (CallFailed e)) | None \<Rightarrow> reconcile_settings r d'' b)
       (success stored (resource_key d))) (es, w')"
  proof (rule wp_addFinalizer[OF laws], goal_cases)
    case 1
    show ?case using 2 d' by simp
  next
    case 2
    show ?case by (rule d'(2))
  next
    case (3 d'' e s')
    show ?case by (simp add: wp_simps success_def)
  next
    case (4 d'' w'')
    then show ?case using reconcile_settings_success[OF laws passes others, of w'' d'' b es] d' by simp
  qed
  with d'(2) show ?case
    by (simp add: CheckImminentDeletionAndHandleFinalizers_def monitoring_resource_def IsMarkedForDeletion_def wp_simps case_prod_unfold
        cong: option.case_cong)
qed

text \<open>The only resource of its namespace.\<close>

definition only_resource :: "(resource_key \<Rightarrow> monitoring option) \<Rightarrow> monitoring \<Rightarrow> bool" where
  "only_resource S d \<longleftrightarrow> S (resource_key d) = Some d \<and>
     (\<forall>name d'. S (mo_Namespace d, name) = Some d' \<longrightarrow> name = mo_Name d)"

lemma verify_only_resource:
  assumes laws: "resource_store_laws calls stored" and only: "only_resource (stored w) d"
    and failed: "\<And>c e s'. Q (c, Some e) s'"
    and found: "\<And>w'. stored w' = stored w \<Longrightarrow>
      Q (\<lparr>crr_Resource = Some d, crr_StopReconcile = False, crr_ResourceDoesNotExist = False\<rparr>, None) (es, w')"
  shows "wp (VerifyThatUniqueNonDegradedResourceExists sort_Sort (monitoring_resource lib) calls (mo_Namespace d) (mo_Name d)) Q (es, w)"
proof -
  have key: "(mo_Namespace d, mo_Name d) = resource_key d" by (simp add: resource_key_def)
  have get: "wp (VerifyThatResourceExists calls (mo_Namespace d) (mo_Name d)) Q' (es, w)"
    if "\<And>c e s'. Q' (c, Some e) s'" and "\<And>w'. stored w' = stored w \<Longrightarrow> Q' (newCheckResourceResult (Some d) False False, None) (es, w')" for Q'
    unfolding VerifyThatResourceExists_def wp_bind wp_return
  proof (rule wp_answer)
    fix w' assume w': "w' = snd (rc_get calls (mo_Namespace d) (mo_Name d) w)"
    have "get_answer (stored w) (resource_key d) (fst (rc_get calls (mo_Namespace d) (mo_Name d) w))" "stored w' = stored w"
      using laws unfolding resource_store_laws_def w' resource_key_def by blast+
    with only that show "Q' (case fst (rc_get calls (mo_Namespace d) (mo_Name d) w) of
        Inl e \<Rightarrow> if e = NotFound then (newCheckResourceResult None True True, None) else (newCheckResourceResult None True False, Some e)
      | Inr resource \<Rightarrow> (newCheckResourceResult (Some resource) False False, None)) (es, w')"
      by (auto simp: get_answer_def only_resource_def split: sum.splits)
  qed
  have unique: "wp (VerifyThatResourceIsUniqueInScope sort_Sort (monitoring_resource lib) calls (mo_Namespace d) d) Q' (es, w')"
    if "stored w' = stored w" and "\<And>e s'. Q' (d, True, Some e) s'" and "\<And>w''. stored w'' = stored w \<Longrightarrow> Q' (d, False, None) (es, w'')" for Q' w'
    unfolding VerifyThatResourceIsUniqueInScope_def findAllResourceInstancesInScope_def wp_bind
  proof (rule wp_answer, goal_cases)
    case (1 w'')
    note w'' = 1
    let ?answer = "fst (rc_list calls (Some (mo_Namespace d)) w')"
    have scope: "(if dr_IsClusterResource (monitoring_resource lib) then None else Some (mo_Namespace d)) = Some (mo_Namespace d)"
      by (simp add: monitoring_resource_def)
    have answer: "list_answer (stored w') (Some (mo_Namespace d)) ?answer" and same: "stored w'' = stored w'"
      using laws unfolding resource_store_laws_def w'' scope by blast+
    have few: "length rs \<le> 1" if rs: "?answer = Inr rs" for rs
    proof -
      have "d' = d" if "d' \<in> set rs" for d'
        using answer rs that only \<open>stored w' = stored w\<close>
        by (force simp: list_answer_def only_resource_def resource_key_def)
      then have "set rs \<subseteq> {d}" by blast
      moreover have "distinct rs" using answer rs by (simp add: list_answer_def)
      ultimately show ?thesis using card_mono[of "{d}" "set rs"] by (simp add: distinct_card)
    qed
    show ?case
      unfolding scope
    proof (cases ?answer)
      case (Inl e)
      then show "wp (case ?answer of Inl e \<Rightarrow> State_Monad.return (d, True, Some e) | Inr rs \<Rightarrow> g rs) Q' (es, w'')" for g
        using that(2) by (simp add: wp_return)
    next
      case (Inr rs)
      then show "wp (case ?answer of Inl e \<Rightarrow> State_Monad.return (d, True, Some e)
          | Inr rs \<Rightarrow> if length rs \<le> 1 then State_Monad.return (d, False, None) else g rs) Q' (es, w'')" for g
        using few that(1,3) same by (simp add: wp_return)
    qed
  qed
  show ?thesis
    unfolding VerifyThatUniqueNonDegradedResourceExists_def wp_bind
  proof (rule get, goal_cases)
    case (1 c e s')
    show ?case by (simp add: wp_simps failed)
  next
    case (2 w')
    show ?case
      using unique[OF 2, of "\<lambda>(resource', stop, err). Q (\<lparr>crr_Resource = Some resource', crr_StopReconcile = stop, crr_ResourceDoesNotExist = False\<rparr>, err)"]
        failed found
      by (simp add: newCheckResourceResult_def wp_simps case_prod_unfold)
  qed
qed

lemma Reconcile_success:
  assumes laws: "resource_store_laws (mr_calls r) stored" "resource_lib_laws (mr_lib r)"
    and passes: "on_error_contract (mr_api r)" "api_preserves (mr_api r) stored" and others: "collaborators_preserve r stored"
    and only: "only_resource (stored w) d" and "\<not> mo_Deleting d"
    and "fst (mr_getNamespace r (mo_Namespace d) w) \<noteq> Some NotFound"
  shows "wp (Reconcile r (mo_Namespace d) (mo_Name d)) (success stored (resource_key d)) (es, w)"
proof -
  have namespace: "stored (snd (mr_getNamespace r (mo_Namespace d) w)) = stored w"
    using others by (simp add: collaborators_preserve_def)
  have resource: "wp (VerifyThatUniqueNonDegradedResourceExists (mr_sort r) (monitoring_resource (mr_lib r)) (mr_calls r)
       (mo_Namespace d) (mo_Name d)) (\<lambda>(c, err). wp (case err of
         Some e \<Rightarrow> ok (Some (CallFailed e))
       | None \<Rightarrow> if crr_ResourceDoesNotExist c then safely (reconcile_managers r)
           else if crr_StopReconcile c then ok None
           else case crr_Resource c of None \<Rightarrow> State_Monad.return (Inl NilPointerDereference) | Some d \<Rightarrow> reconcile_resource r d)
       (success stored (resource_key d))) (es, w')"
    if "stored w' = stored w" for w'
  proof (rule verify_only_resource[OF laws(1)], goal_cases)
    case 1
    show ?case using only that by simp
  next
    case (2 c e s')
    show ?case by (simp add: wp_simps success_def)
  next
    case (3 w'')
    then show ?case
      using reconcile_resource_success[OF laws passes others, of w'' d es] only that assms(7) by (simp add: only_resource_def)
  qed
  show ?thesis
    unfolding Reconcile_def CheckIfNamespaceExists_def wp_bind wp_return
  proof (rule wp_answer, goal_cases)
    case (1 w')
    show ?case
    proof (cases "fst (mr_getNamespace r (mo_Namespace d) w)")
      case None
      with resource[of w'] namespace 1 show ?thesis by (simp add: wp_bind case_prod_unfold)
    next
      case (Some e)
      with assms(8) show ?thesis by (simp add: wp_ok success_def)
    qed
  qed
qed

section \<open>The finalizer\<close>

definition has_finalizer :: "('w \<Rightarrow> resource_key \<Rightarrow> monitoring option) \<Rightarrow> resource_key \<Rightarrow> event list \<times> 'w \<Rightarrow> bool" where
  "has_finalizer stored k s \<longleftrightarrow> (\<exists>d. stored (snd s) k = Some d \<and> MonitoringFinalizerId \<in> set (mo_Finalizers d))"

lemma keeps_finalizer: "(\<And>x. keeps (observes stored x) c) \<Longrightarrow> keeps (has_finalizer stored k) c"
  unfolding keeps_def
proof (intro allI impI)
  fix s assume *: "\<And>x. \<forall>s. observes stored x s \<longrightarrow> wp c (\<lambda>_. observes stored x) s" "has_finalizer stored k s"
  have "wp c (\<lambda>_. observes stored (stored (snd s))) s" using *(1)[of "stored (snd s)"] unfolding observes_def by blast
  then show "wp c (\<lambda>_. has_finalizer stored k) s"
    by (rule wp_mono) (use *(2) in \<open>simp add: observes_def has_finalizer_def\<close>)
qed

lemma finalizer_call:
  assumes "\<And>w. (\<exists>d. stored w k = Some d \<and> MonitoringFinalizerId \<in> set (mo_Finalizers d)) \<Longrightarrow>
    \<exists>d. stored (snd (c w)) k = Some d \<and> MonitoringFinalizerId \<in> set (mo_Finalizers d)"
  shows "keeps (has_finalizer stored k) (call c)"
  using assms by (auto simp: keeps_def has_finalizer_def wp_def call_def case_prod_unfold)

lemma finalizer_updateStatus:
  assumes "resource_store_laws calls stored"
  shows "keeps (has_finalizer stored k) (call (rc_updateStatus calls d))"
proof (rule finalizer_call)
  fix w assume has: "\<exists>d. stored w k = Some d \<and> MonitoringFinalizerId \<in> set (mo_Finalizers d)"
  have "status_answer (stored w) d (fst (rc_updateStatus calls d w)) (stored (snd (rc_updateStatus calls d w)))"
    using assms by (simp add: resource_store_laws_def)
  with has show "\<exists>d'. stored (snd (rc_updateStatus calls d w)) k = Some d' \<and> MonitoringFinalizerId \<in> set (mo_Finalizers d')"
    by (auto simp: status_answer_def with_status_of_def)
qed

lemma finalizer_update:
  assumes "resource_store_laws calls stored" and "MonitoringFinalizerId \<in> set (mo_Finalizers d)"
  shows "keeps (has_finalizer stored k) (call (rc_update calls d))"
proof (rule finalizer_call)
  fix w assume has: "\<exists>d. stored w k = Some d \<and> MonitoringFinalizerId \<in> set (mo_Finalizers d)"
  have "update_answer (stored w) d (fst (rc_update calls d w)) (stored (snd (rc_update calls d w)))"
    using assms(1) by (simp add: resource_store_laws_def)
  with has assms(2) show "\<exists>d'. stored (snd (rc_update calls d w)) k = Some d' \<and> MonitoringFinalizerId \<in> set (mo_Finalizers d')"
    by (auto simp: update_answer_def with_status_of_def)
qed

lemma finalizer_list_get:
  assumes "resource_store_laws calls stored"
  shows "keeps (observes stored x) (call (rc_list calls scope))" and "keeps (observes stored x) (call (rc_get calls namespace name))"
  using assms unfolding resource_store_laws_def by (intro observes_call; blast)+

lemma finalizer_mark_others:
  "resource_store_laws calls stored \<Longrightarrow> keeps (has_finalizer stored k) (mark_others cls calls skip rs)"
  by (induction rs) (auto intro!: keeps_intros finalizer_updateStatus)

lemma finalizer_unique:
  assumes laws: "resource_store_laws calls stored"
  shows "keeps (has_finalizer stored k) (VerifyThatResourceIsUniqueInScope sort_Sort cls calls namespace d)"
  unfolding VerifyThatResourceIsUniqueInScope_def findAllResourceInstancesInScope_def Let_def
  by (intro keeps_intros finalizer_mark_others[OF laws] finalizer_updateStatus[OF laws] keeps_finalizer finalizer_list_get[OF laws])

lemma unique_same_resource:
  "wp (VerifyThatResourceIsUniqueInScope sort_Sort cls calls namespace d) (\<lambda>(d', stop, err) _. \<not> stop \<longrightarrow> d' = d) s"
proof -
  have wp_any: "(\<And>a s'. Q a s') \<Longrightarrow> wp f Q s" for f :: "('c, 'd) state" and Q s by (simp add: wp_def case_prod_unfold)
  show ?thesis
    unfolding VerifyThatResourceIsUniqueInScope_def Let_def wp_bind
    by (rule wp_any) (auto simp: wp_simps intro!: wp_any split: sum.split option.split)
qed

lemma wp_conj: "wp f P s \<Longrightarrow> wp f Q s \<Longrightarrow> wp f (\<lambda>a s'. P a s' \<and> Q a s') s"
  by (auto simp: wp_def)

text \<open>The resource that a request goes on with is the one that was stored, as long as the request has not been stopped.\<close>

lemma verify_keeps_finalizer:
  assumes laws: "resource_store_laws calls stored" and "stored w (namespace, name) = Some d" and "has_finalizer stored k (es, w)"
  shows "wp (VerifyThatUniqueNonDegradedResourceExists sort_Sort cls calls namespace name)
    (\<lambda>(c, err) s'. has_finalizer stored k s' \<and>
       (err = None \<and> \<not> crr_ResourceDoesNotExist c \<and> \<not> crr_StopReconcile c \<longrightarrow> crr_Resource c = Some d)) (es, w)"
  unfolding VerifyThatUniqueNonDegradedResourceExists_def VerifyThatResourceExists_def wp_bind wp_return
proof (rule wp_answer, goal_cases)
  case (1 w')
  have answer: "get_answer (stored w) (namespace, name) (fst (rc_get calls namespace name w))" and same: "stored w' = stored w"
    using laws unfolding resource_store_laws_def 1 by blast+
  then have fin: "has_finalizer stored k (es, w')" using assms(3) by (simp add: has_finalizer_def)
  show ?case
  proof (cases "fst (rc_get calls namespace name w)")
    case (Inl e)
    with fin show ?thesis by (simp add: wp_simps newCheckResourceResult_def)
  next
    case (Inr d')
    with answer assms(2) have [simp]: "d' = d" by (simp add: get_answer_def)
    have "wp (VerifyThatResourceIsUniqueInScope sort_Sort cls calls namespace d)
        (\<lambda>(d', stop, err) s'. has_finalizer stored k s' \<and> (\<not> stop \<longrightarrow> d' = d)) (es, w')"
      using wp_conj[OF finalizer_unique[OF laws, unfolded keeps_def, rule_format, OF fin] unique_same_resource]
      by (rule wp_mono) auto
    with Inr show ?thesis
      by (simp add: newCheckResourceResult_def wp_simps) (erule wp_mono, auto)
  qed
qed

text \<open>The part of a request for a single resource.\<close>

lemma finalizer_settings:
  assumes laws: "resource_store_laws (mr_calls r) stored"
    and passes: "on_error_contract (mr_api r)" "api_preserves (mr_api r) stored" and others: "collaborators_preserve r stored"
  shows "keeps (has_finalizer stored k) (reconcile_settings r d b)"
  unfolding reconcile_settings_def updateStatusAfterReconcile_def updateResourceStatus_def Let_def
  by (intro keeps_intros finalizer_updateStatus[OF laws] keeps_finalizer[OF reconcile_workloads_keeps[OF passes]]
      keeps_finalizer[OF observes_collaborators(2)[OF others]] keeps_finalizer[OF observes_collaborators(3)[OF others]])

lemma finalizer_added:
  assumes "resource_store_laws calls stored" and "resource_lib_laws lib"
  shows "keeps (has_finalizer stored k) (addFinalizerIfNecessary lib (monitoring_resource lib) calls d MonitoringFinalizerId)"
  using assms(2)
  by (auto simp: addFinalizerIfNecessary_def Let_def resource_lib_laws_def monitoring_resource_def
      intro!: keeps_basics finalizer_update[OF assms(1)])

lemma finalizer_cleanup:
  assumes passes: "on_error_contract (mr_api r)" "api_preserves (mr_api r) stored"
    and "mr_instrumenter r = Some i"
    and stuck: "\<And>s. wp (UninstrumentWorkloadsIfAvailable i (mr_api r) d) (\<lambda>answer _. answer \<noteq> Inr []) s"
  shows "keeps (has_finalizer stored k) (runCleanupActions r d)"
  unfolding keeps_def
proof (intro allI impI)
  fix s assume "has_finalizer stored k s"
  then have "wp (UninstrumentWorkloadsIfAvailable i (mr_api r) d) (\<lambda>_. has_finalizer stored k) s"
    using keeps_finalizer[OF observes_passes(2)[OF passes]] unfolding keeps_def by blast
  from wp_conj[OF stuck this] show "wp (runCleanupActions r d) (\<lambda>_. has_finalizer stored k) s"
    unfolding runCleanupActions_def wp_pbind assms(3) option.case
    by (rule wp_mono) (auto simp: wp_ok split: sum.splits)
qed

lemma finalizer_resource:
  assumes laws: "resource_store_laws (mr_calls r) stored" "resource_lib_laws (mr_lib r)"
    and passes: "on_error_contract (mr_api r)" "api_preserves (mr_api r) stored" and others: "collaborators_preserve r stored"
    and "IsAvailable d" and "mr_instrumenter r = Some i"
    and stuck: "\<And>s. wp (UninstrumentWorkloadsIfAvailable i (mr_api r) d) (\<lambda>answer _. answer \<noteq> Inr []) s"
  shows "keeps (has_finalizer stored k) (reconcile_resource r d)"
proof -
  have "mo_Conditions d \<noteq> []" and "map_of (mo_Conditions d) ConditionTypeAvailable \<noteq> None"
    using assms(6) by (auto simp: IsAvailable_def getCondition_def split: option.splits)
  then have init: "InitStatusConditions (mr_lib r) (monitoring_resource (mr_lib r)) (mr_calls r) d (mo_Conditions d) =
      State_Monad.return (d, False, None)"
    using laws(2) by (auto simp: InitStatusConditions_def resource_lib_laws_def Let_def)
  have "keeps (has_finalizer stored k) (do {
      (d, isMarkedForDeletion, runCleanup, err) \<leftarrow>
        CheckImminentDeletionAndHandleFinalizers (mr_lib r) (monitoring_resource (mr_lib r)) (mr_calls r) d MonitoringFinalizerId;
      (case err of
         Some e \<Rightarrow> ok (Some (CallFailed e))
       | None \<Rightarrow>
           if runCleanup then runCleanupActions r d
           else if isMarkedForDeletion then safely (reconcile_managers r)
           else reconcile_settings r d False)
    })"
  proof (cases "mo_Deleting d")
    case True
    then show ?thesis
      by (auto simp: CheckImminentDeletionAndHandleFinalizers_def monitoring_resource_def IsMarkedForDeletion_def
          intro!: keeps_basics finalizer_cleanup[OF passes assms(7) stuck] keeps_finalizer[OF observes_collaborators(2)[OF others]])
  next
    case False
    then have "dr_IsMarkedForDeletion (monitoring_resource (mr_lib r)) d = False"
      by (simp add: monitoring_resource_def IsMarkedForDeletion_def)
    note check = CheckImminentDeletionAndHandleFinalizers_def[of "mr_lib r" "monitoring_resource (mr_lib r)" "mr_calls r" d, unfolded this]
    show ?thesis
      unfolding keeps_def
    proof (intro allI impI)
      fix s assume "has_finalizer stored k s"
      then have "wp (addFinalizerIfNecessary (mr_lib r) (monitoring_resource (mr_lib r)) (mr_calls r) d MonitoringFinalizerId)
          (\<lambda>_. has_finalizer stored k) s"
        using finalizer_added[OF laws] unfolding keeps_def by blast
      with finalizer_settings[OF laws(1) passes others, of k] show "wp (do {
          (d, isMarkedForDeletion, runCleanup, err) \<leftarrow>
            CheckImminentDeletionAndHandleFinalizers (mr_lib r) (monitoring_resource (mr_lib r)) (mr_calls r) d MonitoringFinalizerId;
          (case err of
             Some e \<Rightarrow> ok (Some (CallFailed e))
           | None \<Rightarrow>
               if runCleanup then runCleanupActions r d
               else if isMarkedForDeletion then safely (reconcile_managers r)
               else reconcile_settings r d False)}) (\<lambda>_. has_finalizer stored k) s"
        by (auto simp: check wp_simps keeps_def split: option.split elim!: wp_mono)
    qed
  qed
  then show ?thesis by (simp add: reconcile_resource_def init)
qed

lemma Reconcile_keeps_finalizer:
  assumes laws: "resource_store_laws (mr_calls r) stored" "resource_lib_laws (mr_lib r)"
    and passes: "on_error_contract (mr_api r)" "api_preserves (mr_api r) stored" and others: "collaborators_preserve r stored"
    and "stored w (namespace, name) = Some d" and "IsAvailable d" and "mr_instrumenter r = Some i"
    and stuck: "\<And>s. wp (UninstrumentWorkloadsIfAvailable i (mr_api r) d) (\<lambda>answer _. answer \<noteq> Inr []) s"
    and "has_finalizer stored k (es, w)"
  shows "wp (Reconcile r namespace name) (\<lambda>_. has_finalizer stored k) (es, w)"
proof -
  have managers: "keeps (has_finalizer stored k) (safely (reconcile_managers r))"
    by (intro keeps_basics keeps_finalizer[OF observes_collaborators(2)[OF others]])
  note resource = finalizer_resource[OF laws passes others assms(7,8) stuck, of k]
  show ?thesis
    unfolding Reconcile_def wp_bind
  proof (rule keeps_wp[OF observes_collaborators(1)[OF others] refl], goal_cases)
    case (1 answer es' w')
    have "has_finalizer stored k (es', w')" using assms(10) 1 by (simp add: has_finalizer_def)
    from verify_keeps_finalizer[OF laws(1) _ this, where namespace = namespace and name = name and d = d] assms(6) 1
    have verified: "wp (VerifyThatUniqueNonDegradedResourceExists (mr_sort r) (monitoring_resource (mr_lib r)) (mr_calls r) namespace name)
      (\<lambda>(c, err) s'. has_finalizer stored k s' \<and>
         (err = None \<and> \<not> crr_ResourceDoesNotExist c \<and> \<not> crr_StopReconcile c \<longrightarrow> crr_Resource c = Some d)) (es', w')"
      by simp
    have "wp (VerifyThatUniqueNonDegradedResourceExists (mr_sort r) (monitoring_resource (mr_lib r)) (mr_calls r) namespace name)
      (\<lambda>(c, err). wp (case err of
           Some e \<Rightarrow> ok (Some (CallFailed e))
         | None \<Rightarrow>
             if crr_ResourceDoesNotExist c then safely (reconcile_managers r)
             else if crr_StopReconcile c then ok None
             else case crr_Resource c of
               None \<Rightarrow> State_Monad.return (Inl NilPointerDereference)
             | Some d \<Rightarrow> reconcile_resource r d) (\<lambda>_. has_finalizer stored k)) (es', w')"
      by (rule wp_mono[OF verified])
        (use managers resource in \<open>auto simp: keeps_def wp_ok wp_return split: option.splits if_splits\<close>)
    with \<open>has_finalizer stored k (es', w')\<close> show ?case
      by (auto simp: wp_simps split: prod.split option.split)
  qed
qed

section \<open>A sample cluster\<close>

text \<open>The resources of a cluster, with a client whose calls for them never fail; listing workloads fails if an error is given.\<close>

type_synonym resource_world = "resource_key \<Rightarrow> monitoring option"

definition sample_lib :: resource_lib where
  "sample_lib =
     \<lparr>rl_SetStatusCondition = (\<lambda>cs t status. AList.update t status cs),
      rl_RemoveStatusCondition = (\<lambda>cs t. AList.delete t cs),
      rl_FindStatusCondition = map_of,
      rl_AddFinalizer = (\<lambda>fs f. if f \<in> set fs then (fs, False) else (fs @ [f], True)),
      rl_RemoveFinalizer = (\<lambda>fs f. (removeAll f fs, f \<in> set fs)),
      rl_ContainsFinalizer = (\<lambda>fs f. f \<in> set fs)\<rparr>"

definition sample_resources :: "resource_world \<Rightarrow> resource_key \<Rightarrow> monitoring option" where
  "sample_resources w k = (case w k of None \<Rightarrow> None | Some d \<Rightarrow> if resource_key d = k then Some d else None)"

definition sample_calls :: "(monitoring, resource_world) resource_calls" where
  "sample_calls =
     \<lparr>rc_get = (\<lambda>namespace name w. (case sample_resources w (namespace, name) of None \<Rightarrow> Inl NotFound | Some d \<Rightarrow> Inr d, w)),
      rc_list = (\<lambda>scope w. (Inr (case sample_resources w (case scope of None \<Rightarrow> ''shop'' | Some namespace \<Rightarrow> namespace, ''monitoring'') of
        None \<Rightarrow> [] | Some d \<Rightarrow> [d]), w)),
      rc_update = (\<lambda>d w. case sample_resources w (resource_key d) of
        None \<Rightarrow> (Inl NotFound, w)
      | Some base \<Rightarrow>
          (Inr (with_status_of base d),
           if mo_Deleting base \<and> mo_Finalizers d = [] then w(resource_key d := None)
           else w(resource_key d \<mapsto> with_status_of base d))),
      rc_updateStatus = (\<lambda>d w. case sample_resources w (resource_key d) of
        None \<Rightarrow> (Inl NotFound, w)
      | Some base \<Rightarrow> (Inr (with_status_of d base), w(resource_key d \<mapsto> with_status_of d base)))\<rparr>"

definition sample_workloads :: "api_error option \<Rightarrow> resource_world instrumenter_api" where
  "sample_workloads err =
     \<lparr>wa_monitoring = (\<lambda>_ w. (Inr [], w)), wa_cronJob = (\<lambda>_ _ w. (Inl NotFound, w)),
      ia_get = (\<lambda>_ _ _ w. (Inl NotFound, w)), ia_update = (\<lambda>_ w. (Inl NotFound, w)),
      ia_list = (\<lambda>_ _ _ w. (([], err), w)), ia_pods = (\<lambda>_ w. (Inr [], w)), ia_deletePod = (\<lambda>_ w. (None, w)),
      ia_onError = sample_onError\<rparr>"

definition sample_reconciler :: "api_error option \<Rightarrow> resource_world MonitoringReconciler" where
  "sample_reconciler err =
     \<lparr>mr_lib = sample_lib, mr_sort = (\<lambda>_. sort_key mo_CreationTimestamp), mr_calls = sample_calls, mr_api = sample_workloads err,
      mr_getNamespace = (\<lambda>_ w. (None, w)), mr_getToken = (\<lambda>_ w. (Inr None, w)), mr_namespacedApiClients = [],
      mr_instrumenter = Some sample_instrumenter,
      mr_collectorManager = Some (\<lambda>w. (None, w)), mr_targetAllocatorManager = None\<rparr>"

lemma with_status_key [simp]: "resource_key (with_status_of a b) = resource_key b"
  by (simp add: resource_key_def with_status_of_def)

lemma sample_resources_upd:
  "sample_resources (w(resource_key d \<mapsto> d)) = (sample_resources w)(resource_key d \<mapsto> d)"
  "sample_resources (w(k := None)) = (sample_resources w)(k := None)"
  by (auto simp: sample_resources_def fun_eq_iff)

lemma sample_lib_laws: "resource_lib_laws sample_lib"
  by (auto simp: resource_lib_laws_def sample_lib_def update_conv' delete_conv')

lemma sample_store_laws: "resource_store_laws sample_calls sample_resources"
proof -
  have key: "sample_resources w k = Some d \<Longrightarrow> resource_key d = k" for w k d
    by (auto simp: sample_resources_def split: option.splits if_splits)
  have upd: "sample_resources (w(resource_key d \<mapsto> with_status_of a b)) = (sample_resources w)(resource_key d \<mapsto> with_status_of a b)"
    if "resource_key b = resource_key d" for w d a b
    using sample_resources_upd(1)[of w "with_status_of a b"] that by simp
  show ?thesis
    unfolding resource_store_laws_def
    by (auto simp: sample_calls_def get_answer_def list_answer_def status_answer_def update_answer_def sample_resources_upd(2)
        upd key dest: key split: option.splits)
      (auto simp: resource_key_def dest!: key)
qed

lemma sample_preserves:
  "on_error_contract (sample_workloads err)" "api_preserves (sample_workloads err) f" "collaborators_preserve (sample_reconciler err) f"
proof -
  have "ia_onError (sample_workloads err) = sample_onError" by (simp add: sample_workloads_def)
  then show "on_error_contract (sample_workloads err)" unfolding on_error_contract_def by (metis sample_onError.simps(2))
qed (simp_all add: api_preserves_def collaborators_preserve_def sample_workloads_def sample_reconciler_def)

section \<open>Properties\<close>


definition older_sample :: monitoring where
  "older_sample = sample_monitoring\<lparr>mo_Name := ''old'', mo_UID := ''m0'', mo_CreationTimestamp := - 1\<rparr>"



definition sample_resource_world :: resource_world where
  "sample_resource_world = [resource_key sample_monitoring \<mapsto> sample_monitoring]"

lemma sample_only_resource: "only_resource (sample_resources sample_resource_world) sample_monitoring"
  by (simp add: only_resource_def sample_resources_def sample_resource_world_def resource_key_def sample_monitoring_def)



definition deleted_sample :: monitoring where
  "deleted_sample = sample_monitoring\<lparr>mo_Deleting := True, mo_Finalizers := [MonitoringFinalizerId]\<rparr>"


end
