(* ===== verification/OperatorConfiguration.thy ===== *)
theory OperatorConfiguration
  imports MonitoringResource
begin

text \<open>
  The operator configuration resource, \<open>api/operator/v1alpha1/operator_configuration_types.go\<close>: the fields that the
  webhooks and the automatic monitoring of namespaces read and write, and its methods.
\<close>

section \<open>The resource\<close>

text \<open>The metadata and the specification of the monitoring resources that the operator creates.\<close>

record MonitoringTemplate =
  mt_Name :: string
  mt_Labels :: stringmap
  mt_Annotations :: stringmap
  mt_Spec :: monitoring_spec

record node_selector_requirement =
  nr_Key :: string
  nr_Operator :: string
  nr_Values :: "string list"

text \<open>The required terms of a node affinity, each with its match expressions.\<close>

type_synonym node_affinity = "node_selector_requirement list list"

record SyntheticsWorkerInstance =
  si_LocationID :: string
  si_NodeAffinity :: "node_affinity option"
  si_Rest :: string

text \<open>\<open>os_Rest\<close> is all that none of the modelled operations reads or writes.\<close>

record operator_configuration_spec =
  os_Export :: "Export option"
  os_Exports :: "Export list"
  os_SelfMonitoringEnabled :: "bool option"
  os_KubernetesInfrastructureMetricsCollection_Enabled :: "bool option"
  os_KubernetesInfrastructureMetricsCollectionEnabled :: "bool option"
  os_CollectPodLabelsAndAnnotationsEnabled :: "bool option"
  os_CollectNamespaceLabelsAndAnnotationsEnabled :: "bool option"
  os_CollectNodeLabelsAndAnnotationsEnabled :: "bool option"
  os_PrometheusCrdSupportEnabled :: "bool option"
  os_Transform :: "Transform option"
  os_NormalizedTransformSpec :: "NormalizedTransformSpec option"
  os_TelemetryCollectionEnabled :: "bool option"
  os_AutoMonitorNamespacesEnabled :: "bool option"
  os_AutoMonitorNamespacesLabelSelector :: string
  os_MonitoringTemplate :: "MonitoringTemplate option"
  os_SyntheticsWorkerInstances :: "SyntheticsWorkerInstance list"
  os_Rest :: string

record operator_configuration =
  oc_Name :: string
  oc_UID :: string
  oc_CreationTimestamp :: int
  oc_Deleting :: bool
  oc_Finalizers :: "string list"
  oc_Spec :: operator_configuration_spec
  oc_Conditions :: "(string \<times> string) list"
  oc_PreviousAutoMonitorNamespacesLabelSelector :: string
  oc_PreviousMonitoringTemplate :: "MonitoringTemplate option"

section \<open>Methods\<close>

definition operator_configuration_getCondition :: "operator_configuration \<Rightarrow> string \<Rightarrow> string option" where
  "operator_configuration_getCondition d conditionType = map_of (oc_Conditions d) conditionType"

definition operator_configuration_IsMarkedForDeletion :: "operator_configuration \<Rightarrow> bool" where
  "operator_configuration_IsMarkedForDeletion d = oc_Deleting d"

definition operator_configuration_IsAvailable :: "operator_configuration \<Rightarrow> bool" where
  "operator_configuration_IsAvailable d =
     (case operator_configuration_getCondition d ConditionTypeAvailable of Some status \<Rightarrow> status = ''True'' | None \<Rightarrow> False)"

definition operator_configuration_IsDegraded :: "operator_configuration \<Rightarrow> bool" where
  "operator_configuration_IsDegraded d =
     (case operator_configuration_getCondition d ConditionTypeDegraded of Some status \<Rightarrow> status = ''True'' | None \<Rightarrow> False)"

definition operator_configuration_SetAvailableConditionToUnknown :: "resource_lib \<Rightarrow> operator_configuration \<Rightarrow> operator_configuration" where
  "operator_configuration_SetAvailableConditionToUnknown lib d =
     d\<lparr>oc_Conditions := rl_SetStatusCondition lib
         (rl_SetStatusCondition lib (oc_Conditions d) ConditionTypeAvailable ''Unknown'') ConditionTypeDegraded ''True''\<rparr>"

definition operator_configuration_EnsureResourceIsMarkedAsAvailable :: "resource_lib \<Rightarrow> operator_configuration \<Rightarrow> operator_configuration" where
  "operator_configuration_EnsureResourceIsMarkedAsAvailable lib d =
     d\<lparr>oc_Conditions := rl_RemoveStatusCondition lib
         (rl_SetStatusCondition lib (oc_Conditions d) ConditionTypeAvailable ''True'') ConditionTypeDegraded\<rparr>"

definition operator_configuration_EnsureResourceIsMarkedAsDegraded :: "resource_lib \<Rightarrow> operator_configuration \<Rightarrow> operator_configuration" where
  "operator_configuration_EnsureResourceIsMarkedAsDegraded lib d =
     d\<lparr>oc_Conditions := rl_SetStatusCondition lib
         (rl_SetStatusCondition lib (oc_Conditions d) ConditionTypeAvailable ''False'') ConditionTypeDegraded ''True''\<rparr>"

definition AutoMonitorNamespaces_IsEnabled :: "operator_configuration_spec \<Rightarrow> bool" where
  "AutoMonitorNamespaces_IsEnabled spec = ReadBoolPointerWithDefault (os_AutoMonitorNamespacesEnabled spec) False"

section \<open>Well-known names\<close>

definition RestrictedNamespaces :: "string list" where
  "RestrictedNamespaces = [''kube-system'', ''kube-node-lease'', ''kube-public'']"

definition AutoMonitoredNamespaceLabel :: string where
  "AutoMonitoredNamespaceLabel = ''dash0.com/auto-monitored-namespace''"

definition TrueString :: string where
  "TrueString = ''true''"

definition MonitoringAutoResourceDefaultName :: string where
  "MonitoringAutoResourceDefaultName = ''dash0-monitoring-auto-resource''"

definition WebhookReachabilityCheckResourceName :: string where
  "WebhookReachabilityCheckResourceName = ''dash0-webhook-reachability-check''"

end
