(* ===== verification/MonitoringWebhooks.thy ===== *)
theory MonitoringWebhooks
  imports OperatorConfiguration Labels
begin

text \<open>
  The admission webhooks for the resources of the operator, from \<open>internal/webhooks\<close>: \<open>monitoring_mutating_webhook.go\<close>,
  \<open>monitoring_validation_webhook.go\<close>, \<open>operator_configuration_mutating_webhook.go\<close> and the shared checks.

  The decoders and encoders, the parsers of JSON texts and label selectors and the validation of the processors of the
  OpenTelemetry collector are arguments, as is the API. Denials and errors are constructors with the data of their messages.
\<close>

section \<open>Requests and responses\<close>

datatype operation = CreateOperation | UpdateOperation | DeleteOperation | ConnectOperation

record 'r admission_request =
  aq_Operation :: operation
  aq_Name :: string
  aq_Namespace :: string
  aq_DryRun :: "bool option"
  aq_Object :: 'r
  aq_OldObject :: "'r option"

datatype transform_error =
    UnparsablePayload nat | UnsupportedFormat nat | ConditionsNotAList nat | ConditionNotAString nat nat
  | StatementsNotAList nat | StatementNotAString nat nat

datatype admission_error =
    NotDecodable | OldObjectNotDecodable | NotMarshallable | ConfigurationsNotListed api_error | InvalidTransform transform_error

datatype denial =
    RestrictedNamespaceInstrumented string | OperatorNamespaceInstrumented string | AutomaticallyManaged string
  | ExportAndExportsAreMutuallyExclusive | NoExportAndNoConfiguration | NoExportAndSeveralConfigurations
  | NoExportInConfiguration | GrpcExportInvalidInsecure
  | InstrumentationWithoutTelemetry string | LogCollectionWithoutTelemetry | EventCollectionWithoutTelemetry
  | ObjectCollectionWithoutTelemetry | ScrapingWithoutTelemetry | FilterWithoutTelemetry | TransformWithoutTelemetry
  | EmptyLabelSelector | UnparsableLabelSelector string
  | EmptyPropagator string | UnknownPropagator string string | InvalidOttl "string list"

datatype 'r admission_response =
    AdmissionAllowed string | AdmissionDenied denial | AdmissionErrored nat admission_error | AdmissionPatch 'r 'r

text \<open>HTTP status codes.\<close>

definition StatusBadRequest :: nat where
  "StatusBadRequest = 400"

definition StatusInternalServerError :: nat where
  "StatusInternalServerError = 500"

record ('r, 'd) admission_codec =
  ad_decode :: "'r \<Rightarrow> 'd option"
  ad_encode :: "'d \<Rightarrow> 'r option"

record 'w admission_api =
  aa_listOperatorConfigurations :: "'w \<Rightarrow> (api_error + operator_configuration list) \<times> 'w"
  aa_namespaceLabels :: "string \<Rightarrow> 'w \<Rightarrow> (api_error + stringmap) \<times> 'w"

definition isReachabilityCheck :: "'r admission_request \<Rightarrow> bool" where
  "isReachabilityCheck request \<longleftrightarrow>
     aq_DryRun request = Some True \<and> aq_Operation request = CreateOperation \<and>
     aq_Name request = WebhookReachabilityCheckResourceName"

definition validateGrpcExportInsecureFlags :: "Export \<Rightarrow> bool" where
  "validateGrpcExportInsecureFlags export =
     (case ex_Grpc export of
        None \<Rightarrow> True
      | Some grpc \<Rightarrow> \<not> ReadBoolPointerWithDefault (gc_Insecure grpc) False \<or>
                     \<not> ReadBoolPointerWithDefault (gc_InsecureSkipVerify grpc) False)"

text \<open>A resource that does not exist counts as an empty list.\<close>

definition loadAvailableOperatorConfigurationResources ::
  "'w admission_api \<Rightarrow> ('m \<times> 'w, (nat \<times> admission_error) + operator_configuration list) state" where
  "loadAvailableOperatorConfigurationResources api = do {
     answer \<leftarrow> call (aa_listOperatorConfigurations api);
     State_Monad.return (case answer of
       Inl e \<Rightarrow> if e \<noteq> NotFound then Inl (StatusInternalServerError, ConfigurationsNotListed e) else Inr []
     | Inr items \<Rightarrow> Inr (filter operator_configuration_IsAvailable items))
   }"

section \<open>Transformations\<close>

text \<open>What \<open>json.Unmarshal\<close> gives for a value of type \<open>any\<close>; a map is a list of its pairs.\<close>

datatype json =
    JNull | JBool bool | JNumber string | JString string | JArray "json list" | JObject "(string \<times> json) list"

type_synonym json_parser = "string \<Rightarrow> json option"

text \<open>The strings of a list of values, or the position of the first value that is none.\<close>

fun json_strings :: "json list \<Rightarrow> nat \<Rightarrow> nat + string list" where
  "json_strings [] idx = Inr []"
| "json_strings (JString s # js) idx = map_sum id (\<lambda>ss. s # ss) (json_strings js (idx + 1))"
| "json_strings (_ # js) idx = Inl idx"

text \<open>The list of strings under a key: \<open>notList\<close> and \<open>notString\<close> are the errors.\<close>

definition group_strings ::
  "(string \<times> json) list \<Rightarrow> string \<Rightarrow> transform_error \<Rightarrow> (nat \<Rightarrow> transform_error) \<Rightarrow> transform_error + string list" where
  "group_strings groupAsMap key notList notString =
     (case map_of groupAsMap key of
        None \<Rightarrow> Inr []
      | Some (JArray js) \<Rightarrow> map_sum notString id (json_strings js 0)
      | Some _ \<Rightarrow> Inl notList)"

text \<open>The context of a group: a type assertion without a check, which panics for a value that is no string.\<close>

definition group_context :: "(string \<times> json) list \<Rightarrow> string option outcome" where
  "group_context groupAsMap =
     (case map_of groupAsMap ''context'' of
        None \<Rightarrow> Inr None
      | Some JNull \<Rightarrow> Inr None
      | Some (JString s) \<Rightarrow> Inr (Some s)
      | Some _ \<Rightarrow> Inl FailedTypeAssertion)"

definition group_error_mode :: "(string \<times> json) list \<Rightarrow> string option" where
  "group_error_mode groupAsMap = (case map_of groupAsMap ''error_mode'' of Some (JString s) \<Rightarrow> Some s | _ \<Rightarrow> None)"

definition normalize_group :: "nat \<Rightarrow> (string \<times> json) list \<Rightarrow> (transform_error + NormalizedTransformGroup) outcome" where
  "normalize_group ctxIdx groupAsMap =
     map_sum id (\<lambda>context.
       case group_strings groupAsMap ''conditions'' (ConditionsNotAList ctxIdx) (ConditionNotAString ctxIdx) of
         Inl e \<Rightarrow> Inl e
       | Inr conditions \<Rightarrow>
           map_sum id (\<lambda>statements.
               \<lparr>ng_Context = context, ng_ErrorMode = group_error_mode groupAsMap,
                ng_Conditions = conditions, ng_Statements = statements\<rparr>)
             (group_strings groupAsMap ''statements'' (StatementsNotAList ctxIdx) (StatementNotAString ctxIdx)))
       (group_context groupAsMap)"

fun normalizeTransformGroups_from ::
  "json_parser \<Rightarrow> nat \<Rightarrow> string list \<Rightarrow> (transform_error + NormalizedTransformGroup list) outcome" where
  "normalizeTransformGroups_from parse ctxIdx [] = Inr (Inr [])"
| "normalizeTransformGroups_from parse ctxIdx (jsonPayload # payloads) =
     (case (case parse jsonPayload of
              None \<Rightarrow> Inr (Inl (UnparsablePayload ctxIdx))
            | Some (JString flatStatement) \<Rightarrow>
                Inr (Inr \<lparr>ng_Context = None, ng_ErrorMode = None, ng_Conditions = [], ng_Statements = [flatStatement]\<rparr>)
            | Some (JObject groupAsMap) \<Rightarrow> normalize_group ctxIdx groupAsMap
            | Some _ \<Rightarrow> Inr (Inl (UnsupportedFormat ctxIdx))) of
        Inl p \<Rightarrow> Inl p
      | Inr (Inl e) \<Rightarrow> Inr (Inl e)
      | Inr (Inr grp) \<Rightarrow>
          map_sum id (map_sum id (\<lambda>groups. grp # groups)) (normalizeTransformGroups_from parse (ctxIdx + 1) payloads))"

definition normalizeTransformGroupsForOneSignal ::
  "json_parser \<Rightarrow> string list \<Rightarrow> (transform_error + NormalizedTransformGroup list) outcome" where
  "normalizeTransformGroupsForOneSignal parse signalTransformSpec = normalizeTransformGroups_from parse 0 signalTransformSpec"

text \<open>Two results one after the other: the second is only computed if the first is neither a panic nor an error.\<close>

definition and_then :: "('e + 'a) outcome \<Rightarrow> ('a \<Rightarrow> ('e + 'b) outcome) \<Rightarrow> ('e + 'b) outcome" where
  "and_then r f = (case r of Inl p \<Rightarrow> Inl p | Inr (Inl e) \<Rightarrow> Inr (Inl e) | Inr (Inr a) \<Rightarrow> f a)"

definition normalizeTransform :: "json_parser \<Rightarrow> Transform \<Rightarrow> (transform_error + NormalizedTransformSpec) outcome" where
  "normalizeTransform parse transform =
     and_then (normalizeTransformGroupsForOneSignal parse (tr_Traces transform)) (\<lambda>traceTransformGroups.
     and_then (normalizeTransformGroupsForOneSignal parse (tr_Metrics transform)) (\<lambda>metricTransformGroups.
     and_then (normalizeTransformGroupsForOneSignal parse (tr_Logs transform)) (\<lambda>logTransformGroups.
     and_then (normalizeTransformGroupsForOneSignal parse (tr_Profiles transform)) (\<lambda>profileTransformGroups.
       Inr (Inr \<lparr>nt_ErrorMode = tr_ErrorMode transform, nt_Traces = traceTransformGroups, nt_Metrics = metricTransformGroups,
                 nt_Logs = logTransformGroups, nt_Profiles = profileTransformGroups\<rparr>)))))"

section \<open>The mutating webhook for monitoring resources\<close>

record monitoring_mutating_handler =
  mm_operatorNamespace :: string
  mm_signalControlSceOnlyMode :: bool
  mm_jsonUnmarshal :: json_parser

definition telemetry_collection_enabled :: "monitoring_mutating_handler \<Rightarrow> operator_configuration_spec option \<Rightarrow> bool" where
  "telemetry_collection_enabled h operatorConfigurationSpec =
     (\<not> mm_signalControlSceOnlyMode h \<and>
      (case operatorConfigurationSpec of
         None \<Rightarrow> True
       | Some spec \<Rightarrow> ReadBoolPointerWithDefault (os_TelemetryCollectionEnabled spec) True))"

definition setTelemetryCollectionRelatedDefaults ::
  "monitoring_mutating_handler \<Rightarrow> string \<Rightarrow> operator_configuration_spec option \<Rightarrow> monitoring_spec \<Rightarrow> bool \<times> monitoring_spec" where
  "setTelemetryCollectionRelatedDefaults h namespace operatorConfigurationSpec spec =
     (let telemetryCollectionEnabled = telemetry_collection_enabled h operatorConfigurationSpec;
          patchRequired = (sp_Mode spec = [] \<or> sp_LogCollectionEnabled spec = None \<or>
            sp_EventCollectionEnabled spec = None \<or> sp_PrometheusScrapingEnabled spec = None);
          spec = (if sp_Mode spec = []
                  then spec\<lparr>sp_Mode := (if namespace = mm_operatorNamespace h then InstrumentWorkloadsModeNone
                                         else if telemetryCollectionEnabled then InstrumentWorkloadsModeAll
                                         else InstrumentWorkloadsModeNone)\<rparr>
                  else spec);
          spec = (if sp_LogCollectionEnabled spec = None
                  then spec\<lparr>sp_LogCollectionEnabled := Some (namespace \<noteq> mm_operatorNamespace h \<and> telemetryCollectionEnabled)\<rparr>
                  else spec);
          spec = (if sp_EventCollectionEnabled spec = None
                  then spec\<lparr>sp_EventCollectionEnabled := Some telemetryCollectionEnabled\<rparr> else spec);
          spec = (if sp_PrometheusScrapingEnabled spec = None
                  then spec\<lparr>sp_PrometheusScrapingEnabled := Some telemetryCollectionEnabled\<rparr> else spec)
      in (patchRequired, spec))"

definition overrideLogCollectionDefault ::
  "monitoring_mutating_handler \<Rightarrow> string \<Rightarrow> monitoring_spec \<Rightarrow> bool \<times> monitoring_spec" where
  "overrideLogCollectionDefault h namespace spec =
     (if namespace = mm_operatorNamespace h \<and> ReadBoolPointerWithDefault (sp_LogCollectionEnabled spec) True
      then (True, spec\<lparr>sp_LogCollectionEnabled := Some False\<rparr>) else (False, spec))"

text \<open>The comparison with the exports of the old object, for both types of resources.\<close>

definition isExportsUnchanged ::
  "('r, 'd) admission_codec \<Rightarrow> ('d \<Rightarrow> Export list) \<Rightarrow> 'r admission_request \<Rightarrow> Export list \<Rightarrow> (nat \<times> admission_error) + bool" where
  "isExportsUnchanged cd exportsOf request incomingExports =
     (if aq_Operation request \<noteq> UpdateOperation then Inr False
      else case aq_OldObject request of
        None \<Rightarrow> Inr False
      | Some raw \<Rightarrow>
          (case ad_decode cd raw of
             None \<Rightarrow> Inl (StatusBadRequest, OldObjectNotDecodable)
           | Some oldResource \<Rightarrow> Inr (incomingExports = exportsOf oldResource)))"

definition isExportsUnchangedFromOldMonitoringResource ::
  "('r, monitoring) admission_codec \<Rightarrow> 'r admission_request \<Rightarrow> Export list \<Rightarrow> (nat \<times> admission_error) + bool" where
  "isExportsUnchangedFromOldMonitoringResource cd = isExportsUnchanged cd (\<lambda>d. sp_Exports (mo_Spec d))"

text \<open>The migration of the deprecated field: the exports afterwards, and whether a patch is required.\<close>

definition migrate_export ::
  "Export option \<Rightarrow> Export list \<Rightarrow> (nat \<times> admission_error) + bool \<Rightarrow> (nat \<times> admission_error) + bool \<times> Export list" where
  "migrate_export deprecated exports unchanged =
     (case deprecated of
        None \<Rightarrow> Inr (False, exports)
      | Some export \<Rightarrow>
          if length exports = 0 then Inr (True, [export])
          else map_sum id (\<lambda>b. (True, if b then [export] else exports)) unchanged)"

definition normalizeMonitoringResourceSpec ::
  "monitoring_mutating_handler \<Rightarrow> ('r, monitoring) admission_codec \<Rightarrow> 'r admission_request \<Rightarrow> operator_configuration_spec option \<Rightarrow>
   monitoring_spec \<Rightarrow> ((nat \<times> admission_error) + bool \<times> monitoring_spec) outcome" where
  "normalizeMonitoringResourceSpec h cd request operatorConfigurationSpec spec =
     (let (patchRequired, spec) =
            setTelemetryCollectionRelatedDefaults h (aq_Namespace request) operatorConfigurationSpec spec;
          (patchRequiredForLogCollection, spec) = overrideLogCollectionDefault h (aq_Namespace request) spec
      in case migrate_export (sp_Export spec) (sp_Exports spec)
                (isExportsUnchangedFromOldMonitoringResource cd request (sp_Exports spec)) of
           Inl e \<Rightarrow> Inr (Inl e)
         | Inr (migrated, exports) \<Rightarrow>
             (let patchRequired = (patchRequired \<or> patchRequiredForLogCollection \<or> migrated);
                  spec = spec\<lparr>sp_Exports := exports, sp_Export := None\<rparr>
              in case sp_Transform spec of
                   None \<Rightarrow> Inr (Inr (patchRequired, spec))
                 | Some transform \<Rightarrow>
                     (case normalizeTransform (mm_jsonUnmarshal h) transform of
                        Inl p \<Rightarrow> Inl p
                      | Inr (Inl e) \<Rightarrow> Inr (Inl (StatusBadRequest, InvalidTransform e))
                      | Inr (Inr normalized) \<Rightarrow> Inr (Inr (True, spec\<lparr>sp_NormalizedTransformSpec := Some normalized\<rparr>)))))"

text \<open>The answer to a request after the resource has been normalized, for both types of resources.\<close>

definition patch_response ::
  "('r, 'd) admission_codec \<Rightarrow> 'r \<Rightarrow> bool \<Rightarrow> 'd \<Rightarrow> 'r admission_response" where
  "patch_response cd raw patchRequired resource =
     (if \<not> patchRequired then AdmissionAllowed ''no changes''
      else case ad_encode cd resource of
        None \<Rightarrow> AdmissionErrored StatusInternalServerError NotMarshallable
      | Some marshalled \<Rightarrow> AdmissionPatch raw marshalled)"

definition MonitoringMutatingWebhookHandler_Handle ::
  "monitoring_mutating_handler \<Rightarrow> ('r, monitoring) admission_codec \<Rightarrow> 'w admission_api \<Rightarrow> 'r admission_request \<Rightarrow>
   ('m \<times> 'w, 'r admission_response outcome) state" where
  "MonitoringMutatingWebhookHandler_Handle h cd api request =
     (if isReachabilityCheck request then ok (AdmissionAllowed [])
      else case ad_decode cd (aq_Object request) of
        None \<Rightarrow> ok (AdmissionErrored StatusBadRequest NotDecodable)
      | Some monitoringResource \<Rightarrow> do {
          available \<leftarrow> loadAvailableOperatorConfigurationResources api;
          (case available of
             Inl (status, e) \<Rightarrow> ok (AdmissionErrored status e)
           | Inr availableOperatorConfigurations \<Rightarrow>
               State_Monad.return (map_sum id (\<lambda>normalized.
                   case normalized of
                     Inl (status, e) \<Rightarrow> AdmissionErrored status e
                   | Inr (patchRequired, spec) \<Rightarrow>
                       patch_response cd (aq_Object request) patchRequired (monitoringResource\<lparr>mo_Spec := spec\<rparr>))
                 (normalizeMonitoringResourceSpec h cd request
                   (case availableOperatorConfigurations of [] \<Rightarrow> None | c # _ \<Rightarrow> Some (oc_Spec c))
                   (mo_Spec monitoringResource))))
        })"

section \<open>The mutating webhook for operator configurations\<close>

definition isExportsUnchangedFromOldOperatorConfigurationResource ::
  "('r, operator_configuration) admission_codec \<Rightarrow> 'r admission_request \<Rightarrow> Export list \<Rightarrow> (nat \<times> admission_error) + bool" where
  "isExportsUnchangedFromOldOperatorConfigurationResource cd = isExportsUnchanged cd (\<lambda>d. os_Exports (oc_Spec d))"

definition empty_spec :: monitoring_spec where
  "empty_spec =
     \<lparr>sp_Export = None, sp_Exports = [], sp_Mode = [], sp_LabelSelector = [], sp_Propagators = None,
      sp_CaptureSqlQueryParameters = None, sp_LogCollectionEnabled = None, sp_EventCollectionEnabled = None,
      sp_KubernetesObjectCollectionEnabled = None, sp_PrometheusScrapingEnabled = None, sp_Filter = None, sp_Transform = None,
      sp_NormalizedTransformSpec = None, sp_SynchronizePersesDashboards = None, sp_SynchronizePrometheusRules = None\<rparr>"

definition monitoringTemplateDefaults :: monitoring_spec where
  "monitoringTemplateDefaults =
     empty_spec\<lparr>sp_Mode := InstrumentWorkloadsModeCreatedAndUpdated, sp_LabelSelector := ''dash0.com/enable!=false'',
       sp_LogCollectionEnabled := Some True, sp_EventCollectionEnabled := Some True, sp_PrometheusScrapingEnabled := Some True\<rparr>"

definition template_spec_defaults :: "monitoring_spec \<Rightarrow> bool \<times> monitoring_spec" where
  "template_spec_defaults spec =
     (let patchRequired = (sp_Mode spec = [] \<or> sp_LabelSelector spec = [] \<or> sp_LogCollectionEnabled spec = None \<or>
            sp_EventCollectionEnabled spec = None \<or> sp_PrometheusScrapingEnabled spec = None);
          spec = (if sp_Mode spec = [] then spec\<lparr>sp_Mode := sp_Mode monitoringTemplateDefaults\<rparr> else spec);
          spec = (if sp_LabelSelector spec = []
                  then spec\<lparr>sp_LabelSelector := sp_LabelSelector monitoringTemplateDefaults\<rparr> else spec);
          spec = (if sp_LogCollectionEnabled spec = None
                  then spec\<lparr>sp_LogCollectionEnabled := sp_LogCollectionEnabled monitoringTemplateDefaults\<rparr> else spec);
          spec = (if sp_EventCollectionEnabled spec = None
                  then spec\<lparr>sp_EventCollectionEnabled := sp_EventCollectionEnabled monitoringTemplateDefaults\<rparr> else spec);
          spec = (if sp_PrometheusScrapingEnabled spec = None
                  then spec\<lparr>sp_PrometheusScrapingEnabled := sp_PrometheusScrapingEnabled monitoringTemplateDefaults\<rparr> else spec)
      in (patchRequired, spec))"

definition setMonitoringTemplateDefaults :: "operator_configuration_spec \<Rightarrow> bool \<times> operator_configuration_spec" where
  "setMonitoringTemplateDefaults spec =
     (if \<not> AutoMonitorNamespaces_IsEnabled spec \<and> os_MonitoringTemplate spec = None then (False, spec)
      else (let template = (case os_MonitoringTemplate spec of
                              Some template \<Rightarrow> template
                            | None \<Rightarrow> \<lparr>mt_Name = [], mt_Labels = [], mt_Annotations = [], mt_Spec = empty_spec\<rparr>);
                (patchRequired, templateSpec) = template_spec_defaults (mt_Spec template)
            in (os_MonitoringTemplate spec = None \<or> patchRequired,
                spec\<lparr>os_MonitoringTemplate := Some (template\<lparr>mt_Spec := templateSpec\<rparr>)\<rparr>)))"

definition defaultSyntheticsWorkerNodeAffinity :: node_affinity where
  "defaultSyntheticsWorkerNodeAffinity =
     [[\<lparr>nr_Key = ''dash0.com/enable'', nr_Operator = ''NotIn'', nr_Values = [''false'']\<rparr>,
       \<lparr>nr_Key = ''kubernetes.io/os'', nr_Operator = ''In'', nr_Values = [''linux'']\<rparr>]]"

definition setSyntheticsWorkerInstanceDefaults :: "operator_configuration_spec \<Rightarrow> bool \<times> operator_configuration_spec" where
  "setSyntheticsWorkerInstanceDefaults spec =
     (list_ex (\<lambda>i. si_NodeAffinity i = None) (os_SyntheticsWorkerInstances spec),
      spec\<lparr>os_SyntheticsWorkerInstances :=
        map (\<lambda>i. if si_NodeAffinity i = None then i\<lparr>si_NodeAffinity := Some defaultSyntheticsWorkerNodeAffinity\<rparr> else i)
          (os_SyntheticsWorkerInstances spec)\<rparr>)"

text \<open>Setting a default: whether it was necessary, and the value afterwards.\<close>

definition with_default :: "bool option \<Rightarrow> bool \<Rightarrow> bool \<times> bool option" where
  "with_default v d = (case v of None \<Rightarrow> (True, Some d) | Some _ \<Rightarrow> (False, v))"

definition set_enabled_defaults :: "operator_configuration_spec \<Rightarrow> bool \<times> operator_configuration_spec" where
  "set_enabled_defaults spec =
     (let (p1, telemetry) = with_default (os_TelemetryCollectionEnabled spec) True;
          telemetryCollectionEnabled = the telemetry;
          (p2, selfMonitoring) = with_default (os_SelfMonitoringEnabled spec) True;
          (p3, metrics) = with_default (os_KubernetesInfrastructureMetricsCollection_Enabled spec) telemetryCollectionEnabled;
          (p4, deprecated) = with_default (os_KubernetesInfrastructureMetricsCollectionEnabled spec) telemetryCollectionEnabled;
          (p5, pods) = with_default (os_CollectPodLabelsAndAnnotationsEnabled spec) telemetryCollectionEnabled;
          (p6, namespaces) = with_default (os_CollectNamespaceLabelsAndAnnotationsEnabled spec) False;
          (p7, nodes) = with_default (os_CollectNodeLabelsAndAnnotationsEnabled spec) False;
          (p8, prometheus) = with_default (os_PrometheusCrdSupportEnabled spec) False
      in (p1 \<or> p2 \<or> p3 \<or> p4 \<or> p5 \<or> p6 \<or> p7 \<or> p8,
          spec\<lparr>os_TelemetryCollectionEnabled := telemetry, os_SelfMonitoringEnabled := selfMonitoring,
               os_KubernetesInfrastructureMetricsCollection_Enabled := metrics,
               os_KubernetesInfrastructureMetricsCollectionEnabled := deprecated,
               os_CollectPodLabelsAndAnnotationsEnabled := pods,
               os_CollectNamespaceLabelsAndAnnotationsEnabled := namespaces,
               os_CollectNodeLabelsAndAnnotationsEnabled := nodes, os_PrometheusCrdSupportEnabled := prometheus\<rparr>))"

definition normalizeOperatorConfigurationResourceSpec ::
  "json_parser \<Rightarrow> ('r, operator_configuration) admission_codec \<Rightarrow> 'r admission_request \<Rightarrow> operator_configuration_spec \<Rightarrow>
   ((nat \<times> admission_error) + bool \<times> operator_configuration_spec) outcome" where
  "normalizeOperatorConfigurationResourceSpec parse cd request spec =
     (case migrate_export (os_Export spec) (os_Exports spec)
             (isExportsUnchangedFromOldOperatorConfigurationResource cd request (os_Exports spec)) of
        Inl e \<Rightarrow> Inr (Inl e)
      | Inr (migrated, exports) \<Rightarrow>
          (let (enabled, spec) = set_enabled_defaults (spec\<lparr>os_Exports := exports, os_Export := None\<rparr>);
               (template, spec) = setMonitoringTemplateDefaults spec;
               patchRequired = (migrated \<or> enabled \<or> template);
               finish = (\<lambda>patchRequired spec.
                 let (instances, spec) = setSyntheticsWorkerInstanceDefaults spec
                 in Inr (Inr (patchRequired \<or> instances, spec)))
           in case os_Transform spec of
                Some transform \<Rightarrow>
                  (case normalizeTransform parse transform of
                     Inl p \<Rightarrow> Inl p
                   | Inr (Inl e) \<Rightarrow> Inr (Inl (StatusBadRequest, InvalidTransform e))
                   | Inr (Inr normalized) \<Rightarrow> finish True (spec\<lparr>os_NormalizedTransformSpec := Some normalized\<rparr>))
              | None \<Rightarrow>
                  if os_NormalizedTransformSpec spec \<noteq> None
                  then finish True (spec\<lparr>os_NormalizedTransformSpec := None\<rparr>)
                  else finish patchRequired spec))"

definition OperatorConfigurationMutatingWebhookHandler_Handle ::
  "json_parser \<Rightarrow> ('r, operator_configuration) admission_codec \<Rightarrow> 'r admission_request \<Rightarrow> 'r admission_response outcome" where
  "OperatorConfigurationMutatingWebhookHandler_Handle parse cd request =
     (if isReachabilityCheck request then Inr (AdmissionAllowed [])
      else case ad_decode cd (aq_Object request) of
        None \<Rightarrow> Inr (AdmissionErrored StatusBadRequest NotDecodable)
      | Some resource \<Rightarrow>
          map_sum id (\<lambda>normalized.
              case normalized of
                Inl (status, e) \<Rightarrow> AdmissionErrored status e
              | Inr (patchRequired, spec) \<Rightarrow>
                  patch_response cd (aq_Object request) patchRequired (resource\<lparr>oc_Spec := spec\<rparr>))
            (normalizeOperatorConfigurationResourceSpec parse cd request (oc_Spec resource)))"

end
