(* ===== verification/MonitoringValidation.thy ===== *)
theory MonitoringValidation
  imports MonitoringWebhooks
begin

text \<open>
  The validating webhook for monitoring resources, \<open>internal/webhooks/monitoring_validation_webhook.go\<close>.

  A check gives \<open>Some\<close> denial if it is done with the request, and \<open>None\<close> otherwise.
\<close>

section \<open>The handler\<close>

text \<open>
  \<open>mv_validateFilterProcessor\<close> and \<open>mv_validateTransformProcessor\<close> populate and validate the configuration of the processor
  of the collector (\<open>unmarshalAndValidateProcessorConfig\<close> with its factory); an error is its text.
\<close>

record monitoring_validation_handler =
  mv_operatorNamespace :: string
  mv_labelsParse :: selector_parser
  mv_validateFilterProcessor :: "json \<Rightarrow> string option"
  mv_validateTransformProcessor :: "json \<Rightarrow> string option"

definition validTraceContextPropagators :: "string list" where
  "validTraceContextPropagators =
     [''tracecontext'', ''baggage'', ''b3'', ''b3multi'', ''jaeger'', ''xray'', ''ottrace'', ''none'']"

section \<open>Checks\<close>

definition rejectCustomMonitoringResourceInAutomaticallyMonitoredNamespace ::
  "monitoring_validation_handler \<Rightarrow> 'w admission_api \<Rightarrow> operation \<Rightarrow> operator_configuration list \<Rightarrow> monitoring \<Rightarrow>
   ('m \<times> 'w, denial option) state" where
  "rejectCustomMonitoringResourceInAutomaticallyMonitoredNamespace h api op availableOperatorConfigurations d =
     (case availableOperatorConfigurations of
        [] \<Rightarrow> State_Monad.return None
      | c # _ \<Rightarrow>
          if \<not> AutoMonitorNamespaces_IsEnabled (oc_Spec c) then State_Monad.return None
          else if map_of (mo_Labels d) AutoMonitoredNamespaceLabel = Some ''true'' then State_Monad.return None
          else if mo_Namespace d = mv_operatorNamespace h then State_Monad.return None
          else if mo_Namespace d \<in> set RestrictedNamespaces then State_Monad.return None
          else if op \<noteq> CreateOperation then State_Monad.return None
          else case mv_labelsParse h (os_AutoMonitorNamespacesLabelSelector (oc_Spec c)) of
            None \<Rightarrow> State_Monad.return None
          | Some selector \<Rightarrow> do {
              answer \<leftarrow> call (aa_namespaceLabels api (mo_Namespace d));
              State_Monad.return (case answer of
                Inl _ \<Rightarrow> None
              | Inr labels \<Rightarrow> if selector (map_of labels) then Some (AutomaticallyManaged (mo_Namespace d)) else None)
            })"

definition validateExport :: "operator_configuration list \<Rightarrow> monitoring_spec \<Rightarrow> denial option" where
  "validateExport availableOperatorConfigurations spec =
     (if sp_Export spec \<noteq> None \<and> length (sp_Exports spec) > 0 then Some ExportAndExportsAreMutuallyExclusive
      else
        (case (if length (sp_Exports spec) = 0
               then case availableOperatorConfigurations of
                      [] \<Rightarrow> Some NoExportAndNoConfiguration
                    | [c] \<Rightarrow> if length (os_Exports (oc_Spec c)) = 0 then Some NoExportInConfiguration else None
                    | _ \<Rightarrow> Some NoExportAndSeveralConfigurations
               else None) of
           Some denial \<Rightarrow> Some denial
         | None \<Rightarrow>
             if list_all validateGrpcExportInsecureFlags (sp_Exports spec) then None else Some GrpcExportInvalidInsecure))"

definition validateTelemetryRelatedSettingsIfTelemetryCollectionIsDisabled ::
  "operator_configuration list \<Rightarrow> monitoring_spec \<Rightarrow> denial option" where
  "validateTelemetryRelatedSettingsIfTelemetryCollectionIsDisabled availableOperatorConfigurations spec =
     (case availableOperatorConfigurations of
        [] \<Rightarrow> None
      | c # _ \<Rightarrow>
          if ReadBoolPointerWithDefault (os_TelemetryCollectionEnabled (oc_Spec c)) True then None
          else if sp_Mode spec \<noteq> InstrumentWorkloadsModeNone then Some (InstrumentationWithoutTelemetry (sp_Mode spec))
          else if ReadBoolPointerWithDefault (sp_LogCollectionEnabled spec) True then Some LogCollectionWithoutTelemetry
          else if ReadBoolPointerWithDefault (sp_EventCollectionEnabled spec) True then Some EventCollectionWithoutTelemetry
          else if ReadBoolPointerWithDefault (sp_KubernetesObjectCollectionEnabled spec) False then Some ObjectCollectionWithoutTelemetry
          else if ReadBoolPointerWithDefault (sp_PrometheusScrapingEnabled spec) True then Some ScrapingWithoutTelemetry
          else if sp_Filter spec \<noteq> None then Some FilterWithoutTelemetry
          else if sp_Transform spec \<noteq> None then Some TransformWithoutTelemetry
          else None)"

definition validateLabelSelector :: "monitoring_validation_handler \<Rightarrow> monitoring_spec \<Rightarrow> denial option" where
  "validateLabelSelector h spec =
     (let labelSelectorRaw = sp_LabelSelector spec
      in if TrimSpace labelSelectorRaw = [] then Some EmptyLabelSelector
         else case mv_labelsParse h labelSelectorRaw of
           None \<Rightarrow> Some (UnparsableLabelSelector labelSelectorRaw)
         | Some _ \<Rightarrow> None)"

fun validate_propagators :: "string \<Rightarrow> string list \<Rightarrow> denial option" where
  "validate_propagators raw [] = None"
| "validate_propagators raw (propagatorRaw # rest) =
     (let propagator = TrimSpace propagatorRaw
      in if propagator = [] then Some (EmptyPropagator raw)
         else if propagator \<notin> set validTraceContextPropagators then Some (UnknownPropagator raw propagator)
         else validate_propagators raw rest)"

definition validateTraceContextPropagators :: "monitoring_spec \<Rightarrow> denial option" where
  "validateTraceContextPropagators spec =
     (case sp_Propagators spec of
        None \<Rightarrow> None
      | Some propagatorsRaw \<Rightarrow>
          if TrimSpace propagatorsRaw = [] then None
          else validate_propagators propagatorsRaw (Split propagatorsRaw CHR '',''))"

section \<open>Filters and transformations\<close>

definition toAnySlice :: "string list \<Rightarrow> json" where
  "toAnySlice values = JArray (map JString values)"

text \<open>Maps are extended by keys that they do not have yet.\<close>

definition addConditions :: "(string \<times> json) list \<Rightarrow> string \<Rightarrow> string list \<Rightarrow> (string \<times> json) list" where
  "addConditions signalConfig key conditions =
     (if length conditions = 0 then signalConfig else signalConfig @ [(key, toAnySlice conditions)])"

definition add_signal :: "(string \<times> json) list \<Rightarrow> string \<Rightarrow> (string \<times> json) list option \<Rightarrow> (string \<times> json) list" where
  "add_signal rawConfig key signalConfig =
     (case signalConfig of
        None \<Rightarrow> rawConfig
      | Some signals \<Rightarrow> if length signals > 0 then rawConfig @ [(key, JObject signals)] else rawConfig)"

definition renderFilterProcessorConfig :: "Filter \<Rightarrow> json" where
  "renderFilterProcessorConfig f =
     (let rawConfig = (if fi_ErrorMode f \<noteq> [] then [(''error_mode'', JString (fi_ErrorMode f))] else []);
          rawConfig = add_signal rawConfig ''traces''
            (map_option (\<lambda>t. addConditions (addConditions [] ''span'' (tf_SpanFilter t)) ''spanevent'' (tf_SpanEventFilter t)) (fi_Traces f));
          rawConfig = add_signal rawConfig ''metrics''
            (map_option (\<lambda>m. addConditions (addConditions [] ''metric'' (mf_MetricFilter m)) ''datapoint'' (mf_DataPointFilter m)) (fi_Metrics f));
          rawConfig = add_signal rawConfig ''logs'' (map_option (addConditions [] ''log_record'') (fi_Logs f));
          rawConfig = add_signal rawConfig ''profiles'' (map_option (addConditions [] ''profile'') (fi_Profiles f))
      in JObject rawConfig)"

definition render_transform_group :: "NormalizedTransformGroup \<Rightarrow> json" where
  "render_transform_group g =
     JObject ([(''statements'', toAnySlice (ng_Statements g))]
       @ (case ng_Context g of None \<Rightarrow> [] | Some context \<Rightarrow> [(''context'', JString context)])
       @ (case ng_ErrorMode g of None \<Rightarrow> [] | Some mode \<Rightarrow> [(''error_mode'', JString mode)])
       @ (if length (ng_Conditions g) > 0 then [(''conditions'', toAnySlice (ng_Conditions g))] else []))"

definition addTransformGroups :: "(string \<times> json) list \<Rightarrow> string \<Rightarrow> NormalizedTransformGroup list \<Rightarrow> (string \<times> json) list" where
  "addTransformGroups rawConfig key groups =
     (if length groups = 0 then rawConfig else rawConfig @ [(key, JArray (map render_transform_group groups))])"

definition renderTransformProcessorConfig :: "NormalizedTransformSpec \<Rightarrow> json" where
  "renderTransformProcessorConfig transform =
     (let rawConfig = (case nt_ErrorMode transform of None \<Rightarrow> [] | Some mode \<Rightarrow> [(''error_mode'', JString mode)]);
          rawConfig = addTransformGroups rawConfig ''trace_statements'' (nt_Traces transform);
          rawConfig = addTransformGroups rawConfig ''metric_statements'' (nt_Metrics transform);
          rawConfig = addTransformGroups rawConfig ''log_statements'' (nt_Logs transform);
          rawConfig = addTransformGroups rawConfig ''profile_statements'' (nt_Profiles transform)
      in JObject rawConfig)"

definition validateFilter :: "monitoring_validation_handler \<Rightarrow> Filter \<Rightarrow> string option" where
  "validateFilter h f = mv_validateFilterProcessor h (renderFilterProcessorConfig f)"

definition validateTransform :: "monitoring_validation_handler \<Rightarrow> NormalizedTransformSpec \<Rightarrow> string option" where
  "validateTransform h transform = mv_validateTransformProcessor h (renderTransformProcessorConfig transform)"

definition validateOttl :: "monitoring_validation_handler \<Rightarrow> monitoring_spec \<Rightarrow> denial option" where
  "validateOttl h spec =
     (let errors = (case sp_Filter spec of None \<Rightarrow> [] | Some f \<Rightarrow> (case validateFilter h f of None \<Rightarrow> [] | Some e \<Rightarrow> [e]));
          errors = errors @ (case sp_NormalizedTransformSpec spec of
            None \<Rightarrow> [] | Some t \<Rightarrow> (case validateTransform h t of None \<Rightarrow> [] | Some e \<Rightarrow> [e]))
      in if errors \<noteq> [] then Some (InvalidOttl errors) else None)"

section \<open>Handling a request\<close>

text \<open>The first check that is done with the request.\<close>

fun first_denial :: "denial option list \<Rightarrow> denial option" where
  "first_denial [] = None"
| "first_denial (Some d # checks) = Some d"
| "first_denial (None # checks) = first_denial checks"

definition monitoring_checks :: "monitoring_validation_handler \<Rightarrow> operator_configuration list \<Rightarrow> monitoring_spec \<Rightarrow> denial option list" where
  "monitoring_checks h availableOperatorConfigurations spec =
     [validateExport availableOperatorConfigurations spec,
      validateTelemetryRelatedSettingsIfTelemetryCollectionIsDisabled availableOperatorConfigurations spec,
      validateLabelSelector h spec, validateTraceContextPropagators spec, validateOttl h spec]"

text \<open>The part of the handler that needs the operator configurations.\<close>

definition validate_with_api ::
  "monitoring_validation_handler \<Rightarrow> 'w admission_api \<Rightarrow> operation \<Rightarrow> monitoring \<Rightarrow> ('m \<times> 'w, 'r admission_response) state" where
  "validate_with_api h api op d = do {
     available \<leftarrow> loadAvailableOperatorConfigurationResources api;
     (case available of
        Inl (status, e) \<Rightarrow> State_Monad.return (AdmissionErrored status e)
      | Inr configurations \<Rightarrow> do {
          rejected \<leftarrow> rejectCustomMonitoringResourceInAutomaticallyMonitoredNamespace h api op configurations d;
          State_Monad.return (case first_denial (rejected # monitoring_checks h configurations (mo_Spec d)) of
            Some denial \<Rightarrow> AdmissionDenied denial
          | None \<Rightarrow> AdmissionAllowed [])
        })
   }"

definition MonitoringValidationWebhookHandler_Handle ::
  "monitoring_validation_handler \<Rightarrow> ('r, monitoring) admission_codec \<Rightarrow> 'w admission_api \<Rightarrow> 'r admission_request \<Rightarrow>
   ('m \<times> 'w, 'r admission_response) state" where
  "MonitoringValidationWebhookHandler_Handle h cd api request =
     (if isReachabilityCheck request then State_Monad.return (AdmissionAllowed [])
      else case ad_decode cd (aq_Object request) of
        None \<Rightarrow> State_Monad.return (AdmissionErrored StatusBadRequest NotDecodable)
      | Some d \<Rightarrow>
          if aq_Operation request = UpdateOperation \<and> MonitoringFinalizerId \<notin> set (mo_Finalizers d)
          then State_Monad.return (AdmissionAllowed [])
          else
            (let mode = sp_Mode (mo_Spec d)
             in if aq_Namespace request \<in> set RestrictedNamespaces \<and> mode \<noteq> InstrumentWorkloadsModeNone
                then State_Monad.return (AdmissionDenied (RestrictedNamespaceInstrumented mode))
                else if aq_Namespace request = mv_operatorNamespace h \<and> mode \<noteq> InstrumentWorkloadsModeNone
                then State_Monad.return (AdmissionDenied (OperatorNamespaceInstrumented mode))
                else validate_with_api h api (aq_Operation request) d))"

end
