(* ===== verification/MonitoringWebhookProps.thy ===== *)
theory MonitoringWebhookProps
  imports MonitoringValidation WebhookProps
begin

text \<open>
  Properties of the webhooks for the resources of the operator: normalizing is idempotent, a resource is admitted exactly if it
  follows a declarative policy, and both webhooks agree on the settings that the user leaves open.
\<close>

section \<open>Normalizing\<close>

lemma telemetry_defaults_fields:
  assumes "setTelemetryCollectionRelatedDefaults h ns c spec = (p, spec')"
  shows "sp_Mode spec' = (if sp_Mode spec = []
      then if ns = mm_operatorNamespace h \<or> \<not> telemetry_collection_enabled h c then InstrumentWorkloadsModeNone else InstrumentWorkloadsModeAll
      else sp_Mode spec)"
    "sp_LogCollectionEnabled spec' = (case sp_LogCollectionEnabled spec of
       None \<Rightarrow> Some (ns \<noteq> mm_operatorNamespace h \<and> telemetry_collection_enabled h c) | Some b \<Rightarrow> Some b)"
    "sp_EventCollectionEnabled spec' = (case sp_EventCollectionEnabled spec of None \<Rightarrow> Some (telemetry_collection_enabled h c) | Some b \<Rightarrow> Some b)"
    "sp_PrometheusScrapingEnabled spec' = (case sp_PrometheusScrapingEnabled spec of None \<Rightarrow> Some (telemetry_collection_enabled h c) | Some b \<Rightarrow> Some b)"
    "sp_Transform spec' = sp_Transform spec" "sp_Export spec' = sp_Export spec" "sp_Exports spec' = sp_Exports spec"
    "sp_LabelSelector spec' = sp_LabelSelector spec" "sp_Propagators spec' = sp_Propagators spec"
    "sp_CaptureSqlQueryParameters spec' = sp_CaptureSqlQueryParameters spec" "sp_Filter spec' = sp_Filter spec"
    "sp_KubernetesObjectCollectionEnabled spec' = sp_KubernetesObjectCollectionEnabled spec"
    "sp_NormalizedTransformSpec spec' = sp_NormalizedTransformSpec spec"
    "sp_SynchronizePersesDashboards spec' = sp_SynchronizePersesDashboards spec"
    "sp_SynchronizePrometheusRules spec' = sp_SynchronizePrometheusRules spec"
  using assms[unfolded setTelemetryCollectionRelatedDefaults_def Let_def prod.inject, THEN conjunct2, symmetric]
  by (simp_all split: option.split)

lemma telemetry_defaults_set:
  assumes "setTelemetryCollectionRelatedDefaults h ns c spec = (p, spec')"
  shows "sp_Mode spec' \<noteq> []" "sp_LogCollectionEnabled spec' \<noteq> None" "sp_EventCollectionEnabled spec' \<noteq> None"
    "sp_PrometheusScrapingEnabled spec' \<noteq> None"
  by (simp_all add: telemetry_defaults_fields[OF assms] InstrumentWorkloadsModeNone_def InstrumentWorkloadsModeAll_def split: option.split)

lemma telemetry_defaults_keep:
  assumes "sp_Mode spec \<noteq> []" "sp_LogCollectionEnabled spec \<noteq> None" "sp_EventCollectionEnabled spec \<noteq> None"
    "sp_PrometheusScrapingEnabled spec \<noteq> None"
  shows "setTelemetryCollectionRelatedDefaults h ns c spec = (False, spec)"
  using assms by (auto simp: setTelemetryCollectionRelatedDefaults_def Let_def)

lemma override_fields:
  assumes "overrideLogCollectionDefault h ns spec = (p, spec')"
  shows "spec' = (if ns = mm_operatorNamespace h \<and> ReadBoolPointerWithDefault (sp_LogCollectionEnabled spec) True
    then spec\<lparr>sp_LogCollectionEnabled := Some False\<rparr> else spec)"
  using assms by (auto simp: overrideLogCollectionDefault_def split: if_splits)

text \<open>What normalizing a specification without an error gives.\<close>

lemma normalize_result:
  assumes "normalizeMonitoringResourceSpec h cd request c spec = Inr (Inr (p, spec'))"
  obtains p1 p2 spec1 spec2 exports normalized where
    "setTelemetryCollectionRelatedDefaults h (aq_Namespace request) c spec = (p1, spec1)"
    "overrideLogCollectionDefault h (aq_Namespace request) spec1 = (p2, spec2)"
    "spec' = spec2\<lparr>sp_Exports := exports, sp_Export := None, sp_NormalizedTransformSpec := normalized\<rparr>"
    "case sp_Transform spec of None \<Rightarrow> normalized = sp_NormalizedTransformSpec spec
     | Some t \<Rightarrow> \<exists>n. normalizeTransform (mm_jsonUnmarshal h) t = Inr (Inr n) \<and> normalized = Some n"
proof -
  obtain p1 spec1 where one: "setTelemetryCollectionRelatedDefaults h (aq_Namespace request) c spec = (p1, spec1)" by fastforce
  obtain p2 spec2 where two: "overrideLogCollectionDefault h (aq_Namespace request) spec1 = (p2, spec2)" by fastforce
  have same: "sp_Transform spec2 = sp_Transform spec" "sp_NormalizedTransformSpec spec2 = sp_NormalizedTransformSpec spec"
    using telemetry_defaults_fields[OF one] override_fields[OF two] by simp_all
  obtain p3 exports where three: "migrate_export (sp_Export spec2) (sp_Exports spec2)
      (isExportsUnchangedFromOldMonitoringResource cd request (sp_Exports spec2)) = Inr (p3, exports)"
    using assms one two by (auto simp: normalizeMonitoringResourceSpec_def split: sum.splits)
  show ?thesis
  proof (cases "sp_Transform spec")
    case None
    have "spec' = spec2\<lparr>sp_Exports := exports, sp_Export := None\<rparr>"
      using assms one two three same None by (simp add: normalizeMonitoringResourceSpec_def)
    with same have "spec' = spec2\<lparr>sp_Exports := exports, sp_Export := None, sp_NormalizedTransformSpec := sp_NormalizedTransformSpec spec\<rparr>"
      by (cases spec2) simp
    then show ?thesis using that[OF one two] None by simp
  next
    case (Some t)
    obtain n where "normalizeTransform (mm_jsonUnmarshal h) t = Inr (Inr n)"
      "spec' = spec2\<lparr>sp_Exports := exports, sp_Export := None, sp_NormalizedTransformSpec := Some n\<rparr>"
      using assms one two three same Some by (auto simp: normalizeMonitoringResourceSpec_def split: sum.splits)
    then show ?thesis using that[OF one two] Some by simp
  qed
qed

lemma normalized_settings:
  assumes "normalizeMonitoringResourceSpec h cd request c spec = Inr (Inr (p, spec'))"
  shows "sp_Mode spec' \<noteq> []" "sp_LogCollectionEnabled spec' \<noteq> None" "sp_EventCollectionEnabled spec' \<noteq> None"
    "sp_PrometheusScrapingEnabled spec' \<noteq> None" "sp_Export spec' = None" "sp_Transform spec' = sp_Transform spec"
    "aq_Namespace request = mm_operatorNamespace h \<Longrightarrow> sp_LogCollectionEnabled spec' = Some False"
    "\<And>t. sp_Transform spec = Some t \<Longrightarrow> \<exists>n. normalizeTransform (mm_jsonUnmarshal h) t = Inr (Inr n) \<and>
       sp_NormalizedTransformSpec spec' = Some n"
proof -
  obtain p1 p2 spec1 spec2 exports normalized where
    one: "setTelemetryCollectionRelatedDefaults h (aq_Namespace request) c spec = (p1, spec1)" and
    two: "overrideLogCollectionDefault h (aq_Namespace request) spec1 = (p2, spec2)" and
    spec': "spec' = spec2\<lparr>sp_Exports := exports, sp_Export := None, sp_NormalizedTransformSpec := normalized\<rparr>" and
    normalized: "case sp_Transform spec of None \<Rightarrow> normalized = sp_NormalizedTransformSpec spec
     | Some t \<Rightarrow> \<exists>n. normalizeTransform (mm_jsonUnmarshal h) t = Inr (Inr n) \<and> normalized = Some n"
    using normalize_result[OF assms] .
  note facts = telemetry_defaults_set[OF one] telemetry_defaults_fields(5)[OF one] override_fields[OF two] spec'
  show "sp_Mode spec' \<noteq> []" "sp_LogCollectionEnabled spec' \<noteq> None" "sp_EventCollectionEnabled spec' \<noteq> None"
    "sp_PrometheusScrapingEnabled spec' \<noteq> None" "sp_Export spec' = None" "sp_Transform spec' = sp_Transform spec"
    using facts by (auto split: if_splits)
  show "sp_LogCollectionEnabled spec' = Some False" if "aq_Namespace request = mm_operatorNamespace h"
    using facts that by (auto simp: ReadBoolPointerWithDefault_def split: if_splits)
  show "\<exists>n. normalizeTransform (mm_jsonUnmarshal h) t = Inr (Inr n) \<and> sp_NormalizedTransformSpec spec' = Some n"
    if "sp_Transform spec = Some t" for t using normalized spec' that by auto
qed

text \<open>Normalizing what is normalized already.\<close>

lemma normalize_fixpoint:
  assumes "sp_Mode spec \<noteq> []" "sp_LogCollectionEnabled spec \<noteq> None" "sp_EventCollectionEnabled spec \<noteq> None"
    "sp_PrometheusScrapingEnabled spec \<noteq> None" "sp_Export spec = None"
    "aq_Namespace request = mm_operatorNamespace h \<Longrightarrow> sp_LogCollectionEnabled spec = Some False"
    "\<And>t. sp_Transform spec = Some t \<Longrightarrow> \<exists>n. normalizeTransform (mm_jsonUnmarshal h) t = Inr (Inr n) \<and>
       sp_NormalizedTransformSpec spec = Some n"
  shows "normalizeMonitoringResourceSpec h cd request c spec = Inr (Inr (sp_Transform spec \<noteq> None, spec))"
proof -
  have "overrideLogCollectionDefault h (aq_Namespace request) spec = (False, spec)"
    using assms(2,6) by (auto simp: overrideLogCollectionDefault_def ReadBoolPointerWithDefault_def)
  moreover have "setTelemetryCollectionRelatedDefaults h (aq_Namespace request) c spec = (False, spec)"
    by (rule telemetry_defaults_keep) (use assms in auto)
  moreover have "spec\<lparr>sp_Export := None\<rparr> = spec" using assms(5) by (cases spec) simp
  moreover have "spec\<lparr>sp_NormalizedTransformSpec := Some n\<rparr> = spec" if "sp_NormalizedTransformSpec spec = Some n" for n
    using that by (cases spec) simp
  ultimately show ?thesis
    using assms(5,7) by (cases "sp_Transform spec") (auto simp: normalizeMonitoringResourceSpec_def migrate_export_def)
qed

section \<open>The policy for monitoring resources\<close>

text \<open>Where a resource takes its exports from: its own ones, or those of the only operator configuration.\<close>

definition exports_policy :: "operator_configuration list \<Rightarrow> monitoring_spec \<Rightarrow> bool" where
  "exports_policy configurations spec \<longleftrightarrow>
     (sp_Export spec = None \<or> sp_Exports spec = []) \<and>
     (sp_Exports spec = [] \<longrightarrow> (\<exists>c. configurations = [c] \<and> os_Exports (oc_Spec c) \<noteq> [])) \<and>
     (\<forall>e\<in>set (sp_Exports spec). \<forall>g. ex_Grpc e = Some g \<longrightarrow> \<not> (gc_Insecure g = Some True \<and> gc_InsecureSkipVerify g = Some True))"

text \<open>Without telemetry nothing is collected.\<close>

definition telemetry_policy :: "operator_configuration list \<Rightarrow> monitoring_spec \<Rightarrow> bool" where
  "telemetry_policy configurations spec \<longleftrightarrow>
     (\<forall>c cs. configurations = c # cs \<and> os_TelemetryCollectionEnabled (oc_Spec c) = Some False \<longrightarrow>
        sp_Mode spec = InstrumentWorkloadsModeNone \<and> sp_LogCollectionEnabled spec = Some False \<and>
        sp_EventCollectionEnabled spec = Some False \<and> sp_KubernetesObjectCollectionEnabled spec \<noteq> Some True \<and>
        sp_PrometheusScrapingEnabled spec = Some False \<and> sp_Filter spec = None \<and> sp_Transform spec = None)"

definition syntax_policy :: "monitoring_validation_handler \<Rightarrow> monitoring_spec \<Rightarrow> bool" where
  "syntax_policy h spec \<longleftrightarrow>
     TrimSpace (sp_LabelSelector spec) \<noteq> [] \<and> mv_labelsParse h (sp_LabelSelector spec) \<noteq> None \<and>
     (\<forall>p. sp_Propagators spec = Some p \<and> TrimSpace p \<noteq> [] \<longrightarrow>
        (\<forall>x\<in>set (Split p CHR '',''). TrimSpace x \<in> set validTraceContextPropagators)) \<and>
     (\<forall>f. sp_Filter spec = Some f \<longrightarrow> mv_validateFilterProcessor h (renderFilterProcessorConfig f) = None) \<and>
     (\<forall>n. sp_NormalizedTransformSpec spec = Some n \<longrightarrow> mv_validateTransformProcessor h (renderTransformProcessorConfig n) = None)"

definition namespace_policy :: "monitoring_validation_handler \<Rightarrow> string \<Rightarrow> monitoring_spec \<Rightarrow> bool" where
  "namespace_policy h ns spec \<longleftrightarrow>
     ns \<in> set RestrictedNamespaces \<or> ns = mv_operatorNamespace h \<longrightarrow> sp_Mode spec = InstrumentWorkloadsModeNone"

text \<open>The namespace is managed automatically, so that no other resource may be created there.\<close>

definition automatically_managed ::
  "monitoring_validation_handler \<Rightarrow> api_error + stringmap \<Rightarrow> operation \<Rightarrow> operator_configuration list \<Rightarrow> monitoring \<Rightarrow> bool" where
  "automatically_managed h namespaceLabels op configurations d \<longleftrightarrow>
     op = CreateOperation \<and> map_of (mo_Labels d) AutoMonitoredNamespaceLabel \<noteq> Some ''true'' \<and>
     mo_Namespace d \<noteq> mv_operatorNamespace h \<and> mo_Namespace d \<notin> set RestrictedNamespaces \<and>
     (\<exists>c cs selector labels. configurations = c # cs \<and> os_AutoMonitorNamespacesEnabled (oc_Spec c) = Some True \<and>
        mv_labelsParse h (os_AutoMonitorNamespacesLabelSelector (oc_Spec c)) = Some selector \<and>
        namespaceLabels = Inr labels \<and> selector (map_of labels))"

definition admissible ::
  "monitoring_validation_handler \<Rightarrow> 'w admission_api \<Rightarrow> 'w \<Rightarrow> operation \<Rightarrow> string \<Rightarrow> monitoring \<Rightarrow> bool" where
  "admissible h api w op ns d \<longleftrightarrow>
     (\<exists>listed w'. aa_listOperatorConfigurations api w = (listed, w') \<and> (\<forall>e. listed = Inl e \<longrightarrow> e = NotFound) \<and>
        (let configurations = (case listed of Inl _ \<Rightarrow> [] | Inr items \<Rightarrow> filter operator_configuration_IsAvailable items)
         in namespace_policy h ns (mo_Spec d) \<and>
            \<not> automatically_managed h (fst (aa_namespaceLabels api (mo_Namespace d) w')) op configurations d \<and>
            exports_policy configurations (mo_Spec d) \<and> telemetry_policy configurations (mo_Spec d) \<and> syntax_policy h (mo_Spec d)))"

lemma first_denial_None: "first_denial checks = None \<longleftrightarrow> (\<forall>c\<in>set checks. c = None)"
  by (induction checks rule: first_denial.induct) auto

lemma validateExport_policy: "validateExport configurations spec = None \<longleftrightarrow> exports_policy configurations spec"
proof -
  have "validateGrpcExportInsecureFlags e \<longleftrightarrow>
      (\<forall>g. ex_Grpc e = Some g \<longrightarrow> \<not> (gc_Insecure g = Some True \<and> gc_InsecureSkipVerify g = Some True))" for e
    by (auto simp: validateGrpcExportInsecureFlags_def ReadBoolPointerWithDefault_def split: option.splits)
  then show ?thesis
    by (auto simp: validateExport_def exports_policy_def list_all_iff split: list.splits)
qed

lemma validateTelemetry_policy:
  "validateTelemetryRelatedSettingsIfTelemetryCollectionIsDisabled configurations spec = None \<longleftrightarrow> telemetry_policy configurations spec"
  by (auto simp: validateTelemetryRelatedSettingsIfTelemetryCollectionIsDisabled_def telemetry_policy_def
      ReadBoolPointerWithDefault_def split: list.splits option.splits if_splits)

lemma validate_propagators_policy:
  "validate_propagators raw ps = None \<longleftrightarrow> (\<forall>p\<in>set ps. TrimSpace p \<in> set validTraceContextPropagators)"
proof -
  have "[] \<notin> set validTraceContextPropagators" by (simp add: validTraceContextPropagators_def)
  then show ?thesis by (induction ps) (auto simp: Let_def)
qed

lemma syntax_checks_policy:
  "validateLabelSelector h spec = None \<and> validateTraceContextPropagators spec = None \<and> validateOttl h spec = None \<longleftrightarrow> syntax_policy h spec"
  by (auto simp: syntax_policy_def validateLabelSelector_def validateTraceContextPropagators_def validateOttl_def validateFilter_def
      validateTransform_def validate_propagators_policy Let_def split: option.splits)

lemma reject_policy:
  "fst (run_state (rejectCustomMonitoringResourceInAutomaticallyMonitoredNamespace h api op configurations d) (mg, w)) = None \<longleftrightarrow>
   \<not> automatically_managed h (fst (aa_namespaceLabels api (mo_Namespace d) w)) op configurations d"
proof (cases configurations)
  case Nil
  then show ?thesis
    by (simp add: automatically_managed_def rejectCustomMonitoringResourceInAutomaticallyMonitoredNamespace_def)
next
  case (Cons c cs)
  obtain answer w' where answer: "aa_namespaceLabels api (mo_Namespace d) w = (answer, w')" by fastforce
  have enabled: "AutoMonitorNamespaces_IsEnabled (oc_Spec c) \<longleftrightarrow> os_AutoMonitorNamespacesEnabled (oc_Spec c) = Some True"
    by (auto simp: AutoMonitorNamespaces_IsEnabled_def ReadBoolPointerWithDefault_def split: option.splits)
  show ?thesis
    using answer Cons enabled
    by (cases "mv_labelsParse h (os_AutoMonitorNamespacesLabelSelector (oc_Spec c))"; cases answer)
      (auto simp: automatically_managed_def rejectCustomMonitoringResourceInAutomaticallyMonitoredNamespace_def call_def
        State_Monad.bind_def)
qed

text \<open>The checks that need the operator configurations.\<close>

lemma checks_policy:
  "first_denial (fst (run_state (rejectCustomMonitoringResourceInAutomaticallyMonitoredNamespace h api op configurations d) (mg, w))
     # monitoring_checks h configurations (mo_Spec d)) = None \<longleftrightarrow>
   \<not> automatically_managed h (fst (aa_namespaceLabels api (mo_Namespace d) w)) op configurations d \<and>
   exports_policy configurations (mo_Spec d) \<and> telemetry_policy configurations (mo_Spec d) \<and> syntax_policy h (mo_Spec d)"
  unfolding first_denial_None monitoring_checks_def
  using reject_policy[of h api op configurations d mg w] validateExport_policy[of configurations "mo_Spec d"]
    validateTelemetry_policy[of configurations "mo_Spec d"] syntax_checks_policy[of h "mo_Spec d"]
  by auto

lemma validate_with_api_policy:
  "namespace_policy h ns (mo_Spec d) \<and>
     fst (run_state (validate_with_api h api op d :: ('m \<times> 'w, 'r admission_response) state) (mg, w)) = AdmissionAllowed [] \<longleftrightarrow>
   admissible h api w op ns d"
proof -
  obtain listed w' where listed: "aa_listOperatorConfigurations api w = (listed, w')" by fastforce
  have answer: "(case x of Some denial \<Rightarrow> AdmissionDenied denial | None \<Rightarrow> AdmissionAllowed []) = AdmissionAllowed [] \<longleftrightarrow> x = None" for x
    by (cases x) simp_all
  have checked: "fst (run_state (validate_with_api h api op d :: ('m \<times> 'w, 'r admission_response) state) (mg, w)) = AdmissionAllowed [] \<longleftrightarrow>
      first_denial (fst (run_state (rejectCustomMonitoringResourceInAutomaticallyMonitoredNamespace h api op configurations d) (mg, w'))
        # monitoring_checks h configurations (mo_Spec d)) = None"
    if "run_state (loadAvailableOperatorConfigurationResources api) (mg, w) = (Inr configurations, (mg, w'))" for configurations
    using that by (simp add: validate_with_api_def case_prod_unfold answer)
  show ?thesis
  proof (cases listed)
    case (Inl e)
    show ?thesis
    proof (cases "e = NotFound")
      case True
      then have "run_state (loadAvailableOperatorConfigurationResources api) (mg, w) = (Inr [], (mg, w'))"
        using listed Inl by (simp add: loadAvailableOperatorConfigurationResources_def call_def)
      from checked[OF this] show ?thesis using listed Inl True by (simp add: checks_policy admissible_def Let_def)
    next
      case False
      then have "fst (run_state (validate_with_api h api op d :: ('m \<times> 'w, 'r admission_response) state) (mg, w)) \<noteq> AdmissionAllowed []"
        using listed Inl by (simp add: validate_with_api_def loadAvailableOperatorConfigurationResources_def call_def)
      then show ?thesis using listed Inl False by (simp add: admissible_def)
    qed
  next
    case (Inr items)
    then have "run_state (loadAvailableOperatorConfigurationResources api) (mg, w) =
        (Inr (filter operator_configuration_IsAvailable items), (mg, w'))"
      using listed by (simp add: loadAvailableOperatorConfigurationResources_def call_def)
    from checked[OF this] show ?thesis using listed Inr by (simp add: checks_policy admissible_def Let_def)
  qed
qed

section \<open>Cases the code does not cover\<close>

text \<open>A normalized transformation stays in a resource from which the transformation has been removed.\<close>

lemma stale_transform_kept:
  assumes "normalizeMonitoringResourceSpec h cd request c spec = Inr (Inr (p, spec'))" and "sp_Transform spec = None"
  shows "sp_NormalizedTransformSpec spec' = sp_NormalizedTransformSpec spec"
proof -
  obtain p1 p2 spec1 spec2 exports normalized where
    "spec' = spec2\<lparr>sp_Exports := exports, sp_Export := None, sp_NormalizedTransformSpec := normalized\<rparr>"
    "case sp_Transform spec of None \<Rightarrow> normalized = sp_NormalizedTransformSpec spec
     | Some t \<Rightarrow> \<exists>n. normalizeTransform (mm_jsonUnmarshal h) t = Inr (Inr n) \<and> normalized = Some n"
    using normalize_result[OF assms(1)] .
  with assms(2) show ?thesis by simp
qed

text \<open>A context that is neither null nor a string makes the handlers panic.\<close>

lemma unchecked_context_panics:
  assumes "parse payload = Some (JObject m)" and "map_of m ''context'' = Some (JNumber n)"
  shows "normalizeTransformGroupsForOneSignal parse (payload # payloads) = Inl FailedTypeAssertion"
  using assms by (simp add: normalizeTransformGroupsForOneSignal_def normalize_group_def group_context_def)

text \<open>
  The defaults of the monitoring template do not take into account that telemetry collection is disabled: a resource with the mode
  of a template that leaves its mode open is denied then.
\<close>

lemma template_defaults_denied:
  assumes "setMonitoringTemplateDefaults spec = (p, oc_Spec c)" and "AutoMonitorNamespaces_IsEnabled spec"
    and "os_TelemetryCollectionEnabled spec = Some False" and "os_MonitoringTemplate spec = None"
  shows "\<exists>template. os_MonitoringTemplate (oc_Spec c) = Some template \<and>
    validateTelemetryRelatedSettingsIfTelemetryCollectionIsDisabled (c # cs) (mt_Spec template) =
      Some (InstrumentationWithoutTelemetry InstrumentWorkloadsModeCreatedAndUpdated)"
proof -
  have "oc_Spec c = spec\<lparr>os_MonitoringTemplate :=
      Some \<lparr>mt_Name = [], mt_Labels = [], mt_Annotations = [], mt_Spec = snd (template_spec_defaults empty_spec)\<rparr>\<rparr>"
    using assms(1,2,4) by (simp add: setMonitoringTemplateDefaults_def case_prod_unfold)
  moreover have "sp_Mode (snd (template_spec_defaults empty_spec)) = InstrumentWorkloadsModeCreatedAndUpdated" by code_simp
  ultimately show ?thesis
    using assms(3)
    by (simp add: validateTelemetryRelatedSettingsIfTelemetryCollectionIsDisabled_def ReadBoolPointerWithDefault_def
        InstrumentWorkloadsModeNone_def InstrumentWorkloadsModeCreatedAndUpdated_def)
qed

section \<open>Properties\<close>

text \<open>
  C14: The validating webhook admits a request exactly if it is a reachability check, an update that removes the finalizer, or if the
  resource follows the policy: it does not instrument namespaces of Kubernetes or of the operator, is not created in a namespace
  that is managed automatically, has exports of its own or the only operator configuration has some, collects nothing if telemetry
  collection is disabled, and its selectors, propagators, filters and transformations are well-formed.
\<close>

theorem validation_follows_policy:
  fixes request :: "'r admission_request" and mg :: 'm and w :: 'w
  shows "fst (run_state (MonitoringValidationWebhookHandler_Handle h cd api request) (mg, w)) = AdmissionAllowed [] \<longleftrightarrow>
     isReachabilityCheck request \<or>
     (\<exists>d. ad_decode cd (aq_Object request) = Some d \<and>
        (aq_Operation request = UpdateOperation \<and> MonitoringFinalizerId \<notin> set (mo_Finalizers d) \<or>
         admissible h api w (aq_Operation request) (aq_Namespace request) d))"
proof (cases "isReachabilityCheck request \<or> ad_decode cd (aq_Object request) = None")
  case True
  then show ?thesis by (auto simp: MonitoringValidationWebhookHandler_Handle_def)
next
  case False
  then obtain d where d: "ad_decode cd (aq_Object request) = Some d" by auto
  let ?removed = "aq_Operation request = UpdateOperation \<and> MonitoringFinalizerId \<notin> set (mo_Finalizers d)"
  have "fst (run_state (MonitoringValidationWebhookHandler_Handle h cd api request) (mg, w)) = AdmissionAllowed [] \<longleftrightarrow>
      ?removed \<or> namespace_policy h (aq_Namespace request) (mo_Spec d) \<and>
      fst (run_state (validate_with_api h api (aq_Operation request) d :: ('m \<times> 'w, 'r admission_response) state) (mg, w)) = AdmissionAllowed []"
    using False d by (simp add: MonitoringValidationWebhookHandler_Handle_def namespace_policy_def Let_def) blast
  then show ?thesis using False d by (simp add: validate_with_api_policy)
qed

text \<open>
  C15: Normalizing is idempotent. A monitoring resource that the mutating webhook has normalized stays as it is when it passes the
  webhook again, with whatever operator configuration, and only a transformation makes it send another (equal) patch. The API
  server relies on this when it calls the webhook again, and so does every update of a stored resource.
\<close>

theorem normalizing_idempotent:
  assumes "normalizeMonitoringResourceSpec h cd request c spec = Inr (Inr (p, spec'))"
    and "aq_Namespace request' = aq_Namespace request"
  shows "normalizeMonitoringResourceSpec h cd' request' c' spec' = Inr (Inr (sp_Transform spec' \<noteq> None, spec'))"
proof -
  note settings = normalized_settings[OF assms(1)]
  show ?thesis by (rule normalize_fixpoint) (use settings assms(2) in auto)
qed

definition sample_mutating_handler :: monitoring_mutating_handler where
  "sample_mutating_handler =
     \<lparr>mm_operatorNamespace = ''operator-namespace'', mm_signalControlSceOnlyMode = False,
      mm_jsonUnmarshal = (\<lambda>s. Some (JString s))\<rparr>"

definition sample_admission_codec :: "(monitoring, monitoring) admission_codec" where
  "sample_admission_codec = \<lparr>ad_decode = Some, ad_encode = Some\<rparr>"

definition sample_admission_request :: "monitoring admission_request" where
  "sample_admission_request =
     \<lparr>aq_Operation = CreateOperation, aq_Name = ''monitoring'', aq_Namespace = ''operator-namespace'', aq_DryRun = None,
      aq_Object = sample_monitoring, aq_OldObject = None\<rparr>"

definition sample_export :: Export where
  "sample_export = \<lparr>ex_Dash0 = None, ex_Grpc = Some \<lparr>gc_Endpoint = ''collector:4317'', gc_Insecure = Some True, gc_InsecureSkipVerify = None\<rparr>, ex_Rest = []\<rparr>"

text \<open>A resource with a deprecated export and a transformation, in the namespace of the operator.\<close>

definition open_spec :: monitoring_spec where
  "open_spec = sample_spec\<lparr>sp_Mode := [], sp_Export := Some sample_export,
     sp_Transform := Some \<lparr>tr_ErrorMode = None, tr_Traces = [''drop()''], tr_Metrics = [], tr_Logs = [], tr_Profiles = []\<rparr>\<rparr>"

theorem normalizing_idempotent_witness:
  "\<exists>spec'. normalizeMonitoringResourceSpec sample_mutating_handler sample_admission_codec sample_admission_request None open_spec =
       Inr (Inr (True, spec')) \<and> sp_Mode spec' = ''none'' \<and> sp_LogCollectionEnabled spec' = Some False \<and>
     normalizeMonitoringResourceSpec sample_mutating_handler sample_admission_codec sample_admission_request None spec' =
       Inr (Inr (True, spec'))"
proof -
  let ?norm = "normalizeMonitoringResourceSpec sample_mutating_handler sample_admission_codec sample_admission_request None"
  have "case ?norm open_spec of Inr (Inr (p, spec')) \<Rightarrow> p \<and> sp_Mode spec' = ''none'' \<and> sp_LogCollectionEnabled spec' = Some False \<and>
      sp_Transform spec' \<noteq> None | _ \<Rightarrow> False"
    by code_simp
  then obtain spec' where first: "?norm open_spec = Inr (Inr (True, spec'))" and "sp_Mode spec' = ''none''"
    "sp_LogCollectionEnabled spec' = Some False" "sp_Transform spec' \<noteq> None"
    by (cases "?norm open_spec") (auto split: sum.splits)
  with normalizing_idempotent[OF first refl, of sample_admission_codec None] show ?thesis by auto
qed

text \<open>
  C16: The webhooks agree on the settings that the user leaves open. If a monitoring resource does not ask for anything to be
  collected, then the defaults that the mutating webhook chooses for the available operator configurations never make the
  validating webhook deny it because telemetry collection is disabled.
\<close>

theorem open_settings_consistent:
  assumes "normalizeMonitoringResourceSpec h cd request
      (case configurations of [] \<Rightarrow> None | c # _ \<Rightarrow> Some (oc_Spec c)) spec = Inr (Inr (p, spec'))"
    and "sp_Mode spec \<in> {[], InstrumentWorkloadsModeNone}" and "sp_LogCollectionEnabled spec \<noteq> Some True"
    and "sp_EventCollectionEnabled spec \<noteq> Some True" and "sp_PrometheusScrapingEnabled spec \<noteq> Some True"
    and "sp_KubernetesObjectCollectionEnabled spec \<noteq> Some True" and "sp_Filter spec = None" and "sp_Transform spec = None"
  shows "validateTelemetryRelatedSettingsIfTelemetryCollectionIsDisabled configurations spec' = None"
proof -
  obtain p1 p2 spec1 spec2 exports normalized where
    one: "setTelemetryCollectionRelatedDefaults h (aq_Namespace request)
      (case configurations of [] \<Rightarrow> None | c # _ \<Rightarrow> Some (oc_Spec c)) spec = (p1, spec1)" and
    two: "overrideLogCollectionDefault h (aq_Namespace request) spec1 = (p2, spec2)" and
    spec': "spec' = spec2\<lparr>sp_Exports := exports, sp_Export := None, sp_NormalizedTransformSpec := normalized\<rparr>"
    using normalize_result[OF assms(1)] .
  note fields = telemetry_defaults_fields[OF one]
  have "telemetry_policy configurations spec'"
  proof (cases "\<exists>c cs. configurations = c # cs \<and> os_TelemetryCollectionEnabled (oc_Spec c) = Some False")
    case True
    then have disabled: "\<not> telemetry_collection_enabled h (case configurations of [] \<Rightarrow> None | c # _ \<Rightarrow> Some (oc_Spec c))"
      by (auto simp: telemetry_collection_enabled_def ReadBoolPointerWithDefault_def)
    have "sp_Mode spec1 = InstrumentWorkloadsModeNone" "sp_LogCollectionEnabled spec1 = Some False"
      "sp_EventCollectionEnabled spec1 = Some False" "sp_PrometheusScrapingEnabled spec1 = Some False"
      using assms(2-5) disabled by (auto simp: fields split: option.splits)
    then show ?thesis
      using assms(6-8) fields spec' override_fields[OF two] by (auto simp: telemetry_policy_def)
  qed (auto simp: telemetry_policy_def)
  then show ?thesis by (simp add: validateTelemetry_policy)
qed

definition sample_configuration :: operator_configuration where
  "sample_configuration =
     \<lparr>oc_Name = ''configuration'', oc_UID = ''c1'', oc_CreationTimestamp = 0, oc_Deleting = False, oc_Finalizers = [],
      oc_Spec = \<lparr>os_Export = None, os_Exports = [sample_export], os_SelfMonitoringEnabled = None,
        os_KubernetesInfrastructureMetricsCollection_Enabled = None, os_KubernetesInfrastructureMetricsCollectionEnabled = None,
        os_CollectPodLabelsAndAnnotationsEnabled = None, os_CollectNamespaceLabelsAndAnnotationsEnabled = None,
        os_CollectNodeLabelsAndAnnotationsEnabled = None, os_PrometheusCrdSupportEnabled = None, os_Transform = None,
        os_NormalizedTransformSpec = None, os_TelemetryCollectionEnabled = Some False,
        os_AutoMonitorNamespacesEnabled = Some True, os_AutoMonitorNamespacesLabelSelector = ''dash0.com/enable!=false'',
        os_MonitoringTemplate = None, os_SyntheticsWorkerInstances = [], os_Rest = []\<rparr>,
      oc_Conditions = [(''Available'', ''True'')], oc_PreviousAutoMonitorNamespacesLabelSelector = [],
      oc_PreviousMonitoringTemplate = None\<rparr>"

theorem open_settings_consistent_witness:
  "\<exists>p spec'. normalizeMonitoringResourceSpec sample_mutating_handler sample_admission_codec sample_admission_request
       (Some (oc_Spec sample_configuration)) empty_spec = Inr (Inr (p, spec')) \<and>
     validateTelemetryRelatedSettingsIfTelemetryCollectionIsDisabled [sample_configuration] spec' = None"
proof -
  let ?norm = "normalizeMonitoringResourceSpec sample_mutating_handler sample_admission_codec sample_admission_request
    (case [sample_configuration] of [] \<Rightarrow> None | c # _ \<Rightarrow> Some (oc_Spec c)) empty_spec"
  have "case ?norm of Inr (Inr _) \<Rightarrow> True | _ \<Rightarrow> False" by code_simp
  then obtain p spec' where norm: "?norm = Inr (Inr (p, spec'))" by (cases ?norm) (auto split: sum.splits)
  from open_settings_consistent[OF norm] norm show ?thesis by (auto simp: empty_spec_def)
qed

end
