(* ===== verification/NamespaceMonitoring.thy ===== *)
theory NamespaceMonitoring
  imports DashResources OperatorConfiguration
begin

text \<open>
  Automatic monitoring of namespaces, \<open>internal/controller/auto_namespace_monitoring_controller.go\<close>: the watcher that gives
  the matching namespaces a monitoring resource, and the controller that starts and stops it and reacts to changed settings.

  The API is an argument. The work that the controller leaves to goroutines is a list of tasks in its state; \<open>run_task\<close> is what
  such a goroutine does. An active watch is identified by a number, the identity of the pointer to its stop function.
\<close>

section \<open>State and calls\<close>

datatype auto_task =
    UnmonitorNamespacesThatNoLongerMatch string string
  | DeleteAllAutoMonitoringResources
  | UpdateAllWithNewTemplate MonitoringTemplate string

record auto_state =
  as_controllerStopFunction :: "nat option"
  as_watchedLabelSelector :: string
  as_nextStopFunction :: nat
  as_tasks :: "auto_task list"

record k8s_namespace =
  ns_Name :: string
  ns_Labels :: stringmap
  ns_Deleting :: bool

record hook_job =
  hj_CreationTimestamp :: int
  hj_Conditions :: "(string \<times> string) list"

text \<open>
  The calls: \<open>na_listMonitoring\<close> takes the namespace and the label that the resources must have, \<open>na_apiList\<close> and \<open>na_apiListJobs\<close>
  read from the API server instead of the cache, and \<open>na_startController\<close> says whether a controller with its watches could be created.
\<close>

record 'w auto_api =
  na_getNamespace :: "string \<Rightarrow> 'w \<Rightarrow> (api_error + k8s_namespace) \<times> 'w"
  na_listNamespaces :: "((string \<rightharpoonup> string) \<Rightarrow> bool) \<Rightarrow> 'w \<Rightarrow> (api_error + k8s_namespace list) \<times> 'w"
  na_listConfigurations :: "'w \<Rightarrow> (api_error + operator_configuration list) \<times> 'w"
  na_apiListConfigurations :: "'w \<Rightarrow> (api_error + operator_configuration list) \<times> 'w"
  na_apiListJobs :: "string \<Rightarrow> string \<Rightarrow> 'w \<Rightarrow> (api_error + hook_job list) \<times> 'w"
  na_listMonitoring :: "string option \<Rightarrow> (string \<times> string) option \<Rightarrow> 'w \<Rightarrow> (api_error + monitoring list) \<times> 'w"
  na_create :: "monitoring \<Rightarrow> 'w \<Rightarrow> api_error option \<times> 'w"
  na_update :: "monitoring \<Rightarrow> 'w \<Rightarrow> api_error option \<times> 'w"
  na_delete :: "monitoring \<Rightarrow> 'w \<Rightarrow> api_error option \<times> 'w"
  na_configuration :: "(operator_configuration, 'w) resource_calls"
  na_startController :: "string \<Rightarrow> 'w \<Rightarrow> bool \<times> 'w"

record NamespaceWatcher =
  nw_operatorNamespace :: string
  nw_operatorCreatedAt :: int
  nw_labelsParse :: selector_parser

definition UninstallationProcessComponent :: string where
  "UninstallationProcessComponent = ''uninstallation-process''"

definition AppKubernetesIoComponentLabel :: string where
  "AppKubernetesIoComponentLabel = ''app.kubernetes.io/component''"

section \<open>Comparing with the template\<close>

text \<open>Equality of Go maps.\<close>

definition maps_equal :: "stringmap \<Rightarrow> stringmap \<Rightarrow> bool" where
  "maps_equal a b \<longleftrightarrow> list_all (\<lambda>k. map_of a k = map_of b k) (map fst a @ map fst b)"

definition compareAndUpdateObjectMeta ::
  "stringmap \<Rightarrow> stringmap \<Rightarrow> stringmap \<Rightarrow> stringmap \<Rightarrow> bool \<Rightarrow> bool \<times> stringmap \<times> stringmap" where
  "compareAndUpdateObjectMeta templateLabels templateAnnotations labels annotations addAutoMonitoredNamespaceLabel =
     (let expectedLabels = maps_Copy [] templateLabels;
          expectedLabels = (if addAutoMonitoredNamespaceLabel
                            then AList.update AutoMonitoredNamespaceLabel TrueString expectedLabels else expectedLabels);
          needsLabelsUpdate = (\<not> maps_equal labels expectedLabels);
          expectedAnnotations = maps_Copy [] templateAnnotations;
          needsAnnotationsUpdate = (\<not> maps_equal annotations expectedAnnotations)
      in (needsLabelsUpdate \<or> needsAnnotationsUpdate,
          if needsLabelsUpdate then expectedLabels else labels,
          if needsAnnotationsUpdate then expectedAnnotations else annotations))"

text \<open>A setting of the resource is replaced by that of the template if they are different.\<close>

definition replace_if :: "bool \<Rightarrow> ('s \<Rightarrow> 's) \<Rightarrow> bool \<times> 's \<Rightarrow> bool \<times> 's" where
  "replace_if different f = (\<lambda>(updated, s). if different then (True, f s) else (updated, s))"

definition differs :: "bool option \<Rightarrow> bool option \<Rightarrow> bool \<Rightarrow> bool" where
  "differs a b d \<longleftrightarrow> ReadBoolPointerWithDefault a d \<noteq> ReadBoolPointerWithDefault b d"

definition compareAndUpdateSpec :: "monitoring_spec \<Rightarrow> monitoring_spec \<Rightarrow> bool \<times> monitoring_spec" where
  "compareAndUpdateSpec t s =
     (replace_if (differs (sp_SynchronizePrometheusRules s) (sp_SynchronizePrometheusRules t) True)
        (\<lambda>x. x\<lparr>sp_SynchronizePrometheusRules := sp_SynchronizePrometheusRules t\<rparr>)
      (replace_if (differs (sp_SynchronizePersesDashboards s) (sp_SynchronizePersesDashboards t) True)
        (\<lambda>x. x\<lparr>sp_SynchronizePersesDashboards := sp_SynchronizePersesDashboards t\<rparr>)
      (replace_if (sp_Transform s \<noteq> sp_Transform t) (\<lambda>x. x\<lparr>sp_Transform := sp_Transform t\<rparr>)
      (replace_if (sp_Filter s \<noteq> sp_Filter t) (\<lambda>x. x\<lparr>sp_Filter := sp_Filter t\<rparr>)
      (replace_if (differs (sp_PrometheusScrapingEnabled s) (sp_PrometheusScrapingEnabled t) True)
        (\<lambda>x. x\<lparr>sp_PrometheusScrapingEnabled := sp_PrometheusScrapingEnabled t\<rparr>)
      (replace_if (differs (sp_KubernetesObjectCollectionEnabled s) (sp_KubernetesObjectCollectionEnabled t) False)
        (\<lambda>x. x\<lparr>sp_KubernetesObjectCollectionEnabled := sp_KubernetesObjectCollectionEnabled t\<rparr>)
      (replace_if (differs (sp_EventCollectionEnabled s) (sp_EventCollectionEnabled t) True)
        (\<lambda>x. x\<lparr>sp_EventCollectionEnabled := sp_EventCollectionEnabled t\<rparr>)
      (replace_if (differs (sp_LogCollectionEnabled s) (sp_LogCollectionEnabled t) True)
        (\<lambda>x. x\<lparr>sp_LogCollectionEnabled := sp_LogCollectionEnabled t\<rparr>)
      (replace_if (differs (sp_CaptureSqlQueryParameters s) (sp_CaptureSqlQueryParameters t) False)
        (\<lambda>x. x\<lparr>sp_CaptureSqlQueryParameters := sp_CaptureSqlQueryParameters t\<rparr>)
      (replace_if (IsStringPointerValueDifferent (sp_Propagators s) (sp_Propagators t))
        (\<lambda>x. x\<lparr>sp_Propagators := sp_Propagators t\<rparr>)
      (replace_if (sp_LabelSelector s \<noteq> sp_LabelSelector t) (\<lambda>x. x\<lparr>sp_LabelSelector := sp_LabelSelector t\<rparr>)
      (replace_if (sp_Mode s \<noteq> sp_Mode t) (\<lambda>x. x\<lparr>sp_Mode := sp_Mode t\<rparr>)
        (False, s)))))))))))))"

definition compareMonitoringResourceToMonitoringTemplateAndUpdate :: "MonitoringTemplate \<Rightarrow> monitoring \<Rightarrow> bool \<times> monitoring" where
  "compareMonitoringResourceToMonitoringTemplateAndUpdate t d =
     (let (objectMetaHasBeenUpdated, labels, annotations) =
            compareAndUpdateObjectMeta (mt_Labels t) (mt_Annotations t) (mo_Labels d) (mo_Annotations d) True;
          (specHasBeenUpdated, spec) = compareAndUpdateSpec (mt_Spec t) (mo_Spec d)
      in (objectMetaHasBeenUpdated \<or> specHasBeenUpdated,
          d\<lparr>mo_Labels := labels, mo_Annotations := annotations, mo_Spec := spec\<rparr>))"

definition compareMonitoringTemplates :: "MonitoringTemplate option \<Rightarrow> MonitoringTemplate option \<Rightarrow> bool" where
  "compareMonitoringTemplates t1 t2 =
     (case (t1, t2) of
        (None, None) \<Rightarrow> False
      | (Some a, Some b) \<Rightarrow>
          fst (compareAndUpdateObjectMeta (mt_Labels a) (mt_Annotations a) (mt_Labels b) (mt_Annotations b) False) \<or>
          fst (compareAndUpdateSpec (mt_Spec a) (mt_Spec b))
      | _ \<Rightarrow> True)"

section \<open>Monitoring a namespace\<close>

definition namespaceMatchesLabelSelector :: "selector_parser \<Rightarrow> k8s_namespace \<Rightarrow> string \<Rightarrow> bool" where
  "namespaceMatchesLabelSelector labelsParse ns selectorStr =
     (if selectorStr = [] then True
      else case labelsParse selectorStr of
        None \<Rightarrow> False
      | Some selector \<Rightarrow> selector (map_of (ns_Labels ns)))"

definition indicatesUninstallation :: "int \<Rightarrow> hook_job \<Rightarrow> bool" where
  "indicatesUninstallation operatorCreatedAt job \<longleftrightarrow>
     \<not> hj_CreationTimestamp job < operatorCreatedAt \<and>
     \<not> list_ex (\<lambda>(type, status). type = ''Failed'' \<and> status = ''True'') (hj_Conditions job)"

definition isOperatorBeingUninstalled :: "NamespaceWatcher \<Rightarrow> 'w auto_api \<Rightarrow> ('m \<times> 'w, api_error + bool) state" where
  "isOperatorBeingUninstalled w api = do {
     answer \<leftarrow> call (na_apiListJobs api (nw_operatorNamespace w) UninstallationProcessComponent);
     State_Monad.return (map_sum id (list_ex (indicatesUninstallation (nw_operatorCreatedAt w))) answer)
   }"

definition isAutoNamespaceMonitoringEnabledInApiServer :: "'w auto_api \<Rightarrow> ('m \<times> 'w, api_error + bool) state" where
  "isAutoNamespaceMonitoringEnabledInApiServer api = do {
     answer \<leftarrow> call (na_apiListConfigurations api);
     State_Monad.return (map_sum id (\<lambda>items.
       case find operator_configuration_IsAvailable items of
         None \<Rightarrow> False
       | Some c \<Rightarrow> AutoMonitorNamespaces_IsEnabled (oc_Spec c)) answer)
   }"

text \<open>The resource that is created; the API server sets what the code leaves open.\<close>

definition new_monitoring_resource :: "string \<Rightarrow> MonitoringTemplate \<Rightarrow> monitoring" where
  "new_monitoring_resource namespaceName template =
     \<lparr>mo_Namespace = namespaceName,
      mo_Name = (if mt_Name template = [] then MonitoringAutoResourceDefaultName else mt_Name template),
      mo_UID = [], mo_CreationTimestamp = 0, mo_Deleting = False, mo_Finalizers = [],
      mo_Labels = AList.update AutoMonitoredNamespaceLabel TrueString (maps_Copy [] (mt_Labels template)),
      mo_Annotations = maps_Copy [] (mt_Annotations template), mo_Spec = mt_Spec template, mo_Conditions = [],
      mo_PreviousMode = [], mo_PreviousLabelSelector = [], mo_PreviousPropagators = None,
      mo_PreviousCaptureSqlQueryParameters = None, mo_PreviousLogCollectionEnabled = None\<rparr>"

definition createMonitoringResource ::
  "NamespaceWatcher \<Rightarrow> 'w auto_api \<Rightarrow> string \<Rightarrow> MonitoringTemplate \<Rightarrow> ('m \<times> 'w, api_error option) state" where
  "createMonitoringResource w api namespaceName template = do {
     uninstalled \<leftarrow> isOperatorBeingUninstalled w api;
     (case uninstalled of
        Inl e \<Rightarrow> State_Monad.return (Some e)
      | Inr True \<Rightarrow> State_Monad.return None
      | Inr False \<Rightarrow> do {
          enabled \<leftarrow> isAutoNamespaceMonitoringEnabledInApiServer api;
          (case enabled of
             Inl e \<Rightarrow> State_Monad.return (Some e)
           | Inr False \<Rightarrow> State_Monad.return None
           | Inr True \<Rightarrow> call (na_create api (new_monitoring_resource namespaceName template)))
        })
   }"

definition reconcileResourceWithMonitoringTemplate ::
  "'w auto_api \<Rightarrow> monitoring \<Rightarrow> MonitoringTemplate \<Rightarrow> ('m \<times> 'w, api_error option) state" where
  "reconcileResourceWithMonitoringTemplate api d template =
     (let (hasBeenUpdated, d) = compareMonitoringResourceToMonitoringTemplateAndUpdate template d
      in if \<not> hasBeenUpdated then State_Monad.return None else call (na_update api d))"

definition is_auto_monitored :: "monitoring \<Rightarrow> bool" where
  "is_auto_monitored d \<longleftrightarrow> map_of (mo_Labels d) AutoMonitoredNamespaceLabel = Some TrueString"

definition ensureNamespaceIsMonitored ::
  "NamespaceWatcher \<Rightarrow> 'w auto_api \<Rightarrow> k8s_namespace \<Rightarrow> MonitoringTemplate \<Rightarrow> ('m \<times> 'w, api_error option) state" where
  "ensureNamespaceIsMonitored w api ns template = do {
     answer \<leftarrow> call (na_listMonitoring api (Some (ns_Name ns)) None);
     (case answer of
        Inl e \<Rightarrow> State_Monad.return (Some e)
      | Inr [] \<Rightarrow> createMonitoringResource w api (ns_Name ns) template
      | Inr (existing # _) \<Rightarrow>
          if is_auto_monitored existing then reconcileResourceWithMonitoringTemplate api existing template
          else State_Monad.return None)
   }"

text \<open>Deleting stops at the first error that is not that the resource does not exist.\<close>

fun delete_all :: "'w auto_api \<Rightarrow> monitoring list \<Rightarrow> ('m \<times> 'w, api_error option) state" where
  "delete_all api [] = State_Monad.return None"
| "delete_all api (d # ds) = do {
     err \<leftarrow> call (na_delete api d);
     (case err of
        Some e \<Rightarrow> if e \<noteq> NotFound then State_Monad.return (Some e) else delete_all api ds
      | None \<Rightarrow> delete_all api ds)
   }"

definition auto_monitored_label :: "(string \<times> string) option" where
  "auto_monitored_label = Some (AutoMonitoredNamespaceLabel, TrueString)"

definition ensureNamespaceIsUnmonitored :: "'w auto_api \<Rightarrow> k8s_namespace \<Rightarrow> ('m \<times> 'w, api_error option) state" where
  "ensureNamespaceIsUnmonitored api ns = do {
     answer \<leftarrow> call (na_listMonitoring api (Some (ns_Name ns)) auto_monitored_label);
     (case answer of
        Inl e \<Rightarrow> State_Monad.return (Some e)
      | Inr ds \<Rightarrow> delete_all api ds)
   }"

definition NamespaceWatcher_Reconcile :: "NamespaceWatcher \<Rightarrow> 'w auto_api \<Rightarrow> string \<Rightarrow> ('m \<times> 'w, api_error option) state" where
  "NamespaceWatcher_Reconcile w api name =
     (if name \<in> set RestrictedNamespaces then State_Monad.return None
      else if name = nw_operatorNamespace w then State_Monad.return None
      else do {
        answer \<leftarrow> call (na_getNamespace api name);
        (case answer of
           Inl e \<Rightarrow> State_Monad.return (if e = NotFound then None else Some e)
         | Inr ns \<Rightarrow>
             if ns_Deleting ns then State_Monad.return None
             else do {
               configurations \<leftarrow> call (na_listConfigurations api);
               (case configurations of
                  Inl e \<Rightarrow> State_Monad.return (Some e)
                | Inr items \<Rightarrow>
                    (case find operator_configuration_IsAvailable items of
                       None \<Rightarrow> State_Monad.return None
                     | Some c \<Rightarrow>
                         if AutoMonitorNamespaces_IsEnabled (oc_Spec c)
                         then case os_MonitoringTemplate (oc_Spec c) of
                                None \<Rightarrow> State_Monad.return None
                              | Some template \<Rightarrow>
                                  if namespaceMatchesLabelSelector (nw_labelsParse w) ns (os_AutoMonitorNamespacesLabelSelector (oc_Spec c))
                                  then ensureNamespaceIsMonitored w api ns template
                                  else ensureNamespaceIsUnmonitored api ns
                         else ensureNamespaceIsUnmonitored api ns))
             })
      })"

section \<open>Events of the watch\<close>

definition namespaceLabelSelectorPredicate_Create :: "((string \<rightharpoonup> string) \<Rightarrow> bool) \<Rightarrow> stringmap \<Rightarrow> bool" where
  "namespaceLabelSelectorPredicate_Create selector labels = selector (map_of labels)"

definition namespaceLabelSelectorPredicate_Update :: "((string \<rightharpoonup> string) \<Rightarrow> bool) \<Rightarrow> stringmap \<Rightarrow> stringmap \<Rightarrow> bool" where
  "namespaceLabelSelectorPredicate_Update selector oldLabels newLabels =
     (selector (map_of oldLabels) \<or> selector (map_of newLabels))"

text \<open>The predicate of the watch for a label selector: without one, and with one that cannot be parsed, all namespaces are watched.\<close>

definition watch_predicate :: "selector_parser \<Rightarrow> string \<Rightarrow> ((string \<rightharpoonup> string) \<Rightarrow> bool) option" where
  "watch_predicate labelsParse labelSelector = (if labelSelector \<noteq> [] then labelsParse labelSelector else None)"

section \<open>Starting and stopping the watch\<close>

definition isWatching :: "auto_state \<Rightarrow> bool" where
  "isWatching s \<longleftrightarrow> as_controllerStopFunction s \<noteq> None"

definition ensureNamespaceWatchIsActive :: "'w auto_api \<Rightarrow> string \<Rightarrow> (auto_state \<times> 'w, unit) state" where
  "ensureNamespaceWatchIsActive api labelSelector = do {
     s \<leftarrow> the_manager;
     (if isWatching s then State_Monad.return ()
      else do {
        created \<leftarrow> call (na_startController api labelSelector);
        (if \<not> created then State_Monad.return ()
         else change (\<lambda>s. s\<lparr>as_controllerStopFunction := Some (as_nextStopFunction s),
                            as_watchedLabelSelector := labelSelector,
                            as_nextStopFunction := as_nextStopFunction s + 1\<rparr>))
      })
   }"

definition stop_watch :: "auto_state \<Rightarrow> auto_state" where
  "stop_watch s = s\<lparr>as_controllerStopFunction := None\<rparr>"

definition ensureNamespaceWatchIsStopped :: "(auto_state \<times> 'w, unit) state" where
  "ensureNamespaceWatchIsStopped = do {
     s \<leftarrow> the_manager;
     (if \<not> isWatching s then State_Monad.return () else change stop_watch)
   }"

text \<open>The goroutine that runs a controller, at its end: it only resets the stop function if that is still its own.\<close>

definition namespace_controller_ended :: "nat \<Rightarrow> auto_state \<Rightarrow> auto_state" where
  "namespace_controller_ended stopFuncPtr s =
     (if as_controllerStopFunction s = Some stopFuncPtr then s\<lparr>as_controllerStopFunction := None\<rparr> else s)"

section \<open>Tasks\<close>

definition spawn :: "auto_task \<Rightarrow> (auto_state \<times> 'w, unit) state" where
  "spawn task = change (\<lambda>s. s\<lparr>as_tasks := as_tasks s @ [task]\<rparr>)"

fun unmonitor_namespaces :: "'w auto_api \<Rightarrow> ((string \<rightharpoonup> string) \<Rightarrow> bool) \<Rightarrow> k8s_namespace list \<Rightarrow> ('m \<times> 'w, unit) state" where
  "unmonitor_namespaces api currentSelector [] = State_Monad.return ()"
| "unmonitor_namespaces api currentSelector (ns # nss) =
     (if currentSelector (map_of (ns_Labels ns)) then unmonitor_namespaces api currentSelector nss
      else do {
        _ \<leftarrow> ensureNamespaceIsUnmonitored api ns;
        unmonitor_namespaces api currentSelector nss
      })"

definition unmonitorNamespacesThatNoLongerMatchTheChangedLabelSelector ::
  "NamespaceWatcher \<Rightarrow> 'w auto_api \<Rightarrow> string \<Rightarrow> string \<Rightarrow> ('m \<times> 'w, unit) state" where
  "unmonitorNamespacesThatNoLongerMatchTheChangedLabelSelector w api previousLabelSelector currentLabelSelector =
     (case nw_labelsParse w previousLabelSelector of
        None \<Rightarrow> State_Monad.return ()
      | Some previousSelector \<Rightarrow>
          (case nw_labelsParse w currentLabelSelector of
             None \<Rightarrow> State_Monad.return ()
           | Some currentSelector \<Rightarrow> do {
               answer \<leftarrow> call (na_listNamespaces api previousSelector);
               (case answer of
                  Inl _ \<Rightarrow> State_Monad.return ()
                | Inr nss \<Rightarrow> unmonitor_namespaces api currentSelector nss)
             }))"

text \<open>Here an error does not end the deletion.\<close>

fun delete_each :: "'w auto_api \<Rightarrow> monitoring list \<Rightarrow> ('m \<times> 'w, unit) state" where
  "delete_each api [] = State_Monad.return ()"
| "delete_each api (d # ds) = do {
     _ \<leftarrow> call (na_delete api d);
     delete_each api ds
   }"

definition deleteAllAutoMonitoringResourcesInCluster :: "'w auto_api \<Rightarrow> ('m \<times> 'w, unit) state" where
  "deleteAllAutoMonitoringResourcesInCluster api = do {
     answer \<leftarrow> call (na_listMonitoring api None auto_monitored_label);
     (case answer of
        Inl _ \<Rightarrow> State_Monad.return ()
      | Inr ds \<Rightarrow> delete_each api ds)
   }"

fun update_namespaces :: "'w auto_api \<Rightarrow> MonitoringTemplate \<Rightarrow> k8s_namespace list \<Rightarrow> ('m \<times> 'w, unit) state" where
  "update_namespaces api template [] = State_Monad.return ()"
| "update_namespaces api template (ns # nss) = do {
     answer \<leftarrow> call (na_listMonitoring api (Some (ns_Name ns)) auto_monitored_label);
     (case answer of
        Inl _ \<Rightarrow> update_namespaces api template nss
      | Inr [] \<Rightarrow> update_namespaces api template nss
      | Inr (d # _) \<Rightarrow> do {
          _ \<leftarrow> reconcileResourceWithMonitoringTemplate api d template;
          update_namespaces api template nss
        })
   }"

definition updateAllAutoMonitoringResourcesWithNewTemplate ::
  "NamespaceWatcher \<Rightarrow> 'w auto_api \<Rightarrow> MonitoringTemplate \<Rightarrow> string \<Rightarrow> ('m \<times> 'w, unit) state" where
  "updateAllAutoMonitoringResourcesWithNewTemplate w api template labelSelector =
     (case nw_labelsParse w labelSelector of
        None \<Rightarrow> State_Monad.return ()
      | Some selector \<Rightarrow> do {
          answer \<leftarrow> call (na_listNamespaces api selector);
          (case answer of
             Inl _ \<Rightarrow> State_Monad.return ()
           | Inr nss \<Rightarrow> update_namespaces api template nss)
        })"

definition run_task :: "NamespaceWatcher \<Rightarrow> 'w auto_api \<Rightarrow> auto_task \<Rightarrow> ('m \<times> 'w, unit) state" where
  "run_task w api task =
     (case task of
        UnmonitorNamespacesThatNoLongerMatch previous current \<Rightarrow>
          unmonitorNamespacesThatNoLongerMatchTheChangedLabelSelector w api previous current
      | DeleteAllAutoMonitoringResources \<Rightarrow> deleteAllAutoMonitoringResourcesInCluster api
      | UpdateAllWithNewTemplate template labelSelector \<Rightarrow>
          updateAllAutoMonitoringResourcesWithNewTemplate w api template labelSelector)"

section \<open>Reconciling the operator configuration\<close>

definition updateOperatorConfigurationStatus ::
  "'w auto_api \<Rightarrow> operator_configuration \<Rightarrow> string \<Rightarrow> string \<Rightarrow> bool \<Rightarrow> ('m \<times> 'w, api_error option) state" where
  "updateOperatorConfigurationStatus api c previousLabelSelector currentLabelSelector monitoringTemplateHasChanged =
     (if previousLabelSelector = currentLabelSelector \<and> \<not> monitoringTemplateHasChanged then State_Monad.return None
      else do {
        answer \<leftarrow> call (rc_get (na_configuration api) [] (oc_Name c));
        (case answer of
           Inl e \<Rightarrow> State_Monad.return (Some e)
         | Inr reloaded \<Rightarrow> do {
             updated \<leftarrow> call (rc_updateStatus (na_configuration api)
               (reloaded\<lparr>oc_PreviousAutoMonitorNamespacesLabelSelector := currentLabelSelector,
                         oc_PreviousMonitoringTemplate := os_MonitoringTemplate (oc_Spec reloaded)\<rparr>));
             State_Monad.return (case updated of Inl e \<Rightarrow> Some e | Inr _ \<Rightarrow> None)
           })
      })"

definition ensureNamespaceWatchIsActiveWithCorrectLabelSelector ::
  "'w auto_api \<Rightarrow> operator_configuration \<Rightarrow> (auto_state \<times> 'w, api_error option) state" where
  "ensureNamespaceWatchIsActiveWithCorrectLabelSelector api c =
     (let currentLabelSelector = os_AutoMonitorNamespacesLabelSelector (oc_Spec c);
          previousLabelSelector = oc_PreviousAutoMonitorNamespacesLabelSelector c;
          labelSelectorHasChanged = (previousLabelSelector \<noteq> [] \<and> previousLabelSelector \<noteq> currentLabelSelector);
          template = os_MonitoringTemplate (oc_Spec c);
          monitoringTemplateHasChanged = compareMonitoringTemplates (oc_PreviousMonitoringTemplate c) template
      in do {
        (if labelSelectorHasChanged then ensureNamespaceWatchIsStopped else State_Monad.return ());
        ensureNamespaceWatchIsActive api currentLabelSelector;
        (if labelSelectorHasChanged
         then spawn (UnmonitorNamespacesThatNoLongerMatch previousLabelSelector currentLabelSelector)
         else State_Monad.return ());
        (case (monitoringTemplateHasChanged, template) of
           (True, Some t) \<Rightarrow> spawn (UpdateAllWithNewTemplate t currentLabelSelector)
         | _ \<Rightarrow> State_Monad.return ());
        updateOperatorConfigurationStatus api c previousLabelSelector currentLabelSelector monitoringTemplateHasChanged
      })"

definition stop_and_delete_all :: "(auto_state \<times> 'w, unit) state" where
  "stop_and_delete_all = do {
     ensureNamespaceWatchIsStopped;
     spawn DeleteAllAutoMonitoringResources
   }"

definition AutoNamespaceMonitoringReconciler_Reconcile :: "'w auto_api \<Rightarrow> string \<Rightarrow> (auto_state \<times> 'w, api_error option outcome) state" where
  "AutoNamespaceMonitoringReconciler_Reconcile api name = do {
     (checkResourceResult, err) \<leftarrow> VerifyThatResourceExists (na_configuration api) [] name;
     (case err of
        Some e \<Rightarrow> ok (Some e)
      | None \<Rightarrow>
          if crr_ResourceDoesNotExist checkResourceResult
          then do {
            stop_and_delete_all;
            ok None
          }
          else if crr_StopReconcile checkResourceResult then ok None
          else case crr_Resource checkResourceResult of
            None \<Rightarrow> State_Monad.return (Inl FailedTypeAssertion)
          | Some c \<Rightarrow>
              if \<not> operator_configuration_IsAvailable c
              then do {
                ensureNamespaceWatchIsStopped;
                ok None
              }
              else if AutoMonitorNamespaces_IsEnabled (oc_Spec c)
              then safely (ensureNamespaceWatchIsActiveWithCorrectLabelSelector api c)
              else do {
                stop_and_delete_all;
                ok None
              })
   }"

end
