(* ===== verification/NamespaceMonitoringProps.thy ===== *)
theory NamespaceMonitoringProps
  imports MonitoringProps MonitoringWebhookProps NamespaceMonitoring
begin

text \<open>
  Properties of the automatic monitoring of namespaces: resources that users manage are never touched, and a successful request
  for a namespace leaves its resource as the template says, although both pass the webhooks.
\<close>

section \<open>The store\<close>

text \<open>What the API server stores for an object that is created or updated: it has passed the mutating webhook.\<close>

definition through_webhook :: "monitoring_mutating_handler \<Rightarrow> monitoring \<Rightarrow> monitoring \<Rightarrow> bool" where
  "through_webhook h d d' \<longleftrightarrow>
     resource_key d' = resource_key d \<and> map_of (mo_Labels d') = map_of (mo_Labels d) \<and>
     map_of (mo_Annotations d') = map_of (mo_Annotations d) \<and>
     (\<exists>(cd :: (string, monitoring) admission_codec) request c p. aq_Namespace request = mo_Namespace d \<and>
        normalizeMonitoringResourceSpec h cd request c (mo_Spec d) = Inr (Inr (p, mo_Spec d')))"

definition has_label :: "(string \<times> string) option \<Rightarrow> monitoring \<Rightarrow> bool" where
  "has_label label d \<longleftrightarrow> (case label of None \<Rightarrow> True | Some (k, v) \<Rightarrow> map_of (mo_Labels d) k = Some v)"

text \<open>
  The documented behaviour of an API server that is read without delay. A call that fails may have taken effect; deleting
  an object that has a finalizer only marks it.
\<close>

definition auto_store_laws ::
  "monitoring_mutating_handler \<Rightarrow> 'w auto_api \<Rightarrow> ('w \<Rightarrow> resource_key \<Rightarrow> monitoring option) \<Rightarrow> bool" where
  "auto_store_laws h api stored \<longleftrightarrow>
     (\<forall>w k d. stored w k = Some d \<longrightarrow> resource_key d = k \<and> (\<exists>d0. through_webhook h d0 d)) \<and>
     (\<forall>ns w. stored (snd (na_getNamespace api ns w)) = stored w) \<and>
     (\<forall>sel w. stored (snd (na_listNamespaces api sel w)) = stored w) \<and>
     (\<forall>w. stored (snd (na_listConfigurations api w)) = stored w) \<and>
     (\<forall>w. stored (snd (na_apiListConfigurations api w)) = stored w) \<and>
     (\<forall>ns l w. stored (snd (na_apiListJobs api ns l w)) = stored w) \<and>
     (\<forall>ns n w. stored (snd (rc_get (na_configuration api) ns n w)) = stored w) \<and>
     (\<forall>c w. stored (snd (rc_updateStatus (na_configuration api) c w)) = stored w) \<and>
     (\<forall>l w. stored (snd (na_startController api l w)) = stored w) \<and>
     (\<forall>ns l w. stored (snd (na_listMonitoring api ns l w)) = stored w \<and>
        (\<forall>ds. fst (na_listMonitoring api ns l w) = Inr ds \<longrightarrow>
           (\<forall>d. d \<in> set ds \<longleftrightarrow> stored w (resource_key d) = Some d \<and> (ns = None \<or> ns = Some (mo_Namespace d)) \<and> has_label l d))) \<and>
     (\<forall>d w. (\<exists>d'. stored w (resource_key d) = None \<and> through_webhook h d d' \<and>
                stored (snd (na_create api d w)) = (stored w)(resource_key d \<mapsto> d')) \<or>
            fst (na_create api d w) \<noteq> None \<and> stored (snd (na_create api d w)) = stored w) \<and>
     (\<forall>d w. (\<exists>d'. through_webhook h d d' \<and> stored (snd (na_update api d w)) = (stored w)(resource_key d \<mapsto> d')) \<or>
            fst (na_update api d w) \<noteq> None \<and> stored (snd (na_update api d w)) = stored w) \<and>
     (\<forall>d w. stored (snd (na_delete api d w)) = (stored w)(resource_key d := None) \<or>
            stored (snd (na_delete api d w)) = stored w \<or>
            (\<exists>d'. stored w (resource_key d) = Some d' \<and>
               stored (snd (na_delete api d w)) = (stored w)(resource_key d \<mapsto> d'\<lparr>mo_Deleting := True\<rparr>)))"

lemma auto_store_lawsD:
  assumes "auto_store_laws h api stored"
  shows "\<forall>w k d. stored w k = Some d \<longrightarrow> resource_key d = k \<and> (\<exists>d0. through_webhook h d0 d)"
    "\<forall>ns l w. stored (snd (na_apiListJobs api ns l w)) = stored w" "\<forall>w. stored (snd (na_apiListConfigurations api w)) = stored w"
    "\<forall>ns w. stored (snd (na_getNamespace api ns w)) = stored w" "\<forall>w. stored (snd (na_listConfigurations api w)) = stored w"
    "\<forall>ns l w. stored (snd (na_listMonitoring api ns l w)) = stored w \<and>
       (\<forall>ds. fst (na_listMonitoring api ns l w) = Inr ds \<longrightarrow>
          (\<forall>d. d \<in> set ds \<longleftrightarrow> stored w (resource_key d) = Some d \<and> (ns = None \<or> ns = Some (mo_Namespace d)) \<and> has_label l d))"
    "\<forall>d w. (\<exists>d'. stored w (resource_key d) = None \<and> through_webhook h d d' \<and>
               stored (snd (na_create api d w)) = (stored w)(resource_key d \<mapsto> d')) \<or>
           fst (na_create api d w) \<noteq> None \<and> stored (snd (na_create api d w)) = stored w"
    "\<forall>d w. (\<exists>d'. through_webhook h d d' \<and> stored (snd (na_update api d w)) = (stored w)(resource_key d \<mapsto> d')) \<or>
           fst (na_update api d w) \<noteq> None \<and> stored (snd (na_update api d w)) = stored w"
  using assms unfolding auto_store_laws_def by - (elim conjE, assumption)+

lemma auto_store_listed:
  assumes "auto_store_laws h api stored" and "na_listMonitoring api ns l w = (answer, w')"
  shows "stored w' = stored w"
    "answer = Inr ds \<Longrightarrow>
       d \<in> set ds \<longleftrightarrow> stored w (resource_key d) = Some d \<and> (ns = None \<or> ns = Some (mo_Namespace d)) \<and> has_label l d"
  using auto_store_lawsD(6)[OF assms(1), THEN spec[of _ ns], THEN spec[of _ l], THEN spec[of _ w]] assms(2) by simp_all

section \<open>Resources of the users\<close>

text \<open>A resource that is not one of the automatic monitoring is in the store, unchanged.\<close>

definition manual_at :: "('w \<Rightarrow> resource_key \<Rightarrow> monitoring option) \<Rightarrow> resource_key \<Rightarrow> monitoring \<Rightarrow> 'm \<times> 'w \<Rightarrow> bool" where
  "manual_at stored k d s \<longleftrightarrow> stored (snd s) k = Some d \<and> \<not> is_auto_monitored d"

lemma manual_keeps_call:
  "(\<And>w. P w \<Longrightarrow> P (snd (f w))) \<Longrightarrow> keeps (\<lambda>s. P (snd s)) (call f)"
  by (simp add: keeps_def wp_def call_def case_prod_unfold)

lemma manual_calls:
  assumes "auto_store_laws h api stored"
  shows "keeps (manual_at stored k d) (call (na_getNamespace api ns))" "keeps (manual_at stored k d) (call (na_listNamespaces api sel))"
    "keeps (manual_at stored k d) (call (na_listConfigurations api))" "keeps (manual_at stored k d) (call (na_apiListConfigurations api))"
    "keeps (manual_at stored k d) (call (na_apiListJobs api ns' l))" "keeps (manual_at stored k d) (call (rc_get (na_configuration api) ns n))"
    "keeps (manual_at stored k d) (call (rc_updateStatus (na_configuration api) c))"
    "keeps (manual_at stored k d) (call (na_startController api l'))" "keeps (manual_at stored k d) (call (na_listMonitoring api ns'' label))"
  using assms unfolding manual_at_def auto_store_laws_def by (intro manual_keeps_call; simp)+

lemma manual_writes:
  assumes "auto_store_laws h api stored"
  shows "keeps (manual_at stored k d) (call (na_create api e))"
    "resource_key e \<noteq> k \<Longrightarrow> keeps (manual_at stored k d) (call (na_update api e))"
    "resource_key e \<noteq> k \<Longrightarrow> keeps (manual_at stored k d) (call (na_delete api e))"
proof -
  have create: "stored (snd (na_create api e w)) k = Some d" if "stored w k = Some d" for w
    using assms that unfolding auto_store_laws_def by (elim conjE) (metis fun_upd_other option.distinct(1))
  have update: "stored (snd (na_update api e w)) k = Some d" if "stored w k = Some d" "resource_key e \<noteq> k" for w
    using assms that unfolding auto_store_laws_def by (elim conjE) (metis fun_upd_other)
  have delete: "stored (snd (na_delete api e w)) k = Some d" if "stored w k = Some d" "resource_key e \<noteq> k" for w
    using assms that unfolding auto_store_laws_def by (elim conjE) (metis fun_upd_other)
  show "keeps (manual_at stored k d) (call (na_create api e))"
    "resource_key e \<noteq> k \<Longrightarrow> keeps (manual_at stored k d) (call (na_update api e))"
    "resource_key e \<noteq> k \<Longrightarrow> keeps (manual_at stored k d) (call (na_delete api e))"
    unfolding manual_at_def using create update delete by (intro manual_keeps_call; blast)+
qed

text \<open>The resources of a listing that have the label of the automatic monitoring are other ones.\<close>

lemma manual_keeps_listing:
  fixes g :: "api_error + monitoring list \<Rightarrow> ('m \<times> 'w, 'x) state"
  assumes laws: "auto_store_laws h api stored" and failed: "\<And>e. keeps (manual_at stored k d) (g (Inl e))"
    and listed: "\<And>ds. (\<And>e. e \<in> set ds \<Longrightarrow> label = auto_monitored_label \<or> is_auto_monitored e \<Longrightarrow> resource_key e \<noteq> k) \<Longrightarrow> keeps (manual_at stored k d) (g (Inr ds))"
  shows "keeps (manual_at stored k d) (do { answer \<leftarrow> call (na_listMonitoring api ns label); g answer })"
  unfolding keeps_def wp_bind
proof (intro allI impI)
  fix s :: "'m \<times> 'w" assume I: "manual_at stored k d s"
  obtain m w where s: "s = (m, w)" by fastforce
  obtain answer w' where call: "na_listMonitoring api ns label w = (answer, w')" by fastforce
  have same: "stored w' = stored w" by (rule auto_store_listed(1)[OF laws call])
  have complete: "stored w (resource_key e) = Some e \<and> has_label label e" if "answer = Inr ds" "e \<in> set ds" for ds e
    using auto_store_listed(2)[OF laws call that(1), of e] that(2) by simp
  have "keeps (manual_at stored k d) (g answer)"
  proof (cases answer)
    case (Inr ds)
    have "resource_key e \<noteq> k" if "e \<in> set ds" "label = auto_monitored_label \<or> is_auto_monitored e" for e
      using complete[OF Inr that(1)] that(2) I
      by (auto simp: manual_at_def s has_label_def auto_monitored_label_def is_auto_monitored_def)
    then show ?thesis unfolding Inr by (rule listed)
  qed (simp add: failed)
  moreover have "manual_at stored k d (m, w')" using I same by (simp add: manual_at_def s)
  ultimately show "wp (call (na_listMonitoring api ns label)) (\<lambda>a. wp (g a) (\<lambda>_. manual_at stored k d)) s"
    by (simp add: s wp_def call_def call keeps_def)
qed

lemma keeps_deletions:
  assumes "auto_store_laws h api stored" and "\<And>e. e \<in> set ds \<Longrightarrow> resource_key e \<noteq> k"
  shows "keeps (manual_at stored k d) (delete_all api ds)" "keeps (manual_at stored k d) (delete_each api ds)"
  using assms(2) by (induction ds) (auto intro!: keeps_intros manual_writes(3)[OF assms(1)])

lemma manual_watcher:
  assumes laws: "auto_store_laws h api stored"
  shows "keeps (manual_at stored k d) (isOperatorBeingUninstalled w api)"
    "keeps (manual_at stored k d) (isAutoNamespaceMonitoringEnabledInApiServer api)"
    "keeps (manual_at stored k d) (createMonitoringResource w api ns' template)"
    "resource_key e \<noteq> k \<Longrightarrow> keeps (manual_at stored k d) (reconcileResourceWithMonitoringTemplate api e template)"
proof -
  note calls = manual_calls[OF laws] manual_writes[OF laws]
  show one: "keeps (manual_at stored k d) (isOperatorBeingUninstalled w api)"
    and two: "keeps (manual_at stored k d) (isAutoNamespaceMonitoringEnabledInApiServer api)"
    unfolding isOperatorBeingUninstalled_def isAutoNamespaceMonitoringEnabledInApiServer_def by (intro keeps_intros calls)+
  have bools: "keeps I f \<Longrightarrow> keeps I g \<Longrightarrow> keeps I (case b of True \<Rightarrow> f | False \<Rightarrow> g)" for I f g b by (cases b) simp_all
  show "keeps (manual_at stored k d) (createMonitoringResource w api ns' template)"
    unfolding createMonitoringResource_def by (intro keeps_intros bools one two calls)
  show "keeps (manual_at stored k d) (reconcileResourceWithMonitoringTemplate api e template)" if "resource_key e \<noteq> k"
  proof -
    have "resource_key (snd (compareMonitoringResourceToMonitoringTemplateAndUpdate template e)) \<noteq> k"
      using that by (simp add: compareMonitoringResourceToMonitoringTemplateAndUpdate_def case_prod_unfold resource_key_def Let_def)
    then show ?thesis
      unfolding reconcileResourceWithMonitoringTemplate_def Let_def case_prod_unfold by (intro keeps_intros calls)
  qed
qed

lemma manual_ensure:
  assumes laws: "auto_store_laws h api stored"
  shows "keeps (manual_at stored k d) (ensureNamespaceIsMonitored w api ns template)"
    "keeps (manual_at stored k d) (ensureNamespaceIsUnmonitored api ns)"
    "keeps (manual_at stored k d) (deleteAllAutoMonitoringResourcesInCluster api)"
    "keeps (manual_at stored k d) (NamespaceWatcher_Reconcile w api name)"
proof -
  show monitored: "keeps (manual_at stored k d) (ensureNamespaceIsMonitored w api ns template)" for ns template
    unfolding ensureNamespaceIsMonitored_def
  proof (rule manual_keeps_listing[OF laws], goal_cases)
    case (2 ds)
    then show ?case
      by (cases ds) (auto intro!: keeps_basics(1) manual_watcher(3)[OF laws] keeps_cases(1) manual_watcher(4)[OF laws])
  qed (simp add: keeps_basics(1))
  show unmonitored: "keeps (manual_at stored k d) (ensureNamespaceIsUnmonitored api ns)" for ns
    unfolding ensureNamespaceIsUnmonitored_def
    by (rule manual_keeps_listing[OF laws]) (auto intro: keeps_basics(1) keeps_deletions(1)[OF laws])
  show "keeps (manual_at stored k d) (deleteAllAutoMonitoringResourcesInCluster api)"
    unfolding deleteAllAutoMonitoringResourcesInCluster_def
    by (rule manual_keeps_listing[OF laws]) (auto intro: keeps_basics(1) keeps_deletions(2)[OF laws])
  show "keeps (manual_at stored k d) (NamespaceWatcher_Reconcile w api name)"
    unfolding NamespaceWatcher_Reconcile_def
    by (intro keeps_intros manual_calls[OF laws] monitored unmonitored)
qed

lemma manual_tasks:
  assumes laws: "auto_store_laws h api stored"
  shows "keeps (manual_at stored k d) (run_task w api task)"
proof -
  have unmonitor: "keeps (manual_at stored k d) (unmonitor_namespaces api sel nss)" for sel nss
    by (induction nss) (auto intro!: keeps_intros manual_ensure(2)[OF laws])
  have updates: "keeps (manual_at stored k d) (update_namespaces api template nss)" for template nss
  proof (induction nss)
    case (Cons ns nss)
    show ?case
      unfolding update_namespaces.simps
    proof (rule manual_keeps_listing[OF laws], goal_cases)
      case (2 ds)
      then show ?case
        by (cases ds) (auto intro!: Cons keeps_basics(3) manual_watcher(4)[OF laws])
    qed (simp add: Cons)
  qed (simp add: keeps_basics(1))
  show ?thesis
    by (cases task)
      (auto simp: run_task_def unmonitorNamespacesThatNoLongerMatchTheChangedLabelSelector_def
        updateAllAutoMonitoringResourcesWithNewTemplate_def
        intro!: keeps_intros manual_calls[OF laws] unmonitor updates manual_ensure(3)[OF laws])
qed

lemma manual_controller:
  assumes laws: "auto_store_laws h api stored"
  shows "keeps (manual_at stored k d) (AutoNamespaceMonitoringReconciler_Reconcile api name)"
proof -
  have states: "keeps (manual_at stored k d) (change f)" "keeps (manual_at stored k d) the_manager" for f
    by (auto simp: keeps_def manual_at_def wp_simps)
  have "keeps (manual_at stored k d) (VerifyThatResourceExists (na_configuration api) ns n)" for ns n
    unfolding VerifyThatResourceExists_def by (intro keeps_intros manual_calls[OF laws])
  moreover have "keeps (manual_at stored k d) ensureNamespaceWatchIsStopped"
    and "keeps (manual_at stored k d) (ensureNamespaceWatchIsActive api l)" for l
    unfolding ensureNamespaceWatchIsStopped_def ensureNamespaceWatchIsActive_def
    by (intro keeps_intros states manual_calls[OF laws])+
  moreover have "keeps (manual_at stored k d) (updateOperatorConfigurationStatus api c l l' b)" for c l l' b
    unfolding updateOperatorConfigurationStatus_def by (intro keeps_intros manual_calls[OF laws])
  moreover have "keeps (manual_at stored k d) (spawn task)" for task unfolding spawn_def by (rule states)
  ultimately show ?thesis
    unfolding AutoNamespaceMonitoringReconciler_Reconcile_def stop_and_delete_all_def
      ensureNamespaceWatchIsActiveWithCorrectLabelSelector_def Let_def
    by (auto intro!: keeps_intros split: bool.split)
qed

section \<open>Steps\<close>

text \<open>
  The steps of the automatic monitoring: requests for a namespace and for the operator configuration, tasks that have been
  spawned, in any order, and the end of a controller.
\<close>

inductive auto_step :: "NamespaceWatcher \<Rightarrow> 'w auto_api \<Rightarrow> auto_state \<times> 'w \<Rightarrow> auto_state \<times> 'w \<Rightarrow> bool"
  for w :: NamespaceWatcher and api :: "'w auto_api" where
  namespace_request: "run_state (NamespaceWatcher_Reconcile w api name) s = (err, s') \<Longrightarrow> auto_step w api s s'"
| configuration_request: "run_state (AutoNamespaceMonitoringReconciler_Reconcile api name) s = (answer, s') \<Longrightarrow> auto_step w api s s'"
| task: "as_tasks st = before @ task # after \<Longrightarrow>
    run_state (run_task w api task) (st\<lparr>as_tasks := before @ after\<rparr>, world) = ((), s') \<Longrightarrow> auto_step w api (st, world) s'"
| controller_end: "auto_step w api (st, world) (namespace_controller_ended n st, world)"

lemma keeps_run: "keeps I f \<Longrightarrow> run_state f s = (a, s') \<Longrightarrow> I s \<Longrightarrow> I s'"
  by (auto simp: keeps_def wp_def)

lemma manual_step:
  assumes laws: "auto_store_laws h api stored" and "auto_step w api s s'" and "manual_at stored k d s"
  shows "manual_at stored k d s'"
  using assms(2,3)
proof (induction rule: auto_step.induct)
  case (namespace_request name s err s')
  then show ?case by (rule keeps_run[OF manual_ensure(4)[OF laws]])
next
  case (configuration_request name s answer s')
  then show ?case by (rule keeps_run[OF manual_controller[OF laws]])
next
  case (task st before task after world s')
  then show ?case by (intro keeps_run[OF manual_tasks[OF laws] task(2)]) (simp add: manual_at_def)
next
  case (controller_end st world n)
  then show ?case by (simp add: manual_at_def)
qed

section \<open>Resources and the template\<close>

text \<open>The resource is as the template says; the defaults count as values.\<close>

definition reflects :: "MonitoringTemplate \<Rightarrow> monitoring \<Rightarrow> bool" where
  "reflects t d \<longleftrightarrow>
     map_of (mo_Labels d) = (map_of (mt_Labels t))(AutoMonitoredNamespaceLabel \<mapsto> TrueString) \<and>
     map_of (mo_Annotations d) = map_of (mt_Annotations t) \<and>
     (let a = mo_Spec d; b = mt_Spec t in
        sp_Mode a = sp_Mode b \<and> sp_LabelSelector a = sp_LabelSelector b \<and>
        \<not> IsStringPointerValueDifferent (sp_Propagators a) (sp_Propagators b) \<and>
        \<not> differs (sp_CaptureSqlQueryParameters a) (sp_CaptureSqlQueryParameters b) False \<and>
        \<not> differs (sp_LogCollectionEnabled a) (sp_LogCollectionEnabled b) True \<and>
        \<not> differs (sp_EventCollectionEnabled a) (sp_EventCollectionEnabled b) True \<and>
        \<not> differs (sp_KubernetesObjectCollectionEnabled a) (sp_KubernetesObjectCollectionEnabled b) False \<and>
        \<not> differs (sp_PrometheusScrapingEnabled a) (sp_PrometheusScrapingEnabled b) True \<and>
        sp_Filter a = sp_Filter b \<and> sp_Transform a = sp_Transform b \<and>
        \<not> differs (sp_SynchronizePersesDashboards a) (sp_SynchronizePersesDashboards b) True \<and>
        \<not> differs (sp_SynchronizePrometheusRules a) (sp_SynchronizePrometheusRules b) True)"

lemma replace_if_fst [simp]: "fst (replace_if b g p) = (b \<or> fst p)"
  by (simp add: replace_if_def case_prod_unfold)

lemma replace_if_own: "(\<And>x. f (g x) = v) \<Longrightarrow> f (snd (replace_if b g p)) = (if b then v else f (snd p))"
  by (simp add: replace_if_def case_prod_unfold)

lemma replace_if_other: "(\<And>x. f (g x) = f x) \<Longrightarrow> f (snd (replace_if b g p)) = f (snd p)"
  by (simp add: replace_if_def case_prod_unfold)

lemmas spec_replacements =
  replace_if_other[where f = sp_Mode] replace_if_own[where f = sp_Mode]
  replace_if_other[where f = sp_LabelSelector] replace_if_own[where f = sp_LabelSelector]
  replace_if_other[where f = sp_Propagators] replace_if_own[where f = sp_Propagators]
  replace_if_other[where f = sp_CaptureSqlQueryParameters] replace_if_own[where f = sp_CaptureSqlQueryParameters]
  replace_if_other[where f = sp_LogCollectionEnabled] replace_if_own[where f = sp_LogCollectionEnabled]
  replace_if_other[where f = sp_EventCollectionEnabled] replace_if_own[where f = sp_EventCollectionEnabled]
  replace_if_other[where f = sp_KubernetesObjectCollectionEnabled] replace_if_own[where f = sp_KubernetesObjectCollectionEnabled]
  replace_if_other[where f = sp_PrometheusScrapingEnabled] replace_if_own[where f = sp_PrometheusScrapingEnabled]
  replace_if_other[where f = sp_Filter] replace_if_own[where f = sp_Filter]
  replace_if_other[where f = sp_Transform] replace_if_own[where f = sp_Transform]
  replace_if_other[where f = sp_SynchronizePersesDashboards] replace_if_own[where f = sp_SynchronizePersesDashboards]
  replace_if_other[where f = sp_SynchronizePrometheusRules] replace_if_own[where f = sp_SynchronizePrometheusRules]

lemma compared_spec:
  fixes t s
  defines "s' \<equiv> snd (compareAndUpdateSpec t s)"
  shows "sp_Mode s' = sp_Mode t" "sp_LabelSelector s' = sp_LabelSelector t"
    "sp_Propagators s' = (if IsStringPointerValueDifferent (sp_Propagators s) (sp_Propagators t) then sp_Propagators t else sp_Propagators s)"
    "sp_CaptureSqlQueryParameters s' = (if differs (sp_CaptureSqlQueryParameters s) (sp_CaptureSqlQueryParameters t) False
       then sp_CaptureSqlQueryParameters t else sp_CaptureSqlQueryParameters s)"
    "sp_LogCollectionEnabled s' = (if differs (sp_LogCollectionEnabled s) (sp_LogCollectionEnabled t) True
       then sp_LogCollectionEnabled t else sp_LogCollectionEnabled s)"
    "sp_EventCollectionEnabled s' = (if differs (sp_EventCollectionEnabled s) (sp_EventCollectionEnabled t) True
       then sp_EventCollectionEnabled t else sp_EventCollectionEnabled s)"
    "sp_KubernetesObjectCollectionEnabled s' = (if differs (sp_KubernetesObjectCollectionEnabled s) (sp_KubernetesObjectCollectionEnabled t) False
       then sp_KubernetesObjectCollectionEnabled t else sp_KubernetesObjectCollectionEnabled s)"
    "sp_PrometheusScrapingEnabled s' = (if differs (sp_PrometheusScrapingEnabled s) (sp_PrometheusScrapingEnabled t) True
       then sp_PrometheusScrapingEnabled t else sp_PrometheusScrapingEnabled s)"
    "sp_Filter s' = sp_Filter t" "sp_Transform s' = sp_Transform t"
    "sp_SynchronizePersesDashboards s' = (if differs (sp_SynchronizePersesDashboards s) (sp_SynchronizePersesDashboards t) True
       then sp_SynchronizePersesDashboards t else sp_SynchronizePersesDashboards s)"
    "sp_SynchronizePrometheusRules s' = (if differs (sp_SynchronizePrometheusRules s) (sp_SynchronizePrometheusRules t) True
       then sp_SynchronizePrometheusRules t else sp_SynchronizePrometheusRules s)"
  unfolding s'_def compareAndUpdateSpec_def by (simp_all add: spec_replacements)

lemma not_differs [simp]: "\<not> differs a a d"
  by (simp add: differs_def)

lemma IsStringPointerValueDifferent_same [simp]: "\<not> IsStringPointerValueDifferent a a"
  by (simp add: IsStringPointerValueDifferent_def split: option.split)

lemma maps_equal_iff: "maps_equal a b \<longleftrightarrow> map_of a = map_of b"
proof
  assume eq: "maps_equal a b"
  show "map_of a = map_of b"
  proof
    fix k
    show "map_of a k = map_of b k"
    proof (cases "k \<in> set (map fst a @ map fst b)")
      case True
      with eq show ?thesis by (auto simp: maps_equal_def list_all_iff)
    next
      case False
      then have "map_of a k = None" "map_of b k = None" by (auto simp: map_of_eq_None_iff)
      then show ?thesis by simp
    qed
  qed
qed (simp add: maps_equal_def list_all_iff)

text \<open>Comparing a resource with the template finds exactly the resources that are not as the template says.\<close>

lemma compare_iff_reflects:
  assumes "distinct (map fst (mt_Labels t))" and "distinct (map fst (mt_Annotations t))"
  shows "fst (compareMonitoringResourceToMonitoringTemplateAndUpdate t d) \<longleftrightarrow> \<not> reflects t d"
proof -
  have "fst (compareAndUpdateSpec (mt_Spec t) (mo_Spec d)) \<longleftrightarrow> \<not> (let a = mo_Spec d; b = mt_Spec t in
        sp_Mode a = sp_Mode b \<and> sp_LabelSelector a = sp_LabelSelector b \<and>
        \<not> IsStringPointerValueDifferent (sp_Propagators a) (sp_Propagators b) \<and>
        \<not> differs (sp_CaptureSqlQueryParameters a) (sp_CaptureSqlQueryParameters b) False \<and>
        \<not> differs (sp_LogCollectionEnabled a) (sp_LogCollectionEnabled b) True \<and>
        \<not> differs (sp_EventCollectionEnabled a) (sp_EventCollectionEnabled b) True \<and>
        \<not> differs (sp_KubernetesObjectCollectionEnabled a) (sp_KubernetesObjectCollectionEnabled b) False \<and>
        \<not> differs (sp_PrometheusScrapingEnabled a) (sp_PrometheusScrapingEnabled b) True \<and>
        sp_Filter a = sp_Filter b \<and> sp_Transform a = sp_Transform b \<and>
        \<not> differs (sp_SynchronizePersesDashboards a) (sp_SynchronizePersesDashboards b) True \<and>
        \<not> differs (sp_SynchronizePrometheusRules a) (sp_SynchronizePrometheusRules b) True)"
    by (auto simp: compareAndUpdateSpec_def Let_def)
  moreover have "fst (compareAndUpdateObjectMeta (mt_Labels t) (mt_Annotations t) (mo_Labels d) (mo_Annotations d) True) \<longleftrightarrow>
      \<not> (map_of (mo_Labels d) = (map_of (mt_Labels t))(AutoMonitoredNamespaceLabel \<mapsto> TrueString) \<and>
         map_of (mo_Annotations d) = map_of (mt_Annotations t))"
    using assms by (auto simp: compareAndUpdateObjectMeta_def maps_equal_iff update_conv' map_of_maps_Copy)
  ultimately show ?thesis
    by (simp add: compareMonitoringResourceToMonitoringTemplateAndUpdate_def reflects_def case_prod_unfold Let_def) blast
qed

text \<open>A template that leaves none of the settings open for which the webhook has a default.\<close>

definition complete_template :: "MonitoringTemplate \<Rightarrow> bool" where
  "complete_template t \<longleftrightarrow> distinct (map fst (mt_Labels t)) \<and> distinct (map fst (mt_Annotations t)) \<and>
     sp_Mode (mt_Spec t) \<noteq> [] \<and> sp_LogCollectionEnabled (mt_Spec t) \<noteq> None \<and>
     sp_EventCollectionEnabled (mt_Spec t) \<noteq> None \<and> sp_PrometheusScrapingEnabled (mt_Spec t) \<noteq> None"

text \<open>Normalizing keeps a specification that leaves nothing open.\<close>

lemma normalize_keeps:
  assumes "normalizeMonitoringResourceSpec h cd request c spec = Inr (Inr (p, spec'))"
    and "sp_Mode spec \<noteq> []" "sp_LogCollectionEnabled spec \<noteq> None" "sp_EventCollectionEnabled spec \<noteq> None"
    "sp_PrometheusScrapingEnabled spec \<noteq> None" and "aq_Namespace request \<noteq> mm_operatorNamespace h"
  obtains exports normalized where "spec' = spec\<lparr>sp_Exports := exports, sp_Export := None, sp_NormalizedTransformSpec := normalized\<rparr>"
proof -
  obtain p1 p2 spec1 spec2 exports normalized where
    one: "setTelemetryCollectionRelatedDefaults h (aq_Namespace request) c spec = (p1, spec1)" and
    two: "overrideLogCollectionDefault h (aq_Namespace request) spec1 = (p2, spec2)" and
    spec': "spec' = spec2\<lparr>sp_Exports := exports, sp_Export := None, sp_NormalizedTransformSpec := normalized\<rparr>"
    using normalize_result[OF assms(1)] .
  have "spec1 = spec" using one telemetry_defaults_keep[OF assms(2-5)] by simp
  then have "spec2 = spec" using override_fields[OF two] assms(6) by simp
  with spec' show ?thesis using that by blast
qed

text \<open>An object that the webhook leaves with all settings, and that is as the template says, is so after the webhook, too.\<close>

lemma through_webhook_reflects:
  assumes "through_webhook h d d'" and "mo_Namespace d \<noteq> mm_operatorNamespace h" and "reflects t d"
    and "sp_Mode (mo_Spec d) \<noteq> []" "sp_LogCollectionEnabled (mo_Spec d) \<noteq> None" "sp_EventCollectionEnabled (mo_Spec d) \<noteq> None"
    "sp_PrometheusScrapingEnabled (mo_Spec d) \<noteq> None"
  shows "reflects t d'"
proof -
  obtain cd :: "(string, monitoring) admission_codec" and request c p where ns: "aq_Namespace request = mo_Namespace d"
    and norm: "normalizeMonitoringResourceSpec h cd request c (mo_Spec d) = Inr (Inr (p, mo_Spec d'))"
    and meta: "map_of (mo_Labels d') = map_of (mo_Labels d)" "map_of (mo_Annotations d') = map_of (mo_Annotations d)"
    using assms(1) by (auto simp: through_webhook_def)
  obtain exports normalized where
    "mo_Spec d' = (mo_Spec d)\<lparr>sp_Exports := exports, sp_Export := None, sp_NormalizedTransformSpec := normalized\<rparr>"
    using normalize_keeps[OF norm assms(4-7)] ns assms(2) by metis
  with assms(3) meta show ?thesis by (simp add: reflects_def Let_def)
qed

lemma new_reflects:
  assumes "complete_template t"
  shows "reflects t (new_monitoring_resource ns t)"
  using assms
  by (simp add: reflects_def complete_template_def new_monitoring_resource_def update_conv' map_of_maps_Copy)

lemma updated_reflects:
  assumes "complete_template t"
  shows "reflects t (snd (compareMonitoringResourceToMonitoringTemplateAndUpdate t d))"
proof -
  have labels: "map_of (fst (snd (compareAndUpdateObjectMeta (mt_Labels t) (mt_Annotations t) (mo_Labels d) (mo_Annotations d) True))) =
      (map_of (mt_Labels t))(AutoMonitoredNamespaceLabel \<mapsto> TrueString)"
    and annotations: "map_of (snd (snd (compareAndUpdateObjectMeta (mt_Labels t) (mt_Annotations t) (mo_Labels d) (mo_Annotations d) True))) =
      map_of (mt_Annotations t)"
    using assms by (auto simp: complete_template_def compareAndUpdateObjectMeta_def maps_equal_iff update_conv' map_of_maps_Copy Let_def)
  then show ?thesis
    by (simp add: reflects_def compareMonitoringResourceToMonitoringTemplateAndUpdate_def case_prod_unfold compared_spec Let_def)
qed

text \<open>What has passed the webhook leaves none of the settings open, and neither does it after it has been updated.\<close>

lemma updated_settings:
  assumes "through_webhook h d0 d" and "complete_template t"
  defines "s \<equiv> mo_Spec (snd (compareMonitoringResourceToMonitoringTemplateAndUpdate t d))"
  shows "sp_Mode s \<noteq> []" "sp_LogCollectionEnabled s \<noteq> None" "sp_EventCollectionEnabled s \<noteq> None"
    "sp_PrometheusScrapingEnabled s \<noteq> None"
proof -
  obtain cd :: "(string, monitoring) admission_codec" and request c p where
    "normalizeMonitoringResourceSpec h cd request c (mo_Spec d0) = Inr (Inr (p, mo_Spec d))"
    using assms(1) by (auto simp: through_webhook_def)
  note settings = normalized_settings(1-4)[OF this]
  show "sp_Mode s \<noteq> []" "sp_LogCollectionEnabled s \<noteq> None" "sp_EventCollectionEnabled s \<noteq> None"
    "sp_PrometheusScrapingEnabled s \<noteq> None"
    using settings assms(2)
    by (simp_all add: s_def compareMonitoringResourceToMonitoringTemplateAndUpdate_def case_prod_unfold compared_spec
        complete_template_def Let_def)
qed

section \<open>A request for a namespace\<close>

text \<open>All automatically created resources of a namespace are as the template says.\<close>

definition namespace_reflects :: "MonitoringTemplate \<Rightarrow> string \<Rightarrow> (resource_key \<Rightarrow> monitoring option) \<Rightarrow> bool" where
  "namespace_reflects t ns store \<longleftrightarrow>
     (\<forall>k d. store k = Some d \<and> mo_Namespace d = ns \<and> is_auto_monitored d \<longrightarrow> reflects t d)"

definition one_per_namespace :: "(resource_key \<Rightarrow> monitoring option) \<Rightarrow> string \<Rightarrow> bool" where
  "one_per_namespace store ns \<longleftrightarrow>
     (\<forall>k d k' d'. store k = Some d \<and> mo_Namespace d = ns \<and> store k' = Some d' \<and> mo_Namespace d' = ns \<longrightarrow> k = k')"

lemma created_reflects:
  assumes laws: "auto_store_laws h api stored" and template: "complete_template t"
    and ns: "ns \<noteq> mm_operatorNamespace h" and empty: "\<And>k d. stored w0 k = Some d \<Longrightarrow> mo_Namespace d \<noteq> ns"
  shows "wp (createMonitoringResource w api ns t) (\<lambda>err s. err = None \<longrightarrow> namespace_reflects t ns (stored (snd s))) (m, w0)"
proof -
  have jobs: "stored (snd (na_apiListJobs api a b w1)) = stored w1" and confs: "stored (snd (na_apiListConfigurations api w1)) = stored w1" for a b w1
    using auto_store_lawsD(2,3)[OF laws] by blast+
  have none: "namespace_reflects t ns (stored w1)" if "stored w1 = stored w0" for w1
    using that empty by (auto simp: namespace_reflects_def)
  let ?d = "new_monitoring_resource ns t"
  have "reflects t d'" if "through_webhook h ?d d'" for d'
    by (rule through_webhook_reflects[OF that _ new_reflects[OF template]])
      (use ns template in \<open>simp_all add: new_monitoring_resource_def complete_template_def\<close>)
  then have create: "namespace_reflects t ns (stored (snd (na_create api ?d w1)))"
    if success: "fst (na_create api ?d w1) = None" and same: "stored w1 = stored w0" for w1
  proof -
    obtain d' where "through_webhook h ?d d'" "stored (snd (na_create api ?d w1)) = (stored w1)(resource_key ?d \<mapsto> d')"
      using auto_store_lawsD(7)[OF laws, rule_format, of w1 ?d] success by blast
    with same empty \<open>\<And>d'. through_webhook h ?d d' \<Longrightarrow> reflects t d'\<close> show ?thesis by (auto simp: namespace_reflects_def)
  qed
  obtain uninstalled w1 where one: "na_apiListJobs api (nw_operatorNamespace w) UninstallationProcessComponent w0 = (uninstalled, w1)" by fastforce
  obtain enabled w2 where two: "na_apiListConfigurations api w1 = (enabled, w2)" by fastforce
  have "stored w1 = stored w0" using jobs[of "nw_operatorNamespace w" UninstallationProcessComponent w0] one by simp
  moreover from this have "stored w2 = stored w0" using confs[of w1] two by simp
  ultimately show ?thesis
    using one two none[of w1] none[of w2] create[of w2]
    by (auto simp: createMonitoringResource_def isOperatorBeingUninstalled_def isAutoNamespaceMonitoringEnabledInApiServer_def
        wp_def call_def case_prod_unfold split: sum.split bool.split)
qed

lemma reconciled_reflects:
  assumes laws: "auto_store_laws h api stored" and template: "complete_template t"
    and ns: "mo_Namespace d \<noteq> mm_operatorNamespace h" and d: "stored w0 (resource_key d) = Some d"
    and one: "one_per_namespace (stored w0) (mo_Namespace d)"
  shows "wp (reconcileResourceWithMonitoringTemplate api d t)
    (\<lambda>err s. err = None \<longrightarrow> namespace_reflects t (mo_Namespace d) (stored (snd s))) (m, w0)"
proof -
  obtain updated d1 where compared: "compareMonitoringResourceToMonitoringTemplateAndUpdate t d = (updated, d1)" by fastforce
  have key: "resource_key d1 = resource_key d" "mo_Namespace d1 = mo_Namespace d"
    using compared by (auto simp: compareMonitoringResourceToMonitoringTemplateAndUpdate_def case_prod_unfold resource_key_def Let_def)
  have only: "k = resource_key d" if "stored w0 k = Some e" "mo_Namespace e = mo_Namespace d" for k e
    using one[unfolded one_per_namespace_def] d that by blast
  obtain d0 where d0: "through_webhook h d0 d" using auto_store_lawsD(1)[OF laws] d by blast
  have after: "reflects t d'" if "through_webhook h d1 d'" for d'
    by (rule through_webhook_reflects[OF that])
      (use ns key updated_reflects[OF template, of d] updated_settings[OF d0 template] compared in simp_all)
  show ?thesis
  proof (cases updated)
    case False
    then have "reflects t d" using compare_iff_reflects[of t d] compared template by (simp add: complete_template_def)
    then have "namespace_reflects t (mo_Namespace d) (stored w0)" using only d by (force simp: namespace_reflects_def)
    with compared False show ?thesis by (simp add: reconcileResourceWithMonitoringTemplate_def wp_return)
  next
    case True
    have "namespace_reflects t (mo_Namespace d) (stored (snd (na_update api d1 w0)))" if success: "fst (na_update api d1 w0) = None"
    proof -
      obtain d' where "through_webhook h d1 d'" "stored (snd (na_update api d1 w0)) = (stored w0)(resource_key d1 \<mapsto> d')"
        using auto_store_lawsD(8)[OF laws, rule_format, of d1 w0] success by blast
      with after only key show ?thesis by (force simp: namespace_reflects_def)
    qed
    with compared True show ?thesis
      by (simp add: reconcileResourceWithMonitoringTemplate_def wp_def call_def case_prod_unfold)
  qed
qed

lemma monitored_reflects:
  assumes laws: "auto_store_laws h api stored" and template: "complete_template t"
    and ns: "ns_Name ns \<noteq> mm_operatorNamespace h" and one: "one_per_namespace (stored w0) (ns_Name ns)"
  shows "wp (ensureNamespaceIsMonitored w api ns t) (\<lambda>err s. err = None \<longrightarrow> namespace_reflects t (ns_Name ns) (stored (snd s))) (m, w0)"
proof -
  obtain answer w1 where list: "na_listMonitoring api (Some (ns_Name ns)) None w0 = (answer, w1)" by fastforce
  have same: "stored w1 = stored w0" by (rule auto_store_listed(1)[OF laws list])
  have members: "d \<in> set ds \<longleftrightarrow> stored w0 (resource_key d) = Some d \<and> mo_Namespace d = ns_Name ns" if "answer = Inr ds" for d ds
    using auto_store_listed(2)[OF laws list that, of d] by (auto simp: has_label_def)
  have keys: "stored w0 k = Some d \<Longrightarrow> resource_key d = k" for k d
    using auto_store_lawsD(1)[OF laws] by blast
  show ?thesis
  proof (cases answer)
    case (Inl e)
    then show ?thesis using list by (simp add: ensureNamespaceIsMonitored_def wp_def call_def)
  next
    case (Inr ds)
    show ?thesis
    proof (cases ds)
      case Nil
      then have empty: "mo_Namespace d \<noteq> ns_Name ns" if "stored w1 k = Some d" for k d
        using members[OF Inr, of d] that same keys by auto
      have "wp (createMonitoringResource w api (ns_Name ns) t)
          (\<lambda>err s. err = None \<longrightarrow> namespace_reflects t (ns_Name ns) (stored (snd s))) (m, w1)"
        by (rule created_reflects[OF laws template ns empty])
      then show ?thesis using list Inr Nil by (simp add: ensureNamespaceIsMonitored_def wp_bind) (simp add: wp_def call_def)
    next
      case (Cons d rest)
      have d: "stored w1 (resource_key d) = Some d" "mo_Namespace d = ns_Name ns"
        using members[OF Inr, of d] Cons same by auto
      have "wp (reconcileResourceWithMonitoringTemplate api d t)
          (\<lambda>err s. err = None \<longrightarrow> namespace_reflects t (mo_Namespace d) (stored (snd s))) (m, w1)"
        by (rule reconciled_reflects[OF laws template]) (use d ns one same in simp_all)
      moreover have "namespace_reflects t (ns_Name ns) (stored w1)" if "\<not> is_auto_monitored d"
        using that one d same unfolding namespace_reflects_def one_per_namespace_def by (metis option.inject)
      ultimately show ?thesis using list Inr Cons d
        by (simp add: ensureNamespaceIsMonitored_def wp_bind) (auto simp: wp_def call_def split: if_splits)
    qed
  qed
qed

text \<open>The webhook for operator configurations leaves a complete template if the automatic monitoring is enabled.\<close>

lemma template_defaults_fields:
  assumes "template_spec_defaults spec = (p, spec')"
  shows "sp_Mode spec' \<noteq> []" "sp_LogCollectionEnabled spec' \<noteq> None" "sp_EventCollectionEnabled spec' \<noteq> None"
    "sp_PrometheusScrapingEnabled spec' \<noteq> None"
  using assms[unfolded template_spec_defaults_def Let_def prod.inject, THEN conjunct2, symmetric]
  by (simp_all add: monitoringTemplateDefaults_def InstrumentWorkloadsModeCreatedAndUpdated_def ex_bool_eq)

lemma normalized_template:
  assumes "normalizeOperatorConfigurationResourceSpec parse cd request spec0 = Inr (Inr (p, spec))" and "AutoMonitorNamespaces_IsEnabled spec"
  obtains t where "os_MonitoringTemplate spec = Some t" "sp_Mode (mt_Spec t) \<noteq> []" "sp_LogCollectionEnabled (mt_Spec t) \<noteq> None"
    "sp_EventCollectionEnabled (mt_Spec t) \<noteq> None" "sp_PrometheusScrapingEnabled (mt_Spec t) \<noteq> None"
proof -
  obtain spec1 p2 spec2 where two: "setMonitoringTemplateDefaults spec1 = (p2, spec2)"
    and same: "os_MonitoringTemplate spec = os_MonitoringTemplate spec2"
      "os_AutoMonitorNamespacesEnabled spec = os_AutoMonitorNamespacesEnabled spec2"
  proof -
    obtain migrated exports where "migrate_export (os_Export spec0) (os_Exports spec0)
        (isExportsUnchangedFromOldOperatorConfigurationResource cd request (os_Exports spec0)) = Inr (migrated, exports)"
      using assms(1) by (auto simp: normalizeOperatorConfigurationResourceSpec_def split: sum.splits)
    moreover obtain p1 spec1 where "set_enabled_defaults (spec0\<lparr>os_Exports := exports, os_Export := None\<rparr>) = (p1, spec1)" by fastforce
    moreover obtain p2 spec2 where "setMonitoringTemplateDefaults spec1 = (p2, spec2)" by fastforce
    ultimately show ?thesis
      using assms(1) that[of spec1 p2 spec2]
      by (auto simp: normalizeOperatorConfigurationResourceSpec_def setSyntheticsWorkerInstanceDefaults_def Let_def
          split: option.splits sum.splits if_splits)
  qed
  have enabled: "os_AutoMonitorNamespacesEnabled spec2 = os_AutoMonitorNamespacesEnabled spec1"
    using two by (auto simp: setMonitoringTemplateDefaults_def case_prod_unfold Let_def split: if_splits)
  then have "AutoMonitorNamespaces_IsEnabled spec1" using assms(2) same by (simp add: AutoMonitorNamespaces_IsEnabled_def)
  let ?t0 = "case os_MonitoringTemplate spec1 of Some template \<Rightarrow> template
    | None \<Rightarrow> \<lparr>mt_Name = [], mt_Labels = [], mt_Annotations = [], mt_Spec = empty_spec\<rparr>"
  obtain p3 s3 where three: "template_spec_defaults (mt_Spec ?t0) = (p3, s3)" by fastforce
  have "os_MonitoringTemplate spec2 = Some (?t0\<lparr>mt_Spec := s3\<rparr>)"
    using two three \<open>AutoMonitorNamespaces_IsEnabled spec1\<close> by (auto simp: setMonitoringTemplateDefaults_def Let_def)
  then show ?thesis using that same template_defaults_fields[OF three] by simp
qed

section \<open>A concrete API server\<close>

text \<open>It stores a list of resources, the latest version of each in front, and calls the mutating webhook.\<close>

definition no_codec :: "(string, monitoring) admission_codec" where
  "no_codec = \<lparr>ad_decode = (\<lambda>_. None), ad_encode = (\<lambda>_. None)\<rparr>"

definition server_request :: "string \<Rightarrow> string admission_request" where
  "server_request ns = \<lparr>aq_Operation = CreateOperation, aq_Name = [], aq_Namespace = ns, aq_DryRun = None, aq_Object = [], aq_OldObject = None\<rparr>"

definition server_normalize :: "monitoring \<Rightarrow> monitoring option" where
  "server_normalize d =
     (case normalizeMonitoringResourceSpec sample_mutating_handler no_codec (server_request (mo_Namespace d)) None (mo_Spec d) of
        Inr (Inr (_, spec)) \<Rightarrow> Some (d\<lparr>mo_Spec := spec\<rparr>)
      | _ \<Rightarrow> None)"

definition server_store :: "monitoring list \<Rightarrow> resource_key \<Rightarrow> monitoring option" where
  "server_store w k = find (\<lambda>d. resource_key d = k \<and> server_normalize d = Some d) w"

definition server_write :: "monitoring \<Rightarrow> monitoring list \<Rightarrow> api_error option \<times> monitoring list" where
  "server_write d w = (case server_normalize d of Some d' \<Rightarrow> (None, d' # w) | None \<Rightarrow> (Some Invalid, w))"

definition server_api :: "operator_configuration \<Rightarrow> monitoring list auto_api" where
  "server_api c =
     \<lparr>na_getNamespace = (\<lambda>ns w. (Inr \<lparr>ns_Name = ns, ns_Labels = [], ns_Deleting = False\<rparr>, w)),
      na_listNamespaces = (\<lambda>_ w. (Inr [], w)), na_listConfigurations = (\<lambda>w. (Inr [c], w)),
      na_apiListConfigurations = (\<lambda>w. (Inr [c], w)), na_apiListJobs = (\<lambda>_ _ w. (Inr [], w)),
      na_listMonitoring = (\<lambda>ns l w. (Inr (filter (\<lambda>d. server_store w (resource_key d) = Some d \<and>
          (ns = None \<or> ns = Some (mo_Namespace d)) \<and> has_label l d) w), w)),
      na_create = (\<lambda>d w. if server_store w (resource_key d) = None then server_write d w else (Some Conflict, w)),
      na_update = server_write, na_delete = (\<lambda>d w. (None, filter (\<lambda>e. resource_key e \<noteq> resource_key d) w)),
      na_configuration = \<lparr>rc_get = (\<lambda>_ _ w. (Inr c, w)), rc_list = (\<lambda>_ w. (Inr [c], w)), rc_update = (\<lambda>c w. (Inr c, w)),
        rc_updateStatus = (\<lambda>c w. (Inr c, w))\<rparr>,
      na_startController = (\<lambda>_ w. (True, w))\<rparr>"

lemma server_normalize_through:
  assumes "server_normalize d = Some d'"
  shows "through_webhook sample_mutating_handler d d'" "server_normalize d' = Some d'" "resource_key d' = resource_key d"
proof -
  obtain p spec where norm: "normalizeMonitoringResourceSpec sample_mutating_handler no_codec (server_request (mo_Namespace d)) None (mo_Spec d) =
      Inr (Inr (p, spec))" and d': "d' = d\<lparr>mo_Spec := spec\<rparr>"
    using assms by (auto simp: server_normalize_def split: sum.splits prod.splits)
  have ns: "aq_Namespace (server_request n) = n" for n by (simp add: server_request_def)
  show "resource_key d' = resource_key d" by (simp add: d' resource_key_def)
  show "through_webhook sample_mutating_handler d d'"
    unfolding through_webhook_def using norm ns d' by (auto simp: resource_key_def)
  have "normalizeMonitoringResourceSpec sample_mutating_handler no_codec (server_request (mo_Namespace d)) None spec =
      Inr (Inr (sp_Transform spec \<noteq> None, spec))"
    by (rule normalize_fixpoint) (use normalized_settings[OF norm] in auto)
  then show "server_normalize d' = Some d'" by (simp add: server_normalize_def d')
qed

lemma server_laws: "auto_store_laws sample_mutating_handler (server_api c) server_store"
proof -
  have stored: "resource_key d = k \<and> d \<in> set w \<and> (\<exists>d0. through_webhook sample_mutating_handler d0 d)"
    if "server_store w k = Some d" for w k d
    using that server_normalize_through(1) by (auto simp: server_store_def find_Some_iff)
  have written: "(\<exists>d'. through_webhook sample_mutating_handler d d' \<and>
        server_store (snd (server_write d w)) = (server_store w)(resource_key d \<mapsto> d')) \<or>
      fst (server_write d w) \<noteq> None \<and> server_store (snd (server_write d w)) = server_store w" for d w
  proof (cases "server_normalize d")
    case (Some d')
    from server_normalize_through[OF this] Some show ?thesis by (auto simp: server_write_def server_store_def fun_eq_iff)
  qed (simp add: server_write_def)
  have delete: "server_store (filter (\<lambda>e. resource_key e \<noteq> key) w) = (server_store w)(key := None)" for key w
  proof
    fix k
    show "server_store (filter (\<lambda>e. resource_key e \<noteq> key) w) k = ((server_store w)(key := None)) k"
      by (induction w) (auto simp: server_store_def)
  qed
  show ?thesis
    unfolding auto_store_laws_def
    using written delete by (auto simp: server_api_def dest: stored)
qed

section \<open>A template that is not applied\<close>

text \<open>
  The status records the template of the configuration as it has been reloaded. If that is a later one than the template with
  which the update task has been spawned, then the next request does not find a difference any more.
\<close>

lemma compareMonitoringTemplates_same:
  assumes "\<And>a. t = Some a \<Longrightarrow> distinct (map fst (mt_Labels a)) \<and> distinct (map fst (mt_Annotations a))"
  shows "\<not> compareMonitoringTemplates t t"
proof (cases t)
  case (Some a)
  have "fst (compareAndUpdateSpec s s) = False" for s by (simp add: compareAndUpdateSpec_def)
  then show ?thesis
    using assms[OF Some] Some
    by (simp add: compareMonitoringTemplates_def compareAndUpdateObjectMeta_def maps_equal_iff map_of_maps_Copy Let_def)
qed (simp add: compareMonitoringTemplates_def)

lemma later_template_recorded:
  assumes "rc_get (na_configuration api) [] (oc_Name c) w = (Inr reloaded, w1)"
    and "\<And>a. os_MonitoringTemplate (oc_Spec reloaded) = Some a \<Longrightarrow> distinct (map fst (mt_Labels a)) \<and> distinct (map fst (mt_Annotations a))"
  shows "\<exists>recorded. oc_Spec recorded = oc_Spec reloaded \<and>
    \<not> compareMonitoringTemplates (oc_PreviousMonitoringTemplate recorded) (os_MonitoringTemplate (oc_Spec recorded)) \<and>
    run_state (updateOperatorConfigurationStatus api c previous current True) (m, w) =
      (case rc_updateStatus (na_configuration api) recorded w1 of (answer, w2) \<Rightarrow>
         (case answer of Inl e \<Rightarrow> Some e | Inr _ \<Rightarrow> None, (m, w2)))"
  using assms(1) compareMonitoringTemplates_same[OF assms(2)]
  by (intro exI[of _ "reloaded\<lparr>oc_PreviousAutoMonitorNamespacesLabelSelector := current,
      oc_PreviousMonitoringTemplate := os_MonitoringTemplate (oc_Spec reloaded)\<rparr>"])
    (simp add: updateOperatorConfigurationStatus_def call_def split: prod.split)

section \<open>Properties\<close>

text \<open>
  C12: The automatic monitoring never touches a resource that it has not created. Whatever the operator configuration and the
  labels of the namespaces are, whichever calls fail and in whatever order the requests and the spawned tasks run, a monitoring
  resource without the label of the automatic monitoring stays as it is.
\<close>

theorem manual_resources_untouched:
  assumes "auto_store_laws h api stored" and "(auto_step w api)\<^sup>*\<^sup>* s s'"
    and "stored (snd s) k = Some d" and "\<not> is_auto_monitored d"
  shows "stored (snd s') k = Some d"
proof -
  have "manual_at stored k d s'"
    using assms(2) by (induction rule: rtranclp_induct) (use assms(3,4) manual_step[OF assms(1)] in \<open>auto simp: manual_at_def\<close>)
  then show ?thesis by (simp add: manual_at_def)
qed

definition sample_watcher :: NamespaceWatcher where
  "sample_watcher = \<lparr>nw_operatorNamespace = ''operator-namespace'', nw_operatorCreatedAt = 0, nw_labelsParse = (\<lambda>_. Some (\<lambda>_. True))\<rparr>"

definition manual_sample :: monitoring where
  "manual_sample = sample_monitoring\<lparr>mo_Spec := sample_spec\<lparr>sp_LogCollectionEnabled := Some True,
     sp_EventCollectionEnabled := Some True, sp_PrometheusScrapingEnabled := Some False\<rparr>\<rparr>"

definition auto_sample :: monitoring where
  "auto_sample = manual_sample\<lparr>mo_Namespace := ''cart'', mo_Labels := [(AutoMonitoredNamespaceLabel, TrueString)]\<rparr>"

definition task_state :: auto_state where
  "task_state = \<lparr>as_controllerStopFunction = None, as_watchedLabelSelector = [], as_nextStopFunction = 0,
     as_tasks = [DeleteAllAutoMonitoringResources]\<rparr>"

theorem manual_resources_untouched_witness:
  "\<exists>s'. auto_step sample_watcher (server_api sample_configuration) (task_state, [auto_sample, manual_sample]) s' \<and>
     snd s' = [manual_sample] \<and> server_store (snd s') (''shop'', ''monitoring'') = Some manual_sample"
proof -
  let ?api = "server_api sample_configuration" and ?s = "(task_state, [auto_sample, manual_sample])"
  let ?run = "run_state (run_task sample_watcher ?api DeleteAllAutoMonitoringResources) (task_state\<lparr>as_tasks := []\<rparr>, snd ?s)"
  obtain s' where run: "?run = ((), s')" by (cases ?run) auto
  have "snd (snd ?run) = [manual_sample]" by code_simp
  with run have s': "snd s' = [manual_sample]" by simp
  have step: "auto_step sample_watcher ?api ?s s'"
    by (rule auto_step.task[of _ "[]" DeleteAllAutoMonitoringResources "[]"]) (use run in \<open>simp_all add: task_state_def\<close>)
  have "server_store (snd ?s) (''shop'', ''monitoring'') = Some manual_sample" "\<not> is_auto_monitored manual_sample"
    by code_simp+
  from manual_resources_untouched[OF server_laws r_into_rtranclp[of "auto_step sample_watcher ?api", OF step] this] step s'
  show ?thesis by blast
qed

text \<open>
  C13: A successful request for a namespace settles it, across three components. If the operator configuration has passed its
  mutating webhook and monitors matching namespaces automatically, then it has a monitoring template; and if the request for
  a matching namespace succeeds, then the automatically created resource of the namespace is as the template says, although
  the webhook for monitoring resources has normalized it once more. A later request finds nothing to change.
\<close>

theorem namespace_settles:
  assumes "auto_store_laws h api stored" and "nw_operatorNamespace w = mm_operatorNamespace h"
    and "name \<notin> set RestrictedNamespaces" and "name \<noteq> nw_operatorNamespace w"
    and "na_getNamespace api name w0 = (Inr ns, w1)" and "ns_Name ns = name" and "\<not> ns_Deleting ns"
    and "na_listConfigurations api w1 = (Inr items, w2)" and "find operator_configuration_IsAvailable items = Some c"
    and "normalizeOperatorConfigurationResourceSpec parse cd request spec0 = Inr (Inr (p, oc_Spec c))"
    and "AutoMonitorNamespaces_IsEnabled (oc_Spec c)"
    and "namespaceMatchesLabelSelector (nw_labelsParse w) ns (os_AutoMonitorNamespacesLabelSelector (oc_Spec c))"
    and "\<And>t. os_MonitoringTemplate (oc_Spec c) = Some t \<Longrightarrow> distinct (map fst (mt_Labels t)) \<and> distinct (map fst (mt_Annotations t))"
    and "one_per_namespace (stored w0) name"
    and "run_state (NamespaceWatcher_Reconcile w api name) (m, w0) = (None, (m', w'))"
  shows "\<exists>t. os_MonitoringTemplate (oc_Spec c) = Some t \<and> namespace_reflects t name (stored w') \<and>
    (\<forall>k d. stored w' k = Some d \<and> mo_Namespace d = name \<and> is_auto_monitored d \<longrightarrow>
       \<not> fst (compareMonitoringResourceToMonitoringTemplateAndUpdate t d))"
proof -
  obtain t where t: "os_MonitoringTemplate (oc_Spec c) = Some t" and "sp_Mode (mt_Spec t) \<noteq> []"
    "sp_LogCollectionEnabled (mt_Spec t) \<noteq> None" "sp_EventCollectionEnabled (mt_Spec t) \<noteq> None"
    "sp_PrometheusScrapingEnabled (mt_Spec t) \<noteq> None"
    using normalized_template[OF assms(10,11)] .
  with assms(13) have template: "complete_template t" by (simp add: complete_template_def)
  have "stored w2 = stored w0"
    using auto_store_lawsD(4,5)[OF assms(1)] assms(5,8) by (metis snd_conv)
  with assms(14) have one: "one_per_namespace (stored w2) (ns_Name ns)" by (simp add: assms(6))
  have "run_state (NamespaceWatcher_Reconcile w api name) (m, w0) = run_state (ensureNamespaceIsMonitored w api ns t) (m, w2)"
    using assms(3,4,5,7-9,11,12) t by (simp add: NamespaceWatcher_Reconcile_def call_def)
  then have reflects: "namespace_reflects t name (stored w')"
    using monitored_reflects[OF assms(1) template _ one, of w m] assms(2,4,6,15) by (auto simp: wp_def)
  have "\<not> fst (compareMonitoringResourceToMonitoringTemplateAndUpdate t d)"
    if "stored w' k = Some d" "mo_Namespace d = name" "is_auto_monitored d" for k d
  proof -
    have "reflects t d" using reflects that unfolding namespace_reflects_def by blast
    then show ?thesis using compare_iff_reflects[of t d] template by (simp add: complete_template_def)
  qed
  with t reflects show ?thesis by blast
qed

text \<open>A configuration with the default template, and one of its webhook.\<close>

definition auto_configuration :: operator_configuration where
  "auto_configuration = sample_configuration\<lparr>oc_Spec := (case normalizeOperatorConfigurationResourceSpec (\<lambda>s. Some (JString s))
       \<lparr>ad_decode = (\<lambda>_. None), ad_encode = (\<lambda>_. None)\<rparr> (server_request [])
       ((oc_Spec sample_configuration)\<lparr>os_TelemetryCollectionEnabled := None\<rparr>) of
     Inr (Inr (_, spec)) \<Rightarrow> spec | _ \<Rightarrow> oc_Spec sample_configuration)\<rparr>"

theorem namespace_settles_witness:
  "\<exists>w' t. run_state (NamespaceWatcher_Reconcile sample_watcher (server_api auto_configuration) ''cart'') ((), [manual_sample]) =
       (None, ((), w')) \<and> length w' = 2 \<and>
     os_MonitoringTemplate (oc_Spec auto_configuration) = Some t \<and> namespace_reflects t ''cart'' (server_store w')"
proof -
  let ?api = "server_api auto_configuration" and ?cd = "\<lparr>ad_decode = (\<lambda>_. None), ad_encode = (\<lambda>_. None)\<rparr>"
  let ?run = "run_state (NamespaceWatcher_Reconcile sample_watcher ?api ''cart'') ((), [manual_sample])"
  let ?norm = "normalizeOperatorConfigurationResourceSpec (\<lambda>s. Some (JString s)) ?cd (server_request [])
       ((oc_Spec sample_configuration)\<lparr>os_TelemetryCollectionEnabled := None\<rparr>)"
  have "fst ?run = None \<and> length (snd (snd ?run)) = 2" by code_simp
  then obtain w' where run: "?run = (None, ((), w'))" and len: "length w' = 2" by (cases ?run) auto
  have "case ?norm of Inr (Inr _) \<Rightarrow> True | _ \<Rightarrow> False" by code_simp
  then obtain p spec where "?norm = Inr (Inr (p, spec))" by (cases ?norm) (auto split: sum.splits)
  then have norm: "?norm = Inr (Inr (p, oc_Spec auto_configuration))" by (simp add: auto_configuration_def)
  have one: "one_per_namespace (server_store [manual_sample]) ''cart''"
    by (auto simp: one_per_namespace_def server_store_def manual_sample_def sample_monitoring_def split: if_splits)
  have enabled: "AutoMonitorNamespaces_IsEnabled (oc_Spec auto_configuration)" by code_simp
  have found: "find operator_configuration_IsAvailable [auto_configuration] = Some auto_configuration"
    by (simp add: auto_configuration_def sample_configuration_def operator_configuration_IsAvailable_def
        operator_configuration_getCondition_def ConditionTypeAvailable_def)
  have keys: "distinct (map fst (mt_Labels t)) \<and> distinct (map fst (mt_Annotations t))"
    if "os_MonitoringTemplate (oc_Spec auto_configuration) = Some t" for t
  proof -
    have "case os_MonitoringTemplate (oc_Spec auto_configuration) of Some t \<Rightarrow> mt_Labels t = [] \<and> mt_Annotations t = [] | None \<Rightarrow> True"
      by code_simp
    with that show ?thesis by simp
  qed
  let ?ns = "\<lparr>ns_Name = ''cart'', ns_Labels = [], ns_Deleting = False\<rparr>"
  have calls: "na_getNamespace ?api ''cart'' [manual_sample] = (Inr ?ns, [manual_sample])"
    "na_listConfigurations ?api [manual_sample] = (Inr [auto_configuration], [manual_sample])"
    by (simp_all add: server_api_def)
  have names: "nw_operatorNamespace sample_watcher = mm_operatorNamespace sample_mutating_handler"
    "''cart'' \<notin> set RestrictedNamespaces" "''cart'' \<noteq> nw_operatorNamespace sample_watcher"
    "ns_Name ?ns = ''cart''" "\<not> ns_Deleting ?ns"
    "namespaceMatchesLabelSelector (nw_labelsParse sample_watcher) ?ns (os_AutoMonitorNamespacesLabelSelector (oc_Spec auto_configuration))"
    by (simp_all add: sample_watcher_def sample_mutating_handler_def RestrictedNamespaces_def namespaceMatchesLabelSelector_def)
  from namespace_settles[OF server_laws names(1-3) calls(1) names(4,5) calls(2) found norm enabled names(6) keys one run] run len
  show ?thesis by blast
qed

end
