(* ===== verification/Spec2Isabelle.thy ===== *)
theory Spec2Isabelle
  imports KubernetesVersion WorkloadProps ResourceAttributes ContainerProps KubectlResponse CertProps InstrumenterProps
    MonitoringProps MonitoringWebhookProps NamespaceMonitoringProps
begin

text \<open>
  A verification library for the Dash0 operator for Kubernetes.

  \<^bold>\<open>The program.\<close> The operator runs as a controller and as an admission webhook. Its core is the
  instrumentation of workloads: for every workload of a monitored namespace it adds a volume, an init
  container (or an image volume), mounts, environment variables, labels and annotations, and it takes
  them away again when the namespace is no longer monitored. A second program of the repository, the
  agent0-connector, executes kubectl on behalf of an agent; it decides which requests it accepts and
  redacts the responses. The webhook server of the operator manages its certificates itself: it stores
  a CA and a serving certificate in a secret, rotates them, and injects the CA bundle into the objects that refer to it.

  \<^bold>\<open>Theories.\<close>
  \<^item> \<open>Prelude\<close>: Go strings, slices, maps and panics; the locale \<open>named_store\<close>, the contract of looking
    up, replacing and deleting items by name, with the lemmas its clients use.
  \<^item> \<open>K8sTypes\<close>: the parts of the Kubernetes API types that the code reads and writes.
  \<^item> \<open>KubernetesVersion\<close>: \<open>internal/util/cluster/kubernetes_version.go\<close> and
    \<open>instrumentation_delivery.go\<close>: parsing and comparing versions (an instance of \<open>linorder\<close>), the
    detection of the least kubelet version, and the choice between image volume and init container.
  \<^item> \<open>Sha256\<close>, \<open>InstrumentationConfig\<close>, \<open>Labels\<close>: the hash of the Go library, the configuration of
    \<open>internal/util/types.go\<close> with the collector base URLs of \<open>internal/collectors\<close>, and
    \<open>internal/util/labels.go\<close> with the opt-out decision of \<open>controlling_cron_job.go\<close>.
  \<^item> \<open>EnvVars\<close>, \<open>ContainerEnv\<close>, \<open>ContainerRevert\<close>: the environment variables of a container in
    \<open>internal/workloads/workload_modifier.go\<close>: primitives, \<open>addEnvironmentVariables\<close> with all its
    steps, \<open>removeEnvironmentVariables\<close>. \<open>EnvStages\<close> interprets the locale \<open>env_stage\<close> (a step that
    writes a fixed set of variables and reads a fixed set) for every step; \<open>UserSettings\<close> proves what
    the steps keep of the settings of the user.
  \<^item> \<open>WorkloadModifier\<close>, \<open>WorkloadProps\<close>, \<open>ContainerProps\<close>, \<open>ResourceAttributes\<close>: the operations on
    whole workloads and the properties of instrumenting and reverting; \<open>Samples\<close> has the concrete
    workload and configuration of the witnesses.
  \<^item> \<open>KubectlArguments\<close>, \<open>KubectlValidation\<close>, \<open>KubectlPolicy\<close>, \<open>KubectlExecution\<close>: the package
    \<open>images/agent0-connector/src/kubectl\<close>: interpretation of arguments, the allowlist, the checks and
    their order, a declarative policy that the checks implement, and the capture of the output of the
    subprocess (locale \<open>capped_sink\<close>).
  \<^item> \<open>Redaction\<close>, \<open>RedactionWalk\<close>: \<open>redaction.go\<close> of the same package: documents, the redactor and the
    rules for each kind of field, and the recursive walk. The locales \<open>leaf_change\<close> and \<open>codec_change\<close>
    (every step changes scalars only, along an order) are interpreted for the order that is always
    true, which gives the termination of the walk, for the order in which redacted values stay
    redacted (\<open>RedactionSafety\<close>: no credential is left) and for replacing by the placeholder
    (\<open>RedactionLevels\<close>: nesting is finite). The locale \<open>redactor_order\<close> (\<open>RedactionCount\<close>: changes are
    counted) is interpreted for the growth of the redactor and for its level mark.
    \<open>RedactionDeep\<close> is about documents within strings, \<open>RedactionProps\<close> has the properties.
  \<^item> \<open>KubectlResponse\<close>: a command request from end to end, \<open>ExecuteCommandRequest\<close>.
  \<^item> \<open>CertMaterial\<close>, \<open>CertLaws\<close>, \<open>CertHistory\<close>: \<open>certificates.go\<close> and \<open>state.go\<close> of \<open>internal/webhookcerts\<close>:
    certificates, the stored material, its maintenance and the switch to a new CA; the bundle as a function of the set
    of trusted certificates, storing and reading back, and the invariant of all histories of the operations.
  \<^item> \<open>CertManager\<close>, \<open>CertPasses\<close>, \<open>CertProps\<close>: \<open>manager.go\<close>, \<open>store.go\<close>, \<open>config.go\<close> and \<open>rollout.go\<close>: a pass of the
    manager as a computation in the state monad over the manager and an unknown outside world (the Kubernetes API, the clock, the
    random source), verified with weakest preconditions, and the properties.

  \<^item> \<open>ApiCalls\<close>: errors of the Kubernetes API, computations over the state of the program and that of the outside world, and
    their weakest preconditions; used by the manager of the certificates and by the theories that follow.
  \<^item> \<open>InstrumentationWebhook\<close>, \<open>WebhookProps\<close>: \<open>internal/webhooks/instrumentation_webhook.go\<close>, the admission webhook
    that instruments new and updated workloads, and what it answers.
  \<^item> \<open>Instrumenter\<close>, \<open>InstrumenterProps\<close>: \<open>internal/instrumentation/instrumenter.go\<close> with the retries of
    \<open>internal/util/retry/retry.go\<close>: the controller that instruments the existing workloads of a namespace through the API server, and
    its properties together with the webhook that admits its updates.

  \<^item> \<open>MonitoringResource\<close>, \<open>DashResources\<close>, \<open>MonitoringController\<close>: the monitoring resource of a namespace
    (\<open>api/operator\<close>), \<open>internal/resources/resources_util.go\<close> for every type of resource of the operator, and
    \<open>internal/controller/monitoring_controller.go\<close>, which calls the controller of \<open>Instrumenter\<close>; also
    \<open>InstrumentAtStartup\<close>. \<open>MonitoringProps\<close> has their properties.
  \<^item> \<open>OperatorConfiguration\<close>, \<open>MonitoringWebhooks\<close>: the operator configuration resource, and the mutating webhooks of
    both resources (\<open>monitoring_mutating_webhook.go\<close>, \<open>operator_configuration_mutating_webhook.go\<close> and
    \<open>shared_validation.go\<close> of \<open>internal/webhooks\<close>), which fill in defaults and bring transforms into a normal form.
    \<open>MonitoringValidation\<close>: \<open>monitoring_validation_webhook.go\<close>. \<open>MonitoringWebhookProps\<close> has the policy that the
    validation implements and what the two webhooks promise each other.
  \<^item> \<open>NamespaceMonitoring\<close>, \<open>NamespaceMonitoringProps\<close>: \<open>internal/controller/auto_namespace_monitoring_controller.go\<close>,
    which creates, updates and deletes monitoring resources from the template of the operator configuration. A reconcile
    request and a goroutine are steps of their own; started goroutines are kept in a list of tasks until they run.

  \<^bold>\<open>State and operations.\<close> Structs are records with a short prefix per type, pointers are options, Go
  maps are association lists whose order stands for the iteration order that Go leaves open. An
  operation that modifies its receiver returns the new value; a run-time panic is a value of the type
  \<open>go_panic + 'a\<close>, an error a value of a sum type of its own. Log output and metrics are left
  out; of an event only its kind is kept. What belongs to other repositories (the selector parser of Kubernetes, the command tree and
  flag parser of kubectl, its JSONPath parser, the process itself, the codecs of the redaction) is an
  argument of the operations that use it. The theorems hold for every such argument; those about the
  redaction assume of the codecs that harmless words hold no document (\<open>codecs_ok\<close>), that rendered documents can be
  parsed again (\<open>codecs_roundtrip\<close>) or that a document in a string is smaller than the string (\<open>nests\<close>),
  and \<open>RedactionProps\<close> has codecs for which all three hold. Those about the controller assume the documented behaviour of
  \<open>OnError\<close> of client-go (\<open>on_error_contract\<close>), of an API server with a single client (\<open>store_laws\<close>), of the
  codecs (\<open>codec_laws\<close>) and that updates pass the webhook (\<open>admitted_by\<close>); calls may fail at any time. For the monitoring
  resource they assume the documented behaviour of the functions on conditions and finalizers (\<open>resource_lib_laws\<close>), of
  \<open>sort.Sort\<close> (\<open>sort_laws\<close>) and of the API server (\<open>resource_store_laws\<close>), and that the other collaborators do not
  write monitoring resources (\<open>api_preserves\<close>, \<open>collaborators_preserve\<close>). For the automatic monitoring of namespaces
  they assume of the API server that it keeps what is written, that a listing is complete and that objects pass the mutating webhook
  (\<open>auto_store_laws\<close>); calls may fail there as well.

  \<^bold>\<open>What is shown.\<close> Instrumenting and reverting: the round trip, idempotence, the agreement with the
  check for updates, what is kept of everything that belongs to the user, independence of the order
  of Go maps, and exactly when the operations panic. Labels and versions: round trips, bounds, the
  meaning of the recorded state, and the safety of the choice of image volumes. The connector: the
  validation accepts exactly the requests of the policy; secrets are guarded for every spelling; only
  enabled commands run; every response that has to be redacted can be parsed; the captured output is
  exact up to its limit; what is handed out is the rendering of a document of the same shape without
  credentials, also within annotations and config maps; every request is answered. The certificates: whatever the API
  answers, only stored material is served, and it belongs to the bundle; a rotation changes no bundle, waits for the targets
  unless it is forced, and is forced early enough; the serving certificate is renewed in time. The controller and the webhook:
  no request is rejected, a workload is instrumented at most once however often calls fail and are retried, a second pass makes no
  call, and neither of them changes what does not belong to the operator. The monitoring resource: at most one per
  namespace continues, a successful reconcile request leaves nothing to do, and a resource is not released before its
  workloads have been uninstrumented. The webhooks of the resources: the validation denies exactly what its policy forbids,
  normalizing twice is normalizing once, and defaults are never denied. The automatic monitoring: resources of the user are not
  touched by any request or goroutine, and a namespace settles on the resource that the template describes.

  \<^bold>\<open>Bounds.\<close> All definitions are total functions; the loops that are not structurally recursive (the
  scanners of \<open>Prelude\<close>, the decimal printer, the walk over a document) come with termination proofs.
  Fuel is used in one place: the walk enters a given number of levels of documents within strings and
  marks the redactor if there are more, which makes the response \<open>None\<close>. \<open>RedactionLevels\<close> shows that
  for every document some number of levels, and then every larger one, is enough.

  \<^bold>\<open>Not modelled.\<close> The other controllers of the operator (the synchronization of third-party resources and the operator
  configuration with its validating webhook), the rendering of Kubernetes manifests and
  collector configuration, HTTP and gRPC traffic, goroutines with their timers, process start-up and
  generated code. The manifest of the development lists these parts with the reasons.
\<close>

end
